(* ===== verification/Prelude.thy ===== *)
theory Prelude
  imports Main "HOL-Library.List_Lexorder" "HOL-Library.Char_ord" "HOL-Library.AList"
    "HOL-Library.Multiset" "HOL-Library.Sublist"
begin

text \<open>
  Shared vocabulary of the development: Go slices and maps, the result type of fallible
  operations, the string operations of the packages \<open>strings\<close> and \<open>fmt\<close> that the
  controller uses, and the list lemmas the components share.

  \<^item> A Go string is a \<^typ>\<open>string\<close>, the list of its bytes. \<open><\<close> on strings is the
    byte-wise lexicographic order (\<open>List_Lexorder\<close>, \<open>Char_ord\<close>).
  \<^item> A slice whose nil value is observable (through \<open>encoding/json\<close>) is an
    \<open>'a slice\<close>: \<^const>\<open>None\<close> is nil. A slice that the code normalises before any
    use is a plain list.
  \<^item> A Go map with string keys is an association list; the order of the list is the
    iteration order the runtime happens to choose.
  \<^item> \<open>TrimSpace\<close> removes exactly the UTF-8 encodings of the runes with the Unicode
    White\_Space property, as \<open>strings.TrimSpace\<close> does. \<open>ToLower\<close> maps the ASCII
    letters and leaves every other byte alone; case mapping outside ASCII is not modelled.
\<close>

type_synonym 'a slice = "'a list option"
type_synonym 'v gomap = "(string \<times> 'v) list"

definition elems :: "'a slice \<Rightarrow> 'a list" where
  "elems s = (case s of None \<Rightarrow> [] | Some xs \<Rightarrow> xs)"

lemma elems_simps [simp]: "elems None = []" "elems (Some xs) = xs"
  by (simp_all add: elems_def)

lemma elems_map_option [simp]: "elems (map_option f s) = (case s of None \<Rightarrow> [] | Some xs \<Rightarrow> f xs)"
  by (simp add: elems_def split: option.split)

subsection \<open>Strings\<close>

definition space_runes :: "string list" where
  "space_runes =
    [[CHR 0x09], [CHR 0x0A], [CHR 0x0B], [CHR 0x0C], [CHR 0x0D], [CHR 0x20],
     [CHR 0xC2, CHR 0x85], [CHR 0xC2, CHR 0xA0], [CHR 0xE1, CHR 0x9A, CHR 0x80],
     [CHR 0xE2, CHR 0x80, CHR 0x80], [CHR 0xE2, CHR 0x80, CHR 0x81],
     [CHR 0xE2, CHR 0x80, CHR 0x82], [CHR 0xE2, CHR 0x80, CHR 0x83],
     [CHR 0xE2, CHR 0x80, CHR 0x84], [CHR 0xE2, CHR 0x80, CHR 0x85],
     [CHR 0xE2, CHR 0x80, CHR 0x86], [CHR 0xE2, CHR 0x80, CHR 0x87],
     [CHR 0xE2, CHR 0x80, CHR 0x88], [CHR 0xE2, CHR 0x80, CHR 0x89],
     [CHR 0xE2, CHR 0x80, CHR 0x8A], [CHR 0xE2, CHR 0x80, CHR 0xA8],
     [CHR 0xE2, CHR 0x80, CHR 0xA9], [CHR 0xE2, CHR 0x80, CHR 0xAF],
     [CHR 0xE2, CHR 0x81, CHR 0x9F], [CHR 0xE3, CHR 0x80, CHR 0x80]]"

text \<open>Drop the first of the given non-empty sequences that the string starts with.\<close>

fun strip_one :: "string list \<Rightarrow> string \<Rightarrow> string option" where
  "strip_one [] s = None"
| "strip_one (q # qs) s =
     (if q \<noteq> [] \<and> prefix q s then Some (drop (length q) s) else strip_one qs s)"

lemma strip_one_SomeD:
  "strip_one qs s = Some r \<Longrightarrow> \<exists>q \<in> set qs. q \<noteq> [] \<and> s = q @ r"
  by (induction qs) (auto simp: prefix_def split: if_splits)

lemma strip_one_shorter: "strip_one qs s = Some r \<Longrightarrow> length r < length s"
  by (drule strip_one_SomeD) auto

lemma strip_one_None_iff: "strip_one qs s = None \<longleftrightarrow> (\<forall>q \<in> set qs. q \<noteq> [] \<longrightarrow> \<not> prefix q s)"
  by (induction qs) auto

function trim_seqs :: "string list \<Rightarrow> string \<Rightarrow> string" where
  "trim_seqs qs s = (case strip_one qs s of None \<Rightarrow> s | Some r \<Rightarrow> trim_seqs qs r)"
  by pat_completeness auto
termination
  by (relation "measure (\<lambda>(qs, s). length s)") (auto dest: strip_one_shorter)

declare trim_seqs.simps [simp del]

lemma trim_seqs_id: "strip_one qs s = None \<Longrightarrow> trim_seqs qs s = s"
  by (subst trim_seqs.simps) simp

lemma strip_one_trim_seqs: "strip_one qs (trim_seqs qs s) = None"
proof (induction qs s rule: trim_seqs.induct)
  case (1 qs s)
  show ?case
  proof (cases "strip_one qs s")
    case None
    then show ?thesis by (simp add: trim_seqs_id)
  next
    case (Some r)
    with 1 have "strip_one qs (trim_seqs qs r) = None" by simp
    with Some show ?thesis by (simp add: trim_seqs.simps [of qs s])
  qed
qed

lemma suffix_trim_seqs: "suffix (trim_seqs qs s) s"
proof (induction qs s rule: trim_seqs.induct)
  case (1 qs s)
  show ?case
  proof (cases "strip_one qs s")
    case None
    then show ?thesis by (simp add: trim_seqs_id)
  next
    case (Some r)
    with 1 have "suffix (trim_seqs qs r) r" by simp
    moreover from Some have "suffix r s" by (auto dest: strip_one_SomeD simp: suffix_def)
    ultimately show ?thesis using Some by (simp add: trim_seqs.simps [of qs s] suffix_order.trans)
  qed
qed

definition TrimSpace :: "string \<Rightarrow> string" where
  "TrimSpace s = rev (trim_seqs (map rev space_runes) (rev (trim_seqs space_runes s)))"

definition trimmed :: "string \<Rightarrow> bool" where
  "trimmed s \<longleftrightarrow> strip_one space_runes s = None \<and> strip_one (map rev space_runes) (rev s) = None"

lemma TrimSpace_id: "trimmed s \<Longrightarrow> TrimSpace s = s"
  by (simp add: trimmed_def TrimSpace_def trim_seqs_id)

lemma trimmed_TrimSpace: "trimmed (TrimSpace s)"
proof -
  let ?l = "trim_seqs space_runes s"
  let ?t = "TrimSpace s"
  have "suffix (rev ?t) (rev ?l)" by (simp add: TrimSpace_def suffix_trim_seqs)
  then have pre: "prefix ?t ?l" by (simp add: suffix_to_prefix)
  have "strip_one space_runes ?l = None" by (rule strip_one_trim_seqs)
  with pre have "strip_one space_runes ?t = None"
    by (auto simp: strip_one_None_iff intro: prefix_order.trans)
  then show ?thesis by (simp add: trimmed_def TrimSpace_def strip_one_trim_seqs)
qed

lemma TrimSpace_idem [simp]: "TrimSpace (TrimSpace s) = TrimSpace s"
  by (rule TrimSpace_id) (rule trimmed_TrimSpace)

lemma TrimSpace_Nil [simp]: "TrimSpace [] = []"
  by (rule TrimSpace_id) (simp add: trimmed_def strip_one_None_iff)

definition lower_char :: "char \<Rightarrow> char" where
  "lower_char c = (let n = of_char c :: nat in if 65 \<le> n \<and> n \<le> 90 then char_of (n + 32) else c)"

definition ToLower :: "string \<Rightarrow> string" where
  "ToLower s = map lower_char s"

lemma lower_char_code:
  "(of_char (lower_char c) :: nat) =
     (if 65 \<le> (of_char c :: nat) \<and> (of_char c :: nat) \<le> 90 then of_char c + 32 else of_char c)"
  by (simp add: lower_char_def Let_def)

lemma lower_char_idem [simp]: "lower_char (lower_char c) = lower_char c"
  by (simp add: lower_char_def Let_def)

lemma ToLower_idem [simp]: "ToLower (ToLower s) = ToLower s"
  by (simp add: ToLower_def)

lemma ToLower_Nil_iff [simp]: "ToLower s = [] \<longleftrightarrow> s = []" "[] = ToLower s \<longleftrightarrow> s = []"
  by (simp_all add: ToLower_def)

lemma ToLower_simps [simp]: "ToLower [] = []" "ToLower (c # s) = lower_char c # ToLower s"
  by (simp_all add: ToLower_def)


text \<open>Lower-casing neither creates nor removes surrounding space: no space rune has a letter.\<close>

lemma lower_char_eq_iff:
  "(of_char x :: nat) < 65 \<or> 90 < (of_char x :: nat) \<and> (of_char x :: nat) < 97 \<or> 122 < (of_char x :: nat)
    \<Longrightarrow> lower_char c = x \<longleftrightarrow> c = x"
  by (auto simp: lower_char_def Let_def split: if_splits)

lemma prefix_map_lower:
  assumes "\<forall>x \<in> set q. \<forall>c. lower_char c = x \<longleftrightarrow> c = x"
  shows "prefix q (map lower_char s) \<longleftrightarrow> prefix q s"
  using assms
proof (induction q arbitrary: s)
  case (Cons a q)
  then have a: "\<And>c. lower_char c = a \<longleftrightarrow> c = a" by simp
  from Cons show ?case by (cases s) (simp_all, metis a)
qed simp

lemma space_runes_unlettered: "\<forall>q \<in> set space_runes. \<forall>x \<in> set q. \<forall>c. lower_char c = x \<longleftrightarrow> c = x"
  by (simp add: space_runes_def lower_char_eq_iff)

lemma trimmed_ToLower [simp]: "trimmed (ToLower s) \<longleftrightarrow> trimmed s"
proof -
  have "strip_one space_runes (ToLower s) = None \<longleftrightarrow> strip_one space_runes s = None"
    using space_runes_unlettered by (auto simp: strip_one_None_iff ToLower_def prefix_map_lower)
  moreover have "strip_one (map rev space_runes) (rev (ToLower s)) = None \<longleftrightarrow>
      strip_one (map rev space_runes) (rev s) = None"
    using space_runes_unlettered
    by (auto simp: strip_one_None_iff ToLower_def rev_map prefix_map_lower)
  ultimately show ?thesis by (simp add: trimmed_def)
qed

lemma TrimSpace_ToLower_TrimSpace [simp]: "TrimSpace (ToLower (TrimSpace s)) = ToLower (TrimSpace s)"
  by (rule TrimSpace_id) (simp add: trimmed_TrimSpace)

text \<open>\<open>strings.Split\<close> with a separator of one byte.\<close>

fun Split :: "char \<Rightarrow> string \<Rightarrow> string list" where
  "Split c [] = [[]]"
| "Split c (x # s) = (if x = c then [] # Split c s else (case Split c s of [] \<Rightarrow> [[x]] | p # ps \<Rightarrow> (x # p) # ps))"

text \<open>\<open>strings.Split\<close> with the separator \<open>"."\<close>, and splitting at the first occurrence of a byte.\<close>

fun split_dots :: "string \<Rightarrow> string \<Rightarrow> string list" where
  "split_dots acc [] = [rev acc]"
| "split_dots acc (c # s) = (if c = CHR ''.'' then rev acc # split_dots [] s else split_dots (c # acc) s)"

definition split_first :: "char \<Rightarrow> string \<Rightarrow> string \<times> string option" where
  "split_first c s = (takeWhile (\<lambda>x. x \<noteq> c) s,
     case dropWhile (\<lambda>x. x \<noteq> c) s of [] \<Rightarrow> None | x # r \<Rightarrow> Some r)"

lemma split_first_iff:
  "split_first c s = (a, b) \<longleftrightarrow> c \<notin> set a \<and> s = a @ (case b of None \<Rightarrow> [] | Some r \<Rightarrow> c # r)"
proof (induction s arbitrary: a)
  case Nil
  show ?case by (cases b) (auto simp: split_first_def)
next
  case (Cons x s)
  show ?case
  proof (cases "x = c")
    case True
    then show ?thesis by (cases a; cases b) (auto simp: split_first_def)
  next
    case False
    with Cons [of "tl a"] show ?thesis by (cases a; cases b) (auto simp: split_first_def)
  qed
qed

lemma split_dots_free: "CHR ''.'' \<notin> set s \<Longrightarrow> split_dots acc s = [rev acc @ s]"
  by (induction s arbitrary: acc) auto

lemma split_dots_Cons: "CHR ''.'' \<notin> set a \<Longrightarrow> split_dots acc (a @ CHR ''.'' # s) = (rev acc @ a) # split_dots [] s"
  by (induction a arbitrary: acc) auto

lemma split_dots_parts: "x \<in> set (split_dots acc s) \<Longrightarrow> CHR ''.'' \<notin> set acc \<Longrightarrow> CHR ''.'' \<notin> set x"
  by (induction acc s rule: split_dots.induct) (auto split: if_splits)

lemma split_dots_nonempty [simp]: "split_dots acc s \<noteq> []"
  by (induction acc s rule: split_dots.induct) simp_all

fun join_dots :: "string list \<Rightarrow> string" where
  "join_dots [] = []"
| "join_dots [x] = x"
| "join_dots (x # xs) = x @ CHR ''.'' # join_dots xs"

lemma join_dots_Cons [simp]: "xs \<noteq> [] \<Longrightarrow> join_dots (x # xs) = x @ CHR ''.'' # join_dots xs"
  by (cases xs) simp_all

lemma join_split_dots: "join_dots (split_dots acc s) = rev acc @ s"
  by (induction acc s rule: split_dots.induct) simp_all

subsection \<open>Decimal printing (\<open>strconv.Itoa\<close>, \<open>fmt\<close>'s \<open>%d\<close>)\<close>

definition digit_char :: "nat \<Rightarrow> char" where
  "digit_char n = char_of (48 + n)"

definition is_digit :: "char \<Rightarrow> bool" where
  "is_digit c \<longleftrightarrow> 48 \<le> (of_char c :: nat) \<and> (of_char c :: nat) \<le> 57"

fun digits :: "nat \<Rightarrow> string" where
  "digits n = (if n < 10 then [digit_char n] else digits (n div 10) @ [digit_char (n mod 10)])"

declare digits.simps [simp del]

definition itoa :: "int \<Rightarrow> string" where
  "itoa i = (if i < 0 then CHR ''-'' # digits (nat (- i)) else digits (nat i))"

definition decimal_value :: "string \<Rightarrow> nat" where
  "decimal_value s = foldl (\<lambda>a c. 10 * a + (of_char c - 48)) 0 s"

lemma of_char_digit_char: "n < 10 \<Longrightarrow> of_char (digit_char n) = (48 + n :: nat)"
  by (simp add: digit_char_def)

lemma is_digit_digit_char [simp]: "n < 10 \<Longrightarrow> is_digit (digit_char n)"
  by (simp add: is_digit_def of_char_digit_char)

lemma digits_nonempty [simp]: "digits n \<noteq> []"
  by (subst digits.simps) simp

lemma digits_are_digits: "c \<in> set (digits n) \<Longrightarrow> is_digit c"
proof (induction n rule: digits.induct)
  case (1 n)
  then show ?case by (cases "n < 10") (auto simp: digits.simps [of n])
qed

lemma decimal_value_digits [simp]: "decimal_value (digits n) = n"
proof (induction n rule: digits.induct)
  case (1 n)
  then show ?case
    by (cases "n < 10") (simp_all add: digits.simps [of n] decimal_value_def of_char_digit_char)
qed

lemma digits_inject [simp]: "digits m = digits n \<longleftrightarrow> m = n"
  by (metis decimal_value_digits)

subsection \<open>Sorting (\<open>sort.Slice\<close>, \<open>sort.SliceStable\<close>, \<open>sort.Strings\<close>)\<close>

text \<open>
  The sort takes the caller's \<open>less\<close> function, as in the source, and is the stable
  insertion sort. \<open>sort.SliceStable\<close> is specified to be stable; \<open>sort.Slice\<close> may
  permute elements that are equal under \<open>less\<close>. \<open>sort_slice_unique\<close> shows that when
  the keys are distinct every permutation that \<open>sort.Slice\<close> may return is this one.
\<close>

fun insert_less :: "('a \<Rightarrow> 'a \<Rightarrow> bool) \<Rightarrow> 'a \<Rightarrow> 'a list \<Rightarrow> 'a list" where
  "insert_less lt x [] = [x]"
| "insert_less lt x (y # ys) = (if lt y x then y # insert_less lt x ys else x # y # ys)"

definition sort_slice :: "('a \<Rightarrow> 'a \<Rightarrow> bool) \<Rightarrow> 'a list \<Rightarrow> 'a list" where
  "sort_slice lt xs = foldr (insert_less lt) xs []"

lemma insert_less_insort_key: "insert_less (\<lambda>x y. k x < k y) x xs = insort_key (k :: 'a \<Rightarrow> 'b::linorder) x xs"
  by (induction xs) auto

lemma sort_slice_sort_key: "sort_slice (\<lambda>x y. k x < k y) xs = sort_key (k :: 'a \<Rightarrow> 'b::linorder) xs"
  by (induction xs) (simp_all add: sort_slice_def insert_less_insort_key)

lemma mset_insert_less [simp]: "mset (insert_less lt x xs) = add_mset x (mset xs)"
  by (induction xs) auto

lemma mset_sort_slice [simp]: "mset (sort_slice lt xs) = mset xs"
  by (induction xs) (simp_all add: sort_slice_def)

lemma set_sort_slice [simp]: "set (sort_slice lt xs) = set xs"
  by (rule mset_eq_setD) simp

lemma length_sort_slice [simp]: "length (sort_slice lt xs) = length xs"
  by (rule mset_eq_length) simp

theorem sort_slice_unique:
  fixes k :: "'a \<Rightarrow> 'b::linorder"
  assumes perm: "mset ys = mset xs" and ord: "sorted (map k ys)" and dist: "distinct (map k xs)"
  shows "ys = sort_slice (\<lambda>x y. k x < k y) xs"
proof -
  have "sort_key k xs = ys"
  proof (rule sort_key_inj_key_eq)
    show "mset xs = mset ys" by (simp add: perm)
    from dist show "inj_on k (set xs)" by (simp add: distinct_map)
    show "sorted (map k ys)" by (rule ord)
  qed
  then show ?thesis by (simp add: sort_slice_sort_key)
qed

lemma sort_slice_id: "sorted (map k xs) \<Longrightarrow> sort_slice (\<lambda>x y. k x < k y) xs = xs"
  for k :: "'a \<Rightarrow> 'b::linorder"
  by (simp add: sort_slice_sort_key sort_key_id_if_sorted)

lemma sort_slice_idem [simp]:
  "sort_slice (\<lambda>x y. k x < k y) (sort_slice (\<lambda>x y. k x < k y) xs) = sort_slice (\<lambda>x y. k x < k y) xs"
  for k :: "'a \<Rightarrow> 'b::linorder"
  by (rule sort_slice_id) (simp add: sort_slice_sort_key)

end
