(* ===== verification/Go_Json.thy ===== *)
theory Go_Json
  imports Prelude
begin

text \<open>
  The values and the byte encoding of \<open>encoding/json\<close> that the controller relies on:
  configuration documents are compared, hashed and stored through \<open>json.Marshal\<close>.
  A Go value is first turned into a \<^emph>\<open>JSON value\<close> (struct fields in declaration order,
  \<open>omitempty\<close> fields left out, map keys sorted), and \<open>json_encode\<close> prints it as
  \<open>json.Marshal\<close> does, HTML-safe escapes included. Strings are valid UTF-8: every
  document of the program was read by \<open>json.Unmarshal\<close>, which guarantees it.

  The main result is that the printed form determines the value (\<open>json_encode_inject\<close>),
  so comparing encodings is comparing values.
\<close>

datatype json =
    JNull
  | JBool bool
  | JInt int
  | JString string
  | JArray "json list"
  | JObject "(string \<times> json) list"

definition hex_char :: "nat \<Rightarrow> char" where
  "hex_char n = char_of (if n < 10 then 48 + n else 87 + n)"

definition hex_value :: "char \<Rightarrow> nat option" where
  "hex_value c = (let n = of_char c :: nat in
     if 48 \<le> n \<and> n \<le> 57 then Some (n - 48)
     else if 97 \<le> n \<and> n \<le> 102 then Some (n - 87)
     else if 65 \<le> n \<and> n \<le> 70 then Some (n - 55) else None)"

definition json_char :: "char \<Rightarrow> string" where
  "json_char c =
    (if c = CHR 0x22 \<or> c = CHR 0x5C then [CHR 0x5C, c]
     else if c = CHR 0x08 then [CHR 0x5C, CHR ''b'']
     else if c = CHR 0x0C then [CHR 0x5C, CHR ''f'']
     else if c = CHR 0x0A then [CHR 0x5C, CHR ''n'']
     else if c = CHR 0x0D then [CHR 0x5C, CHR ''r'']
     else if c = CHR 0x09 then [CHR 0x5C, CHR ''t'']
     else if (of_char c :: nat) < 32 \<or> c = CHR ''<'' \<or> c = CHR ''>'' \<or> c = CHR ''&''
       then [CHR 0x5C, CHR ''u'', CHR ''0'', CHR ''0'',
             hex_char (of_char c div 16), hex_char (of_char c mod 16)]
     else [c])"

text \<open>The bytes of a string after its opening quote, the closing quote included.\<close>

fun json_escape :: "string \<Rightarrow> string" where
  "json_escape [] = [CHR 0x22]"
| "json_escape (c # s) =
     (if c = CHR 0xE2 \<and> take 2 s = [CHR 0x80, CHR 0xA8]
        then [CHR 0x5C, CHR ''u'', CHR ''2'', CHR ''0'', CHR ''2'', CHR ''8''] @ json_escape (drop 2 s)
      else if c = CHR 0xE2 \<and> take 2 s = [CHR 0x80, CHR 0xA9]
        then [CHR 0x5C, CHR ''u'', CHR ''2'', CHR ''0'', CHR ''2'', CHR ''9''] @ json_escape (drop 2 s)
      else json_char c @ json_escape s)"

definition json_string :: "string \<Rightarrow> string" where
  "json_string s = CHR 0x22 # json_escape s"

fun json_encode :: "json \<Rightarrow> string"
  and json_elems :: "bool \<Rightarrow> json list \<Rightarrow> string"
  and json_members :: "bool \<Rightarrow> (string \<times> json) list \<Rightarrow> string" where
  "json_encode JNull = ''null''"
| "json_encode (JBool b) = (if b then ''true'' else ''false'')"
| "json_encode (JInt i) = itoa i"
| "json_encode (JString s) = json_string s"
| "json_encode (JArray xs) = CHR ''['' # json_elems True xs"
| "json_encode (JObject kvs) = CHR ''{'' # json_members True kvs"
| "json_elems first [] = '']''"
| "json_elems first (x # xs) = (if first then [] else '','') @ json_encode x @ json_elems False xs"
| "json_members first [] = ''}''"
| "json_members first (kv # kvs) =
     (if first then [] else '','') @ json_string (fst kv) @ '':'' @ json_encode (snd kv) @ json_members False kvs"

subsection \<open>Strings are self-delimiting\<close>

fun json_unescape :: "string \<Rightarrow> (string \<times> string) option" where
  "json_unescape [] = None"
| "json_unescape (c # s) =
    (if c = CHR 0x22 then Some ([], s)
     else if c \<noteq> CHR 0x5C then map_option (\<lambda>(t, r). (c # t, r)) (json_unescape s)
     else (case s of
         [] \<Rightarrow> None
       | d # s' \<Rightarrow>
          (if d = CHR ''u'' then
             (case s' of
                h1 # h2 # h3 # h4 # s'' \<Rightarrow>
                  (if h1 = CHR ''2''
                   then (if h4 = CHR ''8''
                         then map_option (\<lambda>(t, r). (CHR 0xE2 # CHR 0x80 # CHR 0xA8 # t, r)) (json_unescape s'')
                         else map_option (\<lambda>(t, r). (CHR 0xE2 # CHR 0x80 # CHR 0xA9 # t, r)) (json_unescape s''))
                   else (case (hex_value h3, hex_value h4) of
                       (Some a, Some b) \<Rightarrow>
                         map_option (\<lambda>(t, r). (char_of (16 * a + b) # t, r)) (json_unescape s'')
                     | _ \<Rightarrow> None))
              | _ \<Rightarrow> None)
           else map_option (\<lambda>(t, r).
             ((if d = CHR ''b'' then CHR 0x08 else if d = CHR ''f'' then CHR 0x0C
               else if d = CHR ''n'' then CHR 0x0A else if d = CHR ''r'' then CHR 0x0D
               else if d = CHR ''t'' then CHR 0x09 else d) # t, r)) (json_unescape s'))))"

declare json_unescape.simps(2) [simp del]

lemma hex_value_hex_char: "n < 16 \<Longrightarrow> hex_value (hex_char n) = Some n"
  by (auto simp: hex_value_def hex_char_def Let_def)

lemma json_unescape_char:
  "json_unescape (json_char c @ z) = map_option (\<lambda>(t, r). (c # t, r)) (json_unescape z)"
proof (cases "(of_char c :: nat) < 32 \<or> c = CHR ''<'' \<or> c = CHR ''>'' \<or> c = CHR ''&''")
  case True
  then have "(of_char c :: nat) div 16 < 16" "(of_char c :: nat) mod 16 < 16"
    "16 * ((of_char c :: nat) div 16) + of_char c mod 16 = of_char c" by auto
  with True show ?thesis
    by (auto simp: json_char_def json_unescape.simps(2) hex_value_hex_char)
next
  case False
  then show ?thesis by (auto simp: json_char_def json_unescape.simps(2))
qed

lemma json_unescape_escape: "json_unescape (json_escape s @ r) = Some (s, r)"
proof (induction s rule: json_escape.induct)
  case 1
  show ?case by (simp add: json_unescape.simps(2))
next
  case (2 c s)
  have split: "take 2 s = [a, b] \<Longrightarrow> s = a # b # drop 2 s" for a b
    by (metis append_Cons append_Nil append_take_drop_id)
  show ?case
    using 2 split [of "CHR 0x80" "CHR 0xA8"] split [of "CHR 0x80" "CHR 0xA9"]
    by (auto simp: json_unescape_char) (auto simp: json_unescape.simps(2))
qed

lemma json_string_prefix_free: "json_string s @ r = json_string t @ u \<Longrightarrow> s = t \<and> r = u"
proof -
  assume "json_string s @ r = json_string t @ u"
  then have "json_unescape (json_escape s @ r) = json_unescape (json_escape t @ u)"
    by (simp add: json_string_def)
  then show ?thesis by (simp add: json_unescape_escape)
qed


subsection \<open>Numbers, and the whole encoding\<close>

definition delimited :: "string \<Rightarrow> bool" where
  "delimited r \<longleftrightarrow> r = [] \<or> hd r \<in> {CHR '','', CHR '']'', CHR ''}''}"

lemma delimited_not_digit: "delimited r \<Longrightarrow> r = [] \<or> \<not> is_digit (hd r)"
  by (auto simp: delimited_def is_digit_def)

lemma digits_prefix_free:
  assumes "digits m @ r = digits n @ s" "delimited r" "delimited s"
  shows "m = n \<and> r = s"
proof -
  have tw: "takeWhile is_digit (digits k @ z) = digits k" if "delimited z" for k z
  proof -
    from that have "takeWhile is_digit z = []" by (cases z) (auto dest: delimited_not_digit)
    then show ?thesis by (simp add: takeWhile_append2 digits_are_digits)
  qed
  from assms have "takeWhile is_digit (digits m @ r) = takeWhile is_digit (digits n @ s)" by simp
  with assms(2,3) have "digits m = digits n" by (simp add: tw)
  with assms(1) show ?thesis by simp
qed

lemma hd_digits: "is_digit (hd (digits n))"
  by (rule digits_are_digits [of _ n]) simp

lemma digits_no_sign: "digits n \<noteq> CHR ''-'' # z"
  using hd_digits [of n] by (auto simp: is_digit_def)

lemma itoa_prefix_free:
  assumes "itoa i @ r = itoa j @ s" "delimited r" "delimited s"
  shows "i = j \<and> r = s"
proof -
  have "hd (digits n @ z) \<noteq> CHR ''-''" for n z
    using hd_digits [of n] by (auto simp: is_digit_def)
  then have "(i < 0) = (j < 0)"
    using arg_cong [OF assms(1), of hd] by (auto simp: itoa_def split: if_splits)
  with assms show ?thesis
    by (auto simp: itoa_def split: if_splits dest: digits_prefix_free)
qed

text \<open>The first byte of an encoding tells which kind of value it is.\<close>

datatype json_kind = KNull | KTrue | KFalse | KNumber | KString | KArray | KObject

fun kind_of :: "json \<Rightarrow> json_kind" where
  "kind_of JNull = KNull"
| "kind_of (JBool b) = (if b then KTrue else KFalse)"
| "kind_of (JInt i) = KNumber"
| "kind_of (JString s) = KString"
| "kind_of (JArray xs) = KArray"
| "kind_of (JObject kvs) = KObject"

definition kind_of_char :: "char \<Rightarrow> json_kind" where
  "kind_of_char c =
    (if c = CHR ''n'' then KNull else if c = CHR ''t'' then KTrue else if c = CHR ''f'' then KFalse
     else if c = CHR 0x22 then KString else if c = CHR ''['' then KArray
     else if c = CHR ''{'' then KObject else KNumber)"

lemma json_encode_nonempty [simp]: "json_encode a \<noteq> []"
  by (cases a) (auto simp: json_string_def itoa_def)

lemma kind_of_char_digit: "is_digit c \<Longrightarrow> kind_of_char c = KNumber"
  by (auto simp: kind_of_char_def is_digit_def)

lemma kind_of_hd: "kind_of_char (hd (json_encode a)) = kind_of a"
  by (cases a)
     (auto simp: kind_of_char_digit [OF hd_digits] itoa_def json_string_def,
      auto simp: kind_of_char_def)

lemma same_kind: "json_encode a @ r = json_encode b @ s \<Longrightarrow> kind_of a = kind_of b"
  by (metis hd_append2 json_encode_nonempty kind_of_hd)

lemma hd_json_encode: "hd (json_encode a) \<noteq> CHR '']''"
proof
  assume h: "hd (json_encode a) = CHR '']''"
  then have "kind_of a = KNumber" using kind_of_hd [of a] by (simp add: kind_of_char_def)
  then obtain i where "a = JInt i" by (cases a) (auto split: if_splits)
  with h show False using hd_digits [of "nat i"] by (auto simp: itoa_def is_digit_def split: if_splits)
qed

lemma delimited_elems [simp]: "delimited (json_elems False xs @ r)"
  by (cases xs) (simp_all add: delimited_def)

lemma delimited_members [simp]: "delimited (json_members False kvs @ r)"
  by (cases kvs) (simp_all add: delimited_def)

lemma delimited_Cons [simp]:
  "delimited (CHR '','' # r)" "delimited (CHR '']'' # r)" "delimited (CHR ''}'' # r)" "delimited []"
  by (simp_all add: delimited_def)

lemma json_elems_start:
  "json_elems first xs @ r = json_elems first ys @ s \<Longrightarrow> xs = [] \<longleftrightarrow> ys = []"
proof (cases xs; cases ys)
  fix y ys' assume "json_elems first xs @ r = json_elems first ys @ s" "xs = []" "ys = y # ys'"
  then show ?thesis
    using hd_json_encode [of y] by (cases first; cases "json_encode y") auto
next
  fix x xs' assume "json_elems first xs @ r = json_elems first ys @ s" "xs = x # xs'" "ys = []"
  then show ?thesis
    using hd_json_encode [of x] by (cases first; cases "json_encode x") auto
qed simp_all

lemma json_members_start:
  "json_members first xs @ r = json_members first ys @ s \<Longrightarrow> xs = [] \<longleftrightarrow> ys = []"
  by (cases xs; cases ys; cases first) (auto simp: json_string_def)

lemma json_prefix_free:
  "\<And>b r s. json_encode a @ r = json_encode b @ s \<Longrightarrow> delimited r \<Longrightarrow> delimited s \<Longrightarrow> a = b \<and> r = s"
  "\<And>ys r s. json_elems first xs @ r = json_elems first ys @ s \<Longrightarrow> xs = ys \<and> r = s"
  "\<And>kvs' r s. json_members first kvs @ r = json_members first kvs' @ s \<Longrightarrow> kvs = kvs' \<and> r = s"
proof (induction a and first xs and first kvs rule: json_encode_json_elems_json_members.induct)
  case 1
  then show ?case using same_kind [OF "1"(1)] by (cases b) (auto split: if_splits)
next
  case (2 bb)
  then show ?case using same_kind [OF "2"(1)] by (cases b) (auto split: if_splits)
next
  case (3 i)
  then show ?case using same_kind [OF "3"(1)] by (cases b) (auto split: if_splits dest: itoa_prefix_free)
next
  case (4 t)
  then show ?case using same_kind [OF "4"(1)] by (cases b) (auto split: if_splits dest: json_string_prefix_free)
next
  case (5 xs)
  from same_kind [OF "5.prems"(1)] obtain ys where b: "b = JArray ys" by (cases b) (auto split: if_splits)
  with "5.prems"(1) have "json_elems True xs @ r = json_elems True ys @ s" by simp
  from "5.IH" [OF this] b show ?case by simp
next
  case (6 kvs)
  from same_kind [OF "6.prems"(1)] obtain kvs' where b: "b = JObject kvs'" by (cases b) (auto split: if_splits)
  with "6.prems"(1) have "json_members True kvs @ r = json_members True kvs' @ s" by simp
  from "6.IH" [OF this] b show ?case by simp
next
  case (7 first)
  then show ?case using json_elems_start [OF "7"] by simp
next
  case (8 first x xs)
  from json_elems_start [OF "8.prems"] obtain y ys' where ys: "ys = y # ys'" by (cases ys) auto
  with "8.prems" have "json_encode x @ (json_elems False xs @ r) = json_encode y @ (json_elems False ys' @ s)"
    by simp
  from "8.IH"(1) [OF this delimited_elems delimited_elems]
  have eq: "x = y" "json_elems False xs @ r = json_elems False ys' @ s" by blast+
  from "8.IH"(2) [OF eq(2)] show ?case unfolding ys eq(1) by blast
next
  case (9 first)
  then show ?case using json_members_start [OF "9"] by simp
next
  case (10 first kv kvs)
  from json_members_start [OF "10.prems"] obtain kv' kvs'' where k: "kvs' = kv' # kvs''" by (cases kvs') auto
  with "10.prems" have "json_string (fst kv) @ ('':'' @ json_encode (snd kv) @ json_members False kvs @ r)
      = json_string (fst kv') @ ('':'' @ json_encode (snd kv') @ json_members False kvs'' @ s)"
    by simp
  from json_string_prefix_free [OF this] have key: "fst kv = fst kv'"
    and rest: "json_encode (snd kv) @ (json_members False kvs @ r) = json_encode (snd kv') @ (json_members False kvs'' @ s)"
    by simp_all
  from "10.IH"(1) [OF rest delimited_members delimited_members]
  have val: "snd kv = snd kv'" "json_members False kvs @ r = json_members False kvs'' @ s"
    by blast+
  from key val(1) have "kv = kv'" by (rule prod_eqI)
  with "10.IH"(2) [OF val(2)] show ?case unfolding k by blast
qed

theorem json_encode_inject [simp]: "json_encode a = json_encode b \<longleftrightarrow> a = b"
  using json_prefix_free(1) [of a "[]" b "[]"] by auto

end
