(* ===== verification/Domain.thy ===== *)
theory Domain
  imports Prelude Go_Json "HOL-Library.Word"
begin

unbundle bit_operations_syntax

text \<open>
  The domain package (\<open>internal/domain\<close>): error kinds and errors, identifiers, the
  entities the rest of the controller passes around, and the validation of names,
  credentials and node addresses. A Go \<open>error\<close> result is the left side of a sum: a
  \<open>DomainError\<close> is a \<open>*domain.Error\<close> (kind, field, message), a \<open>PlainError\<close> any other
  error. An instant is an \<^typ>\<open>int\<close>; a nil pointer is \<^const>\<open>None\<close>.
\<close>

subsection \<open>Errors\<close>

datatype ErrorKind =
    ErrorValidation | ErrorNotFound | ErrorConflict | ErrorAuthentication | ErrorInvalidCredentials
  | ErrorAuthorisation | ErrorRateLimited | ErrorNodeUnreachable | ErrorNodeAuth | ErrorNodeTLS
  | ErrorNodeResponse | ErrorCapability | ErrorNodeApply | ErrorVerification | ErrorInternal

fun kind_string :: "ErrorKind \<Rightarrow> string" where
  "kind_string ErrorValidation = ''VALIDATION_ERROR''"
| "kind_string ErrorNotFound = ''NOT_FOUND''"
| "kind_string ErrorConflict = ''CONFLICT''"
| "kind_string ErrorAuthentication = ''AUTHENTICATION_REQUIRED''"
| "kind_string ErrorInvalidCredentials = ''AUTHENTICATION_FAILED''"
| "kind_string ErrorAuthorisation = ''AUTHORISATION_DENIED''"
| "kind_string ErrorRateLimited = ''RATE_LIMITED''"
| "kind_string ErrorNodeUnreachable = ''NODE_UNREACHABLE''"
| "kind_string ErrorNodeAuth = ''NODE_AUTHENTICATION_FAILED''"
| "kind_string ErrorNodeTLS = ''NODE_TLS_FAILED''"
| "kind_string ErrorNodeResponse = ''NODE_INVALID_RESPONSE''"
| "kind_string ErrorCapability = ''CAPABILITY_ERROR''"
| "kind_string ErrorNodeApply = ''NODE_APPLY_FAILED''"
| "kind_string ErrorVerification = ''VERIFICATION_FAILED''"
| "kind_string ErrorInternal = ''INTERNAL_ERROR''"

datatype go_error = DomainError (err_kind: ErrorKind) (err_field: string) (err_message: string) | PlainError string

definition NewError :: "ErrorKind \<Rightarrow> string \<Rightarrow> go_error" where
  "NewError kind message = DomainError kind [] message"

definition Validation :: "string \<Rightarrow> string \<Rightarrow> go_error" where
  "Validation field message = DomainError ErrorValidation field message"

definition Error_string :: "go_error \<Rightarrow> string" where
  "Error_string e = (case e of
      DomainError k field message \<Rightarrow> if field \<noteq> [] then field @ '': '' @ message else message
    | PlainError m \<Rightarrow> m)"

subsection \<open>Identifiers\<close>

definition in_range :: "nat \<Rightarrow> nat \<Rightarrow> char \<Rightarrow> bool" where
  "in_range lo hi c \<longleftrightarrow> lo \<le> of_char c \<and> of_char c \<le> hi"

definition hex_class :: "char \<Rightarrow> bool" where
  "hex_class c \<longleftrightarrow> in_range 48 57 c \<or> in_range 97 102 c"

text \<open>\<open>idPattern\<close>, one character class per position.\<close>

definition id_pattern :: "(char \<Rightarrow> bool) list" where
  "id_pattern =
     replicate 8 hex_class @ [(=) (CHR ''-'')] @ replicate 4 hex_class @ [(=) (CHR ''-'')] @
     [in_range 49 53] @ replicate 3 hex_class @ [(=) (CHR ''-'')] @
     [\<lambda>c. c = CHR ''8'' \<or> c = CHR ''9'' \<or> c = CHR ''a'' \<or> c = CHR ''b''] @ replicate 3 hex_class @
     [(=) (CHR ''-'')] @ replicate 12 hex_class"

definition ValidID :: "string \<Rightarrow> bool" where
  "ValidID value \<longleftrightarrow> list_all2 (\<lambda>p c. p c) id_pattern value"

definition hex_byte :: "8 word \<Rightarrow> string" where
  "hex_byte b = [hex_char (unat b div 16), hex_char (unat b mod 16)]"

text \<open>
  \<open>NewID\<close>: the sixteen random bytes are an argument. \<open>rand.Read\<close> failing is the
  callers' environment, which supplies no bytes.
\<close>

definition NewID :: "8 word list \<Rightarrow> string" where
  "NewID value =
    (let value = value[6 := ((value ! 6) AND 0x0f) OR 0x40];
         value = value[8 := ((value ! 8) AND 0x3f) OR 0x80];
         hex = (\<lambda>lo hi. concat (map hex_byte (take (hi - lo) (drop lo value))))
     in hex 0 4 @ ''-'' @ hex 4 6 @ ''-'' @ hex 6 8 @ ''-'' @ hex 8 10 @ ''-'' @ hex 10 16)"

subsection \<open>Entities\<close>

type_synonym time = int
type_synonym ReconciliationPolicy = string
type_synonym CertificatePolicy = string

definition ReconciliationEnforce :: ReconciliationPolicy where "ReconciliationEnforce = ''enforce''"
definition ReconciliationAlert :: ReconciliationPolicy where "ReconciliationAlert = ''alert''"
definition ReconciliationManual :: ReconciliationPolicy where "ReconciliationManual = ''manual''"

definition ValidReconciliationPolicy :: "ReconciliationPolicy \<Rightarrow> bool" where
  "ValidReconciliationPolicy policy \<longleftrightarrow>
     policy = ReconciliationEnforce \<or> policy = ReconciliationAlert \<or> policy = ReconciliationManual"

definition CertificateSystemTrust :: CertificatePolicy where "CertificateSystemTrust = ''system''"
definition CertificateCustomCA :: CertificatePolicy where "CertificateCustomCA = ''custom_ca''"
definition CertificateInsecureHTTP :: CertificatePolicy where "CertificateInsecureHTTP = ''insecure_http''"

datatype NodeHealth = NodeUnknown | NodeHealthy | NodeUnreachable | NodeIncompatible | NodeDisabled
datatype Compatibility = CompatibilityUnknown | CompatibilitySupported | CompatibilityUnsupported

fun compatibility_string :: "Compatibility \<Rightarrow> string" where
  "compatibility_string CompatibilityUnknown = ''unknown''"
| "compatibility_string CompatibilitySupported = ''supported''"
| "compatibility_string CompatibilityUnsupported = ''unsupported''"

text \<open>The values the database admits for \<open>nodes.convergence_status\<close>.\<close>

datatype Convergence =
    ConvPending | ConvConverged | ConvDrifted | ConvApplying | ConvVerifying | ConvApplyFailed
  | ConvObservationFailed | ConvUnsupported | ConvMaintenance

record Cluster =
  cluster_ID :: string
  cluster_Name :: string
  cluster_Description :: string
  cluster_ReconciliationPolicy :: ReconciliationPolicy
  cluster_ActiveRevisionID :: "string option"
  cluster_Version :: int
  cluster_CreatedAt :: time
  cluster_UpdatedAt :: time

record Node =
  node_ID :: string
  node_ClusterID :: string
  node_Name :: string
  node_BaseURL :: string
  node_CertificatePolicy :: CertificatePolicy
  node_Enabled :: bool
  node_MaintenanceMode :: bool
  node_HealthStatus :: NodeHealth
  node_CompatibilityStatus :: Compatibility
  node_Version :: string
  node_LastSeenAt :: "time option"
  node_LastPolledAt :: "time option"
  node_LatencyMS :: "int option"
  node_LastErrorCode :: string
  node_AppliedRevisionID :: "string option"
  node_AppliedHash :: string
  node_ConvergenceStatus :: Convergence
  node_LastReconciledAt :: "time option"
  node_RecordVersion :: int
  node_CreatedAt :: time
  node_UpdatedAt :: time

record NodeCredentials =
  cred_Username :: string
  cred_Password :: string

record EncryptedCredentials =
  enc_Ciphertext :: string
  enc_Nonce :: string
  enc_KeyVersion :: int
  enc_Algorithm :: string

record NodeSecretMaterial =
  secret_Credentials :: EncryptedCredentials
  secret_CustomCAPEM :: string

record NodeRecord =
  rec_Node :: Node
  rec_Secrets :: NodeSecretMaterial

record NodeProbeRequest =
  probe_BaseURL :: string
  probe_CertificatePolicy :: CertificatePolicy
  probe_CustomCAPEM :: string
  probe_Credentials :: NodeCredentials

record NodeProbeResult =
  result_Version :: string
  result_Compatibility :: Compatibility
  result_Running :: bool
  result_ProtectionEnabled :: bool
  result_ProtectionDisabledDurationMS :: int
  result_LatencyMS :: int

record AuditEvent =
  audit_ID :: string
  audit_ActorType :: string
  audit_ActorUserID :: "string option"
  audit_Action :: string
  audit_ResourceType :: string
  audit_ResourceID :: "string option"
  audit_RequestID :: string
  audit_Metadata :: "json gomap"
  audit_CreatedAt :: time

record Actor =
  actor_UserID :: string
  actor_RequestID :: string

subsection \<open>Validation\<close>

text \<open>The number of bytes \<open>utf8.DecodeRuneInString\<close> consumes; an invalid byte counts as one rune.\<close>

definition rune_len :: "string \<Rightarrow> nat" where
  "rune_len s =
    (let b = (\<lambda>i. if i < length s then of_char (s ! i) else 0 :: nat);
         cont = (\<lambda>i. 128 \<le> b i \<and> b i \<le> 191)
     in if s = [] then 0
        else if 194 \<le> b 0 \<and> b 0 \<le> 223 \<and> cont 1 then 2
        else if cont 2 \<and>
               (b 0 = 224 \<and> 160 \<le> b 1 \<and> b 1 \<le> 191 \<or>
                (225 \<le> b 0 \<and> b 0 \<le> 236 \<or> 238 \<le> b 0 \<and> b 0 \<le> 239) \<and> cont 1 \<or>
                b 0 = 237 \<and> 128 \<le> b 1 \<and> b 1 \<le> 159) then 3
        else if cont 2 \<and> cont 3 \<and>
               (b 0 = 240 \<and> 144 \<le> b 1 \<and> b 1 \<le> 191 \<or>
                241 \<le> b 0 \<and> b 0 \<le> 243 \<and> cont 1 \<or>
                b 0 = 244 \<and> 128 \<le> b 1 \<and> b 1 \<le> 143) then 4
        else 1)"

lemma rune_len_pos: "s \<noteq> [] \<Longrightarrow> 0 < rune_len s"
  by (simp add: rune_len_def Let_def)

function RuneCountInString :: "string \<Rightarrow> nat" where
  "RuneCountInString s = (if s = [] then 0 else Suc (RuneCountInString (drop (rune_len s) s)))"
  by pat_completeness auto
termination
  by (relation "measure length") (auto simp: rune_len_pos)

declare RuneCountInString.simps [simp del]

definition ValidateDisplayName :: "string \<Rightarrow> go_error option" where
  "ValidateDisplayName value =
    (let n = RuneCountInString (TrimSpace value) in
     if n < 1 \<or> n > 120
     then Some (Validation ''displayName'' ''must contain between 1 and 120 characters'') else None)"

definition ValidateResourceName :: "string \<Rightarrow> string \<Rightarrow> go_error option" where
  "ValidateResourceName field value =
    (let n = RuneCountInString (TrimSpace value) in
     if n < 1 \<or> n > 120
     then Some (Validation field ''must contain between 1 and 120 characters'') else None)"

text \<open>
  What the code reads of a parsed URL. The parser itself, \<open>net/url.Parse\<close> with
  \<open>URL.String\<close>, is an argument of the functions that use it.
\<close>

record URL =
  url_Scheme :: string
  url_Host :: string
  url_HasUser :: bool
  url_Path :: string
  url_RawQuery :: string
  url_Fragment :: string

definition TrimRight_slash :: "string \<Rightarrow> string" where
  "TrimRight_slash s = rev (dropWhile (\<lambda>c. c = CHR ''/'') (rev s))"

definition NormaliseNodeURL ::
  "(string \<Rightarrow> URL option) \<Rightarrow> (URL \<Rightarrow> string) \<Rightarrow> string \<Rightarrow> CertificatePolicy \<Rightarrow> go_error + string" where
  "NormaliseNodeURL url_parse url_string value policy =
    (case url_parse (TrimSpace value) of
       None \<Rightarrow> Inl (Validation ''baseUrl'' ''must be an absolute node URL without credentials, query, or fragment'')
     | Some parsed \<Rightarrow>
        if url_Host parsed = [] \<or> url_HasUser parsed \<or> url_RawQuery parsed \<noteq> [] \<or> url_Fragment parsed \<noteq> []
        then Inl (Validation ''baseUrl'' ''must be an absolute node URL without credentials, query, or fragment'')
        else (let parsed = parsed\<lparr>url_Path := TrimRight_slash (url_Path parsed)\<rparr> in
          if url_Scheme parsed = ''https'' then
            (if policy = CertificateInsecureHTTP
             then Inl (Validation ''certificatePolicy'' ''insecure_http is valid only for an http URL'')
             else Inr (url_string parsed))
          else if url_Scheme parsed = ''http'' then
            (if policy \<noteq> CertificateInsecureHTTP
             then Inl (Validation ''certificatePolicy'' ''http requires the explicit insecure_http policy'')
             else Inr (url_string parsed))
          else Inl (Validation ''baseUrl'' ''scheme must be https or explicitly permitted http'')))"

definition ValidateCertificatePolicy :: "CertificatePolicy \<Rightarrow> string \<Rightarrow> go_error option" where
  "ValidateCertificatePolicy policy customCAPEM =
    (if policy = CertificateSystemTrust \<or> policy = CertificateInsecureHTTP then
       (if TrimSpace customCAPEM \<noteq> []
        then Some (Validation ''customCaPem'' ''is only valid with custom_ca policy'') else None)
     else if policy = CertificateCustomCA then
       (if TrimSpace customCAPEM = []
        then Some (Validation ''customCaPem'' ''is required with custom_ca policy'') else None)
     else Some (Validation ''certificatePolicy'' ''must be system, custom_ca, or insecure_http''))"

definition validateNodeCredentials :: "string \<Rightarrow> string \<Rightarrow> go_error option" where
  "validateNodeCredentials username password =
    (let n = length (TrimSpace username) in
     if n < 1 \<or> n > 256 then Some (Validation ''username'' ''must contain between 1 and 256 characters'')
     else if length password < 1 \<or> length password > 4096
       then Some (Validation ''password'' ''must contain between 1 and 4096 bytes'')
     else None)"

definition healthFromProbe :: "NodeProbeResult \<Rightarrow> bool \<Rightarrow> NodeHealth \<times> string" where
  "healthFromProbe result enabled =
    (if \<not> enabled then (NodeDisabled, [])
     else if \<not> result_Running result then (NodeUnreachable, ''NODE_DNS_NOT_RUNNING'')
     else if result_Compatibility result \<noteq> CompatibilitySupported then (NodeIncompatible, [])
     else (NodeHealthy, []))"


subsection \<open>Identifiers are well formed\<close>

lemma hex_class_hex_char: "n < 16 \<Longrightarrow> hex_class (hex_char n)"
  by (auto simp: hex_class_def hex_char_def in_range_def)

lemma unat_div_16: "unat (w :: 8 word) div 16 < 16"
proof -
  have "unat w < 2 ^ LENGTH(8)" by (rule unsigned_less)
  then show ?thesis by simp
qed

lemma hex_byte_class: "c \<in> set (hex_byte b) \<Longrightarrow> hex_class c"
  by (auto simp: hex_byte_def hex_class_hex_char unat_div_16)

lemma version_nibble: "unat (((b :: 8 word) AND 0x0f) OR 0x40) div 16 = 4"
proof -
  have "drop_bit 4 ((b AND 0x0f) OR 0x40) = (4 :: 8 word)"
    by (simp add: drop_bit_or drop_bit_and)
  then have "unat (drop_bit 4 ((b AND 0x0f) OR 0x40)) = 4" by (simp only: unat_numeral) simp
  then show ?thesis by (simp add: drop_bit_eq_div unat_div)
qed

lemma word_le_3_cases: "(x :: 8 word) \<le> 3 \<Longrightarrow> x = 0 \<or> x = 1 \<or> x = 2 \<or> x = 3"
proof -
  assume "x \<le> 3"
  then have "unat x \<le> 3" by (simp add: word_le_nat_alt)
  then have "unat x = 0 \<or> unat x = 1 \<or> unat x = 2 \<or> unat x = 3" by arith
  then show ?thesis by (auto simp: word_eq_iff_unsigned [where 'a = nat])
qed

lemma variant_nibble: "unat (((b :: 8 word) AND 0x3f) OR 0x80) div 16 \<in> {8, 9, 10, 11}"
proof -
  have "drop_bit 4 b AND 3 \<le> 3" by (rule word_and_le1)
  note cases = word_le_3_cases [OF this]
  have "drop_bit 4 ((b AND 0x3f) OR 0x80) = (drop_bit 4 b AND 3) OR 8"
    by (simp add: drop_bit_or drop_bit_and)
  then have "unat (drop_bit 4 ((b AND 0x3f) OR 0x80)) \<in> {8, 9, 10, 11}"
    using cases by (elim disjE) (simp_all only:, simp_all)
  then show ?thesis by (simp add: drop_bit_eq_div unat_div)
qed

lemma variant_char: "n \<in> {8, 9, 10, 11} \<Longrightarrow>
    hex_char n = CHR ''8'' \<or> hex_char n = CHR ''9'' \<or> hex_char n = CHR ''a'' \<or> hex_char n = CHR ''b''"
  by (auto simp: hex_char_def char_of_eq_iff)

lemma list_all2_replicate_class:
  "list_all2 (\<lambda>p c. p c) (replicate n P) s \<longleftrightarrow> length s = n \<and> (\<forall>c \<in> set s. P c)"
  by (auto simp: list_all2_conv_all_nth all_set_conv_all_nth)

lemma ValidID_parts:
  assumes "length a = 8" "length b = 4" "length c = 3" "length d = 3" "length e = 12"
    and "\<forall>x \<in> set (a @ b @ c @ d @ e). hex_class x"
    and "in_range 49 53 v"
    and "w = CHR ''8'' \<or> w = CHR ''9'' \<or> w = CHR ''a'' \<or> w = CHR ''b''"
  shows "ValidID (a @ ''-'' @ b @ ''-'' @ [v] @ c @ ''-'' @ [w] @ d @ ''-'' @ e)"
  unfolding ValidID_def id_pattern_def
  using assms by (intro list_all2_appendI) (auto simp: list_all2_replicate_class)

text \<open>
  Every identifier that \<open>NewID\<close> builds from sixteen random bytes matches
  \<open>idPattern\<close>, so each handler that guards its argument with \<open>ValidID\<close> accepts the
  identifiers the controller itself issued.
\<close>

lemma NewID_valid:
  assumes "length value = 16"
  shows "ValidID (NewID value)"
proof -
  from assms obtain b0 b1 b2 b3 b4 b5 b6 b7 b8 b9 ba bb bc bd be bf
    where v: "value = [b0, b1, b2, b3, b4, b5, b6, b7, b8, b9, ba, bb, bc, bd, be, bf]"
    by (auto simp: length_Suc_conv eval_nat_numeral)
  define v6 where "v6 = (b6 AND 0x0f) OR 0x40"
  define v8 where "v8 = (b8 AND 0x3f) OR 0x80"
  have "NewID value =
      concat (map hex_byte [b0, b1, b2, b3]) @ ''-'' @ concat (map hex_byte [b4, b5]) @ ''-'' @
      [hex_char (unat v6 div 16)] @ (hex_char (unat v6 mod 16) # hex_byte b7) @ ''-'' @
      [hex_char (unat v8 div 16)] @ (hex_char (unat v8 mod 16) # hex_byte b9) @ ''-'' @
      concat (map hex_byte [ba, bb, bc, bd, be, bf])"
    by (simp add: v NewID_def Let_def hex_byte_def v6_def v8_def)
  also have "ValidID \<dots>"
    using variant_char [OF variant_nibble [of b8]] version_nibble [of b6]
    by (intro ValidID_parts)
       (auto simp: v6_def v8_def hex_class_hex_char dest: hex_byte_class,
        auto simp: hex_byte_def hex_char_def in_range_def)
  finally show ?thesis .
qed

subsection \<open>Node addresses and transport security\<close>

text \<open>
  An address that \<open>NormaliseNodeURL\<close> accepts is the printed form of a URL with a
  host, without credentials, query or fragment and without trailing slashes in its path,
  and its scheme agrees with the certificate policy: plain http exactly when the policy is
  the explicit insecure one, https for every other policy. No other scheme is accepted.
\<close>

lemma NormaliseNodeURL_transport:
  assumes "NormaliseNodeURL url_parse url_string value policy = Inr out"
  shows "\<exists>u. out = url_string u \<and> url_Host u \<noteq> [] \<and> \<not> url_HasUser u \<and>
    url_RawQuery u = [] \<and> url_Fragment u = [] \<and>
    (url_Path u = [] \<or> last (url_Path u) \<noteq> CHR ''/'') \<and>
    (url_Scheme u = ''http'' \<and> policy = CertificateInsecureHTTP \<or>
     url_Scheme u = ''https'' \<and> policy \<noteq> CertificateInsecureHTTP)"
proof -
  have slash: "TrimRight_slash p = [] \<or> last (TrimRight_slash p) \<noteq> CHR ''/''" for p
    using hd_dropWhile [of "\<lambda>c. c = CHR ''/''" "rev p"]
    by (cases "dropWhile (\<lambda>c. c = CHR ''/'') (rev p)") (auto simp: TrimRight_slash_def)
  from assms obtain parsed where p: "url_parse (TrimSpace value) = Some parsed"
    by (auto simp: NormaliseNodeURL_def split: option.splits)
  let ?u = "parsed\<lparr>url_Path := TrimRight_slash (url_Path parsed)\<rparr>"
  from assms p have "out = url_string ?u \<and> url_Host parsed \<noteq> [] \<and> \<not> url_HasUser parsed \<and>
      url_RawQuery parsed = [] \<and> url_Fragment parsed = [] \<and>
      (url_Scheme parsed = ''http'' \<and> policy = CertificateInsecureHTTP \<or>
       url_Scheme parsed = ''https'' \<and> policy \<noteq> CertificateInsecureHTTP)"
    by (simp add: NormaliseNodeURL_def Let_def split: if_splits)
  with slash show ?thesis by (intro exI [of _ ?u]) simp
qed

definition sample_url_parse :: "string \<Rightarrow> URL option" where
  "sample_url_parse s = (if s = ''http://h//'' then
     Some \<lparr>url_Scheme = ''http'', url_Host = ''h'', url_HasUser = False, url_Path = ''//'',
           url_RawQuery = [], url_Fragment = []\<rparr> else None)"

definition sample_url_string :: "URL \<Rightarrow> string" where
  "sample_url_string u = url_Scheme u @ ''://'' @ url_Host u @ url_Path u"

end
