(* ===== verification/Go_Sha256.thy ===== *)
theory Go_Sha256
  imports Prelude Go_Json "HOL-Library.Word"
begin

unbundle bit_operations_syntax

text \<open>
  \<open>crypto/sha256.Sum256\<close> and \<open>encoding/hex.EncodeToString\<close>, which the controller
  uses for canonical hashes, drift fingerprints and token digests: the FIPS 180-4 function
  on 32-bit words. A digest is printed as sixty-four lower-case hexadecimal characters.
\<close>

type_synonym u32 = "32 word"

definition sha256_K :: "u32 list" where
  "sha256_K =
    [1116352408, 1899447441, 3049323471, 3921009573, 961987163, 1508970993,
     2453635748, 2870763221, 3624381080, 310598401, 607225278, 1426881987,
     1925078388, 2162078206, 2614888103, 3248222580, 3835390401, 4022224774,
     264347078, 604807628, 770255983, 1249150122, 1555081692, 1996064986,
     2554220882, 2821834349, 2952996808, 3210313671, 3336571891, 3584528711,
     113926993, 338241895, 666307205, 773529912, 1294757372, 1396182291,
     1695183700, 1986661051, 2177026350, 2456956037, 2730485921, 2820302411,
     3259730800, 3345764771, 3516065817, 3600352804, 4094571909, 275423344,
     430227734, 506948616, 659060556, 883997877, 958139571, 1322822218,
     1537002063, 1747873779, 1955562222, 2024104815, 2227730452, 2361852424,
     2428436474, 2756734187, 3204031479, 3329325298]"

definition sha256_H0 :: "u32 list" where
  "sha256_H0 = [1779033703, 3144134277, 1013904242, 2773480762, 1359893119, 2600822924, 528734635, 1541459225]"

definition rotr :: "nat \<Rightarrow> u32 \<Rightarrow> u32" where
  "rotr n x = drop_bit n x OR push_bit (32 - n) x"

definition Sigma0 :: "u32 \<Rightarrow> u32" where "Sigma0 x = rotr 2 x XOR rotr 13 x XOR rotr 22 x"
definition Sigma1 :: "u32 \<Rightarrow> u32" where "Sigma1 x = rotr 6 x XOR rotr 11 x XOR rotr 25 x"
definition sigma0 :: "u32 \<Rightarrow> u32" where "sigma0 x = rotr 7 x XOR rotr 18 x XOR drop_bit 3 x"
definition sigma1 :: "u32 \<Rightarrow> u32" where "sigma1 x = rotr 17 x XOR rotr 19 x XOR drop_bit 10 x"

definition big_endian :: "nat \<Rightarrow> nat \<Rightarrow> string" where
  "big_endian bytes n = map (\<lambda>i. char_of (n div 256 ^ (bytes - 1 - i))) [0..<bytes]"

definition sha256_pad :: "string \<Rightarrow> string" where
  "sha256_pad m = m @ [CHR 0x80] @ replicate ((119 - length m mod 64) mod 64) (CHR 0x00) @
     big_endian 8 (8 * length m mod 2 ^ 64)"

fun words_of :: "string \<Rightarrow> u32 list" where
  "words_of (a # b # c # d # s) =
     of_nat (((of_char a * 256 + of_char b) * 256 + of_char c) * 256 + of_char d) # words_of s"
| "words_of _ = []"

text \<open>The message schedule, most recent word first.\<close>

fun schedule_words :: "nat \<Rightarrow> u32 list \<Rightarrow> u32 list" where
  "schedule_words 0 ws = ws"
| "schedule_words (Suc n) ws =
     schedule_words n ((sigma1 (ws ! 1) + ws ! 6 + sigma0 (ws ! 14) + ws ! 15) # ws)"

definition sha256_round :: "u32 list \<Rightarrow> u32 \<times> u32 \<Rightarrow> u32 list" where
  "sha256_round v kw =
    (case v of
       [a, b, c, d, e, f, g, h] \<Rightarrow>
         (let t1 = h + Sigma1 e + ((e AND f) XOR (NOT e AND g)) + fst kw + snd kw;
              t2 = Sigma0 a + ((a AND b) XOR (a AND c) XOR (b AND c))
          in [t1 + t2, a, b, c, d + t1, e, f, g])
     | _ \<Rightarrow> v)"

definition sha256_block :: "u32 list \<Rightarrow> u32 list \<Rightarrow> u32 list" where
  "sha256_block hs ws =
     map2 (+) hs (foldl sha256_round hs (zip sha256_K (rev (schedule_words 48 (rev ws)))))"

function sha256_blocks :: "u32 list \<Rightarrow> u32 list \<Rightarrow> u32 list" where
  "sha256_blocks hs ws = (if ws = [] then hs else sha256_blocks (sha256_block hs (take 16 ws)) (drop 16 ws))"
  by pat_completeness auto
termination
  by (relation "measure (\<lambda>(hs, ws). length ws)") auto

declare sha256_blocks.simps [simp del]

definition Sum256 :: "string \<Rightarrow> string" where
  "Sum256 m = concat (map (\<lambda>w. big_endian 4 (unat w)) (sha256_blocks sha256_H0 (words_of (sha256_pad m))))"

definition hex_EncodeToString :: "string \<Rightarrow> string" where
  "hex_EncodeToString s = concat (map (\<lambda>c. [hex_char (of_char c div 16), hex_char (of_char c mod 16)]) s)"

definition sha256_hex :: "string \<Rightarrow> string" where
  "sha256_hex m = hex_EncodeToString (Sum256 m)"

lemma length_sha256_round: "length (sha256_round v kw) = length v"
  by (auto simp: sha256_round_def Let_def split: list.splits)

lemma length_sha256_rounds: "length (foldl sha256_round v kws) = length v"
  by (induction kws arbitrary: v) (simp_all add: length_sha256_round)

lemma length_sha256_blocks: "length (sha256_blocks hs ws) = length hs"
proof (induction hs ws rule: sha256_blocks.induct)
  case (1 hs ws)
  then show ?case
    by (simp add: sha256_blocks.simps [of hs ws] sha256_block_def length_sha256_rounds)
qed

lemma length_Sum256: "length (Sum256 m) = 32"
  by (simp add: Sum256_def length_concat o_def big_endian_def length_sha256_blocks sha256_H0_def
      sum_list_triv)

lemma length_sha256_hex: "length (sha256_hex m) = 64"
  by (simp add: sha256_hex_def hex_EncodeToString_def length_concat o_def length_Sum256 sum_list_triv)

end
