(* ===== verification/Configuration.thy ===== *)
theory Configuration
  imports Domain Go_Json Go_Sha256 "HOL-Library.Product_Lexorder"
begin

text \<open>
  The configuration document (\<open>internal/configuration/model.go\<close>): the observed
  per-node \<open>Document\<close>, the authoritative \<open>DesiredDocument\<close>, their canonical form, the
  effective document of a node, the canonical hash and the semantic difference.

  The source passes documents by value but rewrites the elements of shared slices in
  place; the definitions here return the value the source returns. \<open>Clients\<close>,
  \<open>Rewrites\<close>, \<open>Unsupported\<close> and \<open>StaticLeases\<close> are slices whose nil survives
  canonicalisation, so they are \<open>slice\<close>s; all other slices are normalised to non-nil.
\<close>

subsection \<open>Documents\<close>

definition LegacySchemaVersion :: int where "LegacySchemaVersion = 1"
definition SchemaVersion :: int where "SchemaVersion = 2"

record DNS =
  dns_UpstreamDNS :: "string list"
  dns_BootstrapDNS :: "string list"
  dns_FallbackDNS :: "string list"
  dns_PrivateReverseDNS :: "string list"
  dns_ProtectionEnabled :: bool
  dns_RateLimit :: int
  dns_RateLimitIPv4 :: int
  dns_RateLimitIPv6 :: int
  dns_RateLimitAllowlist :: "string list"
  dns_BlockingMode :: string
  dns_BlockingIPv4 :: string
  dns_BlockingIPv6 :: string
  dns_BlockedResponseTTL :: int
  dns_EDNSClientSubnet :: bool
  dns_EDNSUseCustom :: bool
  dns_EDNSCustomIP :: string
  dns_DisableIPv6 :: bool
  dns_DNSSECEnabled :: bool
  dns_CacheSize :: int
  dns_CacheEnabled :: bool
  dns_CacheTTLMin :: int
  dns_CacheTTLMax :: int
  dns_CacheOptimistic :: bool
  dns_UpstreamMode :: string
  dns_UsePrivateReverse :: bool
  dns_ResolveClients :: bool
  dns_UpstreamTimeout :: int

record Filtering =
  flt_Enabled :: bool
  flt_UpdateInterval :: int
  flt_FilterURLs :: "string list"
  flt_WhitelistURLs :: "string list"
  flt_UserRules :: "string list"

record SafeSearch =
  ss_Enabled :: bool
  ss_Bing :: bool
  ss_DuckDuckGo :: bool
  ss_Ecosia :: bool
  ss_Google :: bool
  ss_Pixabay :: bool
  ss_Yandex :: bool
  ss_YouTube :: bool

record DayRange =
  day_Start :: int
  day_End :: int

record Schedule =
  sched_TimeZone :: string
  sched_Days :: "DayRange gomap"

record PersistentClient =
  client_Name :: string
  client_IDs :: "string list"
  client_UseGlobalSettings :: bool
  client_FilteringEnabled :: bool
  client_ParentalEnabled :: bool
  client_SafeBrowsingEnabled :: bool
  client_SafeSearch :: SafeSearch
  client_UseGlobalBlockedServices :: bool
  client_BlockedServices :: "string list"
  client_BlockedServicesSchedule :: Schedule
  client_Upstreams :: "string list"
  client_UpstreamsCacheEnabled :: bool
  client_UpstreamsCacheSize :: int
  client_Tags :: "string list"
  client_IgnoreQueryLog :: bool
  client_IgnoreStatistics :: bool

record Rewrite =
  rewrite_Domain :: string
  rewrite_Answer :: string
  rewrite_Enabled :: bool

record Services =
  svc_BlockedServiceIDs :: "string list"
  svc_BlockedSchedule :: Schedule
  svc_SafeBrowsing :: bool
  svc_ParentalControl :: bool
  svc_SafeSearch :: SafeSearch

record QueryLogPolicy =
  ql_Enabled :: bool
  ql_IntervalMillis :: int
  ql_AnonymizeClientIP :: bool
  ql_Ignored :: "string list"
  ql_IgnoredEnabled :: bool

record StatisticsPolicy =
  st_Enabled :: bool
  st_IntervalMillis :: int
  st_Ignored :: "string list"
  st_IgnoredEnabled :: bool

record Shared =
  sh_DNS :: DNS
  sh_Filtering :: Filtering
  sh_Clients :: "PersistentClient slice"
  sh_RewritesEnabled :: bool
  sh_Rewrites :: "Rewrite slice"
  sh_Services :: Services
  sh_QueryLog :: QueryLogPolicy
  sh_Statistics :: StatisticsPolicy

record DHCPIPv4 =
  v4_Gateway :: string
  v4_SubnetMask :: string
  v4_RangeStart :: string
  v4_RangeEnd :: string
  v4_LeaseDuration :: int

record DHCPIPv6 =
  v6_RangeStart :: string
  v6_LeaseDuration :: int

record DHCPStaticLease =
  lease_MAC :: string
  lease_IP :: string
  lease_Hostname :: string

record DHCPConfig =
  dhcp_Enabled :: bool
  dhcp_InterfaceName :: string
  dhcp_IPv4 :: DHCPIPv4
  dhcp_IPv6 :: DHCPIPv6
  dhcp_StaticLeases :: "DHCPStaticLease slice"

record NodeSpecific =
  ns_BindHosts :: "string list"
  ns_DNSPort :: int
  ns_DHCP :: "DHCPConfig option"

record DHCPLease =
  dl_MAC :: string
  dl_IP :: string
  dl_Hostname :: string
  dl_ExpiresAt :: string

record TLSStatus =
  tls_Enabled :: bool
  tls_ServerName :: string
  tls_ForceHTTPS :: bool
  tls_HTTPSPort :: int
  tls_DNSOverTLSPort :: int
  tls_DNSOverQUICPort :: int
  tls_ServePlainDNS :: bool
  tls_ValidCertificate :: bool
  tls_ValidChain :: bool
  tls_ValidKey :: bool
  tls_ValidPair :: bool
  tls_Subject :: string
  tls_Issuer :: string
  tls_NotBefore :: string
  tls_NotAfter :: string
  tls_DNSNames :: "string list"
  tls_Warning :: string

record ObservedOnly =
  obs_ProductVersion :: string
  obs_ProtectionDisabledUntil :: string
  obs_TLS :: TLSStatus
  obs_DHCPLeases :: "DHCPLease list"

record Unsupported =
  uns_Section :: string
  uns_Reason :: string

record Document =
  doc_SchemaVersion :: int
  doc_Shared :: Shared
  doc_NodeSpecific :: NodeSpecific
  doc_ObservedOnly :: ObservedOnly
  doc_Unsupported :: "Unsupported slice"

record DesiredDocument =
  des_SchemaVersion :: int
  des_Shared :: Shared
  des_NodeOverrides :: "NodeSpecific gomap"
  des_Unsupported :: "Unsupported slice"

datatype Ownership = SharedManaged | NodeManaged | Observed | UnsupportedField

record Difference =
  diff_Section :: string
  diff_Field :: string
  diff_Scope :: Ownership
  diff_Left :: json
  diff_Right :: json
  diff_Summary :: string

text \<open>Zero values, as a composite literal leaves the fields it does not name.\<close>

definition zero_NodeSpecific :: NodeSpecific where
  "zero_NodeSpecific = \<lparr>ns_BindHosts = [], ns_DNSPort = 0, ns_DHCP = None\<rparr>"

definition zero_TLSStatus :: TLSStatus where
  "zero_TLSStatus = \<lparr>tls_Enabled = False, tls_ServerName = [], tls_ForceHTTPS = False, tls_HTTPSPort = 0,
     tls_DNSOverTLSPort = 0, tls_DNSOverQUICPort = 0, tls_ServePlainDNS = False, tls_ValidCertificate = False,
     tls_ValidChain = False, tls_ValidKey = False, tls_ValidPair = False, tls_Subject = [], tls_Issuer = [],
     tls_NotBefore = [], tls_NotAfter = [], tls_DNSNames = [], tls_Warning = []\<rparr>"

definition zero_ObservedOnly :: ObservedOnly where
  "zero_ObservedOnly = \<lparr>obs_ProductVersion = [], obs_ProtectionDisabledUntil = [], obs_TLS = zero_TLSStatus,
     obs_DHCPLeases = []\<rparr>"

definition zero_SafeSearch :: SafeSearch where
  "zero_SafeSearch = \<lparr>ss_Enabled = False, ss_Bing = False, ss_DuckDuckGo = False, ss_Ecosia = False,
     ss_Google = False, ss_Pixabay = False, ss_Yandex = False, ss_YouTube = False\<rparr>"

definition zero_Schedule :: Schedule where
  "zero_Schedule = \<lparr>sched_TimeZone = [], sched_Days = []\<rparr>"

definition zero_DNS :: DNS where
  "zero_DNS = \<lparr>dns_UpstreamDNS = [], dns_BootstrapDNS = [], dns_FallbackDNS = [], dns_PrivateReverseDNS = [],
     dns_ProtectionEnabled = False, dns_RateLimit = 0, dns_RateLimitIPv4 = 0, dns_RateLimitIPv6 = 0,
     dns_RateLimitAllowlist = [], dns_BlockingMode = [], dns_BlockingIPv4 = [], dns_BlockingIPv6 = [],
     dns_BlockedResponseTTL = 0, dns_EDNSClientSubnet = False, dns_EDNSUseCustom = False, dns_EDNSCustomIP = [],
     dns_DisableIPv6 = False, dns_DNSSECEnabled = False, dns_CacheSize = 0, dns_CacheEnabled = False,
     dns_CacheTTLMin = 0, dns_CacheTTLMax = 0, dns_CacheOptimistic = False, dns_UpstreamMode = [],
     dns_UsePrivateReverse = False, dns_ResolveClients = False, dns_UpstreamTimeout = 0\<rparr>"

definition zero_Shared :: Shared where
  "zero_Shared = \<lparr>sh_DNS = zero_DNS,
     sh_Filtering = \<lparr>flt_Enabled = False, flt_UpdateInterval = 0, flt_FilterURLs = [], flt_WhitelistURLs = [],
       flt_UserRules = []\<rparr>,
     sh_Clients = None, sh_RewritesEnabled = False, sh_Rewrites = None,
     sh_Services = \<lparr>svc_BlockedServiceIDs = [], svc_BlockedSchedule = zero_Schedule, svc_SafeBrowsing = False,
       svc_ParentalControl = False, svc_SafeSearch = zero_SafeSearch\<rparr>,
     sh_QueryLog = \<lparr>ql_Enabled = False, ql_IntervalMillis = 0, ql_AnonymizeClientIP = False, ql_Ignored = [],
       ql_IgnoredEnabled = False\<rparr>,
     sh_Statistics = \<lparr>st_Enabled = False, st_IntervalMillis = 0, st_Ignored = [], st_IgnoredEnabled = False\<rparr>\<rparr>"

subsection \<open>Canonical form\<close>

definition legacyMigrationSection :: string where
  "legacyMigrationSection = ''legacy_schema1''"

definition IsLegacyConverted :: "Unsupported slice \<Rightarrow> bool" where
  "IsLegacyConverted values = list_ex (\<lambda>v. uns_Section v = legacyMigrationSection) (elems values)"

fun cleanOrdered :: "string list \<Rightarrow> string list" where
  "cleanOrdered [] = []"
| "cleanOrdered (value # values) =
     (let value = TrimSpace value in if value \<noteq> [] then value # cleanOrdered values else cleanOrdered values)"

fun cleanSet_loop :: "string list \<Rightarrow> string list \<Rightarrow> string list" where
  "cleanSet_loop seen [] = []"
| "cleanSet_loop seen (value # values) =
     (let value = TrimSpace value; key = ToLower value in
      if value = [] then cleanSet_loop seen values
      else if key \<in> set seen then cleanSet_loop seen values
      else value # cleanSet_loop (key # seen) values)"

definition cleanSet :: "string list \<Rightarrow> string list" where
  "cleanSet values = sort_slice (\<lambda>a b. ToLower a < ToLower b) (cleanSet_loop [] values)"

definition canonicalSchedule :: "Schedule \<Rightarrow> Schedule" where
  "canonicalSchedule schedule = schedule\<lparr>sched_TimeZone := TrimSpace (sched_TimeZone schedule)\<rparr>"

definition canonicalLease :: "DHCPStaticLease \<Rightarrow> DHCPStaticLease" where
  "canonicalLease l = \<lparr>lease_MAC = ToLower (TrimSpace (lease_MAC l)), lease_IP = TrimSpace (lease_IP l),
     lease_Hostname = TrimSpace (lease_Hostname l)\<rparr>"

definition canonicaliseDHCP :: "DHCPConfig \<Rightarrow> DHCPConfig" where
  "canonicaliseDHCP config = config
    \<lparr>dhcp_InterfaceName := TrimSpace (dhcp_InterfaceName config),
     dhcp_StaticLeases := map_option
       (\<lambda>ls. sort_slice (\<lambda>a b. lease_MAC a < lease_MAC b) (map canonicalLease ls)) (dhcp_StaticLeases config)\<rparr>"

definition canonicalClient :: "PersistentClient \<Rightarrow> PersistentClient" where
  "canonicalClient client = client
    \<lparr>client_Name := TrimSpace (client_Name client),
     client_IDs := cleanSet (client_IDs client),
     client_BlockedServices := cleanSet (client_BlockedServices client),
     client_BlockedServicesSchedule := canonicalSchedule (client_BlockedServicesSchedule client),
     client_Upstreams := cleanOrdered (client_Upstreams client),
     client_Tags := cleanSet (client_Tags client)\<rparr>"

definition client_less :: "PersistentClient \<Rightarrow> PersistentClient \<Rightarrow> bool" where
  "client_less a b \<longleftrightarrow> ToLower (client_Name a) < ToLower (client_Name b)"

definition canonicalRewrite :: "Rewrite \<Rightarrow> Rewrite" where
  "canonicalRewrite r = r\<lparr>rewrite_Domain := TrimSpace (rewrite_Domain r), rewrite_Answer := TrimSpace (rewrite_Answer r)\<rparr>"

definition EqualFold :: "string \<Rightarrow> string \<Rightarrow> bool" where
  "EqualFold s t \<longleftrightarrow> ToLower s = ToLower t"

definition rewrite_less :: "Rewrite \<Rightarrow> Rewrite \<Rightarrow> bool" where
  "rewrite_less a b \<longleftrightarrow>
    (if EqualFold (rewrite_Domain a) (rewrite_Domain b)
     then ToLower (rewrite_Answer a) < ToLower (rewrite_Answer b)
     else ToLower (rewrite_Domain a) < ToLower (rewrite_Domain b))"

definition unsupported_less :: "Unsupported \<Rightarrow> Unsupported \<Rightarrow> bool" where
  "unsupported_less a b \<longleftrightarrow>
    (if uns_Section a = uns_Section b then uns_Reason a < uns_Reason b else uns_Section a < uns_Section b)"

definition canonicalDNS :: "DNS \<Rightarrow> DNS" where
  "canonicalDNS d = d
    \<lparr>dns_UpstreamDNS := cleanOrdered (dns_UpstreamDNS d),
     dns_BootstrapDNS := cleanSet (dns_BootstrapDNS d),
     dns_FallbackDNS := cleanOrdered (dns_FallbackDNS d),
     dns_PrivateReverseDNS := cleanSet (dns_PrivateReverseDNS d),
     dns_RateLimitAllowlist := cleanSet (dns_RateLimitAllowlist d),
     dns_BlockingMode := TrimSpace (dns_BlockingMode d),
     dns_EDNSCustomIP := TrimSpace (dns_EDNSCustomIP d),
     dns_UpstreamMode := TrimSpace (dns_UpstreamMode d)\<rparr>"

definition canonicalFiltering :: "Filtering \<Rightarrow> Filtering" where
  "canonicalFiltering f = f
    \<lparr>flt_FilterURLs := cleanSet (flt_FilterURLs f), flt_WhitelistURLs := cleanSet (flt_WhitelistURLs f),
     flt_UserRules := cleanOrdered (flt_UserRules f)\<rparr>"

definition canonicalShared :: "Shared \<Rightarrow> Shared" where
  "canonicalShared s = s
    \<lparr>sh_DNS := canonicalDNS (sh_DNS s),
     sh_Filtering := canonicalFiltering (sh_Filtering s),
     sh_Clients := map_option (\<lambda>cs. sort_slice client_less (map canonicalClient cs)) (sh_Clients s),
     sh_Rewrites := map_option (\<lambda>rs. sort_slice rewrite_less (map canonicalRewrite rs)) (sh_Rewrites s),
     sh_Services := (sh_Services s)
       \<lparr>svc_BlockedServiceIDs := cleanSet (svc_BlockedServiceIDs (sh_Services s)),
        svc_BlockedSchedule := canonicalSchedule (svc_BlockedSchedule (sh_Services s))\<rparr>,
     sh_QueryLog := (sh_QueryLog s)\<lparr>ql_Ignored := cleanSet (ql_Ignored (sh_QueryLog s))\<rparr>,
     sh_Statistics := (sh_Statistics s)\<lparr>st_Ignored := cleanSet (st_Ignored (sh_Statistics s))\<rparr>\<rparr>"

definition canonicalNodeSpecific :: "NodeSpecific \<Rightarrow> NodeSpecific" where
  "canonicalNodeSpecific n = n
    \<lparr>ns_BindHosts := cleanSet (ns_BindHosts n), ns_DHCP := map_option canonicaliseDHCP (ns_DHCP n)\<rparr>"

definition canonicalSchema :: "int \<Rightarrow> Unsupported slice \<Rightarrow> int \<times> Unsupported slice" where
  "canonicalSchema version unsupported =
    (if version = 0 then (SchemaVersion, unsupported)
     else if version = LegacySchemaVersion then
       (SchemaVersion,
        if \<not> IsLegacyConverted unsupported
        then Some (elems unsupported @ [\<lparr>uns_Section = legacyMigrationSection,
               uns_Reason = ''Imported from a v1.0.x schema-1 record; import and publish a fresh schema-2 revision before deployment''\<rparr>])
        else unsupported)
     else (version, unsupported))"

definition Canonicalise :: "Document \<Rightarrow> Document" where
  "Canonicalise document =
    (let (version, unsupported) = canonicalSchema (doc_SchemaVersion document) (doc_Unsupported document);
         observed = doc_ObservedOnly document
     in \<lparr>doc_SchemaVersion = version,
         doc_Shared = canonicalShared (doc_Shared document),
         doc_NodeSpecific = canonicalNodeSpecific (doc_NodeSpecific document),
         doc_ObservedOnly = observed
           \<lparr>obs_TLS := (obs_TLS observed)\<lparr>tls_DNSNames := cleanSet (tls_DNSNames (obs_TLS observed))\<rparr>\<rparr>,
         doc_Unsupported = map_option (sort_slice unsupported_less) unsupported\<rparr>)"

definition desired_as_document :: "DesiredDocument \<Rightarrow> Document" where
  "desired_as_document d = \<lparr>doc_SchemaVersion = des_SchemaVersion d, doc_Shared = des_Shared d,
     doc_NodeSpecific = zero_NodeSpecific, doc_ObservedOnly = zero_ObservedOnly,
     doc_Unsupported = des_Unsupported d\<rparr>"

definition CanonicaliseDesired :: "DesiredDocument \<Rightarrow> DesiredDocument" where
  "CanonicaliseDesired document =
    (let document = (if des_SchemaVersion document = 0 then document\<lparr>des_SchemaVersion := SchemaVersion\<rparr> else document);
         observed = Canonicalise (desired_as_document document)
     in \<lparr>des_SchemaVersion = doc_SchemaVersion observed,
         des_Shared = doc_Shared observed,
         des_NodeOverrides = map (\<lambda>(nodeID, override). (nodeID, canonicalNodeSpecific override)) (des_NodeOverrides document),
         des_Unsupported = doc_Unsupported observed\<rparr>)"

definition DesiredFromObservation :: "string \<Rightarrow> Document \<Rightarrow> DesiredDocument" where
  "DesiredFromObservation nodeID document =
     CanonicaliseDesired \<lparr>des_SchemaVersion = SchemaVersion, des_Shared = doc_Shared document,
       des_NodeOverrides = [(nodeID, doc_NodeSpecific document)], des_Unsupported = doc_Unsupported document\<rparr>"

definition ProjectDocument :: "Document \<Rightarrow> int \<Rightarrow> Document" where
  "ProjectDocument document schemaVersion = (Canonicalise document)\<lparr>doc_SchemaVersion := SchemaVersion\<rparr>"

definition ConvertLegacyDocument :: "Document \<Rightarrow> Document" where
  "ConvertLegacyDocument document = Canonicalise (document\<lparr>doc_SchemaVersion := LegacySchemaVersion\<rparr>)"

definition ConvertLegacyDesired :: "DesiredDocument \<Rightarrow> DesiredDocument" where
  "ConvertLegacyDesired document = CanonicaliseDesired (document\<lparr>des_SchemaVersion := LegacySchemaVersion\<rparr>)"

definition Effective :: "DesiredDocument \<Rightarrow> string \<Rightarrow> go_error + Document" where
  "Effective document nodeID =
    (let document = CanonicaliseDesired document in
     case map_of (des_NodeOverrides document) nodeID of
       None \<Rightarrow> Inl (PlainError (''node '' @ nodeID @ '' has no desired override''))
     | Some override \<Rightarrow> Inr (Canonicalise
         \<lparr>doc_SchemaVersion = des_SchemaVersion document, doc_Shared = des_Shared document,
          doc_NodeSpecific = override, doc_ObservedOnly = zero_ObservedOnly,
          doc_Unsupported = des_Unsupported document\<rparr>))"


subsection \<open>Canonicalisation is idempotent\<close>

named_theorems canon "idempotence of the canonicalisation functions"

lemma cleanOrdered_filter: "cleanOrdered vs = filter (\<lambda>v. v \<noteq> []) (map TrimSpace vs)"
  by (induction vs) (simp_all add: Let_def)

lemma cleanOrdered_idem [canon]: "cleanOrdered (cleanOrdered vs) = cleanOrdered vs"
  by (induction vs) (simp_all add: Let_def)

definition clean_keys :: "string list \<Rightarrow> bool" where
  "clean_keys vs \<longleftrightarrow> (\<forall>v \<in> set vs. v \<noteq> [] \<and> TrimSpace v = v) \<and> distinct (map ToLower vs)"

lemma cleanSet_loop_clean:
  "clean_keys (cleanSet_loop seen vs) \<and> (\<forall>v \<in> set (cleanSet_loop seen vs). ToLower v \<notin> set seen)"
proof (induction vs arbitrary: seen)
  case Nil
  show ?case by (simp add: clean_keys_def)
next
  case (Cons v vs)
  show ?case
    using Cons [of seen] Cons [of "ToLower (TrimSpace v) # seen"]
    by (auto simp: Let_def clean_keys_def)
qed

lemma cleanSet_loop_id:
  "clean_keys vs \<Longrightarrow> \<forall>v \<in> set vs. ToLower v \<notin> set seen \<Longrightarrow> cleanSet_loop seen vs = vs"
proof (induction vs arbitrary: seen)
  case (Cons a vs)
  then have "\<forall>v \<in> set vs. ToLower v \<notin> set (ToLower a # seen)"
    by (auto simp: clean_keys_def image_iff)
  with Cons show ?case by (simp add: clean_keys_def Let_def)
qed simp

lemma clean_keys_perm: "mset vs = mset ws \<Longrightarrow> clean_keys vs = clean_keys ws"
  unfolding clean_keys_def by (metis mset_eq_imp_distinct_iff mset_eq_setD mset_map)

lemma clean_keys_cleanSet: "clean_keys (cleanSet vs)"
  using cleanSet_loop_clean [of "[]" vs] by (simp add: cleanSet_def clean_keys_perm [OF mset_sort_slice])

lemma cleanSet_idem [canon]: "cleanSet (cleanSet vs) = cleanSet vs"
proof -
  have "cleanSet_loop [] (cleanSet vs) = cleanSet vs"
    by (rule cleanSet_loop_id) (simp_all add: clean_keys_cleanSet)
  then show ?thesis unfolding cleanSet_def by simp
qed

lemma cleanSet_sorted: "sorted (map ToLower (cleanSet vs))"
  by (simp add: cleanSet_def sort_slice_sort_key)

lemma canonicalSchedule_idem [canon]: "canonicalSchedule (canonicalSchedule s) = canonicalSchedule s"
  by (simp add: canonicalSchedule_def)

lemma canonicalClient_idem [canon]: "canonicalClient (canonicalClient c) = canonicalClient c"
  by (simp add: canonicalClient_def canon)

lemma canonicalRewrite_idem [canon]: "canonicalRewrite (canonicalRewrite r) = canonicalRewrite r"
  by (simp add: canonicalRewrite_def)

lemma canonicalLease_idem [canon]: "canonicalLease (canonicalLease l) = canonicalLease l"
  by (simp add: canonicalLease_def)

text \<open>Each comparison function is the strict part of an order on a key.\<close>

definition rewrite_key :: "Rewrite \<Rightarrow> string \<times> string" where
  "rewrite_key r = (ToLower (rewrite_Domain r), ToLower (rewrite_Answer r))"

definition unsupported_key :: "Unsupported \<Rightarrow> string \<times> string" where
  "unsupported_key u = (uns_Section u, uns_Reason u)"

lemma client_less_key: "client_less = (\<lambda>a b. ToLower (client_Name a) < ToLower (client_Name b))"
  by (simp add: client_less_def fun_eq_iff)

lemma rewrite_less_key: "rewrite_less = (\<lambda>a b. rewrite_key a < rewrite_key b)"
  by (auto simp: rewrite_less_def rewrite_key_def EqualFold_def less_prod_def fun_eq_iff)

lemma unsupported_less_key: "unsupported_less = (\<lambda>a b. unsupported_key a < unsupported_key b)"
  by (auto simp: unsupported_less_def unsupported_key_def less_prod_def fun_eq_iff)

text \<open>Sorting the image of an idempotent function is idempotent.\<close>

lemma sort_map_idem:
  fixes k :: "'a \<Rightarrow> 'b::linorder"
  assumes "\<And>x. f (f x) = f x" and "lt = (\<lambda>x y. k x < k y)"
  shows "sort_slice lt (map f (sort_slice lt (map f xs))) = sort_slice lt (map f xs)"
proof -
  have "map f (sort_slice lt (map f xs)) = sort_slice lt (map f xs)"
    by (rule map_idI) (auto simp: assms(1))
  then show ?thesis by (simp add: assms(2))
qed

lemma canonicaliseDHCP_idem [canon]: "canonicaliseDHCP (canonicaliseDHCP c) = canonicaliseDHCP c"
  by (simp add: canonicaliseDHCP_def option.map_comp o_def
      sort_map_idem [of canonicalLease _ lease_MAC] canon)

lemma canonicalDNS_idem [canon]: "canonicalDNS (canonicalDNS d) = canonicalDNS d"
  by (simp add: canonicalDNS_def canon)

lemma canonicalFiltering_idem [canon]: "canonicalFiltering (canonicalFiltering f) = canonicalFiltering f"
  by (simp add: canonicalFiltering_def canon)

lemma canonicalShared_idem [canon]: "canonicalShared (canonicalShared s) = canonicalShared s"
  by (simp add: canonicalShared_def canon option.map_comp o_def
      sort_map_idem [of canonicalClient, OF _ client_less_key]
      sort_map_idem [of canonicalRewrite, OF _ rewrite_less_key])

lemma canonicalNodeSpecific_idem [canon]:
  "canonicalNodeSpecific (canonicalNodeSpecific n) = canonicalNodeSpecific n"
  by (simp add: canonicalNodeSpecific_def canon option.map_comp o_def)

lemma canonicalNodeSpecific_zero [simp]: "canonicalNodeSpecific zero_NodeSpecific = zero_NodeSpecific"
  by (simp add: canonicalNodeSpecific_def zero_NodeSpecific_def cleanSet_def sort_slice_def)

lemma canonicalSchema_version: "fst (canonicalSchema v u) \<notin> {0, LegacySchemaVersion}"
  by (auto simp: canonicalSchema_def SchemaVersion_def LegacySchemaVersion_def)

lemma canonicalSchema_stable: "v \<notin> {0, LegacySchemaVersion} \<Longrightarrow> canonicalSchema v u = (v, u)"
  by (simp add: canonicalSchema_def)

lemma sort_unsupported_idem [canon]:
  "map_option (sort_slice unsupported_less) (map_option (sort_slice unsupported_less) u) =
   map_option (sort_slice unsupported_less) u"
  by (simp add: option.map_comp o_def unsupported_less_key)

lemma Canonicalise_fields:
  "doc_SchemaVersion (Canonicalise d) = fst (canonicalSchema (doc_SchemaVersion d) (doc_Unsupported d))"
  "doc_Shared (Canonicalise d) = canonicalShared (doc_Shared d)"
  "doc_NodeSpecific (Canonicalise d) = canonicalNodeSpecific (doc_NodeSpecific d)"
  "doc_Unsupported (Canonicalise d) =
     map_option (sort_slice unsupported_less) (snd (canonicalSchema (doc_SchemaVersion d) (doc_Unsupported d)))"
  by (simp_all add: Canonicalise_def Let_def case_prod_unfold)

lemma Canonicalise_idem [canon]: "Canonicalise (Canonicalise d) = Canonicalise d"
proof -
  let ?vu = "canonicalSchema (doc_SchemaVersion d) (doc_Unsupported d)"
  have stable: "canonicalSchema (fst ?vu) u = (fst ?vu, u)" for u
    by (rule canonicalSchema_stable) (rule canonicalSchema_version)
  show ?thesis
    by (simp add: Canonicalise_def case_prod_unfold Let_def stable canon)
qed

lemma CanonicaliseDesired_fields:
  "des_SchemaVersion (CanonicaliseDesired d) = fst (canonicalSchema (des_SchemaVersion d) (des_Unsupported d))"
  "des_Shared (CanonicaliseDesired d) = canonicalShared (des_Shared d)"
  "des_NodeOverrides (CanonicaliseDesired d) = map (\<lambda>(i, n). (i, canonicalNodeSpecific n)) (des_NodeOverrides d)"
  "des_Unsupported (CanonicaliseDesired d) =
     map_option (sort_slice unsupported_less) (snd (canonicalSchema (des_SchemaVersion d) (des_Unsupported d)))"
  by (simp_all add: CanonicaliseDesired_def Canonicalise_fields desired_as_document_def Let_def
      canonicalSchema_def SchemaVersion_def LegacySchemaVersion_def)

lemma CanonicaliseDesired_idem [canon]: "CanonicaliseDesired (CanonicaliseDesired d) = CanonicaliseDesired d"
proof -
  let ?vu = "canonicalSchema (des_SchemaVersion d) (des_Unsupported d)"
  have stable: "canonicalSchema (fst ?vu) u = (fst ?vu, u)" for u
    by (rule canonicalSchema_stable) (rule canonicalSchema_version)
  show ?thesis
    by (rule DesiredDocument.equality)
       (simp_all add: CanonicaliseDesired_fields stable canon o_def case_prod_unfold)
qed

lemma map_of_canonical_overrides:
  "map_of (des_NodeOverrides (CanonicaliseDesired d)) i =
     map_option canonicalNodeSpecific (map_of (des_NodeOverrides d) i)"
  by (simp add: CanonicaliseDesired_fields map_of_map)

end
