(* ===== verification/Differences.thy ===== *)
theory Differences
  imports Configuration
begin

text \<open>
  JSON forms of the configuration types, the canonical body and hash (\<open>Marshal\<close>,
  \<open>MarshalDesired\<close>), the semantic difference of two documents (\<open>Diff\<close>,
  \<open>DiffDesired\<close>) of \<open>internal/configuration/model.go\<close>, and the three filters on
  differences of \<open>internal/controlplane/service.go\<close>. The main result is that the managed
  differences of two documents are empty exactly when their canonical forms agree on every
  field the controller manages: \<open>Diff\<close> forgets no field and reports no spurious one.
\<close>

subsection \<open>JSON forms\<close>

definition j_strings :: "string list \<Rightarrow> json" where
  "j_strings xs = JArray (map JString xs)"

definition j_slice :: "('a \<Rightarrow> json) \<Rightarrow> 'a slice \<Rightarrow> json" where
  "j_slice f s = (case s of None \<Rightarrow> JNull | Some xs \<Rightarrow> JArray (map f xs))"

definition j_pointer :: "('a \<Rightarrow> json) \<Rightarrow> 'a option \<Rightarrow> json" where
  "j_pointer f p = (case p of None \<Rightarrow> JNull | Some x \<Rightarrow> f x)"

definition j_map :: "('v \<Rightarrow> json) \<Rightarrow> 'v gomap \<Rightarrow> json" where
  "j_map f m = JObject (map (\<lambda>(k, v). (k, f v)) (sort_slice (\<lambda>a b. fst a < fst b) m))"

text \<open>Fields tagged \<open>omitempty\<close> are left out when they hold the zero value.\<close>

definition omit_bool :: "string \<Rightarrow> bool \<Rightarrow> (string \<times> json) list" where
  "omit_bool k b = (if b then [(k, JBool b)] else [])"

definition omit_int :: "string \<Rightarrow> int \<Rightarrow> (string \<times> json) list" where
  "omit_int k i = (if i = 0 then [] else [(k, JInt i)])"

definition omit_string :: "string \<Rightarrow> string \<Rightarrow> (string \<times> json) list" where
  "omit_string k s = (if s = [] then [] else [(k, JString s)])"

definition omit_strings :: "string \<Rightarrow> string list \<Rightarrow> (string \<times> json) list" where
  "omit_strings k xs = (if xs = [] then [] else [(k, j_strings xs)])"

definition j_DayRange :: "DayRange \<Rightarrow> json" where
  "j_DayRange d = JObject [(''start'', JInt (day_Start d)), (''end'', JInt (day_End d))]"

definition j_Schedule :: "Schedule \<Rightarrow> json" where
  "j_Schedule s = JObject [(''timeZone'', JString (sched_TimeZone s)), (''days'', j_map j_DayRange (sched_Days s))]"

definition j_SafeSearch :: "SafeSearch \<Rightarrow> json" where
  "j_SafeSearch s = JObject (
    [(''enabled'', JBool (ss_Enabled s)), (''bing'', JBool (ss_Bing s)), (''duckDuckGo'', JBool (ss_DuckDuckGo s))] @
    omit_bool ''ecosia'' (ss_Ecosia s) @
    [(''google'', JBool (ss_Google s)), (''pixabay'', JBool (ss_Pixabay s)), (''yandex'', JBool (ss_Yandex s)),
     (''youtube'', JBool (ss_YouTube s))])"

definition j_PersistentClient :: "PersistentClient \<Rightarrow> json" where
  "j_PersistentClient c = JObject
    [(''name'', JString (client_Name c)), (''ids'', j_strings (client_IDs c)),
     (''useGlobalSettings'', JBool (client_UseGlobalSettings c)),
     (''filteringEnabled'', JBool (client_FilteringEnabled c)),
     (''parentalEnabled'', JBool (client_ParentalEnabled c)),
     (''safeBrowsingEnabled'', JBool (client_SafeBrowsingEnabled c)),
     (''safeSearch'', j_SafeSearch (client_SafeSearch c)),
     (''useGlobalBlockedServices'', JBool (client_UseGlobalBlockedServices c)),
     (''blockedServices'', j_strings (client_BlockedServices c)),
     (''blockedServicesSchedule'', j_Schedule (client_BlockedServicesSchedule c)),
     (''upstreams'', j_strings (client_Upstreams c)),
     (''upstreamsCacheEnabled'', JBool (client_UpstreamsCacheEnabled c)),
     (''upstreamsCacheSize'', JInt (client_UpstreamsCacheSize c)),
     (''tags'', j_strings (client_Tags c)),
     (''ignoreQueryLog'', JBool (client_IgnoreQueryLog c)),
     (''ignoreStatistics'', JBool (client_IgnoreStatistics c))]"

definition j_Rewrite :: "Rewrite \<Rightarrow> json" where
  "j_Rewrite r = JObject [(''domain'', JString (rewrite_Domain r)), (''answer'', JString (rewrite_Answer r)),
     (''enabled'', JBool (rewrite_Enabled r))]"

definition j_QueryLogPolicy :: "QueryLogPolicy \<Rightarrow> json" where
  "j_QueryLogPolicy q = JObject [(''enabled'', JBool (ql_Enabled q)), (''intervalMillis'', JInt (ql_IntervalMillis q)),
     (''anonymizeClientIp'', JBool (ql_AnonymizeClientIP q)), (''ignored'', j_strings (ql_Ignored q)),
     (''ignoredEnabled'', JBool (ql_IgnoredEnabled q))]"

definition j_StatisticsPolicy :: "StatisticsPolicy \<Rightarrow> json" where
  "j_StatisticsPolicy q = JObject [(''enabled'', JBool (st_Enabled q)), (''intervalMillis'', JInt (st_IntervalMillis q)),
     (''ignored'', j_strings (st_Ignored q)), (''ignoredEnabled'', JBool (st_IgnoredEnabled q))]"

definition j_DHCPStaticLease :: "DHCPStaticLease \<Rightarrow> json" where
  "j_DHCPStaticLease l = JObject [(''mac'', JString (lease_MAC l)), (''ip'', JString (lease_IP l)),
     (''hostname'', JString (lease_Hostname l))]"

definition j_DHCPIPv4 :: "DHCPIPv4 \<Rightarrow> json" where
  "j_DHCPIPv4 v = JObject [(''gateway'', JString (v4_Gateway v)), (''subnetMask'', JString (v4_SubnetMask v)),
     (''rangeStart'', JString (v4_RangeStart v)), (''rangeEnd'', JString (v4_RangeEnd v)),
     (''leaseDurationSeconds'', JInt (v4_LeaseDuration v))]"

definition j_DHCPIPv6 :: "DHCPIPv6 \<Rightarrow> json" where
  "j_DHCPIPv6 v = JObject [(''rangeStart'', JString (v6_RangeStart v)), (''leaseDurationSeconds'', JInt (v6_LeaseDuration v))]"

definition j_DHCPConfig :: "DHCPConfig \<Rightarrow> json" where
  "j_DHCPConfig c = JObject [(''enabled'', JBool (dhcp_Enabled c)), (''interfaceName'', JString (dhcp_InterfaceName c)),
     (''ipv4'', j_DHCPIPv4 (dhcp_IPv4 c)), (''ipv6'', j_DHCPIPv6 (dhcp_IPv6 c)),
     (''staticLeases'', j_slice j_DHCPStaticLease (dhcp_StaticLeases c))]"

definition j_Unsupported :: "Unsupported \<Rightarrow> json" where
  "j_Unsupported u = JObject [(''section'', JString (uns_Section u)), (''reason'', JString (uns_Reason u))]"

definition j_DNS :: "DNS \<Rightarrow> json" where
  "j_DNS d = JObject (
    [(''upstreamDns'', j_strings (dns_UpstreamDNS d)), (''bootstrapDns'', j_strings (dns_BootstrapDNS d)),
     (''fallbackDns'', j_strings (dns_FallbackDNS d)), (''privateReverseDns'', j_strings (dns_PrivateReverseDNS d))] @
    omit_bool ''protectionEnabled'' (dns_ProtectionEnabled d) @
    omit_int ''rateLimit'' (dns_RateLimit d) @
    omit_int ''rateLimitSubnetLengthIpv4'' (dns_RateLimitIPv4 d) @
    omit_int ''rateLimitSubnetLengthIpv6'' (dns_RateLimitIPv6 d) @
    omit_strings ''rateLimitAllowlist'' (dns_RateLimitAllowlist d) @
    omit_string ''blockingMode'' (dns_BlockingMode d) @
    omit_string ''blockingIpv4'' (dns_BlockingIPv4 d) @
    omit_string ''blockingIpv6'' (dns_BlockingIPv6 d) @
    omit_int ''blockedResponseTtl'' (dns_BlockedResponseTTL d) @
    omit_bool ''ednsClientSubnet'' (dns_EDNSClientSubnet d) @
    omit_bool ''ednsUseCustom'' (dns_EDNSUseCustom d) @
    omit_string ''ednsCustomIp'' (dns_EDNSCustomIP d) @
    omit_bool ''disableIpv6'' (dns_DisableIPv6 d) @
    omit_bool ''dnssecEnabled'' (dns_DNSSECEnabled d) @
    omit_int ''cacheSize'' (dns_CacheSize d) @
    [(''cacheEnabled'', JBool (dns_CacheEnabled d))] @
    omit_int ''cacheTtlMin'' (dns_CacheTTLMin d) @
    omit_int ''cacheTtlMax'' (dns_CacheTTLMax d) @
    omit_bool ''cacheOptimistic'' (dns_CacheOptimistic d) @
    omit_string ''upstreamMode'' (dns_UpstreamMode d) @
    omit_bool ''usePrivateReverseResolvers'' (dns_UsePrivateReverse d) @
    omit_bool ''resolveClients'' (dns_ResolveClients d) @
    omit_int ''upstreamTimeoutSeconds'' (dns_UpstreamTimeout d))"

definition j_Filtering :: "Filtering \<Rightarrow> json" where
  "j_Filtering f = JObject [(''enabled'', JBool (flt_Enabled f)), (''updateIntervalHours'', JInt (flt_UpdateInterval f)),
     (''filterUrls'', j_strings (flt_FilterURLs f)), (''whitelistUrls'', j_strings (flt_WhitelistURLs f)),
     (''userRules'', j_strings (flt_UserRules f))]"

definition j_Services :: "Services \<Rightarrow> json" where
  "j_Services s = JObject [(''blockedServiceIds'', j_strings (svc_BlockedServiceIDs s)),
     (''blockedSchedule'', j_Schedule (svc_BlockedSchedule s)), (''safeBrowsing'', JBool (svc_SafeBrowsing s)),
     (''parentalControl'', JBool (svc_ParentalControl s)), (''safeSearch'', j_SafeSearch (svc_SafeSearch s))]"

definition j_Shared :: "Shared \<Rightarrow> json" where
  "j_Shared s = JObject [(''dns'', j_DNS (sh_DNS s)), (''filtering'', j_Filtering (sh_Filtering s)),
     (''clients'', j_slice j_PersistentClient (sh_Clients s)), (''rewritesEnabled'', JBool (sh_RewritesEnabled s)),
     (''rewrites'', j_slice j_Rewrite (sh_Rewrites s)), (''services'', j_Services (sh_Services s)),
     (''queryLog'', j_QueryLogPolicy (sh_QueryLog s)), (''statistics'', j_StatisticsPolicy (sh_Statistics s))]"

definition j_NodeSpecific :: "NodeSpecific \<Rightarrow> json" where
  "j_NodeSpecific n = JObject ([(''bindHosts'', j_strings (ns_BindHosts n)), (''dnsPort'', JInt (ns_DNSPort n))] @
     (case ns_DHCP n of None \<Rightarrow> [] | Some c \<Rightarrow> [(''dhcp'', j_DHCPConfig c)]))"

definition j_DHCPLease :: "DHCPLease \<Rightarrow> json" where
  "j_DHCPLease l = JObject [(''mac'', JString (dl_MAC l)), (''ip'', JString (dl_IP l)),
     (''hostname'', JString (dl_Hostname l)), (''expiresAt'', JString (dl_ExpiresAt l))]"

definition j_TLSStatus :: "TLSStatus \<Rightarrow> json" where
  "j_TLSStatus t = JObject (
    [(''enabled'', JBool (tls_Enabled t)), (''serverName'', JString (tls_ServerName t)),
     (''forceHttps'', JBool (tls_ForceHTTPS t)), (''httpsPort'', JInt (tls_HTTPSPort t)),
     (''dnsOverTlsPort'', JInt (tls_DNSOverTLSPort t)), (''dnsOverQuicPort'', JInt (tls_DNSOverQUICPort t)),
     (''servePlainDns'', JBool (tls_ServePlainDNS t)), (''validCertificate'', JBool (tls_ValidCertificate t)),
     (''validChain'', JBool (tls_ValidChain t)), (''validKey'', JBool (tls_ValidKey t)),
     (''validPair'', JBool (tls_ValidPair t))] @
    omit_string ''subject'' (tls_Subject t) @ omit_string ''issuer'' (tls_Issuer t) @
    omit_string ''notBefore'' (tls_NotBefore t) @ omit_string ''notAfter'' (tls_NotAfter t) @
    omit_strings ''dnsNames'' (tls_DNSNames t) @ omit_string ''warning'' (tls_Warning t))"

definition j_ObservedOnly :: "ObservedOnly \<Rightarrow> json" where
  "j_ObservedOnly o' = JObject (
    [(''productVersion'', JString (obs_ProductVersion o'))] @
    omit_string ''protectionDisabledUntil'' (obs_ProtectionDisabledUntil o') @
    [(''tls'', j_TLSStatus (obs_TLS o'))] @
    (if obs_DHCPLeases o' = [] then [] else [(''dhcpLeases'', JArray (map j_DHCPLease (obs_DHCPLeases o')))]))"

definition j_Document :: "Document \<Rightarrow> json" where
  "j_Document d = JObject [(''schemaVersion'', JInt (doc_SchemaVersion d)), (''shared'', j_Shared (doc_Shared d)),
     (''nodeSpecific'', j_NodeSpecific (doc_NodeSpecific d)), (''observedOnly'', j_ObservedOnly (doc_ObservedOnly d)),
     (''unsupported'', j_slice j_Unsupported (doc_Unsupported d))]"

definition j_DesiredDocument :: "DesiredDocument \<Rightarrow> json" where
  "j_DesiredDocument d = JObject [(''schemaVersion'', JInt (des_SchemaVersion d)), (''shared'', j_Shared (des_Shared d)),
     (''nodeOverrides'', j_map j_NodeSpecific (des_NodeOverrides d)),
     (''unsupported'', j_slice j_Unsupported (des_Unsupported d))]"

subsection \<open>Canonical body and hash\<close>

definition Marshal :: "Document \<Rightarrow> string \<times> string" where
  "Marshal document = (let body = json_encode (j_Document (Canonicalise document)) in (body, sha256_hex body))"

definition MarshalDesired :: "DesiredDocument \<Rightarrow> string \<times> string" where
  "MarshalDesired document =
    (let body = json_encode (j_DesiredDocument (CanonicaliseDesired document)) in (body, sha256_hex body))"

subsection \<open>Differences\<close>

definition diff_add :: "string \<Rightarrow> string \<Rightarrow> Ownership \<Rightarrow> json \<Rightarrow> json \<Rightarrow> Difference list" where
  "diff_add section field scope a b =
    (if json_encode a \<noteq> json_encode b
     then [\<lparr>diff_Section = section, diff_Field = field, diff_Scope = scope, diff_Left = a, diff_Right = b,
            diff_Summary = field @ '' differs''\<rparr>]
     else [])"

definition diff_dns_v2 :: "DNS \<Rightarrow> DNS \<Rightarrow> Difference list" where
  "diff_dns_v2 l r =
     diff_add ''DNS'' ''Protection enabled'' SharedManaged (JBool (dns_ProtectionEnabled l)) (JBool (dns_ProtectionEnabled r)) @
     diff_add ''DNS'' ''Rate limit'' SharedManaged (JInt (dns_RateLimit l)) (JInt (dns_RateLimit r)) @
     diff_add ''DNS'' ''Rate-limit IPv4 subnet'' SharedManaged (JInt (dns_RateLimitIPv4 l)) (JInt (dns_RateLimitIPv4 r)) @
     diff_add ''DNS'' ''Rate-limit IPv6 subnet'' SharedManaged (JInt (dns_RateLimitIPv6 l)) (JInt (dns_RateLimitIPv6 r)) @
     diff_add ''DNS'' ''Rate-limit allowlist'' SharedManaged (j_strings (dns_RateLimitAllowlist l)) (j_strings (dns_RateLimitAllowlist r)) @
     diff_add ''DNS'' ''Blocking mode'' SharedManaged (JString (dns_BlockingMode l)) (JString (dns_BlockingMode r)) @
     diff_add ''DNS'' ''Blocking IPv4'' SharedManaged (JString (dns_BlockingIPv4 l)) (JString (dns_BlockingIPv4 r)) @
     diff_add ''DNS'' ''Blocking IPv6'' SharedManaged (JString (dns_BlockingIPv6 l)) (JString (dns_BlockingIPv6 r)) @
     diff_add ''DNS'' ''Blocked response TTL'' SharedManaged (JInt (dns_BlockedResponseTTL l)) (JInt (dns_BlockedResponseTTL r)) @
     diff_add ''DNS'' ''EDNS client subnet'' SharedManaged (JBool (dns_EDNSClientSubnet l)) (JBool (dns_EDNSClientSubnet r)) @
     diff_add ''DNS'' ''EDNS custom address'' SharedManaged
       (JArray [JBool (dns_EDNSUseCustom l), JString (dns_EDNSCustomIP l)])
       (JArray [JBool (dns_EDNSUseCustom r), JString (dns_EDNSCustomIP r)]) @
     diff_add ''DNS'' ''Disable IPv6'' SharedManaged (JBool (dns_DisableIPv6 l)) (JBool (dns_DisableIPv6 r)) @
     diff_add ''DNS'' ''DNSSEC'' SharedManaged (JBool (dns_DNSSECEnabled l)) (JBool (dns_DNSSECEnabled r)) @
     diff_add ''DNS'' ''Cache'' SharedManaged
       (JArray [JBool (dns_CacheEnabled l), JInt (dns_CacheSize l), JInt (dns_CacheTTLMin l), JInt (dns_CacheTTLMax l),
                JBool (dns_CacheOptimistic l)])
       (JArray [JBool (dns_CacheEnabled r), JInt (dns_CacheSize r), JInt (dns_CacheTTLMin r), JInt (dns_CacheTTLMax r),
                JBool (dns_CacheOptimistic r)]) @
     diff_add ''DNS'' ''Upstream mode'' SharedManaged (JString (dns_UpstreamMode l)) (JString (dns_UpstreamMode r)) @
     diff_add ''DNS'' ''Upstream timeout'' SharedManaged (JInt (dns_UpstreamTimeout l)) (JInt (dns_UpstreamTimeout r)) @
     diff_add ''DNS'' ''Private reverse and client resolution'' SharedManaged
       (JArray [JBool (dns_UsePrivateReverse l), JBool (dns_ResolveClients l)])
       (JArray [JBool (dns_UsePrivateReverse r), JBool (dns_ResolveClients r)])"

definition diff_shared_v2 :: "Shared \<Rightarrow> Shared \<Rightarrow> Difference list" where
  "diff_shared_v2 l r =
     diff_add ''Filtering'' ''Allowlist subscriptions'' SharedManaged
       (j_strings (flt_WhitelistURLs (sh_Filtering l))) (j_strings (flt_WhitelistURLs (sh_Filtering r))) @
     diff_add ''Clients'' ''Persistent clients'' SharedManaged
       (j_slice j_PersistentClient (sh_Clients l)) (j_slice j_PersistentClient (sh_Clients r)) @
     diff_add ''Rewrites'' ''DNS rewrites'' SharedManaged
       (JArray [JBool (sh_RewritesEnabled l), j_slice j_Rewrite (sh_Rewrites l)])
       (JArray [JBool (sh_RewritesEnabled r), j_slice j_Rewrite (sh_Rewrites r)]) @
     diff_add ''Services'' ''Blocked services'' SharedManaged
       (JArray [j_strings (svc_BlockedServiceIDs (sh_Services l)), j_Schedule (svc_BlockedSchedule (sh_Services l))])
       (JArray [j_strings (svc_BlockedServiceIDs (sh_Services r)), j_Schedule (svc_BlockedSchedule (sh_Services r))]) @
     diff_add ''Services'' ''Safe browsing'' SharedManaged
       (JBool (svc_SafeBrowsing (sh_Services l))) (JBool (svc_SafeBrowsing (sh_Services r))) @
     diff_add ''Services'' ''Parental control'' SharedManaged
       (JBool (svc_ParentalControl (sh_Services l))) (JBool (svc_ParentalControl (sh_Services r))) @
     diff_add ''Services'' ''Safe search'' SharedManaged
       (j_SafeSearch (svc_SafeSearch (sh_Services l))) (j_SafeSearch (svc_SafeSearch (sh_Services r))) @
     diff_add ''Query log'' ''Policy'' SharedManaged (j_QueryLogPolicy (sh_QueryLog l)) (j_QueryLogPolicy (sh_QueryLog r)) @
     diff_add ''Statistics'' ''Policy'' SharedManaged (j_StatisticsPolicy (sh_Statistics l)) (j_StatisticsPolicy (sh_Statistics r))"

definition Diff :: "Document \<Rightarrow> Document \<Rightarrow> Difference list" where
  "Diff left right =
    (let left = Canonicalise left; right = Canonicalise right;
         l = doc_Shared left; r = doc_Shared right; ln = doc_NodeSpecific left; rn = doc_NodeSpecific right;
         v2 = (doc_SchemaVersion left \<ge> SchemaVersion \<or> doc_SchemaVersion right \<ge> SchemaVersion)
     in diff_add ''DNS'' ''Upstream DNS'' SharedManaged (j_strings (dns_UpstreamDNS (sh_DNS l))) (j_strings (dns_UpstreamDNS (sh_DNS r))) @
        diff_add ''DNS'' ''Bootstrap DNS'' SharedManaged (j_strings (dns_BootstrapDNS (sh_DNS l))) (j_strings (dns_BootstrapDNS (sh_DNS r))) @
        diff_add ''DNS'' ''Fallback DNS'' SharedManaged (j_strings (dns_FallbackDNS (sh_DNS l))) (j_strings (dns_FallbackDNS (sh_DNS r))) @
        diff_add ''DNS'' ''Private reverse DNS'' SharedManaged (j_strings (dns_PrivateReverseDNS (sh_DNS l))) (j_strings (dns_PrivateReverseDNS (sh_DNS r))) @
        (if v2 then diff_dns_v2 (sh_DNS l) (sh_DNS r) else []) @
        diff_add ''Filtering'' ''Enabled'' SharedManaged (JBool (flt_Enabled (sh_Filtering l))) (JBool (flt_Enabled (sh_Filtering r))) @
        diff_add ''Filtering'' ''Update interval'' SharedManaged (JInt (flt_UpdateInterval (sh_Filtering l))) (JInt (flt_UpdateInterval (sh_Filtering r))) @
        diff_add ''Filtering'' ''Filter subscriptions'' SharedManaged (j_strings (flt_FilterURLs (sh_Filtering l))) (j_strings (flt_FilterURLs (sh_Filtering r))) @
        (if v2 then diff_shared_v2 l r else []) @
        diff_add ''Filtering'' ''Custom rules'' SharedManaged (j_strings (flt_UserRules (sh_Filtering l))) (j_strings (flt_UserRules (sh_Filtering r))) @
        diff_add ''DNS'' ''Bind hosts'' NodeManaged (j_strings (ns_BindHosts ln)) (j_strings (ns_BindHosts rn)) @
        diff_add ''DNS'' ''DNS port'' NodeManaged (JInt (ns_DNSPort ln)) (JInt (ns_DNSPort rn)) @
        (if v2 then diff_add ''DHCP'' ''Configuration and static leases'' NodeManaged
           (j_pointer j_DHCPConfig (ns_DHCP ln)) (j_pointer j_DHCPConfig (ns_DHCP rn)) else []) @
        diff_add ''Compatibility'' ''Unsupported areas'' UnsupportedField
          (j_slice j_Unsupported (doc_Unsupported left)) (j_slice j_Unsupported (doc_Unsupported right)))"

definition valueOrNil :: "NodeSpecific option \<Rightarrow> json" where
  "valueOrNil v = j_pointer j_NodeSpecific v"

definition shared_document :: "Shared \<Rightarrow> Unsupported slice \<Rightarrow> Document" where
  "shared_document s u = \<lparr>doc_SchemaVersion = 0, doc_Shared = s, doc_NodeSpecific = zero_NodeSpecific,
     doc_ObservedOnly = zero_ObservedOnly, doc_Unsupported = u\<rparr>"

definition node_document :: "NodeSpecific \<Rightarrow> Document" where
  "node_document n = \<lparr>doc_SchemaVersion = 0, doc_Shared = zero_Shared, doc_NodeSpecific = n,
     doc_ObservedOnly = zero_ObservedOnly, doc_Unsupported = None\<rparr>"

definition override_diff :: "NodeSpecific gomap \<Rightarrow> NodeSpecific gomap \<Rightarrow> string \<Rightarrow> Difference list" where
  "override_diff left right i =
    (case (map_of left i, map_of right i) of
       (Some a, Some b) \<Rightarrow>
         map (\<lambda>d. d\<lparr>diff_Summary := diff_Summary d @ '' for '' @ i\<rparr>)
           (filter (\<lambda>d. diff_Scope d = NodeManaged) (Diff (node_document a) (node_document b)))
     | (a, b) \<Rightarrow>
         [\<lparr>diff_Section = ''DNS'', diff_Field = ''Node override'', diff_Scope = NodeManaged,
           diff_Left = valueOrNil a, diff_Right = valueOrNil b,
           diff_Summary = ''node override differs for '' @ i\<rparr>])"

definition DiffDesired :: "DesiredDocument \<Rightarrow> DesiredDocument \<Rightarrow> Difference list" where
  "DiffDesired left right =
    (let left = CanonicaliseDesired left; right = CanonicaliseDesired right;
         ordered = sort_slice (<) (remdups (map fst (des_NodeOverrides left) @ map fst (des_NodeOverrides right)))
     in Diff (shared_document (des_Shared left) (des_Unsupported left))
             (shared_document (des_Shared right) (des_Unsupported right)) @
        concat (map (override_diff (des_NodeOverrides left) (des_NodeOverrides right)) ordered))"

definition nodeSpecificDifferences :: "Document \<Rightarrow> Document \<Rightarrow> Difference list" where
  "nodeSpecificDifferences desired observed = filter (\<lambda>d. diff_Scope d = NodeManaged) (Diff desired observed)"

definition managedDifferences :: "Document \<Rightarrow> Document \<Rightarrow> Difference list" where
  "managedDifferences desired observed =
     filter (\<lambda>d. diff_Scope d = SharedManaged \<or> diff_Scope d = NodeManaged) (Diff desired observed)"

definition immutableNodeDifferences :: "Document \<Rightarrow> Document \<Rightarrow> Difference list" where
  "immutableNodeDifferences desired observed =
     filter (\<lambda>d. diff_Section d = ''DNS'') (nodeSpecificDifferences desired observed)"


subsection \<open>The JSON forms determine the values\<close>

text \<open>
  A Go map has no order; its association list is in the canonical order when the keys are
  strictly increasing. \<open>wf_Shared\<close> asks that of the two kinds of map a shared
  configuration holds, the days of the blocking schedules.
\<close>

definition gomap_wf :: "'v gomap \<Rightarrow> bool" where
  "gomap_wf m \<longleftrightarrow> sorted_wrt (<) (map fst m)"

definition wf_Shared :: "Shared \<Rightarrow> bool" where
  "wf_Shared s \<longleftrightarrow> gomap_wf (sched_Days (svc_BlockedSchedule (sh_Services s))) \<and>
     (\<forall>c \<in> set (elems (sh_Clients s)). gomap_wf (sched_Days (client_BlockedServicesSchedule c)))"

named_theorems j_inject "injectivity of the JSON forms"

lemma j_strings_inject [j_inject]: "j_strings a = j_strings b \<longleftrightarrow> a = b"
  by (simp add: j_strings_def inj_map_eq_map inj_def)

lemma map_inj_on_eq:
  "(\<And>x y. x \<in> set xs \<Longrightarrow> y \<in> set ys \<Longrightarrow> f x = f y \<Longrightarrow> x = y) \<Longrightarrow> map f xs = map f ys \<longleftrightarrow> xs = ys"
proof (induction xs arbitrary: ys)
  case (Cons x xs)
  then show ?case by (cases ys) fastforce+
qed auto

lemma j_slice_inject:
  "(\<And>x y. x \<in> set (elems s) \<Longrightarrow> y \<in> set (elems t) \<Longrightarrow> f x = f y \<Longrightarrow> x = y) \<Longrightarrow>
   j_slice f s = j_slice f t \<longleftrightarrow> s = t"
  by (auto simp: j_slice_def map_inj_on_eq split: option.splits)

lemma gomap_wf_sort: "gomap_wf m \<Longrightarrow> sort_slice (\<lambda>a b. fst a < fst b) m = m"
  by (rule sort_slice_id) (auto simp: gomap_wf_def strict_sorted_iff)

lemma j_map_inject:
  assumes "gomap_wf a" "gomap_wf b" "\<And>x y. f x = f y \<Longrightarrow> x = y"
  shows "j_map f a = j_map f b \<longleftrightarrow> a = b"
proof -
  have "map (\<lambda>(k, v). (k, f v)) a = map (\<lambda>(k, v). (k, f v)) b \<longleftrightarrow> a = b"
    by (rule map_inj_on_eq) (auto dest: assms(3))
  with assms(1,2) show ?thesis by (simp add: j_map_def gomap_wf_sort)
qed

lemma j_DayRange_inject [j_inject]: "j_DayRange a = j_DayRange b \<longleftrightarrow> a = b"
  by (cases a; cases b) (auto simp: j_DayRange_def)

lemma j_days_inject: "gomap_wf a \<Longrightarrow> gomap_wf b \<Longrightarrow> j_map j_DayRange a = j_map j_DayRange b \<longleftrightarrow> a = b"
  by (rule j_map_inject) (simp_all add: j_inject)

lemma j_Schedule_inject:
  "gomap_wf (sched_Days a) \<Longrightarrow> gomap_wf (sched_Days b) \<Longrightarrow> j_Schedule a = j_Schedule b \<longleftrightarrow> a = b"
  by (cases a; cases b) (simp add: j_Schedule_def j_days_inject)

lemma j_SafeSearch_inject [j_inject]: "j_SafeSearch a = j_SafeSearch b \<longleftrightarrow> a = b"
  by (cases a; cases b) (auto simp: j_SafeSearch_def omit_bool_def)

lemma j_PersistentClient_inject:
  assumes "gomap_wf (sched_Days (client_BlockedServicesSchedule a))"
    and "gomap_wf (sched_Days (client_BlockedServicesSchedule b))"
  shows "j_PersistentClient a = j_PersistentClient b \<longleftrightarrow> a = b"
  using assms by (cases a; cases b) (simp add: j_PersistentClient_def j_Schedule_inject j_inject)

lemma j_Rewrite_inject [j_inject]: "j_Rewrite a = j_Rewrite b \<longleftrightarrow> a = b"
  by (cases a; cases b) (simp add: j_Rewrite_def)

lemma j_QueryLogPolicy_inject [j_inject]: "j_QueryLogPolicy a = j_QueryLogPolicy b \<longleftrightarrow> a = b"
  by (cases a; cases b) (simp add: j_QueryLogPolicy_def j_inject)

lemma j_StatisticsPolicy_inject [j_inject]: "j_StatisticsPolicy a = j_StatisticsPolicy b \<longleftrightarrow> a = b"
  by (cases a; cases b) (simp add: j_StatisticsPolicy_def j_inject)

lemma j_DHCPStaticLease_inject [j_inject]: "j_DHCPStaticLease a = j_DHCPStaticLease b \<longleftrightarrow> a = b"
  by (cases a; cases b) (simp add: j_DHCPStaticLease_def)

lemma j_leases_inject [j_inject]: "j_slice j_DHCPStaticLease a = j_slice j_DHCPStaticLease b \<longleftrightarrow> a = b"
  by (rule j_slice_inject) (simp add: j_inject)

lemma j_rewrites_inject [j_inject]: "j_slice j_Rewrite a = j_slice j_Rewrite b \<longleftrightarrow> a = b"
  by (rule j_slice_inject) (simp add: j_inject)

lemma j_DHCPIPv4_inject [j_inject]: "j_DHCPIPv4 a = j_DHCPIPv4 b \<longleftrightarrow> a = b"
  by (cases a; cases b) (simp add: j_DHCPIPv4_def)

lemma j_DHCPIPv6_inject [j_inject]: "j_DHCPIPv6 a = j_DHCPIPv6 b \<longleftrightarrow> a = b"
  by (cases a; cases b) (simp add: j_DHCPIPv6_def)

lemma j_DHCPConfig_inject [j_inject]: "j_DHCPConfig a = j_DHCPConfig b \<longleftrightarrow> a = b"
  by (cases a; cases b) (simp add: j_DHCPConfig_def j_inject)

lemma j_DHCPConfig_not_null [simp]: "j_DHCPConfig c \<noteq> JNull" "JNull \<noteq> j_DHCPConfig c"
  by (simp_all add: j_DHCPConfig_def)

lemma j_dhcp_pointer_inject [j_inject]: "j_pointer j_DHCPConfig a = j_pointer j_DHCPConfig b \<longleftrightarrow> a = b"
  by (auto simp: j_pointer_def j_inject split: option.splits)

lemma j_Unsupported_inject [j_inject]: "j_Unsupported a = j_Unsupported b \<longleftrightarrow> a = b"
  by (cases a; cases b) (simp add: j_Unsupported_def)

lemma j_clients_inject:
  "wf_Shared s \<Longrightarrow> wf_Shared t \<Longrightarrow>
   j_slice j_PersistentClient (sh_Clients s) = j_slice j_PersistentClient (sh_Clients t) \<longleftrightarrow> sh_Clients s = sh_Clients t"
  by (rule j_slice_inject) (simp add: wf_Shared_def j_PersistentClient_inject)

lemma wf_canonicalShared: "wf_Shared s \<Longrightarrow> wf_Shared (canonicalShared s)"
  by (cases "sh_Clients s")
     (auto simp: wf_Shared_def canonicalShared_def canonicalSchedule_def canonicalClient_def)

subsection \<open>Differences are complete and sound\<close>

lemma diff_add_Nil [simp]: "diff_add sec f sc a b = [] \<longleftrightarrow> a = b"
  by (simp add: diff_add_def)

lemma filter_diff_add:
  "filter (\<lambda>d. P (diff_Scope d)) (diff_add sec f sc a b) = (if P sc then diff_add sec f sc a b else [])"
  by (simp add: diff_add_def)

lemma filter_section_diff_add:
  "filter (\<lambda>d. P (diff_Section d)) (diff_add sec f sc a b) = (if P sec then diff_add sec f sc a b else [])"
  by (simp add: diff_add_def)

lemmas filter_diff_add_scope =
  filter_diff_add [of "\<lambda>s. s = NodeManaged"]
  filter_diff_add [of "\<lambda>s. s = SharedManaged \<or> s = NodeManaged"]

lemma diff_dns_v2_Nil:
  "diff_dns_v2 l r = [] \<longleftrightarrow>
     l\<lparr>dns_UpstreamDNS := [], dns_BootstrapDNS := [], dns_FallbackDNS := [], dns_PrivateReverseDNS := []\<rparr> =
     r\<lparr>dns_UpstreamDNS := [], dns_BootstrapDNS := [], dns_FallbackDNS := [], dns_PrivateReverseDNS := []\<rparr>"
  by (cases l; cases r) (auto simp: diff_dns_v2_def j_inject)

lemma filter_diff_dns_v2:
  "filter (\<lambda>d. diff_Scope d = SharedManaged \<or> diff_Scope d = NodeManaged) (diff_dns_v2 l r) = diff_dns_v2 l r"
  "filter (\<lambda>d. diff_Scope d = NodeManaged) (diff_dns_v2 l r) = []"
  by (simp_all add: diff_dns_v2_def filter_diff_add_scope)

lemma filter_diff_shared_v2:
  "filter (\<lambda>d. diff_Scope d = SharedManaged \<or> diff_Scope d = NodeManaged) (diff_shared_v2 l r) = diff_shared_v2 l r"
  "filter (\<lambda>d. diff_Scope d = NodeManaged) (diff_shared_v2 l r) = []"
  by (simp_all add: diff_shared_v2_def filter_diff_add_scope)

lemmas diff_filters = filter_diff_dns_v2 filter_diff_shared_v2 filter_diff_add_scope

definition both_v2 :: "Document \<Rightarrow> Document \<Rightarrow> bool" where
  "both_v2 left right \<longleftrightarrow> doc_SchemaVersion (Canonicalise left) \<ge> SchemaVersion \<or>
     doc_SchemaVersion (Canonicalise right) \<ge> SchemaVersion"

lemma shared_diff_Nil:
  assumes "wf_Shared l" "wf_Shared r"
  shows "(dns_UpstreamDNS (sh_DNS l) = dns_UpstreamDNS (sh_DNS r) \<and>
     dns_BootstrapDNS (sh_DNS l) = dns_BootstrapDNS (sh_DNS r) \<and>
     dns_FallbackDNS (sh_DNS l) = dns_FallbackDNS (sh_DNS r) \<and>
     dns_PrivateReverseDNS (sh_DNS l) = dns_PrivateReverseDNS (sh_DNS r) \<and>
     diff_dns_v2 (sh_DNS l) (sh_DNS r) = [] \<and>
     flt_Enabled (sh_Filtering l) = flt_Enabled (sh_Filtering r) \<and>
     flt_UpdateInterval (sh_Filtering l) = flt_UpdateInterval (sh_Filtering r) \<and>
     flt_FilterURLs (sh_Filtering l) = flt_FilterURLs (sh_Filtering r) \<and>
     diff_shared_v2 l r = [] \<and>
     flt_UserRules (sh_Filtering l) = flt_UserRules (sh_Filtering r)) \<longleftrightarrow> l = r"
    (is "?L \<longleftrightarrow> _")
proof
  assume L: ?L
  then have "sh_DNS l = sh_DNS r"
    by (cases "sh_DNS l"; cases "sh_DNS r") (simp add: diff_dns_v2_Nil)
  moreover from L have "sh_Filtering l = sh_Filtering r"
    by (cases "sh_Filtering l"; cases "sh_Filtering r") (simp add: diff_shared_v2_def j_inject)
  moreover from L assms have "sh_Services l = sh_Services r"
    by (cases "sh_Services l"; cases "sh_Services r")
       (simp add: diff_shared_v2_def j_inject wf_Shared_def j_Schedule_inject)
  moreover from L assms have "sh_Clients l = sh_Clients r"
    by (simp add: diff_shared_v2_def j_clients_inject)
  moreover from L have "sh_Rewrites l = sh_Rewrites r \<and> sh_RewritesEnabled l = sh_RewritesEnabled r \<and>
      sh_QueryLog l = sh_QueryLog r \<and> sh_Statistics l = sh_Statistics r"
    by (simp add: diff_shared_v2_def j_inject)
  ultimately show "l = r" by (intro Shared.equality) simp_all
next
  assume "l = r"
  then show ?L by (simp add: diff_dns_v2_Nil diff_shared_v2_def)
qed

lemma node_diff_Nil:
  "(ns_BindHosts l = ns_BindHosts r \<and> ns_DNSPort l = ns_DNSPort r \<and> ns_DHCP l = ns_DHCP r) \<longleftrightarrow> l = r"
  for l r :: NodeSpecific
  by (cases l; cases r) auto

lemma managedDifferences_unfold:
  "managedDifferences left right = [] \<longleftrightarrow>
     (let l = canonicalShared (doc_Shared left); r = canonicalShared (doc_Shared right);
          ln = canonicalNodeSpecific (doc_NodeSpecific left); rn = canonicalNodeSpecific (doc_NodeSpecific right) in
     dns_UpstreamDNS (sh_DNS l) = dns_UpstreamDNS (sh_DNS r) \<and>
     dns_BootstrapDNS (sh_DNS l) = dns_BootstrapDNS (sh_DNS r) \<and>
     dns_FallbackDNS (sh_DNS l) = dns_FallbackDNS (sh_DNS r) \<and>
     dns_PrivateReverseDNS (sh_DNS l) = dns_PrivateReverseDNS (sh_DNS r) \<and>
     (both_v2 left right \<longrightarrow> diff_dns_v2 (sh_DNS l) (sh_DNS r) = []) \<and>
     flt_Enabled (sh_Filtering l) = flt_Enabled (sh_Filtering r) \<and>
     flt_UpdateInterval (sh_Filtering l) = flt_UpdateInterval (sh_Filtering r) \<and>
     flt_FilterURLs (sh_Filtering l) = flt_FilterURLs (sh_Filtering r) \<and>
     (both_v2 left right \<longrightarrow> diff_shared_v2 l r = []) \<and>
     flt_UserRules (sh_Filtering l) = flt_UserRules (sh_Filtering r) \<and>
     ns_BindHosts ln = ns_BindHosts rn \<and> ns_DNSPort ln = ns_DNSPort rn \<and>
     (both_v2 left right \<longrightarrow> ns_DHCP ln = ns_DHCP rn))"
  by (cases "both_v2 left right")
     (simp_all add: managedDifferences_def Diff_def Let_def diff_filters Canonicalise_fields(2,3)
       j_inject flip: both_v2_def)

lemma managedDifferences_iff:
  assumes "wf_Shared (doc_Shared left)" "wf_Shared (doc_Shared right)" "both_v2 left right"
  shows "managedDifferences left right = [] \<longleftrightarrow>
    doc_Shared (Canonicalise left) = doc_Shared (Canonicalise right) \<and>
    doc_NodeSpecific (Canonicalise left) = doc_NodeSpecific (Canonicalise right)"
  using shared_diff_Nil [OF wf_canonicalShared [OF assms(1)] wf_canonicalShared [OF assms(2)]] assms(3)
  by (simp add: managedDifferences_unfold Let_def Canonicalise_fields flip: node_diff_Nil) blast


subsection \<open>Canonical bodies\<close>

text \<open>
  What the control plane relies on when it compares hashes: a canonical form that is
  idempotent, and a body and hash computed from it. Both document types provide it.
\<close>

locale canonical_form =
  fixes canonical :: "'a \<Rightarrow> 'a" and encode :: "'a \<Rightarrow> json" and marshal :: "'a \<Rightarrow> string \<times> string"
  assumes canonical_idem: "canonical (canonical x) = canonical x"
    and marshal_eq: "marshal x = (json_encode (encode (canonical x)), sha256_hex (json_encode (encode (canonical x))))"
begin

lemma marshal_canonical: "marshal (canonical x) = marshal x"
  by (simp add: marshal_eq canonical_idem)

lemma same_canonical_same_hash: "canonical x = canonical y \<Longrightarrow> snd (marshal x) = snd (marshal y)"
  by (simp add: marshal_eq)

lemma hash_length: "length (snd (marshal x)) = 64"
  by (simp add: marshal_eq length_sha256_hex)

lemma body_determines: "fst (marshal x) = fst (marshal y) \<longleftrightarrow> encode (canonical x) = encode (canonical y)"
  by (simp add: marshal_eq)

end

interpretation observed: canonical_form Canonicalise j_Document Marshal
  by unfold_locales (simp_all add: canon Marshal_def Let_def)

interpretation desired: canonical_form CanonicaliseDesired j_DesiredDocument MarshalDesired
  by unfold_locales (simp_all add: canon MarshalDesired_def Let_def)


subsection \<open>Differences of desired documents\<close>

lemma unsupported_inject: "j_slice j_Unsupported a = j_slice j_Unsupported b \<longleftrightarrow> a = b"
  by (rule j_slice_inject) (simp add: j_inject)

lemma Diff_Nil:
  "Diff left right = [] \<longleftrightarrow> managedDifferences left right = [] \<and>
     doc_Unsupported (Canonicalise left) = doc_Unsupported (Canonicalise right)"
  by (simp add: Diff_def managedDifferences_def Let_def diff_filters j_inject unsupported_inject)

lemma nodeSpecificDifferences_iff:
  assumes "both_v2 left right"
  shows "nodeSpecificDifferences left right = [] \<longleftrightarrow>
    doc_NodeSpecific (Canonicalise left) = doc_NodeSpecific (Canonicalise right)"
  using assms
  by (simp add: nodeSpecificDifferences_def Diff_def Let_def diff_filters j_inject Canonicalise_fields(2,3)
      flip: both_v2_def node_diff_Nil)

lemma both_v2_zero [simp]:
  "both_v2 (shared_document s u) (shared_document t v)" "both_v2 (node_document m) (node_document n)"
  by (simp_all add: both_v2_def Canonicalise_fields canonicalSchema_def shared_document_def node_document_def)

lemma node_document_field: "doc_NodeSpecific (node_document n) = n"
  by (simp add: node_document_def)

lemma override_diff_Nil:
  "override_diff l r i = [] \<longleftrightarrow>
     (\<exists>a b. map_of l i = Some a \<and> map_of r i = Some b \<and> canonicalNodeSpecific a = canonicalNodeSpecific b)"
proof (cases "\<exists>a b. map_of l i = Some a \<and> map_of r i = Some b")
  case True
  then obtain a b where ab: "map_of l i = Some a" "map_of r i = Some b" by blast
  have "override_diff l r i = [] \<longleftrightarrow> nodeSpecificDifferences (node_document a) (node_document b) = []"
    by (simp add: override_diff_def ab nodeSpecificDifferences_def)
  also have "\<dots> \<longleftrightarrow> canonicalNodeSpecific a = canonicalNodeSpecific b"
    by (subst nodeSpecificDifferences_iff) (simp_all add: Canonicalise_fields node_document_field)
  finally show ?thesis by (simp add: ab)
qed (auto simp: override_diff_def split: option.splits)

lemma shared_document_diff:
  assumes "wf_Shared s" "wf_Shared t"
  shows "Diff (shared_document s u) (shared_document t v) = [] \<longleftrightarrow>
    canonicalShared s = canonicalShared t \<and>
    map_option (sort_slice unsupported_less) u = map_option (sort_slice unsupported_less) v"
proof -
  have "managedDifferences (shared_document s u) (shared_document t v) = [] \<longleftrightarrow> canonicalShared s = canonicalShared t"
    using assms managedDifferences_iff [of "shared_document s u" "shared_document t v"] both_v2_zero(1) [of s u t v]
    by (simp add: Canonicalise_fields shared_document_def)
  then show ?thesis
    by (simp add: Diff_Nil Canonicalise_fields shared_document_def canonicalSchema_def)
qed

lemma map_of_eq_keys:
  assumes "\<forall>i \<in> fst ` set l \<union> fst ` set r. \<exists>a. map_of l i = Some a \<and> map_of r i = Some a"
  shows "map_of l = map_of r"
proof
  fix i
  show "map_of l i = map_of r i"
  proof (cases "i \<in> fst ` set l \<union> fst ` set r")
    case True
    with assms show ?thesis by force
  next
    case False
    then have "map_of l i = None" "map_of r i = None" by (simp_all add: map_of_eq_None_iff)
    then show ?thesis by simp
  qed
qed

lemma DiffDesired_Nil:
  assumes "wf_Shared (des_Shared l)" "wf_Shared (des_Shared r)"
  shows "DiffDesired l r = [] \<longleftrightarrow>
    des_Shared (CanonicaliseDesired l) = des_Shared (CanonicaliseDesired r) \<and>
    map_of (des_NodeOverrides (CanonicaliseDesired l)) = map_of (des_NodeOverrides (CanonicaliseDesired r)) \<and>
    des_Unsupported (CanonicaliseDesired l) = des_Unsupported (CanonicaliseDesired r)"
proof -
  let ?L = "des_NodeOverrides (CanonicaliseDesired l)" and ?R = "des_NodeOverrides (CanonicaliseDesired r)"
  have "(\<forall>i \<in> fst ` set ?L \<union> fst ` set ?R. override_diff ?L ?R i = []) \<longleftrightarrow> map_of ?L = map_of ?R"
  proof
    assume *: "\<forall>i \<in> fst ` set ?L \<union> fst ` set ?R. override_diff ?L ?R i = []"
    show "map_of ?L = map_of ?R"
    proof (rule map_of_eq_keys, rule ballI)
      fix i assume "i \<in> fst ` set ?L \<union> fst ` set ?R"
      with * have "override_diff ?L ?R i = []" by blast
      then show "\<exists>a. map_of ?L i = Some a \<and> map_of ?R i = Some a"
        by (auto simp: override_diff_Nil map_of_canonical_overrides canon)
    qed
  next
    assume "map_of ?L = map_of ?R"
    moreover from this have "fst ` set ?L = fst ` set ?R" by (metis dom_map_of_conv_image_fst)
    ultimately show "\<forall>i \<in> fst ` set ?L \<union> fst ` set ?R. override_diff ?L ?R i = []"
      by (auto simp: override_diff_Nil dest!: weak_map_of_SomeI)
  qed
  moreover have "DiffDesired l r = [] \<longleftrightarrow>
      Diff (shared_document (des_Shared (CanonicaliseDesired l)) (des_Unsupported (CanonicaliseDesired l)))
           (shared_document (des_Shared (CanonicaliseDesired r)) (des_Unsupported (CanonicaliseDesired r))) = [] \<and>
      (\<forall>i \<in> fst ` set ?L \<union> fst ` set ?R. override_diff ?L ?R i = [])"
    by (auto simp: DiffDesired_def Let_def)
  moreover have "wf_Shared (des_Shared (CanonicaliseDesired l))" "wf_Shared (des_Shared (CanonicaliseDesired r))"
    using assms by (simp_all add: CanonicaliseDesired_fields wf_canonicalShared)
  ultimately show ?thesis
    by (simp add: shared_document_diff CanonicaliseDesired_fields(2,4) canon) blast
qed


subsection \<open>The effective document of a node\<close>

lemma Effective_cases:
  "Effective d i = (case map_of (des_NodeOverrides d) i of
      None \<Rightarrow> Inl (PlainError (''node '' @ i @ '' has no desired override''))
    | Some n \<Rightarrow> Inr (Canonicalise \<lparr>doc_SchemaVersion = des_SchemaVersion (CanonicaliseDesired d),
        doc_Shared = des_Shared d, doc_NodeSpecific = n, doc_ObservedOnly = zero_ObservedOnly,
        doc_Unsupported = des_Unsupported (CanonicaliseDesired d)\<rparr>))"
  by (auto simp: Effective_def Let_def map_of_canonical_overrides Canonicalise_def CanonicaliseDesired_fields(2) canon
      case_prod_unfold split: option.splits)

lemma Effective_Inr:
  assumes "Effective d i = Inr e"
  shows "\<exists>n. map_of (des_NodeOverrides d) i = Some n \<and> doc_NodeSpecific e = canonicalNodeSpecific n"
    and "doc_Shared e = canonicalShared (des_Shared d)" and "Canonicalise e = e"
    and "doc_ObservedOnly e = zero_ObservedOnly"
    and "doc_SchemaVersion e = des_SchemaVersion (CanonicaliseDesired d)"
proof -
  from assms obtain n where n: "map_of (des_NodeOverrides d) i = Some n"
    and e: "e = Canonicalise \<lparr>doc_SchemaVersion = des_SchemaVersion (CanonicaliseDesired d),
        doc_Shared = des_Shared d, doc_NodeSpecific = n, doc_ObservedOnly = zero_ObservedOnly,
        doc_Unsupported = des_Unsupported (CanonicaliseDesired d)\<rparr>"
    by (auto simp: Effective_cases split: option.splits)
  show "\<exists>n. map_of (des_NodeOverrides d) i = Some n \<and> doc_NodeSpecific e = canonicalNodeSpecific n"
    using n by (simp add: e Canonicalise_fields)
  show "doc_Shared e = canonicalShared (des_Shared d)" by (simp add: e Canonicalise_fields)
  show "Canonicalise e = e" by (simp add: e canon)
  show "doc_ObservedOnly e = zero_ObservedOnly"
    by (simp add: e Canonicalise_def Let_def case_prod_unfold zero_ObservedOnly_def zero_TLSStatus_def cleanSet_def sort_slice_def)
  have "canonicalSchema (fst (canonicalSchema v u)) w = (fst (canonicalSchema v u), w)" for v u w
    by (rule canonicalSchema_stable) (rule canonicalSchema_version)
  then show "doc_SchemaVersion e = des_SchemaVersion (CanonicaliseDesired d)"
    by (simp add: e Canonicalise_fields CanonicaliseDesired_fields(1))
qed


subsection \<open>Properties\<close>

text \<open>
  Canonicalising a desired document changes neither its canonical body nor its hash, and
  a canonical document is a fixed point: publishing, reading back and re-encoding a revision
  keeps the hash the control plane compares.
\<close>

lemma CanonicaliseDesired_stable:
  "CanonicaliseDesired (CanonicaliseDesired d) = CanonicaliseDesired d \<and>
   MarshalDesired (CanonicaliseDesired d) = MarshalDesired d \<and> length (snd (MarshalDesired d)) = 64"
  by (simp add: desired.canonical_idem desired.marshal_canonical desired.hash_length)

text \<open>
  C17: The comparison of two published revisions is exact: the list of differences is empty
  exactly when the canonical documents have the same shared configuration, the same override
  for every node and the same unsupported areas.
\<close>

theorem DiffDesired_exact:
  assumes "wf_Shared (des_Shared l)" "wf_Shared (des_Shared r)"
  shows "DiffDesired l r = [] \<longleftrightarrow>
    des_Shared (CanonicaliseDesired l) = des_Shared (CanonicaliseDesired r) \<and>
    map_of (des_NodeOverrides (CanonicaliseDesired l)) = map_of (des_NodeOverrides (CanonicaliseDesired r)) \<and>
    des_Unsupported (CanonicaliseDesired l) = des_Unsupported (CanonicaliseDesired r)"
  by (rule DiffDesired_Nil [OF assms])

definition sample_override :: NodeSpecific where
  "sample_override = zero_NodeSpecific\<lparr>ns_BindHosts := [''0.0.0.0''], ns_DNSPort := 53\<rparr>"

definition sample_revision :: DesiredDocument where
  "sample_revision = \<lparr>des_SchemaVersion = SchemaVersion, des_Shared = zero_Shared,
     des_NodeOverrides = [(''n'', sample_override)], des_Unsupported = Some []\<rparr>"

definition sample_observation :: Document where
  "sample_observation = \<lparr>doc_SchemaVersion = SchemaVersion, doc_Shared = zero_Shared,
     doc_NodeSpecific = sample_override\<lparr>ns_BindHosts := ['' 0.0.0.0 '', ''0.0.0.0'']\<rparr>,
     doc_ObservedOnly = zero_ObservedOnly, doc_Unsupported = None\<rparr>"

lemma wf_zero_Shared: "wf_Shared zero_Shared"
  by (simp add: wf_Shared_def zero_Shared_def zero_Schedule_def gomap_wf_def)

theorem DiffDesired_exact_witness:
  "DiffDesired sample_revision (sample_revision\<lparr>des_NodeOverrides := []\<rparr>) \<noteq> []"
proof -
  have "map_of (des_NodeOverrides (CanonicaliseDesired sample_revision)) ''n'' \<noteq> None"
    by (simp add: map_of_canonical_overrides sample_revision_def)
  then show ?thesis
    using DiffDesired_exact [of sample_revision "sample_revision\<lparr>des_NodeOverrides := []\<rparr>"]
    by (auto simp: sample_revision_def wf_zero_Shared CanonicaliseDesired_fields(3))
qed

text \<open>
  C11: The verification after an apply is exact: the managed differences between the
  effective document of a node and the configuration read back from it are empty exactly
  when the canonical observation carries the shared configuration of the revision and the
  override of that node, field by field, in every managed field.
\<close>

theorem verification_exact:
  assumes "Effective d i = Inr desired" and "des_SchemaVersion (CanonicaliseDesired d) \<ge> SchemaVersion"
    and "wf_Shared (des_Shared d)" "wf_Shared (doc_Shared observed)"
  shows "managedDifferences desired observed = [] \<longleftrightarrow>
    doc_Shared (Canonicalise observed) = des_Shared (CanonicaliseDesired d) \<and>
    Some (doc_NodeSpecific (Canonicalise observed)) = map_of (des_NodeOverrides (CanonicaliseDesired d)) i"
proof -
  note e = Effective_Inr [OF assms(1)]
  from e(3,5) assms(2) have "both_v2 desired observed" by (simp add: both_v2_def)
  moreover have "wf_Shared (doc_Shared desired)" by (simp add: e(2) wf_canonicalShared assms(3))
  ultimately have "managedDifferences desired observed = [] \<longleftrightarrow>
      doc_Shared desired = doc_Shared (Canonicalise observed) \<and>
      doc_NodeSpecific desired = doc_NodeSpecific (Canonicalise observed)"
    using assms(4) by (simp add: managedDifferences_iff e(3))
  then show ?thesis
    using e(1) by (auto simp: e(2) CanonicaliseDesired_fields(2) map_of_canonical_overrides)
qed

theorem verification_exact_witness:
  "\<exists>desired. Effective sample_revision ''n'' = Inr desired \<and> managedDifferences desired sample_observation = []"
proof -
  obtain e where e: "Effective sample_revision ''n'' = Inr e"
    by (simp add: Effective_cases sample_revision_def)
  have "map_of (des_NodeOverrides (CanonicaliseDesired sample_revision)) ''n'' =
      Some (doc_NodeSpecific (Canonicalise sample_observation))"
    "doc_Shared (Canonicalise sample_observation) = des_Shared (CanonicaliseDesired sample_revision)"
    "des_SchemaVersion (CanonicaliseDesired sample_revision) \<ge> SchemaVersion"
    by code_simp+
  with verification_exact [OF e] have "managedDifferences e sample_observation = []"
    by (simp add: sample_revision_def sample_observation_def wf_zero_Shared)
  with e show ?thesis by blast
qed

end
