(* ===== verification/Safe_Metadata.thy ===== *)
theory Safe_Metadata
  imports Domain
begin

text \<open>
  The boundary of the audit stream, \<open>internal/audit/metadata.go\<close>: \<open>SafeMetadata\<close> redacts the
  values of sensitive keys at every depth and bounds depth, width and length of what is
  stored. Metadata is JSON; \<open>[]string\<close> values are arrays of strings, as the code converts
  them. Keys are normalised over ASCII letters and digits; every byte outside ASCII is kept
  as it is.
\<close>

definition maxMetadataDepth :: nat where "maxMetadataDepth = 4"
definition maxMetadataKeys :: nat where "maxMetadataKeys = 64"
definition maxMetadataArray :: nat where "maxMetadataArray = 32"
definition maxMetadataString :: int where "maxMetadataString = 512"
definition maxMetadataBudget :: int where "maxMetadataBudget = 8192"

definition sensitiveMetadataKeys :: "string list" where
  "sensitiveMetadataKeys =
    [''authorization'', ''certificatebody'', ''certificatepem'', ''clientidentifier'',
     ''clientidentity'', ''credential'', ''credentialencryptionmaterial'', ''credentialnonce'',
     ''credentials'', ''csrftoken'', ''customcapem'', ''destination'', ''encryptedcredentials'',
     ''nodecredentials'', ''password'', ''passwordhash'', ''privatekey'', ''query'',
     ''querycontents'', ''queryname'', ''rawerror'', ''responsebody'', ''rule'', ''rules'',
     ''secret'', ''secrets'', ''sessiontoken'', ''token'', ''username'', ''webhooksecret'',
     ''totp'', ''totpcode'', ''otpcode'', ''recoverycode'', ''recoverycodehash'',
     ''provisioninguri'', ''qrcode'', ''qrcodepayload'']"

definition sensitive_fragments :: "string list" where
  "sensitive_fragments =
    [''password'', ''passwd'', ''token'', ''secret'', ''credential'', ''authorization'',
     ''privatekey'', ''certificatebody'', ''certificatepem'', ''customcapem'', ''rawerror'',
     ''rawnodeerror'', ''responsebody'', ''querycontents'', ''queryname'', ''querytext'',
     ''clientidentity'', ''clientidentifier'', ''destination'', ''webhookurl'',
     ''totp'', ''otpcode'', ''recoverycode'', ''provisioninguri'', ''qrcode'']"

definition normal_char :: "char \<Rightarrow> bool" where
  "normal_char c \<longleftrightarrow> (let n = of_char c :: nat in
     48 \<le> n \<and> n \<le> 57 \<or> 65 \<le> n \<and> n \<le> 90 \<or> 97 \<le> n \<and> n \<le> 122 \<or> 128 \<le> n)"

definition normalized_key :: "string \<Rightarrow> string" where
  "normalized_key key = ToLower (filter normal_char key)"

fun contains :: "string \<Rightarrow> string \<Rightarrow> bool" where
  "contains [] f \<longleftrightarrow> f = []"
| "contains (c # s) f \<longleftrightarrow> prefix f (c # s) \<or> contains s f"

definition sensitiveMetadataKey :: "string \<Rightarrow> bool" where
  "sensitiveMetadataKey key =
    (let normalized = normalized_key key in
     if normalized \<in> set sensitiveMetadataKeys then True
     else if normalized = ''destinationsummary'' \<or> normalized = ''destinationreplaced'' \<or> prefix ''querylog'' normalized
       then False
     else if list_ex (contains normalized) sensitive_fragments then True
     else suffix ''rule'' normalized \<or> suffix ''rules'' normalized)"

text \<open>
  \<open>[]rune(value)\<close> as the list of the byte sequences of the runes; an invalid byte decodes to
  the replacement character.
\<close>

function runes :: "string \<Rightarrow> string list" where
  "runes s = (if s = [] then []
     else (if rune_len s = 1 \<and> 128 \<le> (of_char (hd s) :: nat) then [CHR 0xEF, CHR 0xBF, CHR 0xBD]
           else take (rune_len s) s) # runes (drop (rune_len s) s))"
  by pat_completeness auto
termination
  by (relation "measure length") (auto simp: rune_len_pos)

declare runes.simps [simp del]

lemma runes_Nil [simp]: "runes [] = []"
  by (simp add: runes.simps)

definition ellipsis :: string where
  "ellipsis = [CHR 0xE2, CHR 0x80, CHR 0xA6]"

definition boundedString :: "string \<Rightarrow> int \<Rightarrow> string \<times> int" where
  "boundedString value budget =
    (let limit = (if budget < maxMetadataString then budget else maxMetadataString);
         rs = runes value;
         value = (if int (length rs) > limit then concat (take (nat limit) rs) @ ellipsis else value)
     in (value, budget - int (length (runes value))))"

definition truncated_object :: json where
  "truncated_object = JObject [(''truncated'', JBool True)]"

lemma size_list_mset: "mset xs = mset ys \<Longrightarrow> size_list f xs = size_list f ys"
proof -
  assume *: "mset xs = mset ys"
  have "sum_list (map f xs) = sum_list (map f ys)"
    by (metis * mset_map sum_mset_sum_list)
  with mset_eq_length [OF *] show ?thesis by (simp add: size_list_conv_sum_list)
qed

lemma size_list_take: "size_list f (take n xs) \<le> size_list f xs"
proof (induction xs arbitrary: n)
  case (Cons x xs)
  then show ?case by (cases n) simp_all
qed simp

definition first_fields :: "json gomap \<Rightarrow> json gomap" where
  "first_fields m = take maxMetadataKeys (sort_slice (\<lambda>a b. fst a < fst b) m)"

lemma first_fields_size: "size_list f (first_fields m) \<le> size_list f m"
  using size_list_take [of f maxMetadataKeys "sort_slice (\<lambda>a b. fst a < fst b) m"]
    size_list_mset [of "sort_slice (\<lambda>a b. fst a < fst b) m" m f]
  by (simp add: first_fields_def)

text \<open>
  \<open>safeValue\<close>, the key loop of \<open>safeObject\<close> and the item loop of the array case. The
  budget is threaded; \<open>depth\<close> is that of the enclosing object or array in the two loops.
\<close>

function safeValue :: "json \<Rightarrow> nat \<Rightarrow> int \<Rightarrow> json \<times> int"
  and safe_fields :: "json gomap \<Rightarrow> json gomap \<Rightarrow> nat \<Rightarrow> int \<Rightarrow> json gomap \<times> int"
  and safe_items :: "json list \<Rightarrow> nat \<Rightarrow> int \<Rightarrow> json list \<times> int" where
  "safeValue input depth budget =
    (if budget \<le> 0 then (JString ''[TRUNCATED]'', budget)
     else case input of
       JString s \<Rightarrow> (let (s, budget) = boundedString s budget in (JString s, budget))
     | JObject m \<Rightarrow>
         if depth \<ge> maxMetadataDepth then (truncated_object, budget)
         else (let (result, budget) = safe_fields [] (first_fields m) depth budget
               in (JObject (if length m > length (first_fields m) then AList.update ''truncated'' (JBool True) result
                            else result), budget))
     | JArray vs \<Rightarrow>
         if depth \<ge> maxMetadataDepth then (JArray [JString ''[TRUNCATED]''], budget)
         else (let (result, budget) = safe_items (take maxMetadataArray vs) depth budget
               in (JArray (if length vs > maxMetadataArray then result @ [JString ''[TRUNCATED]''] else result), budget))
     | v \<Rightarrow> (v, budget))"
| "safe_fields result [] depth budget = (result, budget)"
| "safe_fields result ((key, v) # rest) depth budget =
    (if budget \<le> 0 then (AList.update ''truncated'' (JBool True) result, budget)
     else (let budget = budget - int (length key) in
       if sensitiveMetadataKey key
       then safe_fields (AList.update key (JString ''[REDACTED]'') result) rest depth budget
       else (let (v, budget) = safeValue v (Suc depth) budget
             in safe_fields (AList.update key v result) rest depth budget)))"
| "safe_items [] depth budget = ([], budget)"
| "safe_items (v # vs) depth budget =
    (let (v, budget) = safeValue v (Suc depth) budget; (vs, budget) = safe_items vs depth budget
     in (v # vs, budget))"
  by pat_completeness auto
termination
  apply (relation "measure (\<lambda>x. case x of Inl (v, _, _) \<Rightarrow> size v
      | Inr (Inl (_, m, _, _)) \<Rightarrow> size_list (size_prod (\<lambda>_. 0) size) m
      | Inr (Inr (vs, _, _)) \<Rightarrow> size_list size vs)")
  apply (auto simp: less_Suc_eq_le first_fields_size size_list_take)
  done

declare safeValue.simps [simp del]

definition safeObject :: "json gomap \<Rightarrow> nat \<Rightarrow> int \<Rightarrow> json gomap \<times> int" where
  "safeObject input depth budget =
    (if depth \<ge> maxMetadataDepth \<or> budget \<le> 0 then ([(''truncated'', JBool True)], budget)
     else (let (result, budget) = safe_fields [] (first_fields input) depth budget
           in (if length input > length (first_fields input) then AList.update ''truncated'' (JBool True) result
               else result, budget)))"

definition SafeMetadata :: "json gomap \<Rightarrow> json gomap" where
  "SafeMetadata metadata = fst (safeObject metadata 0 maxMetadataBudget)"


subsection \<open>Nothing sensitive and nothing unbounded is stored\<close>

text \<open>\<open>clean\<close>: at every depth a sensitive key holds the redaction marker.\<close>

fun clean :: "json \<Rightarrow> bool" where
  "clean (JObject m) \<longleftrightarrow> (\<forall>(k, v) \<in> set m. if sensitiveMetadataKey k then v = JString ''[REDACTED]'' else clean v)"
| "clean (JArray vs) \<longleftrightarrow> (\<forall>v \<in> set vs. clean v)"
| "clean v \<longleftrightarrow> True"

text \<open>\<open>bounded n\<close>: at most \<open>n\<close> nested containers, each of bounded width, and short strings.\<close>

fun bounded :: "nat \<Rightarrow> json \<Rightarrow> bool" where
  "bounded n (JObject m) \<longleftrightarrow> 0 < n \<and> length m \<le> Suc maxMetadataKeys \<and> (\<forall>(k, v) \<in> set m. bounded (n - 1) v)"
| "bounded n (JArray vs) \<longleftrightarrow> 0 < n \<and> length vs \<le> Suc maxMetadataArray \<and> (\<forall>v \<in> set vs. bounded (n - 1) v)"
| "bounded n (JString s) \<longleftrightarrow> length s \<le> 2051"
| "bounded n v \<longleftrightarrow> True"

lemma truncated_not_sensitive [simp]: "\<not> sensitiveMetadataKey ''truncated''"
  by code_simp

lemma set_AList_update: "x \<in> set (AList.update k v m) \<Longrightarrow> x = (k, v) \<or> x \<in> set m"
  by (induction m) (auto split: if_splits)

lemma clean_update:
  "clean (JObject m) \<Longrightarrow> (if sensitiveMetadataKey k then v = JString ''[REDACTED]'' else clean v) \<Longrightarrow>
   clean (JObject (AList.update k v m))"
  by (auto dest!: set_AList_update simp del: update.simps split: if_splits)

lemma safe_clean:
  "clean (fst (safeValue v depth budget))"
  "clean (JObject acc) \<Longrightarrow> clean (JObject (fst (safe_fields acc m depth budget)))"
  "\<forall>x \<in> set (fst (safe_items vs depth budget)). clean x"
proof (induction v depth budget and acc m depth budget and vs depth budget rule: safeValue_safe_fields_safe_items.induct)
  case (1 input depth budget)
  have empty: "clean (JObject [])" by simp
  show ?case
  proof (cases input)
    case (JObject m)
    with 1(2) [of m] empty show ?thesis
      by (simp add: safeValue.simps truncated_object_def clean_update case_prod_unfold Let_def del: clean.simps(1))
         simp
  next
    case (JArray vs)
    with 1(1) [of vs] show ?thesis
      by (auto simp: safeValue.simps case_prod_unfold Let_def)
  qed (simp_all add: safeValue.simps case_prod_unfold Let_def)
next
  case (3 result key v rest depth budget)
  then show ?case
    by (cases "budget \<le> 0"; cases "sensitiveMetadataKey key")
       (simp_all add: clean_update Let_def case_prod_unfold del: clean.simps(1))
next
  case (5 v vs depth budget)
  obtain w b where "safeValue v (Suc depth) budget = (w, b)" by fastforce
  with 5 show ?case by (simp add: case_prod_unfold Let_def)
qed simp_all

lemma rune_len_le: "rune_len s \<le> 4"
  by (simp add: rune_len_def Let_def)

lemma runes_length: "length s \<le> 4 * length (runes s)"
proof (induction s rule: runes.induct)
  case (1 s)
  then show ?case
    using rune_len_le [of s] by (cases "s = []") (auto simp: runes.simps [of s])
qed

lemma runes_width: "r \<in> set (runes s) \<Longrightarrow> length r \<le> 4"
proof (induction s rule: runes.induct)
  case (1 s)
  then show ?case
    using rune_len_le [of s] by (cases "s = []") (auto simp: runes.simps [of s] split: if_splits)
qed

lemma concat_width: "(\<And>r. r \<in> set rs \<Longrightarrow> length r \<le> n) \<Longrightarrow> length (concat rs) \<le> n * length rs"
  by (induction rs) (simp_all add: add_mono)

lemma boundedString_length: "0 < budget \<Longrightarrow> length (fst (boundedString s budget)) \<le> 2051"
proof -
  assume b: "0 < budget"
  define limit where "limit = (if budget < maxMetadataString then budget else maxMetadataString)"
  from b have limit: "0 \<le> limit" "nat limit \<le> 512" by (auto simp: limit_def maxMetadataString_def)
  show ?thesis
  proof (cases "int (length (runes s)) > limit")
    case True
    have "length (concat (take (nat limit) (runes s))) \<le> 4 * length (take (nat limit) (runes s))"
      by (rule concat_width) (auto dest: in_set_takeD runes_width)
    with limit True show ?thesis
      by (simp add: boundedString_def Let_def ellipsis_def flip: limit_def)
  next
    case False
    with limit runes_length [of s] show ?thesis
      by (simp add: boundedString_def Let_def flip: limit_def)
  qed
qed

lemma length_update: "length (AList.update k v m) \<le> Suc (length m)"
  by (induction m) auto

lemma first_fields_length: "length (first_fields m) \<le> maxMetadataKeys"
  by (simp add: first_fields_def)

lemma safe_fields_length: "length (fst (safe_fields acc m depth budget)) \<le> length acc + length m"
proof (induction m arbitrary: acc budget)
  case (Cons a m)
  obtain k v where a: "a = (k, v)" by fastforce
  show ?case
  proof (cases "budget \<le> 0")
    case True
    then show ?thesis using length_update [of "''truncated''" "JBool True" acc] by (simp add: a)
  next
    case False
    have "length (fst (safe_fields (AList.update k w acc) m depth b)) \<le> Suc (length acc + length m)" for w b
      using Cons [of "AList.update k w acc" b] length_update [of k w acc] by linarith
    with False show ?thesis by (simp add: a Let_def case_prod_unfold)
  qed
qed simp

lemma safe_items_length [simp]: "length (fst (safe_items vs depth budget)) = length vs"
  by (induction vs arbitrary: budget) (simp_all add: Let_def case_prod_unfold)

lemma fields_update:
  "(\<forall>x \<in> set m. P (snd x)) \<Longrightarrow> P w \<Longrightarrow> \<forall>x \<in> set (AList.update key w m). P (snd x)"
  by (auto dest!: set_AList_update)

lemma safe_bounded:
  "depth \<le> 4 \<Longrightarrow> bounded (5 - depth) (fst (safeValue v depth budget))"
  "depth < 4 \<Longrightarrow> \<forall>(k, v) \<in> set acc. bounded (4 - depth) v \<Longrightarrow>
     \<forall>(k, v) \<in> set (fst (safe_fields acc m depth budget)). bounded (4 - depth) v"
  "depth < 4 \<Longrightarrow> \<forall>x \<in> set (fst (safe_items vs depth budget)). bounded (4 - depth) x"
proof (induction v depth budget and acc m depth budget and vs depth budget rule: safeValue_safe_fields_safe_items.induct)
  case (1 input depth budget)
  show ?case
  proof (cases "budget \<le> 0 \<or> depth \<ge> 4")
    case True
    with 1(3) show ?thesis
      by (cases input) (auto simp: safeValue.simps truncated_object_def maxMetadataDepth_def boundedString_length
          maxMetadataKeys_def maxMetadataArray_def case_prod_unfold Let_def)
  next
    case False
    show ?thesis
    proof (cases input)
      case (JObject m)
      let ?r = "fst (safe_fields [] (first_fields m) depth budget)"
      from False 1(2) [of m] JObject have *: "\<forall>(k, v) \<in> set ?r. bounded (4 - depth) v"
        by (simp add: maxMetadataDepth_def)
      have "length ?r \<le> maxMetadataKeys"
        using safe_fields_length [of "[]" "first_fields m" depth budget] first_fields_length [of m] by simp
      then have "length (AList.update ''truncated'' (JBool True) ?r) \<le> Suc maxMetadataKeys" "length ?r \<le> Suc maxMetadataKeys"
        using length_update [of "''truncated''" "JBool True" ?r] by linarith+
      moreover from * have "\<forall>x \<in> set (AList.update ''truncated'' (JBool True) ?r). bounded (4 - depth) (snd x)"
        by (intro fields_update) (auto simp: case_prod_unfold)
      moreover from False have "5 - depth - 1 = 4 - depth" "0 < 5 - depth" by simp_all
      ultimately show ?thesis
        using False * by (simp add: JObject safeValue.simps maxMetadataDepth_def case_prod_unfold Let_def
            del: update.simps)
    next
      case (JArray vs)
      with False 1(1) [of vs] show ?thesis
        by (auto simp: safeValue.simps maxMetadataDepth_def case_prod_unfold Let_def)
    qed (use False in \<open>simp_all add: safeValue.simps case_prod_unfold boundedString_length Let_def\<close>)
  qed
next
  case (3 result key v rest depth budget)
  have upd: "\<forall>(k, v) \<in> set (AList.update key w result). bounded (4 - depth) v"
    if "bounded (4 - depth) w" for key w
    using that 3(5) by (auto dest!: set_AList_update simp del: update.simps)
  show ?case
  proof (cases "budget \<le> 0")
    case True
    then show ?thesis using upd [of "JBool True" "''truncated''"] by simp
  next
    case False
    obtain w b where w: "safeValue v (Suc depth) (budget - int (length key)) = (w, b)" by fastforce
    from False 3 w upd [of "JString ''[REDACTED]''" key] upd [of w key] show ?thesis
      by (cases "sensitiveMetadataKey key") (simp_all add: Let_def)
  qed
next
  case (5 v vs depth budget)
  obtain w b where "safeValue v (Suc depth) budget = (w, b)" by fastforce
  with 5 show ?case by (simp add: case_prod_unfold Let_def)
qed simp_all


lemma safeObject_value: "0 < budget \<Longrightarrow> JObject (fst (safeObject m depth budget)) = fst (safeValue (JObject m) depth budget)"
  by (simp add: safeObject_def safeValue.simps truncated_object_def case_prod_unfold Let_def)

lemma SafeMetadata_value: "JObject (SafeMetadata m) = fst (safeValue (JObject m) 0 maxMetadataBudget)"
  unfolding SafeMetadata_def by (rule safeObject_value) (simp add: maxMetadataBudget_def)


subsection \<open>Properties\<close>

text \<open>
  C21: Whatever metadata an audit event carries, what is stored holds only the redaction
  marker under a sensitive key, at every depth, and is bounded: at most five nested containers
  of at most 65 fields or 33 items, and no string longer than 2051 bytes.
\<close>

theorem SafeMetadata_safe:
  "clean (JObject (SafeMetadata m)) \<and> bounded 5 (JObject (SafeMetadata m))"
  unfolding SafeMetadata_value using safe_clean(1) safe_bounded(1) [of 0] by simp

end
