(* ===== verification/Tables.thy ===== *)
theory Tables
  imports Differences Safe_Metadata
begin

text \<open>
  The rows the controller keeps in PostgreSQL and the structs that carry them
  (\<open>internal/inventory/service.go\<close>, \<open>internal/controlplane/model.go\<close>). A table is the
  list of its rows in insertion order; \<open>db\<close> is the state of the whole store. Columns that
  the schema restricts to a fixed set of values (\<open>migrations/*.up.sql\<close>) are datatypes. A
  document stored as \<open>jsonb\<close> is the document itself.
\<close>

subsection \<open>Observations and drafts (\<open>internal/inventory\<close>)\<close>

record CapabilityProfile =
  cap_NodeID :: string
  cap_ProductVersion :: string
  cap_Compatibility :: string
  cap_SchemaVersion :: int
  cap_Features :: "bool gomap"
  cap_Warnings :: "string list"
  cap_RefreshedAt :: time

record Snapshot =
  snap_ID :: string
  snap_NodeID :: string
  snap_ObservedAt :: time
  snap_SchemaVersion :: int
  snap_Document :: "Document option"
  snap_CanonicalHash :: string
  snap_NodeVersion :: string
  snap_CollectionStatus :: string
  snap_ErrorCode :: string

record Draft =
  draft_ID :: string
  draft_ClusterID :: string
  draft_SourceSnapshotID :: string
  draft_BaseRevisionID :: "string option"
  draft_SchemaVersion :: int
  draft_Document :: DesiredDocument
  draft_CanonicalHash :: string
  draft_Version :: int
  draft_UpdatedBy :: string
  draft_UpdatedAt :: time

subsection \<open>Revisions, deployments and drift (\<open>internal/controlplane/model.go\<close>)\<close>

record Lifecycle =
  CanArchive :: bool
  CanRestore :: bool
  CanDelete :: bool

record RevisionRow =
  rev_ID :: string
  rev_ClusterID :: string
  rev_RevisionNumber :: int
  rev_SchemaVersion :: int
  rev_Document :: DesiredDocument
  rev_CanonicalHash :: string
  rev_Summary :: string
  rev_CreatedBy :: string
  rev_CreatedAt :: time
  rev_ArchivedAt :: "time option"
  rev_ArchivedBy :: "string option"

record Revision = RevisionRow +
  rev_Active :: bool
  rev_Lifecycle :: Lifecycle

datatype DeploymentStatus =
    Queued | Validating | Running | PartiallySucceeded | Succeeded | Failed | Cancelling | Cancelled | Interrupted

fun deployment_status_string :: "DeploymentStatus \<Rightarrow> string" where
  "deployment_status_string Queued = ''queued''"
| "deployment_status_string Validating = ''validating''"
| "deployment_status_string Running = ''running''"
| "deployment_status_string PartiallySucceeded = ''partially_succeeded''"
| "deployment_status_string Succeeded = ''succeeded''"
| "deployment_status_string Failed = ''failed''"
| "deployment_status_string Cancelling = ''cancelling''"
| "deployment_status_string Cancelled = ''cancelled''"
| "deployment_status_string Interrupted = ''interrupted''"

datatype TaskStatus =
    TaskPending | TaskValidating | TaskApplying | TaskVerifying | TaskSucceeded | TaskFailed | TaskSkipped
  | TaskInterrupted

record DeploymentRow =
  dep_ID :: string
  dep_ClusterID :: string
  dep_RevisionID :: string
  dep_Status :: DeploymentStatus
  dep_Strategy :: string
  dep_FailurePolicy :: string
  dep_Origin :: string
  dep_RollbackOfRevisionID :: "string option"
  dep_RequestedBy :: "string option"
  dep_RequestID :: string
  dep_CancelRequested :: bool
  dep_ErrorCode :: string
  dep_RequestedAt :: time
  dep_StartedAt :: "time option"
  dep_CompletedAt :: "time option"
  dep_ArchivedAt :: "time option"
  dep_ArchivedBy :: "string option"

record DeploymentNode =
  task_ID :: string
  task_DeploymentID :: string
  task_NodeID :: string
  task_Position :: int
  task_EffectiveHash :: string
  task_Status :: TaskStatus
  task_AttemptCount :: int
  task_StartedAt :: "time option"
  task_CompletedAt :: "time option"
  task_ErrorCode :: string
  task_ErrorMessage :: string
  task_VerificationSnapshotID :: "string option"

record Deployment = DeploymentRow +
  dep_Lifecycle :: Lifecycle
  dep_Nodes :: "DeploymentNode list"

datatype DriftStatus = DriftOpen | DriftResolved

datatype ReconciliationStatus =
    ReconPending | ReconAlerted | ReconEnforcing | ReconFailed | ReconMaintenance | ReconResolved

record DriftEvent =
  drift_ID :: string
  drift_ClusterID :: string
  drift_NodeID :: string
  drift_DesiredRevisionID :: string
  drift_DesiredHash :: string
  drift_ObservedSnapshotID :: string
  drift_ObservedHash :: string
  drift_Fingerprint :: string
  drift_Status :: DriftStatus
  drift_Policy :: ReconciliationPolicy
  drift_ReconciliationStatus :: ReconciliationStatus
  drift_Differences :: "Difference list"
  drift_DetectedAt :: time
  drift_LastSeenAt :: time
  drift_ResolvedAt :: "time option"
  drift_Resolution :: string
  drift_RelatedDeploymentID :: "string option"

record PreviewNode =
  pn_NodeID :: string
  pn_Position :: int
  pn_EffectiveHash :: string
  pn_Valid :: bool
  pn_Warning :: string

subsection \<open>Operational commands\<close>

text \<open>
  The types of \<open>internal/operations/model.go\<close> and the rows of \<open>operational_commands\<close> and
  \<open>operational_command_node_results\<close>. The status columns have one value per constructor. The
  columns of an encrypted payload are all set or all \<open>NULL\<close>
  (\<open>operational_commands_payload_check\<close>), so they are one optional value. The column \<open>result\<close>
  holds the results of the resolvers and of the host check as JSON; they are columns here.
\<close>

datatype CommandStatus = CmdQueued | CmdRunning | CmdSucceeded | CmdPartial | CmdFailed | CmdInterrupted

datatype ResultStatus = ResPending | ResRunning | ResSucceeded | ResFailed | ResSkipped

record EncryptedPayload =
  pay_Ciphertext :: string
  pay_Nonce :: string
  pay_KeyVersion :: int
  pay_Algorithm :: string

record Target =
  tgt_Scope :: string
  tgt_NodeID :: string

record ResolverResult =
  rr_ResolverID :: string
  rr_Status :: string
  rr_ErrorCode :: string

record MatchedRule =
  mr_Text :: string
  mr_FilterListID :: int

record HostFilterResult =
  hf_Matched :: bool
  hf_Reason :: string
  hf_Rules :: "MatchedRule list"
  hf_ServiceName :: string
  hf_CanonicalName :: string
  hf_IPAddresses :: "string list"

record ExcludedNode =
  ex_NodeID :: string
  ex_NodeName :: string
  ex_ErrorCode :: string

record CommandRow =
  cmd_ID :: string
  cmd_ClusterID :: string
  cmd_Command :: string
  cmd_TargetScope :: string
  cmd_TargetNodeID :: "string option"
  cmd_Status :: CommandStatus
  cmd_RequestedBy :: string
  cmd_RequestID :: string
  cmd_IdempotencyKey :: string
  cmd_InputFingerprint :: string
  cmd_Payload :: "EncryptedPayload option"
  cmd_ExcludedNodes :: "ExcludedNode list"
  cmd_ObservationStatus :: string
  cmd_ObservationSnapshotID :: "string option"
  cmd_ObservationErrorCode :: string
  cmd_AuditReference :: "string option"
  cmd_RequestedAt :: time
  cmd_StartedAt :: "time option"
  cmd_CompletedAt :: "time option"

record ResultRow =
  res_ID :: string
  res_CommandID :: string
  res_NodeID :: string
  res_Position :: int
  res_Status :: ResultStatus
  res_ErrorCode :: string
  res_ResolverResults :: "ResolverResult list"
  res_HostFilterResult :: "HostFilterResult option"
  res_ObservationStatus :: string
  res_ObservationSnapshotID :: "string option"
  res_ObservationErrorCode :: string
  res_StartedAt :: "time option"
  res_CompletedAt :: "time option"


subsection \<open>The store\<close>

record NodeRow = NodeRecord +
  row_DeletedAt :: "time option"

subsection \<open>Accounts\<close>

text \<open>
  Users, sessions and the second factor (\<open>internal/domain/models.go\<close>). A row of \<open>users\<close> lacks
  \<open>MFAEnabled\<close>, and a row of \<open>user_mfa\<close> the number of recovery codes left; queries compute them.
\<close>

record UserRow =
  user_ID :: string
  user_Email :: string
  user_DisplayName :: string
  user_PasswordHash :: string
  user_Role :: string
  user_Enabled :: bool
  user_CreatedAt :: time
  user_UpdatedAt :: time
  user_LastLoginAt :: "time option"

record User = UserRow +
  user_MFAEnabled :: bool

record Session =
  sess_ID :: string
  sess_UserID :: string
  sess_TokenHash :: string
  sess_CSRFHash :: string
  sess_CreatedAt :: time
  sess_ExpiresAt :: time
  sess_LastSeenAt :: time
  sess_RevokedAt :: "time option"
  sess_IPMetadata :: string
  sess_UserAgent :: string

record UserMFARow =
  mfa_UserID :: string
  mfa_Secret :: EncryptedPayload
  mfa_EnrollmentStarted :: time
  mfa_EnrollmentExpires :: time
  mfa_EnabledAt :: "time option"

record UserMFA = UserMFARow +
  mfa_RecoveryRemaining :: int

record MFAChallenge =
  chal_ID :: string
  chal_UserID :: string
  chal_TokenHash :: string
  chal_CreatedAt :: time
  chal_ExpiresAt :: time
  chal_ConsumedAt :: "time option"
  chal_FailedAttempts :: int
  chal_IPMetadata :: string
  chal_UserAgent :: string

record MFARecoveryCode =
  rc_ID :: string
  rc_UserID :: string
  rc_CodeHash :: string
  rc_CreatedAt :: time
  rc_UsedAt :: "time option"

record accounts =
  acc_users :: "UserRow list"
  acc_sessions :: "Session list"
  acc_mfa :: "UserMFARow list"
  acc_challenges :: "MFAChallenge list"
  acc_codes :: "MFARecoveryCode list"


subsection \<open>The database\<close>

record db =
  db_clusters :: "Cluster list"
  db_nodes :: "NodeRow list"
  db_profiles :: "CapabilityProfile list"
  db_snapshots :: "Snapshot list"
  db_drafts :: "Draft list"
  db_revisions :: "RevisionRow list"
  db_deployments :: "DeploymentRow list"
  db_tasks :: "DeploymentNode list"
  db_drifts :: "DriftEvent list"
  db_audit :: "AuditEvent list"
  db_commands :: "CommandRow list"
  db_results :: "ResultRow list"
  db_accounts :: accounts

definition empty_db :: db where
  "empty_db = \<lparr>db_clusters = [], db_nodes = [], db_profiles = [], db_snapshots = [], db_drafts = [],
     db_revisions = [], db_deployments = [], db_tasks = [], db_drifts = [], db_audit = [],
     db_commands = [], db_results = [],
     db_accounts = \<lparr>acc_users = [], acc_sessions = [], acc_mfa = [], acc_challenges = [], acc_codes = []\<rparr>\<rparr>"

abbreviation row_ID :: "NodeRow \<Rightarrow> string" where "row_ID r \<equiv> node_ID (rec_Node r)"

subsection \<open>Statements\<close>

text \<open>
  What the SQL statements of the store do to one table: \<open>UPDATE \<dots> WHERE\<close>, a lookup by a
  column, a unique index over the rows that satisfy its predicate, and a foreign key.
\<close>

definition update_where :: "('r \<Rightarrow> bool) \<Rightarrow> ('r \<Rightarrow> 'r) \<Rightarrow> 'r list \<Rightarrow> 'r list" where
  "update_where P f rows = map (\<lambda>r. if P r then f r else r) rows"

definition rows_affected :: "('r \<Rightarrow> bool) \<Rightarrow> 'r list \<Rightarrow> nat" where
  "rows_affected P rows = length (filter P rows)"

definition query_row :: "('r \<Rightarrow> bool) \<Rightarrow> 'r list \<Rightarrow> 'r option" where
  "query_row P rows = List.find P rows"

definition unique_index :: "('r \<Rightarrow> bool) \<Rightarrow> ('r \<Rightarrow> 'k) \<Rightarrow> 'r list \<Rightarrow> bool" where
  "unique_index P key rows \<longleftrightarrow> distinct (map key (filter P rows))"

abbreviation primary_key :: "('r \<Rightarrow> 'k) \<Rightarrow> 'r list \<Rightarrow> bool" where
  "primary_key key rows \<equiv> unique_index (\<lambda>_. True) key rows"

definition references :: "'k option \<Rightarrow> 'k list \<Rightarrow> bool" where
  "references k keys \<longleftrightarrow> (case k of None \<Rightarrow> True | Some x \<Rightarrow> x \<in> set keys)"

text \<open>\<open>ORDER BY \<dots> DESC\<close> on a key.\<close>

definition order_desc :: "('r \<Rightarrow> 'k::linorder) \<Rightarrow> 'r list \<Rightarrow> 'r list" where
  "order_desc key rows = sort_slice (\<lambda>a b. key b < key a) rows"

subsection \<open>Generic facts about statements\<close>

lemma update_where_Nil [simp]: "update_where P f [] = []"
  by (simp add: update_where_def)

lemma update_where_Cons [simp]: "update_where P f (r # rs) = (if P r then f r else r) # update_where P f rs"
  by (simp add: update_where_def)

lemma length_update_where [simp]: "length (update_where P f rows) = length rows"
  by (simp add: update_where_def)

lemma set_update_where: "x \<in> set (update_where P f rows) \<longleftrightarrow> (\<exists>r \<in> set rows. x = (if P r then f r else r))"
  by (auto simp: update_where_def)

lemma map_update_where: "(\<And>r. P r \<Longrightarrow> key (f r) = key r) \<Longrightarrow> map key (update_where P f rows) = map key rows"
  by (induction rows) auto

lemma primary_key_update:
  "(\<And>r. P r \<Longrightarrow> key (f r) = key r) \<Longrightarrow> primary_key key (update_where P f rows) = primary_key key rows"
  by (simp add: unique_index_def map_update_where)

text \<open>An update that keeps the key and adds no row to the index keeps the index unique.\<close>

lemma unique_index_update:
  assumes "unique_index Q key rows" "\<And>r. r \<in> set rows \<Longrightarrow> P r \<Longrightarrow> key (f r) = key r"
    "\<And>r. r \<in> set rows \<Longrightarrow> P r \<Longrightarrow> Q (f r) \<Longrightarrow> Q r"
  shows "unique_index Q key (update_where P f rows)"
proof -
  have "set (map key (filter Q (update_where P f rows))) \<subseteq> set (map key (filter Q rows)) \<and>
      distinct (map key (filter Q (update_where P f rows)))"
    using assms
  proof (induction rows)
    case (Cons r rows)
    then have ih: "set (map key (filter Q (update_where P f rows))) \<subseteq> set (map key (filter Q rows))"
        "distinct (map key (filter Q (update_where P f rows)))"
      by (auto simp: unique_index_def split: if_splits)
    show ?case
    proof (cases "Q (if P r then f r else r)")
      case True
      then have "Q r" "key (if P r then f r else r) = key r" using Cons.prems(2,3) [of r] by (auto split: if_splits)
      moreover from this Cons.prems(1) have "key r \<notin> set (map key (filter Q rows))" by (simp add: unique_index_def)
      ultimately show ?thesis using ih True by auto
    next
      case False
      with ih show ?thesis by auto
    qed
  qed simp
  then show ?thesis by (simp add: unique_index_def)
qed

lemma unique_index_append:
  "unique_index Q key (rows @ [r]) \<longleftrightarrow> unique_index Q key rows \<and> (Q r \<longrightarrow> key r \<notin> key ` set (filter Q rows))"
  by (auto simp: unique_index_def)

lemma unique_index_filter: "unique_index Q key rows \<Longrightarrow> unique_index Q key (filter P rows)"
proof (induction rows)
  case (Cons r rows)
  then show ?case by (cases "Q r"; cases "P r") (auto simp: unique_index_def)
qed (simp add: unique_index_def)

lemma unique_index_inj:
  assumes "unique_index Q key rows" "a \<in> set rows" "b \<in> set rows" "Q a" "Q b" "key a = key b"
  shows "a = b"
  using assms by (auto simp: unique_index_def distinct_map dest: inj_onD)

lemma query_row_Some: "query_row P rows = Some r \<Longrightarrow> r \<in> set rows \<and> P r"
  by (auto simp: query_row_def find_Some_iff)

lemma query_row_None: "query_row P rows = None \<longleftrightarrow> (\<forall>r \<in> set rows. \<not> P r)"
  by (auto simp: query_row_def find_None_iff)

lemma query_row_append:
  "query_row P (xs @ ys) = (case query_row P xs of None \<Rightarrow> query_row P ys | Some r \<Rightarrow> Some r)"
  by (induction xs) (simp_all add: query_row_def)

lemma query_row_pk:
  "primary_key key rows \<Longrightarrow> r \<in> set rows \<Longrightarrow> query_row (\<lambda>x. key x = key r) rows = Some r"
  by (cases "query_row (\<lambda>x. key x = key r) rows")
     (auto simp: query_row_None dest!: query_row_Some intro: unique_index_inj [of "\<lambda>_. True" key rows])

lemma rows_affected_pos: "0 < rows_affected P rows \<longleftrightarrow> (\<exists>r \<in> set rows. P r)"
  by (auto simp: rows_affected_def filter_empty_conv)

lemma rows_affected_unique:
  "unique_index (\<lambda>_. True) key rows \<Longrightarrow> rows_affected (\<lambda>r. key r = k \<and> P r) rows \<le> 1"
proof (induction rows)
  case (Cons r rows)
  then show ?case
    by (cases "key r = k")
       (auto simp: rows_affected_def unique_index_def filter_empty_conv image_iff)
qed (simp add: rows_affected_def)

subsection \<open>The interface of a table\<close>

text \<open>
  A table is a component of the state that is read by \<open>get\<close> and replaced by \<open>put\<close>. What
  the store relies on when it runs a statement on one table: the statement is seen by the
  next read, and a lookup by primary key finds the row as the statements left it.
\<close>

locale table =
  fixes get :: "db \<Rightarrow> 'r list" and put :: "('r list \<Rightarrow> 'r list) \<Rightarrow> db \<Rightarrow> db" and key :: "'r \<Rightarrow> string"
  assumes get_put: "get (put f d) = f (get d)"
    and put_put: "put f (put g d) = put (\<lambda>rows. f (g rows)) d"
    and put_get: "put (\<lambda>_. get d) d = d"
begin

definition lookup :: "db \<Rightarrow> string \<Rightarrow> 'r option" where
  "lookup d k = query_row (\<lambda>r. key r = k) (get d)"

lemma lookup_key: "lookup d k = Some r \<Longrightarrow> key r = k"
  by (auto simp: lookup_def dest: query_row_Some)

lemma lookup_insert:
  "lookup d (key r) = None \<Longrightarrow> lookup (put (\<lambda>rows. rows @ [r]) d) k = (if k = key r then Some r else lookup d k)"
  unfolding lookup_def get_put query_row_append by (auto simp: query_row_def split: option.split)

lemma lookup_update:
  assumes "\<And>r. key (f r) = key r"
  shows "lookup (put (update_where (\<lambda>r. key r = i) f) d) k = (if k = i then map_option f (lookup d k) else lookup d k)"
proof -
  have "query_row (\<lambda>r. key r = k) (update_where (\<lambda>r. key r = i) f rows) =
      (if k = i then map_option f (query_row (\<lambda>r. key r = k) rows) else query_row (\<lambda>r. key r = k) rows)" for rows
    by (induction rows) (auto simp: query_row_def assms)
  then show ?thesis by (simp add: lookup_def get_put)
qed

lemma lookup_delete: "lookup (put (filter (\<lambda>r. key r \<noteq> i)) d) k = (if k = i then None else lookup d k)"
proof -
  have "query_row (\<lambda>r. key r = k) (filter (\<lambda>r. key r \<noteq> i) rows) =
      (if k = i then None else query_row (\<lambda>r. key r = k) rows)" for rows
    by (induction rows) (auto simp: query_row_def)
  then show ?thesis by (simp add: lookup_def get_put)
qed

lemma lookup_member: "primary_key key (get d) \<Longrightarrow> lookup d k = Some r \<longleftrightarrow> r \<in> set (get d) \<and> key r = k"
  by (auto simp: lookup_def dest: query_row_Some query_row_pk)

end

interpretation clusters: table db_clusters db_clusters_update cluster_ID
  by unfold_locales simp_all

interpretation nodes: table db_nodes db_nodes_update row_ID
  by unfold_locales simp_all

interpretation snapshots: table db_snapshots db_snapshots_update snap_ID
  by unfold_locales simp_all

interpretation drafts: table db_drafts db_drafts_update draft_ClusterID
  by unfold_locales simp_all

interpretation revisions: table db_revisions db_revisions_update rev_ID
  by unfold_locales simp_all

interpretation deployments: table db_deployments db_deployments_update dep_ID
  by unfold_locales simp_all

interpretation tasks: table db_tasks db_tasks_update task_ID
  by unfold_locales simp_all

interpretation commands: table db_commands db_commands_update cmd_ID
  by unfold_locales simp_all

interpretation results: table db_results db_results_update res_ID
  by unfold_locales simp_all

interpretation drifts: table db_drifts db_drifts_update drift_ID
  by unfold_locales simp_all

end
