(* ===== verification/Store.thy ===== *)
theory Store
  imports Tables
begin

text \<open>
  The store, \<open>internal/database\<close>: the methods on clusters, nodes, observations, drafts,
  revisions, deployments and drift events, one definition per method in the order of the
  files \<open>clusters.go\<close>, \<open>nodes.go\<close>, \<open>inventory.go\<close> and \<open>controlplane.go\<close>.

  A method is a function of the state. A transaction that rolls back is the left side of the
  sum, which carries no state; a committed one returns the new state. The statements apply
  the schema of \<open>migrations/*.up.sql\<close>: \<open>CHECK\<close> clauses first, then unique indexes,
  then foreign keys, the order in which PostgreSQL evaluates them. References to the
  \<open>users\<close> table are not modelled. SQL's \<open>lower\<close> is \<open>ToLower\<close>. Where a query leaves
  the order of equal rows open, insertion order is used.
\<close>

definition bind_err :: "go_error + 'a \<Rightarrow> ('a \<Rightarrow> go_error + 'b) \<Rightarrow> go_error + 'b" where
  "bind_err m f = (case m of Inl e \<Rightarrow> Inl e | Inr x \<Rightarrow> f x)"

lemma bind_err_simps [simp]: "bind_err (Inl e) f = Inl e" "bind_err (Inr x) f = f x"
  by (simp_all add: bind_err_def)

lemma bind_err_Inr: "bind_err m f = Inr y \<longleftrightarrow> (\<exists>x. m = Inr x \<and> f x = Inr y)"
  by (cases m) simp_all

definition require :: "bool \<Rightarrow> go_error \<Rightarrow> (go_error + 'a) \<Rightarrow> go_error + 'a" where
  "require ok e k = (if ok then k else Inl e)"

lemma require_Inr [simp]: "require ok e k = Inr y \<longleftrightarrow> ok \<and> k = Inr y"
  by (simp add: require_def)

definition not_found :: "string \<Rightarrow> go_error" where
  "not_found resource = NewError ErrorNotFound (resource @ '' was not found'')"

text \<open>\<open>mapDatabaseError\<close> on the result of \<open>QueryRow\<close>: a missing row becomes \<open>not found\<close>.\<close>

definition mapDatabaseError :: "string \<Rightarrow> 'a option \<Rightarrow> go_error + 'a" where
  "mapDatabaseError resource r = (case r of None \<Rightarrow> Inl (not_found resource) | Some x \<Rightarrow> Inr x)"

lemma mapDatabaseError_Inr [simp]: "mapDatabaseError resource r = Inr x \<longleftrightarrow> r = Some x"
  by (simp add: mapDatabaseError_def split: option.split)

definition audit :: "AuditEvent \<Rightarrow> db \<Rightarrow> go_error + db" where
  "audit event d =
    (if audit_ID event \<in> audit_ID ` set (db_audit d) then Inl (PlainError ''insert audit event'')
     else Inr (d\<lparr>db_audit := db_audit d @ [event\<lparr>audit_Metadata := SafeMetadata (audit_Metadata event)\<rparr>]\<rparr>))"

text \<open>\<open>RecordAuditEvent\<close> of \<open>auth.go\<close>: a transaction with nothing but the audit event.\<close>

definition RecordAuditEvent :: "AuditEvent \<Rightarrow> db \<Rightarrow> go_error + db" where
  "RecordAuditEvent event d = audit event d"


subsection \<open>Clusters (\<open>clusters.go\<close>)\<close>

definition char_length_between :: "nat \<Rightarrow> nat \<Rightarrow> string \<Rightarrow> bool" where
  "char_length_between lo hi s \<longleftrightarrow> lo \<le> RuneCountInString s \<and> RuneCountInString s \<le> hi"

definition cluster_check :: "Cluster \<Rightarrow> bool" where
  "cluster_check c \<longleftrightarrow> char_length_between 1 120 (cluster_Name c) \<and> cluster_Version c > 0 \<and>
     ValidReconciliationPolicy (cluster_ReconciliationPolicy c)"

definition cluster_indexes :: "Cluster list \<Rightarrow> bool" where
  "cluster_indexes rows \<longleftrightarrow> primary_key cluster_ID rows \<and> primary_key (\<lambda>c. ToLower (cluster_Name c)) rows"

definition CreateCluster :: "Cluster \<Rightarrow> AuditEvent \<Rightarrow> db \<Rightarrow> go_error + db" where
  "CreateCluster cluster event d =
    (let row = cluster\<lparr>cluster_ActiveRevisionID := None, cluster_UpdatedAt := cluster_CreatedAt cluster\<rparr>;
         rows = db_clusters d @ [row] in
     require (cluster_check row) (PlainError ''create cluster'')
     (require (cluster_indexes rows) (NewError ErrorConflict ''a cluster with this name already exists'')
     (audit event (d\<lparr>db_clusters := rows\<rparr>))))"

definition ListClusters :: "db \<Rightarrow> Cluster list" where
  "ListClusters d = sort_slice (\<lambda>a b. ToLower (cluster_Name a) < ToLower (cluster_Name b) \<or>
     ToLower (cluster_Name a) = ToLower (cluster_Name b) \<and> cluster_ID a < cluster_ID b) (db_clusters d)"

definition ClusterByID :: "string \<Rightarrow> db \<Rightarrow> go_error + Cluster" where
  "ClusterByID i d = mapDatabaseError ''cluster'' (query_row (\<lambda>c. cluster_ID c = i) (db_clusters d))"

definition UpdateCluster :: "Cluster \<Rightarrow> int \<Rightarrow> AuditEvent \<Rightarrow> db \<Rightarrow> go_error + db" where
  "UpdateCluster cluster expectedVersion event d =
    (let P = (\<lambda>c. cluster_ID c = cluster_ID cluster \<and> cluster_Version c = expectedVersion);
         f = (\<lambda>c. c\<lparr>cluster_Name := cluster_Name cluster, cluster_Description := cluster_Description cluster,
               cluster_ReconciliationPolicy := cluster_ReconciliationPolicy cluster,
               cluster_Version := cluster_Version c + 1, cluster_UpdatedAt := cluster_UpdatedAt cluster\<rparr>);
         rows = update_where P f (db_clusters d) in
     if rows_affected P (db_clusters d) = 0 then
       Inl (if list_ex (\<lambda>c. cluster_ID c = cluster_ID cluster) (db_clusters d)
            then NewError ErrorConflict ''cluster was changed by another request''
            else not_found ''cluster'')
     else
       require (list_all (\<lambda>c. P c \<longrightarrow> cluster_check (f c)) (db_clusters d)) (PlainError ''update cluster'')
       (require (cluster_indexes rows) (NewError ErrorConflict ''a cluster with this name already exists'')
       (audit event (d\<lparr>db_clusters := rows\<rparr>))))"


subsection \<open>Nodes (\<open>nodes.go\<close>)\<close>

definition live :: "NodeRow \<Rightarrow> bool" where
  "live r \<longleftrightarrow> row_DeletedAt r = None"

text \<open>The \<open>CHECK\<close> clauses of the table; the last one ties the CA material to the policy.\<close>

definition node_check :: "NodeRow \<Rightarrow> bool" where
  "node_check r \<longleftrightarrow> (let n = rec_Node r; policy = node_CertificatePolicy n; pem = secret_CustomCAPEM (rec_Secrets r) in
     char_length_between 1 120 (node_Name n) \<and>
     (policy = CertificateSystemTrust \<or> policy = CertificateCustomCA \<or> policy = CertificateInsecureHTTP) \<and>
     (case node_LatencyMS n of None \<Rightarrow> True | Some l \<Rightarrow> l \<ge> 0) \<and> node_RecordVersion n > 0 \<and>
     (policy = CertificateCustomCA \<and> pem \<noteq> [] \<or> policy \<noteq> CertificateCustomCA \<and> pem = []))"

definition node_indexes :: "NodeRow list \<Rightarrow> bool" where
  "node_indexes rows \<longleftrightarrow> primary_key row_ID rows \<and>
     unique_index live (\<lambda>r. (node_ClusterID (rec_Node r), ToLower (node_Name (rec_Node r)))) rows \<and>
     unique_index live (\<lambda>r. (node_ClusterID (rec_Node r), node_BaseURL (rec_Node r))) rows"

definition node_conflict :: go_error where
  "node_conflict = NewError ErrorConflict ''a node with this name or URL already exists in the cluster''"

definition CreateNode :: "NodeRecord \<Rightarrow> AuditEvent \<Rightarrow> db \<Rightarrow> go_error + db" where
  "CreateNode record event d =
    (let node = (rec_Node record)\<lparr>node_MaintenanceMode := False, node_AppliedRevisionID := None, node_AppliedHash := [],
           node_ConvergenceStatus := ConvPending, node_LastReconciledAt := None,
           node_UpdatedAt := node_CreatedAt (rec_Node record)\<rparr>;
         row = NodeRecord.extend (record\<lparr>rec_Node := node\<rparr>) (NodeRow.fields None);
         rows = db_nodes d @ [row] in
     require (node_check row) (PlainError ''create node'')
     (require (node_indexes rows) node_conflict
     (require (node_ClusterID node \<in> cluster_ID ` set (db_clusters d)) (PlainError ''create node'')
     (audit event (d\<lparr>db_nodes := rows\<rparr>)))))"

definition ListNodes :: "string \<Rightarrow> db \<Rightarrow> Node list" where
  "ListNodes clusterID d =
    sort_slice (\<lambda>a b. ToLower (node_Name a) < ToLower (node_Name b) \<or>
        ToLower (node_Name a) = ToLower (node_Name b) \<and> node_ID a < node_ID b)
      (map rec_Node (filter (\<lambda>r. node_ClusterID (rec_Node r) = clusterID \<and> live r) (db_nodes d)))"

definition NodeRecordByID :: "string \<Rightarrow> db \<Rightarrow> go_error + NodeRecord" where
  "NodeRecordByID i d = bind_err (mapDatabaseError ''node'' (query_row (\<lambda>r. row_ID r = i \<and> live r) (db_nodes d)))
     (\<lambda>r. Inr (NodeRecord.truncate r))"

definition NodeByID :: "string \<Rightarrow> db \<Rightarrow> go_error + Node" where
  "NodeByID i d = bind_err (mapDatabaseError ''node'' (query_row (\<lambda>r. row_ID r = i \<and> live r) (db_nodes d)))
     (\<lambda>r. Inr (rec_Node r))"

definition PollableNodes :: "db \<Rightarrow> NodeRecord list" where
  "PollableNodes d = sort_slice (\<lambda>a b. node_ID (rec_Node a) < node_ID (rec_Node b))
     (map NodeRecord.truncate (filter (\<lambda>r. node_Enabled (rec_Node r) \<and> live r) (db_nodes d)))"

definition nodeWriteFailure :: "string \<Rightarrow> db \<Rightarrow> go_error" where
  "nodeWriteFailure i d =
    (if list_ex (\<lambda>r. row_ID r = i \<and> live r) (db_nodes d)
     then NewError ErrorConflict ''node was changed by another request'' else not_found ''node'')"

definition UpdateNode :: "NodeRecord \<Rightarrow> int \<Rightarrow> AuditEvent \<Rightarrow> db \<Rightarrow> go_error + db" where
  "UpdateNode record expectedVersion event d =
    (let node = rec_Node record;
         P = (\<lambda>r. row_ID r = node_ID node \<and> node_RecordVersion (rec_Node r) = expectedVersion \<and> live r);
         f = (\<lambda>r. r\<lparr>rec_Secrets := rec_Secrets record,
               rec_Node := (rec_Node r)\<lparr>node_Name := node_Name node, node_BaseURL := node_BaseURL node,
                 node_CertificatePolicy := node_CertificatePolicy node, node_Enabled := node_Enabled node,
                 node_HealthStatus := node_HealthStatus node,
                 node_CompatibilityStatus := node_CompatibilityStatus node, node_Version := node_Version node,
                 node_LastSeenAt := node_LastSeenAt node, node_LastPolledAt := node_LastPolledAt node,
                 node_LatencyMS := node_LatencyMS node, node_LastErrorCode := node_LastErrorCode node,
                 node_ConvergenceStatus := (if node_MaintenanceMode (rec_Node r) then ConvMaintenance else ConvPending),
                 node_RecordVersion := node_RecordVersion (rec_Node r) + 1, node_UpdatedAt := node_UpdatedAt node\<rparr>\<rparr>);
         rows = update_where P f (db_nodes d) in
     if rows_affected P (db_nodes d) = 0 then Inl (nodeWriteFailure (node_ID node) d)
     else
       require (list_all (\<lambda>r. P r \<longrightarrow> node_check (f r)) (db_nodes d)) (PlainError ''update node'')
       (require (node_indexes rows) node_conflict
       (audit event (d\<lparr>db_nodes := rows\<rparr>))))"

definition resolve_drift :: "string \<Rightarrow> string \<Rightarrow> time \<Rightarrow> DriftEvent list \<Rightarrow> DriftEvent list" where
  "resolve_drift nodeID resolution at = update_where (\<lambda>e. drift_NodeID e = nodeID \<and> drift_Status e = DriftOpen)
     (\<lambda>e. e\<lparr>drift_Status := DriftResolved, drift_ReconciliationStatus := ReconResolved,
           drift_ResolvedAt := Some at, drift_Resolution := resolution\<rparr>)"

definition has_override :: "string \<Rightarrow> Draft \<Rightarrow> bool" where
  "has_override i r \<longleftrightarrow> i \<in> fst ` set (des_NodeOverrides (draft_Document r))"

definition drop_override :: "string \<Rightarrow> time \<Rightarrow> string option \<Rightarrow> Draft \<Rightarrow> Draft" where
  "drop_override i at updatedBy r = r\<lparr>
     draft_Document := (draft_Document r)\<lparr>des_NodeOverrides :=
       filter (\<lambda>(k, v). k \<noteq> i) (des_NodeOverrides (draft_Document r))\<rparr>,
     draft_CanonicalHash := [], draft_Version := draft_Version r + 1,
     draft_UpdatedBy := (case updatedBy of None \<Rightarrow> draft_UpdatedBy r | Some u \<Rightarrow> u), draft_UpdatedAt := at\<rparr>"

definition SoftDeleteNode :: "string \<Rightarrow> int \<Rightarrow> time \<Rightarrow> AuditEvent \<Rightarrow> db \<Rightarrow> go_error + db" where
  "SoftDeleteNode i expectedVersion at event d =
    (let P = (\<lambda>r. row_ID r = i \<and> node_RecordVersion (rec_Node r) = expectedVersion \<and> live r);
         f = (\<lambda>r. r\<lparr>row_DeletedAt := Some at,
               rec_Secrets := (rec_Secrets r)\<lparr>
                 secret_Credentials := (secret_Credentials (rec_Secrets r))\<lparr>enc_Ciphertext := [], enc_Nonce := []\<rparr>,
                 secret_CustomCAPEM := []\<rparr>,
               rec_Node := (rec_Node r)\<lparr>node_Enabled := False, node_HealthStatus := NodeDisabled, node_UpdatedAt := at,
                 node_RecordVersion := node_RecordVersion (rec_Node r) + 1\<rparr>\<rparr>);
         clusterIDs = map (\<lambda>r. node_ClusterID (rec_Node r)) (filter (\<lambda>r. row_ID r = i) (db_nodes d)) in
     if rows_affected P (db_nodes d) = 0 then Inl (nodeWriteFailure i d)
     else
       require (list_all (\<lambda>r. P r \<longrightarrow> node_check (f r)) (db_nodes d)) (PlainError ''remove node'')
       (audit event (d\<lparr>
          db_nodes := update_where P f (db_nodes d),
          db_drafts := update_where (\<lambda>r. draft_ClusterID r \<in> set clusterIDs \<and> has_override i r)
            (drop_override i at (audit_ActorUserID event)) (db_drafts d),
          db_drifts := resolve_drift i ''node_removed'' at (db_drifts d)\<rparr>)))"

definition poll_result ::
  "NodeHealth \<Rightarrow> Compatibility \<Rightarrow> string \<Rightarrow> int option \<Rightarrow> string \<Rightarrow> time \<Rightarrow> bool \<Rightarrow> Node \<Rightarrow> Node" where
  "poll_result health compatibility version latencyMS errorCode polledAt seen n =
    n\<lparr>node_HealthStatus := health, node_CompatibilityStatus := compatibility, node_Version := version,
      node_LatencyMS := latencyMS, node_LastErrorCode := errorCode, node_LastPolledAt := Some polledAt,
      node_LastSeenAt := (if seen then Some polledAt else node_LastSeenAt n), node_UpdatedAt := polledAt\<rparr>"

definition UpdateNodeHealth ::
  "string \<Rightarrow> NodeHealth \<Rightarrow> Compatibility \<Rightarrow> string \<Rightarrow> int option \<Rightarrow> string \<Rightarrow> time \<Rightarrow> bool \<Rightarrow> db \<Rightarrow> go_error + db" where
  "UpdateNodeHealth i health compatibility version latencyMS errorCode polledAt seen d =
    (let P = (\<lambda>r. row_ID r = i \<and> node_Enabled (rec_Node r) \<and> live r);
         f = rec_Node_update (poll_result health compatibility version latencyMS errorCode polledAt seen) in
     require (list_all (\<lambda>r. P r \<longrightarrow> node_check (f r)) (db_nodes d)) (PlainError ''update node health'')
     (Inr (d\<lparr>db_nodes := update_where P f (db_nodes d)\<rparr>)))"

definition RecordNodeTestResult ::
  "string \<Rightarrow> NodeHealth \<Rightarrow> Compatibility \<Rightarrow> string \<Rightarrow> int option \<Rightarrow> string \<Rightarrow> time \<Rightarrow> bool \<Rightarrow> AuditEvent \<Rightarrow> db \<Rightarrow>
   go_error + db" where
  "RecordNodeTestResult i health compatibility version latencyMS errorCode polledAt seen event d =
    (let P = (\<lambda>r. row_ID r = i \<and> live r);
         f = rec_Node_update (\<lambda>n. poll_result (if node_Enabled n then health else NodeDisabled)
               compatibility version latencyMS errorCode polledAt seen n) in
     require (list_all (\<lambda>r. P r \<longrightarrow> node_check (f r)) (db_nodes d)) (PlainError ''record node connection test result'')
     (require (rows_affected P (db_nodes d) \<noteq> 0) (not_found ''node'')
     (audit event (d\<lparr>db_nodes := update_where P f (db_nodes d)\<rparr>))))"

definition SetNodeMaintenance :: "string \<Rightarrow> bool \<Rightarrow> int \<Rightarrow> time \<Rightarrow> AuditEvent \<Rightarrow> db \<Rightarrow> go_error + db" where
  "SetNodeMaintenance i enabled expectedVersion at event d =
    (let P = (\<lambda>r. row_ID r = i \<and> node_RecordVersion (rec_Node r) = expectedVersion \<and> live r);
         f = rec_Node_update (\<lambda>n. n\<lparr>node_MaintenanceMode := enabled,
               node_ConvergenceStatus := (if enabled then ConvMaintenance else ConvPending),
               node_RecordVersion := node_RecordVersion n + 1, node_UpdatedAt := at\<rparr>) in
     if rows_affected P (db_nodes d) = 0 then Inl (nodeWriteFailure i d)
     else
       require (list_all (\<lambda>r. P r \<longrightarrow> node_check (f r)) (db_nodes d)) (PlainError ''set node maintenance'')
       (audit event (d\<lparr>db_nodes := update_where P f (db_nodes d),
          db_drifts := update_where (\<lambda>e. drift_NodeID e = i \<and> drift_Status e = DriftOpen)
            (\<lambda>e. e\<lparr>drift_ReconciliationStatus := (if enabled then ReconMaintenance else ReconPending)\<rparr>) (db_drifts d)\<rparr>)))"


subsection \<open>Observations and drafts (\<open>inventory.go\<close>)\<close>

definition stored_schema :: "int \<Rightarrow> bool" where
  "stored_schema v \<longleftrightarrow> v = LegacySchemaVersion \<or> v = SchemaVersion"

definition profile_check :: "CapabilityProfile \<Rightarrow> bool" where
  "profile_check p \<longleftrightarrow> cap_Compatibility p \<in> {''supported'', ''unsupported'', ''unknown''} \<and> stored_schema (cap_SchemaVersion p)"

definition snapshot_check :: "Snapshot \<Rightarrow> bool" where
  "snapshot_check s \<longleftrightarrow> stored_schema (snap_SchemaVersion s) \<and>
     (snap_CollectionStatus s = ''succeeded'' \<and> snap_Document s \<noteq> None \<and> snap_CanonicalHash s \<noteq> [] \<or>
      snap_CollectionStatus s = ''failed'' \<and> snap_Document s = None \<and> snap_CanonicalHash s = [] \<and> snap_ErrorCode s \<noteq> [])"

definition node_exists :: "string \<Rightarrow> db \<Rightarrow> bool" where
  "node_exists i d \<longleftrightarrow> i \<in> row_ID ` set (db_nodes d)"

definition upsert_profile :: "CapabilityProfile \<Rightarrow> CapabilityProfile list \<Rightarrow> CapabilityProfile list" where
  "upsert_profile p rows =
    (if cap_NodeID p \<in> cap_NodeID ` set rows then update_where (\<lambda>r. cap_NodeID r = cap_NodeID p) (\<lambda>_. p) rows
     else rows @ [p])"

definition SaveObservation :: "Snapshot \<Rightarrow> CapabilityProfile \<Rightarrow> db \<Rightarrow> go_error + db" where
  "SaveObservation snapshot profile d =
     require (profile_check profile \<and> node_exists (cap_NodeID profile) d) (PlainError ''store capability profile'')
     (require (snapshot_check snapshot \<and> snap_ID snapshot \<notin> snap_ID ` set (db_snapshots d) \<and>
               node_exists (snap_NodeID snapshot) d) (PlainError ''store observed snapshot'')
     (Inr (d\<lparr>db_profiles := upsert_profile profile (db_profiles d), db_snapshots := db_snapshots d @ [snapshot]\<rparr>)))"

definition scanSnapshot :: "Snapshot \<Rightarrow> Snapshot" where
  "scanSnapshot s =
    (case snap_Document s of
       None \<Rightarrow> s
     | Some decoded \<Rightarrow>
        if snap_SchemaVersion s = LegacySchemaVersion \<or> doc_SchemaVersion decoded = LegacySchemaVersion
        then s\<lparr>snap_Document := Some (ConvertLegacyDocument decoded), snap_SchemaVersion := SchemaVersion\<rparr>
        else s)"

text \<open>\<open>SELECT DISTINCT ON (key)\<close> keeps the first row of each key.\<close>

fun distinct_on :: "('r \<Rightarrow> 'k) \<Rightarrow> 'k list \<Rightarrow> 'r list \<Rightarrow> 'r list" where
  "distinct_on key seen [] = []"
| "distinct_on key seen (r # rs) =
    (if key r \<in> set seen then distinct_on key seen rs else r # distinct_on key (key r # seen) rs)"

definition in_cluster :: "string \<Rightarrow> db \<Rightarrow> string \<Rightarrow> bool" where
  "in_cluster clusterID d nodeID \<longleftrightarrow>
     list_ex (\<lambda>r. row_ID r = nodeID \<and> node_ClusterID (rec_Node r) = clusterID \<and> live r) (db_nodes d)"

definition latest_of :: "(Snapshot \<Rightarrow> bool) \<Rightarrow> string \<Rightarrow> db \<Rightarrow> Snapshot list" where
  "latest_of P clusterID d =
     map scanSnapshot (distinct_on snap_NodeID []
       (sort_slice (\<lambda>a b. snap_NodeID a < snap_NodeID b \<or>
            snap_NodeID a = snap_NodeID b \<and> snap_ObservedAt b < snap_ObservedAt a)
         (filter (\<lambda>s. in_cluster clusterID d (snap_NodeID s) \<and> P s) (db_snapshots d))))"

definition LatestSnapshots :: "string \<Rightarrow> db \<Rightarrow> Snapshot list" where
  "LatestSnapshots clusterID d = latest_of (\<lambda>_. True) clusterID d"

definition LatestSuccessfulSnapshots :: "string \<Rightarrow> db \<Rightarrow> Snapshot list" where
  "LatestSuccessfulSnapshots clusterID d = latest_of (\<lambda>s. snap_CollectionStatus s = ''succeeded'') clusterID d"

definition SnapshotByID :: "string \<Rightarrow> db \<Rightarrow> go_error + Snapshot" where
  "SnapshotByID i d = bind_err (mapDatabaseError ''snapshot'' (query_row (\<lambda>s. snap_ID s = i) (db_snapshots d)))
     (\<lambda>s. Inr (scanSnapshot s))"

definition scanProfile :: "CapabilityProfile \<Rightarrow> CapabilityProfile" where
  "scanProfile p =
    (if cap_SchemaVersion p = LegacySchemaVersion then p\<lparr>cap_SchemaVersion := SchemaVersion,
       cap_Compatibility := compatibility_string CompatibilityUnsupported,
       cap_Warnings := cap_Warnings p @ [''This retained v1.0.x capability record requires a fresh schema-2 observation.'']\<rparr>
     else p)"

definition node_name :: "db \<Rightarrow> string \<Rightarrow> string" where
  "node_name d nodeID = (case query_row (\<lambda>r. row_ID r = nodeID) (db_nodes d) of None \<Rightarrow> [] | Some r \<Rightarrow> node_Name (rec_Node r))"

definition CapabilityProfiles :: "string \<Rightarrow> db \<Rightarrow> CapabilityProfile list" where
  "CapabilityProfiles clusterID d =
     map scanProfile (sort_slice (\<lambda>a b. ToLower (node_name d (cap_NodeID a)) < ToLower (node_name d (cap_NodeID b)))
       (filter (\<lambda>p. in_cluster clusterID d (cap_NodeID p)) (db_profiles d)))"

definition scanDraft :: "Draft \<Rightarrow> Draft" where
  "scanDraft r =
    (let item = (if draft_SchemaVersion r = LegacySchemaVersion \<or> des_SchemaVersion (draft_Document r) = LegacySchemaVersion
         then r\<lparr>draft_Document := ConvertLegacyDesired (draft_Document r), draft_SchemaVersion := SchemaVersion,
               draft_CanonicalHash := []\<rparr>
         else r)
     in if draft_CanonicalHash item = []
        then item\<lparr>draft_CanonicalHash := snd (MarshalDesired (draft_Document item))\<rparr> else item)"

definition DraftByCluster :: "string \<Rightarrow> db \<Rightarrow> go_error + Draft" where
  "DraftByCluster clusterID d =
     bind_err (mapDatabaseError ''configuration draft'' (query_row (\<lambda>r. draft_ClusterID r = clusterID) (db_drafts d)))
       (\<lambda>r. Inr (scanDraft r))"

definition draft_conflict :: go_error where
  "draft_conflict = NewError ErrorConflict ''the configuration draft was changed by another request''"

definition revision_ref :: "string option \<Rightarrow> db \<Rightarrow> bool" where
  "revision_ref i d \<longleftrightarrow> references i (map rev_ID (db_revisions d))"

definition draft_refs :: "Draft \<Rightarrow> db \<Rightarrow> bool" where
  "draft_refs r d \<longleftrightarrow> draft_ClusterID r \<in> cluster_ID ` set (db_clusters d) \<and>
     draft_SourceSnapshotID r \<in> snap_ID ` set (db_snapshots d) \<and> revision_ref (draft_BaseRevisionID r) d"

definition ImportDraft :: "Draft \<Rightarrow> int \<Rightarrow> AuditEvent \<Rightarrow> db \<Rightarrow> go_error + db" where
  "ImportDraft draft expectedVersion event d =
    (if expectedVersion = 0 then
       (let row = draft\<lparr>draft_Version := 1\<rparr> in
        require (stored_schema (draft_SchemaVersion draft)) (PlainError ''import configuration draft'')
        (require (draft_ID draft \<notin> draft_ID ` set (db_drafts d) \<and>
                  draft_ClusterID draft \<notin> draft_ClusterID ` set (db_drafts d)) draft_conflict
        (require (draft_refs draft d) (PlainError ''import configuration draft'')
        (audit event (d\<lparr>db_drafts := db_drafts d @ [row]\<rparr>)))))
     else
       (let P = (\<lambda>r. draft_ClusterID r = draft_ClusterID draft \<and> draft_Version r = expectedVersion);
            f = (\<lambda>r. r\<lparr>draft_SourceSnapshotID := draft_SourceSnapshotID draft,
                  draft_BaseRevisionID := draft_BaseRevisionID draft, draft_SchemaVersion := draft_SchemaVersion draft,
                  draft_Document := draft_Document draft, draft_CanonicalHash := draft_CanonicalHash draft,
                  draft_Version := draft_Version r + 1, draft_UpdatedBy := draft_UpdatedBy draft,
                  draft_UpdatedAt := draft_UpdatedAt draft\<rparr>) in
        require (rows_affected P (db_drafts d) = 0 \<or>
                 stored_schema (draft_SchemaVersion draft) \<and>
                 draft_SourceSnapshotID draft \<in> snap_ID ` set (db_snapshots d) \<and>
                 revision_ref (draft_BaseRevisionID draft) d) (PlainError ''import configuration draft'')
        (require (rows_affected P (db_drafts d) = 1) draft_conflict
        (audit event (d\<lparr>db_drafts := update_where P f (db_drafts d)\<rparr>)))))"


subsection \<open>Revisions (\<open>controlplane.go\<close>)\<close>

definition UpdateConfigurationDraft :: "Draft \<Rightarrow> int \<Rightarrow> AuditEvent \<Rightarrow> db \<Rightarrow> go_error + db" where
  "UpdateConfigurationDraft draft expectedVersion event d =
    (let P = (\<lambda>r. draft_ClusterID r = draft_ClusterID draft \<and> draft_Version r = expectedVersion);
         f = (\<lambda>r. r\<lparr>draft_Document := draft_Document draft, draft_CanonicalHash := draft_CanonicalHash draft,
               draft_Version := draft_Version r + 1, draft_UpdatedBy := draft_UpdatedBy draft,
               draft_UpdatedAt := draft_UpdatedAt draft\<rparr>) in
     require (rows_affected P (db_drafts d) = 1) draft_conflict
     (audit event (d\<lparr>db_drafts := update_where P f (db_drafts d)\<rparr>)))"

definition next_revision_number :: "string \<Rightarrow> db \<Rightarrow> int" where
  "next_revision_number clusterID d =
     foldr max (map rev_RevisionNumber (filter (\<lambda>r. rev_ClusterID r = clusterID) (db_revisions d))) 0 + 1"

definition revision_check :: "RevisionRow \<Rightarrow> bool" where
  "revision_check r \<longleftrightarrow> rev_RevisionNumber r > 0 \<and> stored_schema (rev_SchemaVersion r) \<and> char_length_between 1 500 (rev_Summary r)"

text \<open>
  A cluster without revisions: \<open>MAX\<close> is \<open>NULL\<close> and \<open>COALESCE\<close> gives 0. The number is
  written back into the caller's revision, which is the result.
\<close>

definition PublishRevision :: "Revision \<Rightarrow> int \<Rightarrow> AuditEvent \<Rightarrow> db \<Rightarrow> go_error + Revision \<times> db" where
  "PublishRevision revision expectedVersion event d =
    (let revision = revision\<lparr>rev_RevisionNumber := next_revision_number (rev_ClusterID revision) d\<rparr>;
         row = (RevisionRow.truncate revision)\<lparr>rev_ArchivedAt := None, rev_ArchivedBy := None\<rparr>;
         P = (\<lambda>r. draft_ClusterID r = rev_ClusterID revision \<and> draft_Version r = expectedVersion);
         f = (\<lambda>r. r\<lparr>draft_BaseRevisionID := Some (rev_ID revision), draft_Version := draft_Version r + 1,
               draft_UpdatedBy := rev_CreatedBy revision, draft_UpdatedAt := rev_CreatedAt revision\<rparr>) in
     require (revision_check row \<and> rev_ID row \<notin> rev_ID ` set (db_revisions d) \<and>
              rev_ClusterID row \<in> cluster_ID ` set (db_clusters d)) (PlainError ''insert configuration revision'')
     (require (rows_affected P (db_drafts d) = 1) draft_conflict
     (bind_err (audit event (d\<lparr>db_revisions := db_revisions d @ [row], db_drafts := update_where P f (db_drafts d)\<rparr>))
       (\<lambda>d. Inr (revision, d)))))"

text \<open>The parts of \<open>revisionSelect\<close> that say whether other rows refer to a revision.\<close>

definition revision_retained :: "string \<Rightarrow> db \<Rightarrow> bool" where
  "revision_retained i d \<longleftrightarrow>
     list_ex (\<lambda>n. node_AppliedRevisionID (rec_Node n) = Some i) (db_nodes d) \<or>
     list_ex (\<lambda>r. draft_BaseRevisionID r = Some i) (db_drafts d) \<or>
     list_ex (\<lambda>p. dep_RevisionID p = i \<or> dep_RollbackOfRevisionID p = Some i) (db_deployments d) \<or>
     list_ex (\<lambda>e. drift_DesiredRevisionID e = i) (db_drifts d)"

definition scanRevision :: "db \<Rightarrow> Cluster \<Rightarrow> RevisionRow \<Rightarrow> Revision" where
  "scanRevision d c row =
    (let legacy = (rev_SchemaVersion row = LegacySchemaVersion \<or> des_SchemaVersion (rev_Document row) = LegacySchemaVersion);
         document = (if legacy then ConvertLegacyDesired (rev_Document row) else rev_Document row);
         row = (if legacy then row\<lparr>rev_Document := document, rev_SchemaVersion := SchemaVersion,
                  rev_CanonicalHash := snd (MarshalDesired document)\<rparr> else row);
         active = (cluster_ActiveRevisionID c = Some (rev_ID row))
     in RevisionRow.extend row (Revision.fields active
          \<lparr>CanArchive = \<not> active \<and> rev_ArchivedAt row = None, CanRestore = rev_ArchivedAt row \<noteq> None,
           CanDelete = (cluster_ActiveRevisionID c \<noteq> Some (rev_ID row) \<and> \<not> revision_retained (rev_ID row) d)\<rparr>))"

definition joined_cluster :: "RevisionRow \<Rightarrow> db \<Rightarrow> Cluster option" where
  "joined_cluster row d = query_row (\<lambda>c. cluster_ID c = rev_ClusterID row) (db_clusters d)"

definition select_revision :: "db \<Rightarrow> RevisionRow \<Rightarrow> Revision option" where
  "select_revision d row = map_option (\<lambda>c. scanRevision d c row) (joined_cluster row d)"

definition ListRevisions :: "string \<Rightarrow> bool \<Rightarrow> db \<Rightarrow> Revision list" where
  "ListRevisions clusterID includeArchived d =
     List.map_filter (select_revision d)
       (order_desc rev_RevisionNumber
         (filter (\<lambda>r. rev_ClusterID r = clusterID \<and> (includeArchived \<or> rev_ArchivedAt r = None)) (db_revisions d)))"

definition RevisionByID :: "string \<Rightarrow> db \<Rightarrow> go_error + Revision" where
  "RevisionByID i d = mapDatabaseError ''configuration revision''
     (Option.bind (query_row (\<lambda>r. rev_ID r = i) (db_revisions d)) (select_revision d))"

text \<open>
  SQL's three-valued logic: \<open>active_revision_id = r.id\<close> is \<open>NULL\<close> when the cluster has no
  active revision. Scanning \<open>NULL\<close> into a \<open>bool\<close> variable is an error.
\<close>

definition sql_eq :: "'k option \<Rightarrow> 'k \<Rightarrow> bool option" where
  "sql_eq a b = map_option (\<lambda>x. x = b) a"

definition sql_or :: "bool option \<Rightarrow> bool option \<Rightarrow> bool option" where
  "sql_or a b = (if a = Some True \<or> b = Some True then Some True
     else if a = None \<or> b = None then None else Some False)"

definition scan_bool :: "bool option \<Rightarrow> go_error + bool" where
  "scan_bool v = (case v of None \<Rightarrow> Inl (PlainError ''cannot scan NULL into *bool'') | Some b \<Rightarrow> Inr b)"

definition SetRevisionArchived :: "string \<Rightarrow> string \<Rightarrow> bool \<Rightarrow> time \<Rightarrow> AuditEvent \<Rightarrow> db \<Rightarrow> go_error + db" where
  "SetRevisionArchived i actorID archived at event d =
     bind_err (mapDatabaseError ''configuration revision''
       (Option.bind (query_row (\<lambda>r. rev_ID r = i) (db_revisions d)) (\<lambda>r. map_option (Pair r) (joined_cluster r d))))
     (\<lambda>(r, c). bind_err (scan_bool (sql_eq (cluster_ActiveRevisionID c) (rev_ID r))) (\<lambda>active.
       if archived then
         require (\<not> active) (NewError ErrorConflict ''the active revision cannot be archived'')
         (require (rev_ArchivedAt r = None) (NewError ErrorConflict ''the revision is already archived'')
         (audit event (d\<lparr>db_revisions := update_where (\<lambda>r. rev_ID r = i)
            (\<lambda>r. r\<lparr>rev_ArchivedAt := Some at, rev_ArchivedBy := Some actorID\<rparr>) (db_revisions d)\<rparr>)))
       else
         require (rev_ArchivedAt r \<noteq> None) (NewError ErrorConflict ''the revision is not archived'')
         (audit event (d\<lparr>db_revisions := update_where (\<lambda>r. rev_ID r = i)
            (\<lambda>r. r\<lparr>rev_ArchivedAt := None, rev_ArchivedBy := None\<rparr>) (db_revisions d)\<rparr>))))"

definition DeleteUnusedRevision :: "string \<Rightarrow> AuditEvent \<Rightarrow> db \<Rightarrow> go_error + db" where
  "DeleteUnusedRevision i event d =
     bind_err (mapDatabaseError ''configuration revision''
       (Option.bind (query_row (\<lambda>r. rev_ID r = i) (db_revisions d)) (\<lambda>r. map_option (Pair r) (joined_cluster r d))))
     (\<lambda>(r, c). bind_err (scan_bool (sql_or (sql_eq (cluster_ActiveRevisionID c) (rev_ID r)) (Some (revision_retained i d))))
     (\<lambda>referenced.
       require (\<not> referenced)
         (NewError ErrorConflict ''the revision is active or retained by configuration, deployment, node, or drift history'')
       (require (\<not> list_ex (\<lambda>c. cluster_ActiveRevisionID c = Some i) (db_clusters d)) (PlainError ''delete unused revision'')
       (audit event (d\<lparr>db_revisions := filter (\<lambda>r. rev_ID r \<noteq> i) (db_revisions d)\<rparr>)))))"


subsection \<open>Deployments (\<open>controlplane.go\<close>)\<close>

definition active_status :: "DeploymentStatus \<Rightarrow> bool" where
  "active_status s \<longleftrightarrow> s \<in> {Queued, Validating, Running, Cancelling}"

definition terminal_status :: "DeploymentStatus \<Rightarrow> bool" where
  "terminal_status s \<longleftrightarrow> s \<in> {PartiallySucceeded, Succeeded, Failed, Cancelled, Interrupted}"

text \<open>The index \<open>deployments_one_active_per_cluster\<close>.\<close>

definition one_active :: "DeploymentRow list \<Rightarrow> bool" where
  "one_active rows \<longleftrightarrow> unique_index (\<lambda>p. active_status (dep_Status p)) dep_ClusterID rows"

definition deployment_indexes :: "DeploymentRow list \<Rightarrow> bool" where
  "deployment_indexes rows \<longleftrightarrow> primary_key dep_ID rows \<and> one_active rows"

definition task_indexes :: "DeploymentNode list \<Rightarrow> bool" where
  "task_indexes rows \<longleftrightarrow> primary_key task_ID rows \<and>
     primary_key (\<lambda>t. (task_DeploymentID t, task_NodeID t)) rows \<and>
     primary_key (\<lambda>t. (task_DeploymentID t, task_Position t)) rows"

definition new_task_row :: "string \<Rightarrow> DeploymentNode \<Rightarrow> DeploymentNode" where
  "new_task_row deploymentID node =
    \<lparr>task_ID = task_ID node, task_DeploymentID = deploymentID, task_NodeID = task_NodeID node,
     task_Position = task_Position node, task_EffectiveHash = task_EffectiveHash node, task_Status = task_Status node,
     task_AttemptCount = 0, task_StartedAt = None, task_CompletedAt = None, task_ErrorCode = [],
     task_ErrorMessage = [], task_VerificationSnapshotID = None\<rparr>"

fun insert_tasks :: "string \<Rightarrow> DeploymentNode list \<Rightarrow> db \<Rightarrow> go_error + db" where
  "insert_tasks deploymentID [] d = Inr d"
| "insert_tasks deploymentID (node # nodes) d =
    (let rows = db_tasks d @ [new_task_row deploymentID node] in
     require (task_Position node > 0 \<and> task_indexes rows \<and> node_exists (task_NodeID node) d)
       (PlainError ''insert deployment node'')
     (insert_tasks deploymentID nodes (d\<lparr>db_tasks := rows\<rparr>)))"

definition new_deployment_row :: "Deployment \<Rightarrow> DeploymentRow" where
  "new_deployment_row deployment = (DeploymentRow.truncate deployment)
    \<lparr>dep_CancelRequested := False, dep_ErrorCode := [], dep_StartedAt := None, dep_CompletedAt := None,
     dep_ArchivedAt := None, dep_ArchivedBy := None\<rparr>"

definition deployment_check :: "DeploymentRow \<Rightarrow> bool" where
  "deployment_check p \<longleftrightarrow> dep_Strategy p = ''sequential'' \<and> dep_FailurePolicy p = ''stop'' \<and>
     dep_Origin p \<in> {''manual'', ''rollback'', ''reconciliation''}"

definition CreateDeployment :: "Deployment \<Rightarrow> AuditEvent \<Rightarrow> db \<Rightarrow> go_error + db" where
  "CreateDeployment deployment event d =
    (let row = new_deployment_row deployment; rows = db_deployments d @ [row] in
     require (deployment_check row) (PlainError ''insert deployment'')
     (require (deployment_indexes rows) (NewError ErrorConflict ''the cluster already has an active deployment'')
     (require (dep_ClusterID row \<in> cluster_ID ` set (db_clusters d) \<and> revision_ref (Some (dep_RevisionID row)) d \<and>
               revision_ref (dep_RollbackOfRevisionID row) d) (PlainError ''insert deployment'')
     (bind_err (insert_tasks (dep_ID deployment) (dep_Nodes deployment) (d\<lparr>db_deployments := rows\<rparr>)) (audit event)))))"

definition ClusterHasActiveDeployment :: "string \<Rightarrow> db \<Rightarrow> bool" where
  "ClusterHasActiveDeployment clusterID d \<longleftrightarrow>
     list_ex (\<lambda>p. dep_ClusterID p = clusterID \<and> active_status (dep_Status p)) (db_deployments d)"

definition task_untouched :: "DeploymentNode \<Rightarrow> bool" where
  "task_untouched n \<longleftrightarrow> \<not> (task_Status n \<noteq> TaskPending \<or> task_AttemptCount n \<noteq> 0 \<or> task_StartedAt n \<noteq> None)"

text \<open>The last column of \<open>deploymentSelect\<close>, which \<open>DeleteUnstartedDeployment\<close> repeats.\<close>

definition unstarted :: "DeploymentRow \<Rightarrow> db \<Rightarrow> bool" where
  "unstarted p d \<longleftrightarrow> dep_Status p = Queued \<and> dep_StartedAt p = None \<and>
     \<not> list_ex (\<lambda>n. task_DeploymentID n = dep_ID p \<and> \<not> task_untouched n) (db_tasks d) \<and>
     \<not> list_ex (\<lambda>e. drift_RelatedDeploymentID e = Some (dep_ID p)) (db_drifts d)"

definition scanDeployment :: "db \<Rightarrow> DeploymentNode list \<Rightarrow> DeploymentRow \<Rightarrow> Deployment" where
  "scanDeployment d nodes p = DeploymentRow.extend p (Deployment.fields
     \<lparr>CanArchive = terminal_status (dep_Status p) \<and> dep_ArchivedAt p = None,
      CanRestore = (dep_ArchivedAt p \<noteq> None), CanDelete = unstarted p d\<rparr> nodes)"

definition ListDeployments :: "string \<Rightarrow> bool \<Rightarrow> db \<Rightarrow> Deployment list" where
  "ListDeployments clusterID includeArchived d =
     map (scanDeployment d []) (order_desc dep_RequestedAt
       (filter (\<lambda>p. dep_ClusterID p = clusterID \<and> (includeArchived \<or> dep_ArchivedAt p = None)) (db_deployments d)))"

definition tasks_of :: "string \<Rightarrow> db \<Rightarrow> DeploymentNode list" where
  "tasks_of i d = sort_slice (\<lambda>a b. task_Position a < task_Position b)
     (filter (\<lambda>t. task_DeploymentID t = i) (db_tasks d))"

definition DeploymentByID :: "string \<Rightarrow> db \<Rightarrow> go_error + Deployment" where
  "DeploymentByID i d =
     bind_err (mapDatabaseError ''deployment'' (query_row (\<lambda>p. dep_ID p = i) (db_deployments d)))
       (\<lambda>p. Inr (scanDeployment d (tasks_of i d) p))"

definition SetDeploymentArchived :: "string \<Rightarrow> string \<Rightarrow> bool \<Rightarrow> time \<Rightarrow> AuditEvent \<Rightarrow> db \<Rightarrow> go_error + db" where
  "SetDeploymentArchived i actorID archived at event d =
     bind_err (mapDatabaseError ''deployment'' (query_row (\<lambda>p. dep_ID p = i) (db_deployments d)))
     (\<lambda>p. if archived then
         require (terminal_status (dep_Status p)) (NewError ErrorConflict ''only terminal deployment history can be archived'')
         (require (dep_ArchivedAt p = None) (NewError ErrorConflict ''the deployment is already archived'')
         (audit event (d\<lparr>db_deployments := update_where (\<lambda>p. dep_ID p = i)
            (\<lambda>p. p\<lparr>dep_ArchivedAt := Some at, dep_ArchivedBy := Some actorID\<rparr>) (db_deployments d)\<rparr>)))
       else
         require (dep_ArchivedAt p \<noteq> None) (NewError ErrorConflict ''the deployment is not archived'')
         (audit event (d\<lparr>db_deployments := update_where (\<lambda>p. dep_ID p = i)
            (\<lambda>p. p\<lparr>dep_ArchivedAt := None, dep_ArchivedBy := None\<rparr>) (db_deployments d)\<rparr>)))"

definition DeleteUnstartedDeployment :: "string \<Rightarrow> AuditEvent \<Rightarrow> db \<Rightarrow> go_error + db" where
  "DeleteUnstartedDeployment i event d =
     bind_err (mapDatabaseError ''deployment'' (query_row (\<lambda>p. dep_ID p = i) (db_deployments d)))
     (\<lambda>p. require (unstarted p d)
         (NewError ErrorConflict ''the deployment has started or is retained by operational history'')
       (audit event (d\<lparr>db_tasks := filter (\<lambda>t. task_DeploymentID t \<noteq> i) (db_tasks d),
          db_deployments := filter (\<lambda>p. dep_ID p \<noteq> i) (db_deployments d)\<rparr>)))"

definition RequestDeploymentCancel :: "string \<Rightarrow> AuditEvent \<Rightarrow> db \<Rightarrow> go_error + db" where
  "RequestDeploymentCancel i event d =
    (let P = (\<lambda>p. dep_ID p = i \<and> dep_Status p \<in> {Queued, Validating, Running});
         f = (\<lambda>p. p\<lparr>dep_CancelRequested := True,
               dep_Status := (if dep_Status p = Queued then Cancelling else dep_Status p)\<rparr>) in
     require (rows_affected P (db_deployments d) = 1) (NewError ErrorConflict ''deployment is no longer cancellable'')
     (audit event (d\<lparr>db_deployments := update_where P f (db_deployments d)\<rparr>)))"

definition claimable :: "DeploymentRow \<Rightarrow> bool" where
  "claimable p \<longleftrightarrow> dep_Status p = Queued \<or> dep_Status p = Cancelling"

text \<open>The empty identifier is returned when there is nothing to claim.\<close>

definition ClaimDeployment :: "time \<Rightarrow> db \<Rightarrow> go_error + string \<times> db" where
  "ClaimDeployment at d =
    (case sort_slice (\<lambda>a b. dep_RequestedAt a < dep_RequestedAt b) (filter claimable (db_deployments d)) of
       [] \<Rightarrow> Inr ([], d)
     | p # _ \<Rightarrow>
        Inr (dep_ID p, d\<lparr>db_deployments := update_where (\<lambda>q. dep_ID q = dep_ID p)
          (\<lambda>q. q\<lparr>dep_Status := (if dep_CancelRequested q then Cancelling else Validating),
                dep_StartedAt := (case dep_StartedAt q of None \<Rightarrow> Some at | Some s \<Rightarrow> Some s)\<rparr>) (db_deployments d)\<rparr>))"

definition UpdateDeploymentNode :: "DeploymentNode \<Rightarrow> db \<Rightarrow> go_error + db" where
  "UpdateDeploymentNode node d =
    (let P = (\<lambda>t. task_ID t = task_ID node);
         f = (\<lambda>t. t\<lparr>task_Status := task_Status node, task_AttemptCount := task_AttemptCount node,
               task_StartedAt := task_StartedAt node, task_CompletedAt := task_CompletedAt node,
               task_ErrorCode := task_ErrorCode node, task_ErrorMessage := task_ErrorMessage node,
               task_VerificationSnapshotID := task_VerificationSnapshotID node\<rparr>) in
     require (rows_affected P (db_tasks d) = 0 \<or> task_AttemptCount node \<ge> 0 \<and>
              references (task_VerificationSnapshotID node) (map snap_ID (db_snapshots d)))
       (PlainError ''update deployment node'')
     (Inr (d\<lparr>db_tasks := update_where P f (db_tasks d)\<rparr>)))"

definition SetDeploymentRunning :: "string \<Rightarrow> db \<Rightarrow> go_error + db" where
  "SetDeploymentRunning i d = Inr (d\<lparr>db_deployments :=
     update_where (\<lambda>p. dep_ID p = i \<and> dep_Status p = Validating) (\<lambda>p. p\<lparr>dep_Status := Running\<rparr>) (db_deployments d)\<rparr>)"

definition MarkNodeApplied :: "string \<Rightarrow> string \<Rightarrow> string \<Rightarrow> string \<Rightarrow> time \<Rightarrow> db \<Rightarrow> go_error + db" where
  "MarkNodeApplied nodeID revisionID hash snapshotID at d =
     require (\<not> node_exists nodeID d \<or> revision_ref (Some revisionID) d) (PlainError ''mark node applied'')
     (Inr (d\<lparr>db_nodes := update_where (\<lambda>r. row_ID r = nodeID)
        (rec_Node_update (\<lambda>n. n\<lparr>node_AppliedRevisionID := Some revisionID, node_AppliedHash := hash,
           node_ConvergenceStatus := ConvConverged, node_LastReconciledAt := Some at, node_UpdatedAt := at\<rparr>))
        (db_nodes d)\<rparr>))"

definition finish_drift :: "string \<Rightarrow> DeploymentStatus \<Rightarrow> DriftEvent list \<Rightarrow> DriftEvent list" where
  "finish_drift i status = update_where (\<lambda>e. drift_RelatedDeploymentID e = Some i \<and> drift_Status e = DriftOpen)
     (\<lambda>e. e\<lparr>drift_ReconciliationStatus := (if status = Succeeded then ReconEnforcing else ReconFailed)\<rparr>)"

definition FinishDeployment :: "Deployment \<Rightarrow> bool \<Rightarrow> AuditEvent \<Rightarrow> db \<Rightarrow> go_error + db" where
  "FinishDeployment deployment activate event d =
    (let deps = update_where (\<lambda>p. dep_ID p = dep_ID deployment)
           (\<lambda>p. p\<lparr>dep_Status := dep_Status deployment, dep_ErrorCode := dep_ErrorCode deployment,
                 dep_CompletedAt := dep_CompletedAt deployment\<rparr>) (db_deployments d);
         C = (\<lambda>c. cluster_ID c = dep_ClusterID deployment);
         cls = (if activate then update_where C
              (\<lambda>c. c\<lparr>cluster_ActiveRevisionID := Some (dep_RevisionID deployment),
                    cluster_UpdatedAt := (case dep_CompletedAt deployment of None \<Rightarrow> cluster_UpdatedAt c | Some t \<Rightarrow> t)\<rparr>)
              (db_clusters d) else db_clusters d) in
     require (one_active deps) (PlainError ''finish deployment'')
     (require (\<not> activate \<or> rows_affected C (db_clusters d) = 0 \<or>
               revision_ref (Some (dep_RevisionID deployment)) d \<and> dep_CompletedAt deployment \<noteq> None) (PlainError ''activate revision'')
     (audit event (d\<lparr>db_deployments := deps, db_clusters := cls,
        db_drifts := finish_drift (dep_ID deployment) (dep_Status deployment) (db_drifts d)\<rparr>))))"

definition in_progress :: "DeploymentStatus \<Rightarrow> bool" where
  "in_progress s \<longleftrightarrow> s \<in> {Validating, Running, Cancelling}"

definition interrupt_event :: "time \<Rightarrow> string \<Rightarrow> DeploymentRow \<Rightarrow> AuditEvent" where
  "interrupt_event at eventID p =
    \<lparr>audit_ID = eventID, audit_ActorType = ''system'', audit_ActorUserID = None, audit_Action = ''deployment.interrupted'',
     audit_ResourceType = ''deployment'', audit_ResourceID = Some (dep_ID p), audit_RequestID = dep_RequestID p,
     audit_Metadata = [(''previousStatus'', JString (deployment_status_string (dep_Status p))),
       (''reason'', JString ''controller_restart'')], audit_CreatedAt = at\<rparr>"

text \<open>
  The identifiers of the audit events come from \<open>NewID\<close> one by one; the list holds the
  values it returns, and a call that fails is the end of the list.
\<close>

fun audit_all :: "time \<Rightarrow> string list \<Rightarrow> DeploymentRow list \<Rightarrow> db \<Rightarrow> go_error + db" where
  "audit_all at ids [] d = Inr d"
| "audit_all at [] (p # ps) d = Inl (PlainError ''generate identifier'')"
| "audit_all at (i # ids) (p # ps) d = bind_err (audit (interrupt_event at i p) d) (audit_all at ids ps)"

definition interrupt_running_tasks :: "time \<Rightarrow> DeploymentNode list \<Rightarrow> DeploymentNode list" where
  "interrupt_running_tasks at = update_where (\<lambda>t. task_Status t \<in> {TaskValidating, TaskApplying, TaskVerifying})
     (\<lambda>t. t\<lparr>task_Status := TaskInterrupted, task_CompletedAt := Some at, task_ErrorCode := ''CONTROLLER_RESTARTED'',
           task_ErrorMessage := ''Controller restarted before this task completed.''\<rparr>)"

definition skip_pending_tasks :: "time \<Rightarrow> string set \<Rightarrow> DeploymentNode list \<Rightarrow> DeploymentNode list" where
  "skip_pending_tasks at ids = update_where (\<lambda>t. task_Status t = TaskPending \<and> task_DeploymentID t \<in> ids)
     (\<lambda>t. t\<lparr>task_Status := TaskSkipped, task_CompletedAt := Some at, task_ErrorCode := ''DEPLOYMENT_INTERRUPTED''\<rparr>)"

definition InterruptDeployments :: "time \<Rightarrow> string list \<Rightarrow> db \<Rightarrow> go_error + db" where
  "InterruptDeployments at ids d =
    (let P = (\<lambda>p. in_progress (dep_Status p)); interrupted = filter P (db_deployments d) in
     audit_all at ids interrupted (d\<lparr>
       db_tasks := skip_pending_tasks at (dep_ID ` set interrupted) (interrupt_running_tasks at (db_tasks d)),
       db_deployments := update_where P
         (\<lambda>p. p\<lparr>dep_Status := Interrupted, dep_ErrorCode := ''CONTROLLER_RESTARTED'', dep_CompletedAt := Some at\<rparr>)
         (db_deployments d)\<rparr>))"


subsection \<open>Drift (\<open>controlplane.go\<close>)\<close>

definition ListDriftEvents :: "string \<Rightarrow> db \<Rightarrow> DriftEvent list" where
  "ListDriftEvents clusterID d = order_desc drift_DetectedAt (filter (\<lambda>e. drift_ClusterID e = clusterID) (db_drifts d))"

definition DriftEventByID :: "string \<Rightarrow> db \<Rightarrow> go_error + DriftEvent" where
  "DriftEventByID i d = mapDatabaseError ''drift event'' (query_row (\<lambda>e. drift_ID e = i) (db_drifts d))"

definition open_fingerprint :: "string \<Rightarrow> string \<Rightarrow> DriftEvent \<Rightarrow> bool" where
  "open_fingerprint nodeID fingerprint e \<longleftrightarrow>
     drift_NodeID e = nodeID \<and> drift_Fingerprint e = fingerprint \<and> drift_Status e = DriftOpen"

definition drift_refs :: "DriftEvent \<Rightarrow> db \<Rightarrow> bool" where
  "drift_refs e d \<longleftrightarrow> drift_ClusterID e \<in> cluster_ID ` set (db_clusters d) \<and> node_exists (drift_NodeID e) d \<and>
     revision_ref (Some (drift_DesiredRevisionID e)) d \<and> drift_ObservedSnapshotID e \<in> snap_ID ` set (db_snapshots d)"

definition UpsertDriftEvent :: "DriftEvent \<Rightarrow> AuditEvent \<Rightarrow> db \<Rightarrow> go_error + (DriftEvent \<times> bool) \<times> db" where
  "UpsertDriftEvent item event d =
    (let P = open_fingerprint (drift_NodeID item) (drift_Fingerprint item) in
     case query_row P (db_drifts d) of
       None \<Rightarrow>
        (let row = item\<lparr>drift_Status := DriftOpen, drift_LastSeenAt := drift_DetectedAt item, drift_ResolvedAt := None,
               drift_Resolution := [], drift_RelatedDeploymentID := None\<rparr> in
         require (ValidReconciliationPolicy (drift_Policy item) \<and> drift_ID item \<notin> drift_ID ` set (db_drifts d) \<and>
                  drift_refs item d) (PlainError ''insert drift event'')
         (bind_err (audit event (d\<lparr>db_drifts := db_drifts d @ [row]\<rparr>)) (\<lambda>d. Inr ((item, True), d))))
     | Some e \<Rightarrow>
        (let f = (\<lambda>e. e\<lparr>drift_ObservedSnapshotID := drift_ObservedSnapshotID item,
               drift_ObservedHash := drift_ObservedHash item, drift_LastSeenAt := drift_LastSeenAt item,
               drift_Policy := drift_Policy item, drift_Differences := drift_Differences item,
               drift_ReconciliationStatus := (if drift_ReconciliationStatus e = ReconEnforcing then ReconEnforcing
                 else if drift_Policy item = ReconciliationAlert then ReconAlerted else ReconPending)\<rparr>) in
         require (ValidReconciliationPolicy (drift_Policy item) \<and>
                  drift_ObservedSnapshotID item \<in> snap_ID ` set (db_snapshots d)) (PlainError ''update drift event'')
         (Inr ((f e, False), d\<lparr>db_drifts := update_where P f (db_drifts d)\<rparr>))))"

definition ResolveNodeDrift :: "string \<Rightarrow> string \<Rightarrow> time \<Rightarrow> AuditEvent \<Rightarrow> db \<Rightarrow> go_error + bool \<times> db" where
  "ResolveNodeDrift nodeID resolution at event d =
    (if rows_affected (\<lambda>e. drift_NodeID e = nodeID \<and> drift_Status e = DriftOpen) (db_drifts d) = 0 then Inr (False, d)
     else bind_err (audit event (d\<lparr>db_drifts := resolve_drift nodeID resolution at (db_drifts d)\<rparr>)) (\<lambda>d. Inr (True, d)))"

definition UpdateDriftReconciliation :: "string \<Rightarrow> ReconciliationStatus \<Rightarrow> string option \<Rightarrow> db \<Rightarrow> go_error + db" where
  "UpdateDriftReconciliation i status deploymentID d =
     require (rows_affected (\<lambda>e. drift_ID e = i) (db_drifts d) = 0 \<or>
              references deploymentID (map dep_ID (db_deployments d))) (PlainError ''update drift reconciliation'')
     (Inr (d\<lparr>db_drifts := update_where (\<lambda>e. drift_ID e = i)
        (\<lambda>e. e\<lparr>drift_ReconciliationStatus := status, drift_RelatedDeploymentID := deploymentID\<rparr>) (db_drifts d)\<rparr>))"

definition UpdateNodeConvergence :: "string \<Rightarrow> Convergence \<Rightarrow> time \<Rightarrow> db \<Rightarrow> go_error + db" where
  "UpdateNodeConvergence nodeID status at d =
     Inr (d\<lparr>db_nodes := update_where (\<lambda>r. row_ID r = nodeID)
       (rec_Node_update (\<lambda>n. n\<lparr>node_ConvergenceStatus := status, node_LastReconciledAt := Some at, node_UpdatedAt := at\<rparr>))
       (db_nodes d)\<rparr>)"

end
