(* ===== verification/Store_Commands.thy ===== *)
theory Store_Commands
  imports Store
begin

text \<open>
  Operational commands in the store: the transactions of
  \<open>internal/database/dns_operational_commands.go\<close> and
  \<open>internal/database/operational_commands.go\<close> on the two tables of
  \<open>migrations/000005\<close> to \<open>000008\<close>, and the types they exchange with the services
  (\<open>internal/operations/model.go\<close>, \<open>internal/inventory/dhcp_operations.go\<close>).
\<close>

subsection \<open>Types\<close>

type_synonym Command = string

definition TestUpstreamDNS :: Command where "TestUpstreamDNS = ''test_upstream_dns''"
definition TestHostFiltering :: Command where "TestHostFiltering = ''test_host_filtering''"
definition ClearDNSCache :: Command where "ClearDNSCache = ''clear_dns_cache''"
definition ClearQueryLog :: Command where "ClearQueryLog = ''clear_query_log''"
definition ResetStatistics :: Command where "ResetStatistics = ''reset_statistics''"
definition DHCPOperationResetLeases :: Command where "DHCPOperationResetLeases = ''dhcp_reset_leases''"
definition DHCPOperationResetConfiguration :: Command where "DHCPOperationResetConfiguration = ''dhcp_reset_configuration''"

lemmas command_defs = TestUpstreamDNS_def TestHostFiltering_def ClearDNSCache_def ClearQueryLog_def ResetStatistics_def
  DHCPOperationResetLeases_def DHCPOperationResetConfiguration_def

text \<open>The list of command types in the \<open>WHERE\<close> clauses of \<open>dns_operational_commands.go\<close>.\<close>

definition dns_commands :: "Command list" where
  "dns_commands = [TestUpstreamDNS, TestHostFiltering, ClearDNSCache, ClearQueryLog, ResetStatistics]"

record NodeResult =
  nr_ID :: string
  nr_NodeID :: string
  nr_NodeName :: string
  nr_Position :: int
  nr_Status :: ResultStatus
  nr_ErrorCode :: string
  nr_ResolverResults :: "ResolverResult list"
  nr_HostFilterResult :: "HostFilterResult option"
  nr_ObservationStatus :: string
  nr_ObservationSnapshotID :: string
  nr_ObservationErrorCode :: string
  nr_StartedAt :: "time option"
  nr_CompletedAt :: "time option"

record Operation =
  op_ID :: string
  op_ClusterID :: string
  op_ClusterName :: string
  op_Command :: Command
  op_Target :: Target
  op_Status :: CommandStatus
  op_RequestID :: string
  op_IdempotencyKey :: string
  op_RequestedBy :: string
  op_InputFingerprint :: string
  op_Payload :: EncryptedPayload
  op_AuditReference :: string
  op_RequestedAt :: time
  op_StartedAt :: "time option"
  op_CompletedAt :: "time option"
  op_NodeResults :: "NodeResult list"
  op_ExcludedNodes :: "ExcludedNode list"
  op_Duplicate :: bool

record DHCPOperationNodeResult =
  dr_ID :: string
  dr_NodeID :: string
  dr_NodeName :: string
  dr_Status :: ResultStatus
  dr_ErrorCode :: string
  dr_StartedAt :: time
  dr_CompletedAt :: "time option"

record DHCPOperation =
  dop_ID :: string
  dop_ClusterID :: string
  dop_ClusterName :: string
  dop_Command :: Command
  dop_Status :: CommandStatus
  dop_RequestID :: string
  dop_IdempotencyKey :: string
  dop_RequestedBy :: string
  dop_ObservationStatus :: string
  dop_ObservationSnapshotID :: string
  dop_ObservationErrorCode :: string
  dop_AuditReference :: string
  dop_RequestedAt :: time
  dop_CompletedAt :: "time option"
  dop_NodeResults :: "DHCPOperationNodeResult list"
  dop_Duplicate :: bool


subsection \<open>Constraints\<close>

definition terminal_command :: "CommandStatus \<Rightarrow> bool" where
  "terminal_command s \<longleftrightarrow> s \<notin> {CmdQueued, CmdRunning}"

definition command_check :: "CommandRow \<Rightarrow> bool" where
  "command_check r \<longleftrightarrow>
     cmd_Command r \<in> set (dns_commands @ [DHCPOperationResetLeases, DHCPOperationResetConfiguration]) \<and>
     cmd_TargetScope r \<in> {''node'', ''all_compatible_enabled_nodes''} \<and>
     cmd_ObservationStatus r \<in> {''not_run'', ''succeeded'', ''failed''} \<and>
     (cmd_Status r = CmdQueued \<and> cmd_StartedAt r = None \<and> cmd_CompletedAt r = None \<and> cmd_AuditReference r = None \<or>
      cmd_Status r = CmdRunning \<and> cmd_StartedAt r \<noteq> None \<and> cmd_CompletedAt r = None \<and> cmd_AuditReference r = None \<or>
      terminal_command (cmd_Status r) \<and> cmd_CompletedAt r \<noteq> None \<and> cmd_AuditReference r \<noteq> None)"

definition result_check :: "ResultRow \<Rightarrow> bool" where
  "result_check r \<longleftrightarrow> res_Position r > 0 \<and> res_ObservationStatus r \<in> {''not_run'', ''succeeded'', ''failed''} \<and>
     (res_Status r = ResPending \<and> res_StartedAt r = None \<and> res_CompletedAt r = None \<or>
      res_Status r = ResRunning \<and> res_StartedAt r \<noteq> None \<and> res_CompletedAt r = None \<or>
      res_Status r \<notin> {ResPending, ResRunning} \<and> res_CompletedAt r \<noteq> None)"

definition command_key :: "CommandRow \<Rightarrow> string \<times> string" where
  "command_key r = (cmd_RequestedBy r, cmd_IdempotencyKey r)"

definition command_indexes :: "CommandRow list \<Rightarrow> bool" where
  "command_indexes rows \<longleftrightarrow> primary_key cmd_ID rows \<and> primary_key command_key rows"

definition result_indexes :: "ResultRow list \<Rightarrow> bool" where
  "result_indexes rows \<longleftrightarrow> primary_key res_ID rows \<and> primary_key (\<lambda>r. (res_CommandID r, res_NodeID r)) rows"

definition snapshot_ref :: "string option \<Rightarrow> db \<Rightarrow> bool" where
  "snapshot_ref k d = references k (map snap_ID (db_snapshots d))"

definition command_refs :: "CommandRow \<Rightarrow> db \<Rightarrow> bool" where
  "command_refs r d \<longleftrightarrow> cmd_ClusterID r \<in> cluster_ID ` set (db_clusters d) \<and>
     references (cmd_TargetNodeID r) (map row_ID (db_nodes d)) \<and> snapshot_ref (cmd_ObservationSnapshotID r) d \<and>
     references (cmd_AuditReference r) (map audit_ID (db_audit d))"

definition result_refs :: "ResultRow \<Rightarrow> db \<Rightarrow> bool" where
  "result_refs r d \<longleftrightarrow> res_CommandID r \<in> cmd_ID ` set (db_commands d) \<and> res_NodeID r \<in> row_ID ` set (db_nodes d) \<and>
     snapshot_ref (res_ObservationSnapshotID r) d"


subsection \<open>Statements on the two tables\<close>

definition nullableString :: "string \<Rightarrow> string option" where
  "nullableString s = (if s = [] then None else Some s)"

definition defaultString :: "string \<Rightarrow> string \<Rightarrow> string" where
  "defaultString v fallback = (if v = [] then fallback else v)"

definition text_of :: "string option \<Rightarrow> string" where
  "text_of v = (case v of None \<Rightarrow> [] | Some s \<Rightarrow> s)"

text \<open>
  \<open>INSERT \<dots> ON CONFLICT (requested_by,idempotency_key) DO NOTHING\<close>: the table is left alone,
  which is the result None, when the key is taken; any other violated constraint is an error.
\<close>

definition insert_command :: "string \<Rightarrow> CommandRow \<Rightarrow> db \<Rightarrow> go_error + db option" where
  "insert_command what r d =
     require (command_check r) (PlainError what)
     (if command_key r \<in> command_key ` set (db_commands d) then Inr None
      else require (cmd_ID r \<notin> cmd_ID ` set (db_commands d) \<and> command_refs r d) (PlainError what)
        (Inr (Some (d\<lparr>db_commands := db_commands d @ [r]\<rparr>))))"

definition insert_result :: "string \<Rightarrow> ResultRow \<Rightarrow> db \<Rightarrow> go_error + db" where
  "insert_result what r d =
     require (result_check r \<and> result_indexes (db_results d @ [r]) \<and> result_refs r d) (PlainError what)
     (Inr (d\<lparr>db_results := db_results d @ [r]\<rparr>))"

definition new_result_row :: "string \<Rightarrow> NodeResult \<Rightarrow> ResultRow" where
  "new_result_row commandID node = \<lparr>res_ID = nr_ID node, res_CommandID = commandID, res_NodeID = nr_NodeID node,
     res_Position = nr_Position node, res_Status = nr_Status node, res_ErrorCode = [], res_ResolverResults = [],
     res_HostFilterResult = None, res_ObservationStatus = ''not_run'', res_ObservationSnapshotID = None,
     res_ObservationErrorCode = [], res_StartedAt = None, res_CompletedAt = None\<rparr>"

fun insert_results :: "string \<Rightarrow> NodeResult list \<Rightarrow> db \<Rightarrow> go_error + db" where
  "insert_results commandID [] d = Inr d"
| "insert_results commandID (node # nodes) d =
     bind_err (insert_result ''insert operational command node result'' (new_result_row commandID node) d)
       (insert_results commandID nodes)"


subsection \<open>Reading operations (\<open>dns_operational_commands.go\<close>)\<close>

definition joined_node_name :: "string \<Rightarrow> db \<Rightarrow> string" where
  "joined_node_name i d = (case query_row (\<lambda>r. row_ID r = i) (db_nodes d) of None \<Rightarrow> [] | Some r \<Rightarrow> node_Name (rec_Node r))"

definition read_result :: "db \<Rightarrow> ResultRow \<Rightarrow> NodeResult" where
  "read_result d r = \<lparr>nr_ID = res_ID r, nr_NodeID = res_NodeID r, nr_NodeName = joined_node_name (res_NodeID r) d,
     nr_Position = res_Position r, nr_Status = res_Status r, nr_ErrorCode = res_ErrorCode r,
     nr_ResolverResults = res_ResolverResults r, nr_HostFilterResult = res_HostFilterResult r,
     nr_ObservationStatus = res_ObservationStatus r, nr_ObservationSnapshotID = text_of (res_ObservationSnapshotID r),
     nr_ObservationErrorCode = res_ObservationErrorCode r, nr_StartedAt = res_StartedAt r, nr_CompletedAt = res_CompletedAt r\<rparr>"

definition loadOperationalCommandNodes :: "string \<Rightarrow> db \<Rightarrow> NodeResult list" where
  "loadOperationalCommandNodes commandID d =
     map (read_result d) (sort_key (\<lambda>r. (res_Position r, res_ID r)) (filter (\<lambda>r. res_CommandID r = commandID) (db_results d)))"

definition zero_payload :: EncryptedPayload where
  "zero_payload = \<lparr>pay_Ciphertext = [], pay_Nonce = [], pay_KeyVersion = 0, pay_Algorithm = []\<rparr>"

definition joined_cluster_name :: "string \<Rightarrow> db \<Rightarrow> string" where
  "joined_cluster_name i d = (case query_row (\<lambda>c. cluster_ID c = i) (db_clusters d) of None \<Rightarrow> [] | Some c \<Rightarrow> cluster_Name c)"

definition scanDNSOperation :: "db \<Rightarrow> CommandRow \<Rightarrow> Operation" where
  "scanDNSOperation d r = \<lparr>op_ID = cmd_ID r, op_ClusterID = cmd_ClusterID r, op_ClusterName = joined_cluster_name (cmd_ClusterID r) d,
     op_Command = cmd_Command r, op_Target = \<lparr>tgt_Scope = cmd_TargetScope r, tgt_NodeID = text_of (cmd_TargetNodeID r)\<rparr>,
     op_Status = cmd_Status r, op_RequestID = cmd_RequestID r, op_IdempotencyKey = cmd_IdempotencyKey r,
     op_RequestedBy = cmd_RequestedBy r, op_InputFingerprint = cmd_InputFingerprint r,
     op_Payload = (case cmd_Payload r of None \<Rightarrow> zero_payload | Some p \<Rightarrow> p), op_AuditReference = text_of (cmd_AuditReference r),
     op_RequestedAt = cmd_RequestedAt r, op_StartedAt = cmd_StartedAt r, op_CompletedAt = cmd_CompletedAt r,
     op_NodeResults = loadOperationalCommandNodes (cmd_ID r) d, op_ExcludedNodes = cmd_ExcludedNodes r, op_Duplicate = False\<rparr>"

definition OperationalCommandByID :: "string \<Rightarrow> db \<Rightarrow> go_error + Operation" where
  "OperationalCommandByID i d =
     bind_err (mapDatabaseError ''operational command'' (query_row (\<lambda>r. cmd_ID r = i) (db_commands d))) (\<lambda>r. Inr (scanDNSOperation d r))"

definition operationalCommandByIdempotency :: "string \<Rightarrow> string \<Rightarrow> db \<Rightarrow> go_error + Operation" where
  "operationalCommandByIdempotency userID key d =
     bind_err (mapDatabaseError ''operational command'' (query_row (\<lambda>r. command_key r = (userID, key)) (db_commands d)))
       (\<lambda>r. Inr (scanDNSOperation d r))"

text \<open>The identifiers are read in order, then each operation by its identifier.\<close>

definition dns_rows :: "(CommandRow \<Rightarrow> bool) \<Rightarrow> db \<Rightarrow> CommandRow list" where
  "dns_rows P d = sort_key (\<lambda>r. (cmd_RequestedAt r, cmd_ID r)) (filter (\<lambda>r. cmd_Command r \<in> set dns_commands \<and> P r) (db_commands d))"

definition ListOperationalCommands :: "string \<Rightarrow> Command \<Rightarrow> nat \<Rightarrow> db \<Rightarrow> Operation list" where
  "ListOperationalCommands clusterID command limit d =
     map (scanDNSOperation d) (take limit (rev (dns_rows (\<lambda>r. cmd_ClusterID r = clusterID \<and> (command = [] \<or> cmd_Command r = command)) d)))"

definition RunningOperationalCommands :: "db \<Rightarrow> Operation list" where
  "RunningOperationalCommands d = map (scanDNSOperation d) (dns_rows (\<lambda>r. cmd_Status r = CmdRunning) d)"


subsection \<open>Writing operations (\<open>dns_operational_commands.go\<close>)\<close>

definition new_command_row :: "Operation \<Rightarrow> CommandRow" where
  "new_command_row operation = \<lparr>cmd_ID = op_ID operation, cmd_ClusterID = op_ClusterID operation, cmd_Command = op_Command operation,
     cmd_TargetScope = tgt_Scope (op_Target operation), cmd_TargetNodeID = nullableString (tgt_NodeID (op_Target operation)),
     cmd_Status = op_Status operation, cmd_RequestedBy = op_RequestedBy operation, cmd_RequestID = op_RequestID operation,
     cmd_IdempotencyKey = op_IdempotencyKey operation, cmd_InputFingerprint = op_InputFingerprint operation,
     cmd_Payload = Some (op_Payload operation), cmd_ExcludedNodes = op_ExcludedNodes operation, cmd_ObservationStatus = ''not_run'',
     cmd_ObservationSnapshotID = None, cmd_ObservationErrorCode = [], cmd_AuditReference = None,
     cmd_RequestedAt = op_RequestedAt operation, cmd_StartedAt = None, cmd_CompletedAt = None\<rparr>"

definition CreateOperationalCommand :: "Operation \<Rightarrow> AuditEvent \<Rightarrow> db \<Rightarrow> go_error + (Operation \<times> bool) \<times> db" where
  "CreateOperationalCommand operation event d =
     bind_err (insert_command ''insert operational command'' (new_command_row operation) d) (\<lambda>inserted.
     case inserted of
       None \<Rightarrow> bind_err (operationalCommandByIdempotency (op_RequestedBy operation) (op_IdempotencyKey operation) d)
         (\<lambda>stored. Inr ((stored, False), d))
     | Some d \<Rightarrow> bind_err (insert_results (op_ID operation) (op_NodeResults operation) d) (\<lambda>d.
         bind_err (audit event d) (\<lambda>d. Inr ((operation, True), d))))"

text \<open>The empty identifier stands for \<open>domain.ErrNoWork\<close>, as for deployments.\<close>

definition ClaimOperationalCommand :: "time \<Rightarrow> db \<Rightarrow> go_error + string \<times> db" where
  "ClaimOperationalCommand at d =
    (case dns_rows (\<lambda>r. cmd_Status r = CmdQueued) d of
       [] \<Rightarrow> Inr ([], d)
     | r # _ \<Rightarrow>
        let P = (\<lambda>q. cmd_ID q = cmd_ID r \<and> cmd_Status q = CmdQueued);
            f = (\<lambda>q. q\<lparr>cmd_Status := CmdRunning, cmd_StartedAt := Some at\<rparr>) in
        require (\<forall>q \<in> set (db_commands d). P q \<longrightarrow> command_check (f q)) (PlainError ''claim operational command'')
        (Inr (cmd_ID r, d\<lparr>db_commands := update_where P f (db_commands d)\<rparr>)))"

definition result_update :: "NodeResult \<Rightarrow> ResultRow \<Rightarrow> ResultRow" where
  "result_update node r = r\<lparr>res_Status := nr_Status node, res_ErrorCode := nr_ErrorCode node,
     res_ResolverResults := nr_ResolverResults node, res_HostFilterResult := nr_HostFilterResult node,
     res_ObservationStatus := defaultString (nr_ObservationStatus node) ''not_run'',
     res_ObservationSnapshotID := nullableString (nr_ObservationSnapshotID node),
     res_ObservationErrorCode := nr_ObservationErrorCode node,
     res_StartedAt := nr_StartedAt node, res_CompletedAt := nr_CompletedAt node\<rparr>"

definition UpdateOperationalCommandNode :: "string \<Rightarrow> NodeResult \<Rightarrow> db \<Rightarrow> go_error + db" where
  "UpdateOperationalCommandNode commandID node d =
    (let P = (\<lambda>r. res_ID r = nr_ID node \<and> res_CommandID r = commandID); f = result_update node in
     require ((\<forall>r \<in> set (db_results d). P r \<longrightarrow> result_check (f r)) \<and>
         (rows_affected P (db_results d) > 0 \<longrightarrow> snapshot_ref (nullableString (nr_ObservationSnapshotID node)) d))
       (PlainError ''update operational command node result'')
     (require (rows_affected P (db_results d) = 1) (NewError ErrorConflict ''the operational command node result was not found'')
     (Inr (d\<lparr>db_results := update_where P f (db_results d)\<rparr>))))"

definition FinishOperationalCommand :: "Operation \<Rightarrow> AuditEvent \<Rightarrow> db \<Rightarrow> go_error + db" where
  "FinishOperationalCommand operation event d =
     bind_err (audit event d) (\<lambda>d.
     let P = (\<lambda>r. cmd_ID r = op_ID operation \<and> cmd_Status r = CmdRunning);
         f = (\<lambda>r. r\<lparr>cmd_Status := op_Status operation, cmd_AuditReference := Some (op_AuditReference operation),
               cmd_CompletedAt := op_CompletedAt operation, cmd_Payload := None\<rparr>) in
     require ((\<forall>r \<in> set (db_commands d). P r \<longrightarrow> command_check (f r)) \<and>
         (rows_affected P (db_commands d) > 0 \<longrightarrow> op_AuditReference operation \<in> audit_ID ` set (db_audit d)))
       (PlainError ''finish operational command'')
     (require (rows_affected P (db_commands d) = 1) (NewError ErrorConflict ''the operational command is no longer running'')
     (Inr (d\<lparr>db_commands := update_where P f (db_commands d)\<rparr>))))"


subsection \<open>DHCP operations (\<open>operational_commands.go\<close>)\<close>

definition result_count_error :: go_error where
  "result_count_error = NewError ErrorValidation ''a DHCP operation must have exactly one node result''"

definition scanDHCPOperation :: "db \<Rightarrow> CommandRow \<Rightarrow> ResultRow \<Rightarrow> DHCPOperation" where
  "scanDHCPOperation d r n = \<lparr>dop_ID = cmd_ID r, dop_ClusterID = cmd_ClusterID r, dop_ClusterName = joined_cluster_name (cmd_ClusterID r) d,
     dop_Command = cmd_Command r, dop_Status = cmd_Status r, dop_RequestID = cmd_RequestID r,
     dop_IdempotencyKey = cmd_IdempotencyKey r, dop_RequestedBy = cmd_RequestedBy r,
     dop_ObservationStatus = cmd_ObservationStatus r, dop_ObservationSnapshotID = text_of (cmd_ObservationSnapshotID r),
     dop_ObservationErrorCode = cmd_ObservationErrorCode r, dop_AuditReference = text_of (cmd_AuditReference r),
     dop_RequestedAt = cmd_RequestedAt r, dop_CompletedAt = cmd_CompletedAt r,
     dop_NodeResults = [\<lparr>dr_ID = res_ID n, dr_NodeID = res_NodeID n, dr_NodeName = joined_node_name (res_NodeID n) d,
       dr_Status = res_Status n, dr_ErrorCode = res_ErrorCode n,
       dr_StartedAt = (case res_StartedAt n of None \<Rightarrow> 0 | Some t \<Rightarrow> t), dr_CompletedAt = res_CompletedAt n\<rparr>],
     dop_Duplicate = False\<rparr>"

text \<open>
  The rows of \<open>dhcpOperationSelect\<close>. The start of a node result is scanned into a \<open>time.Time\<close>,
  so reading a result that has not started is an error.
\<close>

definition dhcp_rows :: "db \<Rightarrow> (CommandRow \<times> ResultRow) list" where
  "dhcp_rows d = concat (map (\<lambda>r. map (Pair r) (filter (\<lambda>n. res_CommandID n = cmd_ID r) (db_results d))) (db_commands d))"

definition read_dhcp :: "db \<Rightarrow> CommandRow \<times> ResultRow \<Rightarrow> go_error + DHCPOperation" where
  "read_dhcp d = (\<lambda>(r, n). if res_StartedAt n = None then Inl (PlainError ''scan DHCP operation'') else Inr (scanDHCPOperation d r n))"

definition dhcpOperationByIdempotency :: "string \<Rightarrow> string \<Rightarrow> db \<Rightarrow> go_error + DHCPOperation" where
  "dhcpOperationByIdempotency userID key d =
    (case query_row (\<lambda>(r, n). command_key r = (userID, key)) (dhcp_rows d) of
       None \<Rightarrow> Inl (PlainError ''scan DHCP operation'') | Some row \<Rightarrow> read_dhcp d row)"

definition new_dhcp_row :: "DHCPOperation \<Rightarrow> CommandRow" where
  "new_dhcp_row operation = \<lparr>cmd_ID = dop_ID operation, cmd_ClusterID = dop_ClusterID operation, cmd_Command = dop_Command operation,
     cmd_TargetScope = ''node'', cmd_TargetNodeID = None, cmd_Status = dop_Status operation, cmd_RequestedBy = dop_RequestedBy operation,
     cmd_RequestID = dop_RequestID operation, cmd_IdempotencyKey = dop_IdempotencyKey operation, cmd_InputFingerprint = [],
     cmd_Payload = None, cmd_ExcludedNodes = [], cmd_ObservationStatus = dop_ObservationStatus operation,
     cmd_ObservationSnapshotID = None, cmd_ObservationErrorCode = [], cmd_AuditReference = None,
     cmd_RequestedAt = dop_RequestedAt operation, cmd_StartedAt = Some (dop_RequestedAt operation), cmd_CompletedAt = None\<rparr>"

definition new_dhcp_result :: "string \<Rightarrow> DHCPOperationNodeResult \<Rightarrow> ResultRow" where
  "new_dhcp_result commandID node = \<lparr>res_ID = dr_ID node, res_CommandID = commandID, res_NodeID = dr_NodeID node, res_Position = 1,
     res_Status = dr_Status node, res_ErrorCode = dr_ErrorCode node, res_ResolverResults = [], res_HostFilterResult = None,
     res_ObservationStatus = ''not_run'', res_ObservationSnapshotID = None, res_ObservationErrorCode = [],
     res_StartedAt = Some (dr_StartedAt node), res_CompletedAt = None\<rparr>"

definition BeginDHCPOperation :: "DHCPOperation \<Rightarrow> AuditEvent \<Rightarrow> db \<Rightarrow> go_error + (DHCPOperation \<times> bool) \<times> db" where
  "BeginDHCPOperation operation event d =
     bind_err (insert_command ''insert DHCP operation'' (new_dhcp_row operation) d) (\<lambda>inserted.
     case inserted of
       None \<Rightarrow> bind_err (dhcpOperationByIdempotency (dop_RequestedBy operation) (dop_IdempotencyKey operation) d)
         (\<lambda>stored. Inr ((stored, False), d))
     | Some d \<Rightarrow>
        (case dop_NodeResults operation of
           [node] \<Rightarrow>
             bind_err (insert_result ''insert DHCP operation node result'' (new_dhcp_result (dop_ID operation) node) d) (\<lambda>d.
             bind_err (audit event d) (\<lambda>d. Inr ((operation, True), d)))
         | _ \<Rightarrow> Inl result_count_error))"

definition FinishDHCPOperation :: "DHCPOperation \<Rightarrow> AuditEvent \<Rightarrow> db \<Rightarrow> go_error + db" where
  "FinishDHCPOperation operation event d =
    (case dop_NodeResults operation of
       [node] \<Rightarrow>
        bind_err (audit event d) (\<lambda>d.
        let P = (\<lambda>r. cmd_ID r = dop_ID operation \<and> cmd_Status r = CmdRunning);
            f = (\<lambda>r. r\<lparr>cmd_Status := dop_Status operation, cmd_ObservationStatus := dop_ObservationStatus operation,
                  cmd_ObservationSnapshotID := nullableString (dop_ObservationSnapshotID operation),
                  cmd_ObservationErrorCode := dop_ObservationErrorCode operation,
                  cmd_AuditReference := Some (dop_AuditReference operation), cmd_CompletedAt := dop_CompletedAt operation\<rparr>);
            Q = (\<lambda>n. res_ID n = dr_ID node \<and> res_CommandID n = dop_ID operation \<and> res_Status n = ResRunning);
            g = (\<lambda>n. n\<lparr>res_Status := dr_Status node, res_ErrorCode := dr_ErrorCode node, res_CompletedAt := dr_CompletedAt node\<rparr>) in
        require ((\<forall>r \<in> set (db_commands d). P r \<longrightarrow> command_check (f r)) \<and>
            (rows_affected P (db_commands d) > 0 \<longrightarrow> snapshot_ref (nullableString (dop_ObservationSnapshotID operation)) d \<and>
               dop_AuditReference operation \<in> audit_ID ` set (db_audit d))) (PlainError ''complete DHCP operation'')
        (require (rows_affected P (db_commands d) = 1) (NewError ErrorConflict ''the DHCP operation is no longer running'')
        (require (\<forall>n \<in> set (db_results d). Q n \<longrightarrow> result_check (g n)) (PlainError ''complete DHCP operation node result'')
        (require (rows_affected Q (db_results d) = 1) (NewError ErrorConflict ''the DHCP operation node result is no longer running'')
        (Inr (d\<lparr>db_commands := update_where P f (db_commands d), db_results := update_where Q g (db_results d)\<rparr>))))))
     | _ \<Rightarrow> Inl result_count_error)"

fun read_all :: "('a \<Rightarrow> go_error + 'b) \<Rightarrow> 'a list \<Rightarrow> go_error + 'b list" where
  "read_all f [] = Inr []"
| "read_all f (x # xs) = bind_err (f x) (\<lambda>y. bind_err (read_all f xs) (\<lambda>ys. Inr (y # ys)))"

definition ListDHCPOperations :: "string \<Rightarrow> nat \<Rightarrow> db \<Rightarrow> go_error + DHCPOperation list" where
  "ListDHCPOperations nodeID limit d =
     read_all (read_dhcp d) (take limit (rev (sort_key (\<lambda>(r, n). (cmd_RequestedAt r, cmd_ID r))
       (filter (\<lambda>(r, n). res_NodeID n = nodeID) (dhcp_rows d)))))"

end
