(* ===== verification/Auth_Store.thy ===== *)
theory Auth_Store
  imports Store
begin

text \<open>
  Accounts in the store: users and sessions (\<open>internal/database/auth.go\<close>, \<open>users.go\<close>) and the
  second factor (\<open>internal/database/mfa.go\<close>), one definition per method in the order of the
  files, with the constraints of migrations 1 and 19. Their transactions take the lock of the user
  or of the whole table before they read what they decide on, so each is one step on the state.
  An interval of PostgreSQL is its length in nanoseconds; a comparison with NULL selects no row.
\<close>

abbreviation users :: "db \<Rightarrow> UserRow list" where "users d \<equiv> acc_users (db_accounts d)"
abbreviation sessions :: "db \<Rightarrow> Session list" where "sessions d \<equiv> acc_sessions (db_accounts d)"
abbreviation mfas :: "db \<Rightarrow> UserMFARow list" where "mfas d \<equiv> acc_mfa (db_accounts d)"
abbreviation challenges :: "db \<Rightarrow> MFAChallenge list" where "challenges d \<equiv> acc_challenges (db_accounts d)"
abbreviation codes :: "db \<Rightarrow> MFARecoveryCode list" where "codes d \<equiv> acc_codes (db_accounts d)"

definition put_users :: "UserRow list \<Rightarrow> db \<Rightarrow> db" where "put_users rows d = d\<lparr>db_accounts := (db_accounts d)\<lparr>acc_users := rows\<rparr>\<rparr>"
definition put_sessions :: "Session list \<Rightarrow> db \<Rightarrow> db" where "put_sessions rows d = d\<lparr>db_accounts := (db_accounts d)\<lparr>acc_sessions := rows\<rparr>\<rparr>"
definition put_mfas :: "UserMFARow list \<Rightarrow> db \<Rightarrow> db" where "put_mfas rows d = d\<lparr>db_accounts := (db_accounts d)\<lparr>acc_mfa := rows\<rparr>\<rparr>"
definition put_challenges :: "MFAChallenge list \<Rightarrow> db \<Rightarrow> db" where "put_challenges rows d = d\<lparr>db_accounts := (db_accounts d)\<lparr>acc_challenges := rows\<rparr>\<rparr>"
definition put_codes :: "MFARecoveryCode list \<Rightarrow> db \<Rightarrow> db" where "put_codes rows d = d\<lparr>db_accounts := (db_accounts d)\<lparr>acc_codes := rows\<rparr>\<rparr>"

lemmas put_defs = put_users_def put_sessions_def put_mfas_def put_challenges_def put_codes_def

definition seconds :: "int \<Rightarrow> time" where
  "seconds n = n * 1000000000"


subsection \<open>Constraints\<close>

definition RoleAdministrator :: string where
  "RoleAdministrator = ''administrator''"

definition user_check :: "UserRow \<Rightarrow> bool" where
  "user_check u \<longleftrightarrow> user_Role u = RoleAdministrator \<and> user_Email u = ToLower (user_Email u) \<and>
     char_length_between 1 120 (user_DisplayName u)"

definition user_indexes :: "UserRow list \<Rightarrow> bool" where
  "user_indexes rows \<longleftrightarrow> primary_key user_ID rows \<and> primary_key (\<lambda>u. ToLower (user_Email u)) rows"

definition session_check :: "Session \<Rightarrow> bool" where
  "session_check s \<longleftrightarrow> sess_ExpiresAt s > sess_CreatedAt s"

definition session_indexes :: "Session list \<Rightarrow> bool" where
  "session_indexes rows \<longleftrightarrow> primary_key sess_ID rows \<and> primary_key sess_TokenHash rows"

definition mfa_check :: "UserMFARow \<Rightarrow> bool" where
  "mfa_check m \<longleftrightarrow> mfa_EnrollmentExpires m > mfa_EnrollmentStarted m \<and>
     (case mfa_EnabledAt m of None \<Rightarrow> True | Some at \<Rightarrow> at \<ge> mfa_EnrollmentStarted m)"

definition code_check :: "MFARecoveryCode \<Rightarrow> bool" where
  "code_check c \<longleftrightarrow> (case rc_UsedAt c of None \<Rightarrow> True | Some at \<Rightarrow> at \<ge> rc_CreatedAt c)"

definition code_indexes :: "MFARecoveryCode list \<Rightarrow> bool" where
  "code_indexes rows \<longleftrightarrow> primary_key rc_ID rows \<and> primary_key (\<lambda>c. (rc_UserID c, rc_CodeHash c)) rows"

definition challenge_check :: "MFAChallenge \<Rightarrow> bool" where
  "challenge_check c \<longleftrightarrow> 0 \<le> chal_FailedAttempts c \<and> chal_FailedAttempts c \<le> 5 \<and> chal_ExpiresAt c > chal_CreatedAt c \<and>
     (case chal_ConsumedAt c of None \<Rightarrow> True | Some at \<Rightarrow> at \<ge> chal_CreatedAt c)"

definition challenge_indexes :: "MFAChallenge list \<Rightarrow> bool" where
  "challenge_indexes rows \<longleftrightarrow> primary_key chal_ID rows \<and> primary_key chal_TokenHash rows"

text \<open>An \<open>UPDATE\<close> checks the rows it changes.\<close>

definition update_checked :: "string \<Rightarrow> ('r \<Rightarrow> bool) \<Rightarrow> ('r \<Rightarrow> bool) \<Rightarrow> ('r \<Rightarrow> 'r) \<Rightarrow> 'r list \<Rightarrow> go_error + 'r list" where
  "update_checked what chk P f rows =
     require (list_all (\<lambda>r. P r \<longrightarrow> chk (f r)) rows) (PlainError what) (Inr (update_where P f rows))"


subsection \<open>Users and sessions (auth.go)\<close>

definition HasUsers :: "db \<Rightarrow> bool" where
  "HasUsers d \<longleftrightarrow> users d \<noteq> []"

definition insert_session :: "string \<Rightarrow> Session \<Rightarrow> db \<Rightarrow> go_error + db" where
  "insert_session what s d =
    (let row = s\<lparr>sess_LastSeenAt := sess_CreatedAt s, sess_RevokedAt := None\<rparr>; rows = sessions d @ [row] in
     require (session_check row \<and> session_indexes rows \<and> sess_UserID s \<in> user_ID ` set (users d)) (PlainError what)
       (Inr (put_sessions rows d)))"

definition CreateInitialUser :: "UserRow \<Rightarrow> Session \<Rightarrow> AuditEvent \<Rightarrow> AuditEvent \<Rightarrow> db \<Rightarrow> go_error + db" where
  "CreateInitialUser user session userEvent loginEvent d =
    (if users d \<noteq> [] then Inl (NewError ErrorConflict ''initial setup has already been completed'')
     else
       let row = user\<lparr>user_UpdatedAt := user_CreatedAt user, user_LastLoginAt := None\<rparr> in
       require (user_check row) (PlainError ''create initial administrator'')
         (bind_err (insert_session ''create initial administrator session'' session (put_users [row] d)) (\<lambda>d.
          let d = put_users (update_where (\<lambda>u. user_ID u = user_ID user)
                    (\<lambda>u. u\<lparr>user_LastLoginAt := Some (sess_CreatedAt session)\<rparr>) (users d)) d in
          bind_err (audit userEvent d) (audit loginEvent))))"

definition mfa_on :: "string \<Rightarrow> db \<Rightarrow> bool" where
  "mfa_on i d \<longleftrightarrow> list_ex (\<lambda>m. mfa_UserID m = i \<and> mfa_EnabledAt m \<noteq> None) (mfas d)"

definition scanUser :: "db \<Rightarrow> UserRow \<Rightarrow> User" where
  "scanUser d u = UserRow.extend u (User.fields (mfa_on (user_ID u) d))"

definition UserByEmail :: "string \<Rightarrow> db \<Rightarrow> go_error + User" where
  "UserByEmail email d = map_sum id (scanUser d) (mapDatabaseError ''user'' (query_row (\<lambda>u. user_Email u = email) (users d)))"

definition UserByID :: "string \<Rightarrow> db \<Rightarrow> go_error + User" where
  "UserByID i d = map_sum id (scanUser d) (mapDatabaseError ''user'' (query_row (\<lambda>u. user_ID u = i) (users d)))"

definition authentication_required :: go_error where
  "authentication_required = NewError ErrorAuthentication ''authentication is required''"

definition createLoginSession :: "Session \<Rightarrow> AuditEvent \<Rightarrow> db \<Rightarrow> go_error + db" where
  "createLoginSession session event d =
    (case query_row (\<lambda>u. user_ID u = sess_UserID session) (users d) of
       None \<Rightarrow> Inl authentication_required
     | Some user \<Rightarrow>
       if \<not> user_Enabled user then Inl authentication_required
       else bind_err (insert_session ''create login session'' session d) (\<lambda>d.
         audit event (put_users (update_where (\<lambda>u. user_ID u = sess_UserID session)
           (\<lambda>u. u\<lparr>user_LastLoginAt := Some (sess_CreatedAt session), user_UpdatedAt := sess_CreatedAt session\<rparr>) (users d)) d)))"

definition CreateLoginSession :: "Session \<Rightarrow> AuditEvent \<Rightarrow> db \<Rightarrow> go_error + db" where
  "CreateLoginSession session event d = createLoginSession session event d"

definition AuthenticatedSession :: "string \<Rightarrow> time \<Rightarrow> db \<Rightarrow> go_error + Session \<times> User" where
  "AuthenticatedSession tokenHash at d =
    (case [(s, u). s \<leftarrow> sessions d, sess_TokenHash s = tokenHash \<and> sess_RevokedAt s = None \<and> sess_ExpiresAt s > at,
                   u \<leftarrow> users d, user_ID u = sess_UserID s \<and> user_Enabled u] of
       [] \<Rightarrow> Inl authentication_required
     | (s, u) # _ \<Rightarrow> Inr (s, scanUser d u))"

definition TouchSession :: "string \<Rightarrow> time \<Rightarrow> db \<Rightarrow> go_error + db" where
  "TouchSession sessionID at d =
     Inr (put_sessions (update_where (\<lambda>s. sess_ID s = sessionID \<and> sess_LastSeenAt s < at - seconds (5 * 60))
       (\<lambda>s. s\<lparr>sess_LastSeenAt := at\<rparr>) (sessions d)) d)"

text \<open>\<open>UPDATE sessions SET revoked_at = at WHERE \<dots> AND revoked_at IS NULL\<close>.\<close>

definition revoke_where :: "(Session \<Rightarrow> bool) \<Rightarrow> time \<Rightarrow> db \<Rightarrow> db" where
  "revoke_where P at d = put_sessions (update_where (\<lambda>s. P s \<and> sess_RevokedAt s = None) (\<lambda>s. s\<lparr>sess_RevokedAt := Some at\<rparr>) (sessions d)) d"

definition RevokeSession :: "string \<Rightarrow> time \<Rightarrow> AuditEvent \<Rightarrow> db \<Rightarrow> go_error + db" where
  "RevokeSession sessionID at event d = audit event (revoke_where (\<lambda>s. sess_ID s = sessionID) at d)"

definition before_time :: "time option \<Rightarrow> time \<Rightarrow> bool" where
  "before_time t limit \<longleftrightarrow> (case t of None \<Rightarrow> False | Some at \<Rightarrow> at < limit)"

definition DeleteExpiredSessions :: "time \<Rightarrow> db \<Rightarrow> go_error + nat \<times> db" where
  "DeleteExpiredSessions at d =
    (let P = (\<lambda>s. sess_ExpiresAt s \<le> at \<or> before_time (sess_RevokedAt s) (at - seconds (30 * 24 * 3600))) in
     Inr (rows_affected P (sessions d), put_sessions (filter (\<lambda>s. \<not> P s) (sessions d)) d))"


subsection \<open>Administration of users (users.go)\<close>

definition ListUsers :: "db \<Rightarrow> User list" where
  "ListUsers d = map (scanUser d) (sort_key (\<lambda>u. (ToLower (user_Email u), user_ID u)) (users d))"

definition email_taken :: go_error where
  "email_taken = NewError ErrorConflict ''a user with that email already exists''"

definition CreateUser :: "UserRow \<Rightarrow> AuditEvent \<Rightarrow> db \<Rightarrow> go_error + db" where
  "CreateUser user event d =
    (let row = user\<lparr>user_UpdatedAt := user_CreatedAt user, user_LastLoginAt := None\<rparr>; rows = users d @ [row] in
     require (user_check row) (PlainError ''create user'') (require (user_indexes rows) email_taken
       (audit event (put_users rows d))))"

definition updated_user :: "string \<Rightarrow> string \<Rightarrow> bool \<Rightarrow> time \<Rightarrow> UserRow \<Rightarrow> UserRow" where
  "updated_user email displayName enabled at u =
     u\<lparr>user_Email := email, user_DisplayName := displayName, user_Enabled := enabled, user_UpdatedAt := at\<rparr>"

definition UpdateUser :: "string \<Rightarrow> string \<Rightarrow> string \<Rightarrow> bool \<Rightarrow> time \<Rightarrow> AuditEvent \<Rightarrow> db \<Rightarrow> go_error + User \<times> db" where
  "UpdateUser i email displayName enabled at event d =
     bind_err (mapDatabaseError ''user'' (query_row (\<lambda>u. user_ID u = i) (users d))) (\<lambda>current.
     require (\<not> (user_Enabled current \<and> \<not> enabled \<and> user_Role current = RoleAdministrator \<and>
               rows_affected (\<lambda>u. user_Enabled u \<and> user_Role u = RoleAdministrator) (users d) \<le> 1))
       (NewError ErrorConflict ''the final enabled administrator cannot be disabled'')
       (let f = updated_user email displayName enabled at in
        bind_err (update_checked ''update user'' user_check (\<lambda>u. user_ID u = i) f (users d)) (\<lambda>rows.
        require (user_indexes rows) email_taken
          (let d' = put_users rows d;
               d' = (if enabled then d' else revoke_where (\<lambda>s. sess_UserID s = i) at d') in
           bind_err (audit event d') (\<lambda>d'.
           Inr (UserRow.extend (f current) (User.fields (mfa_on i d)), d'))))))"

definition ResetUserPassword :: "string \<Rightarrow> string \<Rightarrow> time \<Rightarrow> AuditEvent \<Rightarrow> db \<Rightarrow> go_error + db" where
  "ResetUserPassword i passwordHash at event d =
    (if rows_affected (\<lambda>u. user_ID u = i) (users d) = 0 then Inl (NewError ErrorNotFound ''user was not found'')
     else audit event (revoke_where (\<lambda>s. sess_UserID s = i) at
       (put_users (update_where (\<lambda>u. user_ID u = i) (\<lambda>u. u\<lparr>user_PasswordHash := passwordHash, user_UpdatedAt := at\<rparr>) (users d)) d)))"

definition ChangeOwnPassword :: "string \<Rightarrow> string \<Rightarrow> string \<Rightarrow> time \<Rightarrow> AuditEvent \<Rightarrow> db \<Rightarrow> go_error + db" where
  "ChangeOwnPassword i currentSessionID passwordHash at event d =
    (let P = (\<lambda>u. user_ID u = i \<and> user_Enabled u) in
     if rows_affected P (users d) = 0 then Inl authentication_required
     else audit event (revoke_where (\<lambda>s. sess_UserID s = i \<and> sess_ID s \<noteq> currentSessionID) at
       (put_users (update_where P (\<lambda>u. u\<lparr>user_PasswordHash := passwordHash, user_UpdatedAt := at\<rparr>) (users d)) d)))"


subsection \<open>The second factor (mfa.go)\<close>

definition MFAEnabled :: "string \<Rightarrow> db \<Rightarrow> bool" where
  "MFAEnabled i d \<longleftrightarrow> mfa_on i d"

definition scanMFA :: "db \<Rightarrow> UserMFARow \<Rightarrow> UserMFA" where
  "scanMFA d m = UserMFARow.extend m (UserMFA.fields
     (int (rows_affected (\<lambda>c. rc_UserID c = mfa_UserID m \<and> rc_UsedAt c = None) (codes d))))"

definition UserMFA_of :: "string \<Rightarrow> db \<Rightarrow> go_error + UserMFA" where
  "UserMFA_of i d = map_sum id (scanMFA d) (mapDatabaseError ''MFA configuration'' (query_row (\<lambda>m. mfa_UserID m = i) (mfas d)))"

definition UpsertPendingMFA :: "UserMFARow \<Rightarrow> db \<Rightarrow> go_error + db" where
  "UpsertPendingMFA v d =
    (let row = v\<lparr>mfa_EnabledAt := None\<rparr>; what = PlainError ''store pending MFA enrollment'' in
     require (mfa_check row) what
      (if mfa_UserID v \<in> mfa_UserID ` set (mfas d)
       then Inr (put_mfas (update_where (\<lambda>m. mfa_UserID m = mfa_UserID v \<and> mfa_EnabledAt m = None) (\<lambda>m. row) (mfas d)) d)
       else require (mfa_UserID v \<in> user_ID ` set (users d)) what (Inr (put_mfas (mfas d @ [row]) d))))"

text \<open>\<open>UPDATE mfa_challenges SET consumed_at = at WHERE \<dots> AND consumed_at IS NULL\<close>.\<close>

definition consume_where :: "string \<Rightarrow> (MFAChallenge \<Rightarrow> bool) \<Rightarrow> time \<Rightarrow> db \<Rightarrow> go_error + db" where
  "consume_where what P at d =
     map_sum id (\<lambda>rows. put_challenges rows d) (update_checked what challenge_check (\<lambda>c. P c \<and> chal_ConsumedAt c = None)
       (\<lambda>c. c\<lparr>chal_ConsumedAt := Some at\<rparr>) (challenges d))"

definition CreateMFAChallenge :: "MFAChallenge \<Rightarrow> db \<Rightarrow> go_error + db" where
  "CreateMFAChallenge challenge d =
    (if \<not> mfa_on (chal_UserID challenge) d then Inl (NewError ErrorConflict ''MFA state changed; retry login'')
     else bind_err (consume_where ''invalidate previous MFA challenges'' (\<lambda>c. chal_UserID c = chal_UserID challenge) (chal_CreatedAt challenge) d) (\<lambda>d.
       let row = challenge\<lparr>chal_ConsumedAt := None, chal_FailedAttempts := 0\<rparr>; rows = challenges d @ [row] in
       require (challenge_check row \<and> challenge_indexes rows \<and> chal_UserID challenge \<in> user_ID ` set (users d))
         (PlainError ''create MFA challenge'') (Inr (put_challenges rows d))))"

definition code_rejected :: go_error where
  "code_rejected = NewError ErrorInvalidCredentials ''authentication code is invalid or expired''"

definition open_challenge :: "string \<Rightarrow> time \<Rightarrow> MFAChallenge \<Rightarrow> bool" where
  "open_challenge tokenHash at c \<longleftrightarrow>
     chal_TokenHash c = tokenHash \<and> chal_ConsumedAt c = None \<and> chal_ExpiresAt c > at \<and> chal_FailedAttempts c < 5"

definition MFAChallengeByTokenHash :: "string \<Rightarrow> time \<Rightarrow> db \<Rightarrow> go_error + MFAChallenge \<times> User \<times> UserMFA" where
  "MFAChallengeByTokenHash tokenHash at d =
    (case [(c, u, m). c \<leftarrow> challenges d, open_challenge tokenHash at c, u \<leftarrow> users d, user_ID u = chal_UserID c \<and> user_Enabled u,
                      m \<leftarrow> mfas d, mfa_UserID m = chal_UserID c \<and> mfa_EnabledAt m \<noteq> None] of
       [] \<Rightarrow> Inl code_rejected
     | (c, u, m) # _ \<Rightarrow> Inr (c, UserRow.extend u (User.fields True), scanMFA d m))"

definition failed_challenge :: "time \<Rightarrow> MFAChallenge \<Rightarrow> MFAChallenge" where
  "failed_challenge at c = c\<lparr>chal_FailedAttempts := chal_FailedAttempts c + 1,
     chal_ConsumedAt := (if chal_FailedAttempts c + 1 \<ge> 5 then Some at else chal_ConsumedAt c)\<rparr>"

definition FailMFAChallenge :: "string \<Rightarrow> time \<Rightarrow> db \<Rightarrow> go_error + db" where
  "FailMFAChallenge tokenHash at d =
     map_sum id (\<lambda>rows. put_challenges rows d)
       (update_checked ''record MFA challenge failure'' challenge_check (open_challenge tokenHash at) (failed_challenge at) (challenges d))"

text \<open>A recovery code is spent with the challenge it answers; an empty hash stands for none.\<close>

definition spend_code :: "string \<Rightarrow> string \<Rightarrow> time \<Rightarrow> db \<Rightarrow> go_error + db" where
  "spend_code userID recoveryHash at d =
    (if recoveryHash = [] then Inr d
     else
       let P = (\<lambda>c. rc_UserID c = userID \<and> rc_CodeHash c = recoveryHash \<and> rc_UsedAt c = None) in
       bind_err (update_checked ''consume MFA recovery code'' code_check P (\<lambda>c. c\<lparr>rc_UsedAt := Some at\<rparr>) (codes d)) (\<lambda>rows.
       if rows_affected P (codes d) \<noteq> 1 then Inl code_rejected else Inr (put_codes rows d)))"

definition audit_opt :: "AuditEvent option \<Rightarrow> db \<Rightarrow> go_error + db" where
  "audit_opt event d = (case event of None \<Rightarrow> Inr d | Some e \<Rightarrow> audit e d)"

text \<open>\<open>UPDATE mfa_challenges \<dots> RETURNING user_id\<close>.\<close>

definition take_challenge :: "string \<Rightarrow> (MFAChallenge \<Rightarrow> bool) \<Rightarrow> time \<Rightarrow> db \<Rightarrow> go_error + string \<times> db" where
  "take_challenge what P at d =
    (case query_row P (challenges d) of
       None \<Rightarrow> Inl code_rejected
     | Some c \<Rightarrow> bind_err (update_checked what challenge_check P (\<lambda>c. c\<lparr>chal_ConsumedAt := Some at\<rparr>) (challenges d)) (\<lambda>rows.
         Inr (chal_UserID c, put_challenges rows d)))"

definition ConsumeMFAChallenge :: "string \<Rightarrow> string \<Rightarrow> time \<Rightarrow> AuditEvent option \<Rightarrow> db \<Rightarrow> go_error + db" where
  "ConsumeMFAChallenge tokenHash recoveryHash at event d =
     bind_err (take_challenge ''consume MFA challenge'' (open_challenge tokenHash at) at d) (\<lambda>(userID, d).
     bind_err (spend_code userID recoveryHash at d) (audit_opt event))"

definition CompleteMFAChallenge :: "string \<Rightarrow> string \<Rightarrow> time \<Rightarrow> AuditEvent option \<Rightarrow> Session \<Rightarrow> AuditEvent \<Rightarrow> db \<Rightarrow> go_error + db" where
  "CompleteMFAChallenge tokenHash recoveryHash at recoveryEvent session loginEvent d =
    (case query_row (\<lambda>c. chal_TokenHash c = tokenHash) (challenges d) of
       None \<Rightarrow> Inl code_rejected
     | Some challenge \<Rightarrow>
       if chal_UserID challenge \<noteq> sess_UserID session then Inl code_rejected
       else bind_err (take_challenge ''consume MFA challenge for login''
              (\<lambda>c. open_challenge tokenHash at c \<and> mfa_on (chal_UserID c) d) at d) (\<lambda>(userID, d).
         bind_err (spend_code userID recoveryHash at d) (\<lambda>d.
         bind_err (audit_opt recoveryEvent d) (createLoginSession session loginEvent))))"

fun insertRecoveryCodes :: "MFARecoveryCode list \<Rightarrow> db \<Rightarrow> go_error + db" where
  "insertRecoveryCodes [] d = Inr d"
| "insertRecoveryCodes (c # cs) d =
    (let row = c\<lparr>rc_UsedAt := None\<rparr>; rows = codes d @ [row] in
     require (code_check row \<and> code_indexes rows \<and> rc_UserID c \<in> mfa_UserID ` set (mfas d)) (PlainError ''store MFA recovery code'')
       (insertRecoveryCodes cs (put_codes rows d)))"

definition delete_codes :: "string \<Rightarrow> db \<Rightarrow> db" where
  "delete_codes i d = put_codes (filter (\<lambda>c. rc_UserID c \<noteq> i) (codes d)) d"

definition EnableMFA :: "string \<Rightarrow> string \<Rightarrow> MFARecoveryCode list \<Rightarrow> time \<Rightarrow> AuditEvent \<Rightarrow> db \<Rightarrow> go_error + db" where
  "EnableMFA i currentSessionID cs at event d =
    (let P = (\<lambda>m. mfa_UserID m = i \<and> mfa_EnabledAt m = None \<and> mfa_EnrollmentExpires m > at) in
     bind_err (update_checked ''enable MFA'' mfa_check P (\<lambda>m. m\<lparr>mfa_EnabledAt := Some at\<rparr>) (mfas d)) (\<lambda>rows.
     if rows_affected P (mfas d) \<noteq> 1 then Inl (NewError ErrorConflict ''MFA enrollment is missing or expired'')
     else bind_err (insertRecoveryCodes cs (delete_codes i (put_mfas rows d))) (\<lambda>d.
       bind_err (consume_where ''invalidate MFA challenges'' (\<lambda>c. chal_UserID c = i) at
         (revoke_where (\<lambda>s. sess_UserID s = i \<and> sess_ID s \<noteq> currentSessionID) at d)) (audit event))))"

definition mfa_not_enabled :: go_error where
  "mfa_not_enabled = NewError ErrorConflict ''MFA is not enabled''"

definition ReplaceRecoveryCodes :: "string \<Rightarrow> string \<Rightarrow> MFARecoveryCode list \<Rightarrow> time \<Rightarrow> AuditEvent \<Rightarrow> db \<Rightarrow> go_error + db" where
  "ReplaceRecoveryCodes i currentSessionID cs at event d =
    (case query_row (\<lambda>m. mfa_UserID m = i) (mfas d) of
       None \<Rightarrow> Inl mfa_not_enabled
     | Some m \<Rightarrow>
       if mfa_EnabledAt m = None then Inl mfa_not_enabled
       else bind_err (insertRecoveryCodes cs (delete_codes i d)) (\<lambda>d.
         audit event (revoke_where (\<lambda>s. sess_UserID s = i \<and> sess_ID s \<noteq> currentSessionID) at d)))"

text \<open>\<open>DELETE FROM user_mfa\<close>, which takes the recovery codes along.\<close>

definition delete_mfa :: "(UserMFARow \<Rightarrow> bool) \<Rightarrow> db \<Rightarrow> db" where
  "delete_mfa P d =
    (let gone = mfa_UserID ` set (filter P (mfas d)) in
     put_codes (filter (\<lambda>c. rc_UserID c \<notin> gone) (codes d)) (put_mfas (filter (\<lambda>m. \<not> P m) (mfas d)) d))"

definition DisableMFA :: "string \<Rightarrow> string \<Rightarrow> time \<Rightarrow> AuditEvent \<Rightarrow> db \<Rightarrow> go_error + db" where
  "DisableMFA i currentSessionID at event d =
    (let P = (\<lambda>m. mfa_UserID m = i \<and> mfa_EnabledAt m \<noteq> None) in
     if rows_affected P (mfas d) \<noteq> 1 then Inl mfa_not_enabled
     else bind_err (consume_where ''invalidate MFA challenges'' (\<lambda>c. chal_UserID c = i) at (delete_mfa P d)) (\<lambda>d.
       audit event (revoke_where (\<lambda>s. sess_UserID s = i \<and> sess_ID s \<noteq> currentSessionID) at d)))"

definition ResetMFAFromHost :: "string \<Rightarrow> time \<Rightarrow> AuditEvent \<Rightarrow> db \<Rightarrow> go_error + (UserRow \<times> nat) \<times> db" where
  "ResetMFAFromHost email at event d =
     bind_err (mapDatabaseError ''user'' (query_row (\<lambda>u. user_Email u = email) (users d))) (\<lambda>user.
     bind_err (mapDatabaseError ''user'' (query_row (\<lambda>u. user_ID u = user_ID user) (users d))) (\<lambda>user.
     bind_err (consume_where ''invalidate MFA challenges'' (\<lambda>c. chal_UserID c = user_ID user) at
       (delete_mfa (\<lambda>m. mfa_UserID m = user_ID user) d)) (\<lambda>d.
     bind_err (audit (event\<lparr>audit_ResourceID := Some (user_ID user)\<rparr>) (revoke_where (\<lambda>s. sess_UserID s = user_ID user) at d)) (\<lambda>d'.
     Inr ((user, rows_affected (\<lambda>s. sess_UserID s = user_ID user \<and> sess_RevokedAt s = None) (sessions d)), d')))))"

definition DeleteExpiredMFAChallenges :: "time \<Rightarrow> db \<Rightarrow> go_error + nat \<times> db" where
  "DeleteExpiredMFAChallenges at d =
    (let P = (\<lambda>c. chal_ExpiresAt c \<le> at \<or> before_time (chal_ConsumedAt c) (at - seconds (24 * 3600))) in
     Inr (rows_affected P (challenges d), put_challenges (filter (\<lambda>c. \<not> P c) (challenges d)) d))"


subsection \<open>The writes as steps\<close>

text \<open>New accounts are enabled: both callers of \<open>CreateInitialUser\<close> and \<open>CreateUser\<close> pass them so.\<close>

inductive auth_step :: "db \<Rightarrow> db \<Rightarrow> bool" where
  create_initial: "user_Enabled u \<Longrightarrow> CreateInitialUser u s e e' d = Inr d' \<Longrightarrow> auth_step d d'"
| create_login: "CreateLoginSession s e d = Inr d' \<Longrightarrow> auth_step d d'"
| touch_session: "TouchSession i at d = Inr d' \<Longrightarrow> auth_step d d'"
| revoke_session: "RevokeSession i at e d = Inr d' \<Longrightarrow> auth_step d d'"
| delete_sessions: "DeleteExpiredSessions at d = Inr (n, d') \<Longrightarrow> auth_step d d'"
| create_user: "user_Enabled u \<Longrightarrow> CreateUser u e d = Inr d' \<Longrightarrow> auth_step d d'"
| update_user: "UpdateUser i email name enabled at e d = Inr (v, d') \<Longrightarrow> auth_step d d'"
| reset_password: "ResetUserPassword i hash at e d = Inr d' \<Longrightarrow> auth_step d d'"
| change_password: "ChangeOwnPassword i j hash at e d = Inr d' \<Longrightarrow> auth_step d d'"
| pending_mfa: "UpsertPendingMFA v d = Inr d' \<Longrightarrow> auth_step d d'"
| create_challenge: "CreateMFAChallenge c d = Inr d' \<Longrightarrow> auth_step d d'"
| fail_challenge: "FailMFAChallenge h at d = Inr d' \<Longrightarrow> auth_step d d'"
| consume_challenge: "ConsumeMFAChallenge h rh at oe d = Inr d' \<Longrightarrow> auth_step d d'"
| complete_challenge: "CompleteMFAChallenge h rh at oe s e d = Inr d' \<Longrightarrow> auth_step d d'"
| enable_mfa: "EnableMFA i j cs at e d = Inr d' \<Longrightarrow> auth_step d d'"
| replace_codes: "ReplaceRecoveryCodes i j cs at e d = Inr d' \<Longrightarrow> auth_step d d'"
| disable_mfa: "DisableMFA i j at e d = Inr d' \<Longrightarrow> auth_step d d'"
| reset_mfa: "ResetMFAFromHost email at e d = Inr (x, d') \<Longrightarrow> auth_step d d'"
| delete_challenges: "DeleteExpiredMFAChallenges at d = Inr (n, d') \<Longrightarrow> auth_step d d'"

end
