(* ===== verification/Go_Netip.thy ===== *)
theory Go_Netip
  imports Prelude Go_Json
begin

text \<open>
  The address parsers of the Go standard library that configuration validation uses:
  \<open>netip.ParseAddr\<close>, \<open>netip.ParsePrefix\<close>, \<open>net.ParseIP\<close> with \<open>To4\<close>,
  \<open>net.IPMask.Size\<close>, \<open>netip.Prefix.Contains\<close> and \<open>net.ParseMAC\<close>. An address is the
  number its bytes form in network order; an IPv6 address carries its zone.
\<close>

datatype Addr = Addr4 nat | Addr6 nat string

definition Is4 :: "Addr \<Rightarrow> bool" where "Is4 a = (case a of Addr4 _ \<Rightarrow> True | Addr6 _ _ \<Rightarrow> False)"
definition Is6 :: "Addr \<Rightarrow> bool" where "Is6 a = (case a of Addr4 _ \<Rightarrow> False | Addr6 _ _ \<Rightarrow> True)"

fun addr_value :: "Addr \<Rightarrow> nat" where
  "addr_value (Addr4 v) = v"
| "addr_value (Addr6 v z) = v"

text \<open>\<open>parseIPv4Fields\<close>: fields so far (most recent first), value and digits of the current octet.\<close>

fun v4_fields :: "nat list \<Rightarrow> nat \<Rightarrow> nat \<Rightarrow> string \<Rightarrow> nat list option" where
  "v4_fields fs val digLen [] = (if length fs < 3 then None else Some (rev (val # fs)))"
| "v4_fields fs val digLen (c # s) =
    (if is_digit c then
       (if digLen = 1 \<and> val = 0 then None
        else let val = val * 10 + (of_char c - 48) in
          if val > 255 then None else v4_fields fs val (Suc digLen) s)
     else if c = CHR ''.'' then
       (if digLen = 0 \<or> s = [] then None
        else if length fs = 3 then None
        else v4_fields (val # fs) 0 0 s)
     else None)"

definition parseIPv4 :: "string \<Rightarrow> nat option" where
  "parseIPv4 s = map_option (foldl (\<lambda>a b. a * 256 + b) 0) (v4_fields [] 0 0 s)"

definition hex_number :: "string \<Rightarrow> nat" where
  "hex_number s = foldl (\<lambda>a c. a * 16 + (case hex_value c of Some d \<Rightarrow> d | None \<Rightarrow> 0)) 0 s"

text \<open>The loop of \<open>parseIPv6\<close>: groups still allowed, groups read, position of the ellipsis, input.\<close>

fun v6_loop :: "nat \<Rightarrow> nat list \<Rightarrow> nat option \<Rightarrow> string \<Rightarrow> (nat list \<times> nat option \<times> string) option" where
  "v6_loop 0 gs ell s = Some (gs, ell, s)"
| "v6_loop (Suc k) gs ell s =
    (let h = takeWhile (\<lambda>c. hex_value c \<noteq> None) s; rest = drop (length h) s in
     if h = [] \<or> length h > 4 then None
     else if rest \<noteq> [] \<and> hd rest = CHR ''.'' then
       (if ell = None \<and> length gs \<noteq> 6 then None
        else if length gs + 2 > 8 then None
        else map_option (\<lambda>v. (gs @ [v div 65536, v mod 65536], ell, [])) (parseIPv4 s))
     else
       (let gs = gs @ [hex_number h] in
        if rest = [] then Some (gs, ell, [])
        else if hd rest \<noteq> CHR '':'' then None
        else if tl rest = [] then None
        else if hd (tl rest) = CHR '':'' then
          (if ell \<noteq> None then None
           else if tl (tl rest) = [] then Some (gs, Some (length gs), [])
           else v6_loop k gs (Some (length gs)) (tl (tl rest)))
        else v6_loop k gs ell (tl rest)))"

definition v6_number :: "nat list \<Rightarrow> nat" where
  "v6_number gs = foldl (\<lambda>a b. a * 65536 + b) 0 gs"

definition parseIPv6 :: "string \<Rightarrow> Addr option" where
  "parseIPv6 inp =
    (let s = takeWhile (\<lambda>c. c \<noteq> CHR ''%'') inp;
         tail = drop (length s) inp;
         zone = drop 1 tail
     in if tail \<noteq> [] \<and> zone = [] then None
        else if s = ''::'' then Some (Addr6 0 zone)
        else
          (let lead = prefix ''::'' s in
           case v6_loop 8 [] (if lead then Some 0 else None) (if lead then drop 2 s else s) of
             None \<Rightarrow> None
           | Some (gs, ell, rest) \<Rightarrow>
              (if rest \<noteq> [] then None
               else if length gs < 8 then
                 (case ell of None \<Rightarrow> None
                  | Some e \<Rightarrow> Some (Addr6 (v6_number (take e gs @ replicate (8 - length gs) 0 @ drop e gs)) zone))
               else if ell \<noteq> None then None
               else Some (Addr6 (v6_number gs) zone))))"

definition ParseAddr :: "string \<Rightarrow> Addr option" where
  "ParseAddr s =
    (case dropWhile (\<lambda>c. c \<noteq> CHR ''.'' \<and> c \<noteq> CHR '':'' \<and> c \<noteq> CHR ''%'') s of
       [] \<Rightarrow> None
     | c # _ \<Rightarrow>
        (if c = CHR ''.'' then map_option Addr4 (parseIPv4 s)
         else if c = CHR '':'' then parseIPv6 s
         else None))"

definition ParsePrefix_ok :: "string \<Rightarrow> bool" where
  "ParsePrefix_ok s =
    (let bits = rev (takeWhile (\<lambda>c. c \<noteq> CHR ''/'') (rev s)) in
     length bits < length s \<and>
     (case ParseAddr (take (length s - length bits - 1) s) of
        None \<Rightarrow> False
      | Some a \<Rightarrow>
         (case a of Addr6 _ z \<Rightarrow> z = [] | Addr4 _ \<Rightarrow> True) \<and>
         bits \<noteq> [] \<and> list_all is_digit bits \<and> (length bits > 1 \<longrightarrow> hd bits \<noteq> CHR ''0'') \<and>
         decimal_value bits \<le> (if Is4 a then 32 else 128)))"

text \<open>\<open>net.ParseIP(s).To4()\<close>.\<close>

definition ParseIP_To4 :: "string \<Rightarrow> nat option" where
  "ParseIP_To4 s =
    (case ParseAddr s of
       Some (Addr4 v) \<Rightarrow> Some v
     | Some (Addr6 v z) \<Rightarrow> if z = [] \<and> v div 2 ^ 32 = 0xffff then Some (v mod 2 ^ 32) else None
     | None \<Rightarrow> None)"

text \<open>\<open>IPMask.Size\<close> of a four-byte mask: the number of leading ones of a contiguous mask, else \<open>(0, 0)\<close>.\<close>

definition mask_Size :: "nat \<Rightarrow> nat \<times> nat" where
  "mask_Size m = (case find (\<lambda>n. m = 2 ^ 32 - 2 ^ (32 - n)) [0..<33] of Some n \<Rightarrow> (n, 32) | None \<Rightarrow> (0, 0))"

text \<open>\<open>netip.PrefixFrom(gateway, ones).Masked().Contains(a)\<close> for an IPv4 gateway.\<close>

definition subnet_Contains :: "nat \<Rightarrow> nat \<Rightarrow> Addr \<Rightarrow> bool" where
  "subnet_Contains gateway ones a =
    (case a of Addr4 v \<Rightarrow> v div 2 ^ (32 - ones) = gateway div 2 ^ (32 - ones) | Addr6 _ _ \<Rightarrow> False)"

definition addr_Less :: "Addr \<Rightarrow> Addr \<Rightarrow> bool" where
  "addr_Less a b =
    (case (a, b) of
       (Addr4 v, Addr4 w) \<Rightarrow> v < w
     | (Addr4 _, Addr6 _ _) \<Rightarrow> True
     | (Addr6 _ _, Addr4 _) \<Rightarrow> False
     | (Addr6 v z, Addr6 w y) \<Rightarrow> v < w \<or> v = w \<and> z < y)"

definition hex_pair :: "char \<Rightarrow> char \<Rightarrow> nat option" where
  "hex_pair a b = (case (hex_value a, hex_value b) of (Some x, Some y) \<Rightarrow> Some (16 * x + y) | _ \<Rightarrow> None)"

fun mac_pairs :: "char \<Rightarrow> string \<Rightarrow> nat list option" where
  "mac_pairs e [a, b] = map_option (\<lambda>x. [x]) (hex_pair a b)"
| "mac_pairs e (a # b # c # s) =
     (if c \<noteq> e then None
      else case (hex_pair a b, mac_pairs e s) of (Some x, Some xs) \<Rightarrow> Some (x # xs) | _ \<Rightarrow> None)"
| "mac_pairs e _ = None"

fun mac_quads :: "string \<Rightarrow> nat list option" where
  "mac_quads [a, b, c, d] =
     (case (hex_pair a b, hex_pair c d) of (Some x, Some y) \<Rightarrow> Some [x, y] | _ \<Rightarrow> None)"
| "mac_quads (a # b # c # d # e # s) =
     (if e \<noteq> CHR ''.'' then None
      else case (hex_pair a b, hex_pair c d, mac_quads s) of
             (Some x, Some y, Some xs) \<Rightarrow> Some (x # y # xs) | _ \<Rightarrow> None)"
| "mac_quads _ = None"

definition ParseMAC :: "string \<Rightarrow> nat list option" where
  "ParseMAC s =
    (if length s < 14 then None
     else
       (let hw = (if s ! 2 = CHR '':'' \<or> s ! 2 = CHR ''-'' then mac_pairs (s ! 2) s
                  else if s ! 4 = CHR ''.'' then mac_quads s else None)
        in case hw of None \<Rightarrow> None
           | Some bs \<Rightarrow> if length bs = 6 \<or> length bs = 8 \<or> length bs = 20 then Some bs else None))"

subsection \<open>Ranges\<close>

lemma v4_fields_bound:
  "v4_fields fs val n s = Some out \<Longrightarrow> \<forall>f \<in> set fs. f < 256 \<Longrightarrow> val < 256 \<Longrightarrow> length fs \<le> 3 \<Longrightarrow>
   length out = 4 \<and> (\<forall>f \<in> set out. f < 256)"
  by (induction fs val n s rule: v4_fields.induct) (auto simp: Let_def split: if_splits)

lemma parseIPv4_bound: "parseIPv4 s = Some v \<Longrightarrow> v < 2 ^ 32"
proof -
  assume "parseIPv4 s = Some v"
  then obtain fs where fs: "v4_fields [] 0 0 s = Some fs" and v: "v = foldl (\<lambda>a b. a * 256 + b) 0 fs"
    by (auto simp: parseIPv4_def)
  from v4_fields_bound [OF fs] have "length fs = 4" "\<forall>f \<in> set fs. f < 256" by simp_all
  then obtain a b c d where "fs = [a, b, c, d]" and "a < 256" "b < 256" "c < 256" "d < 256"
    by (auto simp: length_Suc_conv eval_nat_numeral)
  then show "v < 2 ^ 32" by (simp add: v)
qed

lemma ParseAddr_Addr4: "ParseAddr s = Some (Addr4 v) \<Longrightarrow> v < 2 ^ 32"
  by (auto simp: ParseAddr_def parseIPv6_def Let_def split: list.splits if_splits option.splits prod.splits
      dest: parseIPv4_bound)

lemma mask_Size_32: "mask_Size m = (n, 32) \<Longrightarrow> n \<le> 32 \<and> m = 2 ^ 32 - 2 ^ (32 - n)"
  by (auto simp: mask_Size_def find_Some_iff nth_append split: option.splits)

end
