(* ===== verification/Validation.thy ===== *)
theory Validation
  imports Differences Go_Netip
begin

text \<open>
  Validation of desired documents (\<open>ValidateDesired\<close> and its helpers in
  \<open>internal/configuration/model.go\<close>). An issue list is built in the order of the
  source; where the source ranges over a Go map the order is that of the association list.
  What the host decides is a \<open>host\<close> record: \<open>net/url.Parse\<close> and whether
  \<open>time.LoadLocation\<close> finds a time zone in the system's database.
\<close>

record host =
  url_Parse :: "string \<Rightarrow> URL option"
  location_known :: "string \<Rightarrow> bool"

record ValidationIssue =
  issue_Field :: string
  issue_Message :: string

definition issue :: "string \<Rightarrow> string \<Rightarrow> ValidationIssue" where
  "issue field message = \<lparr>issue_Field = field, issue_Message = message\<rparr>"

definition issue_if :: "bool \<Rightarrow> string \<Rightarrow> string \<Rightarrow> ValidationIssue list" where
  "issue_if b field message = (if b then [issue field message] else [])"

text \<open>\<open>prefix[index]suffix\<close>, as \<open>fmt.Sprintf\<close> prints it.\<close>

definition indexed :: "string \<Rightarrow> nat \<Rightarrow> string \<Rightarrow> string" where
  "indexed p index sfx = p @ ''['' @ itoa (int index) @ '']'' @ sfx"

fun issues_from :: "nat \<Rightarrow> (nat \<Rightarrow> 'a \<Rightarrow> ValidationIssue list) \<Rightarrow> 'a list \<Rightarrow> ValidationIssue list" where
  "issues_from index f [] = []"
| "issues_from index f (x # xs) = f index x @ issues_from (Suc index) f xs"

definition validHTTPURL :: "host \<Rightarrow> string \<Rightarrow> bool" where
  "validHTTPURL h rawURL =
    (case url_Parse h rawURL of None \<Rightarrow> False
     | Some parsed \<Rightarrow> url_Host parsed \<noteq> [] \<and> \<not> url_HasUser parsed \<and>
         (url_Scheme parsed = ''http'' \<or> url_Scheme parsed = ''https''))"

definition validAddress :: "string \<Rightarrow> bool" where
  "validAddress value = (ParseAddr value \<noteq> None)"

definition validateSchedule :: "host \<Rightarrow> string \<Rightarrow> Schedule \<Rightarrow> ValidationIssue list" where
  "validateSchedule h pfx schedule =
     issue_if (sched_TimeZone schedule \<noteq> [] \<and> sched_TimeZone schedule \<noteq> ''Local'' \<and> \<not> location_known h (sched_TimeZone schedule))
       (pfx @ ''.timeZone'') ''must be Local or an IANA time zone'' @
     concat (map (\<lambda>(day, period).
       issue_if (day \<notin> {''sun'', ''mon'', ''tue'', ''wed'', ''thu'', ''fri'', ''sat''} \<or>
                 day_Start period < 0 \<or> day_End period > 86400000 \<or> day_Start period \<ge> day_End period)
         (pfx @ ''.days.'' @ day) ''must be a valid day with start before end within 24 hours'') (sched_Days schedule))"

definition validate_dns :: "DNS \<Rightarrow> ValidationIssue list" where
  "validate_dns d =
     issue_if (dns_RateLimit d < 0) ''shared.dns.rateLimit'' ''must not be negative'' @
     issue_if (dns_BlockedResponseTTL d < 0) ''shared.dns.blockedResponseTtl'' ''must not be negative'' @
     issue_if (dns_RateLimitIPv4 d < 0 \<or> dns_RateLimitIPv4 d > 32) ''shared.dns.rateLimitSubnetLengthIpv4'' ''must be between 0 and 32'' @
     issue_if (dns_RateLimitIPv6 d < 0 \<or> dns_RateLimitIPv6 d > 128) ''shared.dns.rateLimitSubnetLengthIpv6'' ''must be between 0 and 128'' @
     issue_if (dns_BlockingMode d \<notin> {'''', ''default'', ''refused'', ''nxdomain'', ''null_ip'', ''custom_ip''})
       ''shared.dns.blockingMode'' ''is not supported'' @
     issue_if (dns_BlockingIPv4 d \<noteq> [] \<and> (case ParseAddr (dns_BlockingIPv4 d) of None \<Rightarrow> True | Some a \<Rightarrow> \<not> Is4 a))
       ''shared.dns.blockingIpv4'' ''must be an IPv4 address'' @
     issue_if (dns_BlockingIPv6 d \<noteq> [] \<and> (case ParseAddr (dns_BlockingIPv6 d) of None \<Rightarrow> True | Some a \<Rightarrow> \<not> Is6 a))
       ''shared.dns.blockingIpv6'' ''must be an IPv6 address'' @
     issue_if (dns_UpstreamMode d \<notin> {'''', ''load_balance'', ''fastest_addr'', ''parallel''})
       ''shared.dns.upstreamMode'' ''is not supported'' @
     issues_from 0 (\<lambda>index address. issue_if (\<not> ParsePrefix_ok address \<and> ParseAddr address = None)
       (indexed ''shared.dns.rateLimitAllowlist'' index []) ''must be an IP address or pfx'') (dns_RateLimitAllowlist d) @
     issue_if (dns_EDNSUseCustom d \<and> \<not> validAddress (dns_EDNSCustomIP d))
       ''shared.dns.ednsCustomIp'' ''must be an IP address when custom EDNS is enabled'' @
     issue_if (dns_CacheSize d < 0 \<or> dns_CacheTTLMin d < 0 \<or> dns_CacheTTLMax d < 0 \<or>
               (dns_CacheTTLMax d > 0 \<and> dns_CacheTTLMin d > dns_CacheTTLMax d))
       ''shared.dns.cache'' ''cache size and TTL values must be non-negative and the minimum must not exceed the maximum'' @
     issue_if (dns_CacheEnabled d \<and> dns_CacheSize d \<le> 0) ''shared.dns.cacheSize'' ''must be positive when the cache is enabled'' @
     issue_if (dns_UpstreamTimeout d < 0) ''shared.dns.upstreamTimeoutSeconds'' ''must not be negative''"

text \<open>The loop over one client's identifiers: issues and the identifiers seen afterwards.\<close>

fun validate_client_ids :: "nat \<Rightarrow> string list \<Rightarrow> string list \<Rightarrow> ValidationIssue list \<times> string list" where
  "validate_client_ids index seen [] = ([], seen)"
| "validate_client_ids index seen (i # ids) =
    (let key = ToLower i; (issues, seen') = validate_client_ids index (key # seen) ids in
     (issue_if (key \<in> set seen) (indexed ''shared.clients'' index ''.ids'') ''identifiers must be unique across clients'' @ issues,
      seen'))"

fun validate_clients :: "host \<Rightarrow> nat \<Rightarrow> string list \<Rightarrow> string list \<Rightarrow> PersistentClient list \<Rightarrow> ValidationIssue list" where
  "validate_clients h index names seen [] = []"
| "validate_clients h index names seen (client # clients) =
    (let key = ToLower (client_Name client);
         (id_issues, seen') = validate_client_ids index seen (client_IDs client)
     in issue_if (client_Name client = [] \<or> key \<in> set names)
          (indexed ''shared.clients'' index ''.name'') ''must be non-empty and unique'' @
        issue_if (client_IDs client = [])
          (indexed ''shared.clients'' index ''.ids'') ''must contain at least one identifier'' @
        id_issues @
        issue_if (client_UpstreamsCacheSize client < 0)
          (indexed ''shared.clients'' index ''.upstreamsCacheSize'') ''must not be negative'' @
        validateSchedule h (indexed ''shared.clients'' index ''.blockedServicesSchedule'') (client_BlockedServicesSchedule client) @
        validate_clients h (Suc index) (key # names) seen' clients)"

fun validate_rewrites :: "nat \<Rightarrow> string list \<Rightarrow> Rewrite list \<Rightarrow> ValidationIssue list" where
  "validate_rewrites index seen [] = []"
| "validate_rewrites index seen (rewrite # rewrites) =
    (let key = ToLower (rewrite_Domain rewrite) @ [CHR 0x00] @ ToLower (rewrite_Answer rewrite) in
     issue_if (rewrite_Domain rewrite = [] \<or> rewrite_Answer rewrite = [] \<or> key \<in> set seen)
       (indexed ''shared.rewrites'' index []) ''domain and answer must be non-empty and the pair must be unique'' @
     validate_rewrites (Suc index) (key # seen) rewrites)"

definition interval_issue :: "string \<Rightarrow> int \<Rightarrow> ValidationIssue list" where
  "interval_issue field value = issue_if (value \<noteq> 0 \<and> (value < 3600000 \<or> value > 31536000000)) field
     ''must be between one hour and one year in milliseconds''"

definition validateV2Shared :: "host \<Rightarrow> Shared \<Rightarrow> ValidationIssue list" where
  "validateV2Shared h shared =
     validate_dns (sh_DNS shared) @
     validate_clients h 0 [] [] (elems (sh_Clients shared)) @
     validate_rewrites 0 [] (elems (sh_Rewrites shared)) @
     validateSchedule h ''shared.services.blockedSchedule'' (svc_BlockedSchedule (sh_Services shared)) @
     interval_issue ''shared.queryLog.intervalMillis'' (ql_IntervalMillis (sh_QueryLog shared)) @
     interval_issue ''shared.statistics.intervalMillis'' (st_IntervalMillis (sh_Statistics shared)) @
     issue_if (ql_Enabled (sh_QueryLog shared) \<and> ql_IntervalMillis (sh_QueryLog shared) = 0)
       ''shared.queryLog.intervalMillis'' ''must be set when query logging is enabled'' @
     issue_if (st_Enabled (sh_Statistics shared) \<and> st_IntervalMillis (sh_Statistics shared) = 0)
       ''shared.statistics.intervalMillis'' ''must be set when statistics are enabled''"

definition hostname_char :: "char \<Rightarrow> bool" where
  "hostname_char c \<longleftrightarrow> in_range 97 122 c \<or> in_range 65 90 c \<or> in_range 48 57 c \<or> c = CHR ''-''"

text \<open>\<open>strings.Split(value, ".")\<close>.\<close>

definition validDHCPHostname :: "string \<Rightarrow> bool" where
  "validDHCPHostname value \<longleftrightarrow>
    \<not> (length value = 0 \<or> length value > 253) \<and>
    list_all (\<lambda>label.
      \<not> (length label = 0 \<or> length label > 63 \<or> hd label = CHR ''-'' \<or> last label = CHR ''-'') \<and>
      list_all hostname_char label) (split_dots [] value)"

fun validate_leases :: "string \<Rightarrow> nat \<Rightarrow> nat list list \<Rightarrow> Addr list \<Rightarrow> DHCPStaticLease list \<Rightarrow> ValidationIssue list" where
  "validate_leases pfx index seenMACs seenIPs [] = []"
| "validate_leases pfx index seenMACs seenIPs (lease # leases) =
    (let mac = ParseMAC (TrimSpace (lease_MAC lease));
         ip = ParseAddr (TrimSpace (lease_IP lease));
         hostnameValid = validDHCPHostname (TrimSpace (lease_Hostname lease));
         base = pfx @ ''.staticLeases''
     in issue_if (mac = None) (indexed base index ''.mac'') ''must be a valid six-byte MAC address'' @
        issue_if (ip = None) (indexed base index ''.ip'') ''must be a valid IP address'' @
        issue_if (\<not> hostnameValid) (indexed base index ''.hostname'') ''must contain valid hostname labels'' @
        (case (mac, ip) of
           (Some m, Some a) \<Rightarrow>
             (if \<not> hostnameValid then validate_leases pfx (Suc index) seenMACs seenIPs leases
              else issue_if (m \<in> set seenMACs \<or> a \<in> set seenIPs) (indexed base index [])
                     ''MAC and IP must be unique within the node'' @
                   validate_leases pfx (Suc index) (m # seenMACs) (a # seenIPs) leases)
         | _ \<Rightarrow> validate_leases pfx (Suc index) seenMACs seenIPs leases))"

definition validate_dhcp_ipv4 :: "string \<Rightarrow> DHCPIPv4 \<Rightarrow> ValidationIssue list" where
  "validate_dhcp_ipv4 pfx v =
    (case (ParseAddr (v4_Gateway v), ParseAddr (v4_RangeStart v), ParseAddr (v4_RangeEnd v),
           case ParseIP_To4 (v4_SubnetMask v) of None \<Rightarrow> (0, 0) | Some m \<Rightarrow> mask_Size m) of
       (Some (Addr4 gateway), Some (Addr4 start), Some (Addr4 end'), (ones, bits)) \<Rightarrow>
         (if bits \<noteq> 32
          then [issue (pfx @ ''.ipv4'') ''gateway, contiguous subnet mask, range start, and range end must be valid IPv4 values'']
          else
            issue_if (\<not> subnet_Contains gateway ones (Addr4 start) \<or> \<not> subnet_Contains gateway ones (Addr4 end'))
              (pfx @ ''.ipv4'') ''range start and end must be within the gateway subnet'' @
            issue_if (addr_Less (Addr4 end') (Addr4 start)) (pfx @ ''.ipv4.rangeEnd'') ''must not be before range start'')
     | _ \<Rightarrow> [issue (pfx @ ''.ipv4'') ''gateway, contiguous subnet mask, range start, and range end must be valid IPv4 values''])"

definition validateDHCP :: "string \<Rightarrow> DHCPConfig \<Rightarrow> ValidationIssue list" where
  "validateDHCP pfx config =
    (let v4 = dhcp_IPv4 config; v6 = dhcp_IPv6 config in
     (if dhcp_Enabled config then
        issue_if (TrimSpace (dhcp_InterfaceName config) = []) (pfx @ ''.interfaceName'') ''is required when DHCP is enabled'' @
        issue_if (v4_LeaseDuration v4 \<le> 0) (pfx @ ''.ipv4.leaseDurationSeconds'') ''must be positive when DHCP is enabled''
      else []) @
     (if dhcp_Enabled config \<or> v4_Gateway v4 \<noteq> [] \<or> v4_SubnetMask v4 \<noteq> [] \<or> v4_RangeStart v4 \<noteq> [] \<or> v4_RangeEnd v4 \<noteq> []
      then validate_dhcp_ipv4 pfx v4 else []) @
     (if v6_RangeStart v6 \<noteq> [] then
        issue_if (case ParseAddr (v6_RangeStart v6) of None \<Rightarrow> True | Some a \<Rightarrow> \<not> Is6 a)
          (pfx @ ''.ipv6.rangeStart'') ''must be an IPv6 address'' @
        issue_if (v6_LeaseDuration v6 \<le> 0) (pfx @ ''.ipv6.leaseDurationSeconds'')
          ''must be positive when an IPv6 range is configured''
      else []) @
     validate_leases pfx 0 [] [] (elems (dhcp_StaticLeases config)))"

definition ValidateNodeSpecific :: "string \<Rightarrow> NodeSpecific \<Rightarrow> ValidationIssue list" where
  "ValidateNodeSpecific fieldPrefix listener =
     issue_if (ns_DNSPort listener < 1 \<or> ns_DNSPort listener > 65535) (fieldPrefix @ ''.dnsPort'') ''must be between 1 and 65535'' @
     issue_if (ns_BindHosts listener = []) (fieldPrefix @ ''.bindHosts'') ''must include at least one address'' @
     issues_from 0 (\<lambda>index host. issue_if (ParseAddr host = None)
       (indexed (fieldPrefix @ ''.bindHosts'') index []) ''must be an IP address'') (ns_BindHosts listener)"

text \<open>The loop over the enabled nodes: issues and the number of nodes with DHCP enabled.\<close>

fun validate_overrides :: "NodeSpecific gomap \<Rightarrow> string list \<Rightarrow> ValidationIssue list \<times> nat" where
  "validate_overrides overrides [] = ([], 0)"
| "validate_overrides overrides (nodeID # nodeIDs) =
    (let (rest, enabledDHCP) = validate_overrides overrides nodeIDs in
     case map_of overrides nodeID of
       None \<Rightarrow> (issue (''nodeOverrides.'' @ nodeID) ''is required for every enabled node'' # rest, enabledDHCP)
     | Some override \<Rightarrow>
        (ValidateNodeSpecific (''nodeOverrides.'' @ nodeID) override @
         (case ns_DHCP override of None \<Rightarrow> [] | Some c \<Rightarrow> validateDHCP (''nodeOverrides.'' @ nodeID @ ''.dhcp'') c) @ rest,
         (case ns_DHCP override of None \<Rightarrow> enabledDHCP | Some c \<Rightarrow> if dhcp_Enabled c then Suc enabledDHCP else enabledDHCP)))"

definition ValidateDesired :: "host \<Rightarrow> DesiredDocument \<Rightarrow> string list \<Rightarrow> ValidationIssue list" where
  "ValidateDesired h document nodeIDs =
    (let providedSchemaVersion = des_SchemaVersion document;
         document = CanonicaliseDesired document;
         filtering = sh_Filtering (des_Shared document);
         (override_issues, enabledDHCP) = validate_overrides (des_NodeOverrides document) nodeIDs
     in issue_if (providedSchemaVersion \<noteq> SchemaVersion) ''schemaVersion'' ''must be 2'' @
        issue_if (flt_UpdateInterval filtering < 0 \<or> flt_UpdateInterval filtering > 8760)
          ''shared.filtering.updateIntervalHours'' ''must be between 0 and 8760'' @
        issue_if (IsLegacyConverted (des_Unsupported document)) ''unsupported''
          ''legacy schema-1 records must be imported and published as a fresh schema-2 revision before deployment'' @
        issues_from 0 (\<lambda>index rawURL. issue_if (\<not> validHTTPURL h rawURL)
          (indexed ''shared.filtering.filterUrls'' index []) ''must be an absolute HTTP or HTTPS URL'') (flt_FilterURLs filtering) @
        issues_from 0 (\<lambda>index rawURL. issue_if (\<not> validHTTPURL h rawURL)
          (indexed ''shared.filtering.whitelistUrls'' index []) ''must be an absolute HTTP or HTTPS URL'') (flt_WhitelistURLs filtering) @
        validateV2Shared h (des_Shared document) @
        override_issues @
        issue_if (enabledDHCP > 1) ''nodeOverrides'' ''DHCP may be enabled on at most one node'')"


subsection \<open>What an empty issue list guarantees\<close>

lemma issue_if_Nil [simp]: "issue_if b f m = [] \<longleftrightarrow> \<not> b"
  by (simp add: issue_if_def)

lemma issues_from_Nil: "issues_from i f xs = [] \<longleftrightarrow> (\<forall>k < length xs. f (i + k) (xs ! k) = [])"
proof (induction xs arbitrary: i)
  case (Cons x xs)
  then show ?case by (auto simp: nth_Cons' less_Suc_eq_0_disj)
qed simp

lemma validate_client_ids_Nil:
  "fst (validate_client_ids index seen ids) = [] \<longleftrightarrow>
     distinct (map ToLower ids) \<and> set (map ToLower ids) \<inter> set seen = {}"
  by (induction ids arbitrary: seen) (auto simp: Let_def case_prod_unfold)

lemma validate_client_ids_seen:
  "set (snd (validate_client_ids index seen ids)) = set (map ToLower ids) \<union> set seen"
  by (induction ids arbitrary: seen) (auto simp: Let_def case_prod_unfold)

definition client_keys :: "PersistentClient list \<Rightarrow> string list" where
  "client_keys clients = concat (map (\<lambda>c. map ToLower (client_IDs c)) clients)"

lemma client_keys_simps [simp]:
  "client_keys [] = []" "client_keys (c # cs) = map ToLower (client_IDs c) @ client_keys cs"
  by (simp_all add: client_keys_def)

lemma validate_clients_Nil:
  "validate_clients h index names seen clients = [] \<Longrightarrow>
     distinct (map (\<lambda>c. ToLower (client_Name c)) clients) \<and>
     (\<forall>c \<in> set clients. client_Name c \<noteq> [] \<and> client_IDs c \<noteq> [] \<and> ToLower (client_Name c) \<notin> set names) \<and>
     distinct (client_keys clients) \<and> set (client_keys clients) \<inter> set seen = {}"
proof (induction clients arbitrary: index names seen)
  case (Cons c cs)
  obtain ids seen' where v: "validate_client_ids index seen (client_IDs c) = (ids, seen')" by fastforce
  from v validate_client_ids_seen [of index seen "client_IDs c"]
  have seen': "set seen' = set (map ToLower (client_IDs c)) \<union> set seen" by simp
  from Cons.prems v have ids: "ids = []"
    and rest: "validate_clients h (Suc index) (ToLower (client_Name c) # names) seen' cs = []"
    and here: "client_Name c \<noteq> []" "ToLower (client_Name c) \<notin> set names" "client_IDs c \<noteq> []"
    by (auto simp: Let_def)
  from v ids validate_client_ids_Nil [of index seen "client_IDs c"]
  have "distinct (map ToLower (client_IDs c)) \<and> set (map ToLower (client_IDs c)) \<inter> set seen = {}" by simp
  with Cons.IH [OF rest] here show ?case by (auto simp: seen')
qed simp

lemma validate_rewrites_Nil:
  "validate_rewrites index seen rws = [] \<Longrightarrow>
     distinct (map rewrite_key rws) \<and>
     (\<forall>r \<in> set rws. rewrite_Domain r \<noteq> [] \<and> rewrite_Answer r \<noteq> [] \<and>
        ToLower (rewrite_Domain r) @ [CHR 0x00] @ ToLower (rewrite_Answer r) \<notin> set seen)"
proof (induction rws arbitrary: index seen)
  case (Cons r rs)
  then show ?case
    using Cons.IH [of "Suc index" "(ToLower (rewrite_Domain r) @ [CHR 0x00] @ ToLower (rewrite_Answer r)) # seen"]
    by (auto simp: Let_def rewrite_key_def)
qed simp

definition lease_macs :: "DHCPStaticLease list \<Rightarrow> nat list option list" where
  "lease_macs leases = map (\<lambda>l. ParseMAC (TrimSpace (lease_MAC l))) leases"

definition lease_ips :: "DHCPStaticLease list \<Rightarrow> Addr option list" where
  "lease_ips leases = map (\<lambda>l. ParseAddr (TrimSpace (lease_IP l))) leases"

lemma validate_leases_Nil:
  "validate_leases pfx index macs ips leases = [] \<Longrightarrow>
     distinct (lease_macs leases) \<and> set (lease_macs leases) \<inter> (Some ` set macs) = {} \<and> None \<notin> set (lease_macs leases) \<and>
     distinct (lease_ips leases) \<and> set (lease_ips leases) \<inter> (Some ` set ips) = {} \<and> None \<notin> set (lease_ips leases)"
proof (induction leases arbitrary: index macs ips)
  case Nil
  show ?case by (simp add: lease_macs_def lease_ips_def)
next
  case (Cons l ls)
  from Cons.prems obtain m a where m: "ParseMAC (TrimSpace (lease_MAC l)) = Some m"
    and a: "ParseAddr (TrimSpace (lease_IP l)) = Some a"
    by (cases "ParseMAC (TrimSpace (lease_MAC l))"; cases "ParseAddr (TrimSpace (lease_IP l))") (auto simp: Let_def)
  with Cons.prems have new: "m \<notin> set macs" "a \<notin> set ips"
    and rest: "validate_leases pfx (Suc index) (m # macs) (a # ips) ls = []"
    by (auto simp: Let_def split: if_splits)
  from Cons.IH [OF rest] new show ?case by (auto simp: lease_macs_def lease_ips_def m a)
qed

definition dhcp_enabled_in :: "NodeSpecific gomap \<Rightarrow> string \<Rightarrow> bool" where
  "dhcp_enabled_in overrides i =
     (case map_of overrides i of None \<Rightarrow> False
      | Some n \<Rightarrow> (case ns_DHCP n of None \<Rightarrow> False | Some c \<Rightarrow> dhcp_Enabled c))"

lemma validate_overrides_count:
  "snd (validate_overrides overrides nodeIDs) = length (filter (dhcp_enabled_in overrides) nodeIDs)"
  by (induction nodeIDs) (auto simp: case_prod_unfold Let_def dhcp_enabled_in_def split: option.splits)

lemma validate_overrides_Nil:
  "fst (validate_overrides overrides nodeIDs) = [] \<Longrightarrow> i \<in> set nodeIDs \<Longrightarrow>
   \<exists>n. map_of overrides i = Some n \<and> ValidateNodeSpecific (''nodeOverrides.'' @ i) n = [] \<and>
     (\<forall>c. ns_DHCP n = Some c \<longrightarrow> validateDHCP (''nodeOverrides.'' @ i @ ''.dhcp'') c = [])"
proof (induction nodeIDs)
  case (Cons a nodeIDs)
  then obtain n where "map_of overrides a = Some n"
    by (cases "map_of overrides a") (auto simp: case_prod_unfold Let_def)
  moreover from this Cons.prems(1) have "fst (validate_overrides overrides nodeIDs) = []"
    and "ValidateNodeSpecific (''nodeOverrides.'' @ a) n = []"
    and "\<forall>c. ns_DHCP n = Some c \<longrightarrow> validateDHCP (''nodeOverrides.'' @ a @ ''.dhcp'') c = []"
    by (simp_all add: case_prod_unfold Let_def split: option.splits)
  ultimately show ?case using Cons.IH Cons.prems(2) by (cases "i = a") simp_all
qed simp

lemma ValidateDesired_parts:
  assumes "ValidateDesired h d nodeIDs = []"
  shows "des_SchemaVersion d = SchemaVersion"
    and "\<not> IsLegacyConverted (des_Unsupported (CanonicaliseDesired d))"
    and "validateV2Shared h (des_Shared (CanonicaliseDesired d)) = []"
    and "fst (validate_overrides (des_NodeOverrides (CanonicaliseDesired d)) nodeIDs) = []"
    and "snd (validate_overrides (des_NodeOverrides (CanonicaliseDesired d)) nodeIDs) \<le> 1"
  using assms by (auto simp: ValidateDesired_def Let_def case_prod_unfold)

lemma validate_dhcp_ipv4_Nil:
  assumes "validate_dhcp_ipv4 pfx v = []"
  obtains gateway start stop ones where
    "ParseAddr (v4_Gateway v) = Some (Addr4 gateway)" "ParseAddr (v4_RangeStart v) = Some (Addr4 start)"
    "ParseAddr (v4_RangeEnd v) = Some (Addr4 stop)" "ones \<le> 32"
    "ParseIP_To4 (v4_SubnetMask v) = Some (2 ^ 32 - 2 ^ (32 - ones))" "start \<le> stop"
    "start div 2 ^ (32 - ones) = gateway div 2 ^ (32 - ones)"
    "stop div 2 ^ (32 - ones) = gateway div 2 ^ (32 - ones)"
  using assms
  by (auto simp: validate_dhcp_ipv4_def subnet_Contains_def addr_Less_def
      split: option.splits Addr.splits prod.splits if_splits dest: mask_Size_32)

lemma between_same_div:
  fixes a b c m :: nat
  assumes "a \<le> x" "x \<le> b" "a div m = c" "b div m = c"
  shows "x div m = c"
  using div_le_mono [OF assms(1), of m] div_le_mono [OF assms(2), of m] assms(3,4) by simp


subsection \<open>Properties\<close>

definition sample_host :: host where
  "sample_host = \<lparr>url_Parse = (\<lambda>s. None), location_known = (\<lambda>z. False)\<rparr>"

definition sample_dhcp :: "bool \<Rightarrow> DHCPConfig" where
  "sample_dhcp on = \<lparr>dhcp_Enabled = on, dhcp_InterfaceName = ''eth0'',
     dhcp_IPv4 = \<lparr>v4_Gateway = ''10.0.0.1'', v4_SubnetMask = ''255.255.255.0'', v4_RangeStart = ''10.0.0.9'',
       v4_RangeEnd = ''10.0.0.20'', v4_LeaseDuration = 60\<rparr>,
     dhcp_IPv6 = \<lparr>v6_RangeStart = [], v6_LeaseDuration = 0\<rparr>,
     dhcp_StaticLeases = Some [\<lparr>lease_MAC = ''aa:bb:cc:dd:ee:ff'', lease_IP = ''10.0.0.5'', lease_Hostname = ''nas''\<rparr>]\<rparr>"

definition sample_node :: "bool \<Rightarrow> NodeSpecific" where
  "sample_node on = \<lparr>ns_BindHosts = [''0.0.0.0''], ns_DNSPort = 53, ns_DHCP = Some (sample_dhcp on)\<rparr>"

definition sample_client :: "string \<Rightarrow> string \<Rightarrow> PersistentClient" where
  "sample_client name i = \<lparr>client_Name = name, client_IDs = [i], client_UseGlobalSettings = True,
     client_FilteringEnabled = True, client_ParentalEnabled = False, client_SafeBrowsingEnabled = False,
     client_SafeSearch = zero_SafeSearch, client_UseGlobalBlockedServices = True, client_BlockedServices = [],
     client_BlockedServicesSchedule = zero_Schedule, client_Upstreams = [], client_UpstreamsCacheEnabled = False,
     client_UpstreamsCacheSize = 0, client_Tags = [], client_IgnoreQueryLog = False, client_IgnoreStatistics = False\<rparr>"

definition sample_shared :: Shared where
  "sample_shared = zero_Shared\<lparr>sh_Clients := Some [sample_client ''tv'' ''10.0.0.7'', sample_client ''PC'' ''10.0.0.8''],
     sh_Rewrites := Some [\<lparr>rewrite_Domain = ''nas.lan'', rewrite_Answer = ''10.0.0.5'', rewrite_Enabled = True\<rparr>]\<rparr>"

definition sample_desired :: DesiredDocument where
  "sample_desired = \<lparr>des_SchemaVersion = SchemaVersion, des_Shared = sample_shared,
     des_NodeOverrides = [(''a'', sample_node True), (''b'', sample_node False)], des_Unsupported = Some []\<rparr>"

lemma sample_addresses:
  "ParseAddr ''10.0.0.1'' = Some (Addr4 167772161)" "ParseAddr ''10.0.0.9'' = Some (Addr4 167772169)"
  "ParseAddr ''10.0.0.20'' = Some (Addr4 167772180)" "ParseAddr ''10.0.0.5'' = Some (Addr4 167772165)"
  "ParseAddr ''0.0.0.0'' = Some (Addr4 0)" "ParseIP_To4 ''255.255.255.0'' = Some 4294967040"
  by (simp_all add: ParseIP_To4_def ParseAddr_def parseIPv4_def is_digit_def)

lemma sample_mask: "mask_Size 4294967040 = (24, 32)"
  by (simp add: mask_Size_def upt_conv_Cons)

lemma sample_lease:
  "ParseMAC ''aa:bb:cc:dd:ee:ff'' = Some [170, 187, 204, 221, 238, 255]" "validDHCPHostname ''nas''"
  by code_simp+

lemma sample_trimmed:
  "TrimSpace ''aa:bb:cc:dd:ee:ff'' = ''aa:bb:cc:dd:ee:ff''" "TrimSpace ''10.0.0.5'' = ''10.0.0.5''"
  "TrimSpace ''nas'' = ''nas''" "TrimSpace ''eth0'' = ''eth0''"
  by code_simp+

lemma sample_dhcp_valid: "validateDHCP pfx (sample_dhcp on) = []"
  by (simp add: validateDHCP_def sample_dhcp_def validate_dhcp_ipv4_def sample_addresses sample_mask
      sample_lease sample_trimmed subnet_Contains_def addr_Less_def Let_def)

lemma sample_node_valid: "ValidateNodeSpecific pfx (sample_node on) = []"
  by (simp add: ValidateNodeSpecific_def sample_node_def sample_addresses)

lemma sample_overrides:
  "des_NodeOverrides (CanonicaliseDesired sample_desired) = [(''a'', sample_node True), (''b'', sample_node False)]"
  by code_simp

lemma sample_shared_valid:
  "validateV2Shared sample_host (des_Shared (CanonicaliseDesired sample_desired)) = []"
  "IsLegacyConverted (des_Unsupported (CanonicaliseDesired sample_desired)) = False"
  "sh_Filtering (des_Shared (CanonicaliseDesired sample_desired)) = sh_Filtering zero_Shared"
  by code_simp+

lemma sample_node_dhcp [simp]:
  "ns_DHCP (sample_node on) = Some (sample_dhcp on)" "dhcp_Enabled (sample_dhcp on) = on"
  by (simp_all add: sample_node_def sample_dhcp_def)

lemma sample_desired_valid: "ValidateDesired sample_host sample_desired [''a'', ''b''] = []"
  by (simp add: ValidateDesired_def sample_shared_valid sample_overrides Let_def sample_node_valid
      sample_dhcp_valid)
     (simp add: sample_desired_def zero_Shared_def)

text \<open>
  C14: When a desired document validates for the enabled nodes, at most one of them has
  DHCP enabled.
\<close>

theorem ValidateDesired_single_dhcp:
  assumes valid: "ValidateDesired h d nodeIDs = []"
  shows "card {i \<in> set nodeIDs. dhcp_enabled_in (des_NodeOverrides (CanonicaliseDesired d)) i} \<le> 1"
proof -
  let ?on = "dhcp_enabled_in (des_NodeOverrides (CanonicaliseDesired d))"
  have "card (set (filter ?on nodeIDs)) \<le> length (filter ?on nodeIDs)" by (rule card_length)
  also have "\<dots> = snd (validate_overrides (des_NodeOverrides (CanonicaliseDesired d)) nodeIDs)"
    by (rule validate_overrides_count [symmetric])
  also have "\<dots> \<le> 1" by (rule ValidateDesired_parts(5) [OF valid])
  finally show ?thesis by simp
qed

theorem ValidateDesired_single_dhcp_witness:
  "ValidateDesired sample_host sample_desired [''a'', ''b''] = [] \<and>
   card {i \<in> {''a'', ''b''}. dhcp_enabled_in (des_NodeOverrides (CanonicaliseDesired sample_desired)) i} \<le> 1"
  using ValidateDesired_single_dhcp [OF sample_desired_valid] by (simp add: sample_desired_valid)

text \<open>
  C15: When a desired document validates, the IPv4 pool of every enabled node that runs
  DHCP is well formed: gateway, range and mask parse, the mask is a contiguous prefix, and
  every address from the start to the end of the range lies in the gateway's subnet.
\<close>

theorem ValidateDesired_dhcp_pool:
  assumes valid: "ValidateDesired h d nodeIDs = []" and "i \<in> set nodeIDs"
    and "map_of (des_NodeOverrides (CanonicaliseDesired d)) i = Some n"
    and "ns_DHCP n = Some c" and "dhcp_Enabled c"
  shows "\<exists>gateway start stop ones.
    ParseAddr (v4_Gateway (dhcp_IPv4 c)) = Some (Addr4 gateway) \<and>
    ParseAddr (v4_RangeStart (dhcp_IPv4 c)) = Some (Addr4 start) \<and>
    ParseAddr (v4_RangeEnd (dhcp_IPv4 c)) = Some (Addr4 stop) \<and>
    ParseIP_To4 (v4_SubnetMask (dhcp_IPv4 c)) = Some (2 ^ 32 - 2 ^ (32 - ones)) \<and> ones \<le> 32 \<and> start \<le> stop \<and>
    (\<forall>x. start \<le> x \<and> x \<le> stop \<longrightarrow> x div 2 ^ (32 - ones) = gateway div 2 ^ (32 - ones))"
proof -
  from validate_overrides_Nil [OF ValidateDesired_parts(4) [OF valid] assms(2)] assms(3,4)
  have "validateDHCP (''nodeOverrides.'' @ i @ ''.dhcp'') c = []" by auto
  with assms(5) have "validate_dhcp_ipv4 (''nodeOverrides.'' @ i @ ''.dhcp'') (dhcp_IPv4 c) = []"
    by (simp add: validateDHCP_def Let_def)
  then show ?thesis
    by (rule validate_dhcp_ipv4_Nil) (blast intro: between_same_div)
qed

theorem ValidateDesired_dhcp_pool_witness:
  "\<exists>gateway start stop ones.
    ParseAddr ''10.0.0.1'' = Some (Addr4 gateway) \<and> ParseAddr ''10.0.0.9'' = Some (Addr4 start) \<and>
    ParseAddr ''10.0.0.20'' = Some (Addr4 stop) \<and>
    (\<forall>x. start \<le> x \<and> x \<le> stop \<longrightarrow> x div 2 ^ (32 - ones) = gateway div 2 ^ (32 - ones))"
proof -
  have "map_of (des_NodeOverrides (CanonicaliseDesired sample_desired)) ''a'' = Some (sample_node True)"
    by (simp add: sample_overrides)
  from ValidateDesired_dhcp_pool [OF sample_desired_valid _ this, of "sample_dhcp True"]
  show ?thesis by (auto simp: sample_node_def sample_dhcp_def)
qed

text \<open>
  C16: When a desired document validates, persistent clients have non-empty, case-insensitively
  distinct names, every client has an identifier and no identifier occurs twice over all
  clients, and the rewrites are distinct pairs.
\<close>

theorem ValidateDesired_unique:
  assumes valid: "ValidateDesired h d nodeIDs = []"
  shows "let s = des_Shared (CanonicaliseDesired d); clients = elems (sh_Clients s) in
      distinct (map (\<lambda>c. ToLower (client_Name c)) clients) \<and>
      list_all (\<lambda>c. client_Name c \<noteq> [] \<and> client_IDs c \<noteq> []) clients \<and>
      distinct (client_keys clients) \<and> distinct (map rewrite_key (elems (sh_Rewrites s)))"
proof -
  have "validateV2Shared h (des_Shared (CanonicaliseDesired d)) = []" by (rule ValidateDesired_parts(3) [OF valid])
  then have "validate_clients h 0 [] [] (elems (sh_Clients (des_Shared (CanonicaliseDesired d)))) = []"
    and "validate_rewrites 0 [] (elems (sh_Rewrites (des_Shared (CanonicaliseDesired d)))) = []"
    by (simp_all add: validateV2Shared_def)
  from validate_clients_Nil [OF this(1)] validate_rewrites_Nil [OF this(2)]
  show ?thesis by (simp add: Let_def list_all_iff)
qed

theorem ValidateDesired_unique_witness:
  "ValidateDesired sample_host sample_desired [''a'', ''b''] = [] \<and>
   distinct (client_keys (elems (sh_Clients (des_Shared (CanonicaliseDesired sample_desired)))))"
  using ValidateDesired_unique [OF sample_desired_valid] by (simp add: Let_def sample_desired_valid)

text \<open>
  When a desired document validates, the static leases of every enabled node parse, and
  no hardware address and no IPv4 address is reserved twice on one node.
\<close>

lemma ValidateDesired_leases:
  assumes valid: "ValidateDesired h d nodeIDs = []" and "i \<in> set nodeIDs"
    and "map_of (des_NodeOverrides (CanonicaliseDesired d)) i = Some n" and "ns_DHCP n = Some c"
  shows "let leases = elems (dhcp_StaticLeases c) in
       distinct (lease_macs leases) \<and> distinct (lease_ips leases) \<and>
       None \<notin> set (lease_macs leases) \<and> None \<notin> set (lease_ips leases)"
proof -
  from validate_overrides_Nil [OF ValidateDesired_parts(4) [OF valid] assms(2)] assms(3,4)
  have "validateDHCP (''nodeOverrides.'' @ i @ ''.dhcp'') c = []" by auto
  then have "validate_leases (''nodeOverrides.'' @ i @ ''.dhcp'') 0 [] [] (elems (dhcp_StaticLeases c)) = []"
    by (simp add: validateDHCP_def Let_def)
  from validate_leases_Nil [OF this] show ?thesis by (simp add: Let_def)
qed

lemma legacy_sorted: "IsLegacyConverted (map_option (sort_slice unsupported_less) u) = IsLegacyConverted u"
  by (cases u) (auto simp: IsLegacyConverted_def list_ex_iff)

lemma canonicalSchema_legacy: "IsLegacyConverted (snd (canonicalSchema LegacySchemaVersion u))"
  by (simp add: canonicalSchema_def LegacySchemaVersion_def IsLegacyConverted_def)

text \<open>
  A schema-1 document never validates, and neither does what the conversion to schema 2
  makes of it, however often it is canonicalised: legacy records cannot be deployed.
\<close>

lemma legacy_never_validates:
  "ValidateDesired h (ConvertLegacyDesired d) nodeIDs \<noteq> [] \<and>
   ValidateDesired h (d\<lparr>des_SchemaVersion := LegacySchemaVersion\<rparr>) nodeIDs \<noteq> []"
proof -
  let ?l = "d\<lparr>des_SchemaVersion := LegacySchemaVersion\<rparr>"
  have "IsLegacyConverted (des_Unsupported (CanonicaliseDesired ?l))"
    by (simp add: CanonicaliseDesired_fields(4) legacy_sorted canonicalSchema_legacy)
  with ValidateDesired_parts(2) [of h ?l nodeIDs] ValidateDesired_parts(2) [of h "CanonicaliseDesired ?l" nodeIDs]
  show ?thesis by (auto simp: ConvertLegacyDesired_def  canon)
qed

end
