(* ===== verification/Catalogue.thy ===== *)
theory Catalogue
  imports Tables Validation
begin

text \<open>
  The metadata that the inventory service reads from nodes besides their configuration: the
  catalogues of blocked services (\<open>internal/inventory/blocked_services.go\<close>), the filter lists
  (\<open>internal/inventory/blocklists.go\<close>) and DHCP interfaces and checks
  (\<open>internal/inventory/dhcp.go\<close>). This theory has the types and the functions without
  effects; the methods that read nodes and keep the caches are in \<open>Catalogue_Service\<close>.

  Go iterates over a map in any order. Where that order can matter, the code's iteration is
  over \<open>order ks\<close>, with \<open>ks\<close> the keys and \<open>order\<close> an argument: any rearrangement of a list.
\<close>

subsection \<open>Blocked services\<close>

record BlockedServiceMetadata =
  bs_ID :: string
  bs_Name :: string
  bs_GroupID :: string

record NodeBlockedServicesCatalogue =
  ncat_Services :: "BlockedServiceMetadata list"
  ncat_Groups :: "string list"

record MergedBlockedService =
  mbs_ID :: string
  mbs_Name :: string
  mbs_GroupID :: string
  mbs_SupportedNodeIDs :: "string list"
  mbs_UnsupportedNodeIDs :: "string list"

record BlockedServicesCatalogueNode =
  cn_NodeID :: string
  cn_NodeName :: string
  cn_Version :: string
  cn_Status :: string
  cn_ServiceCount :: nat
  cn_FetchedAt :: "time option"
  cn_ErrorCode :: string
  cn_catalogue :: NodeBlockedServicesCatalogue

record BlockedServicesCatalogue =
  bsc_Services :: "MergedBlockedService list"
  bsc_Groups :: "string list"
  bsc_Nodes :: "BlockedServicesCatalogueNode list"
  bsc_GeneratedAt :: time
  bsc_Stale :: bool
  bsc_Partial :: bool

record catalogueCacheEntry =
  cce_key :: string
  cce_catalogue :: NodeBlockedServicesCatalogue
  cce_fetchedAt :: time

definition empty_catalogue :: NodeBlockedServicesCatalogue where
  "empty_catalogue = \<lparr>ncat_Services = [], ncat_Groups = []\<rparr>"

text \<open>\<open>fmt\<close> verbs: \<open>%t\<close>, and \<open>%q\<close> on text whose characters above ASCII are printable.\<close>

definition format_bool :: "bool \<Rightarrow> string" where
  "format_bool b = (if b then ''true'' else ''false'')"

definition quote_char :: "char \<Rightarrow> string" where
  "quote_char c =
    (if c = CHR 0x22 then [CHR 0x5C, CHR 0x22]
     else if c = CHR 0x5C then [CHR 0x5C, CHR 0x5C]
     else if c = CHR 0x07 then [CHR 0x5C, CHR ''a'']
     else if c = CHR 0x08 then [CHR 0x5C, CHR ''b'']
     else if c = CHR 0x0C then [CHR 0x5C, CHR ''f'']
     else if c = CHR 0x0A then [CHR 0x5C, CHR ''n'']
     else if c = CHR 0x0D then [CHR 0x5C, CHR ''r'']
     else if c = CHR 0x09 then [CHR 0x5C, CHR ''t'']
     else if c = CHR 0x0B then [CHR 0x5C, CHR ''v'']
     else if (of_char c :: nat) < 32 \<or> c = CHR 0x7F
     then [CHR 0x5C, CHR ''x'', hex_char (of_char c div 16), hex_char (of_char c mod 16)]
     else [c])"

definition format_quoted :: "string \<Rightarrow> string" where
  "format_quoted s = CHR 0x22 # concat (map quote_char s) @ [CHR 0x22]"

definition feature_of :: "CapabilityProfile \<Rightarrow> string \<Rightarrow> bool" where
  "feature_of profile f \<longleftrightarrow> map_of (cap_Features profile) f = Some True"

definition metadata_key :: "string \<Rightarrow> string \<Rightarrow> CapabilityProfile \<Rightarrow> string" where
  "metadata_key feature version profile =
     version @ ''|'' @ cap_ProductVersion profile @ ''|'' @ cap_Compatibility profile @ ''|'' @
     itoa (cap_SchemaVersion profile) @ ''|'' @ format_bool (feature_of profile feature)"

definition catalogueCacheKey :: "string \<Rightarrow> CapabilityProfile \<Rightarrow> string" where
  "catalogueCacheKey = metadata_key ''blocked_services''"

definition staleCatalogueResult ::
    "BlockedServicesCatalogueNode \<Rightarrow> catalogueCacheEntry option \<Rightarrow> string \<Rightarrow> BlockedServicesCatalogueNode" where
  "staleCatalogueResult result cached key =
    (case cached of
       None \<Rightarrow> result
     | Some entry \<Rightarrow>
         if cce_key entry \<noteq> key then result
         else result\<lparr>cn_Status := ''stale'', cn_FetchedAt := Some (cce_fetchedAt entry), cn_catalogue := cce_catalogue entry,
                cn_ServiceCount := length (ncat_Services (cce_catalogue entry))\<rparr>)"

text \<open>Later services replace earlier ones with the same identifier.\<close>

definition trimmed_service :: "BlockedServiceMetadata \<Rightarrow> BlockedServiceMetadata" where
  "trimmed_service s = \<lparr>bs_ID = TrimSpace (bs_ID s), bs_Name = TrimSpace (bs_Name s), bs_GroupID = TrimSpace (bs_GroupID s)\<rparr>"

definition kept_services :: "BlockedServiceMetadata list \<Rightarrow> BlockedServiceMetadata list" where
  "kept_services ss = filter (\<lambda>s. \<not> (bs_ID s = [] \<or> bs_Name s = [])) (map trimmed_service ss)"

definition canonicalNodeCatalogue :: "NodeBlockedServicesCatalogue \<Rightarrow> NodeBlockedServicesCatalogue" where
  "canonicalNodeCatalogue v =
    (let services = kept_services (ncat_Services v);
         groups = filter (\<lambda>g. g \<noteq> []) (map TrimSpace (ncat_Groups v) @ map bs_GroupID services)
     in \<lparr>ncat_Services = sort_key bs_ID (map snd (fold (\<lambda>s m. AList.update (bs_ID s) s m) services [])),
         ncat_Groups = sort (remdups groups)\<rparr>)"

fun mostCommon_loop :: "string \<Rightarrow> nat \<Rightarrow> (string \<times> nat) list \<Rightarrow> string" where
  "mostCommon_loop best bestCount [] = best"
| "mostCommon_loop best bestCount ((value, valueCount) # values) =
    (if valueCount > bestCount \<or> valueCount = bestCount \<and> value < best then mostCommon_loop value valueCount values
     else mostCommon_loop best bestCount values)"

definition mostCommon :: "(string \<times> nat) list \<Rightarrow> string" where
  "mostCommon values = mostCommon_loop [] 0 values"

text \<open>
  The merge of the catalogues of all nodes that have one. The entries of the Go map \<open>merged\<close>
  are the services that occur, each with the counts of its names and groups and with the nodes
  that have it; here they are read off the list of all occurrences.
\<close>

definition has_catalogue :: "BlockedServicesCatalogueNode \<Rightarrow> bool" where
  "has_catalogue node \<longleftrightarrow> \<not> (cn_Status node \<noteq> ''available'' \<and> cn_Status node \<noteq> ''stale'')"

definition occurrences :: "BlockedServicesCatalogueNode list \<Rightarrow> (string \<times> BlockedServiceMetadata) list" where
  "occurrences nodes = concat (map (\<lambda>n. map (Pair (cn_NodeID n)) (ncat_Services (cn_catalogue n))) (filter has_catalogue nodes))"

definition tally :: "(string list \<Rightarrow> string list) \<Rightarrow> string list \<Rightarrow> (string \<times> nat) list" where
  "tally order values = map (\<lambda>v. (v, count_list values v)) (order (remdups values))"

definition merged_service :: "(string list \<Rightarrow> string list) \<Rightarrow> BlockedServicesCatalogueNode list \<Rightarrow> string \<Rightarrow> MergedBlockedService" where
  "merged_service order nodes i =
    (let here = filter (\<lambda>(n, s). bs_ID s = i) (occurrences nodes);
         available = map cn_NodeID (filter has_catalogue nodes)
     in \<lparr>mbs_ID = i, mbs_Name = mostCommon (tally order (map (bs_Name \<circ> snd) here)),
         mbs_GroupID = mostCommon (tally order (filter (\<lambda>g. g \<noteq> []) (map (bs_GroupID \<circ> snd) here))),
         mbs_SupportedNodeIDs = sort (filter (\<lambda>n. n \<in> set (map fst here)) available),
         mbs_UnsupportedNodeIDs = sort (filter (\<lambda>n. n \<notin> set (map fst here)) available)\<rparr>)"

definition mergeBlockedServicesCatalogue :: "(string list \<Rightarrow> string list) \<Rightarrow> BlockedServicesCatalogue \<Rightarrow> BlockedServicesCatalogue" where
  "mergeBlockedServicesCatalogue order result =
    (let nodes = bsc_Nodes result;
         ids = order (remdups (map (bs_ID \<circ> snd) (occurrences nodes)));
         groups = concat (map (ncat_Groups \<circ> cn_catalogue) (filter has_catalogue nodes)) @
           filter (\<lambda>g. g \<noteq> []) (map (bs_GroupID \<circ> snd) (occurrences nodes))
     in result\<lparr>bsc_Services := sort_slice (\<lambda>a b. ToLower (mbs_Name a) < ToLower (mbs_Name b))
                 (bsc_Services result @ map (merged_service order nodes) ids),
               bsc_Groups := sort (bsc_Groups result @ remdups groups)\<rparr>)"

text \<open>The check of the identifiers a document blocks, against a merged catalogue.\<close>

definition supports :: "BlockedServicesCatalogue \<Rightarrow> string \<Rightarrow> string \<Rightarrow> bool" where
  "supports catalogue i nodeID \<longleftrightarrow>
    (case map_of (rev (map (\<lambda>s. (mbs_ID s, mbs_SupportedNodeIDs s)) (bsc_Services catalogue))) i of
       None \<Rightarrow> False | Some nodes \<Rightarrow> nodeID \<in> set nodes)"

definition blocked_field :: "string \<Rightarrow> string" where
  "blocked_field nodeID = ''nodes.'' @ nodeID @ ''.blockedServices''"

fun check_ids :: "(string \<Rightarrow> string \<Rightarrow> bool) \<Rightarrow> BlockedServicesCatalogueNode \<Rightarrow> string list \<Rightarrow> string list \<Rightarrow>
    ValidationIssue list \<times> string list" where
  "check_ids support node seen [] = ([], seen)"
| "check_ids support node seen (i # ids) =
    (let i = TrimSpace i; key = cn_NodeID node @ CHR 0x00 # i in
     if i = [] \<or> key \<in> set seen then check_ids support node seen ids
     else (let (issues, seen) = check_ids support node (key # seen) ids in
       ((if \<not> support i (cn_NodeID node)
         then [issue (blocked_field (cn_NodeID node))
           (''Blocked service '' @ format_quoted i @ '' is not supported by node '' @ format_quoted (cn_NodeName node) @ ''.'')]
         else []) @ issues, seen)))"

fun check_nodes :: "(string \<Rightarrow> string \<Rightarrow> bool) \<Rightarrow> string list \<Rightarrow> string list \<Rightarrow> BlockedServicesCatalogueNode list \<Rightarrow> ValidationIssue list" where
  "check_nodes support ids seen [] = []"
| "check_nodes support ids seen (node # nodes) =
    (if cn_Status node \<noteq> ''available''
     then issue (blocked_field (cn_NodeID node))
            (''A current blocked-services catalogue is required for node '' @ format_quoted (cn_NodeName node) @ ''.'')
          # check_nodes support ids seen nodes
     else (let (issues, seen) = check_ids support node seen ids in issues @ check_nodes support ids seen nodes))"

definition blocked_service_issues :: "BlockedServicesCatalogue \<Rightarrow> string list \<Rightarrow> ValidationIssue list" where
  "blocked_service_issues catalogue ids = check_nodes (supports catalogue) ids [] (bsc_Nodes catalogue)"


subsection \<open>Filter lists\<close>

record FilterListMetadata =
  fl_ID :: int
  fl_URL :: string
  fl_Name :: string
  fl_Enabled :: bool
  fl_RulesCount :: int
  fl_LastUpdated :: "time option"
  fl_Portable :: bool

record FilterListNodePresentation =
  fln_NodeID :: string
  fln_NodeName :: string
  fln_Version :: string
  fln_Status :: string
  fln_FetchedAt :: "time option"
  fln_ErrorCode :: string
  fln_Lists :: "FilterListMetadata list"

record FilterListPresentation =
  flp_Nodes :: "FilterListNodePresentation list"
  flp_GeneratedAt :: time
  flp_Stale :: bool
  flp_Partial :: bool

record filterListCacheEntry =
  flc_key :: string
  flc_lists :: "FilterListMetadata list"
  flc_fetchedAt :: time

text \<open>Lengths are bytes, as in Go; \<open>seen\<close> holds the lower-case URLs kept so far.\<close>

definition portable_url :: "host \<Rightarrow> string \<Rightarrow> bool" where
  "portable_url h u = (case url_Parse h u of None \<Rightarrow> False
     | Some parsed \<Rightarrow> url_Host parsed \<noteq> [] \<and> (url_Scheme parsed = ''http'' \<or> url_Scheme parsed = ''https''))"

fun keep_lists :: "host \<Rightarrow> string list \<Rightarrow> FilterListMetadata list \<Rightarrow> FilterListMetadata list" where
  "keep_lists h seen [] = []"
| "keep_lists h seen (list # items) =
    (let list = list\<lparr>fl_URL := TrimSpace (fl_URL list), fl_Name := TrimSpace (fl_Name list)\<rparr>; key = ToLower (fl_URL list) in
     if fl_URL list = [] \<or> length (fl_URL list) > 4096 \<or> length (fl_Name list) > 500 \<or> fl_RulesCount list < 0
     then keep_lists h seen items
     else if key \<in> set seen then keep_lists h seen items
     else list\<lparr>fl_Portable := portable_url h (fl_URL list)\<rparr> # keep_lists h (key # seen) items)"

definition canonicalFilterLists :: "host \<Rightarrow> FilterListMetadata list \<Rightarrow> FilterListMetadata list" where
  "canonicalFilterLists h items = sort_key (\<lambda>l. ToLower (fl_URL l)) (keep_lists h [] items)"

definition staleBlocklistResult ::
    "FilterListNodePresentation \<Rightarrow> filterListCacheEntry option \<Rightarrow> string \<Rightarrow> FilterListNodePresentation" where
  "staleBlocklistResult result cached key =
    (case cached of
       None \<Rightarrow> result
     | Some entry \<Rightarrow>
         if flc_key entry \<noteq> key then result
         else result\<lparr>fln_Status := ''stale'', fln_FetchedAt := Some (flc_fetchedAt entry), fln_Lists := flc_lists entry\<rparr>)"


subsection \<open>DHCP inspection\<close>

record DHCPInterface =
  di_Name :: string
  di_HardwareAddress :: string
  di_IPv4Addresses :: "string list"
  di_IPv6Addresses :: "string list"
  di_GatewayIP :: string
  di_Flags :: "string list"
  di_Available :: bool

record DHCPInterfaces =
  dis_NodeID :: string
  dis_NodeName :: string
  dis_Interfaces :: "DHCPInterface list"
  dis_FetchedAt :: time

record DHCPCheckValue =
  dcv_Status :: string
  dcv_Message :: string

record DHCPStaticIPCheck =
  dsc_Status :: string
  dsc_IP :: string

record DHCPActiveCheck =
  dac_IPv4OtherServer :: DHCPCheckValue
  dac_IPv4StaticIP :: DHCPStaticIPCheck
  dac_IPv6OtherServer :: DHCPCheckValue

record DHCPActiveCheckResult =
  dar_NodeID :: string
  dar_NodeName :: string
  dar_InterfaceName :: string
  dar_Status :: string
  dar_IPv4 :: DHCPCheckValue
  dar_IPv4StaticIP :: DHCPStaticIPCheck
  dar_IPv6 :: DHCPCheckValue
  dar_CheckedAt :: time

text \<open>
  \<open>unicode.IsControl\<close> holds of U+0000 to U+001F and of U+007F to U+009F; the latter range is
  encoded in UTF-8 by the byte C2 followed by one of 80 to 9F.
\<close>

fun has_control :: "string \<Rightarrow> bool" where
  "has_control [] = False"
| "has_control [c] = ((of_char c :: nat) < 32 \<or> c = CHR 0x7F)"
| "has_control (c # d # s) =
    ((of_char c :: nat) < 32 \<or> c = CHR 0x7F \<or> c = CHR 0xC2 \<and> 128 \<le> (of_char d :: nat) \<and> (of_char d :: nat) < 160 \<or>
     has_control (d # s))"

definition validateInterfaceName :: "string \<Rightarrow> go_error option" where
  "validateInterfaceName value =
    (if value = [] then Some (Validation ''interfaceName'' ''is required'')
     else if length value > 128 \<or> has_control value then Some (Validation ''interfaceName'' ''is invalid'')
     else None)"

definition aggregateDHCPCheckStatus :: "DHCPActiveCheck \<Rightarrow> string" where
  "aggregateDHCPCheckStatus check =
    (let statuses = [dcv_Status (dac_IPv4OtherServer check), dcv_Status (dac_IPv6OtherServer check)];
         found = length (filter (\<lambda>s. s = ''yes'') statuses);
         failed = length (filter (\<lambda>s. s = ''error'') statuses);
         available = length (filter (\<lambda>s. s = ''yes'' \<or> s = ''no'') statuses)
     in if failed > 0 \<and> available > 0 then ''partial''
        else if failed > 0 \<or> available = 0 then ''error''
        else if found > 1 then ''multiple''
        else if found = 1 then ''found''
        else ''none'')"

definition cleanStrings :: "string list \<Rightarrow> string list" where
  "cleanStrings values = sort (remdups (filter (\<lambda>v. v \<noteq> []) (map TrimSpace values)))"

definition presented_interface :: "DHCPInterface \<Rightarrow> DHCPInterface" where
  "presented_interface i =
    (let i = i\<lparr>di_IPv4Addresses := cleanStrings (di_IPv4Addresses i), di_IPv6Addresses := cleanStrings (di_IPv6Addresses i),
           di_Flags := cleanStrings (di_Flags i)\<rparr>;
         flags = map ToLower (di_Flags i)
     in i\<lparr>di_Available := (''up'' \<in> set flags \<and> ''loopback'' \<notin> set flags \<and>
           (di_IPv4Addresses i \<noteq> [] \<or> di_IPv6Addresses i \<noteq> []))\<rparr>)"

text \<open>\<open>sort.Slice\<close> on the names: the order of two interfaces with one name is Go's choice.\<close>

definition present_interfaces :: "DHCPInterface list \<Rightarrow> DHCPInterface list" where
  "present_interfaces is = sort_slice (\<lambda>a b. di_Name a < di_Name b) (map presented_interface is)"


subsection \<open>The most common value\<close>

definition beats :: "string \<times> nat \<Rightarrow> string \<times> nat \<Rightarrow> bool" where
  "beats a b \<longleftrightarrow> snd a > snd b \<or> snd a = snd b \<and> fst a < fst b"

lemma not_beats_trans: "\<not> beats b a \<Longrightarrow> \<not> beats c b \<Longrightarrow> \<not> beats c a"
  unfolding beats_def not_less de_Morgan_disj de_Morgan_conj
  by (cases "snd a = snd b"; cases "snd b = snd c") (auto intro: order.trans)

lemma beats_not: "beats a b \<Longrightarrow> \<not> beats b a"
  by (auto simp: beats_def)

definition leads :: "string \<times> nat \<Rightarrow> (string \<times> nat) list \<Rightarrow> bool" where
  "leads b vs \<longleftrightarrow> (\<forall>v \<in> set vs. \<not> beats v b)"

lemma mostCommon_loop_leads:
  "\<exists>m. (mostCommon_loop best n vs, m) \<in> insert (best, n) (set vs) \<and> leads (mostCommon_loop best n vs, m) ((best, n) # vs)"
proof (induction best n vs rule: mostCommon_loop.induct)
  case (1 best n)
  show ?case by (auto simp: leads_def beats_def)
next
  case (2 best n v k vs)
  show ?case
  proof (cases "k > n \<or> k = n \<and> v < best")
    case True
    then have "\<not> beats (best, n) (v, k)" by (auto simp: beats_def)
    with 2(1) [OF True] True show ?thesis by (auto simp: leads_def dest: not_beats_trans)
  next
    case False
    then have "\<not> beats (v, k) (best, n)" by (auto simp: beats_def)
    with 2(2) [OF False] False show ?thesis by (auto simp: leads_def dest: not_beats_trans)
  qed
qed

lemma set_order: "(\<forall>xs. mset (order xs) = mset xs) \<Longrightarrow> set (order xs) = set xs"
  by (metis set_mset_mset)

text \<open>
  Whatever the order in which Go iterates over the counts, the name chosen for a merged
  service (and likewise its group) is a value that occurs, no value occurs more often, and
  among the values that occur as often it is the smallest. The merged catalogue therefore does
  not depend on the map iteration order.
\<close>

lemma mostCommon_least:
  assumes "\<forall>xs. mset (order xs) = mset xs" and "vs \<noteq> []" and "v \<in> set vs"
  shows "mostCommon (tally order vs) \<in> set vs \<and>
    (count_list vs v < count_list vs (mostCommon (tally order vs)) \<or>
     count_list vs v = count_list vs (mostCommon (tally order vs)) \<and> mostCommon (tally order vs) \<le> v)"
proof -
  let ?t = "tally order vs"
  have t: "set ?t = (\<lambda>v. (v, count_list vs v)) ` set vs" by (simp add: tally_def set_order [OF assms(1)])
  obtain m where m: "(mostCommon ?t, m) \<in> insert ([], 0) (set ?t)" "leads (mostCommon ?t, m) (([], 0) # ?t)"
    using mostCommon_loop_leads [of "[]" 0 ?t] unfolding mostCommon_def by blast
  from assms(3) have pos: "count_list vs v > 0" using count_list_0_iff [of vs v] by simp
  with m(2) t assms(3) have "m > 0" by (force simp: leads_def beats_def)
  with m(1) t have "mostCommon ?t \<in> set vs" "m = count_list vs (mostCommon ?t)" by auto
  with m(2) t assms(3) show ?thesis by (force simp: leads_def beats_def)
qed

subsection \<open>The merged catalogue decides what may be blocked\<close>

text \<open>What a node's own catalogue offers.\<close>

definition offers :: "BlockedServicesCatalogueNode \<Rightarrow> string \<Rightarrow> bool" where
  "offers node i \<longleftrightarrow> has_catalogue node \<and> (\<exists>s \<in> set (ncat_Services (cn_catalogue node)). bs_ID s = i)"

lemma occurrences_iff: "(n, s) \<in> set (occurrences nodes) \<longleftrightarrow>
    (\<exists>node \<in> set nodes. has_catalogue node \<and> cn_NodeID node = n \<and> s \<in> set (ncat_Services (cn_catalogue node)))"
  by (auto simp: occurrences_def)

lemma occurs_iff: "i \<in> set (map (bs_ID \<circ> snd) (occurrences nodes)) \<longleftrightarrow> (\<exists>node \<in> set nodes. offers node i)"
proof -
  have "map (bs_ID \<circ> snd) (occurrences nodes) = concat (map (\<lambda>n. map bs_ID (ncat_Services (cn_catalogue n))) (filter has_catalogue nodes))"
    by (simp add: occurrences_def map_concat o_def)
  then show ?thesis by (auto simp: offers_def simp del: map_map)
qed

lemma merged_supported:
  "n \<in> set (mbs_SupportedNodeIDs (merged_service order nodes i)) \<longleftrightarrow> (\<exists>node \<in> set nodes. cn_NodeID node = n \<and> offers node i)"
  by (force simp: merged_service_def Let_def occurrences_iff offers_def)

lemma map_of_keyed:
  assumes "\<And>x. x \<in> set xs \<Longrightarrow> k x = i \<Longrightarrow> f x = y" "\<exists>x \<in> set xs. k x = i"
  shows "map_of (map (\<lambda>x. (k x, f x)) xs) i = Some y"
  using assms by (induction xs) auto

lemma supports_merged:
  assumes "\<forall>xs. mset (order xs) = mset xs" "bsc_Services r = []"
  shows "supports (mergeBlockedServicesCatalogue order r) i n \<longleftrightarrow> (\<exists>node \<in> set (bsc_Nodes r). cn_NodeID node = n \<and> offers node i)"
proof -
  let ?m = "merged_service order (bsc_Nodes r)"
  let ?ids = "order (remdups (map (bs_ID \<circ> snd) (occurrences (bsc_Nodes r))))"
  let ?all = "sort_slice (\<lambda>a b. ToLower (mbs_Name a) < ToLower (mbs_Name b)) (map ?m ?ids)"
  have all: "bsc_Services (mergeBlockedServicesCatalogue order r) = ?all"
    by (simp add: mergeBlockedServicesCatalogue_def Let_def assms(2))
  have set_all: "set ?all = ?m ` set (map (bs_ID \<circ> snd) (occurrences (bsc_Nodes r)))"
    by (simp add: set_order [OF assms(1)])
  have id: "mbs_ID (?m j) = j" for j by (simp add: merged_service_def Let_def)
  show ?thesis
  proof (cases "\<exists>node \<in> set (bsc_Nodes r). offers node i")
    case True
    then have "i \<in> set (map (bs_ID \<circ> snd) (occurrences (bsc_Nodes r)))" by (simp only: occurs_iff)
    then have "\<exists>x \<in> set (rev ?all). mbs_ID x = i" by (simp only: set_rev set_all bex_simps id) blast
    moreover have "mbs_SupportedNodeIDs x = mbs_SupportedNodeIDs (?m i)" if "x \<in> set (rev ?all)" "mbs_ID x = i" for x
      using that id by auto
    ultimately have "map_of (map (\<lambda>s. (mbs_ID s, mbs_SupportedNodeIDs s)) (rev ?all)) i = Some (mbs_SupportedNodeIDs (?m i))"
      by (intro map_of_keyed)
    then show ?thesis by (simp add: supports_def all rev_map [symmetric] merged_supported)
  next
    case False
    then have "i \<notin> set (map (bs_ID \<circ> snd) (occurrences (bsc_Nodes r)))" unfolding occurs_iff .
    then have "\<forall>x \<in> set (rev ?all). mbs_ID x \<noteq> i" by (simp only: set_rev set_all ball_simps id) blast
    then have "map_of (map (\<lambda>s. (mbs_ID s, mbs_SupportedNodeIDs s)) (rev ?all)) i = None"
      by (auto simp: map_of_eq_None_iff)
    with False show ?thesis by (auto simp: supports_def all rev_map [symmetric])
  qed
qed

definition id_key :: "string \<Rightarrow> string \<Rightarrow> string" where
  "id_key nodeID i = nodeID @ CHR 0x00 # i"

lemma id_key_inject: "CHR 0x00 \<notin> set n \<Longrightarrow> CHR 0x00 \<notin> set m \<Longrightarrow> id_key n i = id_key m j \<longleftrightarrow> n = m \<and> i = j"
  unfolding id_key_def by (induction n arbitrary: m) (case_tac m; auto)+

text \<open>The keys seen so far belong to identifiers that were found supported, or an issue was raised.\<close>

lemma check_ids_Nil:
  assumes "\<forall>i. id_key (cn_NodeID node) i \<in> set seen \<longrightarrow> support i (cn_NodeID node)"
  shows "fst (check_ids support node seen ids) = [] \<longleftrightarrow>
    (\<forall>i \<in> set ids. TrimSpace i \<noteq> [] \<longrightarrow> support (TrimSpace i) (cn_NodeID node))"
  using assms
proof (induction ids arbitrary: seen)
  case (Cons i ids)
  show ?case
  proof (cases "TrimSpace i = [] \<or> id_key (cn_NodeID node) (TrimSpace i) \<in> set seen")
    case True
    with Cons show ?thesis by (auto simp: Let_def id_key_def)
  next
    case False
    show ?thesis
    proof (cases "support (TrimSpace i) (cn_NodeID node)")
      case True
      with Cons.prems have "\<forall>j. id_key (cn_NodeID node) j \<in> set (id_key (cn_NodeID node) (TrimSpace i) # seen) \<longrightarrow> support j (cn_NodeID node)"
        by (auto simp: id_key_def)
      from Cons.IH [OF this] True False show ?thesis by (simp add: Let_def id_key_def case_prod_unfold)
    qed (use False in \<open>simp add: Let_def id_key_def case_prod_unfold\<close>)
  qed
qed simp

lemma check_ids_seen: "set (snd (check_ids support node seen ids)) \<subseteq> set seen \<union> range (id_key (cn_NodeID node))"
proof (induction ids arbitrary: seen)
  case (Cons i ids)
  from Cons [of seen] Cons [of "id_key (cn_NodeID node) (TrimSpace i) # seen"] show ?case
    by (auto simp: Let_def id_key_def case_prod_unfold)
qed simp

lemma check_nodes_Nil:
  assumes "distinct (map cn_NodeID nodes)" "\<forall>n \<in> set nodes. CHR 0x00 \<notin> set (cn_NodeID n)"
    "\<forall>n \<in> set nodes. \<forall>i. id_key (cn_NodeID n) i \<notin> set seen"
  shows "check_nodes support ids seen nodes = [] \<longleftrightarrow> (\<forall>n \<in> set nodes. cn_Status n = ''available'' \<and>
    (\<forall>i \<in> set ids. TrimSpace i \<noteq> [] \<longrightarrow> support (TrimSpace i) (cn_NodeID n)))"
  using assms
proof (induction nodes arbitrary: seen)
  case (Cons node nodes)
  let ?seen = "snd (check_ids support node seen ids)"
  have "id_key (cn_NodeID n) i \<notin> set ?seen" if "n \<in> set nodes" for n i
  proof
    assume "id_key (cn_NodeID n) i \<in> set ?seen"
    with check_ids_seen [of support node seen ids] Cons.prems(3) that
    have "id_key (cn_NodeID n) i \<in> range (id_key (cn_NodeID node))" by auto
    with Cons.prems(1,2) that show False by (auto simp: id_key_inject) (metis image_eqI)
  qed
  with Cons have "check_nodes support ids ?seen nodes = [] \<longleftrightarrow> (\<forall>n \<in> set nodes. cn_Status n = ''available'' \<and>
    (\<forall>i \<in> set ids. TrimSpace i \<noteq> [] \<longrightarrow> support (TrimSpace i) (cn_NodeID n)))" by simp
  with Cons.prems(3) check_ids_Nil [of node seen support ids] show ?case
    by (auto simp: case_prod_unfold Let_def)
qed simp

text \<open>
  The identifiers that a document blocks pass the check exactly when every enabled node has
  a current catalogue of its own and that catalogue contains each of them. Blank identifiers
  are ignored; a stale catalogue, which the merged catalogue still shows, is not enough.
\<close>

lemma blocked_service_issues_exact:
  assumes "\<forall>xs. mset (order xs) = mset xs" and "bsc_Services r = []"
    and "distinct (map cn_NodeID (bsc_Nodes r))" and "\<forall>n \<in> set (bsc_Nodes r). CHR 0x00 \<notin> set (cn_NodeID n)"
  shows "blocked_service_issues (mergeBlockedServicesCatalogue order r) ids = [] \<longleftrightarrow>
    (\<forall>n \<in> set (bsc_Nodes r). cn_Status n = ''available'' \<and> (\<forall>i \<in> set ids. TrimSpace i \<noteq> [] \<longrightarrow>
       (\<exists>s \<in> set (ncat_Services (cn_catalogue n)). bs_ID s = TrimSpace i)))"
proof -
  have nodes: "bsc_Nodes (mergeBlockedServicesCatalogue order r) = bsc_Nodes r"
    by (simp add: mergeBlockedServicesCatalogue_def Let_def)
  have own: "m = n" if "m \<in> set (bsc_Nodes r)" "n \<in> set (bsc_Nodes r)" "cn_NodeID m = cn_NodeID n" for m n
    using assms(3) that by (simp add: distinct_map inj_on_def)
  have "supports (mergeBlockedServicesCatalogue order r) i (cn_NodeID n) \<longleftrightarrow>
      (\<exists>s \<in> set (ncat_Services (cn_catalogue n)). bs_ID s = i)"
    if "n \<in> set (bsc_Nodes r)" "cn_Status n = ''available''" for n i
    using own [OF _ that(1)] that by (auto simp: supports_merged [OF assms(1,2)] offers_def has_catalogue_def)
  then show ?thesis
    unfolding blocked_service_issues_def nodes by (subst check_nodes_Nil) (use assms(3,4) in auto)
qed

end
