(* ===== verification/Go_Json_Decode.thy ===== *)
theory Go_Json_Decode
  imports Go_Json
begin

text \<open>
  Reading back what \<open>json.Marshal\<close> has printed: the fragment of \<open>json.Unmarshal\<close> that the
  controller needs for documents it has encoded itself, which have no white space and only
  integral numbers. The nesting depth of a value is bounded by the length of its text, which is
  the fuel of the decoder; \<open>json_decode_encode\<close> shows that this is enough.
\<close>

definition json_number :: "string \<Rightarrow> (int \<times> string) option" where
  "json_number s =
    (case s of
       [] \<Rightarrow> None
     | c # r \<Rightarrow>
        (let t = (if c = CHR ''-'' then r else s); ds = takeWhile is_digit t in
         if ds = [] then None
         else Some (if c = CHR ''-'' then - int (decimal_value ds) else int (decimal_value ds), drop (length ds) t)))"

fun json_value :: "nat \<Rightarrow> string \<Rightarrow> (json \<times> string) option"
  and json_tail_elems :: "nat \<Rightarrow> bool \<Rightarrow> string \<Rightarrow> (json list \<times> string) option"
  and json_tail_members :: "nat \<Rightarrow> bool \<Rightarrow> string \<Rightarrow> ((string \<times> json) list \<times> string) option" where
  "json_value 0 s = None"
| "json_value (Suc k) s =
    (case s of
       [] \<Rightarrow> None
     | c # r \<Rightarrow>
        (if c = CHR ''n'' then (if prefix ''null'' s then Some (JNull, drop 4 s) else None)
         else if c = CHR ''t'' then (if prefix ''true'' s then Some (JBool True, drop 4 s) else None)
         else if c = CHR ''f'' then (if prefix ''false'' s then Some (JBool False, drop 5 s) else None)
         else if c = CHR 0x22 then map_option (\<lambda>(t, r). (JString t, r)) (json_unescape r)
         else if c = CHR ''['' then map_option (\<lambda>(xs, r). (JArray xs, r)) (json_tail_elems k True r)
         else if c = CHR ''{'' then map_option (\<lambda>(kvs, r). (JObject kvs, r)) (json_tail_members k True r)
         else map_option (\<lambda>(i, r). (JInt i, r)) (json_number s)))"
| "json_tail_elems 0 first s = None"
| "json_tail_elems (Suc k) first s =
    (case s of
       [] \<Rightarrow> None
     | c # r \<Rightarrow>
        (if c = CHR '']'' then Some ([], r)
         else if first \<or> c = CHR '','' then
           (case json_value k (if first then s else r) of
              None \<Rightarrow> None
            | Some (x, r) \<Rightarrow> map_option (\<lambda>(xs, r). (x # xs, r)) (json_tail_elems k False r))
         else None))"
| "json_tail_members 0 first s = None"
| "json_tail_members (Suc k) first s =
    (case s of
       [] \<Rightarrow> None
     | c # r \<Rightarrow>
        (if c = CHR ''}'' then Some ([], r)
         else if first \<or> c = CHR '','' then
           (case (if first then s else r) of
              d # r \<Rightarrow>
                if d \<noteq> CHR 0x22 then None
                else (case json_unescape r of
                   Some (key, e # r) \<Rightarrow>
                     if e \<noteq> CHR '':'' then None
                     else (case json_value k r of
                        None \<Rightarrow> None
                      | Some (x, r) \<Rightarrow> map_option (\<lambda>(kvs, r). ((key, x) # kvs, r)) (json_tail_members k False r))
                 | _ \<Rightarrow> None)
            | [] \<Rightarrow> None)
         else None))"

definition json_decode :: "string \<Rightarrow> json option" where
  "json_decode s = (case json_value (Suc (length s)) s of Some (v, []) \<Rightarrow> Some v | _ \<Rightarrow> None)"

lemma takeWhile_digits: "delimited r \<Longrightarrow> takeWhile is_digit (digits n @ r) = digits n"
proof -
  assume "delimited r"
  then have "takeWhile is_digit r = []" by (cases r) (auto dest: delimited_not_digit)
  then show ?thesis by (simp add: takeWhile_append2 digits_are_digits)
qed

lemma json_number_plain:
  "c \<noteq> CHR ''-'' \<Longrightarrow> takeWhile is_digit (c # t) = ds \<Longrightarrow> ds \<noteq> [] \<Longrightarrow>
     json_number (c # t) = Some (int (decimal_value ds), drop (length ds) (c # t))"
  by (cases "is_digit c") (auto simp: json_number_def)

lemma json_text_pos: "Suc 0 \<le> length (json_encode v)" "Suc 0 \<le> length (json_elems b xs)"
  by (simp_all add: Suc_le_eq) (cases xs; simp)

lemma json_number_itoa: "delimited r \<Longrightarrow> json_number (itoa i @ r) = Some (i, r)"
proof (cases "i < 0")
  case True
  assume "delimited r"
  with True show ?thesis by (simp add: itoa_def json_number_def takeWhile_digits)
next
  case False
  assume d: "delimited r"
  obtain c t where ct: "digits (nat i) @ r = c # t" by (cases "digits (nat i) @ r") auto
  then have "c \<noteq> CHR ''-''" using hd_digits [of "nat i"] by (cases "digits (nat i)") (auto simp: is_digit_def)
  moreover have "takeWhile is_digit (c # t) = digits (nat i)" using takeWhile_digits [OF d] ct by metis
  moreover have "drop (length (digits (nat i))) (c # t) = r" using ct by (metis append_eq_conv_conj)
  ultimately have "json_number (c # t) = Some (int (nat i), r)" using json_number_plain [of c t] by simp
  with False ct show ?thesis by (simp add: itoa_def)
qed

lemma hd_encode:
  "hd (json_encode v) \<noteq> CHR '','' \<and> hd (json_encode v) \<noteq> CHR ''}''"
proof
  have no: "hd (json_encode v) \<noteq> c" if "c \<in> {CHR '','', CHR ''}''}" for c
  proof
    assume h: "hd (json_encode v) = c"
    with that have "kind_of v = KNumber" using kind_of_hd [of v] by (auto simp: kind_of_char_def)
    then obtain i where "v = JInt i" by (cases v) (auto split: if_splits)
    with h that show False
      using hd_digits [of "nat i"] by (auto simp: itoa_def is_digit_def split: if_splits)
  qed
  then show "hd (json_encode v) \<noteq> CHR '',''" "hd (json_encode v) \<noteq> CHR ''}''" by blast+
qed

text \<open>The decoder consumes exactly the text of a value and leaves the rest.\<close>

lemma json_value_encode:
  "\<And>k r. length (json_encode v) \<le> k \<Longrightarrow> delimited r \<Longrightarrow> json_value (Suc k) (json_encode v @ r) = Some (v, r)"
  "\<And>k r. length (json_elems first xs) \<le> k \<Longrightarrow> json_tail_elems (Suc k) first (json_elems first xs @ r) = Some (xs, r)"
  "\<And>k r. length (json_members first kvs) \<le> k \<Longrightarrow> json_tail_members (Suc k) first (json_members first kvs @ r) = Some (kvs, r)"
proof (induction v and first xs and first kvs rule: json_encode_json_elems_json_members.induct)
  case (3 i)
  obtain c t where ct: "itoa i @ r = c # t" by (cases "itoa i @ r") (auto simp: itoa_def split: if_splits)
  then have "c = CHR ''-'' \<or> is_digit c"
    using hd_digits [of "nat i"] by (cases "digits (nat i)") (auto simp: itoa_def split: if_splits)
  then have "c \<notin> {CHR ''n'', CHR ''t'', CHR ''f'', CHR 0x22, CHR ''['', CHR ''{''}" by (auto simp: is_digit_def)
  with json_number_itoa [OF 3(2), of i] ct show ?case by simp
next
  case (4 t)
  then show ?case by (simp add: json_string_def json_unescape_escape)
next
  case (5 xs)
  then obtain k' where "k = Suc k'" "length (json_elems True xs) \<le> k'" by (cases k) auto
  with "5.IH" show ?case by simp
next
  case (6 kvs)
  then obtain k' where "k = Suc k'" "length (json_members True kvs) \<le> k'" by (cases k) auto
  with "6.IH" show ?case by simp
next
  case (8 first x xs)
  let ?s = "json_encode x @ json_elems False xs @ r"
  from "8.prems" obtain k' where k: "k = Suc k'" "length (json_encode x) \<le> k'" "length (json_elems False xs) \<le> k'"
    using json_text_pos(1) [of x] json_text_pos(2) [of False xs] by (intro that [of "k - 1"]) (simp_all del: length_greater_0_conv One_nat_def split: if_splits)
  from "8.IH"(1) [OF k(2) delimited_elems] have v: "json_value k ?s = Some (x, json_elems False xs @ r)" by (simp add: k(1))
  from "8.IH"(2) [OF k(3)] have t: "json_tail_elems k False (json_elems False xs @ r) = Some (xs, r)" by (simp add: k(1))
  obtain c s where c: "?s = c # s" "c \<noteq> CHR '']''"
    using hd_json_encode [of x] by (cases "json_encode x") auto
  show ?case
  proof (cases first)
    case True
    with c v t show ?thesis by simp
  next
    case False
    with v t show ?thesis by simp
  qed
next
  case (10 first kv kvs)
  let ?v = "json_encode (snd kv) @ json_members False kvs @ r"
  from "10.prems" obtain k' where k: "k = Suc k'" "length (json_encode (snd kv)) \<le> k'" "length (json_members False kvs) \<le> k'"
    by (intro that [of "k - 1"]) (auto split: if_splits)
  from "10.IH"(1) [OF k(2) delimited_members] have v: "json_value k ?v = Some (snd kv, json_members False kvs @ r)" by (simp add: k(1))
  from "10.IH"(2) [OF k(3)] have t: "json_tail_members k False (json_members False kvs @ r) = Some (kvs, r)" by (simp add: k(1))
  have u: "json_unescape (json_escape (fst kv) @ CHR '':'' # ?v) = Some (fst kv, CHR '':'' # ?v)" by (rule json_unescape_escape)
  from v t u show ?case by (cases first) (simp_all add: json_string_def)
qed auto

theorem json_decode_encode [simp]: "json_decode (json_encode v) = Some v"
  using json_value_encode(1) [of v "length (json_encode v)" "[]"] by (simp add: json_decode_def)

end
