(* ===== verification/Operation_Inputs.thy ===== *)
theory Operation_Inputs
  imports Go_Json_Decode Domain
begin

text \<open>
  The inputs of operational commands (\<open>UpstreamInput\<close> and \<open>HostFilterInput\<close> of
  \<open>internal/operations/model.go\<close>), their validation (\<open>internal/operations/service.go\<close>), and
  their passage through JSON: the service marshals and encrypts them into the command's payload,
  the executor decrypts and unmarshals them.
\<close>

record UpstreamInput =
  ui_DraftVersion :: int
  ui_UpstreamDNS :: "string slice"
  ui_BootstrapDNS :: "string slice"
  ui_FallbackDNS :: "string slice"
  ui_PrivateReverseDNS :: "string slice"
  ui_UpstreamMode :: string
  ui_UsePrivateReverseResolvers :: bool

record HostFilterInput =
  hi_Hostname :: string
  hi_Client :: string
  hi_QueryType :: string

text \<open>The input of a command; the destructive commands have the empty struct.\<close>

datatype Input = NoInput | InputUpstream UpstreamInput | InputHostFilter HostFilterInput

text \<open>The two variables of the executor that hold a decoded input; each is the zero value until it is decoded.\<close>

definition upstream_of :: "Input \<Rightarrow> UpstreamInput" where
  "upstream_of i = (case i of InputUpstream u \<Rightarrow> u
     | _ \<Rightarrow> \<lparr>ui_DraftVersion = 0, ui_UpstreamDNS = None, ui_BootstrapDNS = None, ui_FallbackDNS = None, ui_PrivateReverseDNS = None,
            ui_UpstreamMode = [], ui_UsePrivateReverseResolvers = False\<rparr>)"

definition host_filter_of :: "Input \<Rightarrow> HostFilterInput" where
  "host_filter_of i = (case i of InputHostFilter h \<Rightarrow> h | _ \<Rightarrow> \<lparr>hi_Hostname = [], hi_Client = [], hi_QueryType = []\<rparr>)"


subsection \<open>Validation\<close>

definition upper_char :: "char \<Rightarrow> char" where
  "upper_char c = (if 97 \<le> (of_char c :: nat) \<and> (of_char c :: nat) \<le> 122 then char_of ((of_char c :: nat) - 32) else c)"

definition ToUpper :: "string \<Rightarrow> string" where
  "ToUpper s = map upper_char s"

definition ContainsAny :: "string \<Rightarrow> string \<Rightarrow> bool" where
  "ContainsAny s chars \<longleftrightarrow> list_ex (\<lambda>c. c \<in> set chars) s"

definition query_types :: "string list" where
  "query_types = [''A'', ''AAAA'', ''ANY'', ''CAA'', ''CNAME'', ''DNSKEY'', ''DS'', ''HTTPS'', ''MX'', ''NS'', ''PTR'', ''SOA'', ''SRV'', ''SVCB'', ''TXT'']"

text \<open>The method changes its argument: the result is the cleaned input.\<close>

definition validateHostFilterInput :: "HostFilterInput \<Rightarrow> go_error + HostFilterInput" where
  "validateHostFilterInput input =
    (let input = \<lparr>hi_Hostname = TrimSpace (hi_Hostname input), hi_Client = TrimSpace (hi_Client input),
           hi_QueryType = ToUpper (TrimSpace (hi_QueryType input))\<rparr> in
     if hi_Hostname input = [] \<or> length (hi_Hostname input) > 253 \<or>
        ContainsAny (hi_Hostname input) (CHR 0x09 # CHR 0x0D # CHR 0x0A # '' /?#'')
     then Inl (Validation ''input.hostname'' ''must be a valid host name without a URL scheme or path'')
     else if length (hi_Client input) > 256 \<or> ContainsAny (hi_Client input) [CHR 0x0D, CHR 0x0A, CHR 0x09]
     then Inl (Validation ''input.client'' ''must be at most 256 characters without control characters'')
     else if hi_QueryType input \<noteq> [] \<and> hi_QueryType input \<notin> set query_types
     then Inl (Validation ''input.queryType'' ''is not a supported DNS query type'')
     else Inr input)"

text \<open>
  The loop over the four lists is a loop over a Go map: it runs over the fields in the order
  \<open>order\<close> gives them.
\<close>

definition resolver_lists :: "UpstreamInput \<Rightarrow> (string \<times> string list) list" where
  "resolver_lists input = [(''input.upstreamDns'', elems (ui_UpstreamDNS input)), (''input.bootstrapDns'', elems (ui_BootstrapDNS input)),
     (''input.fallbackDns'', elems (ui_FallbackDNS input)), (''input.privateReverseDns'', elems (ui_PrivateReverseDNS input))]"

definition bad_entry :: "string \<Rightarrow> bool" where
  "bad_entry v \<longleftrightarrow> TrimSpace v = [] \<or> length v > 2048"

fun check_lists :: "nat \<Rightarrow> (string \<times> string list) list \<Rightarrow> go_error + nat" where
  "check_lists seen [] = Inr seen"
| "check_lists seen ((field, entries) # more_lists) =
    (if length entries > 64 then Inl (Validation field ''must not contain more than 64 entries'')
     else if list_ex bad_entry entries then Inl (Validation field ''contains an empty or oversized resolver entry'')
     else check_lists (seen + length entries) more_lists)"

definition validateUpstreamInput :: "(string list \<Rightarrow> string list) \<Rightarrow> UpstreamInput \<Rightarrow> go_error option" where
  "validateUpstreamInput order input =
    (let mode = (if ui_UpstreamMode input = [] then ''load_balance'' else ui_UpstreamMode input) in
     if ui_DraftVersion input < 1 then Some (Validation ''input.draftVersion'' ''must be a positive integer'')
     else if mode \<notin> {''load_balance'', ''parallel'', ''fastest_addr''}
     then Some (Validation ''input.upstreamMode'' ''must be load_balance, parallel, or fastest_addr'')
     else if elems (ui_UpstreamDNS input) = [] then Some (Validation ''input.upstreamDns'' ''must contain at least one upstream'')
     else case check_lists 0 (map (\<lambda>f. (f, the (map_of (resolver_lists input) f))) (order (map fst (resolver_lists input)))) of
       Inl err \<Rightarrow> Some err
     | Inr entries \<Rightarrow>
         if entries > 128 then Some (Validation ''input'' ''must not contain more than 128 resolver entries'') else None)"


subsection \<open>JSON\<close>

definition j_strings :: "string slice \<Rightarrow> json" where
  "j_strings v = (case v of None \<Rightarrow> JNull | Some xs \<Rightarrow> JArray (map JString xs))"

definition j_UpstreamInput :: "UpstreamInput \<Rightarrow> json" where
  "j_UpstreamInput v = JObject
     [(''draftVersion'', JInt (ui_DraftVersion v)), (''upstreamDns'', j_strings (ui_UpstreamDNS v)),
      (''bootstrapDns'', j_strings (ui_BootstrapDNS v)), (''fallbackDns'', j_strings (ui_FallbackDNS v)),
      (''privateReverseDns'', j_strings (ui_PrivateReverseDNS v)), (''upstreamMode'', JString (ui_UpstreamMode v)),
      (''usePrivateReverseResolvers'', JBool (ui_UsePrivateReverseResolvers v))]"

definition j_omitempty :: "string \<Rightarrow> string \<Rightarrow> (string \<times> json) list" where
  "j_omitempty key v = (if v = [] then [] else [(key, JString v)])"

definition j_HostFilterInput :: "HostFilterInput \<Rightarrow> json" where
  "j_HostFilterInput v = JObject
     ((''hostname'', JString (hi_Hostname v)) # j_omitempty ''client'' (hi_Client v) @ j_omitempty ''queryType'' (hi_QueryType v))"

definition j_Input :: "Input \<Rightarrow> json" where
  "j_Input i = (case i of NoInput \<Rightarrow> JObject [] | InputUpstream v \<Rightarrow> j_UpstreamInput v | InputHostFilter v \<Rightarrow> j_HostFilterInput v)"

text \<open>
  \<open>json.Unmarshal\<close> into a struct: the fields of the object by name, the zero value for a field
  that is missing or \<open>null\<close>, an error on a value of another type.
\<close>

definition member :: "string \<Rightarrow> (string \<times> json) list \<Rightarrow> json" where
  "member key kvs = (case map_of (rev kvs) key of None \<Rightarrow> JNull | Some v \<Rightarrow> v)"

fun as_int :: "json \<Rightarrow> int option" where
  "as_int (JInt i) = Some i" | "as_int JNull = Some 0" | "as_int _ = None"

fun as_string :: "json \<Rightarrow> string option" where
  "as_string (JString s) = Some s" | "as_string JNull = Some []" | "as_string _ = None"

fun as_bool :: "json \<Rightarrow> bool option" where
  "as_bool (JBool b) = Some b" | "as_bool JNull = Some False" | "as_bool _ = None"

fun as_strings :: "json \<Rightarrow> string slice option" where
  "as_strings JNull = Some None"
| "as_strings (JArray xs) = map_option Some (those (map as_string xs))"
| "as_strings _ = None"

definition decode_UpstreamInput :: "string \<Rightarrow> UpstreamInput option" where
  "decode_UpstreamInput text =
    (case json_decode text of
       Some (JObject kvs) \<Rightarrow>
        (case (as_int (member ''draftVersion'' kvs), as_strings (member ''upstreamDns'' kvs), as_strings (member ''bootstrapDns'' kvs),
               as_strings (member ''fallbackDns'' kvs), as_strings (member ''privateReverseDns'' kvs), as_string (member ''upstreamMode'' kvs),
               as_bool (member ''usePrivateReverseResolvers'' kvs)) of
           (Some a, Some b, Some c, Some d, Some e, Some f, Some g) \<Rightarrow>
             Some \<lparr>ui_DraftVersion = a, ui_UpstreamDNS = b, ui_BootstrapDNS = c, ui_FallbackDNS = d, ui_PrivateReverseDNS = e,
                   ui_UpstreamMode = f, ui_UsePrivateReverseResolvers = g\<rparr>
         | _ \<Rightarrow> None)
     | _ \<Rightarrow> None)"

definition decode_HostFilterInput :: "string \<Rightarrow> HostFilterInput option" where
  "decode_HostFilterInput text =
    (case json_decode text of
       Some (JObject kvs) \<Rightarrow>
        (case (as_string (member ''hostname'' kvs), as_string (member ''client'' kvs), as_string (member ''queryType'' kvs)) of
           (Some a, Some b, Some c) \<Rightarrow> Some \<lparr>hi_Hostname = a, hi_Client = b, hi_QueryType = c\<rparr>
         | _ \<Rightarrow> None)
     | _ \<Rightarrow> None)"

lemma those_strings: "those (map as_string (map JString xs)) = Some xs"
  by (induction xs) auto

lemma as_strings_j [simp]: "as_strings (j_strings v) = Some v"
  using those_strings by (cases v) (auto simp: j_strings_def simp del: map_map)

text \<open>
  C30: The executor runs what was requested: unmarshalling the JSON that was marshalled from the
  input of a command gives that input back, with empty and absent lists kept apart.
\<close>

theorem input_roundtrip:
  "decode_UpstreamInput (json_encode (j_UpstreamInput u)) = Some u \<and>
   decode_HostFilterInput (json_encode (j_HostFilterInput h)) = Some h"
  unfolding decode_UpstreamInput_def decode_HostFilterInput_def json_decode_encode
  by (auto simp: j_UpstreamInput_def j_HostFilterInput_def member_def j_omitempty_def)

end
