(* ===== verification/Limiter.thy ===== *)
theory Limiter
  imports Domain
begin

text \<open>
  The limiter of failed logins (\<open>internal/auth/limiter.go\<close>): a window of attempts for each key,
  which starts with the first attempt and is forgotten after a success. The clock that its methods
  read is an argument. Attempts are followed as the callers make them: \<open>Allow\<close>, and for an allowed
  attempt \<open>Success\<close> or \<open>Failure\<close> after the secret has been checked.
\<close>

record attemptWindow =
  win_count :: int
  win_start :: time

record LoginLimiter =
  lim_windows :: "attemptWindow gomap"
  lim_limit :: int
  lim_duration :: time

definition NewLoginLimiter :: "int \<Rightarrow> time \<Rightarrow> LoginLimiter" where
  "NewLoginLimiter limit duration = \<lparr>lim_windows = [], lim_limit = limit, lim_duration = duration\<rparr>"

definition put_window :: "string \<Rightarrow> attemptWindow \<Rightarrow> LoginLimiter \<Rightarrow> LoginLimiter" where
  "put_window key w l = l\<lparr>lim_windows := AList.update key w (lim_windows l)\<rparr>"

definition Allow :: "string \<Rightarrow> time \<Rightarrow> LoginLimiter \<Rightarrow> bool \<times> LoginLimiter" where
  "Allow key at l =
    (case map_of (lim_windows l) key of
       None \<Rightarrow> (True, put_window key \<lparr>win_count = 0, win_start = at\<rparr> l)
     | Some w \<Rightarrow>
       if at - win_start w \<ge> lim_duration l then (True, put_window key \<lparr>win_count = 0, win_start = at\<rparr> l)
       else (win_count w < lim_limit l, l))"

definition Failure :: "string \<Rightarrow> time \<Rightarrow> LoginLimiter \<Rightarrow> LoginLimiter" where
  "Failure key at l =
    (let fresh = \<lparr>win_count = 0, win_start = at\<rparr>;
         w = (case map_of (lim_windows l) key of
                None \<Rightarrow> fresh
              | Some w \<Rightarrow> if at - win_start w \<ge> lim_duration l then fresh else w) in
     put_window key (w\<lparr>win_count := win_count w + 1\<rparr>) l)"

definition Success :: "string \<Rightarrow> LoginLimiter \<Rightarrow> LoginLimiter" where
  "Success key l = l\<lparr>lim_windows := AList.delete key (lim_windows l)\<rparr>"


subsection \<open>Sequences of attempts\<close>

text \<open>An attempt has a key, the times of its two calls and whether the secret was right.\<close>

record attempt =
  at_key :: string
  at_allow :: time
  at_result :: time
  at_valid :: bool

definition make_attempt :: "attempt \<Rightarrow> LoginLimiter \<Rightarrow> bool \<times> LoginLimiter" where
  "make_attempt a l =
    (case Allow (at_key a) (at_allow a) l of
       (False, l) \<Rightarrow> (False, l)
     | (True, l) \<Rightarrow> (True, if at_valid a then Success (at_key a) l else Failure (at_key a) (at_result a) l))"

fun attempts :: "attempt list \<Rightarrow> LoginLimiter \<Rightarrow> bool list \<times> LoginLimiter" where
  "attempts [] l = ([], l)"
| "attempts (a # as) l =
    (let (ok, l) = make_attempt a l; (oks, l) = attempts as l in (ok # oks, l))"

definition allowed_for :: "string \<Rightarrow> attempt list \<Rightarrow> LoginLimiter \<Rightarrow> nat" where
  "allowed_for key as l = length (filter (\<lambda>(a, ok). at_key a = key \<and> ok) (zip as (fst (attempts as l))))"

definition window :: "string \<Rightarrow> LoginLimiter \<Rightarrow> attemptWindow option" where
  "window key l = map_of (lim_windows l) key"

lemma window_put [simp]: "window k (put_window key w l) = (if k = key then Some w else window k l)"
  by (auto simp: window_def put_window_def update_conv)

lemma window_Success [simp]: "window k (Success key l) = (if k = key then None else window k l)"
  by (auto simp: window_def Success_def delete_conv)

lemma limits_kept [simp]:
  "lim_limit (put_window key w l) = lim_limit l" "lim_duration (put_window key w l) = lim_duration l"
  "lim_limit (Success key l) = lim_limit l" "lim_duration (Success key l) = lim_duration l"
  by (simp_all add: put_window_def Success_def)

lemma Allow_window: "Allow key at l = (case window key l of
    None \<Rightarrow> (True, put_window key \<lparr>win_count = 0, win_start = at\<rparr> l)
  | Some w \<Rightarrow> if at - win_start w \<ge> lim_duration l then (True, put_window key \<lparr>win_count = 0, win_start = at\<rparr> l)
      else (win_count w < lim_limit l, l))"
  by (simp add: Allow_def window_def)

lemma Failure_window: "Failure key at l = (case window key l of
    None \<Rightarrow> put_window key \<lparr>win_count = 1, win_start = at\<rparr> l
  | Some w \<Rightarrow> put_window key (if at - win_start w \<ge> lim_duration l then \<lparr>win_count = 1, win_start = at\<rparr>
      else w\<lparr>win_count := win_count w + 1\<rparr>) l)"
  by (simp add: Failure_def window_def Let_def split: option.split)

lemmas limiter_defs = make_attempt_def Allow_window Failure_window

lemma make_attempt_limits [simp]:
  "lim_limit (snd (make_attempt a l)) = lim_limit l" "lim_duration (snd (make_attempt a l)) = lim_duration l"
  by (auto simp: limiter_defs split: option.split if_split bool.split prod.split)

lemma attempts_limits [simp]:
  "lim_limit (snd (attempts as l)) = lim_limit l" "lim_duration (snd (attempts as l)) = lim_duration l"
  by (induction as arbitrary: l) (auto simp: case_prod_unfold Let_def)

definition counted :: "LoginLimiter \<Rightarrow> bool" where
  "counted l \<longleftrightarrow> (\<forall>key w. window key l = Some w \<longrightarrow> 0 \<le> win_count w)"

lemma counted_attempt: "counted l \<Longrightarrow> counted (snd (make_attempt a l))"
  by (auto simp: counted_def limiter_defs split: option.splits if_splits bool.splits prod.splits)

lemma counted_attempts: "counted l \<Longrightarrow> counted (snd (attempts as l))"
  by (induction as arbitrary: l) (auto simp: case_prod_unfold Let_def counted_attempt)

text \<open>
  How many more failing attempts can pass before \<open>t0\<close> plus the duration: those the current window
  leaves, and a whole window more if it started before \<open>t0\<close>.
\<close>

definition budget :: "string \<Rightarrow> time \<Rightarrow> LoginLimiter \<Rightarrow> int" where
  "budget key t0 l =
    (case window key l of
       None \<Rightarrow> lim_limit l
     | Some w \<Rightarrow> max 0 (lim_limit l - win_count w) + (if win_start w < t0 then lim_limit l else 0))"

lemma budget_attempt:
  assumes "t0 \<le> at_allow a" "at_allow a \<le> at_result a" "at_result a < t0 + lim_duration l" "1 \<le> lim_limit l"
    "at_key a = key \<longrightarrow> \<not> at_valid a" "counted l"
  shows "budget key t0 (snd (make_attempt a l)) + (if at_key a = key \<and> fst (make_attempt a l) then 1 else 0) \<le> budget key t0 l"
proof (cases "at_key a = key")
  case False
  then have "window key (snd (make_attempt a l)) = window key l"
    by (auto simp: limiter_defs split: option.splits if_splits bool.splits prod.splits)
  with False show ?thesis by (simp add: budget_def split: option.split)
next
  case True
  with assms(5) have a: "at_key a = key" "\<not> at_valid a" by auto
  have new: "\<not> at_result a - at_allow a \<ge> lim_duration l" using assms(1,3) by linarith
  show ?thesis
  proof (cases "window key l")
    case None
    then show ?thesis using a new assms(1,4) by (simp add: budget_def limiter_defs)
  next
    case (Some w)
    with assms(6) have count: "0 \<le> win_count w" by (simp add: counted_def)
    consider "at_allow a - win_start w \<ge> lim_duration l" | "at_allow a - win_start w < lim_duration l" "\<not> win_count w < lim_limit l"
      | "at_allow a - win_start w < lim_duration l" "win_count w < lim_limit l" by linarith
    then show ?thesis
    proof cases
      case 1
      then have "win_start w < t0" using assms(2,3) by linarith
      then show ?thesis using 1 Some a new assms(1,4) by (simp add: budget_def limiter_defs)
    next
      case 2
      then show ?thesis using Some a by (simp add: budget_def limiter_defs)
    next
      case 3
      then show ?thesis using Some a assms(1-4) count by (simp add: budget_def limiter_defs)
    qed
  qed
qed

lemma budget_nonneg: "1 \<le> lim_limit l \<Longrightarrow> 0 \<le> budget key t0 l"
  by (auto simp: budget_def split: option.split)

lemma allowed_budget:
  assumes "\<forall>a \<in> set as. t0 \<le> at_allow a \<and> at_allow a \<le> at_result a \<and> at_result a < t0 + lim_duration l \<and> (at_key a = key \<longrightarrow> \<not> at_valid a)"
    "1 \<le> lim_limit l" "counted l"
  shows "int (allowed_for key as l) \<le> budget key t0 l"
  using assms
proof (induction as arbitrary: l)
  case Nil
  then show ?case by (simp add: allowed_for_def budget_nonneg)
next
  case (Cons a as)
  let ?l = "snd (make_attempt a l)"
  have "int (allowed_for key as ?l) \<le> budget key t0 ?l"
    by (rule Cons.IH) (use Cons.prems in \<open>auto simp: counted_attempt\<close>)
  moreover have "budget key t0 ?l + (if at_key a = key \<and> fst (make_attempt a l) then 1 else 0) \<le> budget key t0 l"
    by (rule budget_attempt) (use Cons.prems in auto)
  moreover have "allowed_for key (a # as) l = allowed_for key as ?l + (if at_key a = key \<and> fst (make_attempt a l) then 1 else 0)"
    by (simp add: allowed_for_def case_prod_unfold Let_def)
  ultimately show ?case by (auto split: if_splits)
qed

text \<open>
  C38: Whatever attempts were made before, of the attempts with one key that fall into an interval
  shorter than the limiter's duration, at most twice the limit get to check a wrong secret, if none
  of them is right; attempts with other keys do not matter. (Attempts one after the other: an
  attempt is counted when it fails, not when it is allowed.)
\<close>

theorem limiter_bound:
  assumes "1 \<le> limit"
    and "\<forall>a \<in> set as. t0 \<le> at_allow a \<and> at_allow a \<le> at_result a \<and> at_result a < t0 + duration \<and> (at_key a = key \<longrightarrow> \<not> at_valid a)"
  shows "int (allowed_for key as (snd (attempts earlier (NewLoginLimiter limit duration)))) \<le> 2 * limit"
proof -
  let ?l = "snd (attempts earlier (NewLoginLimiter limit duration))"
  have c: "counted ?l" by (rule counted_attempts) (simp add: counted_def window_def NewLoginLimiter_def)
  have lim: "lim_limit ?l = limit" "lim_duration ?l = duration" by (simp_all add: NewLoginLimiter_def)
  have "int (allowed_for key as ?l) \<le> budget key t0 ?l"
    by (rule allowed_budget) (use assms c lim in auto)
  also have "\<dots> \<le> 2 * limit"
  proof (cases "window key ?l")
    case (Some w)
    with c have "0 \<le> win_count w" by (auto simp: counted_def)
    with Some assms(1) show ?thesis unfolding budget_def lim by simp
  qed (use assms(1) in \<open>simp add: budget_def NewLoginLimiter_def\<close>)
  finally show ?thesis .
qed

theorem limiter_bound_witness:
  "allowed_for ''k'' (replicate 12 \<lparr>at_key = ''k'', at_allow = 100, at_result = 101, at_valid = False\<rparr>)
     (snd (attempts [] (NewLoginLimiter 5 900))) = 5 \<and> (5 :: int) \<le> 2 * 5"
proof -
  let ?as = "replicate 12 \<lparr>at_key = ''k'', at_allow = 100, at_result = 101, at_valid = False\<rparr>"
  have "allowed_for ''k'' ?as (snd (attempts [] (NewLoginLimiter 5 900))) = 5" by code_simp
  then show ?thesis using limiter_bound [of 5 ?as 100 900 "''k''" "[]"] by auto
qed

end
