(* ===== verification/Effects.thy ===== *)
theory Effects
  imports Store_Commands Auth_Store Catalogue Operation_Inputs Limiter
begin

text \<open>
  The environment of the services. A service method is an \<^emph>\<open>action\<close>: a function of the
  environment and of the world, which returns a Go error or a value and the new world. The
  environment supplies what is not under the method's control, as functions of the tick that
  every use advances: the clock, random identifiers, the commits of concurrent requests
  between two repository calls (\<open>interfere\<close>), repository calls that fail for reasons of
  their own (\<open>db_fault\<close>), and the collaborators behind Go interfaces: credential
  encryption, the AdGuard Home reader, writer and status probe. An optional capability of the
  AdGuard Home client, which the code asks for by a type assertion, is an option. \<open>map_order\<close> is
  the order in which Go iterates over a map at that moment; \<open>ctx_done\<close> tells whether the request's
  context has been cancelled; \<open>session_duration\<close> is the runtime setting, \<open>other_attempts\<close> what
  concurrent requests do to a limiter of logins.

  The world is the store, the tick, and a trace of the calls whose order matters: the
  configuration writes to nodes, the observations, the probes of node candidates, audit records
  that precede an operation on a node, the writes to nodes and deployments, and the creation of
  sessions, passwords and second factors. It also has the two caches of the inventory service and
  the three limiters of the authentication services.
\<close>

subsection \<open>Environment and world\<close>

record env =
  now_at :: "nat \<Rightarrow> time"
  new_id :: "nat \<Rightarrow> string option"
  interfere :: "nat \<Rightarrow> db \<Rightarrow> db"
  db_fault :: "nat \<Rightarrow> bool"
  encrypt :: "nat \<Rightarrow> string \<Rightarrow> NodeCredentials \<Rightarrow> EncryptedCredentials option"
  decrypt :: "string \<Rightarrow> EncryptedCredentials \<Rightarrow> NodeCredentials option"
  apply_configuration :: "nat \<Rightarrow> NodeProbeRequest \<Rightarrow> Document \<Rightarrow> go_error option"
  read_configuration :: "nat \<Rightarrow> NodeProbeRequest \<Rightarrow> string \<Rightarrow> Document \<times> CapabilityProfile \<times> go_error option"
  probe_status :: "nat \<Rightarrow> NodeProbeRequest \<Rightarrow> go_error + NodeProbeResult"
  read_blocked_services :: "(nat \<Rightarrow> NodeProbeRequest \<Rightarrow> string \<Rightarrow> go_error + NodeBlockedServicesCatalogue) option"
  read_filter_lists :: "bool \<Rightarrow> (nat \<Rightarrow> NodeProbeRequest \<Rightarrow> string \<Rightarrow> go_error + FilterListMetadata list) option"
  refresh_filters :: "(nat \<Rightarrow> NodeProbeRequest \<Rightarrow> bool \<Rightarrow> go_error option) option"
  read_dhcp_interfaces :: "(nat \<Rightarrow> NodeProbeRequest \<Rightarrow> go_error + DHCPInterface list) option"
  find_active_dhcp :: "(nat \<Rightarrow> NodeProbeRequest \<Rightarrow> string \<Rightarrow> go_error + DHCPActiveCheck) option"
  encrypt_payload :: "nat \<Rightarrow> string \<Rightarrow> string \<Rightarrow> EncryptedPayload option"
  decrypt_payload :: "string \<Rightarrow> EncryptedPayload \<Rightarrow> string option"
  test_upstream_dns :: "nat \<Rightarrow> NodeProbeRequest \<Rightarrow> UpstreamInput \<Rightarrow> ResolverResult list \<times> go_error option"
  test_host_filtering :: "nat \<Rightarrow> NodeProbeRequest \<Rightarrow> HostFilterInput \<Rightarrow> go_error + HostFilterResult"
  clear_dns_cache :: "nat \<Rightarrow> NodeProbeRequest \<Rightarrow> go_error option"
  clear_query_log :: "nat \<Rightarrow> NodeProbeRequest \<Rightarrow> go_error option"
  reset_statistics :: "nat \<Rightarrow> NodeProbeRequest \<Rightarrow> go_error option"
  reset_dhcp :: "((nat \<Rightarrow> NodeProbeRequest \<Rightarrow> go_error option) \<times> (nat \<Rightarrow> NodeProbeRequest \<Rightarrow> go_error option)) option"
  ctx_done :: "nat \<Rightarrow> bool"
  map_order :: "nat \<Rightarrow> string list \<Rightarrow> string list"
  random_bytes :: "nat \<Rightarrow> nat \<Rightarrow> string option"
  session_duration :: "nat \<Rightarrow> time"
  totp_generate :: "nat \<Rightarrow> string \<Rightarrow> string \<Rightarrow> (string \<times> string) option"
  totp_image :: "string \<Rightarrow> string option"
  other_attempts :: "nat \<Rightarrow> LoginLimiter \<Rightarrow> LoginLimiter"

datatype event =
    EApply NodeProbeRequest Document "go_error option"
  | EObserve string "go_error + Snapshot"
  | ERunning string
  | ETask DeploymentNode
  | EApplied string string string
  | EFinish Deployment bool
  | ECreate Deployment
  | EProbe NodeProbeRequest "go_error + NodeProbeResult"
  | ENode NodeRecord
  | EAudited AuditEvent
  | ERefresh NodeProbeRequest bool
  | EDhcpCheck NodeProbeRequest string
  | EResult string NodeResult
  | ERun string string Command NodeProbeRequest
  | EFinishCommand Operation
  | EBeginDhcp DHCPOperation
  | EResetDhcp Command NodeProbeRequest
  | EFinishDhcp DHCPOperation
  | ESession Session
  | EAnswer string string Session
  | EPassword string string
  | EFactor string

record world =
  w_db :: db
  w_tick :: nat
  w_trace :: "event list"
  w_catalogues :: "catalogueCacheEntry gomap"
  w_filterLists :: "filterListCacheEntry gomap"
  w_limiter :: LoginLimiter
  w_factorLimiter :: LoginLimiter
  w_passwordLimiter :: LoginLimiter

type_synonym 'a action = "env \<Rightarrow> world \<Rightarrow> (go_error + 'a) \<times> world"

definition ret :: "'a \<Rightarrow> 'a action" where
  "ret x = (\<lambda>e w. (Inr x, w))"

definition fail :: "go_error \<Rightarrow> 'a action" where
  "fail err = (\<lambda>e w. (Inl err, w))"

text \<open>\<open>if err != nil { return err }\<close> after a call, and a call whose error the caller inspects.\<close>

definition bind :: "'a action \<Rightarrow> ('a \<Rightarrow> 'b action) \<Rightarrow> 'b action" where
  "bind m f = (\<lambda>e w. case m e w of (Inl err, w) \<Rightarrow> (Inl err, w) | (Inr x, w) \<Rightarrow> f x e w)"

definition attempt :: "'a action \<Rightarrow> (go_error + 'a) action" where
  "attempt m = (\<lambda>e w. case m e w of (r, w) \<Rightarrow> (Inr r, w))"

definition lift_err :: "go_error + 'a \<Rightarrow> 'a action" where
  "lift_err r = (case r of Inl e \<Rightarrow> fail e | Inr x \<Rightarrow> ret x)"

definition guard_act :: "bool \<Rightarrow> go_error \<Rightarrow> unit action" where
  "guard_act ok err = (if ok then ret () else fail err)"

definition emit :: "event \<Rightarrow> unit action" where
  "emit ev = (\<lambda>e w. (Inr (), w\<lparr>w_trace := w_trace w @ [ev]\<rparr>))"

definition tick :: "(env \<Rightarrow> nat \<Rightarrow> 'a) \<Rightarrow> 'a action" where
  "tick f = (\<lambda>e w. (Inr (f e (w_tick w)), w\<lparr>w_tick := Suc (w_tick w)\<rparr>))"

text \<open>What the environment offers, without the passing of time: an optional capability, a decryption.\<close>

definition capability :: "(env \<Rightarrow> 'a) \<Rightarrow> 'a action" where
  "capability f = (\<lambda>e w. (Inr (f e), w))"

definition now :: "time action" where
  "now = tick now_at"

definition NewID_act :: "string action" where
  "NewID_act = bind (tick new_id) (\<lambda>r. case r of None \<Rightarrow> fail (PlainError ''generate identifier'') | Some i \<Rightarrow> ret i)"

text \<open>
  One repository call: other requests may have committed since the last one; the call may
  fail without effect; otherwise it runs on the state it finds.
\<close>

definition call :: "(db \<Rightarrow> go_error + 'a \<times> db) \<Rightarrow> 'a action" where
  "call m = (\<lambda>e w.
     let d = interfere e (w_tick w) (w_db w); w' = w\<lparr>w_tick := Suc (w_tick w)\<rparr> in
     if db_fault e (w_tick w) then (Inl (PlainError ''database''), w'\<lparr>w_db := d\<rparr>)
     else case m d of Inl err \<Rightarrow> (Inl err, w'\<lparr>w_db := d\<rparr>) | Inr (x, d) \<Rightarrow> (Inr x, w'\<lparr>w_db := d\<rparr>))"

definition query :: "(db \<Rightarrow> go_error + 'a) \<Rightarrow> 'a action" where
  "query f = call (\<lambda>d. bind_err (f d) (\<lambda>x. Inr (x, d)))"

definition list_query :: "(db \<Rightarrow> 'a) \<Rightarrow> 'a action" where
  "list_query f = query (\<lambda>d. Inr (f d))"

definition exec :: "(db \<Rightarrow> go_error + db) \<Rightarrow> unit action" where
  "exec f = call (\<lambda>d. bind_err (f d) (\<lambda>d. Inr ((), d)))"

definition exec_traced :: "event \<Rightarrow> (db \<Rightarrow> go_error + db) \<Rightarrow> unit action" where
  "exec_traced ev f = bind (emit ev) (\<lambda>_. exec f)"


text \<open>Running an action on a given environment and world.\<close>

lemma bind_apply: "bind m f e w = (case m e w of (Inl err, w') \<Rightarrow> (Inl err, w') | (Inr x, w') \<Rightarrow> f x e w')"
  by (simp add: bind_def)

lemma bind_Inr: "bind m f e w = (Inr y, w') \<longleftrightarrow> (\<exists>x v. m e w = (Inr x, v) \<and> f x e v = (Inr y, w'))"
  by (auto simp: bind_apply split: prod.splits sum.splits)

lemma ret_apply: "ret x e w = (Inr x, w)"
  by (simp add: ret_def)

lemma fail_apply: "fail err e w = (Inl err, w)"
  by (simp add: fail_def)

lemma tick_apply: "tick f e w = (Inr (f e (w_tick w)), w\<lparr>w_tick := Suc (w_tick w)\<rparr>)"
  by (simp add: tick_def)

lemma now_apply: "now e w = (Inr (now_at e (w_tick w)), w\<lparr>w_tick := Suc (w_tick w)\<rparr>)"
  by (simp add: now_def tick_apply)

lemma call_Inr:
  assumes "call m e w = (Inr x, w')"
  shows "m (interfere e (w_tick w) (w_db w)) = Inr (x, w_db w')" and "w_trace w' = w_trace w"
  using assms by (auto simp: call_def Let_def split: if_splits sum.splits prod.splits)

lemma attempt_apply: "attempt m e w = (case m e w of (r, w') \<Rightarrow> (Inr r, w'))"
  by (simp add: attempt_def)

lemma NewID_apply: "new_id e (w_tick w) = Some i \<Longrightarrow> NewID_act e w = (Inr i, w\<lparr>w_tick := Suc (w_tick w)\<rparr>)"
  by (simp add: NewID_act_def bind_apply tick_apply ret_apply)

lemmas run_simps = bind_apply ret_apply fail_apply tick_apply now_apply attempt_apply NewID_apply


subsection \<open>Reasoning about traces\<close>

text \<open>
  \<open>emits m Q\<close>: whatever the environment and the world, running \<open>m\<close> extends the trace by
  some events that together with the result satisfy \<open>Q\<close>. Nothing is assumed of the values
  that repository calls return, so these facts hold under arbitrary interference.
\<close>

definition emits :: "'a action \<Rightarrow> (go_error + 'a \<Rightarrow> event list \<Rightarrow> bool) \<Rightarrow> bool" where
  "emits m Q \<longleftrightarrow> (\<forall>e w. \<exists>ts. w_trace (snd (m e w)) = w_trace w @ ts \<and> Q (fst (m e w)) ts)"

lemma emitsI: "(\<And>e w. \<exists>ts. w_trace (snd (m e w)) = w_trace w @ ts \<and> Q (fst (m e w)) ts) \<Longrightarrow> emits m Q"
  by (simp add: emits_def)

lemma emitsD: "emits m Q \<Longrightarrow> w_trace (snd (m e w)) = w_trace w @ ts \<Longrightarrow> Q (fst (m e w)) ts"
  unfolding emits_def by (metis same_append_eq)

lemma emits_mono: "emits m Q \<Longrightarrow> (\<And>r ts. Q r ts \<Longrightarrow> Q' r ts) \<Longrightarrow> emits m Q'"
  unfolding emits_def by blast

lemma emits_ret: "Q (Inr x) [] \<Longrightarrow> emits (ret x) Q"
  by (simp add: emits_def ret_def)

lemma emits_fail: "Q (Inl err) [] \<Longrightarrow> emits (fail err) Q"
  by (simp add: emits_def fail_def)

lemma emits_emit: "Q (Inr ()) [ev] \<Longrightarrow> emits (emit ev) Q"
  by (simp add: emits_def emit_def)

lemma emits_bind:
  assumes "emits m P" "\<And>x ts. P (Inr x) ts \<Longrightarrow> emits (f x) (R x)"
    and "\<And>err ts. P (Inl err) ts \<Longrightarrow> Q (Inl err) ts"
    and "\<And>x r ts us. P (Inr x) ts \<Longrightarrow> R x r us \<Longrightarrow> Q r (ts @ us)"
  shows "emits (bind m f) Q"
proof (rule emitsI)
  fix e w
  obtain r w1 where m: "m e w = (r, w1)" by fastforce
  with assms(1) obtain ts where ts: "w_trace w1 = w_trace w @ ts" "P r ts"
    unfolding emits_def by (metis fst_conv snd_conv)
  show "\<exists>ts. w_trace (snd (bind m f e w)) = w_trace w @ ts \<and> Q (fst (bind m f e w)) ts"
  proof (cases r)
    case (Inl err)
    with ts m assms(3) show ?thesis by (auto simp: bind_def)
  next
    case (Inr x)
    obtain r2 w2 where f: "f x e w1 = (r2, w2)" by fastforce
    with assms(2) [of x ts] ts(2) Inr obtain us where us: "w_trace w2 = w_trace w1 @ us" "R x r2 us"
      unfolding emits_def by (metis fst_conv snd_conv)
    with ts m Inr f assms(4) show ?thesis by (auto simp: bind_def)
  qed
qed

lemma emits_attempt: "emits m (\<lambda>r. Q (Inr r)) \<Longrightarrow> emits (attempt m) Q"
  unfolding emits_def attempt_def by (auto simp: case_prod_unfold)

lemma emits_silent_call: "emits (call m) (\<lambda>r ts. ts = [])"
  by (auto simp: emits_def call_def Let_def split: sum.splits)

lemma emits_silent_tick: "emits (tick f) (\<lambda>r ts. ts = [])"
  by (simp add: emits_def tick_def)

text \<open>Actions that leave the trace alone.\<close>

definition silent :: "'a action \<Rightarrow> bool" where
  "silent m \<longleftrightarrow> emits m (\<lambda>r ts. ts = [])"

named_theorems quiet "actions that leave the trace alone"

lemma silent_ret [quiet]: "silent (ret x)" unfolding silent_def by (rule emits_ret) simp
lemma silent_fail [quiet]: "silent (fail x)" unfolding silent_def by (rule emits_fail) simp
lemma silent_tick [quiet]: "silent (tick f)" unfolding silent_def by (rule emits_silent_tick)
lemma silent_call [quiet]: "silent (call m)" unfolding silent_def by (rule emits_silent_call)

lemma silent_capability [quiet]: "silent (capability f)"
  by (simp add: silent_def emits_def capability_def)

lemma silent_bind [quiet]: "silent m \<Longrightarrow> (\<And>x. silent (f x)) \<Longrightarrow> silent (bind m f)"
  unfolding silent_def by (erule emits_bind) auto

lemma silent_attempt [quiet]: "silent m \<Longrightarrow> silent (attempt m)"
  unfolding silent_def by (rule emits_attempt)

lemma silent_now [quiet]: "silent now" by (simp add: now_def quiet)
lemma silent_query [quiet]: "silent (query f)" by (simp add: query_def quiet)
lemma silent_list_query [quiet]: "silent (list_query f)" by (simp add: list_query_def quiet)
lemma silent_exec [quiet]: "silent (exec f)" by (simp add: exec_def quiet)
lemma silent_NewID [quiet]: "silent NewID_act" by (auto simp: NewID_act_def intro!: quiet split: option.split)
lemma silent_lift_err [quiet]: "silent (lift_err r)" by (simp add: lift_err_def quiet split: sum.split)
lemma silent_guard [quiet]: "silent (guard_act ok err)" by (simp add: guard_act_def quiet)

lemma emits_silent: "silent m \<Longrightarrow> (\<And>r. Q r []) \<Longrightarrow> emits m Q"
  unfolding silent_def by (erule emits_mono) simp

text \<open>A silent prefix does not change what the rest emits.\<close>

lemma emits_silent_bind:
  "silent m \<Longrightarrow> (\<And>err. Q (Inl err) []) \<Longrightarrow> (\<And>x. emits (f x) Q) \<Longrightarrow> emits (bind m f) Q"
  unfolding silent_def by (erule emits_bind) auto

lemma emits_exec_traced: "(\<And>r. Q r [ev]) \<Longrightarrow> emits (exec_traced ev f) Q"
  unfolding exec_traced_def
  by (rule emits_bind [where P = "\<lambda>r ts. r = Inr () \<and> ts = [ev]" and R = "\<lambda>_ r ts. ts = []"])
     (auto intro: emits_emit emits_silent quiet)


subsection \<open>Symbolic execution of traces\<close>

text \<open>
  \<open>after us m Q\<close>: if the events \<open>us\<close> have been emitted so far and \<open>m\<close> runs, the result and
  all events satisfy \<open>Q\<close>. One rule per kind of step; an error stops the sequence, so \<open>Q\<close> has
  to hold of the events emitted up to it.
\<close>

definition after :: "event list \<Rightarrow> 'a action \<Rightarrow> (go_error + 'a \<Rightarrow> event list \<Rightarrow> bool) \<Rightarrow> bool" where
  "after us m Q \<longleftrightarrow> emits m (\<lambda>r ts. Q r (us @ ts))"

lemma emits_after: "after [] m Q \<Longrightarrow> emits m Q"
  by (simp add: after_def)

lemma after_ret: "Q (Inr x) us \<Longrightarrow> after us (ret x) Q"
  unfolding after_def by (rule emits_ret) simp

lemma after_fail: "Q (Inl err) us \<Longrightarrow> after us (fail err) Q"
  unfolding after_def by (rule emits_fail) simp

lemma after_if: "(b \<Longrightarrow> after us m Q) \<Longrightarrow> (\<not> b \<Longrightarrow> after us m' Q) \<Longrightarrow> after us (if b then m else m') Q"
  by simp

lemma bind_ret [simp]: "bind (ret x) f = f x"
  by (rule ext)+ (simp add: bind_def ret_def)

lemma bind_fail [simp]: "bind (fail err) f = fail err"
  by (simp add: bind_def fail_def fun_eq_iff)

lemma after_silent:
  "silent m \<Longrightarrow> (\<And>err. Q (Inl err) us) \<Longrightarrow> (\<And>x. after us (f x) Q) \<Longrightarrow> after us (bind m f) Q"
  unfolding after_def by (erule emits_silent_bind) simp_all

lemma query_run: "query f e w =
  (let d = interfere e (w_tick w) (w_db w); w' = w\<lparr>w_tick := Suc (w_tick w), w_db := d\<rparr> in
   (if db_fault e (w_tick w) then Inl (PlainError ''database'') else f d, w'))"
  by (auto simp: query_def call_def Let_def bind_err_def split: sum.split)

lemma emits_query: "emits (query g) (\<lambda>r ts. ts = [] \<and> (\<forall>x. r = Inr x \<longrightarrow> (\<exists>d. g d = Inr x)))"
  by (auto simp: emits_def query_def call_def Let_def bind_err_def split: sum.splits)

lemma after_query:
  assumes "\<And>err. Q (Inl err) us" "\<And>d x. g d = Inr x \<Longrightarrow> after us (f x) Q"
  shows "after us (bind (query g) f) Q"
  unfolding after_def
  by (rule emits_bind [OF emits_query, where R = "\<lambda>x r ts. Q r (us @ ts)"])
     (use assms in \<open>auto simp: after_def\<close>)

lemma after_attempt_query:
  assumes "\<And>err. after us (f (Inl err)) Q" "\<And>d x. g d = Inr x \<Longrightarrow> after us (f (Inr x)) Q"
  shows "after us (bind (attempt (query g)) f) Q"
  unfolding after_def
proof (rule emits_bind [where P = "\<lambda>r ts. ts = [] \<and> (\<exists>s. r = Inr s \<and> (\<forall>x. s = Inr x \<longrightarrow> (\<exists>d. g d = Inr x)))"
      and R = "\<lambda>x r ts. Q r (us @ ts)"])
  show "emits (attempt (query g)) (\<lambda>r ts. ts = [] \<and> (\<exists>s. r = Inr s \<and> (\<forall>x. s = Inr x \<longrightarrow> (\<exists>d. g d = Inr x))))"
    by (rule emits_attempt) (rule emits_mono [OF emits_query], simp)
  show "emits (f s) (\<lambda>r ts. Q r (us @ ts))"
    if "ts = [] \<and> (\<exists>s'. Inr s = (Inr s' :: go_error + _) \<and> (\<forall>x. s' = Inr x \<longrightarrow> (\<exists>d. g d = Inr x)))" for s ts
    using that assms by (cases s) (auto simp: after_def)
qed auto

lemma after_attempt:
  assumes "silent m" "\<And>r. after us (f r) Q"
  shows "after us (bind (attempt m) f) Q"
  unfolding after_def
  by (rule emits_bind [where P = "\<lambda>r ts. ts = [] \<and> (\<exists>s. r = Inr s)" and R = "\<lambda>x r ts. Q r (us @ ts)"])
     (use assms in \<open>auto simp: after_def silent_def intro!: emits_attempt\<close>)

lemma after_tick:
  assumes "\<And>x. after us (f x) Q"
  shows "after us (bind (tick g) f) Q"
  unfolding after_def
  by (rule emits_bind [where P = "\<lambda>r ts. ts = [] \<and> (\<exists>s. r = Inr s)" and R = "\<lambda>x r ts. Q r (us @ ts)"])
     (use assms in \<open>auto simp: after_def emits_def tick_def\<close>)

lemma after_exec_traced:
  assumes "\<And>err. Q (Inl err) (us @ [ev])" "after (us @ [ev]) (f ()) Q"
  shows "after us (bind (exec_traced ev g) f) Q"
  unfolding after_def
  by (rule emits_bind [where P = "\<lambda>r ts. ts = [ev]" and R = "\<lambda>x r ts. Q r (us @ [ev] @ ts)"])
     (use assms in \<open>auto simp: after_def intro: emits_exec_traced\<close>)

lemma after_emit:
  assumes "after (us @ [ev]) (f ()) Q"
  shows "after us (bind (emit ev) f) Q"
  unfolding after_def
  by (rule emits_bind [where P = "\<lambda>r ts. r = Inr () \<and> ts = [ev]" and R = "\<lambda>x r ts. Q r (us @ [ev] @ ts)"])
     (use assms in \<open>auto simp: after_def intro: emits_emit\<close>)

text \<open>An action all of whose events satisfy a predicate.\<close>

definition only :: "(event \<Rightarrow> bool) \<Rightarrow> 'a action \<Rightarrow> bool" where
  "only P m \<longleftrightarrow> emits m (\<lambda>r ts. list_all P ts)"

lemma only_silent: "silent m \<Longrightarrow> only P m"
  unfolding only_def by (erule emits_silent) simp

lemma only_bind: "only P m \<Longrightarrow> (\<And>x. only P (f x)) \<Longrightarrow> only P (bind m f)"
  unfolding only_def by (erule emits_bind [where R = "\<lambda>_ r ts. list_all P ts"]) auto

lemma only_exec_traced: "P ev \<Longrightarrow> only P (exec_traced ev f)"
  unfolding only_def by (rule emits_exec_traced) simp

lemma only_mono: "only P m \<Longrightarrow> (\<And>ev. P ev \<Longrightarrow> P' ev) \<Longrightarrow> only P' m"
  unfolding only_def by (erule emits_mono) (auto simp: list_all_iff)

lemma after_only: "only P m \<Longrightarrow> (\<And>r ts. list_all P ts \<Longrightarrow> Q r (us @ ts)) \<Longrightarrow> after us m Q"
  unfolding after_def only_def by (erule emits_mono) simp

lemma after_bind:
  assumes "emits m P" "\<And>err ts. P (Inl err) ts \<Longrightarrow> Q (Inl err) (us @ ts)"
    "\<And>x ts. P (Inr x) ts \<Longrightarrow> after (us @ ts) (f x) Q"
  shows "after us (bind m f) Q"
  unfolding after_def
proof (rule emitsI)
  fix e w
  obtain r w1 where m: "m e w = (r, w1)" by fastforce
  with assms(1) obtain ts where ts: "w_trace w1 = w_trace w @ ts" "P r ts"
    unfolding emits_def by (metis fst_conv snd_conv)
  show "\<exists>ts. w_trace (snd (bind m f e w)) = w_trace w @ ts \<and> Q (fst (bind m f e w)) (us @ ts)"
  proof (cases r)
    case (Inl err)
    with ts m assms(2) show ?thesis by (auto simp: bind_def)
  next
    case (Inr x)
    obtain r2 w2 where f: "f x e w1 = (r2, w2)" by fastforce
    with assms(3) [of x ts] ts(2) Inr obtain vs where "w_trace w2 = w_trace w1 @ vs" "Q r2 ((us @ ts) @ vs)"
      unfolding after_def emits_def by (metis fst_conv snd_conv)
    with ts m Inr f show ?thesis by (auto simp: bind_def)
  qed
qed

text \<open>A silent action whose result is known to satisfy a predicate.\<close>

definition learns :: "'a action \<Rightarrow> ('a \<Rightarrow> bool) \<Rightarrow> bool" where
  "learns m K \<longleftrightarrow> emits m (\<lambda>r ts. ts = [] \<and> (\<forall>x. r = Inr x \<longrightarrow> K x))"

lemma learns_ret: "K x \<Longrightarrow> learns (ret x) K"
  unfolding learns_def by (rule emits_ret) simp

lemma learns_fail: "learns (fail err) K"
  unfolding learns_def by (rule emits_fail) simp

lemma learns_silent: "silent m \<Longrightarrow> (\<And>x. K x) \<Longrightarrow> learns m K"
  unfolding learns_def silent_def by (erule emits_mono) simp

lemma learns_query: "learns (query g) (\<lambda>x. \<exists>d. g d = Inr x)"
  unfolding learns_def by (rule emits_query)

lemma learns_guard: "learns (guard_act b err) (\<lambda>_. b)"
  by (simp add: guard_act_def learns_ret learns_fail)

lemma learns_bind: "learns m K \<Longrightarrow> (\<And>x. K x \<Longrightarrow> learns (f x) L) \<Longrightarrow> learns (bind m f) L"
  unfolding learns_def by (erule emits_bind) auto

lemma learns_attempt: "learns m K \<Longrightarrow> learns (attempt m) (\<lambda>r. \<forall>x. r = Inr x \<longrightarrow> K x)"
  unfolding learns_def by (rule emits_attempt) simp

lemma only_learns: "learns m K \<Longrightarrow> (\<And>x. K x \<Longrightarrow> only P (f x)) \<Longrightarrow> only P (bind m f)"
  unfolding learns_def only_def by (erule emits_bind [where R = "\<lambda>_ r ts. list_all P ts"]) auto

lemma onlyD: "only P m \<Longrightarrow> \<exists>ts. w_trace (snd (m e w)) = w_trace w @ ts \<and> list_all P ts"
  unfolding only_def emits_def by blast

lemma after_call:
  assumes "\<And>err. Q (Inl err) us" "\<And>d x d'. g d = Inr (x, d') \<Longrightarrow> after us (f x) Q"
  shows "after us (bind (call g) f) Q"
proof -
  have "emits (call g) (\<lambda>r ts. ts = [] \<and> (\<forall>x. r = Inr x \<longrightarrow> (\<exists>d d'. g d = Inr (x, d'))))"
    by (fastforce simp: emits_def call_def Let_def split: sum.splits)
  then show ?thesis by (rule after_bind) (use assms in auto)
qed

end
