(* ===== verification/Inventory.thy ===== *)
theory Inventory
  imports Effects Validation
begin

text \<open>
  The inventory service, \<open>internal/inventory/service.go\<close>: observing a node, comparing two
  snapshots, and importing a snapshot into the draft of a cluster. The reader is a collaborator
  behind a Go interface and belongs to the environment.
\<close>

definition errorCode :: "go_error \<Rightarrow> string" where
  "errorCode e = (case e of DomainError k f m \<Rightarrow> kind_string k | PlainError _ \<Rightarrow> kind_string ErrorInternal)"

definition probe_request :: "NodeRecord \<Rightarrow> NodeCredentials \<Rightarrow> NodeProbeRequest" where
  "probe_request record credentials =
    \<lparr>probe_BaseURL = node_BaseURL (rec_Node record), probe_CertificatePolicy = node_CertificatePolicy (rec_Node record),
     probe_CustomCAPEM = secret_CustomCAPEM (rec_Secrets record), probe_Credentials = credentials\<rparr>"

definition Decrypt :: "string \<Rightarrow> EncryptedCredentials \<Rightarrow> NodeCredentials action" where
  "Decrypt nodeID c = (\<lambda>e w. case decrypt e nodeID c of
     None \<Rightarrow> (Inl (PlainError ''stored node credentials could not be decrypted''), w) | Some x \<Rightarrow> (Inr x, w))"

definition observe_failure :: "string \<Rightarrow> string \<Rightarrow> go_error \<Rightarrow> go_error" where
  "observe_failure nodeID version readErr =
    (case readErr of
       DomainError k f m \<Rightarrow> DomainError k f (''node '' @ nodeID @ '' (AdGuard Home '' @ version @ ''): '' @ m)
     | PlainError m \<Rightarrow> PlainError (''observe node '' @ nodeID @ '' (AdGuard Home '' @ version @ ''): '' @ m))"

definition Observe :: "string \<Rightarrow> Snapshot action" where
  "Observe nodeID =
    (if \<not> ValidID nodeID then fail (Validation ''nodeId'' ''must be a valid UUID'')
     else bind (query (NodeRecordByID nodeID)) (\<lambda>record.
       if \<not> node_Enabled (rec_Node record) then fail (Validation ''nodeId'' ''disabled nodes cannot be observed'')
       else bind (Decrypt nodeID (secret_Credentials (rec_Secrets record))) (\<lambda>credentials.
       bind NewID_act (\<lambda>i.
       bind now (\<lambda>at.
       bind (tick (\<lambda>e t. read_configuration e t (probe_request record credentials) (node_Version (rec_Node record))))
       (\<lambda>(document, capability, readErr).
         let schemaVersion = (if cap_SchemaVersion capability = 0 then SchemaVersion else cap_SchemaVersion capability);
             snapshot = \<lparr>snap_ID = i, snap_NodeID = nodeID, snap_ObservedAt = at, snap_SchemaVersion = schemaVersion,
               snap_Document = None, snap_CanonicalHash = [], snap_NodeVersion = node_Version (rec_Node record),
               snap_CollectionStatus = [], snap_ErrorCode = []\<rparr>;
             capability = capability\<lparr>cap_NodeID := nodeID, cap_RefreshedAt := at\<rparr> in
         case readErr of
           Some err \<Rightarrow>
             bind (exec (SaveObservation (snapshot\<lparr>snap_CollectionStatus := ''failed'', snap_ErrorCode := errorCode err\<rparr>) capability))
               (\<lambda>_. fail (observe_failure nodeID (node_Version (rec_Node record)) err))
         | None \<Rightarrow>
             (let snapshot = snapshot\<lparr>snap_Document := Some document, snap_CanonicalHash := snd (Marshal document),
                    snap_CollectionStatus := ''succeeded''\<rparr> in
              bind (exec (SaveObservation snapshot capability)) (\<lambda>_. ret snapshot))))))))"

definition Compare :: "string \<Rightarrow> string \<Rightarrow> Difference list action" where
  "Compare leftID rightID =
     bind (query (SnapshotByID leftID)) (\<lambda>left.
     bind (query (SnapshotByID rightID)) (\<lambda>right.
       case (snap_Document left, snap_Document right) of
         (Some l, Some r) \<Rightarrow> ret (Diff l r)
       | _ \<Rightarrow> fail (Validation ''snapshot'' ''only successful snapshots can be compared'')))"

definition Inventory_of :: "string \<Rightarrow> (Snapshot list \<times> CapabilityProfile list \<times> Draft option) action" where
  "Inventory_of clusterID =
    (if \<not> ValidID clusterID then fail (Validation ''clusterId'' ''must be a valid UUID'')
     else bind (query (ClusterByID clusterID)) (\<lambda>_.
       bind (list_query (LatestSnapshots clusterID)) (\<lambda>snapshots.
       bind (list_query (CapabilityProfiles clusterID)) (\<lambda>profiles.
       bind (attempt (query (DraftByCluster clusterID))) (\<lambda>r.
         case r of
           Inr draft \<Rightarrow> ret (snapshots, profiles, Some draft)
         | Inl (DomainError ErrorNotFound f m) \<Rightarrow> ret (snapshots, profiles, None)
         | Inl err \<Rightarrow> fail err)))))"

text \<open>
  The overrides of an imported draft: those of the current draft win over the ones derived
  from the observation, and the observed node gets its observed identity.
\<close>

definition import_overrides :: "NodeSpecific gomap \<Rightarrow> NodeSpecific gomap \<Rightarrow> string \<Rightarrow> NodeSpecific \<Rightarrow> NodeSpecific gomap" where
  "import_overrides desired current nodeID observed =
     AList.update nodeID observed (AList.updates (map fst current) (map snd current) desired)"

definition Import :: "Actor \<Rightarrow> string \<Rightarrow> string \<Rightarrow> int \<Rightarrow> bool \<Rightarrow> Draft action" where
  "Import actor clusterID snapshotID expectedVersion confirmed =
    (if \<not> confirmed then fail (Validation ''confirmed'' ''must be true after reviewing the snapshot'')
     else bind (query (SnapshotByID snapshotID)) (\<lambda>snapshot.
       bind (query (NodeByID (snap_NodeID snapshot))) (\<lambda>node.
       if node_ClusterID node \<noteq> clusterID then fail (Validation ''snapshotId'' ''snapshot does not belong to the cluster'')
       else case snap_Document snapshot of
         None \<Rightarrow> fail (Validation ''snapshotId'' ''failed snapshots cannot be imported'')
       | Some document \<Rightarrow>
         if ValidateNodeSpecific ''nodeSpecific'' (doc_NodeSpecific document) \<noteq> []
         then fail (Validation ''snapshotId'' ''listener identity is incomplete; refresh the node and import its latest successful snapshot'')
         else bind NewID_act (\<lambda>fresh.
           let desired = DesiredFromObservation (snap_NodeID snapshot) document in
           bind (attempt (query (DraftByCluster clusterID))) (\<lambda>r.
           bind (case r of
               Inr current \<Rightarrow>
                 if expectedVersion \<noteq> draft_Version current then fail draft_conflict
                 else if des_SchemaVersion (draft_Document current) > des_SchemaVersion desired
                   then fail (Validation ''snapshotId'' ''an older schema observation cannot replace a newer configuration draft'')
                 else ret (draft_ID current,
                   desired\<lparr>des_NodeOverrides := import_overrides (des_NodeOverrides desired)
                     (des_NodeOverrides (draft_Document current)) (snap_NodeID snapshot) (doc_NodeSpecific document)\<rparr>,
                   draft_BaseRevisionID current)
             | Inl _ \<Rightarrow>
                 if expectedVersion \<noteq> 0 then fail (NewError ErrorConflict ''the configuration draft does not exist'')
                 else ret (fresh, desired, None)) (\<lambda>(i, desired, baseRevisionID).
           bind now (\<lambda>at.
           let draft = \<lparr>draft_ID = i, draft_ClusterID = clusterID, draft_SourceSnapshotID = snapshotID,
                 draft_BaseRevisionID = baseRevisionID, draft_SchemaVersion = des_SchemaVersion desired,
                 draft_Document = desired, draft_CanonicalHash = snd (MarshalDesired desired),
                 draft_Version = expectedVersion + 1, draft_UpdatedBy = actor_UserID actor, draft_UpdatedAt = at\<rparr> in
           bind NewID_act (\<lambda>eventID.
           let event = \<lparr>audit_ID = eventID, audit_ActorType = ''user'', audit_ActorUserID = Some (actor_UserID actor),
                 audit_Action = ''configuration.draft_imported'', audit_ResourceType = ''configuration_draft'',
                 audit_ResourceID = Some i, audit_RequestID = actor_RequestID actor,
                 audit_Metadata = [(''clusterId'', JString clusterID), (''sourceSnapshotId'', JString snapshotID)],
                 audit_CreatedAt = at\<rparr> in
           bind (exec (ImportDraft draft expectedVersion event)) (\<lambda>_. ret draft)))))))))"

lemma silent_Decrypt [quiet]: "silent (Decrypt i c)"
  by (auto simp: silent_def emits_def Decrypt_def split: option.split)

lemma silent_Observe: "silent (Observe i)"
  unfolding Observe_def Let_def by (auto intro!: quiet split: option.split)

end
