(* ===== verification/Executor.thy ===== *)
theory Executor
  imports Inventory
begin

text \<open>
  The deployment executor, \<open>internal/controlplane/executor.go\<close>: it claims a deployment,
  revalidates every target, writes the nodes one by one in the order of their positions,
  reads each one back, and finishes the deployment. The observer is an argument of the
  executor, as it is a field of the Go struct; its contract is the locale \<open>observer\<close>, which
  the inventory service satisfies. \<open>run_trace\<close> describes the traces the write loop can
  leave; the properties of the executor follow from it by rule induction.
\<close>

record preparedNode =
  pre_task :: DeploymentNode
  pre_record :: NodeRecord
  pre_effective :: Document

definition safeFailure :: "go_error option \<Rightarrow> string" where
  "safeFailure err =
    (case err of
       None \<Rightarrow> ''Operation failed without a safe diagnostic.''
     | Some (DomainError k f m) \<Rightarrow> m
     | Some (PlainError _) \<Rightarrow> ''The operation failed; inspect controller logs using the deployment request ID.'')"

definition systemAudit :: "string \<Rightarrow> string \<Rightarrow> string \<Rightarrow> string \<Rightarrow> json gomap \<Rightarrow> time \<Rightarrow> AuditEvent action" where
  "systemAudit action resourceType resourceID requestID metadata at =
     bind NewID_act (\<lambda>i. ret
       \<lparr>audit_ID = i, audit_ActorType = ''system'', audit_ActorUserID = None, audit_Action = action,
        audit_ResourceType = resourceType, audit_ResourceID = Some resourceID, audit_RequestID = requestID,
        audit_Metadata = metadata, audit_CreatedAt = at\<rparr>)"

definition UpdateTask :: "DeploymentNode \<Rightarrow> unit action" where
  "UpdateTask task = exec_traced (ETask task) (UpdateDeploymentNode task)"

definition Finish :: "Deployment \<Rightarrow> bool \<Rightarrow> AuditEvent \<Rightarrow> unit action" where
  "Finish deployment activate event = exec_traced (EFinish deployment activate) (FinishDeployment deployment activate event)"

fun for_each :: "'a list \<Rightarrow> ('a \<Rightarrow> unit action) \<Rightarrow> unit action" where
  "for_each [] body = ret ()"
| "for_each (x # xs) body = bind (body x) (\<lambda>_. for_each xs body)"

subsection \<open>Ending a deployment\<close>

definition failBeforeMutation :: "Deployment \<Rightarrow> string \<Rightarrow> go_error option \<Rightarrow> unit action" where
  "failBeforeMutation deployment code cause =
     bind now (\<lambda>at.
     bind (for_each (dep_Nodes deployment) (\<lambda>task. UpdateTask (task\<lparr>task_Status := TaskSkipped, task_CompletedAt := Some at,
        task_ErrorCode := code, task_ErrorMessage := safeFailure cause\<rparr>))) (\<lambda>_.
     let deployment = deployment\<lparr>dep_Status := Failed, dep_ErrorCode := code, dep_CompletedAt := Some at\<rparr> in
     bind (systemAudit ''deployment.failed'' ''deployment'' (dep_ID deployment) (dep_RequestID deployment)
        [(''errorCode'', JString code), (''mutatedNodes'', JInt 0)] at) (\<lambda>event.
     Finish deployment False event)))"

definition failNode :: "Deployment \<Rightarrow> preparedNode list \<Rightarrow> nat \<Rightarrow> int \<Rightarrow> string \<Rightarrow> go_error option \<Rightarrow> unit action" where
  "failNode deployment prepared failedIndex succeeded code cause =
     bind now (\<lambda>at.
     let failed = (pre_task (prepared ! failedIndex))\<lparr>task_Status := TaskFailed, task_CompletedAt := Some at,
           task_ErrorCode := code, task_ErrorMessage := safeFailure cause\<rparr> in
     bind (UpdateTask failed) (\<lambda>_.
     bind (exec (UpdateNodeConvergence (task_NodeID failed) ConvApplyFailed at)) (\<lambda>_.
     bind (for_each (drop (Suc failedIndex) prepared) (\<lambda>p. UpdateTask ((pre_task p)\<lparr>task_Status := TaskSkipped,
        task_CompletedAt := Some at, task_ErrorCode := ''STOPPED_AFTER_FAILURE''\<rparr>))) (\<lambda>_.
     let deployment = deployment\<lparr>dep_Status := (if succeeded > 0 then PartiallySucceeded else Failed),
           dep_ErrorCode := code, dep_CompletedAt := Some at\<rparr> in
     bind (systemAudit (''deployment.'' @ deployment_status_string (dep_Status deployment)) ''deployment'' (dep_ID deployment)
        (dep_RequestID deployment) [(''errorCode'', JString code), (''mutatedNodes'', JInt succeeded)] at) (\<lambda>event.
     Finish deployment False event)))))"

definition cancel :: "Deployment \<Rightarrow> nat \<Rightarrow> unit action" where
  "cancel deployment start =
     bind now (\<lambda>at.
     bind (for_each (drop start (dep_Nodes deployment)) (\<lambda>task.
        if task_Status task = TaskPending
        then UpdateTask (task\<lparr>task_Status := TaskSkipped, task_CompletedAt := Some at,
               task_ErrorCode := ''CANCELLED_AT_SAFE_BOUNDARY''\<rparr>)
        else ret ())) (\<lambda>_.
     let deployment = deployment\<lparr>dep_Status := Cancelled, dep_CompletedAt := Some at\<rparr> in
     bind (systemAudit ''deployment.cancelled'' ''deployment'' (dep_ID deployment) (dep_RequestID deployment)
        [(''safeBoundary'', JBool True)] at) (\<lambda>event.
     Finish deployment False event)))"

subsection \<open>Revalidation and the write loop\<close>

type_synonym observe = "string \<Rightarrow> Snapshot action"

definition observe_node :: "observe \<Rightarrow> string \<Rightarrow> (go_error + Snapshot) action" where
  "observe_node obs nodeID = bind (attempt (obs nodeID)) (\<lambda>r. bind (emit (EObserve nodeID r)) (\<lambda>_. ret r))"

definition ApplyConfiguration :: "NodeProbeRequest \<Rightarrow> Document \<Rightarrow> go_error option action" where
  "ApplyConfiguration request document =
     bind (tick (\<lambda>e t. apply_configuration e t request document)) (\<lambda>r.
     bind (emit (EApply request document r)) (\<lambda>_. ret r))"

type_synonym refusal = "string \<times> go_error option"

definition mutable_target :: "NodeRecord \<Rightarrow> bool" where
  "mutable_target record \<longleftrightarrow> \<not> (\<not> node_Enabled (rec_Node record) \<or> node_MaintenanceMode (rec_Node record) \<or>
     node_CompatibilityStatus (rec_Node record) \<noteq> CompatibilitySupported)"

fun prepare :: "observe \<Rightarrow> Revision \<Rightarrow> DeploymentNode list \<Rightarrow> (refusal + preparedNode list) action" where
  "prepare obs revision [] = ret (Inr [])"
| "prepare obs revision (task # tasks) =
     bind (attempt (query (NodeRecordByID (task_NodeID task)))) (\<lambda>r.
     case r of
       Inl _ \<Rightarrow> ret (Inl (''TARGET_NOT_MUTABLE'', Some (PlainError ''a target is disabled, unavailable, or in maintenance'')))
     | Inr record \<Rightarrow>
       if \<not> mutable_target record
       then ret (Inl (''TARGET_NOT_MUTABLE'', Some (PlainError ''a target is disabled, unavailable, or in maintenance'')))
       else if IsLegacyConverted (des_Unsupported (rev_Document revision))
       then ret (Inl (''LEGACY_SCHEMA_NOT_DEPLOYABLE'', Some (PlainError ''legacy schema-1 records must be imported and published as schema 2 before deployment'')))
       else case Effective (rev_Document revision) (task_NodeID task) of
         Inl err \<Rightarrow> ret (Inl (''EFFECTIVE_CONFIGURATION_INVALID'', Some err))
       | Inr effective \<Rightarrow>
         bind (observe_node obs (task_NodeID task)) (\<lambda>s.
         case s of
           Inl err \<Rightarrow> ret (Inl (''TARGET_OBSERVATION_FAILED'', Some err))
         | Inr snapshot \<Rightarrow>
           (case snap_Document snapshot of
             None \<Rightarrow> ret (Inl (''TARGET_OBSERVATION_FAILED'', None))
           | Some document \<Rightarrow>
             if immutableNodeDifferences effective (ProjectDocument document (rev_SchemaVersion revision)) \<noteq> []
             then ret (Inl (''LISTENER_MUTATION_UNSUPPORTED'', Some (PlainError ''node listener identity changed after preview'')))
             else bind (prepare obs revision tasks) (\<lambda>p. ret (case p of
                 Inl refusal \<Rightarrow> Inl refusal
               | Inr prepared \<Rightarrow> Inr (\<lparr>pre_task = task, pre_record = record, pre_effective = effective\<rparr> # prepared))))))"

definition complete :: "Deployment \<Rightarrow> unit action" where
  "complete deployment =
     bind now (\<lambda>completed.
     let deployment = deployment\<lparr>dep_Status := Succeeded, dep_CompletedAt := Some completed\<rparr> in
     bind (systemAudit ''deployment.succeeded'' ''deployment'' (dep_ID deployment) (dep_RequestID deployment)
        [(''clusterId'', JString (dep_ClusterID deployment)), (''revisionId'', JString (dep_RevisionID deployment))] completed)
       (\<lambda>event. Finish deployment (dep_Origin deployment \<noteq> ''reconciliation'') event))"

text \<open>
  The write loop: \<open>done\<close> are the nodes that succeeded, the head of the last list is
  \<open>prepared[index]\<close>. The task of the current node is updated in place, so \<open>failNode\<close> sees it.
\<close>

fun run_nodes :: "observe \<Rightarrow> Deployment \<Rightarrow> Revision \<Rightarrow> preparedNode list \<Rightarrow> preparedNode list \<Rightarrow> int \<Rightarrow> unit action" where
  "run_nodes obs deployment revision dn [] succeeded = complete deployment"
| "run_nodes obs deployment revision dn (item # rest) succeeded =
     bind (query (DeploymentByID (dep_ID deployment))) (\<lambda>fresh.
     if dep_CancelRequested fresh then cancel fresh (length dn)
     else
       bind now (\<lambda>at.
       let nodeID = task_NodeID (pre_task item);
           applying = (pre_task item)\<lparr>task_Status := TaskApplying, task_AttemptCount := task_AttemptCount (pre_task item) + 1,
             task_StartedAt := Some at\<rparr> in
       bind (UpdateTask applying) (\<lambda>_.
       bind (exec (UpdateNodeConvergence nodeID ConvApplying at)) (\<lambda>_.
       bind (attempt (Decrypt nodeID (secret_Credentials (rec_Secrets (pre_record item))))) (\<lambda>c.
       case c of
         Inl _ \<Rightarrow> failNode deployment (dn @ item\<lparr>pre_task := applying\<rparr> # rest) (length dn) succeeded
           ''CREDENTIAL_DECRYPTION_FAILED'' (Some (PlainError ''stored node credentials could not be decrypted''))
       | Inr credentials \<Rightarrow>
         bind (ApplyConfiguration (probe_request (pre_record item) credentials) (pre_effective item)) (\<lambda>a.
         case a of
           Some err \<Rightarrow> failNode deployment (dn @ item\<lparr>pre_task := applying\<rparr> # rest) (length dn) succeeded (errorCode err) (Some err)
         | None \<Rightarrow>
           let verifying = applying\<lparr>task_Status := TaskVerifying\<rparr>;
               prepared = dn @ item\<lparr>pre_task := verifying\<rparr> # rest in
           bind (UpdateTask verifying) (\<lambda>_.
           bind now (\<lambda>vat.
           bind (exec (UpdateNodeConvergence nodeID ConvVerifying vat)) (\<lambda>_.
           bind (observe_node obs nodeID) (\<lambda>s.
           case s of
             Inl err \<Rightarrow> failNode deployment prepared (length dn) succeeded ''VERIFICATION_OBSERVATION_FAILED'' (Some err)
           | Inr snapshot \<Rightarrow>
             (case snap_Document snapshot of
               None \<Rightarrow> failNode deployment prepared (length dn) succeeded ''VERIFICATION_OBSERVATION_FAILED'' None
             | Some document \<Rightarrow>
               let differences = managedDifferences (pre_effective item) (ProjectDocument document (rev_SchemaVersion revision)) in
               if differences \<noteq> []
               then failNode deployment prepared (length dn) succeeded (kind_string ErrorVerification)
                 (Some (PlainError (''read-back produced '' @ digits (length differences) @ '' semantic differences'')))
               else
                 bind now (\<lambda>completed.
                 let finished = verifying\<lparr>task_Status := TaskSucceeded, task_CompletedAt := Some completed,
                       task_VerificationSnapshotID := Some (snap_ID snapshot)\<rparr> in
                 bind (UpdateTask finished) (\<lambda>_.
                 bind (exec_traced (EApplied nodeID (rev_ID revision) (task_EffectiveHash finished))
                   (MarkNodeApplied nodeID (rev_ID revision) (task_EffectiveHash finished) (snap_ID snapshot) completed)) (\<lambda>_.
                 run_nodes obs deployment revision (dn @ [item\<lparr>pre_task := finished\<rparr>]) rest (succeeded + 1)))))))))))))))"

text \<open>The part of \<open>execute\<close> that follows the loading of the revision, and the whole of it.\<close>

definition execute_revision :: "observe \<Rightarrow> Deployment \<Rightarrow> Revision \<Rightarrow> unit action" where
  "execute_revision obs deployment revision =
     bind (prepare obs revision (dep_Nodes deployment)) (\<lambda>p.
     case p of
       Inl (code, cause) \<Rightarrow> failBeforeMutation deployment code cause
     | Inr prepared \<Rightarrow>
       bind (exec_traced (ERunning (dep_ID deployment)) (SetDeploymentRunning (dep_ID deployment))) (\<lambda>_.
       run_nodes obs deployment revision [] prepared 0))"

definition execute :: "observe \<Rightarrow> string \<Rightarrow> unit action" where
  "execute obs i =
     bind (query (DeploymentByID i)) (\<lambda>deployment.
     if dep_CancelRequested deployment \<or> dep_Status deployment = Cancelling then cancel deployment 0
     else bind (attempt (query (RevisionByID (dep_RevisionID deployment)))) (\<lambda>r.
       case r of
         Inl err \<Rightarrow> failBeforeMutation deployment ''REVISION_UNAVAILABLE'' (Some err)
       | Inr revision \<Rightarrow> execute_revision obs deployment revision))"

definition RecoverInterrupted :: "string list \<Rightarrow> unit action" where
  "RecoverInterrupted ids = bind now (\<lambda>at. exec (InterruptDeployments at ids))"

text \<open>\<open>RunOnce\<close> reports whether it claimed a deployment.\<close>

definition RunOnce :: "observe \<Rightarrow> bool action" where
  "RunOnce obs = bind now (\<lambda>at. bind (call (ClaimDeployment at)) (\<lambda>i.
     if i = [] then ret False else bind (execute obs i) (\<lambda>_. ret True)))"


subsection \<open>What the endings emit\<close>

fun ending_event :: "event \<Rightarrow> bool" where
  "ending_event (ETask t) \<longleftrightarrow> True"
| "ending_event (EFinish p activate) \<longleftrightarrow> \<not> activate \<and> dep_Status p \<noteq> Succeeded"
| "ending_event _ \<longleftrightarrow> False"

lemma silent_systemAudit [quiet]: "silent (systemAudit a rt ri rq m at)"
  by (simp add: systemAudit_def quiet)

lemma only_UpdateTask: "P (ETask t) \<Longrightarrow> only P (UpdateTask t)"
  by (simp add: UpdateTask_def only_exec_traced)

lemma only_Finish: "P (EFinish p b) \<Longrightarrow> only P (Finish p b e)"
  by (simp add: Finish_def only_exec_traced)

lemma only_for_each: "(\<And>x. only P (f x)) \<Longrightarrow> only P (for_each xs f)"
  by (induction xs) (auto intro: only_silent only_bind quiet)

lemmas only_intros = only_bind only_silent only_UpdateTask only_Finish only_for_each quiet

lemma only_failBeforeMutation: "only ending_event (failBeforeMutation p code cause)"
  unfolding failBeforeMutation_def Let_def
  by (intro only_bind only_for_each only_UpdateTask only_Finish) (simp_all add: only_silent quiet)

lemma only_failNode: "only ending_event (failNode p prepared k n code cause)"
  unfolding failNode_def Let_def
  by (intro only_bind only_for_each only_UpdateTask only_Finish) (simp_all add: only_silent quiet)

lemma only_cancel: "only ending_event (cancel p k)"
proof -
  have "only ending_event (if b then UpdateTask t else ret ())" for b t
    by (cases b) (simp_all add: only_UpdateTask only_silent quiet)
  then show ?thesis
    unfolding cancel_def Let_def
    by (intro only_bind only_for_each only_Finish) (simp_all add: only_silent quiet)
qed


subsection \<open>The traces of the write loop\<close>

fun is_apply :: "event \<Rightarrow> bool" where
  "is_apply (EApply r d res) \<longleftrightarrow> True"
| "is_apply _ \<longleftrightarrow> False"

text \<open>
  A node that was written, read back and found to agree with its effective document in every
  managed field.
\<close>

definition verified :: "Revision \<Rightarrow> preparedNode \<Rightarrow> event list \<Rightarrow> bool" where
  "verified revision item us \<longleftrightarrow> (\<exists>t t' t'' request snapshot document.
     us = [ETask t, EApply request (pre_effective item) None, ETask t', EObserve (task_NodeID (pre_task item)) (Inr snapshot),
           ETask t'', EApplied (task_NodeID (pre_task item)) (rev_ID revision) (task_EffectiveHash (pre_task item))] \<and>
     probe_BaseURL request = node_BaseURL (rec_Node (pre_record item)) \<and>
     snap_Document snapshot = Some document \<and>
     managedDifferences (pre_effective item) (ProjectDocument document (rev_SchemaVersion revision)) = [])"

text \<open>The events of the node at which the loop stops: at most one write, and no activation.\<close>

fun stop_event :: "preparedNode \<Rightarrow> event \<Rightarrow> bool" where
  "stop_event item (EApply r document res) \<longleftrightarrow> document = pre_effective item"
| "stop_event item (EFinish p activate) \<longleftrightarrow> \<not> activate \<and> dep_Status p \<noteq> Succeeded"
| "stop_event item (ECreate p) \<longleftrightarrow> False"
| "stop_event item (ERunning i) \<longleftrightarrow> False"
| "stop_event item _ \<longleftrightarrow> True"

inductive run_trace :: "Deployment \<Rightarrow> Revision \<Rightarrow> preparedNode list \<Rightarrow> event list \<Rightarrow> bool"
  for deployment :: Deployment and revision :: Revision where
  stopped: "list_all (stop_event item) ts \<Longrightarrow> length (filter is_apply ts) \<le> 1 \<Longrightarrow>
    run_trace deployment revision (item # rest) ts"
| unfinished: "run_trace deployment revision [] []"
| finished: "p = deployment\<lparr>dep_Status := Succeeded, dep_CompletedAt := Some at\<rparr> \<Longrightarrow>
    run_trace deployment revision [] [EFinish p (dep_Origin deployment \<noteq> ''reconciliation'')]"
| next_node: "verified revision item us \<Longrightarrow> run_trace deployment revision rest ts \<Longrightarrow>
    run_trace deployment revision (item # rest) (us @ ts)"

lemma ending_stop: "ending_event ev \<Longrightarrow> stop_event item ev \<and> \<not> is_apply ev"
  by (cases ev) auto

lemma ending_filter: "list_all ending_event ts \<Longrightarrow> list_all (stop_event item) ts \<and> filter is_apply ts = []"
  by (induction ts) (auto dest: ending_stop)

lemma after_ending:
  assumes "only ending_event m" "list_all (stop_event item) us" "length (filter is_apply us) \<le> 1"
  shows "after us m (\<lambda>r. run_trace p rv (item # rest))"
  using assms(1) by (rule after_only) (use assms(2,3) ending_filter in \<open>force intro: run_trace.stopped\<close>)

subsection \<open>The traces of an execution\<close>

fun is_observe :: "event \<Rightarrow> bool" where
  "is_observe (EObserve i r) \<longleftrightarrow> True"
| "is_observe _ \<longleftrightarrow> False"

text \<open>A target that passed revalidation in the course of \<open>ts\<close>.\<close>

definition revalidated :: "Revision \<Rightarrow> event list \<Rightarrow> DeploymentNode \<Rightarrow> preparedNode \<Rightarrow> bool" where
  "revalidated revision ts task item \<longleftrightarrow>
     pre_task item = task \<and> node_ID (rec_Node (pre_record item)) = task_NodeID task \<and> mutable_target (pre_record item) \<and>
     \<not> IsLegacyConverted (des_Unsupported (rev_Document revision)) \<and>
     Effective (rev_Document revision) (task_NodeID task) = Inr (pre_effective item) \<and>
     (\<exists>snapshot document. EObserve (task_NodeID task) (Inr snapshot) \<in> set ts \<and> snap_Document snapshot = Some document \<and>
        immutableNodeDifferences (pre_effective item) (ProjectDocument document (rev_SchemaVersion revision)) = [])"

lemma revalidated_mono: "revalidated rv ts task item \<Longrightarrow> set ts \<subseteq> set us \<Longrightarrow> revalidated rv us task item"
  unfolding revalidated_def by blast

text \<open>
  A run of the executor either writes nothing, or revalidates every target, marks the deployment
  running, and then follows \<open>run_trace\<close>.
\<close>

definition writes_nothing :: "event list \<Rightarrow> bool" where
  "writes_nothing = list_all (\<lambda>ev. is_observe ev \<or> ending_event ev)"

definition execution_trace :: "Deployment \<Rightarrow> Revision \<Rightarrow> event list \<Rightarrow> bool" where
  "execution_trace p rv ts \<longleftrightarrow> writes_nothing ts \<or>
     (\<exists>prepared us vs. ts = us @ ERunning (dep_ID p) # vs \<and> list_all is_observe us \<and>
        list_all2 (revalidated rv us) (dep_Nodes p) prepared \<and> (vs = [] \<or> run_trace p rv prepared vs))"

lemma execution_trace_loop:
  assumes "list_all is_observe us" "list_all2 (revalidated rv us) (dep_Nodes p) prepared" "vs = [] \<or> run_trace p rv prepared vs"
  shows "execution_trace p rv ((us @ [ERunning (dep_ID p)]) @ vs)"
  unfolding execution_trace_def using assms by (intro disjI2 exI [of _ prepared] exI [of _ us] exI [of _ vs]) simp

lemma RevisionByID_ID: "RevisionByID i d = Inr r \<Longrightarrow> rev_ID r = i"
  by (auto simp: RevisionByID_def select_revision_def scanRevision_def Let_def RevisionRow.defs Revision.defs
      bind_eq_Some_conv dest!: query_row_Some)

lemma NodeRecordByID_ID: "NodeRecordByID i d = Inr r \<Longrightarrow> node_ID (rec_Node r) = i"
  by (auto simp: NodeRecordByID_def bind_err_Inr NodeRecord.defs dest!: query_row_Some)

lemma DeploymentByID_ID: "DeploymentByID i d = Inr p \<Longrightarrow> dep_ID p = i"
  by (auto simp: DeploymentByID_def bind_err_Inr scanDeployment_def DeploymentRow.defs Deployment.defs dest!: query_row_Some)

text \<open>The deployment and the revision that a run loads with its first two repository calls.\<close>

definition loaded :: "env \<Rightarrow> world \<Rightarrow> string \<Rightarrow> (Deployment \<times> Revision) option" where
  "loaded e w i =
    (let d = interfere e (w_tick w) (w_db w); d' = interfere e (Suc (w_tick w)) d in
     if db_fault e (w_tick w) \<or> db_fault e (Suc (w_tick w)) then None
     else case DeploymentByID i d of
       Inl _ \<Rightarrow> None
     | Inr p \<Rightarrow> (case RevisionByID (dep_RevisionID p) d' of Inl _ \<Rightarrow> None | Inr rv \<Rightarrow> Some (p, rv)))"

subsection \<open>The contract of the observer\<close>

text \<open>
  The executor relies on the observer only to read: observing a node writes no
  configuration and changes no deployment.
\<close>

locale observer =
  fixes obs :: observe
  assumes obs_silent: "silent (obs i)"
begin

lemma after_observe:
  assumes "\<And>r. after (us @ [EObserve i r]) (f r) Q"
  shows "after us (bind (observe_node obs i) f) Q"
proof -
  have "emits (observe_node obs i) (\<lambda>r ts. \<exists>s. r = Inr s \<and> ts = [EObserve i s])"
    unfolding observe_node_def
    by (rule emits_after, rule after_attempt [OF obs_silent]) (auto intro!: after_emit after_ret)
  then show ?thesis
    unfolding after_def
    by (rule emits_bind [where R = "\<lambda>s r ts. Q r (us @ [EObserve i s] @ ts)"])
       (use assms in \<open>auto simp: after_def\<close>)
qed

lemma after_apply:
  assumes "\<And>r. after (us @ [EApply q document r]) (f r) Q"
  shows "after us (bind (ApplyConfiguration q document) f) Q"
proof -
  have "emits (ApplyConfiguration q document) (\<lambda>r ts. \<exists>s. r = Inr s \<and> ts = [EApply q document s])"
    unfolding ApplyConfiguration_def by (rule emits_after, rule after_tick) (auto intro!: after_emit after_ret)
  then show ?thesis
    unfolding after_def
    by (rule emits_bind [where R = "\<lambda>s r ts. Q r (us @ [EApply q document s] @ ts)"])
       (use assms in \<open>auto simp: after_def\<close>)
qed

lemma after_complete: "after [] (complete p) (\<lambda>r. run_trace p rv [])"
  unfolding complete_def Let_def now_def Finish_def
  by (intro after_tick after_silent quiet)
     (auto simp: after_def intro!: emits_exec_traced run_trace.unfinished run_trace.finished)

lemma run_nodes_trace: "after [] (run_nodes obs p rv dn items n) (\<lambda>r. run_trace p rv items)"
proof (induction items arbitrary: dn n)
  case Nil
  show ?case by (simp add: after_complete)
next
  case (Cons item rest)
  let ?Q = "\<lambda>r :: go_error + unit. run_trace p rv (item # rest)"
  have stop: "?Q r us" if "list_all (stop_event item) us" "length (filter is_apply us) \<le> 1" for r us
    using that by (rule run_trace.stopped)
  note ends = after_ending [OF only_failNode] after_ending [OF only_cancel]
  have next_block: "after us (run_nodes obs p rv dn' rest n') ?Q" if "verified rv item us" for us dn' n'
    using Cons [of dn' n'] unfolding after_def
    by (rule emits_mono) (simp add: run_trace.next_node [OF that])
  show ?case
    unfolding run_nodes.simps Let_def now_def UpdateTask_def
    by (rule after_query after_tick after_exec_traced after_observe after_apply after_attempt [OF silent_Decrypt]
        after_silent [OF silent_exec] ends next_block stop allI impI conjI
      | (simp add: verified_def probe_request_def; fail)
      | split if_split sum.split option.split)+
qed

lemma prepare_trace:
  "emits (prepare obs rv tasks) (\<lambda>r ts. list_all is_observe ts \<and>
     (\<forall>prepared. r = Inr (Inr prepared) \<longrightarrow> list_all2 (revalidated rv ts) tasks prepared))"
proof (induction tasks)
  case Nil
  show ?case by (simp add: emits_ret)
next
  case (Cons task tasks)
  let ?Q = "\<lambda>r ts. list_all is_observe ts \<and>
     (\<forall>prepared. r = (Inr (Inr prepared) :: go_error + (refusal + _)) \<longrightarrow> list_all2 (revalidated rv ts) (task # tasks) prepared)"
  have rest: "after us (bind (prepare obs rv tasks) (\<lambda>p. ret (case p of Inl refusal \<Rightarrow> Inl refusal
      | Inr prepared \<Rightarrow> Inr (item # prepared)))) ?Q"
    if "list_all is_observe us" "revalidated rv us task item" for us item
  proof (rule after_bind [OF Cons], goal_cases)
    case (2 p ts)
    show ?case
    proof (rule after_ret, cases p)
      case (Inr prepared)
      with 2 that show "?Q (Inr (case p of Inl refusal \<Rightarrow> Inl refusal | Inr prepared \<Rightarrow> Inr (item # prepared))) (us @ ts)"
        by (auto intro: revalidated_mono [of rv us] elim!: list_all2_mono revalidated_mono)
    qed (use 2 that in auto)
  qed (use that in auto)
  show ?case
    unfolding prepare.simps
    by (rule emits_after)
       (rule after_attempt_query after_observe rest after_ret allI impI conjI
        | (auto simp: revalidated_def dest: NodeRecordByID_ID; fail)
        | split if_split sum.split option.split)+
qed

lemma quiet_end: "only ending_event m \<Longrightarrow> list_all is_observe us \<Longrightarrow> after us m (\<lambda>r. writes_nothing)"
  by (erule after_only) (auto simp: writes_nothing_def list_all_iff)

lemma execute_revision_trace: "emits (execute_revision obs p rv) (\<lambda>r. execution_trace p rv)"
  unfolding execute_revision_def
proof (rule emits_after, rule after_bind [OF prepare_trace], goal_cases)
  case (1 err ts)
  then show ?case by (auto simp: execution_trace_def writes_nothing_def list_all_iff)
next
  case (2 q ts)
  show ?case
  proof (cases q)
    case (Inl a)
    with 2 show ?thesis
      by (auto simp: execution_trace_def after_def intro!: emits_mono [OF quiet_end [OF only_failBeforeMutation, unfolded after_def]]
          split: prod.split)
  next
    case (Inr prepared)
    with 2 have *: "list_all is_observe ts" "list_all2 (revalidated rv ts) (dep_Nodes p) prepared" by simp_all
    note traced = execution_trace_loop [OF *]
    have "after (ts @ [ERunning (dep_ID p)]) (run_nodes obs p rv [] prepared 0) (\<lambda>r. execution_trace p rv)"
      using run_nodes_trace unfolding after_def by (rule emits_mono) (simp add: traced del: append_assoc)
    with traced [of "[]"] Inr show ?thesis by (auto intro!: after_exec_traced)
  qed
qed

lemma execute_trace:
  "\<exists>ts. w_trace (snd (execute obs i e w)) = w_trace w @ ts \<and> (writes_nothing ts \<or>
     (\<exists>p rv. loaded e w i = Some (p, rv) \<and> execution_trace p rv ts))"
proof -
  have quietly: "\<exists>ts. w_trace (snd (m e v)) = w_trace v @ ts \<and> writes_nothing ts" if "only ending_event m" for m :: "unit action" and v
    using quiet_end [OF that, of "[]"] by (simp add: after_def emits_def)
  have nothing [simp]: "writes_nothing []" by (simp add: writes_nothing_def)
  obtain r v where first: "query (DeploymentByID i) e w = (r, v)" by fastforce
  note first' = first [unfolded query_run, symmetric]
  show ?thesis
  proof (cases r)
    case (Inl err)
    with first first' show ?thesis by (auto simp: execute_def bind_def Let_def split: if_splits sum.splits)
  next
    case (Inr p)
    note p = Inr
    show ?thesis
    proof (cases "dep_CancelRequested p \<or> dep_Status p = Cancelling")
      case True
      with p first first' quietly [OF only_cancel, of p 0 v] show ?thesis
        by (auto simp: execute_def bind_def Let_def split: if_splits sum.splits)
    next
      case False
      obtain s u where second: "query (RevisionByID (dep_RevisionID p)) e v = (s, u)" by fastforce
      note second' = second [unfolded query_run, symmetric]
      have trace: "w_trace u = w_trace w" using first' second' by (auto simp: Let_def split: if_splits sum.splits)
      show ?thesis
      proof (cases s)
        case (Inl err)
        with p False first second trace quietly [OF only_failBeforeMutation, of p "''REVISION_UNAVAILABLE''" "Some err" u] show ?thesis
          by (auto simp: execute_def bind_def attempt_def)
      next
        case (Inr rv)
        with p first' second' have "loaded e w i = Some (p, rv)"
          by (auto simp: loaded_def Let_def split: if_splits sum.splits)
        with Inr p False first second trace execute_revision_trace [of p rv, unfolded emits_def, rule_format, of e u] show ?thesis
          by (auto simp: execute_def bind_def attempt_def)
      qed
    qed
  qed
qed

end

interpretation inventory_observer: observer Observe
  by unfold_locales (rule silent_Observe)


subsection \<open>Writes and activation\<close>

lemma verified_apply:
  "verified rv item us \<Longrightarrow> us = ls @ EApply q document res # rs \<Longrightarrow>
     document = pre_effective item \<and> filter is_apply ls = [] \<and> res = None"
  by (auto simp: verified_def Cons_eq_append_conv append_eq_Cons_conv)

lemma stop_apply:
  assumes "list_all (stop_event item) us" "length (filter is_apply us) \<le> 1" "us = ls @ EApply q document res # rs"
  shows "document = pre_effective item \<and> filter is_apply ls = []"
  using assms by auto

text \<open>
  Every write is the write of one target; the targets before it have been verified, and nothing
  else was written.
\<close>

lemma run_trace_apply:
  assumes "run_trace p rv items ts" "ts = ls @ EApply q document res # rs"
  shows "\<exists>before item later blocks tail. items = before @ item # later \<and> document = pre_effective item \<and>
    ls = concat blocks @ tail \<and> list_all2 (verified rv) before blocks \<and> filter is_apply tail = []"
  using assms
proof (induction arbitrary: ls)
  case (stopped item ts rest)
  with stop_apply [OF stopped(1,2,3)] show ?case
    by (intro exI [of _ "[]"] exI [of _ item] exI [of _ rest] exI [of _ "[]"] exI [of _ ls]) simp
next
  case (next_node item us rest ts)
  from next_node(4) consider (here) zs where "us = ls @ EApply q document res # zs"
    | (later) zs where "ls = us @ zs" "ts = zs @ EApply q document res # rs"
    by (auto simp: append_eq_append_conv2 append_eq_Cons_conv)
  then show ?case
  proof cases
    case here
    with verified_apply [OF next_node(1) here] show ?thesis
      by (intro exI [of _ "[]"] exI [of _ item] exI [of _ rest] exI [of _ "[]"] exI [of _ ls]) simp
  next
    case later
    from next_node(3) [OF later(2)] obtain before it after blocks tail where
      "rest = before @ it # after" "document = pre_effective it" "zs = concat blocks @ tail"
      "list_all2 (verified rv) before blocks" "filter is_apply tail = []" by blast
    with later next_node(1) show ?thesis
      by (intro exI [of _ "item # before"] exI [of _ it] exI [of _ after] exI [of _ "us # blocks"] exI [of _ tail]) simp
  qed
qed (auto simp: Cons_eq_append_conv)

lemma verified_no_finish: "verified rv item us \<Longrightarrow> EFinish p b \<notin> set us"
  by (auto simp: verified_def)

lemma run_trace_finish:
  assumes "run_trace p rv items ts" "EFinish p' b \<in> set ts" "b \<or> dep_Status p' = Succeeded"
  shows "\<exists>blocks at. ts = concat blocks @ [EFinish p' b] \<and> list_all2 (verified rv) items blocks \<and>
    p' = p\<lparr>dep_Status := Succeeded, dep_CompletedAt := Some at\<rparr> \<and> b = (dep_Origin p \<noteq> ''reconciliation'')"
  using assms
proof (induction)
  case (stopped item ts rest)
  then show ?case by (auto simp: list_all_iff)
next
  case (finished p'' at)
  then show ?case by (intro exI [of _ "[]"] exI [of _ at]) simp
next
  case (next_node item us rest ts)
  then obtain blocks at where "ts = concat blocks @ [EFinish p' b]" "list_all2 (verified rv) rest blocks"
    "p' = p\<lparr>dep_Status := Succeeded, dep_CompletedAt := Some at\<rparr>" "b = (dep_Origin p \<noteq> ''reconciliation'')"
    by (auto dest: verified_no_finish)
  with next_node(1) show ?case by (intro exI [of _ "us # blocks"] exI [of _ at]) simp
qed simp

lemma observe_no_apply: "list_all is_observe us \<Longrightarrow> filter is_apply us = [] \<and> EFinish p b \<notin> set us"
  by (induction us) (auto elim: is_observe.elims)

lemma writes_nothing_apply: "writes_nothing ts \<Longrightarrow> EApply q document res \<notin> set ts"
  by (auto simp: writes_nothing_def list_all_iff)

lemma writes_nothing_finish: "writes_nothing ts \<Longrightarrow> EFinish p b \<in> set ts \<Longrightarrow> \<not> b \<and> dep_Status p \<noteq> Succeeded"
  by (auto simp: writes_nothing_def list_all_iff)

lemma execution_trace_apply:
  assumes "execution_trace p rv (ls @ EApply q document res # rs)"
  shows "\<exists>us before item later blocks tail. list_all2 (revalidated rv us) (dep_Nodes p) (before @ item # later) \<and>
    document = pre_effective item \<and> ls = us @ ERunning (dep_ID p) # concat blocks @ tail \<and>
    list_all2 (verified rv) before blocks \<and> filter is_apply (us @ tail) = []"
proof -
  from assms obtain prepared us vs where *: "ls @ EApply q document res # rs = us @ ERunning (dep_ID p) # vs"
    "list_all is_observe us" "list_all2 (revalidated rv us) (dep_Nodes p) prepared" "vs = [] \<or> run_trace p rv prepared vs"
    using writes_nothing_apply by (force simp: execution_trace_def)
  then obtain zs where zs: "ls = us @ ERunning (dep_ID p) # zs" "vs = zs @ EApply q document res # rs"
    using observe_no_apply [OF *(2)] by (auto simp: append_eq_append_conv2 append_eq_Cons_conv Cons_eq_append_conv)
  with *(4) run_trace_apply [of p rv prepared vs zs] obtain before item later blocks tail where
    "prepared = before @ item # later" "document = pre_effective item" "zs = concat blocks @ tail"
    "list_all2 (verified rv) before blocks" "filter is_apply tail = []" by auto
  with *(3) zs(1) observe_no_apply [OF *(2)] show ?thesis
    by (intro exI [of _ us] exI [of _ before] exI [of _ item] exI [of _ later] exI [of _ blocks] exI [of _ tail]) simp
qed

lemma execution_trace_finish:
  assumes "execution_trace p rv ts" "EFinish p' b \<in> set ts" "b \<or> dep_Status p' = Succeeded"
  shows "\<exists>us prepared blocks at. ts = us @ ERunning (dep_ID p) # concat blocks @ [EFinish p' b] \<and>
    list_all2 (revalidated rv us) (dep_Nodes p) prepared \<and> list_all2 (verified rv) prepared blocks \<and>
    p' = p\<lparr>dep_Status := Succeeded, dep_CompletedAt := Some at\<rparr> \<and> b = (dep_Origin p \<noteq> ''reconciliation'')"
proof -
  from assms obtain prepared us vs where *: "ts = us @ ERunning (dep_ID p) # vs"
    "list_all is_observe us" "list_all2 (revalidated rv us) (dep_Nodes p) prepared" "vs = [] \<or> run_trace p rv prepared vs"
    using writes_nothing_finish [of ts p' b] by (auto simp: execution_trace_def)
  with assms(2) observe_no_apply [OF *(2)] have finish: "EFinish p' b \<in> set vs" by auto
  with *(4) have "run_trace p rv prepared vs" by auto
  from run_trace_finish [OF this finish assms(3)] obtain blocks at where "vs = concat blocks @ [EFinish p' b]"
    "list_all2 (verified rv) prepared blocks" "p' = p\<lparr>dep_Status := Succeeded, dep_CompletedAt := Some at\<rparr>"
    "b = (dep_Origin p \<noteq> ''reconciliation'')" by blast
  with *(1,3) show ?thesis by blast
qed

end
