(* ===== verification/Service.thy ===== *)
theory Service
  imports Executor
begin

text \<open>
  The control plane service, \<open>internal/controlplane/service.go\<close>: drafts, revisions, previews,
  deployments and drift. A method of the Go struct is an action; the fields of the struct that
  are collaborators are the record \<open>service\<close>: the standard library's URL parser and time zone
  database, and the optional validator of blocked service identifiers. Methods that have the
  name of the repository method they call carry the prefix \<open>Service_\<close>.
\<close>

subsection \<open>The service and its results\<close>

record service =
  srv_host :: host
  srv_blockedServiceValidator :: "(string \<Rightarrow> string list \<Rightarrow> ValidationIssue list action) option"

record Preview =
  preview_RevisionID :: string
  preview_Strategy :: string
  preview_FailurePolicy :: string
  preview_Differences :: "Difference list"
  preview_RestartRequired :: bool
  preview_Valid :: bool
  preview_Issues :: "ValidationIssue list"
  preview_Nodes :: "PreviewNode list"

definition userAudit :: "Actor \<Rightarrow> string \<Rightarrow> string \<Rightarrow> string \<Rightarrow> json gomap \<Rightarrow> time \<Rightarrow> AuditEvent action" where
  "userAudit actor action resourceType resourceID metadata at =
    (if \<not> ValidID (actor_UserID actor) \<or> \<not> ValidID (actor_RequestID actor)
     then fail (PlainError ''audit actor is invalid'')
     else bind NewID_act (\<lambda>i. ret
       \<lparr>audit_ID = i, audit_ActorType = ''user'', audit_ActorUserID = Some (actor_UserID actor), audit_Action = action,
        audit_ResourceType = resourceType, audit_ResourceID = Some resourceID, audit_RequestID = actor_RequestID actor,
        audit_Metadata = metadata, audit_CreatedAt = at\<rparr>))"

definition enabledNodeIDs :: "Node list \<Rightarrow> string list" where
  "enabledNodeIDs nodes = sort (map node_ID (filter node_Enabled nodes))"

definition DriftFingerprint :: "string \<Rightarrow> string \<Rightarrow> string \<Rightarrow> string" where
  "DriftFingerprint revisionID desiredHash observedHash =
     sha256_hex (revisionID @ CHR 0x00 # desiredHash @ CHR 0x00 # observedHash)"


subsection \<open>The preview of a document\<close>

definition selects :: "string list \<Rightarrow> Node \<Rightarrow> bool" where
  "selects selected node \<longleftrightarrow>
     \<not> (\<not> node_Enabled node \<or> node_MaintenanceMode node \<or> selected \<noteq> [] \<and> node_ID node \<notin> set selected)"

text \<open>The less function of \<open>sort.SliceStable\<close>: nodes without DHCP come before those with it.\<close>

definition dhcp_before :: "DesiredDocument \<Rightarrow> Node \<Rightarrow> Node \<Rightarrow> bool" where
  "dhcp_before document a b \<longleftrightarrow>
     \<not> dhcp_enabled_in (des_NodeOverrides document) (node_ID a) \<and> dhcp_enabled_in (des_NodeOverrides document) (node_ID b)"

definition targets_of :: "DesiredDocument \<Rightarrow> string list \<Rightarrow> Node list \<Rightarrow> Node list" where
  "targets_of document selected nodes =
    (let targets = filter (selects selected) nodes in
     if des_SchemaVersion document \<ge> SchemaVersion then sort_slice (dhcp_before document) targets else targets)"

definition missing_override :: string where
  "missing_override = ''is required for every enabled node''"

text \<open>
  With a revision at hand, a missing override is explained by the name of the node.
  \<open>nodeNames[nodeID]\<close> is the empty string for an unknown node.
\<close>

definition explain_issue :: "Node list \<Rightarrow> ValidationIssue \<Rightarrow> ValidationIssue" where
  "explain_issue nodes item =
    (if prefix ''nodeOverrides.'' (issue_Field item) \<and> issue_Message item = missing_override
     then let nodeID = drop (length ''nodeOverrides.'') (issue_Field item);
              known = map_of (rev (map (\<lambda>n. (node_ID n, node_Name n)) nodes)) nodeID;
              nodeName = (case known of None \<Rightarrow> [] | Some name \<Rightarrow> name)
          in item\<lparr>issue_Message := (if nodeName = [] then nodeID else nodeName) @
               '' is not present in this immutable revision; refresh and import its latest observation into the draft, then validate and publish a new revision''\<rparr>
     else item)"

definition explained_issues :: "service \<Rightarrow> string \<Rightarrow> DesiredDocument \<Rightarrow> Node list \<Rightarrow> ValidationIssue list" where
  "explained_issues s revisionID document nodes =
    (let issues = ValidateDesired (srv_host s) document (enabledNodeIDs nodes) in
     if revisionID \<noteq> [] then map (explain_issue nodes) issues else issues)"

definition catalogue_issues :: "service \<Rightarrow> string \<Rightarrow> DesiredDocument \<Rightarrow> ValidationIssue list action" where
  "catalogue_issues s clusterID document =
    (case srv_blockedServiceValidator s of
       None \<Rightarrow> ret []
     | Some validate \<Rightarrow>
         if des_SchemaVersion document \<ge> SchemaVersion
         then validate clusterID (svc_BlockedServiceIDs (sh_Services (des_Shared document)))
         else ret [])"

definition has_feature :: "bool gomap \<Rightarrow> string \<Rightarrow> bool" where
  "has_feature features f \<longleftrightarrow> map_of features f = Some True"

text \<open>The features a document needs on a node, in the order in which the preview asks for them.\<close>

definition rewrite_toggle_required :: "Shared \<Rightarrow> bool" where
  "rewrite_toggle_required sh \<longleftrightarrow> \<not> sh_RewritesEnabled sh \<or> list_ex (\<lambda>r. \<not> rewrite_Enabled r) (elems (sh_Rewrites sh))"

definition ignored_toggle_required :: "Shared \<Rightarrow> bool" where
  "ignored_toggle_required sh \<longleftrightarrow>
     \<not> ql_IgnoredEnabled (sh_QueryLog sh) \<and> ql_Ignored (sh_QueryLog sh) \<noteq> [] \<or>
     \<not> st_IgnoredEnabled (sh_Statistics sh) \<and> st_Ignored (sh_Statistics sh) \<noteq> []"

definition required_features :: "DesiredDocument \<Rightarrow> Document \<Rightarrow> string list" where
  "required_features document effective =
    (let v2 = des_SchemaVersion document \<ge> SchemaVersion; sh = des_Shared document in
     [''dns'', ''filtering''] @
     (if v2 then [''clients'', ''rewrites'', ''blocked_services'', ''safety'', ''query_log'', ''statistics'', ''tls''] @
        (if ns_DHCP (doc_NodeSpecific effective) \<noteq> None then [''dhcp''] else []) else []) @
     (if ss_Ecosia (svc_SafeSearch (sh_Services sh)) then [''safe_search_ecosia''] else []) @
     (if v2 then
        (if flt_UpdateInterval (sh_Filtering sh) \<notin> {0, 1, 12, 24, 72, 168} then [''filter_interval_arbitrary''] else []) @
        (if dns_CacheEnabled (sh_DNS sh) \<noteq> (dns_CacheSize (sh_DNS sh) > 0) then [''cache_toggle''] else []) @
        (if dns_UpstreamTimeout (sh_DNS sh) > 0 then [''upstream_timeout''] else []) @
        (if rewrite_toggle_required sh then [''rewrite_toggle''] else []) @
        (if ignored_toggle_required sh then [''ignored_lists_toggle''] else [])
      else []))"

definition missing_features :: "CapabilityProfile option \<Rightarrow> string list \<Rightarrow> string list" where
  "missing_features profile required =
     filter (\<lambda>f. \<not> (case profile of None \<Rightarrow> False | Some p \<Rightarrow> has_feature (cap_Features p) f)) required"

fun join_comma :: "string list \<Rightarrow> string" where
  "join_comma [] = []"
| "join_comma [x] = x"
| "join_comma (x # y # ys) = x @ '', '' @ join_comma (y # ys)"

definition capability_warning :: "CapabilityProfile option \<Rightarrow> string list \<Rightarrow> string option" where
  "capability_warning profile missing =
    (case profile of
       None \<Rightarrow> Some ''Node capabilities have not been refreshed; refresh its configuration observation before deployment.''
     | Some p \<Rightarrow>
         if cap_Compatibility p \<noteq> compatibility_string CompatibilitySupported
         then Some ''The node's AdGuard Home API version is outside the tested managed-write range.''
         else if missing \<noteq> []
         then Some (''Required managed capabilities are unavailable: '' @ join_comma missing @ ''.'')
         else None)"

definition observation_warning :: "DesiredDocument \<Rightarrow> Document \<Rightarrow> Snapshot option \<Rightarrow> string \<Rightarrow> ValidationIssue option" where
  "observation_warning document effective snapshot nodeID =
    (case snapshot of
       None \<Rightarrow> Some (issue (''nodes.'' @ nodeID) ''A successful current configuration observation is required.'')
     | Some s \<Rightarrow>
       (case snap_Document s of
          None \<Rightarrow> Some (issue (''nodes.'' @ nodeID) ''A successful current configuration observation is required.'')
        | Some observed \<Rightarrow>
          if snap_CollectionStatus s \<noteq> ''succeeded''
          then Some (issue (''nodes.'' @ nodeID) ''A successful current configuration observation is required.'')
          else if immutableNodeDifferences effective (ProjectDocument observed (des_SchemaVersion document)) \<noteq> []
          then Some (issue (''nodeOverrides.'' @ nodeID)
            ''DNS bind hosts or port differ; AdGuard Home has no supported API writer for these values.'')
          else None))"

text \<open>
  One turn of the loop over the targets: the entry of the node and the issues it adds. The
  second warning overwrites the first.
\<close>

definition preview_node :: "DesiredDocument \<Rightarrow> Snapshot list \<Rightarrow> CapabilityProfile list \<Rightarrow> nat \<Rightarrow> Node \<Rightarrow> PreviewNode \<times> ValidationIssue list" where
  "preview_node document snapshots profiles index node =
    (case Effective document (node_ID node) of
       Inl _ \<Rightarrow> (\<lparr>pn_NodeID = node_ID node, pn_Position = int index + 1, pn_EffectiveHash = [], pn_Valid = False,
                  pn_Warning = ''This revision has no listener override for the current node identity.''\<rparr>, [])
     | Inr effective \<Rightarrow>
       let profile = map_of (rev (map (\<lambda>p. (cap_NodeID p, p)) profiles)) (node_ID node);
           snapshot = map_of (rev (map (\<lambda>s. (snap_NodeID s, s)) snapshots)) (node_ID node);
           capability = capability_warning profile (missing_features profile (required_features document effective));
           observation = observation_warning document effective snapshot (node_ID node)
       in (\<lparr>pn_NodeID = node_ID node, pn_Position = int index + 1, pn_EffectiveHash = snd (Marshal effective),
            pn_Valid = (capability = None \<and> observation = None),
            pn_Warning = (case observation of Some i \<Rightarrow> issue_Message i | None \<Rightarrow> (case capability of Some m \<Rightarrow> m | None \<Rightarrow> []))\<rparr>,
           (case capability of Some m \<Rightarrow> [issue (''nodes.'' @ node_ID node) m] | None \<Rightarrow> []) @
           (case observation of Some i \<Rightarrow> [i] | None \<Rightarrow> [])))"

fun preview_nodes :: "DesiredDocument \<Rightarrow> Snapshot list \<Rightarrow> CapabilityProfile list \<Rightarrow> nat \<Rightarrow> Node list \<Rightarrow> PreviewNode list \<times> ValidationIssue list" where
  "preview_nodes document snapshots profiles index [] = ([], [])"
| "preview_nodes document snapshots profiles index (node # nodes) =
    (let (item, issues) = preview_node document snapshots profiles index node;
         (items, more) = preview_nodes document snapshots profiles (Suc index) nodes
     in (item # items, issues @ more))"

definition no_target_issues :: "Node list \<Rightarrow> Node list \<Rightarrow> ValidationIssue list" where
  "no_target_issues targets nodes =
    (if targets \<noteq> [] then []
     else [issue ''nodes'' (if list_ex (\<lambda>n. node_Enabled n \<and> node_MaintenanceMode n) nodes
       then ''No deployment targets are eligible while every enabled node is in Maintenance Mode.''
       else ''No enabled deployment targets are available.'')])"

definition assemble_preview :: "service \<Rightarrow> string \<Rightarrow> DesiredDocument \<Rightarrow> string list \<Rightarrow> Node list \<Rightarrow> ValidationIssue list \<Rightarrow>
    Snapshot list \<Rightarrow> CapabilityProfile list \<Rightarrow> Preview" where
  "assemble_preview s revisionID document selected nodes catalogueIssues snapshots profiles =
    (let targets = targets_of document selected nodes;
         (items, nodeIssues) = preview_nodes document snapshots profiles 0 targets;
         issues = explained_issues s revisionID document nodes @ catalogueIssues @ nodeIssues @ no_target_issues targets nodes
     in \<lparr>preview_RevisionID = revisionID, preview_Strategy = ''sequential'', preview_FailurePolicy = ''stop'',
         preview_Differences = [], preview_RestartRequired = False, preview_Valid = (issues = [] \<and> items \<noteq> []),
         preview_Issues = issues, preview_Nodes = items\<rparr>)"

definition previewDocument :: "service \<Rightarrow> string \<Rightarrow> string \<Rightarrow> DesiredDocument \<Rightarrow> string list \<Rightarrow> Preview action" where
  "previewDocument s clusterID revisionID document selected =
     bind (list_query (ListNodes clusterID)) (\<lambda>nodes.
     bind (catalogue_issues s clusterID document) (\<lambda>catalogueIssues.
     bind (list_query (LatestSnapshots clusterID)) (\<lambda>snapshots.
     bind (list_query (CapabilityProfiles clusterID)) (\<lambda>profiles.
     ret (assemble_preview s revisionID document selected nodes catalogueIssues snapshots profiles)))))"


subsection \<open>Drafts and revisions\<close>

definition UpdateDraft :: "service \<Rightarrow> Actor \<Rightarrow> string \<Rightarrow> int \<Rightarrow> DesiredDocument \<Rightarrow> (Draft \<times> ValidationIssue list) action" where
  "UpdateDraft s actor clusterID expectedVersion document =
    (if \<not> ValidID clusterID then fail (Validation ''clusterId'' ''must be a valid UUID'')
     else bind (query (DraftByCluster clusterID)) (\<lambda>draft.
       if expectedVersion \<noteq> draft_Version draft then fail draft_conflict
       else bind (list_query (ListNodes clusterID)) (\<lambda>nodes.
         let issues = ValidateDesired (srv_host s) document (enabledNodeIDs nodes) in
         if des_SchemaVersion document \<noteq> SchemaVersion
         then fail (Validation ''document.schemaVersion'' ''must be 2; refresh and import a current observation before editing'')
         else
           let document = CanonicaliseDesired document in
           bind now (\<lambda>at.
           let draft = draft\<lparr>draft_Document := document, draft_CanonicalHash := snd (MarshalDesired document),
                 draft_Version := expectedVersion + 1, draft_UpdatedBy := actor_UserID actor, draft_UpdatedAt := at\<rparr> in
           bind (userAudit actor ''configuration.draft_updated'' ''configuration_draft'' (draft_ID draft)
             [(''clusterId'', JString clusterID), (''valid'', JBool (issues = []))] at) (\<lambda>event.
           bind (exec (UpdateConfigurationDraft draft expectedVersion event)) (\<lambda>_. ret (draft, issues)))))))"

definition ValidateDraft :: "service \<Rightarrow> string \<Rightarrow> Preview action" where
  "ValidateDraft s clusterID =
    (if \<not> ValidID clusterID then fail (Validation ''clusterId'' ''must be a valid UUID'')
     else bind (query (DraftByCluster clusterID)) (\<lambda>draft. previewDocument s clusterID [] (draft_Document draft) []))"

definition no_lifecycle :: Lifecycle where
  "no_lifecycle = \<lparr>CanArchive = False, CanRestore = False, CanDelete = False\<rparr>"

definition Publish :: "service \<Rightarrow> Actor \<Rightarrow> string \<Rightarrow> string \<Rightarrow> int \<Rightarrow> Revision action" where
  "Publish s actor clusterID summary expectedVersion =
    (if \<not> ValidID clusterID then fail (Validation ''clusterId'' ''must be a valid UUID'')
     else let summary = TrimSpace summary in
       if length summary < 1 \<or> length summary > 500
       then fail (Validation ''summary'' ''must contain between 1 and 500 characters'')
       else bind (query (DraftByCluster clusterID)) (\<lambda>draft.
         if expectedVersion \<noteq> draft_Version draft then fail draft_conflict
         else if draft_SchemaVersion draft \<noteq> SchemaVersion \<or> des_SchemaVersion (draft_Document draft) \<noteq> SchemaVersion
         then fail (NewError ErrorConflict ''the draft uses legacy schema v1; refresh and import a current observation before publishing'')
         else bind (previewDocument s clusterID [] (draft_Document draft) []) (\<lambda>preview.
           if \<not> preview_Valid preview
           then fail (NewError ErrorCapability ''the draft has validation or capability issues'')
           else bind NewID_act (\<lambda>i.
             let hash = snd (MarshalDesired (draft_Document draft)) in
             bind now (\<lambda>at.
             let revision = \<lparr>rev_ID = i, rev_ClusterID = clusterID, rev_RevisionNumber = 0, rev_SchemaVersion = SchemaVersion,
                   rev_Document = CanonicaliseDesired (draft_Document draft), rev_CanonicalHash = hash, rev_Summary = summary,
                   rev_CreatedBy = actor_UserID actor, rev_CreatedAt = at, rev_ArchivedAt = None, rev_ArchivedBy = None,
                   rev_Active = False, rev_Lifecycle = no_lifecycle\<rparr> in
             bind (userAudit actor ''configuration.revision_published'' ''configuration_revision'' i
               [(''clusterId'', JString clusterID), (''summary'', JString summary), (''canonicalHash'', JString hash)] at) (\<lambda>event.
             call (PublishRevision revision expectedVersion event)))))))"

definition Service_ListRevisions :: "string \<Rightarrow> bool \<Rightarrow> Revision list action" where
  "Service_ListRevisions clusterID includeArchived =
    (if \<not> ValidID clusterID then fail (Validation ''clusterId'' ''must be a valid UUID'')
     else list_query (ListRevisions clusterID includeArchived))"

definition Service_Revision :: "string \<Rightarrow> Revision action" where
  "Service_Revision i =
    (if \<not> ValidID i then fail (Validation ''revisionId'' ''must be a valid UUID'') else query (RevisionByID i))"

definition revision_metadata :: "Revision \<Rightarrow> json gomap" where
  "revision_metadata revision =
     [(''clusterId'', JString (rev_ClusterID revision)), (''revisionNumber'', JInt (rev_RevisionNumber revision))]"

definition Service_SetRevisionArchived :: "Actor \<Rightarrow> string \<Rightarrow> bool \<Rightarrow> bool \<Rightarrow> unit action" where
  "Service_SetRevisionArchived actor i archived confirmed =
    (if \<not> confirmed then fail (Validation ''confirmed'' ''must be true after reviewing the lifecycle impact'')
     else bind (Service_Revision i) (\<lambda>revision.
       bind now (\<lambda>at.
       bind (userAudit actor (if archived then ''configuration.revision_archived'' else ''configuration.revision_restored'')
         ''configuration_revision'' i (revision_metadata revision) at) (\<lambda>event.
       bind now (\<lambda>at. exec (SetRevisionArchived i (actor_UserID actor) archived at event))))))"

definition Service_DeleteUnusedRevision :: "Actor \<Rightarrow> string \<Rightarrow> string \<Rightarrow> unit action" where
  "Service_DeleteUnusedRevision actor i confirmation =
     bind (Service_Revision i) (\<lambda>revision.
     if confirmation \<noteq> ''DELETE REVISION #'' @ itoa (rev_RevisionNumber revision)
     then fail (Validation ''confirmation'' ''must exactly match the unused revision confirmation phrase'')
     else bind now (\<lambda>at.
       bind (userAudit actor ''configuration.revision_deleted_unused'' ''configuration_revision'' i (revision_metadata revision) at)
         (\<lambda>event. exec (DeleteUnusedRevision i event))))"

definition CompareRevisions :: "string \<Rightarrow> string \<Rightarrow> Difference list action" where
  "CompareRevisions leftID rightID =
     bind (Service_Revision leftID) (\<lambda>left.
     bind (Service_Revision rightID) (\<lambda>right.
     if rev_ClusterID left \<noteq> rev_ClusterID right \<or> rev_SchemaVersion left \<noteq> rev_SchemaVersion right
     then fail (Validation ''revisionId'' ''revisions must belong to the same cluster and schema'')
     else ret (DiffDesired (rev_Document left) (rev_Document right))))"

definition empty_desired :: DesiredDocument where
  "empty_desired = \<lparr>des_SchemaVersion = SchemaVersion, des_Shared = zero_Shared, des_NodeOverrides = [], des_Unsupported = None\<rparr>"

definition PreviewDeployment :: "service \<Rightarrow> string \<Rightarrow> string \<Rightarrow> Preview action" where
  "PreviewDeployment s clusterID revisionID =
     bind (Service_Revision revisionID) (\<lambda>revision.
     if rev_ClusterID revision \<noteq> clusterID then fail (Validation ''revisionId'' ''revision does not belong to the cluster'')
     else bind (previewDocument s clusterID revisionID (rev_Document revision) []) (\<lambda>preview.
       bind (query (ClusterByID clusterID)) (\<lambda>cluster.
       bind (case cluster_ActiveRevisionID cluster of
           None \<Rightarrow> ret empty_desired
         | Some activeID \<Rightarrow> bind (query (RevisionByID activeID)) (\<lambda>active. ret (rev_Document active))) (\<lambda>baseline.
       ret (preview\<lparr>preview_Differences := DiffDesired baseline (rev_Document revision)\<rparr>)))))"


subsection \<open>Deployments\<close>

fun new_tasks :: "string \<Rightarrow> PreviewNode list \<Rightarrow> DeploymentNode list action" where
  "new_tasks deploymentID [] = ret []"
| "new_tasks deploymentID (target # targets) =
     bind NewID_act (\<lambda>taskID.
     bind (new_tasks deploymentID targets) (\<lambda>tasks.
     ret (\<lparr>task_ID = taskID, task_DeploymentID = deploymentID, task_NodeID = pn_NodeID target, task_Position = pn_Position target,
           task_EffectiveHash = pn_EffectiveHash target, task_Status = TaskPending, task_AttemptCount = 0, task_StartedAt = None,
           task_CompletedAt = None, task_ErrorCode = [], task_ErrorMessage = [], task_VerificationSnapshotID = None\<rparr> # tasks)))"

definition deployment_action :: "string \<Rightarrow> string" where
  "deployment_action origin =
    (if origin = ''rollback'' then ''deployment.rollback_created''
     else if origin = ''reconciliation'' then ''deployment.reconciliation_created'' else ''deployment.created'')"

definition create_deployment :: "Actor option \<Rightarrow> string \<Rightarrow> string \<Rightarrow> string \<Rightarrow> string option \<Rightarrow> PreviewNode list \<Rightarrow> Deployment action" where
  "create_deployment actor clusterID revisionID origin rollbackOf targets =
     bind NewID_act (\<lambda>i.
     bind now (\<lambda>at.
     bind NewID_act (\<lambda>freshID.
     let requestID = (case actor of None \<Rightarrow> freshID | Some a \<Rightarrow> actor_RequestID a) in
     bind (new_tasks i targets) (\<lambda>tasks.
     let deployment = \<lparr>dep_ID = i, dep_ClusterID = clusterID, dep_RevisionID = revisionID, dep_Status = Queued,
           dep_Strategy = ''sequential'', dep_FailurePolicy = ''stop'', dep_Origin = origin, dep_RollbackOfRevisionID = rollbackOf,
           dep_RequestedBy = map_option actor_UserID actor, dep_RequestID = requestID, dep_CancelRequested = False,
           dep_ErrorCode = [], dep_RequestedAt = at, dep_StartedAt = None, dep_CompletedAt = None, dep_ArchivedAt = None,
           dep_ArchivedBy = None, dep_Lifecycle = no_lifecycle, dep_Nodes = tasks\<rparr>;
         metadata = [(''clusterId'', JString clusterID), (''revisionId'', JString revisionID), (''targetCount'', JInt (int (length tasks)))] in
     bind (case actor of
         None \<Rightarrow> systemAudit (deployment_action origin) ''deployment'' i requestID metadata at
       | Some a \<Rightarrow> userAudit a (deployment_action origin) ''deployment'' i metadata at) (\<lambda>event.
     bind (exec_traced (ECreate deployment) (CreateDeployment deployment event)) (\<lambda>_. ret deployment))))))"

definition startDeployment :: "service \<Rightarrow> Actor option \<Rightarrow> string \<Rightarrow> string \<Rightarrow> string \<Rightarrow> string option \<Rightarrow> string list \<Rightarrow> Deployment action" where
  "startDeployment s actor clusterID revisionID origin rollbackOf targetNodeIDs =
    (if origin \<notin> {''manual'', ''rollback'', ''reconciliation''} then fail (Validation ''origin'' ''is invalid'')
     else if origin \<noteq> ''reconciliation'' \<and> targetNodeIDs \<noteq> []
     then fail (Validation ''targetNodeIds'' ''targeted deployments are reserved for drift reconciliation'')
     else bind (Service_Revision revisionID) (\<lambda>revision.
       if rev_ClusterID revision \<noteq> clusterID then fail (Validation ''revisionId'' ''revision does not belong to the cluster'')
       else bind (previewDocument s clusterID revisionID (rev_Document revision) targetNodeIDs) (\<lambda>preview.
         if \<not> preview_Valid preview \<or> preview_Nodes preview = []
         then fail (NewError ErrorCapability ''all deployment targets must pass validation before mutation'')
         else create_deployment actor clusterID revisionID origin rollbackOf (preview_Nodes preview))))"

definition StartDeployment :: "service \<Rightarrow> Actor \<Rightarrow> string \<Rightarrow> string \<Rightarrow> string \<Rightarrow> string option \<Rightarrow> string list \<Rightarrow> Deployment action" where
  "StartDeployment s actor = startDeployment s (Some actor)"

definition StartReconciliation :: "service \<Rightarrow> string \<Rightarrow> string \<Rightarrow> string \<Rightarrow> Deployment action" where
  "StartReconciliation s clusterID revisionID nodeID =
     startDeployment s None clusterID revisionID ''reconciliation'' None [nodeID]"

definition Rollback :: "service \<Rightarrow> Actor \<Rightarrow> string \<Rightarrow> string \<Rightarrow> Deployment action" where
  "Rollback s actor clusterID revisionID =
    (if \<not> ValidID clusterID then fail (Validation ''clusterId'' ''must be a valid UUID'')
     else bind (query (ClusterByID clusterID)) (\<lambda>cluster.
       case cluster_ActiveRevisionID cluster of
         None \<Rightarrow> fail (NewError ErrorConflict ''rollback requires an active revision'')
       | Some activeID \<Rightarrow>
         if activeID = revisionID
         then fail (Validation ''revisionId'' ''the active revision cannot be its own rollback target'')
         else StartDeployment s actor clusterID revisionID ''rollback'' (Some activeID) []))"

definition Service_ListDeployments :: "string \<Rightarrow> bool \<Rightarrow> Deployment list action" where
  "Service_ListDeployments clusterID includeArchived =
    (if \<not> ValidID clusterID then fail (Validation ''clusterId'' ''must be a valid UUID'')
     else list_query (ListDeployments clusterID includeArchived))"

definition Service_Deployment :: "string \<Rightarrow> Deployment action" where
  "Service_Deployment i =
    (if \<not> ValidID i then fail (Validation ''deploymentId'' ''must be a valid UUID'') else query (DeploymentByID i))"

definition deployment_metadata :: "Deployment \<Rightarrow> json gomap" where
  "deployment_metadata deployment =
     [(''clusterId'', JString (dep_ClusterID deployment)), (''revisionId'', JString (dep_RevisionID deployment))]"

definition Service_SetDeploymentArchived :: "Actor \<Rightarrow> string \<Rightarrow> bool \<Rightarrow> bool \<Rightarrow> unit action" where
  "Service_SetDeploymentArchived actor i archived confirmed =
    (if \<not> confirmed then fail (Validation ''confirmed'' ''must be true after reviewing the lifecycle impact'')
     else bind (Service_Deployment i) (\<lambda>deployment.
       bind now (\<lambda>at.
       bind (userAudit actor (if archived then ''deployment.archived'' else ''deployment.restored'') ''deployment'' i
         (deployment_metadata deployment) at) (\<lambda>event.
       bind now (\<lambda>at. exec (SetDeploymentArchived i (actor_UserID actor) archived at event))))))"

definition Service_DeleteUnstartedDeployment :: "Actor \<Rightarrow> string \<Rightarrow> string \<Rightarrow> unit action" where
  "Service_DeleteUnstartedDeployment actor i confirmation =
     bind (Service_Deployment i) (\<lambda>deployment.
     if confirmation \<noteq> ''DELETE DEPLOYMENT '' @ dep_ID deployment
     then fail (Validation ''confirmation'' ''must exactly match the unstarted deployment confirmation phrase'')
     else bind now (\<lambda>at.
       bind (userAudit actor ''deployment.deleted_unstarted'' ''deployment'' i (deployment_metadata deployment) at)
         (\<lambda>event. exec (DeleteUnstartedDeployment i event))))"

definition CancelDeployment :: "Actor \<Rightarrow> string \<Rightarrow> unit action" where
  "CancelDeployment actor i =
    (if \<not> ValidID i then fail (Validation ''deploymentId'' ''must be a valid UUID'')
     else bind (query (DeploymentByID i)) (\<lambda>deployment.
       bind now (\<lambda>at.
       bind (userAudit actor ''deployment.cancellation_requested'' ''deployment'' i
         [(''clusterId'', JString (dep_ClusterID deployment))] at) (\<lambda>event.
       exec (RequestDeploymentCancel i event)))))"


subsection \<open>Drift\<close>

definition ListDrift :: "string \<Rightarrow> DriftEvent list action" where
  "ListDrift clusterID =
    (if \<not> ValidID clusterID then fail (Validation ''clusterId'' ''must be a valid UUID'')
     else list_query (ListDriftEvents clusterID))"

definition RestoreDrift :: "service \<Rightarrow> Actor \<Rightarrow> string \<Rightarrow> Deployment action" where
  "RestoreDrift s actor driftID =
    (if \<not> ValidID driftID then fail (Validation ''driftId'' ''must be a valid UUID'')
     else bind (query (DriftEventByID driftID)) (\<lambda>drift.
       if drift_Status drift \<noteq> DriftOpen then fail (NewError ErrorConflict ''drift event is already resolved'')
       else bind (StartDeployment s actor (drift_ClusterID drift) (drift_DesiredRevisionID drift) ''reconciliation'' None
           [drift_NodeID drift]) (\<lambda>deployment.
         bind (exec (UpdateDriftReconciliation (drift_ID drift) ReconEnforcing (Some (dep_ID deployment)))) (\<lambda>_.
         ret deployment))))"

definition AdoptDrift :: "Actor \<Rightarrow> string \<Rightarrow> int \<Rightarrow> Draft action" where
  "AdoptDrift actor driftID expectedDraftVersion =
    (if \<not> ValidID driftID then fail (Validation ''driftId'' ''must be a valid UUID'')
     else bind (query (DriftEventByID driftID)) (\<lambda>drift.
       bind (attempt (query (SnapshotByID (drift_ObservedSnapshotID drift)))) (\<lambda>r.
       case r of
         Inl _ \<Rightarrow> fail (NewError ErrorConflict ''the drift observation is unavailable'')
       | Inr snapshot \<Rightarrow>
         (case snap_Document snapshot of
            None \<Rightarrow> fail (NewError ErrorConflict ''the drift observation is unavailable'')
          | Some observed \<Rightarrow>
            bind (query (DraftByCluster (drift_ClusterID drift))) (\<lambda>draft.
            if draft_Version draft \<noteq> expectedDraftVersion then fail draft_conflict
            else
              let document = (draft_Document draft)\<lparr>des_Shared := doc_Shared observed,
                    des_NodeOverrides := AList.update (drift_NodeID drift) (doc_NodeSpecific observed)
                      (des_NodeOverrides (draft_Document draft))\<rparr> in
              bind now (\<lambda>at.
              let draft = draft\<lparr>draft_Document := document, draft_CanonicalHash := snd (MarshalDesired document),
                    draft_Version := draft_Version draft + 1, draft_UpdatedBy := actor_UserID actor, draft_UpdatedAt := at\<rparr> in
              bind (userAudit actor ''drift.adopted_to_draft'' ''drift_event'' (drift_ID drift)
                [(''clusterId'', JString (drift_ClusterID drift)), (''draftId'', JString (draft_ID draft))] at) (\<lambda>event.
              bind (exec (UpdateConfigurationDraft draft expectedDraftVersion event)) (\<lambda>_. ret draft))))))))"

end
