(* ===== verification/Store_Invariant.thy ===== *)
theory Store_Invariant
  imports Store
begin

text \<open>
  The integrity of the store. \<open>keys_ok\<close> is the conjunction of the unique indexes and
  \<open>refs_ok\<close> of the foreign keys between the modelled tables; \<open>store_step\<close> is one
  committed write of any method. Every write preserves both, so they hold in every state
  that writes reach from the empty store, in whatever order concurrent requests commit.
\<close>

subsection \<open>Unique indexes\<close>

definition draft_indexes :: "Draft list \<Rightarrow> bool" where
  "draft_indexes rows \<longleftrightarrow> primary_key draft_ID rows \<and> primary_key draft_ClusterID rows"

definition revision_indexes :: "RevisionRow list \<Rightarrow> bool" where
  "revision_indexes rows \<longleftrightarrow> primary_key rev_ID rows \<and> primary_key (\<lambda>r. (rev_ClusterID r, rev_RevisionNumber r)) rows"

definition drift_indexes :: "DriftEvent list \<Rightarrow> bool" where
  "drift_indexes rows \<longleftrightarrow> primary_key drift_ID rows \<and>
     unique_index (\<lambda>e. drift_Status e = DriftOpen) (\<lambda>e. (drift_NodeID e, drift_Fingerprint e)) rows"

definition keys_ok :: "db \<Rightarrow> bool" where
  "keys_ok d \<longleftrightarrow> cluster_indexes (db_clusters d) \<and> node_indexes (db_nodes d) \<and>
     primary_key cap_NodeID (db_profiles d) \<and> primary_key snap_ID (db_snapshots d) \<and> draft_indexes (db_drafts d) \<and>
     revision_indexes (db_revisions d) \<and> deployment_indexes (db_deployments d) \<and> task_indexes (db_tasks d) \<and>
     drift_indexes (db_drifts d) \<and> primary_key audit_ID (db_audit d)"

subsection \<open>Foreign keys\<close>

definition ref_in :: "'k option \<Rightarrow> 'k set \<Rightarrow> bool" where
  "ref_in k S \<longleftrightarrow> (case k of None \<Rightarrow> True | Some x \<Rightarrow> x \<in> S)"

lemma ref_in_simps [simp]: "ref_in None S" "ref_in (Some x) S \<longleftrightarrow> x \<in> S"
  by (simp_all add: ref_in_def)

lemma ref_in_mono: "ref_in k S \<Longrightarrow> S \<subseteq> T \<Longrightarrow> ref_in k T"
  by (auto simp: ref_in_def split: option.splits)

definition cluster_ids :: "db \<Rightarrow> string set" where "cluster_ids d = cluster_ID ` set (db_clusters d)"
definition node_ids :: "db \<Rightarrow> string set" where "node_ids d = row_ID ` set (db_nodes d)"
definition snapshot_ids :: "db \<Rightarrow> string set" where "snapshot_ids d = snap_ID ` set (db_snapshots d)"
definition revision_ids :: "db \<Rightarrow> string set" where "revision_ids d = rev_ID ` set (db_revisions d)"
definition deployment_ids :: "db \<Rightarrow> string set" where "deployment_ids d = dep_ID ` set (db_deployments d)"

lemma ids_simps [simp]:
  "revision_ref k d \<longleftrightarrow> ref_in k (revision_ids d)" "node_exists i d \<longleftrightarrow> i \<in> node_ids d"
  "references k (map snap_ID (db_snapshots d)) \<longleftrightarrow> ref_in k (snapshot_ids d)"
  "references k (map dep_ID (db_deployments d)) \<longleftrightarrow> ref_in k (deployment_ids d)"
  by (auto simp: revision_ref_def references_def revision_ids_def node_exists_def node_ids_def snapshot_ids_def
      deployment_ids_def ref_in_def split: option.splits)

definition node_fk :: "string set \<Rightarrow> string set \<Rightarrow> NodeRow \<Rightarrow> bool" where
  "node_fk C R r \<longleftrightarrow> node_ClusterID (rec_Node r) \<in> C \<and> ref_in (node_AppliedRevisionID (rec_Node r)) R"

definition draft_fk :: "string set \<Rightarrow> string set \<Rightarrow> string set \<Rightarrow> Draft \<Rightarrow> bool" where
  "draft_fk C S R r \<longleftrightarrow> draft_ClusterID r \<in> C \<and> draft_SourceSnapshotID r \<in> S \<and> ref_in (draft_BaseRevisionID r) R"

definition deployment_fk :: "string set \<Rightarrow> string set \<Rightarrow> DeploymentRow \<Rightarrow> bool" where
  "deployment_fk C R p \<longleftrightarrow> dep_ClusterID p \<in> C \<and> dep_RevisionID p \<in> R \<and> ref_in (dep_RollbackOfRevisionID p) R"

definition task_fk :: "string set \<Rightarrow> string set \<Rightarrow> string set \<Rightarrow> DeploymentNode \<Rightarrow> bool" where
  "task_fk D N S t \<longleftrightarrow> task_DeploymentID t \<in> D \<and> task_NodeID t \<in> N \<and> ref_in (task_VerificationSnapshotID t) S"

definition drift_fk ::
  "string set \<Rightarrow> string set \<Rightarrow> string set \<Rightarrow> string set \<Rightarrow> string set \<Rightarrow> DriftEvent \<Rightarrow> bool" where
  "drift_fk C N R S D e \<longleftrightarrow> drift_ClusterID e \<in> C \<and> drift_NodeID e \<in> N \<and> drift_DesiredRevisionID e \<in> R \<and>
     drift_ObservedSnapshotID e \<in> S \<and> ref_in (drift_RelatedDeploymentID e) D"

definition refs_ok :: "db \<Rightarrow> bool" where
  "refs_ok d \<longleftrightarrow>
     (\<forall>c \<in> set (db_clusters d). ref_in (cluster_ActiveRevisionID c) (revision_ids d)) \<and>
     (\<forall>r \<in> set (db_nodes d). node_fk (cluster_ids d) (revision_ids d) r) \<and>
     (\<forall>p \<in> set (db_profiles d). cap_NodeID p \<in> node_ids d) \<and>
     (\<forall>s \<in> set (db_snapshots d). snap_NodeID s \<in> node_ids d) \<and>
     (\<forall>r \<in> set (db_drafts d). draft_fk (cluster_ids d) (snapshot_ids d) (revision_ids d) r) \<and>
     (\<forall>r \<in> set (db_revisions d). rev_ClusterID r \<in> cluster_ids d) \<and>
     (\<forall>p \<in> set (db_deployments d). deployment_fk (cluster_ids d) (revision_ids d) p) \<and>
     (\<forall>t \<in> set (db_tasks d). task_fk (deployment_ids d) (node_ids d) (snapshot_ids d) t) \<and>
     (\<forall>e \<in> set (db_drifts d). drift_fk (cluster_ids d) (node_ids d) (revision_ids d) (snapshot_ids d) (deployment_ids d) e)"

definition store_ok :: "db \<Rightarrow> bool" where
  "store_ok d \<longleftrightarrow> keys_ok d \<and> refs_ok d"

lemma fk_mono:
  "node_fk C R r \<Longrightarrow> C \<subseteq> C' \<Longrightarrow> R \<subseteq> R' \<Longrightarrow> node_fk C' R' r"
  "draft_fk C S R x \<Longrightarrow> C \<subseteq> C' \<Longrightarrow> S \<subseteq> S' \<Longrightarrow> R \<subseteq> R' \<Longrightarrow> draft_fk C' S' R' x"
  "deployment_fk C R p \<Longrightarrow> C \<subseteq> C' \<Longrightarrow> R \<subseteq> R' \<Longrightarrow> deployment_fk C' R' p"
  "task_fk D N S t \<Longrightarrow> D \<subseteq> D' \<Longrightarrow> N \<subseteq> N' \<Longrightarrow> S \<subseteq> S' \<Longrightarrow> task_fk D' N' S' t"
  "drift_fk C N R S D e \<Longrightarrow> C \<subseteq> C' \<Longrightarrow> N \<subseteq> N' \<Longrightarrow> R \<subseteq> R' \<Longrightarrow> S \<subseteq> S' \<Longrightarrow> D \<subseteq> D' \<Longrightarrow> drift_fk C' N' R' S' D' e"
  by (auto simp: node_fk_def draft_fk_def deployment_fk_def task_fk_def drift_fk_def intro: ref_in_mono)

subsection \<open>Replacing one table\<close>

lemma ids_other_tables [simp]:
  "cluster_ids (d\<lparr>db_nodes := rows_nodes\<rparr>) = cluster_ids d" "cluster_ids (d\<lparr>db_profiles := rows_profiles\<rparr>) = cluster_ids d" "cluster_ids (d\<lparr>db_snapshots := rows_snapshots\<rparr>) = cluster_ids d" "cluster_ids (d\<lparr>db_drafts := rows_drafts\<rparr>) = cluster_ids d" "cluster_ids (d\<lparr>db_revisions := rows_revisions\<rparr>) = cluster_ids d" "cluster_ids (d\<lparr>db_deployments := rows_deployments\<rparr>) = cluster_ids d" "cluster_ids (d\<lparr>db_tasks := rows_tasks\<rparr>) = cluster_ids d" "cluster_ids (d\<lparr>db_drifts := rows_drifts\<rparr>) = cluster_ids d" "cluster_ids (d\<lparr>db_audit := rows_audit\<rparr>) = cluster_ids d"
  "node_ids (d\<lparr>db_clusters := rows_clusters\<rparr>) = node_ids d" "node_ids (d\<lparr>db_profiles := rows_profiles\<rparr>) = node_ids d" "node_ids (d\<lparr>db_snapshots := rows_snapshots\<rparr>) = node_ids d" "node_ids (d\<lparr>db_drafts := rows_drafts\<rparr>) = node_ids d" "node_ids (d\<lparr>db_revisions := rows_revisions\<rparr>) = node_ids d" "node_ids (d\<lparr>db_deployments := rows_deployments\<rparr>) = node_ids d" "node_ids (d\<lparr>db_tasks := rows_tasks\<rparr>) = node_ids d" "node_ids (d\<lparr>db_drifts := rows_drifts\<rparr>) = node_ids d" "node_ids (d\<lparr>db_audit := rows_audit\<rparr>) = node_ids d"
  "snapshot_ids (d\<lparr>db_clusters := rows_clusters\<rparr>) = snapshot_ids d" "snapshot_ids (d\<lparr>db_nodes := rows_nodes\<rparr>) = snapshot_ids d" "snapshot_ids (d\<lparr>db_profiles := rows_profiles\<rparr>) = snapshot_ids d" "snapshot_ids (d\<lparr>db_drafts := rows_drafts\<rparr>) = snapshot_ids d" "snapshot_ids (d\<lparr>db_revisions := rows_revisions\<rparr>) = snapshot_ids d" "snapshot_ids (d\<lparr>db_deployments := rows_deployments\<rparr>) = snapshot_ids d" "snapshot_ids (d\<lparr>db_tasks := rows_tasks\<rparr>) = snapshot_ids d" "snapshot_ids (d\<lparr>db_drifts := rows_drifts\<rparr>) = snapshot_ids d" "snapshot_ids (d\<lparr>db_audit := rows_audit\<rparr>) = snapshot_ids d"
  "revision_ids (d\<lparr>db_clusters := rows_clusters\<rparr>) = revision_ids d" "revision_ids (d\<lparr>db_nodes := rows_nodes\<rparr>) = revision_ids d" "revision_ids (d\<lparr>db_profiles := rows_profiles\<rparr>) = revision_ids d" "revision_ids (d\<lparr>db_snapshots := rows_snapshots\<rparr>) = revision_ids d" "revision_ids (d\<lparr>db_drafts := rows_drafts\<rparr>) = revision_ids d" "revision_ids (d\<lparr>db_deployments := rows_deployments\<rparr>) = revision_ids d" "revision_ids (d\<lparr>db_tasks := rows_tasks\<rparr>) = revision_ids d" "revision_ids (d\<lparr>db_drifts := rows_drifts\<rparr>) = revision_ids d" "revision_ids (d\<lparr>db_audit := rows_audit\<rparr>) = revision_ids d"
  "deployment_ids (d\<lparr>db_clusters := rows_clusters\<rparr>) = deployment_ids d" "deployment_ids (d\<lparr>db_nodes := rows_nodes\<rparr>) = deployment_ids d" "deployment_ids (d\<lparr>db_profiles := rows_profiles\<rparr>) = deployment_ids d" "deployment_ids (d\<lparr>db_snapshots := rows_snapshots\<rparr>) = deployment_ids d" "deployment_ids (d\<lparr>db_drafts := rows_drafts\<rparr>) = deployment_ids d" "deployment_ids (d\<lparr>db_revisions := rows_revisions\<rparr>) = deployment_ids d" "deployment_ids (d\<lparr>db_tasks := rows_tasks\<rparr>) = deployment_ids d" "deployment_ids (d\<lparr>db_drifts := rows_drifts\<rparr>) = deployment_ids d" "deployment_ids (d\<lparr>db_audit := rows_audit\<rparr>) = deployment_ids d"
  by (simp_all add: cluster_ids_def node_ids_def snapshot_ids_def revision_ids_def deployment_ids_def)

text \<open>
  Each rule replaces the rows of one table by rows that satisfy its own constraints and whose
  identifiers include the old ones, so nothing that refers to the table is left dangling.
\<close>

lemmas ids_defs = cluster_ids_def node_ids_def snapshot_ids_def revision_ids_def deployment_ids_def

lemma audit_ok: "audit event d = Inr d' \<Longrightarrow> store_ok d \<Longrightarrow> store_ok d'"
  by (auto simp: audit_def store_ok_def keys_ok_def refs_ok_def unique_index_append ids_defs split: if_splits)

lemma clusters_ok:
  assumes "store_ok d" "cluster_indexes rows" "cluster_ids d \<subseteq> cluster_ID ` set rows"
    "\<forall>c \<in> set rows. ref_in (cluster_ActiveRevisionID c) (revision_ids d)"
  shows "store_ok (d\<lparr>db_clusters := rows\<rparr>)"
  using assms unfolding store_ok_def keys_ok_def refs_ok_def
  by (auto simp: ids_defs elim: fk_mono)

lemma nodes_ok:
  assumes "store_ok d" "node_indexes rows" "node_ids d \<subseteq> row_ID ` set rows"
    "\<forall>r \<in> set rows. node_fk (cluster_ids d) (revision_ids d) r"
  shows "store_ok (d\<lparr>db_nodes := rows\<rparr>)"
  using assms unfolding store_ok_def keys_ok_def refs_ok_def
  by (auto simp: ids_defs elim: fk_mono)

lemma profiles_ok:
  assumes "store_ok d" "primary_key cap_NodeID rows" "\<forall>p \<in> set rows. cap_NodeID p \<in> node_ids d"
  shows "store_ok (d\<lparr>db_profiles := rows\<rparr>)"
  using assms unfolding store_ok_def keys_ok_def refs_ok_def by (auto simp: ids_defs)

lemma snapshots_ok:
  assumes "store_ok d" "primary_key snap_ID rows" "snapshot_ids d \<subseteq> snap_ID ` set rows"
    "\<forall>s \<in> set rows. snap_NodeID s \<in> node_ids d"
  shows "store_ok (d\<lparr>db_snapshots := rows\<rparr>)"
  using assms unfolding store_ok_def keys_ok_def refs_ok_def
  by (auto simp: ids_defs elim: fk_mono)

lemma drafts_ok:
  assumes "store_ok d" "draft_indexes rows"
    "\<forall>r \<in> set rows. draft_fk (cluster_ids d) (snapshot_ids d) (revision_ids d) r"
  shows "store_ok (d\<lparr>db_drafts := rows\<rparr>)"
  using assms unfolding store_ok_def keys_ok_def refs_ok_def by (auto simp: ids_defs)

lemma revisions_ok:
  assumes "store_ok d" "revision_indexes rows" "revision_ids d \<subseteq> rev_ID ` set rows"
    "\<forall>r \<in> set rows. rev_ClusterID r \<in> cluster_ids d"
  shows "store_ok (d\<lparr>db_revisions := rows\<rparr>)"
  using assms unfolding store_ok_def keys_ok_def refs_ok_def
  by (auto simp: ids_defs elim: fk_mono ref_in_mono)

lemma deployments_ok:
  assumes "store_ok d" "deployment_indexes rows" "deployment_ids d \<subseteq> dep_ID ` set rows"
    "\<forall>p \<in> set rows. deployment_fk (cluster_ids d) (revision_ids d) p"
  shows "store_ok (d\<lparr>db_deployments := rows\<rparr>)"
  using assms unfolding store_ok_def keys_ok_def refs_ok_def
  by (auto simp: ids_defs elim: fk_mono)

lemma tasks_ok:
  assumes "store_ok d" "task_indexes rows"
    "\<forall>t \<in> set rows. task_fk (deployment_ids d) (node_ids d) (snapshot_ids d) t"
  shows "store_ok (d\<lparr>db_tasks := rows\<rparr>)"
  using assms unfolding store_ok_def keys_ok_def refs_ok_def by (auto simp: ids_defs)

lemma drifts_ok:
  assumes "store_ok d" "drift_indexes rows"
    "\<forall>e \<in> set rows. drift_fk (cluster_ids d) (node_ids d) (revision_ids d) (snapshot_ids d) (deployment_ids d) e"
  shows "store_ok (d\<lparr>db_drifts := rows\<rparr>)"
  using assms unfolding store_ok_def keys_ok_def refs_ok_def by (auto simp: ids_defs)


subsection \<open>Updating rows of one table\<close>

lemma image_update_where:
  "(\<And>r. P r \<Longrightarrow> key (f r) = key r) \<Longrightarrow> key ` set (update_where P f rows) = key ` set rows"
  using map_update_where [of P key f rows] by (metis set_map)

lemma update_whereE:
  assumes "x \<in> set (update_where P f rows)"
  obtains (changed) r where "r \<in> set rows" "P r" "x = f r" | (kept) "x \<in> set rows" "\<not> P x"
proof -
  from assms obtain r where "r \<in> set rows" "x = (if P r then f r else r)" by (auto simp: set_update_where)
  then show thesis by (cases "P r") (auto intro: that)
qed

lemma ball_update_where:
  "\<forall>r \<in> set rows. Q r \<Longrightarrow> (\<And>r. r \<in> set rows \<Longrightarrow> P r \<Longrightarrow> Q r \<Longrightarrow> Q (f r)) \<Longrightarrow> \<forall>x \<in> set (update_where P f rows). Q x"
  by (auto simp: set_update_where)

lemma store_ok_tables:
  assumes "store_ok d"
  shows "cluster_indexes (db_clusters d)" "node_indexes (db_nodes d)" "draft_indexes (db_drafts d)"
    "revision_indexes (db_revisions d)" "deployment_indexes (db_deployments d)" "task_indexes (db_tasks d)"
    "drift_indexes (db_drifts d)"
    "\<forall>c \<in> set (db_clusters d). ref_in (cluster_ActiveRevisionID c) (revision_ids d)"
    "\<forall>r \<in> set (db_nodes d). node_fk (cluster_ids d) (revision_ids d) r"
    "\<forall>r \<in> set (db_drafts d). draft_fk (cluster_ids d) (snapshot_ids d) (revision_ids d) r"
    "\<forall>r \<in> set (db_revisions d). rev_ClusterID r \<in> cluster_ids d"
    "\<forall>p \<in> set (db_deployments d). deployment_fk (cluster_ids d) (revision_ids d) p"
    "\<forall>t \<in> set (db_tasks d). task_fk (deployment_ids d) (node_ids d) (snapshot_ids d) t"
    "\<forall>e \<in> set (db_drifts d). drift_fk (cluster_ids d) (node_ids d) (revision_ids d) (snapshot_ids d) (deployment_ids d) e"
    "primary_key snap_ID (db_snapshots d)" "\<forall>s \<in> set (db_snapshots d). snap_NodeID s \<in> node_ids d"
    "primary_key cap_NodeID (db_profiles d)" "\<forall>p \<in> set (db_profiles d). cap_NodeID p \<in> node_ids d"
  using assms unfolding store_ok_def keys_ok_def refs_ok_def by blast+

lemma clusters_update_ok:
  assumes "store_ok d" "cluster_indexes (update_where P f (db_clusters d))"
    "\<And>c. P c \<Longrightarrow> cluster_ID (f c) = cluster_ID c"
    "\<And>c. P c \<Longrightarrow> ref_in (cluster_ActiveRevisionID c) (revision_ids d) \<Longrightarrow> ref_in (cluster_ActiveRevisionID (f c)) (revision_ids d)"
  shows "store_ok (d\<lparr>db_clusters := update_where P f (db_clusters d)\<rparr>)"
proof (rule clusters_ok [OF assms(1,2)])
  show "cluster_ids d \<subseteq> cluster_ID ` set (update_where P f (db_clusters d))"
    by (simp add: image_update_where assms(3) cluster_ids_def)
qed (rule ball_update_where [OF store_ok_tables(8) [OF assms(1)]], rule assms(4))

lemma nodes_update_ok:
  assumes "store_ok d" "node_indexes (update_where P f (db_nodes d))"
    "\<And>r. P r \<Longrightarrow> row_ID (f r) = row_ID r"
    "\<And>r. P r \<Longrightarrow> node_fk (cluster_ids d) (revision_ids d) r \<Longrightarrow> node_fk (cluster_ids d) (revision_ids d) (f r)"
  shows "store_ok (d\<lparr>db_nodes := update_where P f (db_nodes d)\<rparr>)"
proof (rule nodes_ok [OF assms(1,2)])
  show "node_ids d \<subseteq> row_ID ` set (update_where P f (db_nodes d))"
    by (simp add: image_update_where assms(3) node_ids_def)
qed (rule ball_update_where [OF store_ok_tables(9) [OF assms(1)]], rule assms(4))

lemma drafts_update_ok:
  assumes "store_ok d" "\<And>r. P r \<Longrightarrow> draft_ID (f r) = draft_ID r" "\<And>r. P r \<Longrightarrow> draft_ClusterID (f r) = draft_ClusterID r"
    "\<And>r. P r \<Longrightarrow> draft_fk (cluster_ids d) (snapshot_ids d) (revision_ids d) r \<Longrightarrow>
       draft_fk (cluster_ids d) (snapshot_ids d) (revision_ids d) (f r)"
  shows "store_ok (d\<lparr>db_drafts := update_where P f (db_drafts d)\<rparr>)"
proof (rule drafts_ok [OF assms(1)])
  show "draft_indexes (update_where P f (db_drafts d))"
    using store_ok_tables(3) [OF assms(1)] by (simp add: draft_indexes_def primary_key_update assms(2,3))
qed (rule ball_update_where [OF store_ok_tables(10) [OF assms(1)]], rule assms(4))

lemma deployments_update_ok:
  assumes "store_ok d" "one_active (update_where P f (db_deployments d))"
    "\<And>p. P p \<Longrightarrow> dep_ID (f p) = dep_ID p"
    "\<And>p. P p \<Longrightarrow> dep_ClusterID (f p) = dep_ClusterID p \<and> dep_RevisionID (f p) = dep_RevisionID p \<and>
       dep_RollbackOfRevisionID (f p) = dep_RollbackOfRevisionID p"
  shows "store_ok (d\<lparr>db_deployments := update_where P f (db_deployments d)\<rparr>)"
proof (rule deployments_ok [OF assms(1)])
  show "deployment_indexes (update_where P f (db_deployments d))"
    using store_ok_tables(5) [OF assms(1)] assms(2) by (simp add: deployment_indexes_def primary_key_update assms(3))
  show "deployment_ids d \<subseteq> dep_ID ` set (update_where P f (db_deployments d))"
    by (simp add: image_update_where assms(3) deployment_ids_def)
  show "\<forall>p \<in> set (update_where P f (db_deployments d)). deployment_fk (cluster_ids d) (revision_ids d) p"
    by (rule ball_update_where [OF store_ok_tables(12) [OF assms(1)]]) (simp add: deployment_fk_def assms(4))
qed

lemma tasks_update_ok:
  assumes "store_ok d" "\<And>t. P t \<Longrightarrow> task_ID (f t) = task_ID t"
    "\<And>t. P t \<Longrightarrow> task_DeploymentID (f t) = task_DeploymentID t \<and> task_NodeID (f t) = task_NodeID t \<and>
       task_Position (f t) = task_Position t"
    "\<And>t. P t \<Longrightarrow> ref_in (task_VerificationSnapshotID t) (snapshot_ids d) \<Longrightarrow>
       ref_in (task_VerificationSnapshotID (f t)) (snapshot_ids d)"
  shows "store_ok (d\<lparr>db_tasks := update_where P f (db_tasks d)\<rparr>)"
proof (rule tasks_ok [OF assms(1)])
  show "task_indexes (update_where P f (db_tasks d))"
    using store_ok_tables(6) [OF assms(1)] by (simp add: task_indexes_def primary_key_update assms(2,3))
  show "\<forall>t \<in> set (update_where P f (db_tasks d)). task_fk (deployment_ids d) (node_ids d) (snapshot_ids d) t"
    by (rule ball_update_where [OF store_ok_tables(13) [OF assms(1)]]) (simp add: task_fk_def assms(3,4))
qed

lemma drifts_update_ok:
  assumes "store_ok d" "\<And>e. P e \<Longrightarrow> drift_ID (f e) = drift_ID e"
    "\<And>e. P e \<Longrightarrow> drift_NodeID (f e) = drift_NodeID e \<and> drift_Fingerprint (f e) = drift_Fingerprint e"
    "\<And>e. P e \<Longrightarrow> drift_Status (f e) = DriftOpen \<Longrightarrow> drift_Status e = DriftOpen"
    "\<And>e. P e \<Longrightarrow> drift_fk (cluster_ids d) (node_ids d) (revision_ids d) (snapshot_ids d) (deployment_ids d) e \<Longrightarrow>
       drift_fk (cluster_ids d) (node_ids d) (revision_ids d) (snapshot_ids d) (deployment_ids d) (f e)"
  shows "store_ok (d\<lparr>db_drifts := update_where P f (db_drifts d)\<rparr>)"
proof (rule drifts_ok [OF assms(1)])
  show "drift_indexes (update_where P f (db_drifts d))"
    using store_ok_tables(7) [OF assms(1)]
    by (auto simp: drift_indexes_def primary_key_update assms(2) intro!: unique_index_update dest: assms(3,4))
qed (rule ball_update_where [OF store_ok_tables(14) [OF assms(1)]], rule assms(5))

text \<open>Node updates that keep the columns of the indexes.\<close>

lemma node_indexes_update:
  assumes "node_indexes rows" "\<And>r. P r \<Longrightarrow> row_ID (f r) = row_ID r"
    "\<And>r. P r \<Longrightarrow> node_ClusterID (rec_Node (f r)) = node_ClusterID (rec_Node r) \<and>
       node_Name (rec_Node (f r)) = node_Name (rec_Node r) \<and> node_BaseURL (rec_Node (f r)) = node_BaseURL (rec_Node r)"
    "\<And>r. P r \<Longrightarrow> live (f r) \<Longrightarrow> live r"
  shows "node_indexes (update_where P f rows)"
  using assms unfolding node_indexes_def by (auto simp: primary_key_update intro!: unique_index_update)

lemma one_active_update:
  assumes "one_active rows" "\<And>p. P p \<Longrightarrow> dep_ClusterID (f p) = dep_ClusterID p"
    "\<And>p. p \<in> set rows \<Longrightarrow> P p \<Longrightarrow> active_status (dep_Status (f p)) \<Longrightarrow> active_status (dep_Status p)"
  shows "one_active (update_where P f rows)"
  using assms unfolding one_active_def by (auto intro!: unique_index_update)


subsection \<open>Every method preserves the constraints\<close>

lemmas write_simps = bind_err_Inr Let_def

lemma CreateCluster_ok:
  assumes "store_ok d" "CreateCluster c e d = Inr d'" shows "store_ok d'"
  using assms store_ok_tables(8) [OF assms(1)]
  by (auto simp: CreateCluster_def write_simps cluster_ids_def elim!: audit_ok intro!: clusters_ok)

lemma UpdateCluster_ok:
  assumes "store_ok d" "UpdateCluster c v e d = Inr d'" shows "store_ok d'"
  using assms by (auto simp: UpdateCluster_def write_simps elim!: audit_ok intro!: clusters_update_ok split: if_splits)

lemma CreateNode_ok:
  assumes "store_ok d" "CreateNode r e d = Inr d'" shows "store_ok d'"
  using assms store_ok_tables(9) [OF assms(1)]
  by (auto simp: CreateNode_def write_simps node_fk_def node_ids_def cluster_ids_def NodeRecord.defs NodeRow.defs
      elim!: audit_ok intro!: nodes_ok)

lemma UpdateNode_ok:
  assumes "store_ok d" "UpdateNode r v e d = Inr d'" shows "store_ok d'"
  using assms
  by (auto simp: UpdateNode_def write_simps node_fk_def elim!: audit_ok intro!: nodes_update_ok split: if_splits)

lemma resolve_drift_ok: "store_ok d \<Longrightarrow> store_ok (d\<lparr>db_drifts := resolve_drift i s at (db_drifts d)\<rparr>)"
  unfolding resolve_drift_def by (rule drifts_update_ok) (auto simp: drift_fk_def)

lemma SoftDeleteNode_ok:
  assumes "store_ok d" "SoftDeleteNode i v at e d = Inr d'" shows "store_ok d'"
proof -
  let ?P = "\<lambda>r. row_ID r = i \<and> node_RecordVersion (rec_Node r) = v \<and> live r"
  let ?f = "\<lambda>r. r\<lparr>row_DeletedAt := Some at,
     rec_Secrets := (rec_Secrets r)\<lparr>
       secret_Credentials := (secret_Credentials (rec_Secrets r))\<lparr>enc_Ciphertext := [], enc_Nonce := []\<rparr>,
       secret_CustomCAPEM := []\<rparr>,
     rec_Node := (rec_Node r)\<lparr>node_Enabled := False, node_HealthStatus := NodeDisabled, node_UpdatedAt := at,
       node_RecordVersion := node_RecordVersion (rec_Node r) + 1\<rparr>\<rparr>"
  let ?Q = "\<lambda>r. draft_ClusterID r \<in> set (map (\<lambda>r. node_ClusterID (rec_Node r)) (filter (\<lambda>r. row_ID r = i) (db_nodes d))) \<and>
     has_override i r"
  let ?g = "drop_override i at (audit_ActorUserID e)"
  let ?d1 = "d\<lparr>db_nodes := update_where ?P ?f (db_nodes d)\<rparr>"
  let ?d2 = "?d1\<lparr>db_drafts := update_where ?Q ?g (db_drafts ?d1)\<rparr>"
  have "store_ok ?d1"
    by (rule nodes_update_ok [OF assms(1) node_indexes_update [OF store_ok_tables(2) [OF assms(1)]]])
       (auto simp: node_fk_def live_def)
  then have "store_ok ?d2"
    by (rule drafts_update_ok) (auto simp: drop_override_def draft_fk_def)
  then have "store_ok (?d2\<lparr>db_drifts := resolve_drift i ''node_removed'' at (db_drifts ?d2)\<rparr>)"
    by (rule resolve_drift_ok)
  moreover from assms(2) have "audit e (?d2\<lparr>db_drifts := resolve_drift i ''node_removed'' at (db_drifts ?d2)\<rparr>) = Inr d'"
    by (simp add: SoftDeleteNode_def Let_def split: if_splits)
  ultimately show ?thesis by (blast intro: audit_ok)
qed

lemma node_statement_ok:
  assumes "store_ok d" "\<And>n. node_ID (g n) = node_ID n \<and> node_ClusterID (g n) = node_ClusterID n \<and>
     node_Name (g n) = node_Name n \<and> node_BaseURL (g n) = node_BaseURL n"
    "\<And>n. ref_in (node_AppliedRevisionID n) (revision_ids d) \<Longrightarrow> ref_in (node_AppliedRevisionID (g n)) (revision_ids d)"
  shows "store_ok (d\<lparr>db_nodes := update_where P (rec_Node_update g) (db_nodes d)\<rparr>)"
  by (rule nodes_update_ok [OF assms(1) node_indexes_update [OF store_ok_tables(2) [OF assms(1)]]])
     (auto simp: node_fk_def live_def assms(2,3))

lemma UpdateNodeHealth_ok:
  assumes "store_ok d" "UpdateNodeHealth i h c v l e t b d = Inr d'" shows "store_ok d'"
  using assms by (auto simp: UpdateNodeHealth_def write_simps poll_result_def intro!: node_statement_ok)

lemma RecordNodeTestResult_ok:
  assumes "store_ok d" "RecordNodeTestResult i h c v l e t b ev d = Inr d'" shows "store_ok d'"
  using assms by (auto simp: RecordNodeTestResult_def write_simps poll_result_def elim!: audit_ok intro!: node_statement_ok)

lemma UpdateNodeConvergence_ok:
  assumes "store_ok d" "UpdateNodeConvergence i s at d = Inr d'" shows "store_ok d'"
  using assms by (auto simp: UpdateNodeConvergence_def intro!: node_statement_ok)

lemma MarkNodeApplied_ok:
  assumes "store_ok d" "MarkNodeApplied i r h s at d = Inr d'" shows "store_ok d'"
proof (cases "i \<in> node_ids d")
  case True
  with assms show ?thesis by (auto simp: MarkNodeApplied_def intro!: node_statement_ok)
next
  case False
  then have "update_where (\<lambda>r. row_ID r = i) f (db_nodes d) = db_nodes d" for f
    by (auto simp: update_where_def node_ids_def intro!: map_idI)
  with assms show ?thesis by (auto simp: MarkNodeApplied_def)
qed

lemma SetNodeMaintenance_ok:
  assumes "store_ok d" "SetNodeMaintenance i b v at e d = Inr d'" shows "store_ok d'"
proof -
  let ?g = "\<lambda>n. n\<lparr>node_MaintenanceMode := b, node_ConvergenceStatus := (if b then ConvMaintenance else ConvPending),
     node_RecordVersion := node_RecordVersion n + 1, node_UpdatedAt := at\<rparr>"
  let ?P = "\<lambda>r. row_ID r = i \<and> node_RecordVersion (rec_Node r) = v \<and> live r"
  let ?Q = "\<lambda>e. drift_NodeID e = i \<and> drift_Status e = DriftOpen"
  let ?h = "\<lambda>e. e\<lparr>drift_ReconciliationStatus := (if b then ReconMaintenance else ReconPending)\<rparr>"
  let ?d1 = "d\<lparr>db_nodes := update_where ?P (rec_Node_update ?g) (db_nodes d)\<rparr>"
  have "store_ok ?d1" by (rule node_statement_ok [OF assms(1)]) auto
  then have "store_ok (?d1\<lparr>db_drifts := update_where ?Q ?h (db_drifts ?d1)\<rparr>)"
    by (rule drifts_update_ok) (auto simp: drift_fk_def)
  moreover from assms(2) have "audit e (?d1\<lparr>db_drifts := update_where ?Q ?h (db_drifts ?d1)\<rparr>) = Inr d'"
    by (simp add: SetNodeMaintenance_def Let_def split: if_splits)
  ultimately show ?thesis by (blast intro: audit_ok)
qed

lemma SaveObservation_ok:
  assumes "store_ok d" "SaveObservation s p d = Inr d'" shows "store_ok d'"
proof -
  from assms(2) have ok: "cap_NodeID p \<in> node_ids d" "snap_ID s \<notin> snap_ID ` set (db_snapshots d)" "snap_NodeID s \<in> node_ids d"
    and d': "d' = d\<lparr>db_profiles := upsert_profile p (db_profiles d), db_snapshots := db_snapshots d @ [s]\<rparr>"
    by (auto simp: SaveObservation_def)
  let ?d1 = "d\<lparr>db_profiles := upsert_profile p (db_profiles d)\<rparr>"
  have "store_ok ?d1"
  proof (rule profiles_ok [OF assms(1)])
    show "primary_key cap_NodeID (upsert_profile p (db_profiles d))"
      using store_ok_tables(17) [OF assms(1)]
      by (simp add: upsert_profile_def primary_key_update unique_index_append)
    show "\<forall>q \<in> set (upsert_profile p (db_profiles d)). cap_NodeID q \<in> node_ids d"
      using store_ok_tables(18) [OF assms(1)] ok(1) by (auto simp: upsert_profile_def set_update_where)
  qed
  then have "store_ok (?d1\<lparr>db_snapshots := db_snapshots ?d1 @ [s]\<rparr>)"
    using ok store_ok_tables(15,16) [OF assms(1)]
    by (intro snapshots_ok) (auto simp: unique_index_append snapshot_ids_def)
  then show ?thesis by (simp add: d')
qed

lemma ImportDraft_ok:
  assumes "store_ok d" "ImportDraft r v e d = Inr d'" shows "store_ok d'"
proof (cases "v = 0")
  case True
  have "store_ok (d\<lparr>db_drafts := db_drafts d @ [r\<lparr>draft_Version := 1\<rparr>]\<rparr>)"
    using assms True store_ok_tables(3,10) [OF assms(1)]
    by (intro drafts_ok [OF assms(1)])
       (auto simp: ImportDraft_def Let_def draft_indexes_def unique_index_append draft_refs_def draft_fk_def
         cluster_ids_def snapshot_ids_def)
  with assms True show ?thesis by (auto simp: ImportDraft_def Let_def intro: audit_ok)
next
  case False
  with assms show ?thesis
    by (auto simp: ImportDraft_def Let_def draft_fk_def snapshot_ids_def elim!: audit_ok intro!: drafts_update_ok)
qed

lemma UpdateConfigurationDraft_ok:
  assumes "store_ok d" "UpdateConfigurationDraft r v e d = Inr d'" shows "store_ok d'"
  using assms
  by (auto simp: UpdateConfigurationDraft_def Let_def draft_fk_def elim!: audit_ok intro!: drafts_update_ok)

lemma foldr_max: "x \<in> set xs \<Longrightarrow> x \<le> foldr max xs (b :: int)"
  by (induction xs) auto

lemma next_revision_number_fresh:
  "r \<in> set (db_revisions d) \<Longrightarrow> rev_ClusterID r = c \<Longrightarrow> rev_RevisionNumber r < next_revision_number c d"
  using foldr_max [of "rev_RevisionNumber r" "map rev_RevisionNumber (filter (\<lambda>r. rev_ClusterID r = c) (db_revisions d))" 0]
  by (auto simp: next_revision_number_def)

lemma PublishRevision_ok:
  assumes "store_ok d" "PublishRevision r v e d = Inr (r', d')" shows "store_ok d'"
proof -
  let ?row = "(RevisionRow.truncate (r\<lparr>rev_RevisionNumber := next_revision_number (rev_ClusterID r) d\<rparr>))
    \<lparr>rev_ArchivedAt := None, rev_ArchivedBy := None\<rparr>"
  let ?P = "\<lambda>x. draft_ClusterID x = rev_ClusterID r \<and> draft_Version x = v"
  let ?f = "\<lambda>x. x\<lparr>draft_BaseRevisionID := Some (rev_ID r), draft_Version := draft_Version x + 1,
     draft_UpdatedBy := rev_CreatedBy r, draft_UpdatedAt := rev_CreatedAt r\<rparr>"
  let ?d1 = "d\<lparr>db_revisions := db_revisions d @ [?row]\<rparr>"
  let ?d2 = "?d1\<lparr>db_drafts := update_where ?P ?f (db_drafts ?d1)\<rparr>"
  from assms(2) have ok: "rev_ID r \<notin> rev_ID ` set (db_revisions d)" "rev_ClusterID r \<in> cluster_ids d"
    and a: "audit e ?d2 = Inr d'"
    by (auto simp: PublishRevision_def Let_def bind_err_Inr RevisionRow.defs cluster_ids_def)
  have "store_ok ?d1"
    using store_ok_tables(4,11) [OF assms(1)] ok
    by (intro revisions_ok [OF assms(1)])
       (auto simp: revision_indexes_def unique_index_append RevisionRow.defs revision_ids_def
         dest: next_revision_number_fresh)
  then have "store_ok ?d2"
    by (rule drafts_update_ok) (auto simp: draft_fk_def revision_ids_def RevisionRow.defs)
  with a show ?thesis by (blast intro: audit_ok)
qed

lemma SetRevisionArchived_ok:
  assumes "store_ok d" "SetRevisionArchived i a b at e d = Inr d'" shows "store_ok d'"
proof -
  have *: "store_ok (d\<lparr>db_revisions := update_where (\<lambda>r. rev_ID r = i)
      (\<lambda>r. r\<lparr>rev_ArchivedAt := x, rev_ArchivedBy := y\<rparr>) (db_revisions d)\<rparr>)" for x y
    using store_ok_tables(4,11) [OF assms(1)]
    by (intro revisions_ok [OF assms(1)])
       (auto simp: revision_indexes_def primary_key_update revision_ids_def image_update_where set_update_where)
  from assms(2) show ?thesis
    by (auto simp: SetRevisionArchived_def bind_err_Inr split: if_splits intro: audit_ok [OF _ *])
qed

lemma DeleteUnusedRevision_ok:
  assumes "store_ok d" "DeleteUnusedRevision i e d = Inr d'" shows "store_ok d'"
proof -
  let ?d1 = "d\<lparr>db_revisions := filter (\<lambda>r. rev_ID r \<noteq> i) (db_revisions d)\<rparr>"
  from assms(2) have free: "\<not> revision_retained i d" "\<forall>c \<in> set (db_clusters d). cluster_ActiveRevisionID c \<noteq> Some i"
    and a: "audit e ?d1 = Inr d'"
    by (auto simp: DeleteUnusedRevision_def bind_err_Inr scan_bool_def sql_or_def list_ex_iff split: option.splits if_splits)
  have ids: "revision_ids ?d1 = revision_ids d - {i}" by (auto simp: revision_ids_def)
  have ref: "ref_in k (revision_ids ?d1)" if "ref_in k (revision_ids d)" "k \<noteq> Some i" for k
    using that by (cases k) (auto simp: ids)
  have "refs_ok ?d1"
    using assms(1) free ref
    by (auto simp: store_ok_def refs_ok_def node_fk_def draft_fk_def deployment_fk_def drift_fk_def
        revision_retained_def list_ex_iff ids)
  moreover have "keys_ok ?d1"
    using assms(1) by (simp add: store_ok_def keys_ok_def revision_indexes_def unique_index_filter)
  ultimately show ?thesis using audit_ok [OF a] by (simp add: store_ok_def)
qed

lemma insert_tasks_ok:
  "insert_tasks i nodes d = Inr d' \<Longrightarrow> store_ok d \<Longrightarrow> i \<in> deployment_ids d \<Longrightarrow> store_ok d'"
proof (induction i nodes d arbitrary: d' rule: insert_tasks.induct)
  case (2 i node nodes d)
  let ?d1 = "d\<lparr>db_tasks := db_tasks d @ [new_task_row i node]\<rparr>"
  from 2(2) have ok: "task_indexes (db_tasks d @ [new_task_row i node])" "task_NodeID node \<in> node_ids d"
    and rest: "insert_tasks i nodes ?d1 = Inr d'" "task_Position node > 0"
    by (auto simp: Let_def)
  have "store_ok ?d1"
    using ok store_ok_tables(13) [OF 2(3)] 2(4)
    by (intro tasks_ok [OF 2(3)]) (auto simp: task_fk_def new_task_row_def)
  with 2(1) [OF refl, of d'] rest ok 2(4) show ?case by (simp add: Let_def require_def)
qed simp

lemma CreateDeployment_ok:
  assumes "store_ok d" "CreateDeployment p e d = Inr d'" shows "store_ok d'"
proof -
  let ?d1 = "d\<lparr>db_deployments := db_deployments d @ [new_deployment_row p]\<rparr>"
  from assms(2) obtain d2 where ok: "deployment_indexes (db_deployments d @ [new_deployment_row p])"
    "deployment_fk (cluster_ids d) (revision_ids d) (new_deployment_row p)"
    and tasks: "insert_tasks (dep_ID p) (dep_Nodes p) ?d1 = Inr d2" and a: "audit e d2 = Inr d'"
    by (auto simp: CreateDeployment_def Let_def bind_err_Inr deployment_fk_def cluster_ids_def)
  have "store_ok ?d1"
    using ok store_ok_tables(12) [OF assms(1)] by (intro deployments_ok [OF assms(1)]) (auto simp: deployment_ids_def)
  then have "store_ok d2"
    by (rule insert_tasks_ok [OF tasks]) (simp add: deployment_ids_def new_deployment_row_def DeploymentRow.defs)
  with a show ?thesis by (blast intro: audit_ok)
qed

lemma deployment_statement_ok:
  assumes "store_ok d" "\<And>p. P p \<Longrightarrow> dep_ID (f p) = dep_ID p"
    "\<And>p. P p \<Longrightarrow> dep_ClusterID (f p) = dep_ClusterID p \<and> dep_RevisionID (f p) = dep_RevisionID p \<and>
       dep_RollbackOfRevisionID (f p) = dep_RollbackOfRevisionID p"
    "\<And>p. p \<in> set (db_deployments d) \<Longrightarrow> P p \<Longrightarrow> active_status (dep_Status (f p)) \<Longrightarrow> active_status (dep_Status p)"
  shows "store_ok (d\<lparr>db_deployments := update_where P f (db_deployments d)\<rparr>)"
  using store_ok_tables(5) [OF assms(1)] assms
  by (intro deployments_update_ok one_active_update) (auto simp: deployment_indexes_def)

lemma SetDeploymentArchived_ok:
  assumes "store_ok d" "SetDeploymentArchived i a b at e d = Inr d'" shows "store_ok d'"
  using assms
  by (auto simp: SetDeploymentArchived_def bind_err_Inr elim!: audit_ok intro!: deployment_statement_ok split: if_splits)

lemma DeleteUnstartedDeployment_ok:
  assumes "store_ok d" "DeleteUnstartedDeployment i e d = Inr d'" shows "store_ok d'"
proof -
  let ?d1 = "d\<lparr>db_tasks := filter (\<lambda>t. task_DeploymentID t \<noteq> i) (db_tasks d),
     db_deployments := filter (\<lambda>p. dep_ID p \<noteq> i) (db_deployments d)\<rparr>"
  from assms(2) have free: "\<forall>e \<in> set (db_drifts d). drift_RelatedDeploymentID e \<noteq> Some i"
    and a: "audit e ?d1 = Inr d'"
    by (auto simp: DeleteUnstartedDeployment_def bind_err_Inr unstarted_def list_ex_iff dest!: query_row_Some)
  have ids: "deployment_ids ?d1 = deployment_ids d - {i}" by (auto simp: deployment_ids_def)
  have ref: "ref_in k (deployment_ids ?d1)" if "ref_in k (deployment_ids d)" "k \<noteq> Some i" for k
    using that by (cases k) (auto simp: ids)
  have "refs_ok ?d1"
    using assms(1) free ref by (auto simp: store_ok_def refs_ok_def drift_fk_def task_fk_def ids)
  moreover have "keys_ok ?d1"
    using assms(1)
    by (simp add: store_ok_def keys_ok_def deployment_indexes_def one_active_def task_indexes_def unique_index_filter)
  ultimately show ?thesis using audit_ok [OF a] by (simp add: store_ok_def)
qed

lemma RequestDeploymentCancel_ok:
  assumes "store_ok d" "RequestDeploymentCancel i e d = Inr d'" shows "store_ok d'"
  using assms
  by (auto simp: RequestDeploymentCancel_def Let_def active_status_def elim!: audit_ok intro!: deployment_statement_ok)

lemma ClaimDeployment_ok:
  assumes "store_ok d" "ClaimDeployment at d = Inr (i, d')" shows "store_ok d'"
proof (cases "sort_slice (\<lambda>a b. dep_RequestedAt a < dep_RequestedAt b) (filter claimable (db_deployments d))")
  case Nil
  with assms show ?thesis by (simp add: ClaimDeployment_def)
next
  case (Cons p ps)
  then have "p \<in> set (sort_slice (\<lambda>a b. dep_RequestedAt a < dep_RequestedAt b) (filter claimable (db_deployments d)))" by simp
  then have p: "p \<in> set (db_deployments d)" "claimable p" by simp_all
  have same: "q = p" if "q \<in> set (db_deployments d)" "dep_ID q = dep_ID p" for q
    using that p(1) store_ok_tables(5) [OF assms(1)]
    by (auto simp: deployment_indexes_def intro: unique_index_inj [of "\<lambda>_. True" dep_ID])
  from assms Cons p(2) show ?thesis
    by (auto simp: ClaimDeployment_def claimable_def active_status_def dest: same intro!: deployment_statement_ok)
qed

lemma UpdateDeploymentNode_ok:
  assumes "store_ok d" "UpdateDeploymentNode t d = Inr d'" shows "store_ok d'"
proof (cases "rows_affected (\<lambda>x. task_ID x = task_ID t) (db_tasks d) = 0")
  case True
  then have "update_where (\<lambda>x. task_ID x = task_ID t) f (db_tasks d) = db_tasks d" for f
    by (auto simp: rows_affected_def filter_empty_conv update_where_def intro!: map_idI)
  with assms show ?thesis by (auto simp: UpdateDeploymentNode_def Let_def)
next
  case False
  with assms show ?thesis by (auto simp: UpdateDeploymentNode_def Let_def intro!: tasks_update_ok)
qed

lemma SetDeploymentRunning_ok:
  assumes "store_ok d" "SetDeploymentRunning i d = Inr d'" shows "store_ok d'"
  using assms by (auto simp: SetDeploymentRunning_def active_status_def intro!: deployment_statement_ok)

lemma finish_drift_ok: "store_ok d \<Longrightarrow> store_ok (d\<lparr>db_drifts := finish_drift i s (db_drifts d)\<rparr>)"
  unfolding finish_drift_def by (rule drifts_update_ok) (auto simp: drift_fk_def)

lemma FinishDeployment_ok:
  assumes "store_ok d" "FinishDeployment p b e d = Inr d'" shows "store_ok d'"
proof -
  let ?f = "\<lambda>q. q\<lparr>dep_Status := dep_Status p, dep_ErrorCode := dep_ErrorCode p, dep_CompletedAt := dep_CompletedAt p\<rparr>"
  let ?C = "\<lambda>c. cluster_ID c = dep_ClusterID p"
  let ?g = "\<lambda>c. c\<lparr>cluster_ActiveRevisionID := Some (dep_RevisionID p),
     cluster_UpdatedAt := (case dep_CompletedAt p of None \<Rightarrow> cluster_UpdatedAt c | Some t \<Rightarrow> t)\<rparr>"
  let ?d1 = "d\<lparr>db_deployments := update_where (\<lambda>q. dep_ID q = dep_ID p) ?f (db_deployments d)\<rparr>"
  let ?cls = "if b then update_where ?C ?g (db_clusters ?d1) else db_clusters ?d1"
  let ?d2 = "?d1\<lparr>db_clusters := ?cls\<rparr>"
  from assms(2) have one: "one_active (update_where (\<lambda>q. dep_ID q = dep_ID p) ?f (db_deployments d))"
    and ref: "\<not> b \<or> rows_affected ?C (db_clusters d) = 0 \<or> dep_RevisionID p \<in> revision_ids d"
    and a: "audit e (?d2\<lparr>db_drifts := finish_drift (dep_ID p) (dep_Status p) (db_drifts ?d2)\<rparr>) = Inr d'"
    by (auto simp: FinishDeployment_def Let_def split: if_splits)
  have 1: "store_ok ?d1" by (rule deployments_update_ok [OF assms(1) one]) auto
  have none: "\<not> (\<exists>c \<in> set (db_clusters d). ?C c)" if "rows_affected ?C (db_clusters d) = 0"
    using that by (auto simp: rows_affected_def filter_empty_conv)
  have "cluster_indexes ?cls"
    using store_ok_tables(1) [OF assms(1)] by (auto simp: cluster_indexes_def primary_key_update)
  moreover have "cluster_ids ?d1 \<subseteq> cluster_ID ` set ?cls" by (simp add: cluster_ids_def image_update_where)
  moreover have "\<forall>c \<in> set ?cls. ref_in (cluster_ActiveRevisionID c) (revision_ids ?d1)"
    using store_ok_tables(8) [OF assms(1)] ref none by (auto simp: set_update_where)
  ultimately have "store_ok ?d2" by (intro clusters_ok [OF 1])
  then have "store_ok (?d2\<lparr>db_drifts := finish_drift (dep_ID p) (dep_Status p) (db_drifts ?d2)\<rparr>)" by (rule finish_drift_ok)
  with a show ?thesis by (blast intro: audit_ok)
qed

lemma audit_all_ok: "audit_all at ids ps d = Inr d' \<Longrightarrow> store_ok d \<Longrightarrow> store_ok d'"
  by (induction at ids ps d rule: audit_all.induct) (auto simp: bind_err_Inr intro: audit_ok)

lemma InterruptDeployments_ok:
  assumes "store_ok d" "InterruptDeployments at ids d = Inr d'" shows "store_ok d'"
proof -
  let ?I = "dep_ID ` set (filter (\<lambda>p. in_progress (dep_Status p)) (db_deployments d))"
  let ?d1 = "d\<lparr>db_tasks := interrupt_running_tasks at (db_tasks d)\<rparr>"
  let ?d2 = "?d1\<lparr>db_tasks := skip_pending_tasks at ?I (db_tasks ?d1)\<rparr>"
  have "store_ok ?d1" unfolding interrupt_running_tasks_def by (rule tasks_update_ok [OF assms(1)]) auto
  then have "store_ok ?d2" unfolding skip_pending_tasks_def by (rule tasks_update_ok) auto
  then have "store_ok (?d2\<lparr>db_deployments := update_where (\<lambda>p. in_progress (dep_Status p))
      (\<lambda>p. p\<lparr>dep_Status := Interrupted, dep_ErrorCode := ''CONTROLLER_RESTARTED'', dep_CompletedAt := Some at\<rparr>)
      (db_deployments ?d2)\<rparr>)"
    by (rule deployment_statement_ok) (auto simp: active_status_def)
  with assms(2) show ?thesis by (auto simp: InterruptDeployments_def Let_def intro: audit_all_ok)
qed

lemma UpsertDriftEvent_ok:
  assumes "store_ok d" "UpsertDriftEvent x e d = Inr (r, d')" shows "store_ok d'"
proof (cases "query_row (open_fingerprint (drift_NodeID x) (drift_Fingerprint x)) (db_drifts d)")
  case None
  let ?row = "x\<lparr>drift_Status := DriftOpen, drift_LastSeenAt := drift_DetectedAt x, drift_ResolvedAt := None,
     drift_Resolution := [], drift_RelatedDeploymentID := None\<rparr>"
  from assms(2) None have ok: "drift_ID x \<notin> drift_ID ` set (db_drifts d)" "drift_refs x d"
    and a: "audit e (d\<lparr>db_drifts := db_drifts d @ [?row]\<rparr>) = Inr d'"
    by (auto simp: UpsertDriftEvent_def Let_def bind_err_Inr)
  have "store_ok (d\<lparr>db_drifts := db_drifts d @ [?row]\<rparr>)"
    using ok None store_ok_tables(7,14) [OF assms(1)]
    by (intro drifts_ok [OF assms(1)])
       (auto simp: drift_indexes_def unique_index_append drift_refs_def drift_fk_def cluster_ids_def snapshot_ids_def
         query_row_None open_fingerprint_def)
  with a show ?thesis by (blast intro: audit_ok)
next
  case (Some y)
  with assms show ?thesis
    by (auto simp: UpsertDriftEvent_def Let_def drift_fk_def snapshot_ids_def open_fingerprint_def intro!: drifts_update_ok)
qed

lemma ResolveNodeDrift_ok:
  assumes "store_ok d" "ResolveNodeDrift i s at e d = Inr (b, d')" shows "store_ok d'"
  using assms by (auto simp: ResolveNodeDrift_def bind_err_Inr split: if_splits intro: audit_ok [OF _ resolve_drift_ok])

lemma UpdateDriftReconciliation_ok:
  assumes "store_ok d" "UpdateDriftReconciliation i s k d = Inr d'" shows "store_ok d'"
proof (cases "rows_affected (\<lambda>e. drift_ID e = i) (db_drifts d) = 0")
  case True
  then have "update_where (\<lambda>e. drift_ID e = i) f (db_drifts d) = db_drifts d" for f
    by (auto simp: rows_affected_def filter_empty_conv update_where_def intro!: map_idI)
  with assms show ?thesis by (auto simp: UpdateDriftReconciliation_def)
next
  case False
  with assms show ?thesis by (auto simp: UpdateDriftReconciliation_def drift_fk_def intro!: drifts_update_ok)
qed

lemma RecordAuditEvent_ok: "store_ok d \<Longrightarrow> RecordAuditEvent e d = Inr d' \<Longrightarrow> store_ok d'"
  unfolding RecordAuditEvent_def by (rule audit_ok)


subsection \<open>Committed writes\<close>

inductive store_step :: "db \<Rightarrow> db \<Rightarrow> bool" where
  create_cluster: "CreateCluster c e d = Inr d' \<Longrightarrow> store_step d d'"
| update_cluster: "UpdateCluster c v e d = Inr d' \<Longrightarrow> store_step d d'"
| create_node: "CreateNode r e d = Inr d' \<Longrightarrow> store_step d d'"
| update_node: "UpdateNode r v e d = Inr d' \<Longrightarrow> store_step d d'"
| delete_node: "SoftDeleteNode i v at e d = Inr d' \<Longrightarrow> store_step d d'"
| node_health: "UpdateNodeHealth i h k ver l code at b d = Inr d' \<Longrightarrow> store_step d d'"
| node_test: "RecordNodeTestResult i h k ver l code at b e d = Inr d' \<Longrightarrow> store_step d d'"
| maintenance: "SetNodeMaintenance i b v at e d = Inr d' \<Longrightarrow> store_step d d'"
| observation: "SaveObservation s p d = Inr d' \<Longrightarrow> store_step d d'"
| import_draft: "ImportDraft x v e d = Inr d' \<Longrightarrow> store_step d d'"
| update_draft: "UpdateConfigurationDraft x v e d = Inr d' \<Longrightarrow> store_step d d'"
| publish: "PublishRevision rv v e d = Inr (rv', d') \<Longrightarrow> store_step d d'"
| archive_revision: "SetRevisionArchived i a b at e d = Inr d' \<Longrightarrow> store_step d d'"
| delete_revision: "DeleteUnusedRevision i e d = Inr d' \<Longrightarrow> store_step d d'"
| create_deployment: "CreateDeployment dep e d = Inr d' \<Longrightarrow> store_step d d'"
| archive_deployment: "SetDeploymentArchived i a b at e d = Inr d' \<Longrightarrow> store_step d d'"
| delete_deployment: "DeleteUnstartedDeployment i e d = Inr d' \<Longrightarrow> store_step d d'"
| cancel_deployment: "RequestDeploymentCancel i e d = Inr d' \<Longrightarrow> store_step d d'"
| claim: "ClaimDeployment at d = Inr (i, d') \<Longrightarrow> store_step d d'"
| update_task: "UpdateDeploymentNode task d = Inr d' \<Longrightarrow> store_step d d'"
| set_running: "SetDeploymentRunning i d = Inr d' \<Longrightarrow> store_step d d'"
| mark_applied: "MarkNodeApplied i rid h' sid at d = Inr d' \<Longrightarrow> store_step d d'"
| finish: "FinishDeployment dep b e d = Inr d' \<Longrightarrow> store_step d d'"
| interrupt: "InterruptDeployments at ids d = Inr d' \<Longrightarrow> store_step d d'"
| upsert_drift: "UpsertDriftEvent de e d = Inr (res, d') \<Longrightarrow> store_step d d'"
| resolve_drift: "ResolveNodeDrift i s' at e d = Inr (b, d') \<Longrightarrow> store_step d d'"
| drift_reconciliation: "UpdateDriftReconciliation i rs k' d = Inr d' \<Longrightarrow> store_step d d'"
| record_audit: "RecordAuditEvent e d = Inr d' \<Longrightarrow> store_step d d'"
| convergence: "UpdateNodeConvergence i cv at d = Inr d' \<Longrightarrow> store_step d d'"

lemmas method_ok = CreateCluster_ok UpdateCluster_ok CreateNode_ok UpdateNode_ok SoftDeleteNode_ok
  UpdateNodeHealth_ok RecordNodeTestResult_ok SetNodeMaintenance_ok SaveObservation_ok ImportDraft_ok
  UpdateConfigurationDraft_ok PublishRevision_ok SetRevisionArchived_ok DeleteUnusedRevision_ok CreateDeployment_ok
  SetDeploymentArchived_ok DeleteUnstartedDeployment_ok RequestDeploymentCancel_ok ClaimDeployment_ok UpdateDeploymentNode_ok
  SetDeploymentRunning_ok MarkNodeApplied_ok FinishDeployment_ok InterruptDeployments_ok UpsertDriftEvent_ok
  ResolveNodeDrift_ok UpdateDriftReconciliation_ok UpdateNodeConvergence_ok RecordAuditEvent_ok

lemma store_step_ok: "store_step d d' \<Longrightarrow> store_ok d \<Longrightarrow> store_ok d'"
  by (induction rule: store_step.induct) (blast intro: method_ok)+

lemma empty_ok: "store_ok empty_db"
  by (simp add: store_ok_def keys_ok_def refs_ok_def empty_db_def cluster_indexes_def node_indexes_def draft_indexes_def
      revision_indexes_def deployment_indexes_def one_active_def task_indexes_def drift_indexes_def unique_index_def)

lemma reachable_ok: "store_step\<^sup>*\<^sup>* empty_db d \<Longrightarrow> store_ok d"
  by (induction rule: rtranclp_induct) (auto intro: empty_ok store_step_ok)

lemma one_active_same:
  assumes "store_ok d" "p \<in> set (db_deployments d)" "q \<in> set (db_deployments d)"
    "active_status (dep_Status p)" "active_status (dep_Status q)" "dep_ClusterID p = dep_ClusterID q"
  shows "p = q"
  using store_ok_tables(5) [OF assms(1)] assms(2-)
  by (auto simp: deployment_indexes_def one_active_def intro: unique_index_inj)

text \<open>The columns of a revision that the code calls immutable: all but the archive marks.\<close>

definition revision_content :: "RevisionRow \<Rightarrow> RevisionRow" where
  "revision_content r = r\<lparr>rev_ArchivedAt := None, rev_ArchivedBy := None\<rparr>"

text \<open>What one committed write may do to the revision table and to the audit table.\<close>

definition revisions_change :: "RevisionRow list \<Rightarrow> RevisionRow list \<Rightarrow> bool" where
  "revisions_change rs rs' \<longleftrightarrow>
     map revision_content rs' = map revision_content rs \<or>
     (\<exists>r. rs' = rs @ [r] \<and> (\<forall>x \<in> set rs. rev_ID x \<noteq> rev_ID r \<and>
        (rev_ClusterID x = rev_ClusterID r \<longrightarrow> rev_RevisionNumber x < rev_RevisionNumber r))) \<or>
     (\<exists>i. rs' = filter (\<lambda>r. rev_ID r \<noteq> i) rs)"

lemma audit_tables:
  "audit e d = Inr d' \<Longrightarrow> db_revisions d' = db_revisions d \<and> prefix (db_audit d) (db_audit d')"
  by (auto simp: audit_def split: if_splits)

lemma audit_all_tables:
  "audit_all at ids ps d = Inr d' \<Longrightarrow> db_revisions d' = db_revisions d \<and> prefix (db_audit d) (db_audit d')"
proof (induction at ids ps d rule: audit_all.induct)
  case (3 at i ids p ps d)
  then obtain d1 where "audit (interrupt_event at i p) d = Inr d1" "audit_all at ids ps d1 = Inr d'"
    by (auto simp: bind_err_Inr)
  with 3(1) [of d1] audit_tables [of _ d d1] show ?case by (auto intro: prefix_order.trans)
qed simp_all

lemma insert_tasks_tables:
  "insert_tasks i nodes d = Inr d' \<Longrightarrow> db_revisions d' = db_revisions d \<and> db_audit d' = db_audit d"
  by (induction i nodes d rule: insert_tasks.induct) (auto simp: Let_def)

lemmas method_defs = CreateCluster_def UpdateCluster_def CreateNode_def UpdateNode_def SoftDeleteNode_def
  UpdateNodeHealth_def RecordNodeTestResult_def SetNodeMaintenance_def SaveObservation_def ImportDraft_def
  UpdateConfigurationDraft_def CreateDeployment_def SetDeploymentArchived_def DeleteUnstartedDeployment_def
  RequestDeploymentCancel_def ClaimDeployment_def UpdateDeploymentNode_def SetDeploymentRunning_def MarkNodeApplied_def
  FinishDeployment_def InterruptDeployments_def UpsertDriftEvent_def ResolveNodeDrift_def UpdateDriftReconciliation_def
  UpdateNodeConvergence_def RecordAuditEvent_def

lemma PublishRevision_table:
  assumes "PublishRevision r v e d = Inr (r', d')"
  shows "\<exists>row. db_revisions d' = db_revisions d @ [row] \<and> rev_ID row \<notin> rev_ID ` set (db_revisions d) \<and>
    rev_RevisionNumber row = next_revision_number (rev_ClusterID row) d \<and> rev_ID row = rev_ID r' \<and>
    rev_RevisionNumber row = rev_RevisionNumber r' \<and> rev_ClusterID row = rev_ClusterID r' \<and>
    prefix (db_audit d) (db_audit d')"
  using assms
  by (auto simp: PublishRevision_def Let_def bind_err_Inr RevisionRow.defs dest!: audit_tables)

lemma SetRevisionArchived_table:
  assumes "SetRevisionArchived i a b at e d = Inr d'"
  shows "map revision_content (db_revisions d') = map revision_content (db_revisions d)" "prefix (db_audit d) (db_audit d')"
  using assms
  by (auto simp: SetRevisionArchived_def bind_err_Inr map_update_where revision_content_def split: if_splits
      dest!: audit_tables)

lemma DeleteUnusedRevision_table:
  assumes "DeleteUnusedRevision i e d = Inr d'"
  shows "db_revisions d' = filter (\<lambda>r. rev_ID r \<noteq> i) (db_revisions d)" "prefix (db_audit d) (db_audit d')"
  using assms by (auto simp: DeleteUnusedRevision_def bind_err_Inr dest!: audit_tables)

lemma store_step_tables:
  "store_step d d' \<Longrightarrow> revisions_change (db_revisions d) (db_revisions d') \<and> prefix (db_audit d) (db_audit d')"
proof (induction rule: store_step.induct)
  case (publish rv v e d rv' d')
  from PublishRevision_table [OF this] obtain row where row: "db_revisions d' = db_revisions d @ [row]"
    "rev_ID row \<notin> rev_ID ` set (db_revisions d)" "rev_RevisionNumber row = next_revision_number (rev_ClusterID row) d"
    and a: "prefix (db_audit d) (db_audit d')" by blast
  have "\<forall>x \<in> set (db_revisions d). rev_ID x \<noteq> rev_ID row \<and>
      (rev_ClusterID x = rev_ClusterID row \<longrightarrow> rev_RevisionNumber x < rev_RevisionNumber row)"
    using row(2,3) next_revision_number_fresh [of _ d "rev_ClusterID row"] by (auto simp: image_iff)
  then have "revisions_change (db_revisions d) (db_revisions d')"
    unfolding revisions_change_def row(1) by blast
  with a show ?case by simp
next
  case (archive_revision i a b at e d d')
  from SetRevisionArchived_table [OF this] show ?case by (simp add: revisions_change_def)
next
  case (delete_revision i e d d')
  from DeleteUnusedRevision_table [OF this] show ?case by (auto simp: revisions_change_def)
qed (auto simp: revisions_change_def method_defs Let_def bind_err_Inr
      dest!: audit_tables insert_tasks_tables audit_all_tables split: if_splits option.splits list.splits)

end
