(* ===== verification/Store_Properties.thy ===== *)
theory Store_Properties
  imports Store_Invariant
begin

text \<open>
  What the methods of the store promise their callers: integrity of every reachable state,
  immutable revisions and an append-only audit trail, one active deployment per cluster,
  optimistic concurrency on drafts, and recovery after a restart; and the two methods that
  cannot do what they are for in some states.
\<close>

subsection \<open>A sample store\<close>

definition sample_event :: "string \<Rightarrow> AuditEvent" where
  "sample_event i = \<lparr>audit_ID = i, audit_ActorType = ''system'', audit_ActorUserID = None, audit_Action = ''a'',
     audit_ResourceType = ''r'', audit_ResourceID = None, audit_RequestID = ''q'', audit_Metadata = [], audit_CreatedAt = 1\<rparr>"

definition sample_cluster :: "string option \<Rightarrow> Cluster" where
  "sample_cluster active = \<lparr>cluster_ID = ''c'', cluster_Name = ''home'', cluster_Description = [],
     cluster_ReconciliationPolicy = ''enforce'', cluster_ActiveRevisionID = active, cluster_Version = 1,
     cluster_CreatedAt = 1, cluster_UpdatedAt = 1\<rparr>"

definition sample_db_node :: "string \<Rightarrow> CertificatePolicy \<Rightarrow> string \<Rightarrow> NodeRow" where
  "sample_db_node i policy pem = \<lparr>rec_Node = \<lparr>node_ID = i, node_ClusterID = ''c'', node_Name = i, node_BaseURL = i,
     node_CertificatePolicy = policy, node_Enabled = True, node_MaintenanceMode = False, node_HealthStatus = NodeHealthy,
     node_CompatibilityStatus = CompatibilitySupported, node_Version = ''v0.107.79'', node_LastSeenAt = None,
     node_LastPolledAt = None, node_LatencyMS = None, node_LastErrorCode = [], node_AppliedRevisionID = None,
     node_AppliedHash = [], node_ConvergenceStatus = ConvPending, node_LastReconciledAt = None, node_RecordVersion = 1,
     node_CreatedAt = 1, node_UpdatedAt = 1\<rparr>,
     rec_Secrets = \<lparr>secret_Credentials = \<lparr>enc_Ciphertext = ''x'', enc_Nonce = ''n'', enc_KeyVersion = 1, enc_Algorithm = ''aes''\<rparr>,
       secret_CustomCAPEM = pem\<rparr>,
     row_DeletedAt = None\<rparr>"

definition sample_revision_row :: RevisionRow where
  "sample_revision_row = \<lparr>rev_ID = ''r'', rev_ClusterID = ''c'', rev_RevisionNumber = 1, rev_SchemaVersion = 2,
     rev_Document = sample_revision, rev_CanonicalHash = ''h'', rev_Summary = ''first'', rev_CreatedBy = ''u'',
     rev_CreatedAt = 1, rev_ArchivedAt = None, rev_ArchivedBy = None\<rparr>"

definition sample_deployment_row :: "DeploymentStatus \<Rightarrow> DeploymentRow" where
  "sample_deployment_row s = \<lparr>dep_ID = ''p'', dep_ClusterID = ''c'', dep_RevisionID = ''r'', dep_Status = s,
     dep_Strategy = ''sequential'', dep_FailurePolicy = ''stop'', dep_Origin = ''manual'', dep_RollbackOfRevisionID = None,
     dep_RequestedBy = None, dep_RequestID = ''q'', dep_CancelRequested = False, dep_ErrorCode = [], dep_RequestedAt = 5,
     dep_StartedAt = None, dep_CompletedAt = None, dep_ArchivedAt = None, dep_ArchivedBy = None\<rparr>"

definition sample_task :: "TaskStatus \<Rightarrow> DeploymentNode" where
  "sample_task s = \<lparr>task_ID = ''t'', task_DeploymentID = ''p'', task_NodeID = ''n'', task_Position = 1,
     task_EffectiveHash = ''h'', task_Status = s, task_AttemptCount = 0, task_StartedAt = None, task_CompletedAt = None,
     task_ErrorCode = [], task_ErrorMessage = [], task_VerificationSnapshotID = None\<rparr>"

definition sample_draft :: Draft where
  "sample_draft = \<lparr>draft_ID = ''d'', draft_ClusterID = ''c'', draft_SourceSnapshotID = ''s'', draft_BaseRevisionID = None,
     draft_SchemaVersion = 2, draft_Document = sample_revision, draft_CanonicalHash = ''h'', draft_Version = 3,
     draft_UpdatedBy = ''u'', draft_UpdatedAt = 1\<rparr>"

definition sample_db :: "DeploymentStatus \<Rightarrow> TaskStatus \<Rightarrow> db" where
  "sample_db s ts = empty_db\<lparr>db_clusters := [sample_cluster None], db_nodes := [sample_db_node ''n'' ''system'' []],
     db_drafts := [sample_draft], db_revisions := [sample_revision_row],
     db_deployments := [sample_deployment_row s], db_tasks := [sample_task ts]\<rparr>"

lemmas sample_defs = sample_event_def sample_cluster_def sample_db_node_def sample_revision_row_def
  sample_deployment_row_def sample_task_def sample_draft_def sample_db_def empty_db_def


lemma revision_content_ID [simp]: "rev_ID (revision_content r) = rev_ID r"
  by (simp add: revision_content_def)


subsection \<open>Properties\<close>

text \<open>
  C12: In every state that committed writes reach from the empty store, all unique indexes
  and all foreign keys hold; in particular a cluster never has two deployments that are
  queued, validating, running or cancelling.
\<close>

theorem store_integrity:
  assumes "store_step\<^sup>*\<^sup>* empty_db d"
  shows "keys_ok d \<and> refs_ok d \<and>
    (\<forall>p \<in> set (db_deployments d). \<forall>q \<in> set (db_deployments d). dep_ClusterID p = dep_ClusterID q \<longrightarrow>
       active_status (dep_Status p) \<longrightarrow> active_status (dep_Status q) \<longrightarrow> p = q)"
  using reachable_ok [OF assms] one_active_same [OF reachable_ok [OF assms]] by (auto simp: store_ok_def)

theorem store_integrity_witness:
  "\<exists>d. store_step\<^sup>*\<^sup>* empty_db d \<and> db_clusters d \<noteq> [] \<and> keys_ok d \<and> refs_ok d"
proof -
  obtain d where d: "CreateCluster (sample_cluster None) (sample_event ''e'') empty_db = Inr d" "db_clusters d \<noteq> []"
    by (simp add: CreateCluster_def sample_defs cluster_check_def cluster_indexes_def unique_index_def audit_def Let_def
        char_length_between_def RuneCountInString.simps rune_len_def ValidReconciliationPolicy_def ReconciliationEnforce_def)
  then have "store_step\<^sup>*\<^sup>* empty_db d" by (blast intro: store_step.create_cluster)
  with store_integrity [OF this] d(2) show ?thesis by blast
qed



text \<open>
  While a cluster has an active deployment, creating another one for it fails with a
  conflict, whatever its targets.
\<close>

lemma CreateDeployment_exclusive:
  assumes "ClusterHasActiveDeployment (dep_ClusterID p) d" and "deployment_check (new_deployment_row p)"
    and "active_status (dep_Status p)"
  shows "CreateDeployment p e d = Inl (NewError ErrorConflict ''the cluster already has an active deployment'')"
proof -
  have "\<not> one_active (db_deployments d @ [new_deployment_row p])"
    using assms(1,3)
    by (auto simp: ClusterHasActiveDeployment_def one_active_def unique_index_append list_ex_iff new_deployment_row_def
        DeploymentRow.defs intro: rev_image_eqI)
  with assms(2) show ?thesis by (simp add: CreateDeployment_def Let_def deployment_indexes_def require_def)
qed

text \<open>
  C18: Optimistic concurrency on drafts: an update commits only against the version it was
  computed from and raises it by one, so of two updates made from the same version the
  second fails with a conflict.
\<close>

theorem draft_update_once:
  assumes "UpdateConfigurationDraft x v e d = Inr d'" and "draft_ClusterID y = draft_ClusterID x"
    and "primary_key draft_ClusterID (db_drafts d)"
  shows "(\<exists>r' \<in> set (db_drafts d'). draft_ClusterID r' = draft_ClusterID x \<and> draft_Version r' = v + 1 \<and>
      draft_Document r' = draft_Document x) \<and>
    UpdateConfigurationDraft y v e' d' = Inl draft_conflict"
proof -
  let ?P = "\<lambda>r. draft_ClusterID r = draft_ClusterID x \<and> draft_Version r = v"
  let ?f = "\<lambda>r. r\<lparr>draft_Document := draft_Document x, draft_CanonicalHash := draft_CanonicalHash x,
     draft_Version := draft_Version r + 1, draft_UpdatedBy := draft_UpdatedBy x, draft_UpdatedAt := draft_UpdatedAt x\<rparr>"
  from assms(1) have one: "rows_affected ?P (db_drafts d) = 1" and d': "db_drafts d' = update_where ?P ?f (db_drafts d)"
    by (auto simp: UpdateConfigurationDraft_def Let_def audit_def split: if_splits)
  then obtain r where r: "r \<in> set (db_drafts d)" "?P r"
    using rows_affected_pos [of ?P "db_drafts d"] by auto
  have only: "s = r" if "s \<in> set (db_drafts d)" "draft_ClusterID s = draft_ClusterID x" for s
    using unique_index_inj [OF assms(3) that(1) r(1)] that(2) r(2) by simp
  have "draft_Version s \<noteq> v" if "s \<in> set (db_drafts d')" "draft_ClusterID s = draft_ClusterID y" for s
  proof -
    from that obtain s0 where s0: "s0 \<in> set (db_drafts d)" "s = (if ?P s0 then ?f s0 else s0)"
      unfolding d' set_update_where by blast
    with that(2) assms(2) have "draft_ClusterID s0 = draft_ClusterID x" by (cases "?P s0") simp_all
    with only s0(1) have "s0 = r" by blast
    with s0(2) r(2) show ?thesis by simp
  qed
  then have "rows_affected (\<lambda>s. draft_ClusterID s = draft_ClusterID y \<and> draft_Version s = v) (db_drafts d') = 0"
    by (auto simp: rows_affected_def filter_empty_conv)
  then have "UpdateConfigurationDraft y v e' d' = Inl draft_conflict"
    by (simp add: UpdateConfigurationDraft_def Let_def require_def)
  moreover have "?f r \<in> set (db_drafts d')" using r by (auto simp: d' set_update_where)
  then have "\<exists>r' \<in> set (db_drafts d'). draft_ClusterID r' = draft_ClusterID x \<and> draft_Version r' = v + 1 \<and>
      draft_Document r' = draft_Document x"
    by (rule rev_bexI) (use r(2) in simp)
  ultimately show ?thesis by simp
qed

theorem draft_update_once_witness:
  "\<exists>d'. UpdateConfigurationDraft sample_draft 3 (sample_event ''e'') (sample_db Queued TaskPending) = Inr d' \<and>
     UpdateConfigurationDraft sample_draft 3 (sample_event ''f'') d' = Inl draft_conflict"
proof -
  obtain d' where d': "UpdateConfigurationDraft sample_draft 3 (sample_event ''e'') (sample_db Queued TaskPending) = Inr d'"
    by (simp add: UpdateConfigurationDraft_def sample_defs rows_affected_def audit_def Let_def require_def)
  with draft_update_once [OF this refl, of "sample_event ''f''"] show ?thesis
    by (auto simp: sample_db_def unique_index_def)
qed

text \<open>
  A published revision gets a number above every earlier revision of its cluster; the
  numbers of a cluster without deletions are therefore strictly increasing, and the draft is
  based on the new revision.
\<close>

lemma PublishRevision_numbering:
  assumes "PublishRevision rv v e d = Inr (rv', d')" and "r \<in> set (db_revisions d)" "rev_ClusterID r = rev_ClusterID rv'"
  shows "rev_RevisionNumber r < rev_RevisionNumber rv' \<and> rev_ID r \<noteq> rev_ID rv' \<and>
    (\<exists>x \<in> set (db_drafts d'). draft_ClusterID x = rev_ClusterID rv' \<and> draft_BaseRevisionID x = Some (rev_ID rv') \<and>
       draft_Version x = v + 1)"
proof -
  let ?P = "\<lambda>x. draft_ClusterID x = rev_ClusterID rv \<and> draft_Version x = v"
  let ?f = "\<lambda>x. x\<lparr>draft_BaseRevisionID := Some (rev_ID rv), draft_Version := draft_Version x + 1,
     draft_UpdatedBy := rev_CreatedBy rv, draft_UpdatedAt := rev_CreatedAt rv\<rparr>"
  from assms(1) have eq: "rev_ID rv' = rev_ID rv" "rev_ClusterID rv' = rev_ClusterID rv"
    and one: "rows_affected ?P (db_drafts d) = 1" and d': "db_drafts d' = update_where ?P ?f (db_drafts d)"
    by (auto simp: PublishRevision_def Let_def bind_err_Inr audit_def split: if_splits)
  from one obtain x where "x \<in> set (db_drafts d)" "?P x"
    using rows_affected_pos [of ?P "db_drafts d"] by auto
  then have "?f x \<in> set (db_drafts d') \<and> draft_Version (?f x) = v + 1 \<and> draft_ClusterID (?f x) = rev_ClusterID rv"
    by (auto simp: d' set_update_where)
  moreover obtain row :: RevisionRow where "rev_ID row \<notin> rev_ID ` set (db_revisions d)" "rev_ID row = rev_ID rv'"
    "rev_RevisionNumber row = next_revision_number (rev_ClusterID row) d" "rev_RevisionNumber row = rev_RevisionNumber rv'"
    "rev_ClusterID row = rev_ClusterID rv'"
    using PublishRevision_table [OF assms(1)] by blast
  moreover have "rev_RevisionNumber r < next_revision_number (rev_ClusterID rv') d"
    by (rule next_revision_number_fresh [OF assms(2,3)])
  moreover from calculation assms(2) have "rev_ID r \<noteq> rev_ID rv'" by (metis imageI)
  ultimately show ?thesis using assms(2) by (auto simp: eq intro!: rev_bexI [of "?f x"])
qed

lemma audit_all_deployments:
  "audit_all at ids ps d = Inr d' \<Longrightarrow> db_deployments d' = db_deployments d \<and> db_tasks d' = db_tasks d \<and> db_drifts d' = db_drifts d"
  by (induction at ids ps d rule: audit_all.induct) (auto simp: bind_err_Inr audit_def split: if_splits)

lemma InterruptDeployments_tables:
  assumes "InterruptDeployments at ids d = Inr d'"
  shows "db_deployments d' = update_where (\<lambda>p. in_progress (dep_Status p))
      (\<lambda>p. p\<lparr>dep_Status := Interrupted, dep_ErrorCode := ''CONTROLLER_RESTARTED'', dep_CompletedAt := Some at\<rparr>)
      (db_deployments d)"
    and "db_tasks d' = skip_pending_tasks at (dep_ID ` set (filter (\<lambda>p. in_progress (dep_Status p)) (db_deployments d)))
      (interrupt_running_tasks at (db_tasks d))"
    and "db_drifts d' = db_drifts d"
  using audit_all_deployments [OF assms [unfolded InterruptDeployments_def Let_def]] by simp_all

lemma interrupted_tasks:
  "t \<in> set (interrupt_running_tasks at rows) \<Longrightarrow> task_Status t \<notin> {TaskValidating, TaskApplying, TaskVerifying}"
  unfolding interrupt_running_tasks_def by (erule update_whereE) auto

lemma skipped_tasks:
  assumes "t \<in> set (skip_pending_tasks at I rows)"
  shows "task_DeploymentID t \<in> I \<Longrightarrow> task_Status t \<noteq> TaskPending"
    and "(\<And>s. s \<in> set rows \<Longrightarrow> task_Status s \<notin> S) \<Longrightarrow> TaskSkipped \<notin> S \<Longrightarrow> task_Status t \<notin> S"
  using assms unfolding skip_pending_tasks_def by (auto elim!: update_whereE)



text \<open>
  C24: Removing a node whose certificate policy is \<open>custom_ca\<close> always fails: the statement
  blanks the CA material but keeps the policy, which the table's \<open>CHECK\<close> clause rejects, so
  the node can never be removed.
\<close>

theorem SoftDeleteNode_custom_ca_fails:
  assumes "\<forall>r \<in> set (db_nodes d). row_ID r = i \<longrightarrow> node_CertificatePolicy (rec_Node r) = CertificateCustomCA"
  shows "\<exists>err. SoftDeleteNode i v at e d = Inl err"
proof (cases "rows_affected (\<lambda>r. row_ID r = i \<and> node_RecordVersion (rec_Node r) = v \<and> live r) (db_nodes d) = 0")
  case True
  then show ?thesis by (simp add: SoftDeleteNode_def Let_def)
next
  case False
  then obtain r where r: "r \<in> set (db_nodes d)" "row_ID r = i" "node_RecordVersion (rec_Node r) = v" "live r"
    by (auto simp: rows_affected_def filter_empty_conv)
  have "\<not> node_check (r\<lparr>row_DeletedAt := Some at,
     rec_Secrets := (rec_Secrets r)\<lparr>
       secret_Credentials := (secret_Credentials (rec_Secrets r))\<lparr>enc_Ciphertext := [], enc_Nonce := []\<rparr>,
       secret_CustomCAPEM := []\<rparr>,
     rec_Node := (rec_Node r)\<lparr>node_Enabled := False, node_HealthStatus := NodeDisabled, node_UpdatedAt := at,
       node_RecordVersion := node_RecordVersion (rec_Node r) + 1\<rparr>\<rparr>)"
    using assms r by (simp add: node_check_def Let_def)
  with False r show ?thesis
    by (auto simp: SoftDeleteNode_def Let_def require_def list_all_iff)
qed

theorem SoftDeleteNode_custom_ca_fails_witness:
  "node_check (sample_db_node ''n'' CertificateCustomCA ''pem'') \<and>
   (\<exists>err. SoftDeleteNode ''n'' 1 7 (sample_event ''e'')
      ((sample_db Succeeded TaskSucceeded)\<lparr>db_nodes := [sample_db_node ''n'' CertificateCustomCA ''pem'']\<rparr>) = Inl err)"
proof -
  have "node_check (sample_db_node ''n'' CertificateCustomCA ''pem'')"
    by (simp add: node_check_def sample_db_node_def char_length_between_def RuneCountInString.simps rune_len_def)
  with SoftDeleteNode_custom_ca_fails
    [of "(sample_db Succeeded TaskSucceeded)\<lparr>db_nodes := [sample_db_node ''n'' CertificateCustomCA ''pem'']\<rparr>" "''n''"]
  show ?thesis by (auto simp: sample_db_node_def)
qed

text \<open>
  C25: For a cluster that has never had an active revision, a revision that the listing
  reports as archivable and deletable can be neither archived nor deleted: the comparison
  with the missing active revision is \<open>NULL\<close>, which cannot be scanned into a boolean.
\<close>

theorem archive_without_active_fails:
  assumes "query_row (\<lambda>r. rev_ID r = i) (db_revisions d) = Some r" and "joined_cluster r d = Some c"
    and "cluster_ActiveRevisionID c = None" and "rev_ArchivedAt r = None" and "\<not> revision_retained i d"
  shows "CanArchive (rev_Lifecycle (scanRevision d c r)) \<and> CanDelete (rev_Lifecycle (scanRevision d c r)) \<and>
    SetRevisionArchived i a True at e d = Inl (PlainError ''cannot scan NULL into *bool'') \<and>
    DeleteUnusedRevision i e d = Inl (PlainError ''cannot scan NULL into *bool'')"
proof -
  have "rev_ID r = i" using query_row_Some [OF assms(1)] by simp
  with assms show ?thesis
    by (simp add: scanRevision_def Let_def RevisionRow.defs Revision.defs SetRevisionArchived_def DeleteUnusedRevision_def
        mapDatabaseError_def scan_bool_def sql_eq_def sql_or_def)
qed

theorem archive_without_active_fails_witness:
  "SetRevisionArchived ''r'' ''u'' True 7 (sample_event ''e'')
     ((sample_db Queued TaskPending)\<lparr>db_deployments := []\<rparr>) = Inl (PlainError ''cannot scan NULL into *bool'')"
proof -
  let ?d = "(sample_db Queued TaskPending)\<lparr>db_deployments := []\<rparr>"
  have "query_row (\<lambda>r. rev_ID r = ''r'') (db_revisions ?d) = Some sample_revision_row"
    "joined_cluster sample_revision_row ?d = Some (sample_cluster None)" "\<not> revision_retained ''r'' ?d"
    by (simp_all add: query_row_def joined_cluster_def revision_retained_def sample_defs)
  with archive_without_active_fails [OF this(1,2)] show ?thesis
    by (simp add: sample_cluster_def sample_revision_row_def)
qed

end
