(* ===== verification/Samples.thy ===== *)
theory Samples
  imports Service Store_Properties
begin

text \<open>
  Concrete inputs for the witnesses of the services: an environment without interference or
  faults, an observer that reports the same configuration for every node, and a store with a
  claimed deployment to two nodes.
\<close>

definition sample_snapshot :: Snapshot where
  "sample_snapshot = \<lparr>snap_ID = ''o'', snap_NodeID = ''n'', snap_ObservedAt = 2, snap_SchemaVersion = 2,
     snap_Document = Some sample_observation, snap_CanonicalHash = [], snap_NodeVersion = ''v0.107.79'',
     snap_CollectionStatus = ''succeeded'', snap_ErrorCode = []\<rparr>"

definition sample_observe :: observe where
  "sample_observe = (\<lambda>_. ret sample_snapshot)"

definition sample_env :: env where
  "sample_env = \<lparr>now_at = int, new_id = (\<lambda>t. Some (digits t)), interfere = (\<lambda>_ d. d), db_fault = (\<lambda>_. False),
     encrypt = (\<lambda>_ _ _. None), decrypt = (\<lambda>_ _. Some \<lparr>cred_Username = ''u'', cred_Password = ''p''\<rparr>),
     apply_configuration = (\<lambda>_ _ _. None), read_configuration = (\<lambda>_ _ _. undefined), probe_status = (\<lambda>_ _. Inl (PlainError [])),
     read_blocked_services = None, read_filter_lists = (\<lambda>_. None), refresh_filters = None, read_dhcp_interfaces = None,
     find_active_dhcp = None, encrypt_payload = (\<lambda>_ _ s. Some (zero_payload\<lparr>pay_Ciphertext := s\<rparr>)),
     decrypt_payload = (\<lambda>_ p. Some (pay_Ciphertext p)), test_upstream_dns = (\<lambda>_ _ _. ([], None)),
     test_host_filtering = (\<lambda>_ _ _. Inl (PlainError [])), clear_dns_cache = (\<lambda>_ _. None), clear_query_log = (\<lambda>_ _. None),
     reset_statistics = (\<lambda>_ _. None), reset_dhcp = Some (\<lambda>_ _. None, \<lambda>_ _. None), ctx_done = (\<lambda>_. False), map_order = (\<lambda>_ xs. xs),
     random_bytes = (\<lambda>t n. Some (replicate n (char_of t))), session_duration = (\<lambda>_. 3600), totp_generate = (\<lambda>_ _ _. Some (''SECRET'', ''otpauth'')),
     totp_image = (\<lambda>_. Some []), other_attempts = (\<lambda>_ l. l)\<rparr>"

text \<open>Two nodes, the deployment claimed, both targets pending.\<close>

definition sample_targets :: db where
  "sample_targets = (sample_db Validating TaskPending)\<lparr>
     db_nodes := [sample_db_node ''n'' ''system'' [], sample_db_node ''m'' ''system'' []],
     db_snapshots := [sample_snapshot],
     db_revisions := [sample_revision_row\<lparr>rev_Document := sample_revision\<lparr>des_NodeOverrides :=
       [(''n'', sample_override), (''m'', sample_override)]\<rparr>\<rparr>],
     db_tasks := [sample_task TaskPending, (sample_task TaskPending)\<lparr>task_ID := ''u'', task_NodeID := ''m'', task_Position := 2\<rparr>]\<rparr>"

text \<open>
  A published revision with two nodes, the first of which runs DHCP, both observed, with
  capability profiles and without a deployment.
\<close>

definition sample_uuid :: string where
  "sample_uuid = ''11111111-2222-4333-8444-555555555555''"

definition sample_service :: service where
  "sample_service = \<lparr>srv_host = sample_host, srv_blockedServiceValidator = None\<rparr>"

definition sample_profile :: "string \<Rightarrow> CapabilityProfile" where
  "sample_profile i = \<lparr>cap_NodeID = i, cap_ProductVersion = ''v0.107.79'', cap_Compatibility = ''supported'', cap_SchemaVersion = 2,
     cap_Features = map (\<lambda>f. (f, True)) [''dns'', ''filtering'', ''clients'', ''rewrites'', ''blocked_services'', ''safety'',
       ''query_log'', ''statistics'', ''tls'', ''dhcp'', ''rewrite_toggle''], cap_Warnings = [], cap_RefreshedAt = 1\<rparr>"

definition sample_published_node :: "string \<Rightarrow> NodeRow" where
  "sample_published_node i = rec_Node_update (\<lambda>n. n\<lparr>node_ClusterID := sample_uuid\<rparr>) (sample_db_node i ''system'' [])"

definition sample_published :: db where
  "sample_published = empty_db\<lparr>db_clusters := [(sample_cluster None)\<lparr>cluster_ID := sample_uuid\<rparr>],
     db_nodes := [sample_published_node ''a'', sample_published_node ''b''],
     db_snapshots := [sample_snapshot\<lparr>snap_ID := ''s'', snap_NodeID := ''a''\<rparr>, sample_snapshot\<lparr>snap_ID := ''t'', snap_NodeID := ''b''\<rparr>],
     db_profiles := [sample_profile ''a'', sample_profile ''b''],
     db_drafts := [sample_draft\<lparr>draft_ClusterID := sample_uuid, draft_Document := sample_desired\<rparr>],
     db_revisions := [sample_revision_row\<lparr>rev_ID := sample_uuid, rev_ClusterID := sample_uuid, rev_Document := sample_desired\<rparr>]\<rparr>"

definition sample_start :: world where
  "sample_start = \<lparr>w_db = sample_published, w_tick = 0, w_trace = [], w_catalogues = [], w_filterLists = [],
     w_limiter = NewLoginLimiter 5 (seconds 900), w_factorLimiter = NewLoginLimiter 5 (seconds 900), w_passwordLimiter = NewLoginLimiter 5 (seconds 900)\<rparr>"

end
