(* ===== verification/Executor_Properties.thy ===== *)
theory Executor_Properties
  imports Samples
begin

text \<open>
  What the deployment executor guarantees under arbitrary interference by other requests,
  repository faults and answers of the nodes, for every observer that only reads. The traces
  come from the locale \<open>observer\<close>; the witnesses run the executor on a stored deployment.
\<close>

subsection \<open>A concrete run\<close>

definition sample_world :: world where
  "sample_world = \<lparr>w_db = sample_targets, w_tick = 0, w_trace = [], w_catalogues = [], w_filterLists = [],
     w_limiter = NewLoginLimiter 5 (seconds 900), w_factorLimiter = NewLoginLimiter 5 (seconds 900), w_passwordLimiter = NewLoginLimiter 5 (seconds 900)\<rparr>"

definition sample_run :: "event list" where
  "sample_run = w_trace (snd (execute sample_observe ''p'' sample_env sample_world))"

fun event_tag :: "event \<Rightarrow> nat" where
  "event_tag (EApply q document res) = (if res = None then 1 else 0)"
| "event_tag (EObserve i r) = 2"
| "event_tag (ERunning i) = 3"
| "event_tag (ETask t) = 4"
| "event_tag (EApplied n r h) = 5"
| "event_tag (EFinish p activate) = (if activate \<and> dep_Status p = Succeeded then 6 else 7)"
| "event_tag _ = 8"

lemma sample_run_tags: "map event_tag sample_run = [2, 2, 3, 4, 1, 4, 2, 4, 5, 4, 1, 4, 2, 4, 5, 6]"
  by code_simp

lemma event_tag_apply: "event_tag ev = 1 \<Longrightarrow> \<exists>q document. ev = EApply q document None"
  by (cases ev) (auto split: if_splits)

lemma event_tag_activated: "event_tag ev = 6 \<Longrightarrow> \<exists>p. ev = EFinish p True \<and> dep_Status p = Succeeded"
  by (cases ev) (auto split: if_splits)

lemma is_apply_tag: "is_apply ev \<longleftrightarrow> event_tag ev \<in> {0, 1}"
  by (cases ev) auto

lemma sample_second_write:
  "\<exists>ls q document rs. sample_run = ls @ EApply q document None # rs \<and> length (filter is_apply ls) = 1"
proof -
  have n: "10 < length sample_run" using arg_cong [OF sample_run_tags, of length] by simp
  have tags: "event_tag (sample_run ! 10) = 1" "map event_tag (take 10 sample_run) = [2, 2, 3, 4, 1, 4, 2, 4, 5, 4]"
    using n arg_cong [OF sample_run_tags, of "\<lambda>xs. xs ! 10"] arg_cong [OF sample_run_tags, of "take 10"]
    by (simp_all add: take_map)
  have "length (filter is_apply us) = length (filter (\<lambda>n. n \<in> {0, 1}) (map event_tag us))" for us
    by (induction us) (simp_all add: is_apply_tag)
  from this [of "take 10 sample_run", unfolded tags(2)] have "length (filter is_apply (take 10 sample_run)) = 1" by simp
  with event_tag_apply [OF tags(1)] id_take_nth_drop [OF n] show ?thesis by metis
qed

lemma sample_activation: "\<exists>p. EFinish p True \<in> set sample_run \<and> dep_Status p = Succeeded"
proof -
  have "15 < length sample_run" "event_tag (sample_run ! 15) = 6"
    using arg_cong [OF sample_run_tags, of length] arg_cong [OF sample_run_tags, of "\<lambda>xs. xs ! 15"] by simp_all
  then show ?thesis using event_tag_activated by (metis nth_mem)
qed

lemma sample_run_trace: "w_trace (snd (execute sample_observe ''p'' sample_env sample_world)) = w_trace sample_world @ sample_run"
proof -
  have "w_trace sample_world = []" by (simp add: sample_world_def)
  then show ?thesis by (simp add: sample_run_def)
qed

lemma sample_observe_silent: "silent (sample_observe i)"
  by (simp add: sample_observe_def quiet)


subsection \<open>Properties\<close>

lemma revalidated_tasks: "list_all2 (revalidated rv us) tasks items \<Longrightarrow> map pre_task items = tasks"
  by (induction rule: list_all2_induct) (simp_all add: revalidated_def)

lemma list_all2_left: "list_all2 R xs ys \<Longrightarrow> x \<in> set xs \<Longrightarrow> \<exists>y \<in> set ys. R x y"
  by (induction rule: list_all2_induct) auto

lemma list_all2_right: "list_all2 R xs ys \<Longrightarrow> y \<in> set ys \<Longrightarrow> \<exists>x \<in> set xs. R x y"
  by (induction rule: list_all2_induct) auto

lemma execute_apply:
  assumes "\<And>i. silent (obs i)" "w_trace (snd (execute obs i e w)) = w_trace w @ ls @ EApply q document res # rs"
  shows "\<exists>p rv. loaded e w i = Some (p, rv) \<and> execution_trace p rv (ls @ EApply q document res # rs)"
  using observer.execute_trace [of obs i e w] assms writes_nothing_apply [of "ls @ EApply q document res # rs" q document res]
  by (auto simp: observer_def)



text \<open>
  C2: The executor writes the targets one after another, in the order of the deployment, and
  goes on only from a verified target: when it writes a target, each earlier target has been
  written successfully, read back without a managed difference and marked applied, in this
  order, and there has been no other write.
\<close>

theorem execute_sequential:
  assumes "\<And>i. silent (obs i)" and "w_trace (snd (execute obs i e w)) = w_trace w @ ls @ EApply q document res # rs"
  shows "\<exists>p rv before item later us blocks tail. loaded e w i = Some (p, rv) \<and>
    map pre_task (before @ item # later) = dep_Nodes p \<and> document = pre_effective item \<and>
    ls = us @ ERunning (dep_ID p) # concat blocks @ tail \<and>
    list_all2 (verified rv) before blocks \<and> filter is_apply (us @ tail) = []"
proof -
  from execute_apply [OF assms] obtain p rv where p: "loaded e w i = Some (p, rv)"
    and "execution_trace p rv (ls @ EApply q document res # rs)" by blast
  then obtain us before item later blocks tail where *: "list_all2 (revalidated rv us) (dep_Nodes p) (before @ item # later)"
    "document = pre_effective item" "ls = us @ ERunning (dep_ID p) # concat blocks @ tail"
    "list_all2 (verified rv) before blocks" "filter is_apply (us @ tail) = []"
    using execution_trace_apply by blast
  with p revalidated_tasks [OF *(1)] * show ?thesis by blast
qed

lemma verified_one_apply: "verified rv item us \<Longrightarrow> length (filter is_apply us) = 1"
  by (auto simp: verified_def)

lemma verified_applies: "list_all2 (verified rv) items blocks \<Longrightarrow> length (filter is_apply (concat blocks)) = length items"
  by (induction rule: list_all2_induct) (simp_all add: verified_one_apply)

theorem execute_sequential_witness:
  "\<exists>rv item block. verified rv item block \<and> set block \<subseteq> set sample_run"
proof -
  obtain ls q document rs where run: "sample_run = ls @ EApply q document None # rs" and one: "length (filter is_apply ls) = 1"
    using sample_second_write by blast
  note trace = sample_run_trace [unfolded run]
  from execute_sequential [OF sample_observe_silent trace] obtain p :: Deployment and rv before item later us blocks tail where
    *: "ls = us @ ERunning (dep_ID p) # concat blocks @ tail" "list_all2 (verified rv) before blocks"
      "filter is_apply (us @ tail) = []" by blast
  with one verified_applies [OF *(2)] have "length before = 1" by simp
  then obtain x where "before = [x]" by (auto simp: length_Suc_conv)
  with *(2) obtain block where "blocks = [block]" "verified rv x block" by (auto simp: list_all2_Cons1)
  moreover from this(1) have "set block \<subseteq> set sample_run" unfolding run *(1) by auto
  ultimately show ?thesis by blast
qed

text \<open>
  C3: A deployment is recorded as succeeded, and its revision is activated, only when every
  target of it was revalidated, written, read back and found equal to its effective
  configuration; the finish is the last event, and it activates the revision exactly when
  the deployment does not come from automatic reconciliation.
\<close>

theorem execute_activates_verified:
  assumes "\<And>i. silent (obs i)" and "w_trace (snd (execute obs i e w)) = w_trace w @ ts"
    and "EFinish p' activate \<in> set ts" "activate \<or> dep_Status p' = Succeeded"
  shows "\<exists>p rv prepared us blocks at. loaded e w i = Some (p, rv) \<and>
    p' = p\<lparr>dep_Status := Succeeded, dep_CompletedAt := Some at\<rparr> \<and> activate = (dep_Origin p \<noteq> ''reconciliation'') \<and>
    ts = us @ ERunning (dep_ID p) # concat blocks @ [EFinish p' activate] \<and>
    list_all2 (revalidated rv us) (dep_Nodes p) prepared \<and> list_all2 (verified rv) prepared blocks"
proof -
  have "\<not> writes_nothing ts" using writes_nothing_finish [OF _ assms(3)] assms(4) by blast
  with observer.execute_trace [of obs i e w] assms(1,2) obtain p rv where "loaded e w i = Some (p, rv)" "execution_trace p rv ts"
    by (auto simp: observer_def)
  with execution_trace_finish [OF _ assms(3,4)] show ?thesis by blast
qed

theorem execute_activates_verified_witness:
  "\<exists>p rv prepared blocks us. loaded sample_env sample_world ''p'' = Some (p, rv) \<and>
     list_all2 (revalidated rv us) (dep_Nodes p) prepared \<and> list_all2 (verified rv) prepared blocks"
proof -
  obtain p' where "EFinish p' True \<in> set sample_run" using sample_activation by blast
  then show ?thesis
    using execute_activates_verified [OF sample_observe_silent sample_run_trace, of p' True] by blast
qed

end
