(* ===== verification/Auth_Invariant.thy ===== *)
theory Auth_Invariant
  imports Auth_Store Store_Invariant
begin

text \<open>
  What the writes on accounts keep: the constraints of their tables, an enabled administrator, no
  live session of a disabled user and at most one open challenge for each user. They touch no
  other table but the audit trail. Sessions and challenges only age: what has been revoked,
  consumed or has expired stays so.
\<close>

lemma put_get [simp]:
  "users (put_users r d) = r" "users (put_sessions s d) = users d" "users (put_mfas m d) = users d"
  "users (put_challenges c d) = users d" "users (put_codes k d) = users d"
  "sessions (put_users r d) = sessions d" "sessions (put_sessions s d) = s" "sessions (put_mfas m d) = sessions d"
  "sessions (put_challenges c d) = sessions d" "sessions (put_codes k d) = sessions d"
  "mfas (put_users r d) = mfas d" "mfas (put_sessions s d) = mfas d" "mfas (put_mfas m d) = m"
  "mfas (put_challenges c d) = mfas d" "mfas (put_codes k d) = mfas d"
  "challenges (put_users r d) = challenges d" "challenges (put_sessions s d) = challenges d" "challenges (put_mfas m d) = challenges d"
  "challenges (put_challenges c d) = c" "challenges (put_codes k d) = challenges d"
  "codes (put_users r d) = codes d" "codes (put_sessions s d) = codes d" "codes (put_mfas m d) = codes d"
  "codes (put_challenges c d) = codes d" "codes (put_codes k d) = k"
  by (simp_all add: put_defs)

lemma update_checked_Inr:
  "update_checked what chk P f rows = Inr rows' \<longleftrightarrow> (\<forall>r \<in> set rows. P r \<longrightarrow> chk (f r)) \<and> rows' = update_where P f rows"
  by (auto simp: update_checked_def list_all_iff)

lemma map_sum_Inr: "map_sum id f x = Inr y \<longleftrightarrow> (\<exists>z. x = Inr z \<and> y = f z)"
  by (cases x) auto

lemma accounts_audit: "audit e d = Inr d' \<Longrightarrow> db_accounts d' = db_accounts d"
  by (auto simp: audit_def split: if_splits)

lemma accounts_audit_opt: "audit_opt e d = Inr d' \<Longrightarrow> db_accounts d' = db_accounts d"
  by (auto simp: audit_opt_def accounts_audit split: option.splits)


subsection \<open>The invariant\<close>

definition users_ok :: "accounts \<Rightarrow> bool" where
  "users_ok a \<longleftrightarrow> user_indexes (acc_users a) \<and> (\<forall>u \<in> set (acc_users a). user_check u)"

definition sessions_ok :: "accounts \<Rightarrow> bool" where
  "sessions_ok a \<longleftrightarrow> session_indexes (acc_sessions a) \<and>
     (\<forall>s \<in> set (acc_sessions a). session_check s \<and> sess_UserID s \<in> user_ID ` set (acc_users a))"

definition mfa_ok :: "accounts \<Rightarrow> bool" where
  "mfa_ok a \<longleftrightarrow> primary_key mfa_UserID (acc_mfa a) \<and>
     (\<forall>m \<in> set (acc_mfa a). mfa_check m \<and> mfa_UserID m \<in> user_ID ` set (acc_users a)) \<and> code_indexes (acc_codes a) \<and>
     (\<forall>c \<in> set (acc_codes a). code_check c \<and> rc_UserID c \<in> mfa_UserID ` set (acc_mfa a))"

definition challenges_ok :: "accounts \<Rightarrow> bool" where
  "challenges_ok a \<longleftrightarrow> challenge_indexes (acc_challenges a) \<and>
     (\<forall>c \<in> set (acc_challenges a). challenge_check c \<and> chal_UserID c \<in> user_ID ` set (acc_users a))"

text \<open>Beyond the schema: what the statements of the methods maintain.\<close>

definition administered :: "accounts \<Rightarrow> bool" where
  "administered a \<longleftrightarrow> acc_users a = [] \<or> (\<exists>u \<in> set (acc_users a). user_Enabled u \<and> user_Role u = RoleAdministrator)"

definition logged_out :: "accounts \<Rightarrow> bool" where
  "logged_out a \<longleftrightarrow> (\<forall>s \<in> set (acc_sessions a). \<forall>u \<in> set (acc_users a).
     sess_RevokedAt s = None \<longrightarrow> user_ID u = sess_UserID s \<longrightarrow> user_Enabled u)"

definition one_challenge :: "accounts \<Rightarrow> bool" where
  "one_challenge a \<longleftrightarrow> unique_index (\<lambda>c. chal_ConsumedAt c = None) chal_UserID (acc_challenges a)"

definition accounts_ok :: "accounts \<Rightarrow> bool" where
  "accounts_ok a \<longleftrightarrow> users_ok a \<and> sessions_ok a \<and> mfa_ok a \<and> challenges_ok a \<and> administered a \<and> logged_out a \<and> one_challenge a"

lemmas accounts_defs = users_ok_def sessions_ok_def mfa_ok_def challenges_ok_def administered_def logged_out_def one_challenge_def

abbreviation auth_ok :: "db \<Rightarrow> bool" where "auth_ok d \<equiv> accounts_ok (db_accounts d)"

lemma auth_ok_empty: "auth_ok empty_db"
  by (simp add: accounts_ok_def accounts_defs empty_db_def user_indexes_def session_indexes_def code_indexes_def
      challenge_indexes_def unique_index_def)

lemma auth_ok_audit: "audit e d = Inr d' \<Longrightarrow> auth_ok d' = auth_ok d"
  by (simp add: accounts_audit)

lemma auth_ok_audit_opt: "audit_opt e d = Inr d' \<Longrightarrow> auth_ok d' = auth_ok d"
  by (simp add: accounts_audit_opt)


subsection \<open>One table at a time\<close>

lemma db_accounts_put:
  "db_accounts (put_users r d) = (db_accounts d)\<lparr>acc_users := r\<rparr>" "db_accounts (put_sessions s d) = (db_accounts d)\<lparr>acc_sessions := s\<rparr>"
  "db_accounts (put_mfas m d) = (db_accounts d)\<lparr>acc_mfa := m\<rparr>" "db_accounts (put_challenges c d) = (db_accounts d)\<lparr>acc_challenges := c\<rparr>"
  "db_accounts (put_codes k d) = (db_accounts d)\<lparr>acc_codes := k\<rparr>"
  by (simp_all add: put_defs)

text \<open>Each part of the invariant looks at some of the tables only.\<close>

lemma accounts_frame [simp]:
  "users_ok (a\<lparr>acc_sessions := s\<rparr>) = users_ok a" "users_ok (a\<lparr>acc_mfa := m\<rparr>) = users_ok a"
  "users_ok (a\<lparr>acc_challenges := c\<rparr>) = users_ok a" "users_ok (a\<lparr>acc_codes := k\<rparr>) = users_ok a"
  "sessions_ok (a\<lparr>acc_mfa := m\<rparr>) = sessions_ok a" "sessions_ok (a\<lparr>acc_challenges := c\<rparr>) = sessions_ok a"
  "sessions_ok (a\<lparr>acc_codes := k\<rparr>) = sessions_ok a"
  "mfa_ok (a\<lparr>acc_sessions := s\<rparr>) = mfa_ok a" "mfa_ok (a\<lparr>acc_challenges := c\<rparr>) = mfa_ok a"
  "challenges_ok (a\<lparr>acc_sessions := s\<rparr>) = challenges_ok a" "challenges_ok (a\<lparr>acc_mfa := m\<rparr>) = challenges_ok a"
  "challenges_ok (a\<lparr>acc_codes := k\<rparr>) = challenges_ok a"
  "administered (a\<lparr>acc_sessions := s\<rparr>) = administered a" "administered (a\<lparr>acc_mfa := m\<rparr>) = administered a"
  "administered (a\<lparr>acc_challenges := c\<rparr>) = administered a" "administered (a\<lparr>acc_codes := k\<rparr>) = administered a"
  "logged_out (a\<lparr>acc_mfa := m\<rparr>) = logged_out a" "logged_out (a\<lparr>acc_challenges := c\<rparr>) = logged_out a"
  "logged_out (a\<lparr>acc_codes := k\<rparr>) = logged_out a"
  "one_challenge (a\<lparr>acc_users := u\<rparr>) = one_challenge a" "one_challenge (a\<lparr>acc_sessions := s\<rparr>) = one_challenge a"
  "one_challenge (a\<lparr>acc_mfa := m\<rparr>) = one_challenge a" "one_challenge (a\<lparr>acc_codes := k\<rparr>) = one_challenge a"
  by (simp_all add: accounts_defs)

lemmas auth_put = accounts_ok_def db_accounts_put accounts_frame

lemma administered_iff:
  "administered a \<longleftrightarrow> acc_users a = [] \<or> (True, RoleAdministrator) \<in> (\<lambda>u. (user_Enabled u, user_Role u)) ` set (acc_users a)"
  by (auto simp: administered_def)

text \<open>An update of users that keeps identity, names and whether they are enabled.\<close>

lemma auth_ok_touch_users:
  assumes "auth_ok d" "\<And>u. user_ID (f u) = user_ID u \<and> user_Email (f u) = user_Email u \<and> user_DisplayName (f u) = user_DisplayName u \<and>
     user_Role (f u) = user_Role u \<and> user_Enabled (f u) = user_Enabled u"
  shows "auth_ok (put_users (update_where P f (users d)) d)"
proof -
  note parts = assms(1) [unfolded accounts_ok_def]
  let ?a = "(db_accounts d)\<lparr>acc_users := update_where P f (users d)\<rparr>"
  have ids: "user_ID ` set (update_where P f (users d)) = user_ID ` set (users d)"
    by (rule image_update_where) (simp add: assms(2))
  have keys: "(\<lambda>u. (user_Enabled u, user_Role u)) ` set (update_where P f (users d)) = (\<lambda>u. (user_Enabled u, user_Role u)) ` set (users d)"
    by (rule image_update_where) (simp add: assms(2))
  have check: "user_check (f u) = user_check u" for u by (simp add: user_check_def assms(2))
  have "users_ok ?a"
    using parts by (auto simp: users_ok_def user_indexes_def primary_key_update assms(2) set_update_where check)
  moreover have "administered ?a"
    using parts keys unfolding administered_iff by (simp add: update_where_def)
  moreover have "logged_out ?a"
    using parts by (auto simp: logged_out_def set_update_where assms(2) split: if_splits)
  moreover have "sessions_ok ?a = sessions_ok (db_accounts d)" "mfa_ok ?a = mfa_ok (db_accounts d)"
    "challenges_ok ?a = challenges_ok (db_accounts d)"
    by (simp_all add: sessions_ok_def mfa_ok_def challenges_ok_def ids)
  ultimately show ?thesis using parts by (simp add: auth_put)
qed

text \<open>An update of sessions that revives none.\<close>

lemma auth_ok_update_sessions:
  assumes "auth_ok d" "\<And>s. P s \<Longrightarrow> sess_ID (f s) = sess_ID s \<and> sess_TokenHash (f s) = sess_TokenHash s \<and> sess_UserID (f s) = sess_UserID s \<and>
     sess_CreatedAt (f s) = sess_CreatedAt s \<and> sess_ExpiresAt (f s) = sess_ExpiresAt s \<and> (sess_RevokedAt (f s) = None \<longrightarrow> sess_RevokedAt s = None)"
  shows "auth_ok (put_sessions (update_where P f (sessions d)) d)"
proof -
  note parts = assms(1) [unfolded accounts_ok_def]
  let ?rows = "update_where P f (sessions d)"
  have "session_indexes ?rows = session_indexes (sessions d)"
    by (simp add: session_indexes_def primary_key_update assms(2))
  moreover have "\<forall>s \<in> set ?rows. session_check s \<and> sess_UserID s \<in> user_ID ` set (users d)"
    by (rule ball_update_where) (use parts assms(2) in \<open>auto simp: sessions_ok_def session_check_def\<close>)
  moreover have "logged_out ((db_accounts d)\<lparr>acc_sessions := ?rows\<rparr>)"
    using parts assms(2) by (auto simp: logged_out_def set_update_where split: if_splits)
  ultimately show ?thesis using parts by (simp add: auth_put sessions_ok_def)
qed

lemma auth_ok_revoke: "auth_ok d \<Longrightarrow> auth_ok (revoke_where P at d)"
  unfolding revoke_where_def by (erule auth_ok_update_sessions) simp

lemma auth_ok_filter_sessions: "auth_ok d \<Longrightarrow> auth_ok (put_sessions (filter P (sessions d)) d)"
  by (auto simp: auth_put sessions_ok_def logged_out_def session_indexes_def unique_index_filter)

lemma auth_ok_insert_session:
  assumes "insert_session what s d = Inr d'" "auth_ok d" "\<And>u. u \<in> set (users d) \<Longrightarrow> user_ID u = sess_UserID s \<Longrightarrow> user_Enabled u"
  shows "auth_ok d'"
  using assms by (auto simp: insert_session_def Let_def auth_put sessions_ok_def logged_out_def)

text \<open>Challenges: an update that opens none.\<close>

lemma auth_ok_update_challenges:
  assumes "auth_ok d" "\<And>c. P c \<Longrightarrow> chal_ID (f c) = chal_ID c \<and> chal_TokenHash (f c) = chal_TokenHash c \<and> chal_UserID (f c) = chal_UserID c \<and>
     (chal_ConsumedAt (f c) = None \<longrightarrow> chal_ConsumedAt c = None)"
    and "\<forall>c \<in> set (challenges d). P c \<longrightarrow> challenge_check (f c)"
  shows "auth_ok (put_challenges (update_where P f (challenges d)) d)"
proof -
  note parts = assms(1) [unfolded accounts_ok_def]
  let ?rows = "update_where P f (challenges d)"
  have "challenge_indexes ?rows = challenge_indexes (challenges d)"
    by (simp add: challenge_indexes_def primary_key_update assms(2))
  moreover have "\<forall>c \<in> set ?rows. challenge_check c \<and> chal_UserID c \<in> user_ID ` set (users d)"
    by (rule ball_update_where) (use parts assms(2,3) in \<open>auto simp: challenges_ok_def\<close>)
  moreover have "unique_index (\<lambda>c. chal_ConsumedAt c = None) chal_UserID ?rows"
    by (rule unique_index_update) (use parts assms(2) in \<open>auto simp: one_challenge_def\<close>)
  ultimately show ?thesis using parts by (simp add: auth_put challenges_ok_def one_challenge_def)
qed

lemma auth_ok_consume: "consume_where what P at d = Inr d' \<Longrightarrow> auth_ok d \<Longrightarrow> auth_ok d'"
  by (auto simp: consume_where_def map_sum_Inr update_checked_Inr intro!: auth_ok_update_challenges)

lemma auth_ok_take: "take_challenge what P at d = Inr (i, d') \<Longrightarrow> auth_ok d \<Longrightarrow> auth_ok d'"
  by (auto simp: take_challenge_def bind_err_Inr update_checked_Inr intro!: auth_ok_update_challenges split: option.splits)

lemma auth_ok_filter_challenges: "auth_ok d \<Longrightarrow> auth_ok (put_challenges (filter P (challenges d)) d)"
  by (simp add: auth_put challenges_ok_def one_challenge_def challenge_indexes_def unique_index_filter)

text \<open>The second factor.\<close>

lemma auth_ok_update_mfas:
  assumes "auth_ok d" "\<And>m. P m \<Longrightarrow> mfa_UserID (f m) = mfa_UserID m" "\<forall>m \<in> set (mfas d). P m \<longrightarrow> mfa_check (f m)"
  shows "auth_ok (put_mfas (update_where P f (mfas d)) d)"
proof -
  note parts = assms(1) [unfolded accounts_ok_def]
  let ?rows = "update_where P f (mfas d)"
  have "mfa_UserID ` set ?rows = mfa_UserID ` set (mfas d)"
    by (rule image_update_where) (simp add: assms(2))
  moreover have "\<forall>m \<in> set ?rows. mfa_check m \<and> mfa_UserID m \<in> user_ID ` set (users d)"
    by (rule ball_update_where) (use parts assms(2,3) in \<open>auto simp: mfa_ok_def\<close>)
  ultimately show ?thesis using parts by (simp add: auth_put mfa_ok_def primary_key_update assms(2))
qed

lemma auth_ok_update_codes:
  assumes "auth_ok d" "\<And>c. P c \<Longrightarrow> rc_ID (f c) = rc_ID c \<and> rc_UserID (f c) = rc_UserID c \<and> rc_CodeHash (f c) = rc_CodeHash c"
    "\<forall>c \<in> set (codes d). P c \<longrightarrow> code_check (f c)"
  shows "auth_ok (put_codes (update_where P f (codes d)) d)"
proof -
  note parts = assms(1) [unfolded accounts_ok_def]
  let ?rows = "update_where P f (codes d)"
  have "code_indexes ?rows = code_indexes (codes d)"
    by (simp add: code_indexes_def primary_key_update assms(2))
  moreover have "\<forall>c \<in> set ?rows. code_check c \<and> rc_UserID c \<in> mfa_UserID ` set (mfas d)"
    by (rule ball_update_where) (use parts assms(2,3) in \<open>auto simp: mfa_ok_def\<close>)
  ultimately show ?thesis using parts by (simp add: auth_put mfa_ok_def)
qed

lemma auth_ok_delete_codes: "auth_ok d \<Longrightarrow> auth_ok (delete_codes i d)"
  by (simp add: delete_codes_def auth_put mfa_ok_def code_indexes_def unique_index_filter)

lemma auth_ok_spend: "spend_code i h at d = Inr d' \<Longrightarrow> auth_ok d \<Longrightarrow> auth_ok d'"
  by (auto simp: spend_code_def Let_def bind_err_Inr update_checked_Inr split: if_splits intro!: auth_ok_update_codes)

lemma auth_ok_insert_codes: "insertRecoveryCodes cs d = Inr d' \<Longrightarrow> auth_ok d \<Longrightarrow> auth_ok d'"
proof (induction cs arbitrary: d)
  case (Cons c cs)
  then have "auth_ok (put_codes (codes d @ [c\<lparr>rc_UsedAt := None\<rparr>]) d)"
    by (auto simp: Let_def auth_put mfa_ok_def)
  with Cons show ?case by (auto simp: Let_def)
qed simp

lemma auth_ok_delete_mfa: "auth_ok d \<Longrightarrow> auth_ok (delete_mfa P d)"
  by (auto simp: delete_mfa_def Let_def auth_put mfa_ok_def code_indexes_def unique_index_filter image_iff) blast


subsection \<open>Every write keeps the invariant\<close>

lemma auth_ok_users:
  assumes "auth_ok d" "user_indexes rows" "\<forall>u \<in> set rows. user_check u" "user_ID ` set (users d) \<subseteq> user_ID ` set rows"
    "\<exists>u \<in> set rows. user_Enabled u" "logged_out ((db_accounts d)\<lparr>acc_users := rows\<rparr>)"
  shows "auth_ok (put_users rows d)"
proof -
  let ?a = "(db_accounts d)\<lparr>acc_users := rows\<rparr>"
  note parts = assms(1) [unfolded accounts_ok_def]
  have "sessions_ok ?a" "mfa_ok ?a" "challenges_ok ?a"
    using parts assms(4) by (auto simp: sessions_ok_def mfa_ok_def challenges_ok_def)
  moreover have "users_ok ?a" "administered ?a"
    using assms(2,3,5) by (auto simp: users_ok_def administered_def user_check_def)
  ultimately show ?thesis using parts assms(6) by (simp add: auth_put)
qed

lemma auth_ok_login: "createLoginSession s e d = Inr d' \<Longrightarrow> auth_ok d \<Longrightarrow> auth_ok d'"
proof -
  assume ok: "auth_ok d" and "createLoginSession s e d = Inr d'"
  then obtain user d1 where u: "query_row (\<lambda>u. user_ID u = sess_UserID s) (users d) = Some user" "user_Enabled user"
    and ins: "insert_session ''create login session'' s d = Inr d1"
    and aud: "audit e (put_users (update_where (\<lambda>u. user_ID u = sess_UserID s)
       (\<lambda>u. u\<lparr>user_LastLoginAt := Some (sess_CreatedAt s), user_UpdatedAt := sess_CreatedAt s\<rparr>) (users d1)) d1) = Inr d'"
    by (auto simp: createLoginSession_def bind_err_Inr split: option.splits if_splits)
  have "primary_key user_ID (users d)" using ok by (simp add: accounts_ok_def users_ok_def user_indexes_def)
  then have "v = user" if "v \<in> set (users d)" "user_ID v = sess_UserID s" for v
    using that query_row_Some [OF u(1)] unique_index_inj [of "\<lambda>_. True" user_ID "users d" v user] by auto
  with u(2) have "auth_ok d1" by (intro auth_ok_insert_session [OF ins ok]) auto
  then show "auth_ok d'" unfolding auth_ok_audit [OF aud] by (rule auth_ok_touch_users) simp
qed

lemma auth_ok_initial:
  assumes "CreateInitialUser u s e e' d = Inr d'" "auth_ok d" "user_Enabled u"
  shows "auth_ok d'"
proof -
  let ?row = "u\<lparr>user_UpdatedAt := user_CreatedAt u, user_LastLoginAt := None\<rparr>"
  from assms(1) obtain d1 d2 where d: "users d = []" "user_check ?row"
      "insert_session ''create initial administrator session'' s (put_users [?row] d) = Inr d1"
      "audit e (put_users (update_where (\<lambda>v. user_ID v = user_ID u) (\<lambda>v. v\<lparr>user_LastLoginAt := Some (sess_CreatedAt s)\<rparr>) (users d1)) d1) = Inr d2"
      "audit e' d2 = Inr d'"
    by (auto simp: CreateInitialUser_def Let_def bind_err_Inr split: if_splits)
  have "auth_ok (put_users [?row] d)"
    by (rule auth_ok_users [OF assms(2)])
       (use d(1,2) assms(2,3) in \<open>auto simp: user_indexes_def unique_index_def accounts_ok_def sessions_ok_def logged_out_def\<close>)
  with d(3) have "auth_ok d1" by (rule auth_ok_insert_session) (use assms(3) in auto)
  then show ?thesis unfolding auth_ok_audit [OF d(5)] auth_ok_audit [OF d(4)] by (rule auth_ok_touch_users) simp
qed

lemma auth_ok_create_user:
  assumes "CreateUser u e d = Inr d'" "auth_ok d" "user_Enabled u"
  shows "auth_ok d'"
proof -
  let ?row = "u\<lparr>user_UpdatedAt := user_CreatedAt u, user_LastLoginAt := None\<rparr>"
  from assms(1) have d: "user_check ?row" "user_indexes (users d @ [?row])" "audit e (put_users (users d @ [?row]) d) = Inr d'"
    by (auto simp: CreateUser_def Let_def)
  have "auth_ok (put_users (users d @ [?row]) d)"
    by (rule auth_ok_users [OF assms(2) d(2)])
       (use d(1) assms(2,3) in \<open>auto simp: accounts_ok_def users_ok_def logged_out_def\<close>)
  then show ?thesis by (simp add: auth_ok_audit [OF d(3)])
qed

text \<open>Disabling a user: another enabled administrator is left, and the sessions go first.\<close>

lemma put_users_revoke: "revoke_where P at (put_users rows d) = put_users rows (revoke_where P at d)"
  by (simp add: revoke_where_def put_defs)

lemma another_enabled:
  assumes "auth_ok d" "current \<in> set (users d)"
    "user_Enabled current \<Longrightarrow> 1 < rows_affected (\<lambda>u. user_Enabled u \<and> user_Role u = RoleAdministrator) (users d)"
  shows "\<exists>u \<in> set (users d). user_Enabled u \<and> user_ID u \<noteq> user_ID current"
proof (rule ccontr)
  have pk: "primary_key user_ID (users d)" and adm: "administered (db_accounts d)"
    using assms(1) by (auto simp: accounts_ok_def users_ok_def user_indexes_def)
  assume "\<not> ?thesis"
  then have only: "u = current" if "u \<in> set (users d)" "user_Enabled u" for u
    using that unique_index_inj [OF pk that(1) assms(2)] by blast
  then have on: "user_Enabled current" using adm assms(2) by (auto simp: administered_def)
  have "rows_affected (\<lambda>u. user_ID u = user_ID current \<and> (user_Enabled u \<and> user_Role u = RoleAdministrator)) (users d) \<le> 1"
    by (rule rows_affected_unique) (use pk in simp)
  also have "rows_affected (\<lambda>u. user_ID u = user_ID current \<and> (user_Enabled u \<and> user_Role u = RoleAdministrator)) (users d) =
      rows_affected (\<lambda>u. user_Enabled u \<and> user_Role u = RoleAdministrator) (users d)"
    unfolding rows_affected_def by (rule arg_cong [of _ _ length], rule filter_cong) (auto dest: only)
  finally show False using assms(3) [OF on] by simp
qed

lemma UpdateUser_cases:
  assumes "UpdateUser i email name enabled at e d = Inr (v, d')"
  obtains current where "query_row (\<lambda>u. user_ID u = i) (users d) = Some current"
    "\<not> (user_Enabled current \<and> \<not> enabled \<and> user_Role current = RoleAdministrator \<and>
      rows_affected (\<lambda>u. user_Enabled u \<and> user_Role u = RoleAdministrator) (users d) \<le> 1)"
    "\<forall>u \<in> set (users d). user_ID u = i \<longrightarrow> user_check (updated_user email name enabled at u)"
    "user_indexes (update_where (\<lambda>u. user_ID u = i) (updated_user email name enabled at) (users d))"
    "audit e (if enabled then put_users (update_where (\<lambda>u. user_ID u = i) (updated_user email name enabled at) (users d)) d
       else revoke_where (\<lambda>s. sess_UserID s = i) at (put_users (update_where (\<lambda>u. user_ID u = i) (updated_user email name enabled at) (users d)) d)) = Inr d'"
proof -
  from assms obtain current x where *: "query_row (\<lambda>u. user_ID u = i) (users d) = Some current"
    "update_checked ''update user'' user_check (\<lambda>u. user_ID u = i) (updated_user email name enabled at) (users d) = Inr x"
    "\<not> (user_Enabled current \<and> \<not> enabled \<and> user_Role current = RoleAdministrator \<and>
      rows_affected (\<lambda>u. user_Enabled u \<and> user_Role u = RoleAdministrator) (users d) \<le> 1)"
    "user_indexes x" "audit e (if enabled then put_users x d else revoke_where (\<lambda>s. sess_UserID s = i) at (put_users x d)) = Inr d'"
    unfolding UpdateUser_def Let_def bind_err_Inr require_Inr mapDatabaseError_Inr by blast
  from *(2) have x: "\<forall>u \<in> set (users d). user_ID u = i \<longrightarrow> user_check (updated_user email name enabled at u)"
    "x = update_where (\<lambda>u. user_ID u = i) (updated_user email name enabled at) (users d)"
    by (simp_all add: update_checked_Inr)
  show thesis by (rule that [OF *(1,3) x(1) *(4,5) [unfolded x(2)]])
qed

lemma auth_ok_update_user:
  assumes "UpdateUser i email name enabled at e d = Inr (v, d')" "auth_ok d"
  shows "auth_ok d'"
proof -
  let ?f = "updated_user email name enabled at"
  let ?rows = "update_where (\<lambda>u. user_ID u = i) ?f (users d)"
  let ?d = "if enabled then d else revoke_where (\<lambda>s. sess_UserID s = i) at d"
  obtain current where d: "query_row (\<lambda>u. user_ID u = i) (users d) = Some current"
      "\<not> (user_Enabled current \<and> \<not> enabled \<and> user_Role current = RoleAdministrator \<and>
        rows_affected (\<lambda>u. user_Enabled u \<and> user_Role u = RoleAdministrator) (users d) \<le> 1)"
      "\<forall>u \<in> set (users d). user_ID u = i \<longrightarrow> user_check (?f u)" "user_indexes ?rows"
      "audit e (if enabled then put_users ?rows d else revoke_where (\<lambda>s. sess_UserID s = i) at (put_users ?rows d)) = Inr d'"
    using UpdateUser_cases [OF assms(1)] .
  have cur: "current \<in> set (users d)" "user_ID current = i" using query_row_Some [OF d(1)] by auto
  have ok: "auth_ok ?d" using assms(2) by (simp add: auth_ok_revoke)
  have check: "\<forall>u \<in> set (users d). user_check u" using assms(2) by (simp add: accounts_ok_def users_ok_def)
  have same: "users ?d = users d" by (simp add: revoke_where_def)
  have "auth_ok (put_users ?rows ?d)"
  proof (rule auth_ok_users [OF ok d(4)])
    show "\<forall>u \<in> set ?rows. user_check u" using check d(3) by (auto simp: set_update_where)
    show "user_ID ` set (users ?d) \<subseteq> user_ID ` set ?rows" unfolding same by (subst image_update_where) (auto simp: updated_user_def)
    show "\<exists>u \<in> set ?rows. user_Enabled u"
    proof (cases enabled)
      case True
      with cur show ?thesis unfolding set_update_where Bex_def by (intro exI [of _ "?f current"]) (auto simp: updated_user_def)
    next
      case False
      with d(2) check cur have "\<exists>u \<in> set (users d). user_Enabled u \<and> user_ID u \<noteq> user_ID current"
        by (intro another_enabled [OF assms(2) cur(1)]) (auto simp: user_check_def not_le)
      with cur(2) show ?thesis unfolding set_update_where Bex_def by (metis (full_types))
    qed
    show "logged_out ((db_accounts ?d)\<lparr>acc_users := ?rows\<rparr>)"
      using assms(2) by (auto simp: accounts_ok_def logged_out_def revoke_where_def db_accounts_put updated_user_def elim!: update_whereE split: if_splits)
  qed
  moreover have "(if enabled then put_users ?rows d else revoke_where (\<lambda>s. sess_UserID s = i) at (put_users ?rows d)) = put_users ?rows ?d"
    by (simp add: put_users_revoke)
  ultimately show ?thesis using auth_ok_audit [OF d(5)] by simp
qed

lemma auth_ok_challenge:
  assumes "CreateMFAChallenge c d = Inr d'" "auth_ok d"
  shows "auth_ok d'"
proof -
  let ?row = "c\<lparr>chal_ConsumedAt := None, chal_FailedAttempts := 0\<rparr>"
  from assms(1) obtain d1 where d: "consume_where ''invalidate previous MFA challenges'' (\<lambda>x. chal_UserID x = chal_UserID c) (chal_CreatedAt c) d = Inr d1"
      "challenge_check ?row" "challenge_indexes (challenges d1 @ [?row])" "chal_UserID c \<in> user_ID ` set (users d1)"
      "d' = put_challenges (challenges d1 @ [?row]) d1"
    by (auto simp: CreateMFAChallenge_def bind_err_Inr Let_def split: if_splits)
  have "chal_ConsumedAt x \<noteq> None" if "x \<in> set (challenges d1)" "chal_UserID x = chal_UserID c" for x
    using that d(1) by (auto simp: consume_where_def map_sum_Inr update_checked_Inr elim!: update_whereE)
  then have "unique_index (\<lambda>x. chal_ConsumedAt x = None) chal_UserID (challenges d1 @ [?row])"
    if "one_challenge (db_accounts d1)"
    using that by (fastforce simp: unique_index_append one_challenge_def)
  then show ?thesis
    using auth_ok_consume [OF d(1) assms(2)] d(2-5) by (auto simp: auth_put challenges_ok_def one_challenge_def)
qed

lemma auth_step_ok: "auth_step d d' \<Longrightarrow> auth_ok d \<Longrightarrow> auth_ok d'"
proof (induction rule: auth_step.induct)
  case (create_initial u s e e' d d') then show ?case by (metis auth_ok_initial)
next
  case (create_login s e d d') then show ?case by (auto simp: CreateLoginSession_def intro: auth_ok_login)
next
  case (touch_session i at d d') then show ?case by (auto simp: TouchSession_def intro!: auth_ok_update_sessions)
next
  case (revoke_session i at e d d') then show ?case by (auto simp: RevokeSession_def auth_ok_audit auth_ok_revoke)
next
  case (delete_sessions at d n d') then show ?case by (auto simp: DeleteExpiredSessions_def Let_def intro!: auth_ok_filter_sessions)
next
  case (create_user u e d d') then show ?case by (metis auth_ok_create_user)
next
  case (update_user i email name enabled at e d v d') then show ?case by (metis auth_ok_update_user)
next
  case (reset_password i hash at e d d')
  then show ?case by (auto simp: ResetUserPassword_def auth_ok_audit split: if_splits intro!: auth_ok_revoke auth_ok_touch_users)
next
  case (change_password i j hash at e d d')
  then show ?case by (auto simp: ChangeOwnPassword_def Let_def auth_ok_audit split: if_splits intro!: auth_ok_revoke auth_ok_touch_users)
next
  case (pending_mfa v d d')
  then have "auth_ok (put_mfas (mfas d @ [v\<lparr>mfa_EnabledAt := None\<rparr>]) d)"
    if "mfa_UserID v \<notin> mfa_UserID ` set (mfas d)" using that
    by (auto simp: UpsertPendingMFA_def Let_def auth_put mfa_ok_def unique_index_append)
  with pending_mfa show ?case
    by (auto simp: UpsertPendingMFA_def Let_def split: if_splits intro!: auth_ok_update_mfas)
next
  case (create_challenge c d d') then show ?case by (metis auth_ok_challenge)
next
  case (fail_challenge h at d d')
  then show ?case
    by (auto simp: FailMFAChallenge_def map_sum_Inr update_checked_Inr failed_challenge_def open_challenge_def intro!: auth_ok_update_challenges)
next
  case (consume_challenge h rh at oe d d')
  then show ?case by (auto simp: ConsumeMFAChallenge_def bind_err_Inr auth_ok_audit_opt dest: auth_ok_take auth_ok_spend)
next
  case (complete_challenge h rh at oe s e d d')
  then show ?case
    by (auto simp: CompleteMFAChallenge_def bind_err_Inr split: option.splits if_splits
        elim!: auth_ok_login auth_ok_audit_opt [THEN iffD2] auth_ok_spend auth_ok_take)
next
  case (enable_mfa i j cs at e d d')
  then show ?case
    by (auto simp: EnableMFA_def Let_def bind_err_Inr update_checked_Inr auth_ok_audit split: if_splits
        intro!: auth_ok_revoke auth_ok_delete_codes auth_ok_update_mfas elim!: auth_ok_consume auth_ok_insert_codes)
next
  case (replace_codes i j cs at e d d')
  then show ?case
    by (auto simp: ReplaceRecoveryCodes_def bind_err_Inr auth_ok_audit split: option.splits if_splits
        intro!: auth_ok_revoke auth_ok_delete_codes elim!: auth_ok_insert_codes)
next
  case (disable_mfa i j at e d d')
  then show ?case
    by (auto simp: DisableMFA_def Let_def bind_err_Inr auth_ok_audit split: if_splits
        intro!: auth_ok_revoke auth_ok_delete_mfa elim!: auth_ok_consume)
next
  case (reset_mfa email at e d x d')
  then show ?case
    by (auto simp: ResetMFAFromHost_def bind_err_Inr auth_ok_audit intro!: auth_ok_revoke auth_ok_delete_mfa elim!: auth_ok_consume)
next
  case (delete_challenges at d n d') then show ?case by (auto simp: DeleteExpiredMFAChallenges_def Let_def intro!: auth_ok_filter_challenges)
qed


subsection \<open>The other tables\<close>

text \<open>A write on accounts leaves the other tables alone and appends to the audit trail.\<close>

definition others :: "db \<Rightarrow> db" where
  "others d = d\<lparr>db_accounts := db_accounts empty_db, db_audit := []\<rparr>"

definition account_frame :: "db \<Rightarrow> db \<Rightarrow> bool" where
  "account_frame d d' \<longleftrightarrow> others d' = others d \<and> prefix (db_audit d) (db_audit d') \<and> (store_ok d \<longrightarrow> store_ok d')"

lemma store_ok_accounts [simp]: "store_ok (d\<lparr>db_accounts := a\<rparr>) = store_ok d"
  by (simp add: store_ok_def keys_ok_def refs_ok_def ids_defs)

lemma frame_put [simp]:
  "account_frame d d" "account_frame d (put_users r d') = account_frame d d'" "account_frame d (put_sessions s d') = account_frame d d'"
  "account_frame d (put_mfas m d') = account_frame d d'" "account_frame d (put_challenges c d') = account_frame d d'"
  "account_frame d (put_codes k d') = account_frame d d'"
  by (simp_all add: account_frame_def others_def put_defs)

lemma frame_audit: "audit e d1 = Inr d' \<Longrightarrow> account_frame d d1 \<Longrightarrow> account_frame d d'"
  using audit_ok [of e d1 d'] by (auto simp: audit_def account_frame_def others_def split: if_splits)

lemma frame_audit_opt: "audit_opt e d1 = Inr d' \<Longrightarrow> account_frame d d1 \<Longrightarrow> account_frame d d'"
  by (auto simp: audit_opt_def split: option.splits elim: frame_audit)

lemma frame_revoke [simp]: "account_frame d (revoke_where P at d') = account_frame d d'"
  by (simp add: revoke_where_def)

lemma frame_consume: "consume_where what P at d1 = Inr d' \<Longrightarrow> account_frame d d1 \<Longrightarrow> account_frame d d'"
  by (auto simp: consume_where_def map_sum_Inr)

lemma frame_take: "take_challenge what P at d1 = Inr (i, d') \<Longrightarrow> account_frame d d1 \<Longrightarrow> account_frame d d'"
  by (auto simp: take_challenge_def bind_err_Inr split: option.splits)

lemma frame_spend: "spend_code i h at d1 = Inr d' \<Longrightarrow> account_frame d d1 \<Longrightarrow> account_frame d d'"
  by (auto simp: spend_code_def Let_def bind_err_Inr split: if_splits)

lemma frame_codes: "insertRecoveryCodes cs d1 = Inr d' \<Longrightarrow> account_frame d d1 \<Longrightarrow> account_frame d d'"
  by (induction cs arbitrary: d1) (auto simp: Let_def)

lemma frame_session: "insert_session what s d1 = Inr d' \<Longrightarrow> account_frame d d1 \<Longrightarrow> account_frame d d'"
  by (auto simp: insert_session_def Let_def)

lemma frame_login: "createLoginSession s e d1 = Inr d' \<Longrightarrow> account_frame d d1 \<Longrightarrow> account_frame d d'"
  by (auto simp: createLoginSession_def bind_err_Inr split: option.splits if_splits elim!: frame_audit frame_session)

lemmas frames = frame_audit frame_audit_opt frame_consume frame_take frame_spend frame_codes frame_session frame_login

lemmas auth_methods = CreateInitialUser_def CreateLoginSession_def TouchSession_def RevokeSession_def DeleteExpiredSessions_def CreateUser_def
  ResetUserPassword_def ChangeOwnPassword_def UpsertPendingMFA_def CreateMFAChallenge_def FailMFAChallenge_def
  ConsumeMFAChallenge_def CompleteMFAChallenge_def EnableMFA_def ReplaceRecoveryCodes_def DisableMFA_def ResetMFAFromHost_def
  DeleteExpiredMFAChallenges_def delete_codes_def delete_mfa_def

lemma auth_step_frame: "auth_step d d' \<Longrightarrow> account_frame d d'"
proof (induction rule: auth_step.induct)
  case (update_user i email name enabled at e d v d')
  then show ?case by (rule UpdateUser_cases) (auto split: if_splits elim!: frame_audit)
qed (auto simp: auth_methods Let_def bind_err_Inr map_sum_Inr split: if_splits option.splits elim!: frames)


subsection \<open>Sessions and challenges age\<close>

text \<open>
  A row of the new state has the token of no old row, or it is an old row with the same user and
  expiry that has not been revived.
\<close>

definition sessions_age :: "Session list \<Rightarrow> Session list \<Rightarrow> bool" where
  "sessions_age old new \<longleftrightarrow> (\<forall>s' \<in> set new. sess_TokenHash s' \<notin> sess_TokenHash ` set old \<or>
     (\<exists>s \<in> set old. sess_TokenHash s = sess_TokenHash s' \<and> sess_UserID s = sess_UserID s' \<and> sess_ExpiresAt s = sess_ExpiresAt s' \<and>
        (sess_RevokedAt s' = None \<longrightarrow> sess_RevokedAt s = None)))"

definition challenges_age :: "MFAChallenge list \<Rightarrow> MFAChallenge list \<Rightarrow> bool" where
  "challenges_age old new \<longleftrightarrow> (\<forall>c' \<in> set new. chal_TokenHash c' \<notin> chal_TokenHash ` set old \<or>
     (\<exists>c \<in> set old. chal_TokenHash c = chal_TokenHash c' \<and> chal_ExpiresAt c = chal_ExpiresAt c' \<and>
        chal_FailedAttempts c \<le> chal_FailedAttempts c' \<and> (chal_ConsumedAt c' = None \<longrightarrow> chal_ConsumedAt c = None)))"

lemma sessions_age_refl [simp]: "sessions_age rows rows"
  by (auto simp: sessions_age_def)

lemma sessions_age_update:
  "(\<And>s. P s \<Longrightarrow> sess_TokenHash (f s) = sess_TokenHash s \<and> sess_UserID (f s) = sess_UserID s \<and> sess_ExpiresAt (f s) = sess_ExpiresAt s \<and>
     (sess_RevokedAt (f s) = None \<longrightarrow> sess_RevokedAt s = None)) \<Longrightarrow> sessions_age rows (update_where P f rows)"
  unfolding sessions_age_def by (intro ballI disjI2) (auto elim!: update_whereE)

lemma sessions_age_filter: "sessions_age rows (filter P rows)"
  by (auto simp: sessions_age_def)

lemma sessions_age_insert: "session_indexes (rows @ [s]) \<Longrightarrow> sessions_age rows (rows @ [s])"
  by (auto simp: sessions_age_def session_indexes_def unique_index_append)

lemma sessions_revoke: "sessions (revoke_where P at d) =
    update_where (\<lambda>s. P s \<and> sess_RevokedAt s = None) (\<lambda>s. s\<lparr>sess_RevokedAt := Some at\<rparr>) (sessions d)"
  by (simp add: revoke_where_def)

lemma challenges_age_refl [simp]: "challenges_age rows rows"
  by (auto simp: challenges_age_def)

lemma challenges_age_update:
  "(\<And>c. P c \<Longrightarrow> chal_TokenHash (f c) = chal_TokenHash c \<and> chal_ExpiresAt (f c) = chal_ExpiresAt c \<and> chal_FailedAttempts c \<le> chal_FailedAttempts (f c) \<and>
     (chal_ConsumedAt (f c) = None \<longrightarrow> chal_ConsumedAt c = None)) \<Longrightarrow> challenges_age rows (update_where P f rows)"
  unfolding challenges_age_def by (intro ballI disjI2) (auto elim!: update_whereE)

lemma challenges_age_filter: "challenges_age rows (filter P rows)"
  by (auto simp: challenges_age_def)

lemma challenges_age_consume: "consume_where what P at d = Inr d' \<Longrightarrow> challenges_age (challenges d) (challenges d')"
  by (auto simp: consume_where_def map_sum_Inr update_checked_Inr intro!: challenges_age_update)

lemma challenges_age_take: "take_challenge what P at d = Inr (i, d') \<Longrightarrow> challenges_age (challenges d) (challenges d')"
  by (auto simp: take_challenge_def bind_err_Inr update_checked_Inr split: option.splits intro!: challenges_age_update)

lemma challenges_age_insert:
  "challenges_age old rows \<Longrightarrow> chal_TokenHash ` set old \<subseteq> chal_TokenHash ` set rows \<Longrightarrow> challenge_indexes (rows @ [c]) \<Longrightarrow>
   challenges_age old (rows @ [c])"
  by (auto simp: challenges_age_def challenge_indexes_def unique_index_append)

text \<open>Which helper touches which table.\<close>

lemma consume_tables: "consume_where what P at d = Inr d' \<Longrightarrow> sessions d' = sessions d \<and> users d' = users d"
  by (auto simp: consume_where_def map_sum_Inr)

lemma take_tables: "take_challenge what P at d = Inr (i, d') \<Longrightarrow> sessions d' = sessions d"
  by (auto simp: take_challenge_def bind_err_Inr split: option.splits)

lemma spend_tables: "spend_code i h at d = Inr d' \<Longrightarrow> sessions d' = sessions d \<and> challenges d' = challenges d"
  by (auto simp: spend_code_def Let_def bind_err_Inr split: if_splits)

lemma codes_tables: "insertRecoveryCodes cs d = Inr d' \<Longrightarrow> sessions d' = sessions d \<and> challenges d' = challenges d"
  by (induction cs arbitrary: d) (auto simp: Let_def)

lemma revoke_tables [simp]: "challenges (revoke_where P at d) = challenges d"
  by (simp add: revoke_where_def)

lemma login_tables: "createLoginSession s e d = Inr d' \<Longrightarrow> challenges d' = challenges d \<and> sessions_age (sessions d) (sessions d')"
  by (auto simp: createLoginSession_def bind_err_Inr insert_session_def Let_def sessions_age_insert dest!: accounts_audit split: option.splits if_splits)

lemmas tables = consume_tables take_tables spend_tables codes_tables login_tables accounts_audit accounts_audit_opt

lemma auth_step_sessions: "auth_step d d' \<Longrightarrow> sessions_age (sessions d) (sessions d')"
proof (induction rule: auth_step.induct)
  case (create_initial u s e e' d d')
  then show ?case
    by (auto simp: CreateInitialUser_def insert_session_def Let_def bind_err_Inr sessions_age_insert split: if_splits dest!: accounts_audit)
next
  case (update_user i email name enabled at e d v d')
  then show ?case by (rule UpdateUser_cases) (auto simp: sessions_revoke split: if_splits dest!: accounts_audit intro!: sessions_age_update)
qed (auto simp: auth_methods Let_def bind_err_Inr map_sum_Inr sessions_revoke sessions_age_filter split: if_splits option.splits
      dest!: tables intro!: sessions_age_update)

lemma auth_step_challenges: "auth_step d d' \<Longrightarrow> challenges_age (challenges d) (challenges d')"
proof (induction rule: auth_step.induct)
  case (create_challenge c d d')
  then obtain d1 where d: "consume_where ''invalidate previous MFA challenges'' (\<lambda>x. chal_UserID x = chal_UserID c) (chal_CreatedAt c) d = Inr d1"
      "challenge_indexes (challenges d1 @ [c\<lparr>chal_ConsumedAt := None, chal_FailedAttempts := 0\<rparr>])"
      "d' = put_challenges (challenges d1 @ [c\<lparr>chal_ConsumedAt := None, chal_FailedAttempts := 0\<rparr>]) d1"
    by (auto simp: CreateMFAChallenge_def bind_err_Inr Let_def split: if_splits)
  have "chal_TokenHash ` set (challenges d1) = chal_TokenHash ` set (challenges d)"
    using d(1) by (auto simp: consume_where_def map_sum_Inr update_checked_Inr image_update_where)
  with d show ?case by (simp add: challenges_age_insert challenges_age_consume)
next
  case (create_initial u s e e' d d')
  then show ?case
    by (auto simp: CreateInitialUser_def insert_session_def Let_def bind_err_Inr split: if_splits dest!: accounts_audit)
next
  case (fail_challenge h at d d')
  then show ?case
    by (auto simp: FailMFAChallenge_def map_sum_Inr update_checked_Inr failed_challenge_def open_challenge_def intro!: challenges_age_update)
next
  case (consume_challenge h rh at oe d d')
  then show ?case
    by (auto simp: ConsumeMFAChallenge_def bind_err_Inr dest!: challenges_age_take spend_tables accounts_audit_opt)
next
  case (complete_challenge h rh at oe s e d d')
  then show ?case
    by (auto simp: CompleteMFAChallenge_def bind_err_Inr split: option.splits if_splits
        dest!: challenges_age_take spend_tables accounts_audit_opt login_tables)
next
  case (enable_mfa i j cs at e d d')
  then show ?case
    by (auto simp: EnableMFA_def delete_codes_def Let_def bind_err_Inr split: if_splits dest!: challenges_age_consume codes_tables accounts_audit)
next
  case (disable_mfa i j at e d d')
  then show ?case
    by (auto simp: DisableMFA_def delete_mfa_def Let_def bind_err_Inr split: if_splits dest!: challenges_age_consume accounts_audit)
next
  case (reset_mfa email at e d x d')
  then show ?case
    by (auto simp: ResetMFAFromHost_def delete_mfa_def Let_def bind_err_Inr dest!: challenges_age_consume accounts_audit)
next
  case (replace_codes i j cs at e d d')
  then show ?case
    by (auto simp: ReplaceRecoveryCodes_def delete_codes_def bind_err_Inr split: option.splits if_splits dest!: codes_tables accounts_audit)
next
  case (create_login s e d d')
  then show ?case by (auto simp: CreateLoginSession_def dest!: login_tables)
next
  case (update_user i email name enabled at e d v d')
  then show ?case by (rule UpdateUser_cases) (auto split: if_splits dest!: accounts_audit)
next
  case (delete_challenges at d n d')
  then show ?case by (auto simp: DeleteExpiredMFAChallenges_def Let_def challenges_age_filter)
next
  case (pending_mfa v d d')
  then show ?case by (auto simp: UpsertPendingMFA_def Let_def split: if_splits)
qed (auto simp: TouchSession_def RevokeSession_def DeleteExpiredSessions_def CreateUser_def ResetUserPassword_def ChangeOwnPassword_def Let_def
      split: if_splits dest!: accounts_audit)

end
