(* ===== verification/Commands_Invariant.thy ===== *)
theory Commands_Invariant
  imports Store_Commands Auth_Invariant
begin

text \<open>
  The committed writes of the whole store, \<open>db_step\<close>: those of \<open>Store_Invariant\<close>, those on
  accounts (\<open>Auth_Store\<close>) and those on operational commands. The constraints on the two command tables are kept by all of them, and
  a command only moves forward: from queued to running to one of the final states, which it
  keeps. So the executor claims no command twice.
\<close>

inductive command_step :: "db \<Rightarrow> db \<Rightarrow> bool" where
  create_command: "CreateOperationalCommand p e d = Inr (x, d') \<Longrightarrow> command_step d d'"
| claim_command: "ClaimOperationalCommand at d = Inr (i, d') \<Longrightarrow> command_step d d'"
| update_result: "UpdateOperationalCommandNode i n d = Inr d' \<Longrightarrow> command_step d d'"
| finish_command: "FinishOperationalCommand p e d = Inr d' \<Longrightarrow> command_step d d'"
| begin_dhcp: "BeginDHCPOperation q e d = Inr (y, d') \<Longrightarrow> command_step d d'"
| finish_dhcp: "FinishDHCPOperation q e d = Inr d' \<Longrightarrow> command_step d d'"

definition db_step :: "db \<Rightarrow> db \<Rightarrow> bool" where
  "db_step d d' \<longleftrightarrow> store_step d d' \<or> command_step d d' \<or> auth_step d d'"

definition commands_ok :: "db \<Rightarrow> bool" where
  "commands_ok d \<longleftrightarrow> command_indexes (db_commands d) \<and> result_indexes (db_results d) \<and>
     (\<forall>r \<in> set (db_commands d). command_check r \<and> command_refs r d) \<and>
     (\<forall>r \<in> set (db_results d). result_check r \<and> result_refs r d)"


subsection \<open>What a write on the command tables may do\<close>

text \<open>
  One row per command, in place: unchanged, or moved forward in its life; and possibly a new row.
\<close>

definition rank :: "CommandStatus \<Rightarrow> nat" where
  "rank s = (case s of CmdQueued \<Rightarrow> 0 | CmdRunning \<Rightarrow> 1 | _ \<Rightarrow> 2)"

lemma rank_terminal: "rank s = 2 \<longleftrightarrow> terminal_command s"
  by (cases s) (auto simp: rank_def terminal_command_def)

definition advances :: "CommandRow \<Rightarrow> CommandRow \<Rightarrow> bool" where
  "advances r r' \<longleftrightarrow> cmd_ID r' = cmd_ID r \<and> command_key r' = command_key r \<and> cmd_Command r' = cmd_Command r \<and>
     cmd_ClusterID r' = cmd_ClusterID r \<and> cmd_TargetNodeID r' = cmd_TargetNodeID r \<and>
     cmd_InputFingerprint r' = cmd_InputFingerprint r \<and> (r' = r \<or> rank (cmd_Status r) < rank (cmd_Status r'))"

lemma advances_refl [simp]: "advances r r"
  by (simp add: advances_def)

lemma advances_trans: "advances a b \<Longrightarrow> advances b c \<Longrightarrow> advances a c"
  by (auto simp: advances_def)

definition commands_change :: "CommandRow list \<Rightarrow> CommandRow list \<Rightarrow> bool" where
  "commands_change rs rs' \<longleftrightarrow> (\<exists>f new. rs' = map f rs @ new \<and> (\<forall>r \<in> set rs. advances r (f r)))"

lemma commands_change_refl [simp]: "commands_change rs rs"
  unfolding commands_change_def by (intro exI [of _ id] exI [of _ "[]"]) simp

lemma commands_change_append: "commands_change rs (rs @ new)"
  unfolding commands_change_def by (intro exI [of _ id] exI [of _ new]) simp

lemma commands_change_update:
  assumes "\<And>r. r \<in> set rs \<Longrightarrow> P r \<Longrightarrow> advances r (f r)"
  shows "commands_change rs (update_where P f rs)"
  unfolding commands_change_def update_where_def
  by (intro exI [of _ "\<lambda>r. if P r then f r else r"] exI [of _ "[]"]) (simp add: assms)

lemma commands_change_row: "commands_change rs rs' \<Longrightarrow> r \<in> set rs \<Longrightarrow> \<exists>r' \<in> set rs'. advances r r'"
  unfolding commands_change_def by auto

text \<open>The other tables, as far as the command tables refer to them.\<close>

definition same_store :: "db \<Rightarrow> db \<Rightarrow> bool" where
  "same_store d d' \<longleftrightarrow> (\<exists>cs rs. d' = d\<lparr>db_commands := cs, db_results := rs\<rparr>)"

lemma insert_command_Inr:
  "insert_command what r d = Inr x \<longleftrightarrow> command_check r \<and>
     (if command_key r \<in> command_key ` set (db_commands d) then x = None
      else cmd_ID r \<notin> cmd_ID ` set (db_commands d) \<and> command_refs r d \<and> x = Some (d\<lparr>db_commands := db_commands d @ [r]\<rparr>))"
  by (auto simp: insert_command_def)

lemma insert_result_Inr:
  "insert_result what r d = Inr d' \<longleftrightarrow> result_check r \<and> result_indexes (db_results d @ [r]) \<and> result_refs r d \<and>
     d' = d\<lparr>db_results := db_results d @ [r]\<rparr>"
  by (auto simp: insert_result_def)

lemma audit_Inr:
  "audit e d = Inr d' \<longleftrightarrow> audit_ID e \<notin> audit_ID ` set (db_audit d) \<and>
     d' = d\<lparr>db_audit := db_audit d @ [e\<lparr>audit_Metadata := SafeMetadata (audit_Metadata e)\<rparr>]\<rparr>"
  by (auto simp: audit_def)


subsection \<open>References\<close>

definition audit_ids :: "db \<Rightarrow> string set" where "audit_ids d = audit_ID ` set (db_audit d)"
definition command_ids :: "db \<Rightarrow> string set" where "command_ids d = cmd_ID ` set (db_commands d)"

lemma ids_of_commands [simp]:
  "cluster_ids (d\<lparr>db_commands := cs\<rparr>) = cluster_ids d" "node_ids (d\<lparr>db_commands := cs\<rparr>) = node_ids d"
  "snapshot_ids (d\<lparr>db_commands := cs\<rparr>) = snapshot_ids d" "revision_ids (d\<lparr>db_commands := cs\<rparr>) = revision_ids d"
  "deployment_ids (d\<lparr>db_commands := cs\<rparr>) = deployment_ids d" "audit_ids (d\<lparr>db_commands := cs\<rparr>) = audit_ids d"
  "command_ids (d\<lparr>db_commands := cs\<rparr>) = cmd_ID ` set cs"
  "cluster_ids (d\<lparr>db_results := rs\<rparr>) = cluster_ids d" "node_ids (d\<lparr>db_results := rs\<rparr>) = node_ids d"
  "snapshot_ids (d\<lparr>db_results := rs\<rparr>) = snapshot_ids d" "revision_ids (d\<lparr>db_results := rs\<rparr>) = revision_ids d"
  "deployment_ids (d\<lparr>db_results := rs\<rparr>) = deployment_ids d" "audit_ids (d\<lparr>db_results := rs\<rparr>) = audit_ids d"
  "command_ids (d\<lparr>db_results := rs\<rparr>) = command_ids d" "command_ids (d\<lparr>db_audit := es\<rparr>) = command_ids d"
  "audit_ids (d\<lparr>db_audit := es\<rparr>) = audit_ID ` set es"
  by (simp_all add: ids_defs audit_ids_def command_ids_def)

lemma store_ok_commands [simp]: "store_ok (d\<lparr>db_commands := cs\<rparr>) = store_ok d" "store_ok (d\<lparr>db_results := rs\<rparr>) = store_ok d"
  by (simp_all add: store_ok_def keys_ok_def refs_ok_def)

lemma command_refs_iff: "command_refs r d \<longleftrightarrow> cmd_ClusterID r \<in> cluster_ids d \<and> ref_in (cmd_TargetNodeID r) (node_ids d) \<and>
    ref_in (cmd_ObservationSnapshotID r) (snapshot_ids d) \<and> ref_in (cmd_AuditReference r) (audit_ids d)"
  by (auto simp: command_refs_def snapshot_ref_def references_def ids_defs audit_ids_def ref_in_def split: option.split)

lemma result_refs_iff: "result_refs r d \<longleftrightarrow> res_CommandID r \<in> command_ids d \<and> res_NodeID r \<in> node_ids d \<and>
    ref_in (res_ObservationSnapshotID r) (snapshot_ids d)"
  by (auto simp: result_refs_def snapshot_ref_def ids_defs command_ids_def)

text \<open>The command tables stay as they are and what they refer to does not disappear.\<close>

definition keeps_refs :: "db \<Rightarrow> db \<Rightarrow> bool" where
  "keeps_refs d d' \<longleftrightarrow> cluster_ids d \<subseteq> cluster_ids d' \<and> node_ids d \<subseteq> node_ids d' \<and> snapshot_ids d \<subseteq> snapshot_ids d' \<and>
     audit_ids d \<subseteq> audit_ids d'"

lemma refs_mono:
  "keeps_refs d d' \<Longrightarrow> command_refs r d \<Longrightarrow> command_refs r d'"
  "keeps_refs d d' \<Longrightarrow> command_ids d \<subseteq> command_ids d' \<Longrightarrow> result_refs x d \<Longrightarrow> result_refs x d'"
  by (auto simp: keeps_refs_def command_refs_iff result_refs_iff intro: ref_in_mono)

lemma commands_ok_keeps:
  "commands_ok d \<Longrightarrow> db_commands d' = db_commands d \<Longrightarrow> db_results d' = db_results d \<Longrightarrow> keeps_refs d d' \<Longrightarrow> commands_ok d'"
  by (auto simp: commands_ok_def command_ids_def intro: refs_mono)


subsection \<open>The invariant\<close>

lemma commands_ok_audit: "audit e d = Inr d' \<Longrightarrow> commands_ok d \<Longrightarrow> commands_ok d'"
  by (auto simp: audit_Inr keeps_refs_def audit_ids_def intro!: commands_ok_keeps [of d])

lemma commands_ok_insert:
  assumes "insert_command what r d = Inr (Some d')" "commands_ok d"
  shows "commands_ok d'"
proof -
  from assms(1) have d': "d' = d\<lparr>db_commands := db_commands d @ [r]\<rparr>" and r: "command_check r" "command_refs r d"
    "cmd_ID r \<notin> cmd_ID ` set (db_commands d)" "command_key r \<notin> command_key ` set (db_commands d)"
    by (auto simp: insert_command_Inr split: if_splits)
  have "keeps_refs d d'" "command_ids d \<subseteq> command_ids d'" by (auto simp: keeps_refs_def d' command_ids_def)
  note mono = refs_mono(1) [OF this(1)] refs_mono(2) [OF this]
  show ?thesis
    using assms(2) r mono
    by (auto simp: commands_ok_def command_indexes_def unique_index_append d')
qed

lemma commands_ok_result: "insert_result what r d = Inr d' \<Longrightarrow> commands_ok d \<Longrightarrow> commands_ok d'"
  by (auto simp: insert_result_Inr commands_ok_def command_refs_iff result_refs_iff)

lemma commands_ok_results: "insert_results i ns d = Inr d' \<Longrightarrow> commands_ok d \<Longrightarrow> commands_ok d'"
  by (induction i ns d rule: insert_results.induct) (auto simp: bind_err_Inr dest: commands_ok_result)

lemma commands_ok_update:
  assumes "commands_ok d" "\<And>r. P r \<Longrightarrow> cmd_ID (f r) = cmd_ID r \<and> command_key (f r) = command_key r"
    "\<And>r. r \<in> set (db_commands d) \<Longrightarrow> P r \<Longrightarrow> command_check (f r) \<and> command_refs (f r) d"
  shows "commands_ok (d\<lparr>db_commands := update_where P f (db_commands d)\<rparr>)"
proof -
  have "cmd_ID ` set (update_where P f (db_commands d)) = command_ids d"
    using map_update_where [of P cmd_ID f "db_commands d"] assms(2) by (metis command_ids_def list.set_map)
  then show ?thesis
    using assms by (auto simp: commands_ok_def command_indexes_def primary_key_update set_update_where command_refs_iff result_refs_iff)
qed

lemma results_ok_update:
  assumes "commands_ok d" "\<And>r. P r \<Longrightarrow> res_ID (f r) = res_ID r \<and> res_CommandID (f r) = res_CommandID r \<and> res_NodeID (f r) = res_NodeID r"
    "\<And>r. r \<in> set (db_results d) \<Longrightarrow> P r \<Longrightarrow> result_check (f r) \<and> result_refs (f r) d"
  shows "commands_ok (d\<lparr>db_results := update_where P f (db_results d)\<rparr>)"
  using assms by (auto simp: commands_ok_def result_indexes_def primary_key_update set_update_where command_refs_iff result_refs_iff)

lemma commands_okD:
  "commands_ok d \<Longrightarrow> r \<in> set (db_commands d) \<Longrightarrow> command_refs r d"
  "commands_ok d \<Longrightarrow> x \<in> set (db_results d) \<Longrightarrow> result_refs x d"
  "commands_ok d \<Longrightarrow> r \<in> set (db_commands d) \<Longrightarrow> command_check r"
  by (simp_all add: commands_ok_def)

lemma commands_ok_keys:
  "commands_ok d \<Longrightarrow> primary_key cmd_ID (db_commands d)" "commands_ok d \<Longrightarrow> primary_key command_key (db_commands d)"
  by (simp_all add: commands_ok_def command_indexes_def)

lemma CreateOperationalCommand_cases:
  assumes "CreateOperationalCommand p e d = Inr (x, d')"
  obtains "d' = d" "snd x = False" "command_key (new_command_row p) \<in> command_key ` set (db_commands d)"
      "operationalCommandByIdempotency (op_RequestedBy p) (op_IdempotencyKey p) d = Inr (fst x)"
  | d1 d2 where "insert_command ''insert operational command'' (new_command_row p) d = Inr (Some d1)"
      "insert_results (op_ID p) (op_NodeResults p) d1 = Inr d2" "audit e d2 = Inr d'" "x = (p, True)"
proof (cases "insert_command ''insert operational command'' (new_command_row p) d")
  case (Inr r)
  show ?thesis
  proof (cases r)
    case None
    with assms Inr that(1) show ?thesis by (auto simp: CreateOperationalCommand_def bind_err_Inr insert_command_Inr split: if_splits)
  qed (use assms Inr that(2) in \<open>auto simp: CreateOperationalCommand_def bind_err_Inr\<close>)
qed (use assms in \<open>simp add: CreateOperationalCommand_def\<close>)

lemma CreateOperationalCommand_ok:
  assumes "CreateOperationalCommand p e d = Inr (x, d')" "commands_ok d"
  shows "commands_ok d'"
  using assms(1)
  by (cases rule: CreateOperationalCommand_cases)
     (use assms(2) in \<open>simp, blast intro: commands_ok_insert commands_ok_results commands_ok_audit\<close>)

lemma BeginDHCPOperation_cases:
  assumes "BeginDHCPOperation p e d = Inr (x, d')"
  obtains "d' = d" "snd x = False" "command_key (new_dhcp_row p) \<in> command_key ` set (db_commands d)"
  | d1 d2 n where "insert_command ''insert DHCP operation'' (new_dhcp_row p) d = Inr (Some d1)" "dop_NodeResults p = [n]"
      "insert_result ''insert DHCP operation node result'' (new_dhcp_result (dop_ID p) n) d1 = Inr d2" "audit e d2 = Inr d'" "x = (p, True)"
proof (cases "insert_command ''insert DHCP operation'' (new_dhcp_row p) d")
  case (Inr r)
  show ?thesis
  proof (cases r)
    case None
    with assms Inr that(1) show ?thesis by (auto simp: BeginDHCPOperation_def bind_err_Inr insert_command_Inr split: if_splits)
  next
    case (Some d1)
    with assms Inr obtain n where n: "dop_NodeResults p = [n]"
      by (auto simp: BeginDHCPOperation_def split: list.splits)
    with assms Inr Some that(2) show ?thesis by (auto simp: BeginDHCPOperation_def bind_err_Inr)
  qed
qed (use assms in \<open>simp add: BeginDHCPOperation_def\<close>)

lemma BeginDHCPOperation_ok:
  assumes "BeginDHCPOperation p e d = Inr (x, d')" "commands_ok d"
  shows "commands_ok d'"
  using assms(1)
  by (cases rule: BeginDHCPOperation_cases)
     (use assms(2) in \<open>simp, blast intro: commands_ok_insert commands_ok_result commands_ok_audit\<close>)

lemma ClaimOperationalCommand_cases:
  assumes "ClaimOperationalCommand at d = Inr (i, d')"
  obtains "i = []" "d' = d"
  | r where "r \<in> set (db_commands d)" "cmd_Status r = CmdQueued" "cmd_Command r \<in> set dns_commands" "i = cmd_ID r"
      "d' = d\<lparr>db_commands := update_where (\<lambda>q. cmd_ID q = i \<and> cmd_Status q = CmdQueued)
         (\<lambda>q. q\<lparr>cmd_Status := CmdRunning, cmd_StartedAt := Some at\<rparr>) (db_commands d)\<rparr>"
      "\<forall>q \<in> set (db_commands d). cmd_ID q = i \<and> cmd_Status q = CmdQueued \<longrightarrow>
         command_check (q\<lparr>cmd_Status := CmdRunning, cmd_StartedAt := Some at\<rparr>)"
proof (cases "dns_rows (\<lambda>r. cmd_Status r = CmdQueued) d")
  case Nil
  with assms that(1) show ?thesis by (simp add: ClaimOperationalCommand_def)
next
  case (Cons r rs)
  then have "r \<in> set (dns_rows (\<lambda>r. cmd_Status r = CmdQueued) d)" by simp
  then have "r \<in> set (db_commands d)" "cmd_Status r = CmdQueued" "cmd_Command r \<in> set dns_commands"
    by (simp_all add: dns_rows_def)
  with assms Cons that(2) [of r] show ?thesis by (auto simp: ClaimOperationalCommand_def Let_def)
qed

lemma ClaimOperationalCommand_ok:
  assumes "ClaimOperationalCommand at d = Inr (i, d')" "commands_ok d"
  shows "commands_ok d'"
  using assms(1)
proof (cases rule: ClaimOperationalCommand_cases)
  case (2 r)
  show ?thesis
    unfolding 2(5)
    by (rule commands_ok_update [OF assms(2)])
       (use 2(6) commands_okD(1) [OF assms(2)] in \<open>auto simp: command_key_def command_refs_iff\<close>)
qed (use assms(2) in simp)

lemma UpdateOperationalCommandNode_ok:
  assumes "UpdateOperationalCommandNode i n d = Inr d'" "commands_ok d"
  shows "commands_ok d'"
proof -
  let ?P = "\<lambda>r. res_ID r = nr_ID n \<and> res_CommandID r = i"
  from assms(1) have d': "d' = d\<lparr>db_results := update_where ?P (result_update n) (db_results d)\<rparr>"
    and check: "\<forall>r \<in> set (db_results d). ?P r \<longrightarrow> result_check (result_update n r)"
    and ref: "ref_in (nullableString (nr_ObservationSnapshotID n)) (snapshot_ids d)"
    by (auto simp: UpdateOperationalCommandNode_def Let_def snapshot_ref_def)
  show ?thesis
    unfolding d'
    by (rule results_ok_update [OF assms(2)])
       (use check ref commands_okD(2) [OF assms(2)] in \<open>auto simp: result_update_def result_refs_iff\<close>)
qed

lemma FinishOperationalCommand_cases:
  assumes "FinishOperationalCommand p e d = Inr d'"
  obtains d1 where "audit e d = Inr d1" "op_AuditReference p \<in> audit_ids d1"
    "d' = d1\<lparr>db_commands := update_where (\<lambda>r. cmd_ID r = op_ID p \<and> cmd_Status r = CmdRunning)
       (\<lambda>r. r\<lparr>cmd_Status := op_Status p, cmd_AuditReference := Some (op_AuditReference p),
         cmd_CompletedAt := op_CompletedAt p, cmd_Payload := None\<rparr>) (db_commands d1)\<rparr>"
    "\<forall>r \<in> set (db_commands d1). cmd_ID r = op_ID p \<and> cmd_Status r = CmdRunning \<longrightarrow>
       command_check (r\<lparr>cmd_Status := op_Status p, cmd_AuditReference := Some (op_AuditReference p),
         cmd_CompletedAt := op_CompletedAt p, cmd_Payload := None\<rparr>)"
  using assms by (auto simp: FinishOperationalCommand_def Let_def bind_err_Inr audit_ids_def)

lemma FinishOperationalCommand_ok:
  assumes "FinishOperationalCommand p e d = Inr d'" "commands_ok d"
  shows "commands_ok d'"
  using assms(1)
proof (cases rule: FinishOperationalCommand_cases)
  case (1 d1)
  note ok = commands_ok_audit [OF 1(1) assms(2)]
  show ?thesis
    unfolding 1(3)
    by (rule commands_ok_update [OF ok])
       (use 1(2,4) commands_okD(1) [OF ok] in \<open>auto simp: command_key_def command_refs_iff\<close>)
qed

lemma FinishDHCPOperation_cases:
  assumes "FinishDHCPOperation p e d = Inr d'"
  obtains d1 n where "audit e d = Inr d1" "dop_NodeResults p = [n]" "dop_AuditReference p \<in> audit_ids d1"
    "ref_in (nullableString (dop_ObservationSnapshotID p)) (snapshot_ids d1)"
    "d' = d1\<lparr>db_commands := update_where (\<lambda>r. cmd_ID r = dop_ID p \<and> cmd_Status r = CmdRunning)
       (\<lambda>r. r\<lparr>cmd_Status := dop_Status p, cmd_ObservationStatus := dop_ObservationStatus p,
          cmd_ObservationSnapshotID := nullableString (dop_ObservationSnapshotID p),
          cmd_ObservationErrorCode := dop_ObservationErrorCode p,
          cmd_AuditReference := Some (dop_AuditReference p), cmd_CompletedAt := dop_CompletedAt p\<rparr>) (db_commands d1)\<rparr>
     \<lparr>db_results := update_where (\<lambda>m. res_ID m = dr_ID n \<and> res_CommandID m = dop_ID p \<and> res_Status m = ResRunning)
       (\<lambda>m. m\<lparr>res_Status := dr_Status n, res_ErrorCode := dr_ErrorCode n, res_CompletedAt := dr_CompletedAt n\<rparr>) (db_results d1)\<rparr>"
    "\<forall>r \<in> set (db_commands d1). cmd_ID r = dop_ID p \<and> cmd_Status r = CmdRunning \<longrightarrow>
       command_check (r\<lparr>cmd_Status := dop_Status p, cmd_ObservationStatus := dop_ObservationStatus p,
          cmd_ObservationSnapshotID := nullableString (dop_ObservationSnapshotID p),
          cmd_ObservationErrorCode := dop_ObservationErrorCode p,
          cmd_AuditReference := Some (dop_AuditReference p), cmd_CompletedAt := dop_CompletedAt p\<rparr>)"
    "\<forall>m \<in> set (db_results d1). res_ID m = dr_ID n \<and> res_CommandID m = dop_ID p \<and> res_Status m = ResRunning \<longrightarrow>
       result_check (m\<lparr>res_Status := dr_Status n, res_ErrorCode := dr_ErrorCode n, res_CompletedAt := dr_CompletedAt n\<rparr>)"
proof -
  from assms obtain n where n: "dop_NodeResults p = [n]"
    by (auto simp: FinishDHCPOperation_def split: list.splits)
  with assms obtain d1 where d1: "audit e d = Inr d1"
    by (auto simp: FinishDHCPOperation_def bind_err_Inr)
  show ?thesis
    using assms by (intro that [OF d1 n]) (auto simp: FinishDHCPOperation_def n d1 Let_def audit_ids_def snapshot_ref_def)
qed

lemma FinishDHCPOperation_ok:
  assumes "FinishDHCPOperation p e d = Inr d'" "commands_ok d"
  shows "commands_ok d'"
  using assms(1)
proof (cases rule: FinishDHCPOperation_cases)
  case (1 d1 n)
  note ok = commands_ok_audit [OF 1(1) assms(2)]
  let ?d = "d1\<lparr>db_commands := update_where (\<lambda>r. cmd_ID r = dop_ID p \<and> cmd_Status r = CmdRunning)
       (\<lambda>r. r\<lparr>cmd_Status := dop_Status p, cmd_ObservationStatus := dop_ObservationStatus p,
          cmd_ObservationSnapshotID := nullableString (dop_ObservationSnapshotID p),
          cmd_ObservationErrorCode := dop_ObservationErrorCode p,
          cmd_AuditReference := Some (dop_AuditReference p), cmd_CompletedAt := dop_CompletedAt p\<rparr>) (db_commands d1)\<rparr>"
  have ok2: "commands_ok ?d"
    by (rule commands_ok_update [OF ok])
       (use 1(3,4,6) commands_okD(1) [OF ok] in \<open>auto simp: command_key_def command_refs_iff\<close>)
  have "commands_ok (?d\<lparr>db_results := update_where (\<lambda>m. res_ID m = dr_ID n \<and> res_CommandID m = dop_ID p \<and> res_Status m = ResRunning)
       (\<lambda>m. m\<lparr>res_Status := dr_Status n, res_ErrorCode := dr_ErrorCode n, res_CompletedAt := dr_CompletedAt n\<rparr>) (db_results ?d)\<rparr>)"
    by (rule results_ok_update [OF ok2])
       (use 1(7) commands_okD(2) [OF ok2] in \<open>fastforce simp: result_refs_iff simp del: ids_of_commands\<close>)+
  then show ?thesis by (simp add: 1(5))
qed

lemma command_step_ok: "command_step d d' \<Longrightarrow> commands_ok d \<Longrightarrow> commands_ok d'"
  by (induction rule: command_step.induct)
     (blast intro: CreateOperationalCommand_ok ClaimOperationalCommand_ok UpdateOperationalCommandNode_ok
        FinishOperationalCommand_ok BeginDHCPOperation_ok FinishDHCPOperation_ok)+


subsection \<open>Commands and the rest of the store\<close>

definition rest :: "db \<Rightarrow> db" where
  "rest d = d\<lparr>db_audit := [], db_commands := [], db_results := []\<rparr>"

text \<open>A write on commands changes nothing else but the audit table.\<close>

definition framed :: "db \<Rightarrow> db \<Rightarrow> bool" where
  "framed d d' \<longleftrightarrow> rest d' = rest d \<and> prefix (db_audit d) (db_audit d') \<and> (store_ok d \<longrightarrow> store_ok d')"

lemma framed_trans: "framed d d' \<Longrightarrow> framed d' d'' \<Longrightarrow> framed d d''"
  by (auto simp: framed_def)

lemma framed_refl [simp]: "framed d d"
  by (simp add: framed_def)

lemma framed_commands [simp]: "framed d (d'\<lparr>db_commands := cs\<rparr>) = framed d d'" "framed d (d'\<lparr>db_results := rs\<rparr>) = framed d d'"
  by (simp_all add: framed_def rest_def)

lemma framed_audit: "audit e d = Inr d' \<Longrightarrow> framed d d'"
  using audit_ok [of e d d'] by (auto simp: framed_def audit_Inr rest_def)

lemma framed_insert: "insert_command what r d = Inr (Some d') \<Longrightarrow> framed d d'"
  by (auto simp: insert_command_Inr split: if_splits)

lemma framed_result: "insert_result what r d = Inr d' \<Longrightarrow> framed d d'"
  by (auto simp: insert_result_Inr)

lemma framed_results: "insert_results i ns d = Inr d' \<Longrightarrow> framed d d'"
  by (induction i ns d rule: insert_results.induct) (auto simp: bind_err_Inr intro: framed_trans framed_result)

lemma command_step_framed: "command_step d d' \<Longrightarrow> framed d d'"
proof (induction rule: command_step.induct)
  case (create_command p e d x d')
  then show ?case
    by (cases rule: CreateOperationalCommand_cases) (simp, blast intro: framed_trans framed_insert framed_results framed_audit)
next
  case (claim_command at d i d')
  then show ?case by (cases rule: ClaimOperationalCommand_cases) simp_all
next
  case (update_result i n d d')
  then show ?case by (auto simp: UpdateOperationalCommandNode_def Let_def)
next
  case (finish_command p e d d')
  then show ?case by (cases rule: FinishOperationalCommand_cases) (simp add: framed_audit)
next
  case (begin_dhcp q e d y d')
  then show ?case
    by (cases rule: BeginDHCPOperation_cases) (simp, blast intro: framed_trans framed_insert framed_result framed_audit)
next
  case (finish_dhcp q e d d')
  then show ?case by (cases rule: FinishDHCPOperation_cases) (simp add: framed_audit)
qed

text \<open>Conversely, the other writes leave the command tables alone and keep what they refer to.\<close>

definition apart :: "db \<Rightarrow> db \<Rightarrow> bool" where
  "apart d d' \<longleftrightarrow> db_commands d' = db_commands d \<and> db_results d' = db_results d \<and> db_accounts d' = db_accounts d \<and> keeps_refs d d'"

lemma apart_trans: "apart d d' \<Longrightarrow> apart d' d'' \<Longrightarrow> apart d d''"
  by (auto simp: apart_def keeps_refs_def)

lemma apart_audit: "audit e d = Inr d' \<Longrightarrow> apart d d'"
  by (auto simp: apart_def audit_Inr keeps_refs_def audit_ids_def)

lemma apart_audit_from: "audit e d1 = Inr d' \<Longrightarrow> apart d d1 \<Longrightarrow> apart d d'"
  by (blast intro: apart_trans apart_audit)

lemma apart_audit_all: "audit_all at ids ps d = Inr d' \<Longrightarrow> apart d d'"
proof (induction at ids ps d rule: audit_all.induct)
  case (3 at i ids p ps d)
  then show ?case by (auto simp: bind_err_Inr intro: apart_trans apart_audit)
qed (simp_all add: apart_def keeps_refs_def)

lemma apart_audit_all_from: "audit_all at ids ps d1 = Inr d' \<Longrightarrow> apart d d1 \<Longrightarrow> apart d d'"
  by (blast intro: apart_trans apart_audit_all)

lemma apart_insert_tasks: "insert_tasks i ns d = Inr d' \<Longrightarrow> apart d0 d \<Longrightarrow> apart d0 d'"
  by (induction i ns d rule: insert_tasks.induct) (auto simp: Let_def apart_def keeps_refs_def audit_ids_def ids_defs)

lemma update_ids: "(\<And>r. P r \<Longrightarrow> k (f r) = k r) \<Longrightarrow> k ` set (update_where P f rows) = k ` set rows"
  using map_update_where [of P k f rows] by (metis list.set_map)

lemma apart_tables:
  "apart d d' \<Longrightarrow> cluster_ids d' \<subseteq> cluster_ID ` set cs \<Longrightarrow> apart d (d'\<lparr>db_clusters := cs\<rparr>)"
  "apart d d' \<Longrightarrow> node_ids d' \<subseteq> row_ID ` set ns \<Longrightarrow> apart d (d'\<lparr>db_nodes := ns\<rparr>)"
  "apart d d' \<Longrightarrow> snapshot_ids d' \<subseteq> snap_ID ` set ss \<Longrightarrow> apart d (d'\<lparr>db_snapshots := ss\<rparr>)"
  unfolding apart_def keeps_refs_def audit_ids_def ids_defs by (simp_all del: image_subset_iff) (meson subset_trans)+

lemma apart_simps [simp]:
  "apart d (d'\<lparr>db_profiles := ps\<rparr>) = apart d d'" "apart d (d'\<lparr>db_drafts := fs\<rparr>) = apart d d'"
  "apart d (d'\<lparr>db_revisions := rs\<rparr>) = apart d d'" "apart d (d'\<lparr>db_deployments := qs\<rparr>) = apart d d'"
  "apart d (d'\<lparr>db_tasks := ts\<rparr>) = apart d d'" "apart d (d'\<lparr>db_drifts := es\<rparr>) = apart d d'" "apart d d"
  by (simp_all add: apart_def keeps_refs_def ids_defs audit_ids_def)

lemma store_step_apart: "store_step d d' \<Longrightarrow> apart d d'"
  by (induction rule: store_step.induct)
     (auto simp: method_defs PublishRevision_def SetRevisionArchived_def DeleteUnusedRevision_def Let_def bind_err_Inr update_ids ids_defs
        poll_result_def split: if_splits option.splits list.splits
        intro!: apart_tables elim!: apart_audit_from apart_audit_all_from apart_insert_tasks)


subsection \<open>The life of a command\<close>

lemma check_finished: "command_check r \<Longrightarrow> cmd_AuditReference r \<noteq> None \<Longrightarrow> rank (cmd_Status r) = 2"
  by (auto simp: command_check_def rank_terminal)

lemma update_results_commands: "insert_results i ns d = Inr d' \<Longrightarrow> db_commands d' = db_commands d"
  by (induction i ns d rule: insert_results.induct) (auto simp: bind_err_Inr insert_result_Inr)

lemma command_step_change: "command_step d d' \<Longrightarrow> commands_change (db_commands d) (db_commands d')"
proof (induction rule: command_step.induct)
  case (create_command p e d x d')
  then show ?case
    by (cases rule: CreateOperationalCommand_cases)
       (auto simp: insert_command_Inr audit_Inr commands_change_append dest!: update_results_commands split: if_splits)
next
  case (claim_command at d i d')
  then show ?case
    by (cases rule: ClaimOperationalCommand_cases)
       (auto intro!: commands_change_update simp: advances_def command_key_def rank_def)
next
  case (update_result i n d d')
  then show ?case by (auto simp: UpdateOperationalCommandNode_def Let_def)
next
  case (finish_command p e d d')
  then show ?case
  proof (cases rule: FinishOperationalCommand_cases)
    case (1 d1)
    from 1(1) have same: "db_commands d1 = db_commands d" by (simp add: audit_Inr)
    have "rank (op_Status p) = 2" if "r \<in> set (db_commands d)" "cmd_ID r = op_ID p" "cmd_Status r = CmdRunning" for r
      using check_finished [OF 1(4) [rule_format, of r]] that same by simp
    then show ?thesis
      unfolding 1(3) using same by (auto intro!: commands_change_update simp: advances_def command_key_def) (auto simp: rank_def)
  qed
next
  case (begin_dhcp q e d y d')
  then show ?case
    by (cases rule: BeginDHCPOperation_cases)
       (auto simp: insert_command_Inr audit_Inr insert_result_Inr commands_change_append split: if_splits)
next
  case (finish_dhcp q e d d')
  then show ?case
  proof (cases rule: FinishDHCPOperation_cases)
    case (1 d1 n)
    from 1(1) have same: "db_commands d1 = db_commands d" by (simp add: audit_Inr)
    have "rank (dop_Status q) = 2" if "r \<in> set (db_commands d)" "cmd_ID r = dop_ID q" "cmd_Status r = CmdRunning" for r
      using check_finished [OF 1(6) [rule_format, of r]] that same by simp
    then show ?thesis
      unfolding 1(5) using same by (auto intro!: commands_change_update simp: advances_def command_key_def) (auto simp: rank_def)
  qed
qed

text \<open>Writes on accounts leave the commands alone, and the others the accounts.\<close>

lemma account_frame_apart:
  assumes "account_frame d d'"
  shows "db_commands d' = db_commands d" "db_results d' = db_results d" "keeps_refs d d'"
proof -
  have same: "db_commands (others x) = db_commands x" "db_results (others x) = db_results x" "cluster_ids (others x) = cluster_ids x"
    "node_ids (others x) = node_ids x" "snapshot_ids (others x) = snapshot_ids x" for x by (simp_all add: others_def ids_defs)
  from assms have o: "others d' = others d" "prefix (db_audit d) (db_audit d')" by (simp_all add: account_frame_def)
  from o(1) show "db_commands d' = db_commands d" "db_results d' = db_results d" using same by metis+
  from o show "keeps_refs d d'" using same set_mono_prefix unfolding keeps_refs_def audit_ids_def by (metis image_mono order_refl)
qed

lemma framed_accounts: "framed d d' \<Longrightarrow> db_accounts d' = db_accounts d"
proof -
  have "db_accounts (rest x) = db_accounts x" for x by (simp add: rest_def)
  then show "framed d d' \<Longrightarrow> db_accounts d' = db_accounts d" unfolding framed_def by metis
qed

lemma db_store_step: "store_step d d' \<Longrightarrow> db_step d d'" and db_command_step: "command_step d d' \<Longrightarrow> db_step d d'"
  and db_auth_step: "auth_step d d' \<Longrightarrow> db_step d d'"
  by (simp_all add: db_step_def)

lemma db_step_cases [consumes 1, case_names store commands accounts]:
  assumes "db_step d d'"
  obtains (store) "store_step d d'" "apart d d'" | (commands) "command_step d d'" "framed d d'" | (accounts) "auth_step d d'" "account_frame d d'"
  using assms store_step_apart command_step_framed auth_step_frame unfolding db_step_def by blast

lemma db_step_ok: "db_step d d' \<Longrightarrow> store_ok d \<Longrightarrow> store_ok d'" "db_step d d' \<Longrightarrow> commands_ok d \<Longrightarrow> commands_ok d'"
  "db_step d d' \<Longrightarrow> auth_ok d \<Longrightarrow> auth_ok d'"
proof -
  assume step: "db_step d d'"
  from step show "store_ok d'" if "store_ok d"
    by (cases rule: db_step_cases) (use that store_step_ok in \<open>auto simp: framed_def account_frame_def\<close>)
  from step show "commands_ok d'" if "commands_ok d"
    by (cases rule: db_step_cases)
       (use that command_step_ok in \<open>auto simp: apart_def dest: account_frame_apart intro: commands_ok_keeps\<close>)
  from step show "auth_ok d'" if "auth_ok d"
    by (cases rule: db_step_cases) (use that auth_step_ok framed_accounts in \<open>auto simp: apart_def\<close>)
qed

lemma db_steps_ok: "db_step\<^sup>*\<^sup>* d d' \<Longrightarrow> store_ok d \<and> commands_ok d \<Longrightarrow> store_ok d' \<and> commands_ok d'"
  by (induction rule: rtranclp_induct) (auto dest: db_step_ok)

lemma db_steps_auth_ok: "db_step\<^sup>*\<^sup>* d d' \<Longrightarrow> auth_ok d \<Longrightarrow> auth_ok d'"
  by (induction rule: rtranclp_induct) (auto dest: db_step_ok)

lemma db_step_change: "db_step d d' \<Longrightarrow> commands_change (db_commands d) (db_commands d')"
  by (cases rule: db_step_cases) (auto simp: apart_def command_step_change account_frame_apart)

lemma db_steps_row: "db_step\<^sup>*\<^sup>* d d' \<Longrightarrow> r \<in> set (db_commands d) \<Longrightarrow> \<exists>r' \<in> set (db_commands d'). advances r r'"
proof (induction rule: rtranclp_induct)
  case (step y z)
  then show ?case using db_step_change [OF step.hyps(2)] by (meson advances_trans commands_change_row)
qed (blast intro: advances_refl)

lemma empty_commands_ok: "commands_ok empty_db"
  by (simp add: commands_ok_def empty_db_def command_indexes_def result_indexes_def unique_index_def)

end
