(* ===== verification/Commits.thy ===== *)
theory Commits
  imports Inventory Commands_Invariant
begin

text \<open>
  How actions change the store. \<open>calm e\<close>: whatever happens between two repository calls is a
  sequence of committed writes of the store. \<open>commits m\<close>: then the same is true of running
  \<open>m\<close>, so every invariant of the store carries over to the services. The second part follows
  the drafts through committed writes: a draft that changes gets a new version.
\<close>

subsection \<open>Actions commit\<close>

definition calm :: "env \<Rightarrow> bool" where
  "calm e \<longleftrightarrow> (\<forall>t d. db_step\<^sup>*\<^sup>* d (interfere e t d))"

definition commits :: "'a action \<Rightarrow> bool" where
  "commits m \<longleftrightarrow> (\<forall>e w. calm e \<longrightarrow> db_step\<^sup>*\<^sup>* (w_db w) (w_db (snd (m e w))))"

named_theorems committing "actions that change the store by committed writes only"

lemma commits_ret [committing]: "commits (ret x)" by (simp add: commits_def ret_def)
lemma commits_fail [committing]: "commits (fail x)" by (simp add: commits_def fail_def)
lemma commits_tick [committing]: "commits (tick f)" by (simp add: commits_def tick_def)
lemma commits_emit [committing]: "commits (emit ev)" by (simp add: commits_def emit_def)

lemma commits_capability [committing]: "commits (capability f)" by (simp add: commits_def capability_def)

lemma commits_Decrypt [committing]: "commits (Decrypt i c)"
  by (auto simp: commits_def Decrypt_def split: option.split)

lemma commits_bind [committing]:
  assumes "commits m" "\<And>x. commits (f x)"
  shows "commits (bind m f)"
  unfolding commits_def
proof (intro allI impI)
  fix e w assume calm: "calm e"
  obtain r v where m: "m e w = (r, v)" by fastforce
  with assms(1) calm have "db_step\<^sup>*\<^sup>* (w_db w) (w_db v)" unfolding commits_def by (metis snd_conv)
  moreover have "db_step\<^sup>*\<^sup>* (w_db v) (w_db (snd (f x e v)))" for x using assms(2) calm by (simp add: commits_def)
  ultimately show "db_step\<^sup>*\<^sup>* (w_db w) (w_db (snd (bind m f e w)))"
    by (cases r) (simp_all add: bind_apply m, metis rtranclp_trans)
qed

lemma commits_attempt [committing]: "commits m \<Longrightarrow> commits (attempt m)"
  by (simp add: commits_def attempt_apply case_prod_unfold)

lemma commits_call:
  assumes "\<And>d x d'. m d = Inr (x, d') \<Longrightarrow> db_step\<^sup>*\<^sup>* d d'"
  shows "commits (call m)"
  unfolding commits_def
proof (intro allI impI)
  fix e and w :: world assume "calm e"
  then have *: "db_step\<^sup>*\<^sup>* (w_db w) (interfere e (w_tick w) (w_db w))" by (simp add: calm_def)
  with assms [of "interfere e (w_tick w) (w_db w)"] show "db_step\<^sup>*\<^sup>* (w_db w) (w_db (snd (call m e w)))"
    by (auto simp: call_def Let_def split: sum.split prod.split intro: rtranclp_trans)
qed

lemma commits_query [committing]: "commits (query f)"
  unfolding query_def by (rule commits_call) (auto simp: bind_err_Inr)

lemma commits_exec:
  assumes "\<And>d d'. f d = Inr d' \<Longrightarrow> db_step d d'"
  shows "commits (exec f)"
  unfolding exec_def by (rule commits_call) (auto simp: bind_err_Inr dest!: assms)

lemma commits_exec_traced: "(\<And>d d'. f d = Inr d' \<Longrightarrow> db_step d d') \<Longrightarrow> commits (exec_traced ev f)"
  unfolding exec_traced_def by (intro commits_bind commits_emit commits_exec)

lemma commits_method: "(\<And>d x d'. m d = Inr (x, d') \<Longrightarrow> db_step d d') \<Longrightarrow> commits (call m)"
  by (rule commits_call) blast

lemma commits_list_query [committing]: "commits (list_query f)" by (simp add: list_query_def committing)
lemma commits_now [committing]: "commits now" by (simp add: now_def committing)
lemma commits_lift_err [committing]: "commits (lift_err r)" by (simp add: lift_err_def committing split: sum.split)
lemma commits_guard [committing]: "commits (guard_act b err)" by (simp add: guard_act_def committing)
lemma commits_NewID [committing]: "commits NewID_act"
  by (auto simp: NewID_act_def intro!: committing split: option.split)

lemmas store_writes = store_step.intros [THEN db_store_step]
lemmas command_writes = command_step.intros [THEN db_command_step]
lemmas auth_writes = auth_step.intros [THEN db_auth_step]

text \<open>So running an action keeps the constraints of the whole store.\<close>

lemma commits_ok:
  assumes "commits m" "calm e"
  shows "store_ok (w_db w) \<Longrightarrow> store_ok (w_db (snd (m e w)))"
    and "commands_ok (w_db w) \<Longrightarrow> commands_ok (w_db (snd (m e w)))"
proof -
  from assms have "db_step\<^sup>*\<^sup>* (w_db w) (w_db (snd (m e w)))" by (simp add: commits_def)
  then have "(store_ok (w_db w) \<longrightarrow> store_ok (w_db (snd (m e w)))) \<and> (commands_ok (w_db w) \<longrightarrow> commands_ok (w_db (snd (m e w))))"
    by (induction rule: rtranclp_induct) (auto dest: db_step_ok)
  then show "store_ok (w_db w) \<Longrightarrow> store_ok (w_db (snd (m e w)))" "commands_ok (w_db w) \<Longrightarrow> commands_ok (w_db (snd (m e w)))"
    by blast+
qed


subsection \<open>The versions of drafts\<close>

text \<open>
  What one committed write may do to the drafts: keep them, change some of them and raise
  their versions, or add the draft of a cluster that had none.
\<close>

definition drafts_change :: "Draft list \<Rightarrow> Draft list \<Rightarrow> bool" where
  "drafts_change rs rs' \<longleftrightarrow>
     (\<exists>f new. rs' = map f rs @ new \<and> (\<forall>r \<in> set rs. draft_ClusterID (f r) = draft_ClusterID r \<and>
        (f r = r \<or> draft_Version (f r) = draft_Version r + 1)) \<and>
        (\<forall>x \<in> set new. draft_ClusterID x \<notin> draft_ClusterID ` set rs))"

lemma drafts_change_refl [simp]: "drafts_change rs rs"
  unfolding drafts_change_def by (intro exI [of _ id] exI [of _ "[]"]) simp

lemma drafts_change_update:
  assumes "\<And>r. draft_ClusterID (f r) = draft_ClusterID r \<and> draft_Version (f r) = draft_Version r + 1"
  shows "drafts_change rs (update_where P f rs)"
  unfolding drafts_change_def update_where_def
  by (intro exI [of _ "\<lambda>r. if P r then f r else r"] exI [of _ "[]"]) (simp add: assms)

lemma drafts_change_insert: "draft_ClusterID x \<notin> draft_ClusterID ` set rs \<Longrightarrow> drafts_change rs (rs @ [x])"
  unfolding drafts_change_def by (intro exI [of _ id] exI [of _ "[x]"]) simp

lemma audit_drafts: "audit e d = Inr d' \<Longrightarrow> db_drafts d' = db_drafts d"
  by (auto simp: audit_def split: if_splits)

lemma audit_all_drafts: "audit_all at ids ps d = Inr d' \<Longrightarrow> db_drafts d' = db_drafts d"
  by (induction at ids ps d rule: audit_all.induct) (auto simp: bind_err_Inr dest: audit_drafts)

lemma insert_tasks_drafts: "insert_tasks i ts d = Inr d' \<Longrightarrow> db_drafts d' = db_drafts d"
  by (induction i ts d rule: insert_tasks.induct) (auto simp: Let_def)

lemma store_step_drafts: "store_step d d' \<Longrightarrow> drafts_change (db_drafts d) (db_drafts d')"
proof (induction rule: store_step.induct)
  case (delete_node i v at e d d')
  then show ?case by (auto simp: SoftDeleteNode_def Let_def drop_override_def dest!: audit_drafts split: if_splits
        intro!: drafts_change_update)
next
  case (import_draft x v e d d')
  then show ?case by (auto simp: ImportDraft_def Let_def dest!: audit_drafts split: if_splits
        intro!: drafts_change_update drafts_change_insert)
next
  case (update_draft x v e d d')
  then show ?case by (auto simp: UpdateConfigurationDraft_def Let_def dest!: audit_drafts intro!: drafts_change_update)
next
  case (publish rv v e d rv' d')
  then show ?case by (auto simp: PublishRevision_def Let_def bind_err_Inr dest!: audit_drafts intro!: drafts_change_update)
qed (auto simp: method_defs SetRevisionArchived_def DeleteUnusedRevision_def Let_def bind_err_Inr dest!: audit_drafts insert_tasks_drafts audit_all_drafts
      split: if_splits option.splits list.splits)

lemma db_step_drafts:
  assumes "db_step d d'"
  shows "drafts_change (db_drafts d) (db_drafts d')"
  using assms
proof (cases rule: db_step_cases)
  case commands
  have "db_drafts (rest x) = db_drafts x" for x by (simp add: rest_def)
  with commands(2) have "db_drafts d' = db_drafts d" unfolding framed_def by metis
  then show ?thesis by simp
next
  case accounts
  have "db_drafts (others x) = db_drafts x" for x by (simp add: others_def)
  with accounts(2) have "db_drafts d' = db_drafts d" unfolding account_frame_def by metis
  then show ?thesis by simp
qed (simp_all add: store_step_drafts)

lemma drafts_change_history:
  assumes "drafts_change rs rs'" "r \<in> set rs" "primary_key draft_ClusterID rs"
    "r' \<in> set rs'" "draft_ClusterID r' = draft_ClusterID r"
  shows "r' = r \<or> draft_Version r < draft_Version r'"
proof -
  from assms(1) obtain f new where f: "rs' = map f rs @ new"
    "\<forall>r \<in> set rs. draft_ClusterID (f r) = draft_ClusterID r \<and> (f r = r \<or> draft_Version (f r) = draft_Version r + 1)"
    "\<forall>x \<in> set new. draft_ClusterID x \<notin> draft_ClusterID ` set rs"
    unfolding drafts_change_def by blast
  with assms(2,4,5) obtain r0 where r0: "r0 \<in> set rs" "r' = f r0" by auto
  with f(2) assms(5) have "draft_ClusterID r0 = draft_ClusterID r" by auto
  with unique_index_inj [OF assms(3) r0(1) assms(2)] have "r0 = r" by simp
  with f(2) r0 assms(2) show ?thesis by auto
qed

lemma drafts_change_keeps: "drafts_change rs rs' \<Longrightarrow> draft_ClusterID ` set rs \<subseteq> draft_ClusterID ` set rs'"
proof -
  assume "drafts_change rs rs'"
  then obtain f new where f: "rs' = map f rs @ new" "\<forall>r \<in> set rs. draft_ClusterID (f r) = draft_ClusterID r"
    unfolding drafts_change_def by blast
  then have "draft_ClusterID r \<in> draft_ClusterID ` set rs'" if "r \<in> set rs" for r
    using that by (intro image_eqI [of _ _ "f r"]) simp_all
  then show ?thesis by blast
qed

text \<open>Between two reads, a draft is unchanged or has a higher version.\<close>

lemma draft_history:
  assumes "db_step\<^sup>*\<^sup>* d d'" "store_ok d" "r \<in> set (db_drafts d)" "r' \<in> set (db_drafts d')" "draft_ClusterID r' = draft_ClusterID r"
  shows "r' = r \<or> draft_Version r < draft_Version r'"
proof -
  have "store_ok d' \<and> draft_ClusterID r \<in> draft_ClusterID ` set (db_drafts d') \<and>
    (\<forall>r' \<in> set (db_drafts d'). draft_ClusterID r' = draft_ClusterID r \<longrightarrow> r' = r \<or> draft_Version r < draft_Version r')"
    using assms(1)
  proof (induction rule: rtranclp_induct)
    case base
    from store_ok_tables(3) [OF assms(2)] have "primary_key draft_ClusterID (db_drafts d)" by (simp add: draft_indexes_def)
    with assms(2,3) show ?case by (auto dest: unique_index_inj)
  next
    case (step y z)
    from step.IH store_ok_tables have key: "primary_key draft_ClusterID (db_drafts y)" by (auto simp: draft_indexes_def)
    from step.IH obtain q where q: "q \<in> set (db_drafts y)" "draft_ClusterID q = draft_ClusterID r"
      "q = r \<or> draft_Version r < draft_Version q" by auto
    note change = db_step_drafts [OF step.hyps(2)]
    have "r' = r \<or> draft_Version r < draft_Version r'" if "r' \<in> set (db_drafts z)" "draft_ClusterID r' = draft_ClusterID r" for r'
      using drafts_change_history [OF change q(1) key that(1)] that(2) q(2,3) by auto
    moreover have "draft_ClusterID r \<in> draft_ClusterID ` set (db_drafts z)"
      using step.IH drafts_change_keeps [OF change] by blast
    moreover have "store_ok z" using step.IH step.hyps(2) db_step_ok(1) by blast
    ultimately show ?case by blast
  qed
  with assms(4,5) show ?thesis by blast
qed

end
