(* ===== verification/Operations.thy ===== *)
theory Operations
  imports Inventory Commits
begin

text \<open>
  Operational commands on nodes: the service that accepts them
  (\<open>internal/operations/service.go\<close>), the executor that runs them in the background
  (\<open>internal/operations/executor.go\<close>), and DHCP resets, which run within the request
  (\<open>internal/inventory/dhcp_operations.go\<close>).
\<close>

subsection \<open>Accepting a command (\<open>operations/service.go\<close>)\<close>

definition ClearDNSCacheConfirmation :: string where "ClearDNSCacheConfirmation = ''CLEAR_DNS_CACHE''"
definition ClearQueryLogConfirmation :: string where "ClearQueryLogConfirmation = ''CLEAR_QUERY_LOG''"
definition ResetStatisticsConfirmation :: string where "ResetStatisticsConfirmation = ''RESET_STATISTICS''"

definition commandAuditPrefix :: "Command \<Rightarrow> string" where
  "commandAuditPrefix command =
    (if command = TestUpstreamDNS then ''dns.test_upstream''
     else if command = TestHostFiltering then ''filtering.test_host''
     else if command = ClearQueryLog then ''querylog.clear''
     else if command = ResetStatistics then ''statistics.reset''
     else ''dns.cache_clear'')"

definition supportedCommand :: "Command \<Rightarrow> bool" where
  "supportedCommand command \<longleftrightarrow> command \<in> {TestUpstreamDNS, TestHostFiltering, ClearDNSCache, ClearQueryLog, ResetStatistics}"

text \<open>Later keys of \<open>extra\<close> replace earlier ones.\<close>

definition operationAudit :: "Actor \<Rightarrow> string \<Rightarrow> Operation \<Rightarrow> json gomap \<Rightarrow> time \<Rightarrow> AuditEvent action" where
  "operationAudit actor action operation extra at =
     bind NewID_act (\<lambda>i. ret
       \<lparr>audit_ID = i, audit_ActorType = ''user'', audit_ActorUserID = Some (actor_UserID actor), audit_Action = action,
        audit_ResourceType = ''operational_command'', audit_ResourceID = Some (op_ID operation), audit_RequestID = actor_RequestID actor,
        audit_Metadata = AList.updates (map fst extra) (map snd extra) [(''clusterId'', JString (op_ClusterID operation)),
          (''command'', JString (op_Command operation)), (''operationId'', JString (op_ID operation))],
        audit_CreatedAt = at\<rparr>)"

definition required_feature :: "Command \<Rightarrow> Input \<Rightarrow> string" where
  "required_feature command input =
    (if command = ClearDNSCache then ''cache_clear''
     else if command = TestHostFiltering then
       (case input of InputHostFilter host \<Rightarrow>
          if hi_Client host \<noteq> [] \<or> hi_QueryType host \<noteq> [] then ''test_host_filtering_context'' else ''test_host_filtering''
        | _ \<Rightarrow> ''test_host_filtering'')
     else if command = ClearQueryLog then ''querylog_clear''
     else if command = ResetStatistics then ''stats_reset''
     else ''test_upstream_dns'')"

definition exclusion_code :: "CapabilityProfile list \<Rightarrow> string \<Rightarrow> Node \<Rightarrow> string" where
  "exclusion_code profiles feature node =
    (if node_MaintenanceMode node then ''NODE_IN_MAINTENANCE''
     else case map_of (rev (map (\<lambda>p. (cap_NodeID p, p)) profiles)) (node_ID node) of
       None \<Rightarrow> kind_string ErrorCapability
     | Some profile \<Rightarrow>
         if cap_Compatibility profile \<noteq> compatibility_string CompatibilitySupported \<or> cap_ProductVersion profile \<noteq> node_Version node \<or>
            \<not> feature_of profile feature
         then kind_string ErrorCapability else [])"

text \<open>The loop over the nodes of the cluster: an error, or whether the target was found, the selected and the excluded nodes.\<close>

fun select_nodes :: "Target \<Rightarrow> CapabilityProfile list \<Rightarrow> string \<Rightarrow> Node list \<Rightarrow> go_error + bool \<times> Node list \<times> ExcludedNode list" where
  "select_nodes target profiles feature [] = Inr (False, [], [])"
| "select_nodes target profiles feature (node # nodes) =
    (if tgt_Scope target = ''node'' \<and> node_ID node \<noteq> tgt_NodeID target then select_nodes target profiles feature nodes
     else if \<not> node_Enabled node then
       (if tgt_Scope target = ''node'' then Inl (NewError ErrorConflict ''operational commands require an enabled node'')
        else bind_err (select_nodes target profiles feature nodes) (\<lambda>(_, selected, excluded). Inr (True, selected, excluded)))
     else (let code = exclusion_code profiles feature node in
       if code \<noteq> [] then
         (if tgt_Scope target = ''node'' then
            Inl (if code = ''NODE_IN_MAINTENANCE''
                 then NewError ErrorConflict ''operational commands are unavailable while the node is in maintenance''
                 else NewError ErrorCapability ''the selected node does not support this operational command'')
          else bind_err (select_nodes target profiles feature nodes) (\<lambda>(_, selected, excluded).
            Inr (True, selected, \<lparr>ex_NodeID = node_ID node, ex_NodeName = node_Name node, ex_ErrorCode = code\<rparr> # excluded)))
       else bind_err (select_nodes target profiles feature nodes) (\<lambda>(_, selected, excluded). Inr (True, node # selected, excluded))))"

fun new_results :: "nat \<Rightarrow> Node list \<Rightarrow> NodeResult list action" where
  "new_results position [] = ret []"
| "new_results position (node # nodes) =
     bind NewID_act (\<lambda>resultID.
     bind (new_results (Suc position) nodes) (\<lambda>results.
     ret (\<lparr>nr_ID = resultID, nr_NodeID = node_ID node, nr_NodeName = node_Name node, nr_Position = int position + 1,
           nr_Status = ResPending, nr_ErrorCode = [], nr_ResolverResults = [], nr_HostFilterResult = None, nr_ObservationStatus = [],
           nr_ObservationSnapshotID = [], nr_ObservationErrorCode = [], nr_StartedAt = None, nr_CompletedAt = None\<rparr> # results)))"

definition j_Target :: "Target \<Rightarrow> json" where
  "j_Target t = JObject ((''scope'', JString (tgt_Scope t)) # j_omitempty ''nodeId'' (tgt_NodeID t))"

definition input_fingerprint :: "Command \<Rightarrow> Target \<Rightarrow> Input \<Rightarrow> string" where
  "input_fingerprint command target input =
     sha256_hex (json_encode (JObject [(''command'', JString command), (''target'', j_Target target), (''input'', j_Input input)]))"

definition EncryptPayload :: "string \<Rightarrow> string \<Rightarrow> EncryptedPayload action" where
  "EncryptPayload scope text = bind (tick (\<lambda>e t. encrypt_payload e t scope text)) (\<lambda>r.
     case r of None \<Rightarrow> fail (PlainError ''encrypt payload'') | Some p \<Rightarrow> ret p)"

text \<open>What happens with the answer of the store: a key that was used before must have been used for the same request.\<close>

definition accepted :: "Operation \<Rightarrow> Operation \<times> bool \<Rightarrow> go_error + Operation" where
  "accepted operation = (\<lambda>(stored, created).
     if created then Inr stored
     else if op_ClusterID stored \<noteq> op_ClusterID operation \<or> op_Command stored \<noteq> op_Command operation \<or>
             op_Target stored \<noteq> op_Target operation \<or> op_InputFingerprint stored \<noteq> op_InputFingerprint operation
     then Inl (NewError ErrorConflict ''the idempotency key is already used for another operation'')
     else Inr (stored\<lparr>op_Duplicate := True\<rparr>))"

definition start_selected :: "Actor \<Rightarrow> Cluster \<Rightarrow> Target \<Rightarrow> Command \<Rightarrow> Input \<Rightarrow> string \<Rightarrow> Node list \<Rightarrow> ExcludedNode list \<Rightarrow> Operation action" where
  "start_selected actor cluster target command input idempotencyKey selected excluded =
     bind NewID_act (\<lambda>operationID.
     bind (EncryptPayload operationID (json_encode (j_Input input))) (\<lambda>encrypted.
     bind now (\<lambda>at.
     bind (new_results 0 selected) (\<lambda>results.
     let operation = \<lparr>op_ID = operationID, op_ClusterID = cluster_ID cluster, op_ClusterName = cluster_Name cluster, op_Command = command,
           op_Target = target, op_Status = CmdQueued, op_RequestID = actor_RequestID actor, op_IdempotencyKey = idempotencyKey,
           op_RequestedBy = actor_UserID actor, op_InputFingerprint = input_fingerprint command target input, op_Payload = encrypted,
           op_AuditReference = [], op_RequestedAt = at, op_StartedAt = None, op_CompletedAt = None, op_NodeResults = results,
           op_ExcludedNodes = excluded, op_Duplicate = False\<rparr> in
     bind (operationAudit actor (commandAuditPrefix command @ ''_requested'') operation
       [(''status'', JString ''queued''), (''targetScope'', JString (tgt_Scope target)), (''targetCount'', JInt (int (length selected))),
        (''excludedCount'', JInt (int (length excluded))), (''inputFingerprint'', JString (op_InputFingerprint operation))] at) (\<lambda>event.
     bind (call (CreateOperationalCommand operation event)) (\<lambda>r.
     lift_err (accepted operation r)))))))"

definition Operations_start :: "Actor \<Rightarrow> string \<Rightarrow> Target \<Rightarrow> Command \<Rightarrow> Input \<Rightarrow> string \<Rightarrow> Operation action" where
  "Operations_start actor clusterID target command input idempotencyKey =
    (if \<not> ValidID clusterID then fail (Validation ''clusterId'' ''must be a valid UUID'')
     else if \<not> ValidID idempotencyKey then fail (Validation ''idempotencyKey'' ''must be a valid UUID'')
     else if tgt_Scope target \<noteq> ''node'' \<and> tgt_Scope target \<noteq> ''all_compatible_enabled_nodes''
     then fail (Validation ''target.scope'' ''must be node or all_compatible_enabled_nodes'')
     else if tgt_Scope target = ''node'' \<and> \<not> ValidID (tgt_NodeID target)
     then fail (Validation ''target.nodeId'' ''must be a valid UUID for node scope'')
     else if tgt_Scope target \<noteq> ''node'' \<and> tgt_NodeID target \<noteq> []
     then fail (Validation ''target.nodeId'' ''must be omitted for fleet scope'')
     else bind (query (ClusterByID clusterID)) (\<lambda>cluster.
       bind (list_query (ListNodes clusterID)) (\<lambda>nodes.
       bind (list_query (CapabilityProfiles clusterID)) (\<lambda>profiles.
       bind (lift_err (select_nodes target profiles (required_feature command input) nodes)) (\<lambda>(found, selected, excluded).
       if \<not> (tgt_Scope target \<noteq> ''node'' \<or> found) then fail (NewError ErrorNotFound ''node was not found in the cluster'')
       else if selected = [] then fail (NewError ErrorCapability ''no compatible enabled nodes are available for this command'')
       else start_selected actor (cluster\<lparr>cluster_ID := clusterID\<rparr>) target command input idempotencyKey selected excluded)))))"

definition StartUpstreamTest :: "Actor \<Rightarrow> string \<Rightarrow> Target \<Rightarrow> UpstreamInput \<Rightarrow> string \<Rightarrow> Operation action" where
  "StartUpstreamTest actor clusterID target input key =
     bind (tick map_order) (\<lambda>order.
     case validateUpstreamInput order input of
       Some err \<Rightarrow> fail err
     | None \<Rightarrow> Operations_start actor clusterID target TestUpstreamDNS (InputUpstream input) key)"

definition StartHostFilterTest :: "Actor \<Rightarrow> string \<Rightarrow> Target \<Rightarrow> HostFilterInput \<Rightarrow> string \<Rightarrow> Operation action" where
  "StartHostFilterTest actor clusterID target input key =
    (case validateHostFilterInput input of
       Inl err \<Rightarrow> fail err
     | Inr input \<Rightarrow> Operations_start actor clusterID target TestHostFiltering (InputHostFilter input) key)"

definition confirmation_error :: go_error where
  "confirmation_error = Validation ''confirmation'' ''does not match the required destructive action''"

definition StartCacheClear :: "Actor \<Rightarrow> string \<Rightarrow> Target \<Rightarrow> string \<Rightarrow> string \<Rightarrow> Operation action" where
  "StartCacheClear actor clusterID target confirmation key =
    (if confirmation \<noteq> ClearDNSCacheConfirmation then fail confirmation_error
     else Operations_start actor clusterID target ClearDNSCache NoInput key)"

definition StartQueryLogClear :: "Actor \<Rightarrow> string \<Rightarrow> Target \<Rightarrow> string \<Rightarrow> string \<Rightarrow> Operation action" where
  "StartQueryLogClear actor clusterID target confirmation key =
    (if confirmation \<noteq> ClearQueryLogConfirmation then fail confirmation_error
     else Operations_start actor clusterID target ClearQueryLog NoInput key)"

definition StartStatisticsReset :: "Actor \<Rightarrow> string \<Rightarrow> Target \<Rightarrow> string \<Rightarrow> string \<Rightarrow> Operation action" where
  "StartStatisticsReset actor clusterID target confirmation key =
    (if confirmation \<noteq> ResetStatisticsConfirmation then fail confirmation_error
     else Operations_start actor clusterID target ResetStatistics NoInput key)"

definition Operations_Operation :: "string \<Rightarrow> Operation action" where
  "Operations_Operation i =
    (if \<not> ValidID i then fail (Validation ''operationId'' ''must be a valid UUID'')
     else bind (query (OperationalCommandByID i)) (\<lambda>operation.
       if \<not> supportedCommand (op_Command operation) then fail (NewError ErrorNotFound ''operational command was not found'')
       else ret operation))"

definition Operations_List :: "string \<Rightarrow> Command \<Rightarrow> int \<Rightarrow> Operation list action" where
  "Operations_List clusterID command limit =
    (if \<not> ValidID clusterID then fail (Validation ''clusterId'' ''must be a valid UUID'')
     else if command \<noteq> [] \<and> \<not> supportedCommand command then fail (Validation ''command'' ''is not a supported operational command'')
     else if limit < 1 \<or> limit > 20 then fail (Validation ''limit'' ''must be between 1 and 20'')
     else list_query (ListOperationalCommands clusterID command (nat limit)))"


subsection \<open>Running commands (\<open>operations/executor.go\<close>)\<close>

definition operationErrorCode :: "go_error \<Rightarrow> string" where
  "operationErrorCode e = (case e of DomainError k f m \<Rightarrow> kind_string k | PlainError _ \<Rightarrow> kind_string ErrorInternal)"

definition requester :: "Operation \<Rightarrow> Actor" where
  "requester operation = \<lparr>actor_UserID = op_RequestedBy operation, actor_RequestID = op_RequestID operation\<rparr>"

definition UpdateResult :: "string \<Rightarrow> NodeResult \<Rightarrow> unit action" where
  "UpdateResult commandID result = exec_traced (EResult commandID result) (UpdateOperationalCommandNode commandID result)"

definition FinishCommand :: "Operation \<Rightarrow> AuditEvent \<Rightarrow> unit action" where
  "FinishCommand operation event = exec_traced (EFinishCommand operation) (FinishOperationalCommand operation event)"

text \<open>
  A loop over node results that updates those of which \<open>P\<close> holds, and returns all of them as
  they are after the loop; an error ends it.
\<close>

fun update_results :: "string \<Rightarrow> (NodeResult \<Rightarrow> bool) \<Rightarrow> (NodeResult \<Rightarrow> NodeResult) \<Rightarrow> NodeResult list \<Rightarrow> NodeResult list action" where
  "update_results commandID P f [] = ret []"
| "update_results commandID P f (result # results) =
    (if \<not> P result then bind (update_results commandID P f results) (\<lambda>done. ret (result # done))
     else bind (UpdateResult commandID (f result)) (\<lambda>_.
       bind (update_results commandID P f results) (\<lambda>done. ret (f result # done))))"

definition failed_result :: "string \<Rightarrow> time \<Rightarrow> NodeResult \<Rightarrow> NodeResult" where
  "failed_result code at result = result\<lparr>nr_Status := ResFailed, nr_ErrorCode := code, nr_CompletedAt := Some at\<rparr>"

definition recover_command :: "Operation \<Rightarrow> unit action" where
  "recover_command operation =
     bind now (\<lambda>at.
     bind (update_results (op_ID operation) (\<lambda>r. nr_Status r \<notin> {ResSucceeded, ResFailed, ResSkipped})
       (failed_result ''OPERATION_INTERRUPTED'' at) (op_NodeResults operation)) (\<lambda>results.
     let operation = operation\<lparr>op_NodeResults := results, op_Status := CmdInterrupted, op_CompletedAt := Some at\<rparr> in
     bind (operationAudit (requester operation) (commandAuditPrefix (op_Command operation) @ ''_failed'') operation
       [(''status'', JString ''interrupted''), (''errorCode'', JString ''CONTROLLER_RESTARTED''), (''automaticReplay'', JBool False)] at) (\<lambda>event.
     FinishCommand (operation\<lparr>op_AuditReference := audit_ID event\<rparr>) event)))"

fun recover_commands :: "Operation list \<Rightarrow> unit action" where
  "recover_commands [] = ret ()"
| "recover_commands (operation # operations) = bind (recover_command operation) (\<lambda>_. recover_commands operations)"

definition Operations_RecoverInterrupted :: "unit action" where
  "Operations_RecoverInterrupted = bind (list_query RunningOperationalCommands) recover_commands"

definition failAll :: "Operation \<Rightarrow> go_error \<Rightarrow> unit action" where
  "failAll operation commandErr =
     bind now (\<lambda>at.
     bind (update_results (op_ID operation) (\<lambda>r. nr_Status r \<notin> {ResSucceeded, ResFailed})
       (failed_result (operationErrorCode commandErr) at) (op_NodeResults operation)) (\<lambda>results.
     let operation = operation\<lparr>op_NodeResults := results, op_Status := CmdFailed, op_CompletedAt := Some at\<rparr> in
     bind (operationAudit (requester operation) (commandAuditPrefix (op_Command operation) @ ''_failed'') operation
       [(''status'', JString ''failed''), (''errorCode'', JString (operationErrorCode commandErr))] at) (\<lambda>event.
     FinishCommand (operation\<lparr>op_AuditReference := audit_ID event\<rparr>) event)))"

text \<open>The call of the AdGuard Home client, with the result fields it sets and its error.\<close>

definition run_node :: "Operation \<Rightarrow> Input \<Rightarrow> NodeResult \<Rightarrow> NodeProbeRequest \<Rightarrow> (NodeResult \<times> go_error option) action" where
  "run_node operation input result request =
    (if op_Command operation = TestUpstreamDNS then
       bind (tick (\<lambda>e t. test_upstream_dns e t request (upstream_of input))) (\<lambda>(resolvers, err).
       ret (result\<lparr>nr_ResolverResults := resolvers\<rparr>, err))
     else if op_Command operation = TestHostFiltering then
       bind (tick (\<lambda>e t. test_host_filtering e t request (host_filter_of input))) (\<lambda>r.
       case r of Inl err \<Rightarrow> ret (result, Some err) | Inr found \<Rightarrow> ret (result\<lparr>nr_HostFilterResult := Some found\<rparr>, None))
     else if op_Command operation = ClearDNSCache then bind (tick (\<lambda>e t. clear_dns_cache e t request)) (\<lambda>err. ret (result, err))
     else if op_Command operation = ClearQueryLog then bind (tick (\<lambda>e t. clear_query_log e t request)) (\<lambda>err. ret (result, err))
     else if op_Command operation = ResetStatistics then bind (tick (\<lambda>e t. reset_statistics e t request)) (\<lambda>err. ret (result, err))
     else ret (result, Some (NewError ErrorCapability ''the operational command is not supported'')))"

text \<open>
  The node's record and credentials, then the call; the trace has the call when it is made.
\<close>

definition command_node :: "Operation \<Rightarrow> Input \<Rightarrow> NodeResult \<Rightarrow> (NodeResult \<times> go_error option) action" where
  "command_node operation input result =
     bind (attempt (query (NodeRecordByID (nr_NodeID result)))) (\<lambda>r.
     case r of
       Inl err \<Rightarrow> ret (result, Some err)
     | Inr record \<Rightarrow>
       bind (attempt (Decrypt (nr_NodeID result) (secret_Credentials (rec_Secrets record)))) (\<lambda>c.
       case c of
         Inl err \<Rightarrow> ret (result, Some err)
       | Inr credentials \<Rightarrow>
         bind (emit (ERun (op_ID operation) (nr_ID result) (op_Command operation) (probe_request record credentials))) (\<lambda>_.
         run_node operation input result (probe_request record credentials))))"

definition is_destructive :: "Command \<Rightarrow> bool" where
  "is_destructive command \<longleftrightarrow> command = ClearDNSCache \<or> command = ClearQueryLog \<or> command = ResetStatistics"

text \<open>One round of the loop: mark the result running, run, observe after a destructive command, store the outcome.\<close>

definition run_result :: "Operation \<Rightarrow> Input \<Rightarrow> NodeResult \<Rightarrow> NodeResult action" where
  "run_result operation input result =
     bind now (\<lambda>started.
     let result = result\<lparr>nr_Status := ResRunning, nr_StartedAt := Some started\<rparr> in
     bind (UpdateResult (op_ID operation) result) (\<lambda>_.
     bind (command_node operation input result) (\<lambda>(result, commandErr).
     bind now (\<lambda>completed.
     let result = result\<lparr>nr_CompletedAt := Some completed\<rparr> in
     bind (case commandErr of
         Some err \<Rightarrow> ret (result\<lparr>nr_Status := ResFailed, nr_ErrorCode := operationErrorCode err\<rparr>)
       | None \<Rightarrow>
         (let result = result\<lparr>nr_Status := ResSucceeded\<rparr> in
          if \<not> is_destructive (op_Command operation) then ret result
          else bind (attempt (Observe (nr_NodeID result))) (\<lambda>r.
            ret (case r of
              Inl err \<Rightarrow> result\<lparr>nr_ObservationStatus := ''failed'', nr_ObservationErrorCode := operationErrorCode err\<rparr>
            | Inr snapshot \<Rightarrow> result\<lparr>nr_ObservationStatus := ''succeeded'', nr_ObservationSnapshotID := snap_ID snapshot\<rparr>)))) (\<lambda>result.
     bind (UpdateResult (op_ID operation) result) (\<lambda>_. ret result))))))"

text \<open>
  The loop over the results. Only those it ran are returned, which is what the counts are taken
  over; a context that is done ends it with an error.
\<close>

fun run_results :: "Operation \<Rightarrow> Input \<Rightarrow> NodeResult list \<Rightarrow> NodeResult list action" where
  "run_results operation input [] = ret []"
| "run_results operation input (result # results) =
     bind (tick ctx_done) (\<lambda>cancelled.
     if cancelled then fail (PlainError ''context canceled'')
     else if nr_Status result \<noteq> ResPending then run_results operation input results
     else bind (run_result operation input result) (\<lambda>done.
       bind (run_results operation input results) (\<lambda>more_done. ret (done # more_done))))"

definition count_status :: "ResultStatus \<Rightarrow> NodeResult list \<Rightarrow> nat" where
  "count_status s results = length (filter (\<lambda>r. nr_Status r = s) results)"

definition resolver_count :: "bool \<Rightarrow> NodeResult list \<Rightarrow> nat" where
  "resolver_count ok results =
     length (filter (\<lambda>x. (rr_Status x = ''succeeded'') = ok)
       (concat (map nr_ResolverResults (filter (\<lambda>r. nr_Status r = ResSucceeded) results))))"

definition final_status :: "NodeResult list \<Rightarrow> CommandStatus" where
  "final_status done =
    (if count_status ResFailed done > 0 \<and> count_status ResSucceeded done > 0 then CmdPartial
     else if count_status ResFailed done > 0 then CmdFailed
     else CmdSucceeded)"

definition command_status_string :: "CommandStatus \<Rightarrow> string" where
  "command_status_string s = (case s of CmdQueued \<Rightarrow> ''queued'' | CmdRunning \<Rightarrow> ''running'' | CmdSucceeded \<Rightarrow> ''succeeded''
     | CmdPartial \<Rightarrow> ''partial_success'' | CmdFailed \<Rightarrow> ''failed'' | CmdInterrupted \<Rightarrow> ''interrupted'')"

definition finish_run :: "Operation \<Rightarrow> NodeResult list \<Rightarrow> unit action" where
  "finish_run operation done =
     bind now (\<lambda>completed.
     let operation = operation\<lparr>op_Status := final_status done, op_CompletedAt := Some completed\<rparr>;
         actionStatus = (if op_Status operation = CmdPartial then ''partially_succeeded'' else command_status_string (op_Status operation)) in
     bind (operationAudit (requester operation) (commandAuditPrefix (op_Command operation) @ ''_'' @ actionStatus) operation
       [(''status'', JString (command_status_string (op_Status operation))), (''succeededCount'', JInt (int (count_status ResSucceeded done))),
        (''failedCount'', JInt (int (count_status ResFailed done))), (''resolverSucceededCount'', JInt (int (resolver_count True done))),
        (''resolverFailedCount'', JInt (int (resolver_count False done)))] completed) (\<lambda>event.
     FinishCommand (operation\<lparr>op_AuditReference := audit_ID event\<rparr>) event))"

definition decode_input :: "Command \<Rightarrow> string \<Rightarrow> Input option" where
  "decode_input command payload =
    (if command = TestUpstreamDNS then map_option InputUpstream (decode_UpstreamInput payload)
     else if command = TestHostFiltering then map_option InputHostFilter (decode_HostFilterInput payload)
     else Some NoInput)"

definition run_command :: "Operation \<Rightarrow> unit action" where
  "run_command operation =
     bind (capability (\<lambda>e. decrypt_payload e (op_ID operation) (op_Payload operation))) (\<lambda>payload.
     case payload of
       None \<Rightarrow> failAll operation (NewError ErrorInternal ''the operational command input could not be decrypted'')
     | Some text \<Rightarrow>
       (case decode_input (op_Command operation) text of
          None \<Rightarrow> failAll operation (NewError ErrorInternal ''the operational command input could not be decoded'')
        | Some input \<Rightarrow>
          bind (run_results operation input (sort_key nr_Position (op_NodeResults operation))) (finish_run operation)))"

definition Operations_RunOnce :: "bool action" where
  "Operations_RunOnce =
     bind now (\<lambda>at.
     bind (call (ClaimOperationalCommand at)) (\<lambda>i.
     if i = [] then ret False
     else bind (query (OperationalCommandByID i)) (\<lambda>operation.
       bind (run_command operation) (\<lambda>_. ret True))))"


subsection \<open>DHCP resets (\<open>inventory/dhcp_operations.go\<close>)\<close>

definition DHCPResetLeasesConfirmation :: string where "DHCPResetLeasesConfirmation = ''RESET_LEASES''"
definition DHCPResetConfigurationConfirmation :: string where "DHCPResetConfigurationConfirmation = ''RESET_DHCP_CONFIGURATION''"

definition dhcpOperationContract :: "Command \<Rightarrow> go_error + string \<times> string" where
  "dhcpOperationContract command =
    (if command = DHCPOperationResetLeases then Inr (DHCPResetLeasesConfirmation, ''reset_leases'')
     else if command = DHCPOperationResetConfiguration then Inr (DHCPResetConfigurationConfirmation, ''reset_configuration'')
     else Inl (Validation ''command'' ''is not a supported DHCP operation''))"

definition dhcpOperationAudit :: "Actor \<Rightarrow> string \<Rightarrow> DHCPOperation \<Rightarrow> json gomap \<Rightarrow> time \<Rightarrow> AuditEvent action" where
  "dhcpOperationAudit actor action operation extra at =
     bind NewID_act (\<lambda>i. ret
       \<lparr>audit_ID = i, audit_ActorType = ''user'', audit_ActorUserID = Some (actor_UserID actor), audit_Action = action,
        audit_ResourceType = ''operational_command'', audit_ResourceID = Some (dop_ID operation), audit_RequestID = actor_RequestID actor,
        audit_Metadata = AList.updates (map fst extra) (map snd extra) [(''clusterId'', JString (dop_ClusterID operation)),
          (''nodeId'', JString (dr_NodeID (hd (dop_NodeResults operation)))), (''command'', JString (dop_Command operation)),
          (''operationId'', JString (dop_ID operation))],
        audit_CreatedAt = at\<rparr>)"

definition FinishDhcp :: "DHCPOperation \<Rightarrow> AuditEvent \<Rightarrow> unit action" where
  "FinishDhcp operation event = exec_traced (EFinishDhcp operation) (FinishDHCPOperation operation event)"

text \<open>The method returns the finished operation and the error; the caller gets the error.\<close>

definition failDHCPOperation :: "Actor \<Rightarrow> DHCPOperation \<Rightarrow> string \<Rightarrow> go_error \<Rightarrow> DHCPOperation action" where
  "failDHCPOperation actor operation actionName commandErr =
     bind now (\<lambda>completed.
     let operation = operation\<lparr>dop_Status := CmdFailed, dop_CompletedAt := Some completed,
           dop_NodeResults := map (\<lambda>n. n\<lparr>dr_Status := ResFailed, dr_ErrorCode := errorCode commandErr, dr_CompletedAt := Some completed\<rparr>)
             (dop_NodeResults operation)\<rparr> in
     bind (dhcpOperationAudit actor (''dhcp.'' @ actionName @ ''_failed'') operation
       [(''status'', JString ''failed''), (''errorCode'', JString (errorCode commandErr)), (''observationStatus'', JString ''not_run'')] completed)
       (\<lambda>terminal.
     bind (FinishDhcp (operation\<lparr>dop_AuditReference := audit_ID terminal\<rparr>) terminal) (\<lambda>_. fail commandErr)))"

definition succeed_dhcp :: "Actor \<Rightarrow> string \<Rightarrow> DHCPOperation \<Rightarrow> string \<Rightarrow> DHCPOperation action" where
  "succeed_dhcp actor nodeID operation actionName =
     bind now (\<lambda>nodeCompleted.
     let operation = operation\<lparr>dop_Status := CmdSucceeded,
           dop_NodeResults := map (\<lambda>n. n\<lparr>dr_Status := ResSucceeded, dr_CompletedAt := Some nodeCompleted\<rparr>) (dop_NodeResults operation)\<rparr> in
     bind (attempt (Observe nodeID)) (\<lambda>r.
     let operation = (case r of
           Inl err \<Rightarrow> operation\<lparr>dop_ObservationStatus := ''failed'', dop_ObservationErrorCode := errorCode err\<rparr>
         | Inr snapshot \<Rightarrow> operation\<lparr>dop_ObservationStatus := ''succeeded'', dop_ObservationSnapshotID := snap_ID snapshot\<rparr>);
         metadata = [(''status'', JString ''succeeded''), (''observationStatus'', JString (dop_ObservationStatus operation))] @
           (if dop_ObservationSnapshotID operation \<noteq> [] then [(''observationSnapshotId'', JString (dop_ObservationSnapshotID operation))] else []) @
           (if dop_ObservationErrorCode operation \<noteq> [] then [(''observationErrorCode'', JString (dop_ObservationErrorCode operation))] else []) in
     bind now (\<lambda>completed.
     let operation = operation\<lparr>dop_CompletedAt := Some completed\<rparr> in
     bind (dhcpOperationAudit actor (''dhcp.'' @ actionName @ ''_succeeded'') operation metadata completed) (\<lambda>terminal.
     let operation = operation\<lparr>dop_AuditReference := audit_ID terminal\<rparr> in
     bind (FinishDhcp operation terminal) (\<lambda>_. ret operation)))))"

text \<open>After the operation has been created: the guards, the credentials, the reset.\<close>

definition execute_dhcp :: "Actor \<Rightarrow> (nat \<Rightarrow> NodeProbeRequest \<Rightarrow> go_error option) \<times> (nat \<Rightarrow> NodeProbeRequest \<Rightarrow> go_error option) \<Rightarrow>
    NodeRecord \<Rightarrow> Cluster \<Rightarrow> Command \<Rightarrow> string \<Rightarrow> DHCPOperation \<Rightarrow> DHCPOperation action" where
  "execute_dhcp actor executor record cluster command actionName operation =
    (let nodeID = node_ID (rec_Node record); refuse = (\<lambda>m. failDHCPOperation actor operation actionName (NewError ErrorConflict m)) in
     if \<not> node_Enabled (rec_Node record) then refuse ''DHCP reset requires an enabled node''
     else if \<not> node_MaintenanceMode (rec_Node record) then refuse ''DHCP reset requires the node to be in maintenance mode''
     else bind (attempt (list_query (ClusterHasActiveDeployment (cluster_ID cluster)))) (\<lambda>r.
       case r of
         Inl err \<Rightarrow> failDHCPOperation actor operation actionName err
       | Inr activeDeployment \<Rightarrow>
         if activeDeployment then refuse ''DHCP reset is blocked while the cluster has an active deployment''
         else if command = DHCPOperationResetConfiguration \<and> cluster_ReconciliationPolicy cluster = ReconciliationEnforce
         then refuse ''DHCP reset requires Manual or Alert reconciliation so the operator can choose restore or adopt''
         else bind (attempt (Decrypt nodeID (secret_Credentials (rec_Secrets record)))) (\<lambda>c.
           case c of
             Inl err \<Rightarrow> failDHCPOperation actor operation actionName err
           | Inr credentials \<Rightarrow>
             bind (emit (EResetDhcp command (probe_request record credentials))) (\<lambda>_.
             bind (tick (\<lambda>e t. (if command = DHCPOperationResetLeases then fst executor else snd executor) t
               (probe_request record credentials))) (\<lambda>result.
             case result of
               Some err \<Rightarrow> failDHCPOperation actor operation actionName err
             | None \<Rightarrow> succeed_dhcp actor nodeID operation actionName)))))"

definition RunDHCPOperation :: "Actor \<Rightarrow> string \<Rightarrow> Command \<Rightarrow> string \<Rightarrow> string \<Rightarrow> DHCPOperation action" where
  "RunDHCPOperation actor nodeID command confirmation idempotencyKey =
    (if \<not> ValidID nodeID then fail (Validation ''nodeId'' ''must be a valid UUID'')
     else if \<not> ValidID idempotencyKey then fail (Validation ''idempotencyKey'' ''must be a valid UUID'')
     else bind (lift_err (dhcpOperationContract command)) (\<lambda>(wantConfirmation, actionName).
     if confirmation \<noteq> wantConfirmation then fail confirmation_error
     else bind (capability reset_dhcp) (\<lambda>c.
     case c of
       None \<Rightarrow> fail (NewError ErrorCapability ''DHCP reset operations are unavailable'')
     | Some executor \<Rightarrow>
       bind (query (NodeRecordByID nodeID)) (\<lambda>record.
       bind (query (ClusterByID (node_ClusterID (rec_Node record)))) (\<lambda>cluster.
       bind NewID_act (\<lambda>operationID.
       bind NewID_act (\<lambda>resultID.
       bind now (\<lambda>at.
       let operation = \<lparr>dop_ID = operationID, dop_ClusterID = cluster_ID cluster, dop_ClusterName = cluster_Name cluster,
             dop_Command = command, dop_Status = CmdRunning, dop_RequestID = actor_RequestID actor,
             dop_IdempotencyKey = idempotencyKey, dop_RequestedBy = actor_UserID actor, dop_ObservationStatus = ''not_run'',
             dop_ObservationSnapshotID = [], dop_ObservationErrorCode = [], dop_AuditReference = [], dop_RequestedAt = at,
             dop_CompletedAt = None,
             dop_NodeResults = [\<lparr>dr_ID = resultID, dr_NodeID = nodeID, dr_NodeName = node_Name (rec_Node record),
               dr_Status = ResRunning, dr_ErrorCode = [], dr_StartedAt = at, dr_CompletedAt = None\<rparr>],
             dop_Duplicate = False\<rparr> in
       bind (dhcpOperationAudit actor (''dhcp.'' @ actionName @ ''_requested'') operation [(''status'', JString ''running'')] at) (\<lambda>requested.
       bind (call (BeginDHCPOperation operation requested)) (\<lambda>(stored, created).
       if \<not> created then
         (case dop_NodeResults stored of
            [node] \<Rightarrow>
              if dop_Command stored \<noteq> command \<or> dr_NodeID node \<noteq> nodeID
              then fail (NewError ErrorConflict ''the idempotency key is already used for another operation'')
              else if dop_Status stored = CmdRunning then fail (NewError ErrorConflict ''the DHCP operation is already running'')
              else ret (stored\<lparr>dop_Duplicate := True\<rparr>)
          | _ \<Rightarrow> fail (NewError ErrorConflict ''the idempotency key is already used for another operation''))
       else bind (emit (EBeginDhcp stored)) (\<lambda>_. execute_dhcp actor executor record cluster command actionName stored)))))))))))"

definition Inventory_ListDHCPOperations :: "string \<Rightarrow> int \<Rightarrow> DHCPOperation list action" where
  "Inventory_ListDHCPOperations nodeID limit =
    (if \<not> ValidID nodeID then fail (Validation ''nodeId'' ''must be a valid UUID'')
     else if limit < 1 \<or> limit > 20 then fail (Validation ''limit'' ''must be between 1 and 20'')
     else bind (query (NodeRecordByID nodeID)) (\<lambda>_. query (ListDHCPOperations nodeID (nat limit))))"

end
