(* ===== verification/Commands_Properties.thy ===== *)
theory Commands_Properties
  imports Commands_Invariant Store_Properties
begin

text \<open>
  What the store promises the services that run operational commands: integrity of the two
  tables, commands that are claimed once and created once per idempotency key, and a listing
  of DHCP operations that fails as soon as a DNS command waits for the same node.
\<close>

subsection \<open>A sample queue\<close>

definition sample_command :: "string \<Rightarrow> CommandStatus \<Rightarrow> CommandRow" where
  "sample_command i s = \<lparr>cmd_ID = i, cmd_ClusterID = ''c'', cmd_Command = ClearDNSCache, cmd_TargetScope = ''node'',
     cmd_TargetNodeID = Some ''n'', cmd_Status = s, cmd_RequestedBy = ''u'', cmd_RequestID = ''q'', cmd_IdempotencyKey = i,
     cmd_InputFingerprint = ''f'', cmd_Payload = Some zero_payload, cmd_ExcludedNodes = [], cmd_ObservationStatus = ''not_run'',
     cmd_ObservationSnapshotID = None, cmd_ObservationErrorCode = [], cmd_AuditReference = None, cmd_RequestedAt = 1,
     cmd_StartedAt = None, cmd_CompletedAt = None\<rparr>"

definition sample_result :: "string \<Rightarrow> string \<Rightarrow> NodeResult" where
  "sample_result i n = \<lparr>nr_ID = i, nr_NodeID = n, nr_NodeName = n, nr_Position = 1, nr_Status = ResPending, nr_ErrorCode = [],
     nr_ResolverResults = [], nr_HostFilterResult = None, nr_ObservationStatus = [], nr_ObservationSnapshotID = [],
     nr_ObservationErrorCode = [], nr_StartedAt = None, nr_CompletedAt = None\<rparr>"

text \<open>A cluster with a node, and two commands that wait for it.\<close>

definition sample_queue :: db where
  "sample_queue = empty_db\<lparr>db_clusters := [sample_cluster None], db_nodes := [sample_db_node ''n'' ''system'' []],
     db_commands := [sample_command ''k'' CmdQueued, sample_command ''l'' CmdQueued],
     db_results := [new_result_row ''k'' (sample_result ''x'' ''n''), new_result_row ''l'' (sample_result ''y'' ''n'')]\<rparr>"

definition sample_operation :: "string \<Rightarrow> string \<Rightarrow> Operation" where
  "sample_operation i key = \<lparr>op_ID = i, op_ClusterID = ''c'', op_ClusterName = ''home'', op_Command = ClearDNSCache,
     op_Target = \<lparr>tgt_Scope = ''node'', tgt_NodeID = ''n''\<rparr>, op_Status = CmdQueued, op_RequestID = ''q'', op_IdempotencyKey = key,
     op_RequestedBy = ''u'', op_InputFingerprint = ''f'', op_Payload = zero_payload, op_AuditReference = [], op_RequestedAt = 2,
     op_StartedAt = None, op_CompletedAt = None, op_NodeResults = [sample_result (i @ ''r'') ''n''], op_ExcludedNodes = [],
     op_Duplicate = False\<rparr>"

lemma sample_queue_ok: "store_ok sample_queue" "commands_ok sample_queue"
  by code_simp+


lemma dhcp_rows_iff: "(r, m) \<in> set (dhcp_rows d) \<longleftrightarrow> r \<in> set (db_commands d) \<and> m \<in> set (db_results d) \<and> res_CommandID m = cmd_ID r"
  by (auto simp: dhcp_rows_def)


subsection \<open>Properties\<close>

text \<open>
  The schema of operational commands is an invariant of the whole store: every state
  reachable from the empty store by committed writes, on commands or on anything else, has
  unique command and idempotency keys, at most one result per command and node, only rows that
  satisfy the lifecycle checks (a queued command has not started, a finished one has its
  completion time and its audit reference), and no dangling reference.
\<close>

lemma commands_integrity:
  assumes "db_step\<^sup>*\<^sup>* empty_db d"
  shows "commands_ok d \<and> store_ok d"
  using db_steps_ok [OF assms] empty_ok empty_commands_ok by simp

text \<open>
  C26: A command is claimed at most once. After the executor has claimed a command, whatever
  commits in between, no later claim returns that command; in particular a command that was
  interrupted by a crash is never run again.
\<close>

theorem command_claimed_once:
  assumes "commands_ok d1" and "ClaimOperationalCommand at d1 = Inr (i, d2)" and "i \<noteq> []"
    and "db_step\<^sup>*\<^sup>* d2 d3" and "store_ok d1" and "ClaimOperationalCommand at' d3 = Inr (j, d4)"
  shows "j \<noteq> i"
proof
  assume "j = i"
  from assms(2) obtain r where r: "r \<in> set (db_commands d1)" "cmd_Status r = CmdQueued" "i = cmd_ID r"
    "d2 = d1\<lparr>db_commands := update_where (\<lambda>q. cmd_ID q = i \<and> cmd_Status q = CmdQueued)
       (\<lambda>q. q\<lparr>cmd_Status := CmdRunning, cmd_StartedAt := Some at\<rparr>) (db_commands d1)\<rparr>"
    by (rule ClaimOperationalCommand_cases) (use assms(3) in auto)
  then have "r\<lparr>cmd_Status := CmdRunning, cmd_StartedAt := Some at\<rparr> \<in> set (db_commands d2)"
    by (force simp: set_update_where)
  from db_steps_row [OF assms(4) this] obtain r3 where r3: "r3 \<in> set (db_commands d3)"
    and "advances (r\<lparr>cmd_Status := CmdRunning, cmd_StartedAt := Some at\<rparr>) r3" by blast
  then have r3': "cmd_ID r3 = i" "cmd_Status r3 \<noteq> CmdQueued" using r(3) by (auto simp: advances_def rank_def)
  have "command_step d1 d2" using assms(2) by (rule command_step.claim_command)
  then have "db_step\<^sup>*\<^sup>* d1 d3" using assms(4) by (meson converse_rtranclp_into_rtranclp db_step_def)
  from db_steps_ok [OF this] assms(1,5) have ok: "commands_ok d3" by simp
  from assms(6) obtain q where q: "q \<in> set (db_commands d3)" "cmd_Status q = CmdQueued" "cmd_ID q = i"
    by (rule ClaimOperationalCommand_cases) (use \<open>j = i\<close> assms(3) in auto)
  from ok have "primary_key cmd_ID (db_commands d3)" by (simp add: commands_ok_def command_indexes_def)
  from unique_index_inj [OF this q(1) r3] q r3' show False by simp
qed

theorem command_claimed_once_witness:
  "\<exists>d2. ClaimOperationalCommand 5 sample_queue = Inr (''k'', d2) \<and> (\<exists>j d4. ClaimOperationalCommand 6 d2 = Inr (j, d4) \<and> j \<noteq> ''k'')"
proof -
  have "\<exists>d2 d4. ClaimOperationalCommand 5 sample_queue = Inr (''k'', d2) \<and> ClaimOperationalCommand 6 d2 = Inr (''l'', d4)"
    by (rule exI [of _ "snd (projr (ClaimOperationalCommand 5 sample_queue))"],
        rule exI [of _ "snd (projr (ClaimOperationalCommand 6 (snd (projr (ClaimOperationalCommand 5 sample_queue)))))"]) code_simp
  then obtain d2 d4 where d: "ClaimOperationalCommand 5 sample_queue = Inr (''k'', d2)" "ClaimOperationalCommand 6 d2 = Inr (''l'', d4)"
    by blast
  from command_claimed_once [OF sample_queue_ok(2) d(1) _ rtranclp.rtrancl_refl sample_queue_ok(1) d(2)] d show ?thesis by blast
qed

text \<open>
  C27: A request that is repeated under its idempotency key creates nothing: once a command of a
  user has committed, any later creation with the same user and key, whatever has committed in
  between, leaves the store as it is and returns that first command with its identifier, its
  command and its input fingerprint.
\<close>

theorem CreateOperationalCommand_idempotent:
  assumes "store_ok d" "commands_ok d" and "CreateOperationalCommand p e d = Inr ((p', True), d1)" and "db_step\<^sup>*\<^sup>* d1 d2"
    and "op_RequestedBy q = op_RequestedBy p" "op_IdempotencyKey q = op_IdempotencyKey p"
    and "CreateOperationalCommand q e' d2 = Inr ((x, created), d3)"
  shows "\<not> created \<and> d3 = d2 \<and> op_ID x = op_ID p \<and> op_Command x = op_Command p \<and> op_InputFingerprint x = op_InputFingerprint p"
proof -
  let ?r = "new_command_row p"
  from assms(3) have row: "?r \<in> set (db_commands d1)"
    by (rule CreateOperationalCommand_cases)
       (auto simp: insert_command_Inr audit_Inr dest!: update_results_commands split: if_splits)
  from db_steps_row [OF assms(4) row] obtain r2 where r2: "r2 \<in> set (db_commands d2)" "advances ?r r2" by blast
  then have key: "command_key r2 = command_key (new_command_row q)"
    using assms(5,6) by (simp add: advances_def command_key_def new_command_row_def)
  have "db_step d d1" using command_step.create_command [OF assms(3)] by (simp add: db_step_def)
  then have "db_step\<^sup>*\<^sup>* d d2" using assms(4) by (rule converse_rtranclp_into_rtranclp)
  from db_steps_ok [OF this] assms(1,2) have "commands_ok d2" by blast
  from query_row_pk [OF commands_ok_keys(2) [OF this] r2(1)] key
  have found: "operationalCommandByIdempotency (op_RequestedBy q) (op_IdempotencyKey q) d2 = Inr (scanDNSOperation d2 r2)"
    by (simp add: operationalCommandByIdempotency_def command_key_def new_command_row_def mapDatabaseError_def)
  have taken: "command_key (new_command_row q) \<in> command_key ` set (db_commands d2)" using r2(1) key by (metis image_eqI)
  have "\<not> created \<and> d3 = d2 \<and> x = scanDNSOperation d2 r2"
    using assms(7)
  proof (cases rule: CreateOperationalCommand_cases)
    case 1
    with found show ?thesis by auto
  next
    case (2 d4 d5)
    with taken show ?thesis unfolding insert_command_Inr by auto
  qed
  with r2(2) show ?thesis by (simp add: scanDNSOperation_def advances_def new_command_row_def)
qed

theorem CreateOperationalCommand_idempotent_witness:
  "\<exists>d1 x. CreateOperationalCommand (sample_operation ''i'' ''w'') (sample_event ''e'') sample_queue = Inr ((sample_operation ''i'' ''w'', True), d1) \<and>
     CreateOperationalCommand (sample_operation ''j'' ''w'') (sample_event ''f'') d1 = Inr ((x, False), d1) \<and> op_ID x = ''i''"
proof -
  let ?first = "CreateOperationalCommand (sample_operation ''i'' ''w'') (sample_event ''e'') sample_queue"
  let ?second = "CreateOperationalCommand (sample_operation ''j'' ''w'') (sample_event ''f'') (snd (projr ?first))"
  have "isl ?first = False" "isl ?second = False" "snd (fst (projr ?first))" "op_ID (sample_operation ''i'' ''w'') = ''i''"
    by code_simp+
  moreover have "fst (fst (projr ?first)) = sample_operation ''i'' ''w''" by code_simp
  ultimately obtain d1 x created d3 where d: "?first = Inr ((sample_operation ''i'' ''w'', True), d1)"
      "CreateOperationalCommand (sample_operation ''j'' ''w'') (sample_event ''f'') d1 = Inr ((x, created), d3)"
    by (cases ?first; cases ?second) (auto simp: prod_eq_iff)
  have "op_RequestedBy (sample_operation ''j'' ''w'') = op_RequestedBy (sample_operation ''i'' ''w'')"
    "op_IdempotencyKey (sample_operation ''j'' ''w'') = op_IdempotencyKey (sample_operation ''i'' ''w'')"
    by (simp_all add: sample_operation_def)
  from CreateOperationalCommand_idempotent [OF sample_queue_ok d(1) rtranclp.rtrancl_refl this d(2)] d
  show ?thesis by (auto simp: sample_operation_def)
qed

text \<open>
  The listing of DHCP operations of a node reads every operational command of the node, and
  it reads the start of each result into a value that cannot be \<open>NULL\<close>. As soon as a DNS command
  that has not started, such as the one that was just created here, is among the rows, the
  listing fails.
\<close>

lemma ListDHCPOperations_pending_fails:
  assumes "CreateOperationalCommand p e d = Inr ((p', True), d')" and "n \<in> set (op_NodeResults p)"
    and "length (filter (\<lambda>(r, m). res_NodeID m = nr_NodeID n) (dhcp_rows d')) \<le> limit"
  shows "\<exists>err. ListDHCPOperations (nr_NodeID n) limit d' = Inl err"
proof -
  have fails: "\<exists>err. read_all f xs = Inl err" if "x \<in> set xs" "f x = Inl e" for f :: "'x \<Rightarrow> go_error + 'y" and x xs e
    using that by (induction xs) (auto simp: bind_err_def split: sum.split)
  have inserted: "m \<in> set (db_results d2)" if "insert_results i ns d1 = Inr d2" "m \<in> set (db_results d1)" for i ns d1 d2 m
    using that by (induction i ns d1 rule: insert_results.induct) (auto simp: bind_err_Inr insert_result_Inr)
  have new: "new_result_row i m \<in> set (db_results d2)" if "insert_results i ns d1 = Inr d2" "m \<in> set ns" for i ns d1 d2 m
    using that
  proof (induction i ns d1 rule: insert_results.induct)
    case (2 i k ns d1)
    then obtain d3 where d3: "insert_result ''insert operational command node result'' (new_result_row i k) d1 = Inr d3"
      "insert_results i ns d3 = Inr d2" by (auto simp: bind_err_Inr)
    then have "new_result_row i k \<in> set (db_results d3)" by (simp add: insert_result_Inr)
    with 2 d3 inserted [OF d3(2)] show ?case by auto
  qed simp
  let ?m = "new_result_row (op_ID p) n"
  have "new_command_row p \<in> set (db_commands d') \<and> ?m \<in> set (db_results d')"
    using assms(1)
  proof (cases rule: CreateOperationalCommand_cases)
    case (2 d1 d2)
    then have "d1 = d\<lparr>db_commands := db_commands d @ [new_command_row p]\<rparr>"
      unfolding insert_command_Inr by (auto split: if_splits)
    with 2 update_results_commands [OF 2(2)] new [OF 2(2) assms(2)] show ?thesis by (simp add: audit_Inr)
  qed simp
  moreover have "res_CommandID ?m = cmd_ID (new_command_row p)" by (simp add: new_result_row_def new_command_row_def)
  ultimately have "(new_command_row p, ?m) \<in> set (dhcp_rows d')"
    by (simp only: dhcp_rows_iff)
  then have "(new_command_row p, ?m) \<in> set (filter (\<lambda>(r, m). res_NodeID m = nr_NodeID n) (dhcp_rows d'))"
    by (simp add: new_result_row_def)
  moreover have "read_dhcp d' (new_command_row p, ?m) = Inl (PlainError ''scan DHCP operation'')"
    by (simp add: read_dhcp_def new_result_row_def)
  ultimately show ?thesis
    unfolding ListDHCPOperations_def using assms(3) by (intro fails) auto
qed

end
