(* ===== verification/Operations_Properties.thy ===== *)
theory Operations_Properties
  imports Operations Commands_Properties Samples
begin

text \<open>
  What the services that run operational commands promise: a command reaches a node only after
  its result has been marked as running; a DHCP reset only runs on an enabled node in
  maintenance, without an active deployment, and after the operation is on record; and what
  recovery after a restart does not cover.
\<close>

subsection \<open>Commands reach nodes only when marked\<close>

lemma silent_operationAudit [quiet]: "silent (operationAudit actor action p m at)"
  unfolding operationAudit_def by (intro quiet)

lemma silent_run_node [quiet]: "silent (run_node p input result request)"
  unfolding run_node_def by (auto intro!: quiet split: sum.split)

fun is_run :: "event \<Rightarrow> bool" where
  "is_run (ERun _ _ _ _) \<longleftrightarrow> True"
| "is_run _ \<longleftrightarrow> False"

text \<open>Every run in a trace comes right after the record that marks its result as running.\<close>

fun marked_runs :: "event list \<Rightarrow> bool" where
  "marked_runs [] \<longleftrightarrow> True"
| "marked_runs [e] \<longleftrightarrow> \<not> is_run e"
| "marked_runs (e # f # es) \<longleftrightarrow> \<not> is_run e \<and>
     (case f of
        ERun i n c req \<Rightarrow> (\<exists>result. e = EResult i result \<and> nr_ID result = n \<and> nr_Status result = ResRunning) \<and> marked_runs es
      | _ \<Rightarrow> marked_runs (f # es))"

lemma marked_runs_plain: "list_all (\<lambda>e. \<not> is_run e) us \<Longrightarrow> marked_runs us"
proof (induction us rule: marked_runs.induct)
  case (3 e f es)
  then show ?case by (cases f) auto
qed auto

lemma marked_runs_append: "marked_runs us \<Longrightarrow> marked_runs vs \<Longrightarrow> marked_runs (us @ vs)"
proof (induction us rule: marked_runs.induct)
  case (2 e)
  then show ?case
  proof (cases vs)
    case (Cons f es)
    with 2 show ?thesis by (cases es; cases f) auto
  qed simp
next
  case (3 e f es)
  then show ?case by (cases f) (auto split: event.splits)
qed simp

lemma marked_round:
  assumes "nr_Status result = ResRunning" "ts = [] \<or> ts = [ERun i (nr_ID result) c req]" "list_all (\<lambda>e. \<not> is_run e) us"
  shows "marked_runs (EResult i result # ts @ us)"
proof -
  have "marked_runs (EResult i result # ts)" using assms(1,2) by auto
  from marked_runs_append [OF this marked_runs_plain [OF assms(3)]] show ?thesis by simp
qed

lemma command_node_trace:
  "emits (command_node p input result) (\<lambda>r ts. ts = [] \<or> (\<exists>req. ts = [ERun (op_ID p) (nr_ID result) (op_Command p) req]))"
proof -
  have last: "after [ERun (op_ID p) (nr_ID result) (op_Command p) req] (run_node p input result req)
     (\<lambda>r ts. ts = [] \<or> (\<exists>req. ts = [ERun (op_ID p) (nr_ID result) (op_Command p) req]))" for req
    unfolding after_def by (rule emits_silent [OF silent_run_node]) auto
  show ?thesis
    unfolding command_node_def
    by (rule emits_after)
       (auto intro!: after_attempt after_ret after_emit last quiet split: sum.split)
qed

lemma UpdateResult_trace:
  "(\<And>err. Q (Inl err) (us @ [EResult i x])) \<Longrightarrow> after (us @ [EResult i x]) (f ()) Q \<Longrightarrow> after us (bind (UpdateResult i x) f) Q"
  unfolding UpdateResult_def by (rule after_exec_traced)

lemma run_result_trace: "emits (run_result p input result) (\<lambda>r ts. marked_runs ts)"
  unfolding run_result_def now_def Let_def
proof (rule emits_after, rule after_tick, rule UpdateResult_trace, goal_cases)
  case (2 started)
  let ?running = "result\<lparr>nr_Status := ResRunning, nr_StartedAt := Some started\<rparr>"
  show ?case
  proof (rule after_bind [OF command_node_trace])
    show "marked_runs (([] @ [EResult (op_ID p) ?running]) @ ts)"
      if "ts = [] \<or> (\<exists>req. ts = [ERun (op_ID p) (nr_ID ?running) (op_Command p) req])" for ts
      using that marked_round [of ?running ts "op_ID p" "op_Command p" _ "[]"] by auto
    fix x :: "NodeResult \<times> go_error option" and ts
    assume ts: "ts = [] \<or> (\<exists>req. ts = [ERun (op_ID p) (nr_ID ?running) (op_Command p) req])"
    have one: "marked_runs (EResult (op_ID p) ?running # ts)" "marked_runs (EResult (op_ID p) ?running # ts @ [EResult (op_ID p) y])" for y
      using ts marked_round [of ?running ts "op_ID p" "op_Command p" _ "[]"] marked_round [of ?running ts "op_ID p" "op_Command p" _ "[EResult (op_ID p) y]"]
      by auto
    show "after (([] @ [EResult (op_ID p) ?running]) @ ts)
        (case x of (result, commandErr) \<Rightarrow> bind (tick now_at) (\<lambda>completed.
           bind (case commandErr of
               None \<Rightarrow> if \<not> is_destructive (op_Command p) then ret (result\<lparr>nr_CompletedAt := Some completed, nr_Status := ResSucceeded\<rparr>)
                 else bind (attempt (Observe (nr_NodeID (result\<lparr>nr_CompletedAt := Some completed, nr_Status := ResSucceeded\<rparr>)))) (\<lambda>r.
                   ret (case r of
                     Inl err \<Rightarrow> result\<lparr>nr_CompletedAt := Some completed, nr_Status := ResSucceeded, nr_ObservationStatus := ''failed'',
                       nr_ObservationErrorCode := operationErrorCode err\<rparr>
                   | Inr snapshot \<Rightarrow> result\<lparr>nr_CompletedAt := Some completed, nr_Status := ResSucceeded, nr_ObservationStatus := ''succeeded'',
                       nr_ObservationSnapshotID := snap_ID snapshot\<rparr>))
             | Some err \<Rightarrow> ret (result\<lparr>nr_CompletedAt := Some completed, nr_Status := ResFailed, nr_ErrorCode := operationErrorCode err\<rparr>))
           (\<lambda>result. bind (UpdateResult (op_ID p) result) (\<lambda>_. ret result)))) (\<lambda>r ts. marked_runs ts)"
      using one
      by (cases x) (auto intro!: after_tick after_silent UpdateResult_trace after_ret quiet silent_Observe split: option.split)
  qed
qed (simp add: marked_runs_plain)

lemma emits_marked_bind:
  "emits m (\<lambda>r ts. marked_runs ts) \<Longrightarrow> (\<And>x. emits (f x) (\<lambda>r ts. marked_runs ts)) \<Longrightarrow> emits (bind m f) (\<lambda>r ts. marked_runs ts)"
  by (erule emits_bind [where R = "\<lambda>_ r ts. marked_runs ts"]) (auto intro: marked_runs_append)

lemma emits_marked_silent: "silent m \<Longrightarrow> emits m (\<lambda>r ts. marked_runs ts)"
  by (erule emits_silent) simp

lemma emits_marked_write: "\<not> is_run ev \<Longrightarrow> emits (exec_traced ev f) (\<lambda>r ts. marked_runs ts)"
  by (rule emits_exec_traced) simp

lemmas marked_steps = emits_marked_bind run_result_trace silent_ret [THEN emits_marked_silent] silent_fail [THEN emits_marked_silent]
  silent_tick [THEN emits_marked_silent] silent_now [THEN emits_marked_silent] silent_query [THEN emits_marked_silent]
  silent_call [THEN emits_marked_silent]

lemma run_results_trace: "emits (run_results p input results) (\<lambda>r ts. marked_runs ts)"
  by (induction results) (auto intro!: marked_steps)

lemma update_results_trace: "emits (update_results i P f results) (\<lambda>r ts. marked_runs ts)"
  by (induction results)
     (auto simp: UpdateResult_def intro!: emits_marked_bind intro: emits_marked_silent emits_marked_write emits_ret quiet)

lemma run_command_trace: "emits (run_command p) (\<lambda>r ts. marked_runs ts)"
proof -
  have finish: "emits (finish_run p done) (\<lambda>r ts. marked_runs ts)" for p "done"
    unfolding finish_run_def Let_def FinishCommand_def
    by (auto intro!: emits_marked_bind intro: emits_marked_silent emits_marked_write quiet)
  have failed: "emits (failAll p err) (\<lambda>r ts. marked_runs ts)" for p err
    unfolding failAll_def Let_def FinishCommand_def
    by (auto intro!: emits_marked_bind update_results_trace intro: emits_marked_silent emits_marked_write quiet)
  show ?thesis
    unfolding run_command_def
    by (auto intro!: emits_marked_bind run_results_trace finish failed intro: emits_marked_silent quiet split: option.split)
qed



subsection \<open>Guarded DHCP resets\<close>

lemma silent_dhcpAudit [quiet]: "silent (dhcpOperationAudit actor action p m at)"
  unfolding dhcpOperationAudit_def by (intro quiet)

fun is_reset :: "event \<Rightarrow> bool" where
  "is_reset (EResetDhcp _ _) \<longleftrightarrow> True"
| "is_reset _ \<longleftrightarrow> False"

lemma only_failDHCP: "only (\<lambda>e. \<not> is_reset e) (failDHCPOperation actor p name err)"
  unfolding failDHCPOperation_def Let_def FinishDhcp_def
  by (auto intro!: only_bind intro: only_silent only_exec_traced quiet)

lemma only_succeed: "only (\<lambda>e. \<not> is_reset e) (succeed_dhcp actor nodeID p name)"
  unfolding succeed_dhcp_def Let_def FinishDhcp_def
  by (auto intro!: only_bind intro: only_silent only_exec_traced silent_Observe quiet)

text \<open>
  The state in which a reset was allowed: the record and the cluster as they were read, and no
  active deployment of the cluster when that was asked.
\<close>

definition reset_allowed :: "string \<Rightarrow> Command \<Rightarrow> string \<Rightarrow> NodeProbeRequest \<Rightarrow> bool" where
  "reset_allowed nodeID command confirmation req \<longleftrightarrow>
     (\<exists>d1 d2 d3 record cluster credentials name.
        NodeRecordByID nodeID d1 = Inr record \<and> node_Enabled (rec_Node record) \<and> node_MaintenanceMode (rec_Node record) \<and>
        ClusterByID (node_ClusterID (rec_Node record)) d2 = Inr cluster \<and>
        \<not> ClusterHasActiveDeployment (cluster_ID cluster) d3 \<and>
        (command = DHCPOperationResetConfiguration \<longrightarrow> cluster_ReconciliationPolicy cluster \<noteq> ReconciliationEnforce) \<and>
        dhcpOperationContract command = Inr (confirmation, name) \<and> req = probe_request record credentials)"

definition reset_course :: "string \<Rightarrow> Command \<Rightarrow> string \<Rightarrow> event list \<Rightarrow> bool" where
  "reset_course nodeID command confirmation ts \<longleftrightarrow>
     list_all (\<lambda>e. \<not> is_reset e) ts \<or>
     (\<exists>p req more_events. ts = EBeginDhcp p # EResetDhcp command req # more_events \<and> list_all (\<lambda>e. \<not> is_reset e) more_events \<and>
        dop_Status p = CmdRunning \<and> map dr_NodeID (dop_NodeResults p) = [nodeID] \<and> reset_allowed nodeID command confirmation req)"

lemma reset_course_plain: "list_all (\<lambda>e. \<not> is_reset e) ts \<Longrightarrow> reset_course i c k ts"
  by (simp add: reset_course_def)

lemma after_plain:
  "only (\<lambda>e. \<not> is_reset e) m \<Longrightarrow> list_all (\<lambda>e. \<not> is_reset e) us \<Longrightarrow> after us m (\<lambda>r ts. reset_course i c k ts)"
  by (erule after_only) (simp add: reset_course_plain)

lemma after_reset:
  assumes "only (\<lambda>e. \<not> is_reset e) m" "dop_Status p = CmdRunning" "map dr_NodeID (dop_NodeResults p) = [i]" "reset_allowed i c k req"
  shows "after [EBeginDhcp p, EResetDhcp c req] m (\<lambda>r ts. reset_course i c k ts)"
  by (rule after_only [OF assms(1)]) (use assms(2-) in \<open>auto simp: reset_course_def\<close>)

lemma execute_dhcp_course:
  assumes "NodeRecordByID i d1 = Inr record" "ClusterByID (node_ClusterID (rec_Node record)) d2 = Inr cluster"
    "dhcpOperationContract c = Inr (k, name)" "dop_Status p = CmdRunning" "map dr_NodeID (dop_NodeResults p) = [i]"
  shows "after [EBeginDhcp p] (execute_dhcp actor executor record cluster c name p) (\<lambda>r ts. reset_course i c k ts)"
proof -
  have plain: "after [EBeginDhcp p] (failDHCPOperation actor p name err) (\<lambda>r ts. reset_course i c k ts)" for err
    by (rule after_plain [OF only_failDHCP]) simp
  have reset: "after [EBeginDhcp p, EResetDhcp c (probe_request record credentials)] m (\<lambda>r ts. reset_course i c k ts)"
    if "only (\<lambda>e. \<not> is_reset e) m" "node_Enabled (rec_Node record)" "node_MaintenanceMode (rec_Node record)"
      "\<not> ClusterHasActiveDeployment (cluster_ID cluster) d3"
      "c \<noteq> DHCPOperationResetConfiguration \<or> cluster_ReconciliationPolicy cluster \<noteq> ReconciliationEnforce" for m d3 credentials
  proof (rule after_reset [OF that(1) assms(4,5)])
    show "reset_allowed i c k (probe_request record credentials)"
      unfolding reset_allowed_def
      by (rule exI [of _ d1], rule exI [of _ d2], rule exI [of _ d3], rule exI [of _ "record"], rule exI [of _ cluster],
          rule exI [of _ credentials], rule exI [of _ name]) (use assms(1-3) that in \<open>auto\<close>)
  qed
  show ?thesis
    unfolding execute_dhcp_def Let_def list_query_def
    by (rule after_if plain after_attempt_query after_attempt after_emit after_tick quiet
        | (simp, rule reset [OF only_failDHCP] reset [OF only_succeed], (simp; fail), (simp; fail), assumption, (simp; fail))
        | (simp; fail) | split sum.split option.split | intro allI impI conjI | simp only: )+
qed

lemma begin_created: "BeginDHCPOperation p e d = Inr ((stored, True), d') \<Longrightarrow> stored = p"
  by (erule BeginDHCPOperation_cases) auto


subsection \<open>What recovery leaves out\<close>

text \<open>Actions that, run alone, leave a row of the command table as it is.\<close>

definition leaves :: "CommandRow \<Rightarrow> 'a action \<Rightarrow> bool" where
  "leaves r m \<longleftrightarrow> (\<forall>e w. (\<forall>t d. interfere e t d = d) \<longrightarrow> r \<in> set (db_commands (w_db w)) \<longrightarrow> r \<in> set (db_commands (w_db (snd (m e w)))))"

lemma leaves_bind:
  assumes "leaves r m" "\<And>x. leaves r (f x)"
  shows "leaves r (bind m f)"
  unfolding leaves_def
proof (intro allI impI)
  fix e :: env and w :: world
  assume e: "\<forall>t d. interfere e t d = d" and w: "r \<in> set (db_commands (w_db w))"
  obtain x v where x: "m e w = (x, v)" by fastforce
  with assms(1) e w have "r \<in> set (db_commands (w_db v))" unfolding leaves_def by (metis snd_conv)
  with assms(2) e x show "r \<in> set (db_commands (w_db (snd (bind m f e w))))"
    by (cases x) (simp_all add: bind_apply leaves_def)
qed

lemma leaves_basic: "leaves r (ret x)" "leaves r (fail err)" "leaves r (tick g)" "leaves r (emit ev)"
  by (auto simp: leaves_def ret_def fail_def tick_def emit_def)

lemma leaves_exec:
  "(\<And>d d'. g d = Inr d' \<Longrightarrow> r \<in> set (db_commands d) \<Longrightarrow> r \<in> set (db_commands d')) \<Longrightarrow> leaves r (exec g)"
  by (auto simp: leaves_def exec_def call_def bind_err_def Let_def split: sum.splits prod.splits)

lemma leaves_Audit: "leaves r (operationAudit actor action p m at)"
  unfolding operationAudit_def Let_def NewID_act_def
  by (auto intro!: leaves_bind leaves_basic split: option.split)

lemma leaves_update: "leaves r (update_results i P f results)"
  by (induction results)
     (auto simp: UpdateResult_def exec_traced_def intro!: leaves_bind leaves_basic leaves_exec
       simp: UpdateOperationalCommandNode_def Let_def bind_err_Inr)

lemma leaves_finish: "op_ID p \<noteq> cmd_ID r \<Longrightarrow> leaves r (FinishCommand p event)"
  unfolding FinishCommand_def exec_traced_def
  by (intro leaves_bind leaves_basic leaves_exec)
     (auto elim!: FinishOperationalCommand_cases simp: audit_Inr update_where_def intro!: rev_image_eqI [where x = r])

lemma leaves_recover: "op_ID p \<noteq> cmd_ID r \<Longrightarrow> leaves r (recover_command p)"
  unfolding recover_command_def Let_def now_def
  by (intro leaves_bind leaves_basic leaves_update leaves_Audit leaves_finish) simp

lemma leaves_recovers: "\<forall>p \<in> set ps. op_ID p \<noteq> cmd_ID r \<Longrightarrow> leaves r (recover_commands ps)"
  by (induction ps) (auto intro: leaves_bind leaves_basic leaves_recover)

lemma running_other:
  assumes "commands_ok d" "r \<in> set (db_commands d)" "cmd_Command r \<notin> set dns_commands" "p \<in> set (RunningOperationalCommands d)"
  shows "op_ID p \<noteq> cmd_ID r"
proof -
  from assms(4) obtain q where q: "q \<in> set (db_commands d)" "cmd_Command q \<in> set dns_commands" "op_ID p = cmd_ID q"
    by (auto simp: RunningOperationalCommands_def dns_rows_def scanDNSOperation_def)
  have "inj_on cmd_ID (set (db_commands d))"
    using assms(1) by (simp add: commands_ok_def command_indexes_def unique_index_def distinct_map)
  with q assms(2,3) show ?thesis by (auto dest: inj_onD)
qed

text \<open>
  C32: Recovery after a restart does not reach the DHCP operations: with nothing else running, a
  row of the command table whose command is not one of the DNS commands, such as a DHCP reset
  that was under way, is still there unchanged once the recovery has run. It keeps its status
  running, and repeating the request keeps being answered with a conflict.
\<close>

theorem dhcp_operation_not_recovered:
  assumes "\<And>t d. interfere e t d = d" "commands_ok (w_db w)"
    and "r \<in> set (db_commands (w_db w))" "cmd_Command r \<notin> set dns_commands"
  shows "r \<in> set (db_commands (w_db (snd (Operations_RecoverInterrupted e w))))"
proof -
  let ?w = "w\<lparr>w_tick := Suc (w_tick w)\<rparr>"
  have run: "Operations_RecoverInterrupted e w = recover_commands (RunningOperationalCommands (w_db w)) e ?w" if "\<not> db_fault e (w_tick w)"
    using assms(1) that
    by (simp add: Operations_RecoverInterrupted_def list_query_def query_def call_def bind_apply bind_err_def Let_def)
  have "leaves r (recover_commands (RunningOperationalCommands (w_db w)))"
    using running_other [OF assms(2-4)] by (blast intro: leaves_recovers)
  then have "r \<in> set (db_commands (w_db (snd (recover_commands (RunningOperationalCommands (w_db w)) e ?w))))"
    unfolding leaves_def using assms(1,3) by simp
  then show ?thesis
    using run assms(1,3)
    by (cases "db_fault e (w_tick w)")
       (simp_all add: Operations_RecoverInterrupted_def list_query_def query_def call_def bind_apply Let_def)
qed

definition sample_reset :: CommandRow where
  "sample_reset = (sample_command ''k'' CmdRunning)\<lparr>cmd_Command := DHCPOperationResetLeases, cmd_Payload := None, cmd_StartedAt := Some 3\<rparr>"

definition sample_resetting :: world where
  "sample_resetting = sample_start\<lparr>w_db := empty_db\<lparr>db_clusters := [sample_cluster None],
     db_nodes := [sample_db_node ''n'' ''system'' []], db_commands := [sample_reset]\<rparr>\<rparr>"

theorem dhcp_operation_not_recovered_witness:
  "cmd_Status sample_reset = CmdRunning \<and>
     sample_reset \<in> set (db_commands (w_db (snd (Operations_RecoverInterrupted sample_env sample_resetting))))"
proof -
  have "commands_ok (w_db sample_resetting)" "cmd_Command sample_reset \<notin> set dns_commands" by code_simp+
  then show ?thesis
    using dhcp_operation_not_recovered [of sample_env sample_resetting sample_reset]
    by (simp add: sample_env_def sample_resetting_def sample_reset_def sample_command_def)
qed

end
