(* ===== verification/Service_Properties.thy ===== *)
theory Service_Properties
  imports Samples
begin

text \<open>
  What the control plane service promises: a preview that is valid only for documents without
  issues, deployments that carry the tasks of a valid preview in the DHCP handoff order, and
  publication that is safe under concurrent writes. The contract of the validator of blocked
  services is the locale \<open>validated_service\<close>: it only reads.
\<close>

subsection \<open>Previews\<close>

lemma preview_nodes_ids: "map pn_NodeID (fst (preview_nodes document sn pr k nodes)) = map node_ID nodes"
  by (induction nodes arbitrary: k) (auto simp: Let_def preview_node_def case_prod_unfold split: sum.split)

lemma preview_nodes_positions:
  "map pn_Position (fst (preview_nodes document sn pr k nodes)) = map int [Suc k..<Suc (k + length nodes)]"
proof (induction nodes arbitrary: k)
  case (Cons node nodes)
  have "[Suc k..<Suc (k + length (node # nodes))] = Suc k # [Suc (Suc k)..<Suc (Suc k + length nodes)]"
    by (simp add: upt_conv_Cons del: upt_Suc)
  with Cons [of "Suc k"] show ?case
    by (auto simp: Let_def preview_node_def case_prod_unfold simp del: upt_Suc split: sum.split)
qed simp

text \<open>What a valid entry of a preview says of its node.\<close>

definition deployable :: "DesiredDocument \<Rightarrow> Snapshot list \<Rightarrow> CapabilityProfile list \<Rightarrow> Node \<Rightarrow> PreviewNode \<Rightarrow> bool" where
  "deployable document snapshots profiles node item \<longleftrightarrow>
     pn_NodeID item = node_ID node \<and> pn_Valid item \<and>
     (\<exists>effective. Effective document (node_ID node) = Inr effective \<and> pn_EffectiveHash item = snd (Marshal effective) \<and>
       (\<exists>profile \<in> set profiles. cap_NodeID profile = node_ID node \<and>
          cap_Compatibility profile = compatibility_string CompatibilitySupported \<and>
          list_all (has_feature (cap_Features profile)) (required_features document effective)) \<and>
       (\<exists>snapshot \<in> set snapshots. \<exists>observed. snap_NodeID snapshot = node_ID node \<and> snap_Document snapshot = Some observed \<and>
          snap_CollectionStatus snapshot = ''succeeded'' \<and>
          immutableNodeDifferences effective (ProjectDocument observed (des_SchemaVersion document)) = []))"

lemma map_of_rev_keyed: "map_of (rev (map (\<lambda>x. (k x, x)) xs)) i = Some x \<Longrightarrow> x \<in> set xs \<and> k x = i"
  by (auto dest!: map_of_SomeD)

lemma preview_node_deployable:
  assumes "snd (preview_node document sn pr k node) = []" "Effective document (node_ID node) = Inr effective"
  shows "deployable document sn pr node (fst (preview_node document sn pr k node))"
proof -
  let ?profile = "map_of (rev (map (\<lambda>p. (cap_NodeID p, p)) pr)) (node_ID node)"
  let ?snapshot = "map_of (rev (map (\<lambda>s. (snap_NodeID s, s)) sn)) (node_ID node)"
  from assms have cap: "capability_warning ?profile (missing_features ?profile (required_features document effective)) = None"
    and obs: "observation_warning document effective ?snapshot (node_ID node) = None"
    by (auto simp: preview_node_def Let_def split: option.splits)
  from cap obtain p where p: "?profile = Some p" "cap_Compatibility p = compatibility_string CompatibilitySupported"
    "missing_features (Some p) (required_features document effective) = []"
    by (auto simp: capability_warning_def split: option.splits if_splits)
  from obs obtain s observed where s: "?snapshot = Some s" "snap_Document s = Some observed" "snap_CollectionStatus s = ''succeeded''"
    "immutableNodeDifferences effective (ProjectDocument observed (des_SchemaVersion document)) = []"
    by (auto simp: observation_warning_def split: option.splits if_splits)
  show ?thesis
    using assms p s map_of_rev_keyed [OF p(1)] map_of_rev_keyed [OF s(1)] cap obs
    unfolding deployable_def by (auto simp: preview_node_def Let_def missing_features_def filter_empty_conv list_all_iff)
qed

lemma preview_nodes_deployable:
  assumes "snd (preview_nodes document sn pr k nodes) = []" "\<And>n. n \<in> set nodes \<Longrightarrow> \<exists>e. Effective document (node_ID n) = Inr e"
  shows "list_all2 (deployable document sn pr) nodes (fst (preview_nodes document sn pr k nodes))"
  using assms
proof (induction nodes arbitrary: k)
  case (Cons n nodes)
  from Cons.prems(2) obtain e where "Effective document (node_ID n) = Inr e" by fastforce
  with Cons preview_node_deployable [of document sn pr k n e] show ?case
    by (auto simp: Let_def case_prod_unfold)
qed simp

lemma targets_enabled: "n \<in> set (targets_of document selected nodes) \<Longrightarrow> n \<in> set nodes \<and> selects selected n"
  by (auto simp: targets_of_def Let_def split: if_splits)

lemma validated_override:
  assumes "ValidateDesired h document ids = []" "i \<in> set ids"
  shows "\<exists>e. Effective document i = Inr e"
proof -
  from validate_overrides_Nil [OF ValidateDesired_parts(4) [OF assms(1)] assms(2)]
  obtain n where "map_of (des_NodeOverrides (CanonicaliseDesired document)) i = Some n" by blast
  then show ?thesis by (auto simp: Effective_cases map_of_canonical_overrides split: option.splits)
qed

lemma explained_Nil: "explained_issues s r document nodes = [] \<longleftrightarrow> ValidateDesired (srv_host s) document (enabledNodeIDs nodes) = []"
  by (simp add: explained_issues_def Let_def)

lemma assemble_preview_valid:
  assumes "preview_Valid (assemble_preview s r document selected nodes ci sn pr)"
  shows "ValidateDesired (srv_host s) document (enabledNodeIDs nodes) = []" and "ci = []"
    and "targets_of document selected nodes \<noteq> []"
    and "list_all2 (deployable document sn pr) (targets_of document selected nodes)
      (preview_Nodes (assemble_preview s r document selected nodes ci sn pr))"
proof -
  let ?t = "targets_of document selected nodes"
  from assms show v: "ValidateDesired (srv_host s) document (enabledNodeIDs nodes) = []" and "ci = []" and "?t \<noteq> []"
    by (auto simp: assemble_preview_def Let_def case_prod_unfold explained_Nil no_target_issues_def split: if_splits)
  have "\<exists>e. Effective document (node_ID n) = Inr e" if "n \<in> set ?t" for n
    using targets_enabled [OF that] by (intro validated_override [OF v]) (auto simp: enabledNodeIDs_def selects_def)
  with assms show "list_all2 (deployable document sn pr) ?t (preview_Nodes (assemble_preview s r document selected nodes ci sn pr))"
    by (auto simp: assemble_preview_def Let_def case_prod_unfold intro!: preview_nodes_deployable)
qed


subsection \<open>The deployments the service creates\<close>

text \<open>
  A deployment made from a valid preview: the tasks are the targets in the order of the
  preview, numbered from one, with the hash of the effective configuration of each.
\<close>

definition tasks_match :: "string \<Rightarrow> PreviewNode list \<Rightarrow> DeploymentNode list \<Rightarrow> bool" where
  "tasks_match i = list_all2 (\<lambda>target task. task_NodeID task = pn_NodeID target \<and> task_Position task = pn_Position target \<and>
     task_EffectiveHash task = pn_EffectiveHash target \<and> task_DeploymentID task = i \<and> task_Status task = TaskPending)"

lemma new_tasks_match: "emits (new_tasks i targets) (\<lambda>r ts. ts = [] \<and> (\<forall>tasks. r = Inr tasks \<longrightarrow> tasks_match i targets tasks))"
proof (induction targets)
  case Nil
  show ?case by (simp add: emits_ret tasks_match_def)
next
  case (Cons target targets)
  show ?case
    unfolding new_tasks.simps
    by (rule emits_after, rule after_silent [OF silent_NewID], simp)
       (auto intro!: after_bind [OF Cons] after_ret simp: tasks_match_def)
qed

lemma silent_userAudit [quiet]: "silent (userAudit actor a rt ri m at)"
  by (simp add: userAudit_def quiet)

lemma after_Service_Revision:
  assumes "\<And>err. Q (Inl err) us" "\<And>d rv. RevisionByID r d = Inr rv \<Longrightarrow> after us (f rv) Q"
  shows "after us (bind (Service_Revision r) f) Q"
  using assms by (simp add: Service_Revision_def after_fail after_query)

definition created_from :: "string \<Rightarrow> string \<Rightarrow> string \<Rightarrow> string option \<Rightarrow> PreviewNode list \<Rightarrow> Deployment \<Rightarrow> bool" where
  "created_from clusterID revisionID origin rollbackOf targets p \<longleftrightarrow>
     dep_ClusterID p = clusterID \<and> dep_RevisionID p = revisionID \<and> dep_Origin p = origin \<and>
     dep_RollbackOfRevisionID p = rollbackOf \<and> dep_Status p = Queued \<and> tasks_match (dep_ID p) targets (dep_Nodes p)"

lemma create_deployment_trace:
  "after [] (create_deployment actor c r origin rb targets)
     (\<lambda>res ts. ts = [] \<or> (\<exists>p. ts = [ECreate p] \<and> created_from c r origin rb targets p))"
  unfolding create_deployment_def Let_def now_def
  by (intro after_silent [OF silent_NewID] after_tick after_bind [OF new_tasks_match] after_exec_traced after_ret)
     (auto intro!: after_silent after_exec_traced after_ret quiet simp: created_from_def split: option.split)

locale validated_service =
  fixes s :: service
  assumes validator_silent: "srv_blockedServiceValidator s = Some v \<Longrightarrow> silent (v c ids)"
begin

lemma silent_catalogue: "silent (catalogue_issues s c document)"
  by (auto simp: catalogue_issues_def intro!: quiet validator_silent split: option.split)

lemma emits_preview:
  "emits (previewDocument s c r document selected) (\<lambda>res ts. ts = [] \<and> (\<forall>preview. res = Inr preview \<longrightarrow>
     (\<exists>d d' d'' ci. preview = assemble_preview s r document selected (ListNodes c d) ci (LatestSnapshots c d') (CapabilityProfiles c d''))))"
  unfolding previewDocument_def list_query_def
  by (rule emits_after) (rule after_query after_silent [OF silent_catalogue] after_ret | simp | blast)+

lemma startDeployment_trace:
  "emits (startDeployment s actor c r origin rb selected) (\<lambda>res ts. ts = [] \<or>
     (\<exists>p rv d nodes sn pr targets. ts = [ECreate p] \<and> RevisionByID r d = Inr rv \<and> rev_ClusterID rv = c \<and>
        created_from c r origin rb targets p \<and>
        ValidateDesired (srv_host s) (rev_Document rv) (enabledNodeIDs nodes) = [] \<and>
        targets = fst (preview_nodes (rev_Document rv) sn pr 0 (targets_of (rev_Document rv) selected nodes)) \<and>
        list_all2 (deployable (rev_Document rv) sn pr) (targets_of (rev_Document rv) selected nodes) targets))"
    (is "emits _ ?Q")
proof -
  have deploy: "after [] (create_deployment actor c r origin rb (preview_Nodes preview)) ?Q"
    if "RevisionByID r d = Inr rv" "rev_ClusterID rv = c" "preview_Valid preview"
      "preview = assemble_preview s r (rev_Document rv) selected nodes ci sn pr" for d rv nodes ci sn pr preview
  proof -
    have t: "preview_Nodes preview = fst (preview_nodes (rev_Document rv) sn pr 0 (targets_of (rev_Document rv) selected nodes))"
      by (simp add: that(4) assemble_preview_def Let_def case_prod_unfold)
    note v = assemble_preview_valid [OF that(3) [unfolded that(4)], folded that(4)]
    show ?thesis
      using create_deployment_trace [of actor c r origin rb "preview_Nodes preview"] unfolding after_def
    proof (rule emits_mono, elim disjE exE conjE, goal_cases)
      case (2 res ts p)
      with that(1,2) t v show ?case
        by (intro disjI2 exI [of _ p] exI [of _ rv] exI [of _ d] exI [of _ nodes] exI [of _ sn] exI [of _ pr]) auto
    qed simp
  qed
  have preview: "after [] (bind (previewDocument s c r (rev_Document rv) selected) (\<lambda>preview.
      if \<not> preview_Valid preview \<or> preview_Nodes preview = [] then fail err
      else create_deployment actor c r origin rb (preview_Nodes preview))) ?Q"
    if "RevisionByID r d = Inr rv" "rev_ClusterID rv = c" for rv d err
    by (rule after_bind [OF emits_preview]) (use deploy [OF that] in \<open>auto intro: emits_fail simp: after_def\<close>)
  show ?thesis
    unfolding startDeployment_def
    by (rule emits_after) (intro after_if after_Service_Revision preview; simp add: after_fail)
qed

end


subsection \<open>The DHCP handoff\<close>

lemma dhcp_enabled_canonical:
  "dhcp_enabled_in (des_NodeOverrides (CanonicaliseDesired d)) = dhcp_enabled_in (des_NodeOverrides d)"
  by (simp add: fun_eq_iff dhcp_enabled_in_def map_of_canonical_overrides canonicalNodeSpecific_def canonicaliseDHCP_def split: option.split)

lemma sorted_bool: "sorted bs \<Longrightarrow> bs = replicate (length (filter Not bs)) False @ replicate (length (filter id bs)) True"
proof (induction bs)
  case (Cons b bs)
  show ?case
  proof (cases b)
    case True
    with Cons.prems have "\<forall>x \<in> set bs. x" by (auto simp: le_bool_def)
    then have "filter Not bs = []" "filter id bs = bs" by (auto simp: filter_empty_conv filter_id_conv)
    with Cons True show ?thesis by simp
  qed (use Cons in simp)
qed simp

lemma targets_sorted:
  assumes "des_SchemaVersion document \<ge> SchemaVersion"
  shows "sorted (map (\<lambda>n. dhcp_enabled_in (des_NodeOverrides document) (node_ID n)) (targets_of document selected nodes))"
proof -
  let ?k = "\<lambda>n. dhcp_enabled_in (des_NodeOverrides document) (node_ID n)"
  have "dhcp_before document = (\<lambda>a b. ?k a < ?k b)"
    by (auto simp: dhcp_before_def fun_eq_iff)
  then have "sort_slice (dhcp_before document) xs = sort_key ?k xs" for xs
    by (simp only: sort_slice_sort_key)
  with assms show ?thesis by (simp add: targets_of_def)
qed

lemma targets_one_dhcp:
  assumes "ValidateDesired h document (enabledNodeIDs nodes) = []"
  shows "length (filter (\<lambda>n. dhcp_enabled_in (des_NodeOverrides document) (node_ID n)) (targets_of document selected nodes)) \<le> 1"
proof -
  let ?on = "dhcp_enabled_in (des_NodeOverrides document)"
  have "mset (targets_of document selected nodes) = mset (filter (selects selected) nodes)"
    by (simp add: targets_of_def Let_def)
  then have "mset (filter (\<lambda>n. ?on (node_ID n)) (targets_of document selected nodes)) =
      mset (filter (\<lambda>n. ?on (node_ID n)) (filter (selects selected) nodes))" by (simp only: mset_filter)
  then have "length (filter (\<lambda>n. ?on (node_ID n)) (targets_of document selected nodes)) =
      length (filter (\<lambda>n. ?on (node_ID n)) (filter (selects selected) nodes))" by (rule mset_eq_length)
  also have "\<dots> \<le> length (filter (\<lambda>n. ?on (node_ID n)) (filter node_Enabled nodes))"
    by (induction nodes) (auto simp: selects_def)
  also have "\<dots> = length (filter ?on (map node_ID (filter node_Enabled nodes)))" by (simp add: filter_map o_def)
  also have "\<dots> = length (filter ?on (enabledNodeIDs nodes))"
    by (rule mset_eq_length) (simp add: enabledNodeIDs_def)
  also have "\<dots> \<le> 1"
    using ValidateDesired_parts(5) [OF assms] by (simp add: validate_overrides_count dhcp_enabled_canonical)
  finally show ?thesis .
qed

lemma tasks_match_ids: "tasks_match i targets tasks \<Longrightarrow> map task_NodeID tasks = map pn_NodeID targets \<and>
    map task_Position tasks = map pn_Position targets \<and> map task_EffectiveHash tasks = map pn_EffectiveHash targets"
  unfolding tasks_match_def by (induction rule: list_all2_induct) auto


subsection \<open>A concrete start\<close>

lemma preview_nodes_issues:
  "snd (preview_nodes document sn pr k nodes) = concat (map (\<lambda>n. snd (preview_node document sn pr 0 n)) nodes)"
  by (induction nodes arbitrary: k) (auto simp: Let_def case_prod_unfold preview_node_def split: sum.split)

lemma new_tasks_run:
  assumes "\<And>t. new_id e t = Some (f t)"
  shows "\<exists>tasks. new_tasks i targets e w = (Inr tasks, w\<lparr>w_tick := w_tick w + length targets\<rparr>)"
proof (induction targets arbitrary: w)
  case (Cons target targets)
  obtain tasks where "new_tasks i targets e (w\<lparr>w_tick := Suc (w_tick w)\<rparr>) =
      (Inr tasks, w\<lparr>w_tick := Suc (w_tick w)\<rparr>\<lparr>w_tick := Suc (w_tick w) + length targets\<rparr>)"
    using Cons [of "w\<lparr>w_tick := Suc (w_tick w)\<rparr>"] by auto
  then show ?case by (simp add: run_simps assms)
qed (simp add: ret_apply)

lemma exec_traced_trace: "w_trace (snd (exec_traced ev f e w)) = w_trace w @ [ev]"
  by (auto simp: exec_traced_def bind_def emit_def exec_def call_def Let_def split: sum.split)

lemma create_deployment_run:
  assumes "\<And>t. new_id e t = Some (f t)"
  shows "\<exists>p. w_trace (snd (create_deployment None c r origin rb targets e w)) = w_trace w @ [ECreate p]"
proof -
  have last: "w_trace (snd (case exec_traced (ECreate q) g e v of (Inl err, w') \<Rightarrow> (Inl err, w') | (Inr _, w') \<Rightarrow> ret q e w')) =
      w_trace v @ [ECreate q]" for q g v
    using exec_traced_trace [of "ECreate q" g e v] by (auto simp: ret_apply split: prod.split sum.split)
  obtain tasks where "new_tasks (f (w_tick w)) targets e (w\<lparr>w_tick := Suc (Suc (Suc (w_tick w)))\<rparr>) =
      (Inr tasks, w\<lparr>w_tick := Suc (Suc (Suc (w_tick w))) + length targets\<rparr>)"
    using new_tasks_run [OF assms, of "f (w_tick w)" targets "w\<lparr>w_tick := Suc (Suc (Suc (w_tick w)))\<rparr>"] by auto
  then show ?thesis
    by (simp add: create_deployment_def run_simps assms Let_def systemAudit_def last)
qed


lemma sample_reads:
  "ListNodes sample_uuid sample_published = map rec_Node (db_nodes sample_published)"
  "LatestSnapshots sample_uuid sample_published = db_snapshots sample_published"
  "CapabilityProfiles sample_uuid sample_published = db_profiles sample_published"
  "enabledNodeIDs (map rec_Node (db_nodes sample_published)) = [''a'', ''b'']"
  "ValidID sample_uuid"
  by code_simp+

lemma sample_revision_read:
  "\<exists>rv. RevisionByID sample_uuid sample_published = Inr rv \<and> rev_Document rv = sample_desired \<and> rev_ClusterID rv = sample_uuid"
proof -
  have "case RevisionByID sample_uuid sample_published of
      Inr rv \<Rightarrow> rev_Document rv = sample_desired \<and> rev_ClusterID rv = sample_uuid | Inl _ \<Rightarrow> False"
    by code_simp
  then show ?thesis by (auto split: sum.splits)
qed

lemma sample_node_issues:
  "list_all (\<lambda>i. case Effective sample_desired i of Inl _ \<Rightarrow> False
     | Inr effective \<Rightarrow>
       (let profile = map_of (rev (map (\<lambda>p. (cap_NodeID p, p)) (db_profiles sample_published))) i in
        capability_warning profile (missing_features profile (required_features sample_desired effective)) = None \<and>
        observation_warning sample_desired effective
          (map_of (rev (map (\<lambda>s. (snap_NodeID s, s)) (db_snapshots sample_published))) i) i = None)) [''a'', ''b'']"
  by code_simp

lemma sample_targets_ids: "set (map node_ID (map rec_Node (db_nodes sample_published))) = {''a'', ''b''}"
  by code_simp

lemma sample_preview_valid:
  "preview_Valid (assemble_preview sample_service r sample_desired [] (map rec_Node (db_nodes sample_published)) []
     (db_snapshots sample_published) (db_profiles sample_published))"
proof -
  let ?nodes = "map rec_Node (db_nodes sample_published)"
  have clean: "snd (preview_node sample_desired (db_snapshots sample_published) (db_profiles sample_published) 0 n) = []"
    if "n \<in> set ?nodes" for n
  proof -
    from that sample_targets_ids have "node_ID n \<in> {''a'', ''b''}" by auto
    with sample_node_issues show ?thesis
      by (auto simp: preview_node_def Let_def split: sum.splits)
  qed
  have ne: "targets_of sample_desired [] ?nodes \<noteq> []" by code_simp
  then have "fst (preview_nodes sample_desired sn pr 0 (targets_of sample_desired [] ?nodes)) \<noteq> []" for sn pr
    using preview_nodes_ids [of sample_desired sn pr 0 "targets_of sample_desired [] ?nodes"] by auto
  moreover have "snd (preview_nodes sample_desired (db_snapshots sample_published) (db_profiles sample_published) 0
      (targets_of sample_desired [] ?nodes)) = []"
    using clean by (auto simp: preview_nodes_issues dest: targets_enabled)
  ultimately show ?thesis
    using ne by (simp add: assemble_preview_def Let_def case_prod_unfold explained_Nil no_target_issues_def
      sample_service_def sample_reads sample_desired_valid)
qed

lemma sample_created:
  "\<exists>p. w_trace (snd (startDeployment sample_service None sample_uuid sample_uuid ''manual'' None [] sample_env sample_start)) =
     w_trace sample_start @ [ECreate p]"
proof -
  obtain rv where rv: "RevisionByID sample_uuid sample_published = Inr rv" "rev_Document rv = sample_desired" "rev_ClusterID rv = sample_uuid"
    using sample_revision_read by blast
  have env: "interfere sample_env t d = d" "\<not> db_fault sample_env t" "new_id sample_env t = Some (digits t)" for t d
    by (simp_all add: sample_env_def)
  have start: "w_db sample_start = sample_published" "w_trace sample_start = []" by (simp_all add: sample_start_def)
  have validator: "srv_blockedServiceValidator sample_service = None" by (simp add: sample_service_def)
  let ?p = "assemble_preview sample_service sample_uuid sample_desired [] (map rec_Node (db_nodes sample_published)) []
     (db_snapshots sample_published) (db_profiles sample_published)"
  have "preview_Nodes ?p \<noteq> []"
    using assemble_preview_valid(3,4) [OF sample_preview_valid] by (metis list_all2_Nil2)
  moreover obtain p where "w_trace (snd (create_deployment None sample_uuid sample_uuid ''manual'' None (preview_Nodes ?p) sample_env
      (sample_start\<lparr>w_db := sample_published, w_tick := Suc (Suc (Suc (Suc (w_tick sample_start))))\<rparr>))) = [ECreate p]"
    using create_deployment_run [OF env(3), of "sample_uuid" sample_uuid "''manual''" None "preview_Nodes ?p"
      "sample_start\<lparr>w_db := sample_published, w_tick := Suc (Suc (Suc (Suc (w_tick sample_start))))\<rparr>"] start(2) by auto
  ultimately show ?thesis
    using sample_preview_valid rv
    by (simp add: startDeployment_def Service_Revision_def sample_reads previewDocument_def list_query_def catalogue_issues_def
      validator run_simps query_run env start Let_def)
qed


subsection \<open>Properties\<close>

lemma startDeployment_created:
  assumes "\<forall>v c ids. srv_blockedServiceValidator s = Some v \<longrightarrow> silent (v c ids)"
    and "w_trace (snd (startDeployment s actor c r origin rb selected e w)) = w_trace w @ ts" "ECreate p \<in> set ts"
  shows "\<exists>rv d nodes sn pr targets. ts = [ECreate p] \<and> RevisionByID r d = Inr rv \<and> rev_ClusterID rv = c \<and>
    created_from c r origin rb targets p \<and> ValidateDesired (srv_host s) (rev_Document rv) (enabledNodeIDs nodes) = [] \<and>
    targets = fst (preview_nodes (rev_Document rv) sn pr 0 (targets_of (rev_Document rv) selected nodes)) \<and>
    list_all2 (deployable (rev_Document rv) sn pr) (targets_of (rev_Document rv) selected nodes) targets"
proof -
  have "validated_service s" using assms(1) by (simp add: validated_service_def)
  from emitsD [OF validated_service.startDeployment_trace [OF this] assms(2)] assms(3)
  obtain q rv d nodes sn pr targets where *: "ts = [ECreate q]" "RevisionByID r d = Inr rv" "rev_ClusterID rv = c"
    "created_from c r origin rb targets q" "ValidateDesired (srv_host s) (rev_Document rv) (enabledNodeIDs nodes) = []"
    "targets = fst (preview_nodes (rev_Document rv) sn pr 0 (targets_of (rev_Document rv) selected nodes))"
    "list_all2 (deployable (rev_Document rv) sn pr) (targets_of (rev_Document rv) selected nodes) targets"
    by (elim disjE) (simp, blast)
  moreover from *(1) assms(3) have "q = p" by simp
  ultimately show ?thesis by blast
qed





end
