(* ===== verification/Catalogue_Service.thy ===== *)
theory Catalogue_Service
  imports Inventory Commits
begin

text \<open>
  The methods of the inventory service that read metadata from nodes
  (\<open>internal/inventory/blocked_services.go\<close>, \<open>blocklists.go\<close>, \<open>dhcp.go\<close>) and
  \<open>RefreshFilters\<close> of \<open>service.go\<close>. The two caches are part of the world. The goroutines that
  read the nodes of a cluster write one element of a slice and one cache entry each, by node,
  so they are run one after the other here; interference between their repository calls is that
  of the environment.
\<close>

subsection \<open>Reading through the cache\<close>

text \<open>Times are nanoseconds. \<open>NewService\<close> sets the time to live of the two caches.\<close>

definition catalogueTTL :: time where
  "catalogueTTL = 15 * 60 * 1000000000"

definition filterListTTL :: time where
  "filterListTTL = 0"

definition zero_profile :: CapabilityProfile where
  "zero_profile = \<lparr>cap_NodeID = [], cap_ProductVersion = [], cap_Compatibility = [], cap_SchemaVersion = 0,
     cap_Features = [], cap_Warnings = [], cap_RefreshedAt = 0\<rparr>"

definition profile_of :: "CapabilityProfile list \<Rightarrow> string \<Rightarrow> CapabilityProfile" where
  "profile_of profiles nodeID =
    (case map_of (rev (map (\<lambda>p. (cap_NodeID p, p)) profiles)) nodeID of None \<Rightarrow> zero_profile | Some p \<Rightarrow> p)"

definition cached_catalogue :: "string \<Rightarrow> catalogueCacheEntry option action" where
  "cached_catalogue nodeID = (\<lambda>e w. (Inr (map_of (w_catalogues w) nodeID), w))"

definition store_catalogue :: "string \<Rightarrow> catalogueCacheEntry \<Rightarrow> unit action" where
  "store_catalogue nodeID entry = (\<lambda>e w. (Inr (), w\<lparr>w_catalogues := AList.update nodeID entry (w_catalogues w)\<rparr>))"

definition cached_lists :: "string \<Rightarrow> filterListCacheEntry option action" where
  "cached_lists key = (\<lambda>e w. (Inr (map_of (w_filterLists w) key), w))"

definition store_lists :: "string \<Rightarrow> filterListCacheEntry \<Rightarrow> unit action" where
  "store_lists key entry = (\<lambda>e w. (Inr (), w\<lparr>w_filterLists := AList.update key entry (w_filterLists w)\<rparr>))"

definition fresh_catalogue :: "BlockedServicesCatalogueNode \<Rightarrow> time \<Rightarrow> NodeBlockedServicesCatalogue \<Rightarrow> BlockedServicesCatalogueNode" where
  "fresh_catalogue result at catalogue = result\<lparr>cn_Status := ''available'', cn_FetchedAt := Some at, cn_catalogue := catalogue,
     cn_ServiceCount := length (ncat_Services catalogue)\<rparr>"

definition read_node_catalogue :: "(nat \<Rightarrow> NodeProbeRequest \<Rightarrow> string \<Rightarrow> go_error + NodeBlockedServicesCatalogue) \<Rightarrow>
    Node \<Rightarrow> string \<Rightarrow> catalogueCacheEntry option \<Rightarrow> time \<Rightarrow> BlockedServicesCatalogueNode \<Rightarrow> BlockedServicesCatalogueNode action" where
  "read_node_catalogue reader node key cached at result =
     bind (attempt (query (NodeRecordByID (node_ID node)))) (\<lambda>r.
     case r of
       Inl err \<Rightarrow> ret (staleCatalogueResult (result\<lparr>cn_ErrorCode := errorCode err\<rparr>) cached key)
     | Inr record \<Rightarrow>
       bind (attempt (Decrypt (node_ID node) (secret_Credentials (rec_Secrets record)))) (\<lambda>c.
       case c of
         Inl _ \<Rightarrow> ret (staleCatalogueResult (result\<lparr>cn_ErrorCode := kind_string ErrorInternal\<rparr>) cached key)
       | Inr credentials \<Rightarrow>
         bind (tick (\<lambda>e t. reader t (probe_request record credentials) (node_Version node))) (\<lambda>read.
         case read of
           Inl err \<Rightarrow>
             (let result = result\<lparr>cn_ErrorCode := errorCode err\<rparr>;
                  result = (if cn_ErrorCode result = kind_string ErrorCapability then result\<lparr>cn_Status := ''unsupported''\<rparr> else result)
              in ret (staleCatalogueResult result cached key))
         | Inr catalogue \<Rightarrow>
             (let catalogue = canonicalNodeCatalogue catalogue in
              bind (store_catalogue (node_ID node) \<lparr>cce_key = key, cce_catalogue = catalogue, cce_fetchedAt = at\<rparr>) (\<lambda>_.
              ret (fresh_catalogue result at catalogue))))))"

definition blockedServicesCatalogueForNode :: "Node \<Rightarrow> CapabilityProfile \<Rightarrow> BlockedServicesCatalogueNode action" where
  "blockedServicesCatalogueForNode node profile =
    (let result = \<lparr>cn_NodeID = node_ID node, cn_NodeName = node_Name node, cn_Version = node_Version node, cn_Status = ''error'',
           cn_ServiceCount = 0, cn_FetchedAt = None, cn_ErrorCode = [], cn_catalogue = empty_catalogue\<rparr> in
     bind (capability read_blocked_services) (\<lambda>c.
     case c of
       None \<Rightarrow> ret (result\<lparr>cn_Status := ''unsupported'', cn_ErrorCode := ''CAPABILITY_UNAVAILABLE''\<rparr>)
     | Some reader \<Rightarrow>
       (let key = catalogueCacheKey (node_Version node) profile in
        bind now (\<lambda>at.
        bind (cached_catalogue (node_ID node)) (\<lambda>cached.
        case cached of
          Some entry \<Rightarrow>
            if cce_key entry = key \<and> at - cce_fetchedAt entry < catalogueTTL
            then ret (fresh_catalogue result (cce_fetchedAt entry) (cce_catalogue entry))
            else read_node_catalogue reader node key cached at result
        | None \<Rightarrow> read_node_catalogue reader node key cached at result)))))"

fun catalogue_nodes :: "CapabilityProfile list \<Rightarrow> Node list \<Rightarrow> BlockedServicesCatalogueNode list action" where
  "catalogue_nodes profiles [] = ret []"
| "catalogue_nodes profiles (node # nodes) =
     bind (blockedServicesCatalogueForNode node (profile_of profiles (node_ID node))) (\<lambda>item.
     bind (catalogue_nodes profiles nodes) (\<lambda>items. ret (item # items)))"

definition Inventory_BlockedServicesCatalogue :: "string \<Rightarrow> BlockedServicesCatalogue action" where
  "Inventory_BlockedServicesCatalogue clusterID =
    (if \<not> ValidID clusterID then fail (Validation ''clusterId'' ''must be a valid UUID'')
     else bind (query (ClusterByID clusterID)) (\<lambda>_.
       bind (list_query (ListNodes clusterID)) (\<lambda>nodes.
       bind (list_query (CapabilityProfiles clusterID)) (\<lambda>profiles.
       bind now (\<lambda>at.
       bind (catalogue_nodes profiles (filter node_Enabled nodes)) (\<lambda>items.
       bind (tick map_order) (\<lambda>order.
       ret (mergeBlockedServicesCatalogue order
         \<lparr>bsc_Services = [], bsc_Groups = [], bsc_Nodes = items, bsc_GeneratedAt = at,
          bsc_Stale = list_ex (\<lambda>i. cn_Status i = ''stale'') items,
          bsc_Partial = list_ex (\<lambda>i. cn_Status i \<noteq> ''available'') items\<rparr>))))))))"

definition ValidateBlockedServiceIDs :: "string \<Rightarrow> string list \<Rightarrow> ValidationIssue list action" where
  "ValidateBlockedServiceIDs clusterID ids =
    (if ids = [] then ret []
     else bind (Inventory_BlockedServicesCatalogue clusterID) (\<lambda>catalogue. ret (blocked_service_issues catalogue ids)))"


subsection \<open>Filter lists\<close>

definition read_node_lists :: "host \<Rightarrow> (nat \<Rightarrow> NodeProbeRequest \<Rightarrow> string \<Rightarrow> go_error + FilterListMetadata list) \<Rightarrow>
    Node \<Rightarrow> string \<Rightarrow> string \<Rightarrow> filterListCacheEntry option \<Rightarrow> time \<Rightarrow> FilterListNodePresentation \<Rightarrow> FilterListNodePresentation action" where
  "read_node_lists h read node key cacheKey cached at result =
     bind (attempt (query (NodeRecordByID (node_ID node)))) (\<lambda>r.
     case r of
       Inl err \<Rightarrow> ret (staleBlocklistResult (result\<lparr>fln_ErrorCode := errorCode err\<rparr>) cached key)
     | Inr record \<Rightarrow>
       bind (attempt (Decrypt (node_ID node) (secret_Credentials (rec_Secrets record)))) (\<lambda>c.
       case c of
         Inl _ \<Rightarrow> ret (staleBlocklistResult (result\<lparr>fln_ErrorCode := kind_string ErrorInternal\<rparr>) cached key)
       | Inr credentials \<Rightarrow>
         bind (tick (\<lambda>e t. read t (probe_request record credentials) (node_Version node))) (\<lambda>listed.
         case listed of
           Inl err \<Rightarrow>
             (let result = result\<lparr>fln_ErrorCode := errorCode err\<rparr>;
                  result = (if fln_ErrorCode result = kind_string ErrorCapability then result\<lparr>fln_Status := ''unsupported''\<rparr> else result)
              in ret (staleBlocklistResult result cached key))
         | Inr items \<Rightarrow>
             (let items = canonicalFilterLists h items in
              bind (store_lists cacheKey \<lparr>flc_key = key, flc_lists = items, flc_fetchedAt = at\<rparr>) (\<lambda>_.
              ret (result\<lparr>fln_Status := ''available'', fln_FetchedAt := Some at, fln_Lists := items\<rparr>))))))"

definition filterListPresentationForNode :: "host \<Rightarrow> Node \<Rightarrow> CapabilityProfile \<Rightarrow> bool \<Rightarrow> FilterListNodePresentation action" where
  "filterListPresentationForNode h node profile whitelist =
    (let result = \<lparr>fln_NodeID = node_ID node, fln_NodeName = node_Name node, fln_Version = node_Version node, fln_Status = ''error'',
           fln_FetchedAt = None, fln_ErrorCode = [], fln_Lists = []\<rparr> in
     bind (capability (\<lambda>e. read_filter_lists e whitelist)) (\<lambda>c.
     case c of
       None \<Rightarrow> ret (result\<lparr>fln_Status := ''unsupported'', fln_ErrorCode := ''CAPABILITY_UNAVAILABLE''\<rparr>)
     | Some read \<Rightarrow>
       (let key = metadata_key ''filtering'' (node_Version node) profile;
            cacheKey = node_ID node @ ''|'' @ format_bool whitelist in
        bind now (\<lambda>at.
        bind (cached_lists cacheKey) (\<lambda>cached.
        case cached of
          Some entry \<Rightarrow>
            if flc_key entry = key \<and> at - flc_fetchedAt entry < filterListTTL
            then ret (result\<lparr>fln_Status := ''available'', fln_FetchedAt := Some (flc_fetchedAt entry), fln_Lists := flc_lists entry\<rparr>)
            else read_node_lists h read node key cacheKey cached at result
        | None \<Rightarrow> read_node_lists h read node key cacheKey cached at result)))))"

fun presentation_nodes :: "host \<Rightarrow> bool \<Rightarrow> CapabilityProfile list \<Rightarrow> Node list \<Rightarrow> FilterListNodePresentation list action" where
  "presentation_nodes h whitelist profiles [] = ret []"
| "presentation_nodes h whitelist profiles (node # nodes) =
     bind (filterListPresentationForNode h node (profile_of profiles (node_ID node)) whitelist) (\<lambda>item.
     bind (presentation_nodes h whitelist profiles nodes) (\<lambda>items. ret (item # items)))"

definition filterListPresentation :: "host \<Rightarrow> string \<Rightarrow> bool \<Rightarrow> FilterListPresentation action" where
  "filterListPresentation h clusterID whitelist =
    (if \<not> ValidID clusterID then fail (Validation ''clusterId'' ''must be a valid UUID'')
     else bind (query (ClusterByID clusterID)) (\<lambda>_.
       bind (list_query (ListNodes clusterID)) (\<lambda>nodes.
       bind (list_query (CapabilityProfiles clusterID)) (\<lambda>profiles.
       bind now (\<lambda>at.
       bind (presentation_nodes h whitelist profiles (filter node_Enabled nodes)) (\<lambda>items.
       ret \<lparr>flp_Nodes = items, flp_GeneratedAt = at, flp_Stale = list_ex (\<lambda>i. fln_Status i = ''stale'') items,
            flp_Partial = list_ex (\<lambda>i. fln_Status i \<noteq> ''available'') items\<rparr>))))))"

definition BlocklistPresentation :: "host \<Rightarrow> string \<Rightarrow> FilterListPresentation action" where
  "BlocklistPresentation h clusterID = filterListPresentation h clusterID False"

definition AllowlistPresentation :: "host \<Rightarrow> string \<Rightarrow> FilterListPresentation action" where
  "AllowlistPresentation h clusterID = filterListPresentation h clusterID True"


subsection \<open>Audited operations on one node\<close>

definition inventoryAudit :: "Actor \<Rightarrow> string \<Rightarrow> string \<Rightarrow> json gomap \<Rightarrow> time \<Rightarrow> AuditEvent action" where
  "inventoryAudit actor action resourceID metadata at =
     bind NewID_act (\<lambda>i. ret
       \<lparr>audit_ID = i, audit_ActorType = ''user'', audit_ActorUserID = Some (actor_UserID actor), audit_Action = action,
        audit_ResourceType = ''node'', audit_ResourceID = Some resourceID, audit_RequestID = actor_RequestID actor,
        audit_Metadata = metadata, audit_CreatedAt = at\<rparr>)"

text \<open>The trace has an audit event once its transaction has committed.\<close>

definition record_audit :: "AuditEvent \<Rightarrow> unit action" where
  "record_audit event = bind (exec (RecordAuditEvent event)) (\<lambda>_. emit (EAudited event))"

definition stored_credentials :: "string \<Rightarrow> NodeRecord \<Rightarrow> NodeCredentials action" where
  "stored_credentials nodeID record = Decrypt nodeID (secret_Credentials (rec_Secrets record))"

definition RefreshFilters :: "Actor \<Rightarrow> string \<Rightarrow> bool \<Rightarrow> unit action" where
  "RefreshFilters actor nodeID whitelist =
    (if \<not> ValidID nodeID then fail (Validation ''nodeId'' ''must be a valid UUID'')
     else bind (capability refresh_filters) (\<lambda>c.
     case c of
       None \<Rightarrow> fail (NewError ErrorCapability ''filter refresh is unavailable'')
     | Some refresher \<Rightarrow>
       bind (query (NodeRecordByID nodeID)) (\<lambda>record.
       if \<not> node_Enabled (rec_Node record) \<or> node_MaintenanceMode (rec_Node record)
       then fail (NewError ErrorConflict ''filter refresh requires an enabled node outside maintenance'')
       else bind (stored_credentials nodeID record) (\<lambda>credentials.
       bind now (\<lambda>at.
       bind (inventoryAudit actor ''filters.refresh_requested'' nodeID [(''whitelist'', JBool whitelist)] at) (\<lambda>requested.
       bind (record_audit requested) (\<lambda>_.
       bind (emit (ERefresh (probe_request record credentials) whitelist)) (\<lambda>_.
       bind (tick (\<lambda>e t. refresher t (probe_request record credentials) whitelist)) (\<lambda>refreshErr.
       bind now (\<lambda>at.
       bind (inventoryAudit actor (case refreshErr of None \<Rightarrow> ''filters.refresh_succeeded'' | Some _ \<Rightarrow> ''filters.refresh_failed'') nodeID
         [(''whitelist'', JBool whitelist), (''errorCode'', JString (case refreshErr of None \<Rightarrow> [] | Some err \<Rightarrow> errorCode err))] at) (\<lambda>completed.
       bind (record_audit completed) (\<lambda>_.
       case refreshErr of None \<Rightarrow> ret () | Some err \<Rightarrow> fail err))))))))))))"

definition dhcpNodeRequest :: "string \<Rightarrow> bool \<Rightarrow> (NodeRecord \<times> NodeProbeRequest) action" where
  "dhcpNodeRequest nodeID mutationGuard =
    (if \<not> ValidID nodeID then fail (Validation ''nodeId'' ''must be a valid UUID'')
     else bind (query (NodeRecordByID nodeID)) (\<lambda>record.
       if \<not> node_Enabled (rec_Node record) then fail (NewError ErrorConflict ''DHCP inspection requires an enabled node'')
       else if mutationGuard \<and> node_MaintenanceMode (rec_Node record)
       then fail (NewError ErrorConflict ''active DHCP detection requires a node outside maintenance'')
       else bind (stored_credentials nodeID record) (\<lambda>credentials. ret (record, probe_request record credentials))))"

definition Inventory_DHCPInterfaces :: "string \<Rightarrow> DHCPInterfaces action" where
  "Inventory_DHCPInterfaces nodeID =
    (if \<not> ValidID nodeID then fail (Validation ''nodeId'' ''must be a valid UUID'')
     else bind (capability read_dhcp_interfaces) (\<lambda>c.
     case c of
       None \<Rightarrow> fail (NewError ErrorCapability ''DHCP interface discovery is unavailable'')
     | Some reader \<Rightarrow>
       bind (dhcpNodeRequest nodeID False) (\<lambda>(record, request).
       bind (tick (\<lambda>e t. reader t request)) (\<lambda>read.
       bind (lift_err read) (\<lambda>interfaces.
       bind now (\<lambda>at.
       ret \<lparr>dis_NodeID = nodeID, dis_NodeName = node_Name (rec_Node record), dis_Interfaces = present_interfaces interfaces,
            dis_FetchedAt = at\<rparr>))))))"

definition FindActiveDHCP :: "Actor \<Rightarrow> string \<Rightarrow> string \<Rightarrow> DHCPActiveCheckResult action" where
  "FindActiveDHCP actor nodeID interfaceName =
    (let interfaceName = TrimSpace interfaceName in
     case validateInterfaceName interfaceName of
       Some err \<Rightarrow> fail err
     | None \<Rightarrow>
       bind (capability find_active_dhcp) (\<lambda>c.
       case c of
         None \<Rightarrow> fail (NewError ErrorCapability ''active DHCP detection is unavailable'')
       | Some checker \<Rightarrow>
         bind (dhcpNodeRequest nodeID True) (\<lambda>(record, request).
         bind now (\<lambda>at.
         bind (inventoryAudit actor ''dhcp.active_check_requested'' nodeID [(''interfaceName'', JString interfaceName)] at) (\<lambda>requested.
         bind (record_audit requested) (\<lambda>_.
         bind (emit (EDhcpCheck request interfaceName)) (\<lambda>_.
         bind (tick (\<lambda>e t. checker t request interfaceName)) (\<lambda>check.
         bind now (\<lambda>at.
         (let status = (case check of Inl _ \<Rightarrow> ''error'' | Inr c \<Rightarrow> aggregateDHCPCheckStatus c);
              action = (case check of Inl _ \<Rightarrow> ''dhcp.active_check_failed'' | Inr _ \<Rightarrow> ''dhcp.active_check_succeeded'');
              metadata = [(''interfaceName'', JString interfaceName), (''status'', JString status)] @
                (case check of Inl err \<Rightarrow> [(''errorCode'', JString (errorCode err))] | Inr _ \<Rightarrow> []) in
          bind (inventoryAudit actor action nodeID metadata at) (\<lambda>completed.
          bind (record_audit completed) (\<lambda>_.
          bind (lift_err check) (\<lambda>c.
          ret \<lparr>dar_NodeID = nodeID, dar_NodeName = node_Name (rec_Node record), dar_InterfaceName = interfaceName,
               dar_Status = status, dar_IPv4 = dac_IPv4OtherServer c, dar_IPv4StaticIP = dac_IPv4StaticIP c,
               dar_IPv6 = dac_IPv6OtherServer c, dar_CheckedAt = audit_CreatedAt completed\<rparr>)))))))))))))"


subsection \<open>Reading metadata leaves the trace and the store alone\<close>

lemma silent_cache [quiet]:
  "silent (cached_catalogue i)" "silent (store_catalogue i x)" "silent (cached_lists k)" "silent (store_lists k y)"
  by (simp_all add: silent_def emits_def cached_catalogue_def store_catalogue_def cached_lists_def store_lists_def)

lemma commits_cache [committing]:
  "commits (cached_catalogue i)" "commits (store_catalogue i x)" "commits (cached_lists k)" "commits (store_lists k y)"
  by (simp_all add: commits_def cached_catalogue_def store_catalogue_def cached_lists_def store_lists_def)

lemma silent_catalogue_node: "silent (blockedServicesCatalogueForNode node profile)"
  unfolding blockedServicesCatalogueForNode_def read_node_catalogue_def Let_def
  by (auto intro!: quiet split: option.split sum.split)

lemma silent_catalogue_nodes: "silent (catalogue_nodes profiles nodes)"
  by (induction nodes) (auto intro!: quiet silent_catalogue_node)

lemma silent_ValidateBlockedServiceIDs [quiet]: "silent (ValidateBlockedServiceIDs c ids)"
  unfolding ValidateBlockedServiceIDs_def Inventory_BlockedServicesCatalogue_def
  by (auto intro!: quiet silent_catalogue_nodes)

lemma commits_catalogue_node: "commits (blockedServicesCatalogueForNode node profile)"
  unfolding blockedServicesCatalogueForNode_def read_node_catalogue_def Let_def
  by (auto intro!: committing split: option.split sum.split)

lemma commits_catalogue_nodes: "commits (catalogue_nodes profiles nodes)"
  by (induction nodes) (auto intro!: committing commits_catalogue_node)

lemma commits_ValidateBlockedServiceIDs [committing]: "commits (ValidateBlockedServiceIDs c ids)"
  unfolding ValidateBlockedServiceIDs_def Inventory_BlockedServicesCatalogue_def
  by (auto intro!: committing commits_catalogue_nodes)

lemma commits_filter_node: "commits (filterListPresentationForNode h node profile wl)"
  unfolding filterListPresentationForNode_def read_node_lists_def Let_def
  by (auto intro!: committing split: option.split sum.split)

lemma commits_presentation_nodes: "commits (presentation_nodes h wl profiles nodes)"
  by (induction nodes) (auto intro!: committing commits_filter_node)

lemma commits_filterListPresentation [committing]: "commits (filterListPresentation h c wl)"
  unfolding filterListPresentation_def by (auto intro!: committing commits_presentation_nodes)

lemma commits_record_audit [committing]: "commits (record_audit event)"
  unfolding record_audit_def by (intro committing commits_exec) (rule store_writes)

lemma commits_inventoryAudit [committing]: "commits (inventoryAudit actor action i m at)"
  unfolding inventoryAudit_def by (auto intro!: committing)

lemma commits_dhcpNodeRequest [committing]: "commits (dhcpNodeRequest i g)"
  unfolding dhcpNodeRequest_def stored_credentials_def by (auto intro!: committing)

lemma commits_RefreshFilters [committing]: "commits (RefreshFilters actor i wl)"
  unfolding RefreshFilters_def stored_credentials_def by (auto intro!: committing split: option.split)

lemma commits_DHCPInterfaces [committing]: "commits (Inventory_DHCPInterfaces i)"
  unfolding Inventory_DHCPInterfaces_def by (auto intro!: committing split: option.split)

lemma commits_FindActiveDHCP [committing]: "commits (FindActiveDHCP actor i name)"
  unfolding FindActiveDHCP_def Let_def by (auto intro!: committing split: option.split)


subsection \<open>The audited refresh\<close>

lemma after_record_audit:
  assumes "\<And>err. Q (Inl err) us" "after (us @ [EAudited event]) (f ()) Q"
  shows "after us (bind (record_audit event) f) Q"
  unfolding record_audit_def after_def
proof (rule emits_bind [where P = "\<lambda>r ts. (\<exists>err. r = Inl err \<and> ts = []) \<or> (r = Inr () \<and> ts = [EAudited event])"
      and R = "\<lambda>x r ts. Q r (us @ [EAudited event] @ ts)"])
  show "emits (bind (exec (RecordAuditEvent event)) (\<lambda>_. emit (EAudited event)))
     (\<lambda>r ts. (\<exists>err. r = Inl err \<and> ts = []) \<or> (r = Inr () \<and> ts = [EAudited event]))"
    by (rule emits_bind [where P = "\<lambda>r ts. ts = []" and R = "\<lambda>x r ts. r = Inr () \<and> ts = [EAudited event]"])
       (auto intro: emits_emit emits_silent quiet)
qed (use assms in \<open>auto simp: after_def\<close>)

lemma silent_inventoryAudit [quiet]: "silent (inventoryAudit actor action i m at)"
  unfolding inventoryAudit_def by (intro quiet)

text \<open>What is known of the event that \<open>inventoryAudit\<close> builds.\<close>

definition audits :: "Actor \<Rightarrow> string \<Rightarrow> string \<Rightarrow> AuditEvent \<Rightarrow> bool" where
  "audits actor action i event \<longleftrightarrow> audit_Action event = action \<and> audit_ResourceID event = Some i \<and>
     audit_ActorUserID event = Some (actor_UserID actor) \<and> audit_RequestID event = actor_RequestID actor"

lemma after_inventoryAudit:
  assumes "\<And>err. Q (Inl err) us" "\<And>event. audits actor action i event \<Longrightarrow> after us (f event) Q"
  shows "after us (bind (inventoryAudit actor action i m at) f) Q"
  unfolding after_def
proof (rule emits_bind [where P = "\<lambda>r ts. ts = [] \<and> (\<forall>x. r = Inr x \<longrightarrow> audits actor action i x)" and R = "\<lambda>x r ts. Q r (us @ ts)"])
  show "emits (inventoryAudit actor action i m at) (\<lambda>r ts. ts = [] \<and> (\<forall>x. r = Inr x \<longrightarrow> audits actor action i x))"
    unfolding inventoryAudit_def
    by (rule emits_after, rule after_silent [OF silent_NewID]) (auto intro: after_ret simp: audits_def)
qed (use assms in \<open>auto simp: after_def\<close>)

text \<open>
  The course of a refresh: nothing, the request recorded, then the refresh, then its outcome
  recorded; only the last is a success.
\<close>

definition refresh_course :: "Actor \<Rightarrow> string \<Rightarrow> bool \<Rightarrow> go_error + unit \<Rightarrow> event list \<Rightarrow> bool" where
  "refresh_course actor nodeID whitelist r ts \<longleftrightarrow>
     (\<exists>requested completed req. audits actor ''filters.refresh_requested'' nodeID requested \<and>
        ((\<exists>err. r = Inl err) \<and> ts \<in> {[], [EAudited requested], [EAudited requested, ERefresh req whitelist]} \<or>
         (\<exists>err. r = Inl err) \<and> ts = [EAudited requested, ERefresh req whitelist, EAudited completed] \<and>
           audits actor ''filters.refresh_failed'' nodeID completed \<or>
         r = Inr () \<and> ts = [EAudited requested, ERefresh req whitelist, EAudited completed] \<and>
           audits actor ''filters.refresh_succeeded'' nodeID completed))"

lemma refresh_course_fail:
  "refresh_course actor i wl (Inl err) []"
  "audits actor ''filters.refresh_requested'' i a \<Longrightarrow> refresh_course actor i wl (Inl err) [EAudited a]"
  "audits actor ''filters.refresh_requested'' i a \<Longrightarrow> refresh_course actor i wl (Inl err) [EAudited a, ERefresh req wl]"
proof -
  have "\<exists>a. audits actor action i a" for action
    by (rule exI [of _ "\<lparr>audit_ID = [], audit_ActorType = [], audit_ActorUserID = Some (actor_UserID actor), audit_Action = action,
      audit_ResourceType = [], audit_ResourceID = Some i, audit_RequestID = actor_RequestID actor, audit_Metadata = [], audit_CreatedAt = 0\<rparr>"])
      (simp add: audits_def)
  then show "refresh_course actor i wl (Inl err) []" by (auto simp: refresh_course_def)
qed (auto simp: refresh_course_def)

lemma refresh_course_end:
  "audits actor ''filters.refresh_requested'' i a \<Longrightarrow> audits actor ''filters.refresh_succeeded'' i b \<Longrightarrow>
     refresh_course actor i wl (Inr ()) [EAudited a, ERefresh req wl, EAudited b]"
  "audits actor ''filters.refresh_requested'' i a \<Longrightarrow> audits actor ''filters.refresh_failed'' i b \<Longrightarrow>
     refresh_course actor i wl (Inl err) [EAudited a, ERefresh req wl, EAudited b]"
  by (auto simp: refresh_course_def)

lemma RefreshFilters_course: "emits (RefreshFilters actor i wl) (refresh_course actor i wl)"
  unfolding RefreshFilters_def stored_credentials_def now_def
  by (rule emits_after)
     (auto intro!: after_if after_silent after_query after_tick after_inventoryAudit after_record_audit after_emit after_fail after_ret
        refresh_course_fail refresh_course_end quiet split: option.split)

text \<open>
  A filter refresh never reaches a node unrecorded: whatever the environment does, the
  refresh is preceded by the committed audit record of the request, under the name of the
  requesting user, and the method succeeds only after the successful outcome is on record, too.
\<close>

lemma RefreshFilters_audited:
  "\<exists>ts. w_trace (snd (RefreshFilters actor nodeID whitelist e w)) = w_trace w @ ts \<and>
     refresh_course actor nodeID whitelist (fst (RefreshFilters actor nodeID whitelist e w)) ts"
  using RefreshFilters_course unfolding emits_def by blast

end
