(* ===== verification/Reconciler.thy ===== *)
theory Reconciler
  imports Service_Properties Catalogue_Service Store_Properties
begin

text \<open>
  The drift reconciler (\<open>internal/controlplane/reconciler.go\<close>): one pass over the clusters, the
  evaluation of a node against its active revision, and the deployment that enforces it. As in the
  executor, the observer is a parameter and its calls are part of the trace.
\<close>

subsection \<open>One pass\<close>

text \<open>An update of the convergence whose error the code drops, at the time of the call.\<close>

definition set_convergence :: "string \<Rightarrow> Convergence \<Rightarrow> unit action" where
  "set_convergence nodeID status =
     bind now (\<lambda>at. bind (attempt (exec (UpdateNodeConvergence nodeID status at))) (\<lambda>_. ret ()))"

definition converged_node :: "Cluster \<Rightarrow> Revision \<Rightarrow> Node \<Rightarrow> string \<Rightarrow> time \<Rightarrow> unit action" where
  "converged_node cluster revision node requestID at =
     bind (systemAudit ''drift.resolved'' ''node'' (node_ID node) requestID
        [(''clusterId'', JString (cluster_ID cluster)), (''revisionId'', JString (rev_ID revision)),
         (''resolution'', JString ''observed_converged'')] at) (\<lambda>event.
     bind (call (ResolveNodeDrift (node_ID node) ''observed_converged'' at event)) (\<lambda>_.
     exec (UpdateNodeConvergence (node_ID node) ConvConverged at)))"

definition enforce_drift :: "service \<Rightarrow> Cluster \<Rightarrow> Revision \<Rightarrow> Node \<Rightarrow> DriftEvent \<Rightarrow> unit action" where
  "enforce_drift s cluster revision node stored =
    (if cluster_ReconciliationPolicy cluster \<noteq> ReconciliationEnforce \<or> drift_ReconciliationStatus stored \<noteq> ReconPending
     then ret ()
     else bind (attempt (StartReconciliation s (cluster_ID cluster) (rev_ID revision) (node_ID node))) (\<lambda>r.
       case r of
         Inl err \<Rightarrow> bind (attempt (exec (UpdateDriftReconciliation (drift_ID stored) ReconFailed None))) (\<lambda>_. fail err)
       | Inr deployment \<Rightarrow> exec (UpdateDriftReconciliation (drift_ID stored) ReconEnforcing (Some (dep_ID deployment)))))"

definition drift_item :: "string \<Rightarrow> Cluster \<Rightarrow> Revision \<Rightarrow> Node \<Rightarrow> string \<Rightarrow> Snapshot \<Rightarrow> Difference list \<Rightarrow> time \<Rightarrow> DriftEvent" where
  "drift_item i cluster revision node desiredHash snapshot differences at =
    \<lparr>drift_ID = i, drift_ClusterID = cluster_ID cluster, drift_NodeID = node_ID node, drift_DesiredRevisionID = rev_ID revision,
     drift_DesiredHash = desiredHash, drift_ObservedSnapshotID = snap_ID snapshot, drift_ObservedHash = snap_CanonicalHash snapshot,
     drift_Fingerprint = DriftFingerprint (rev_ID revision) desiredHash (snap_CanonicalHash snapshot), drift_Status = DriftOpen,
     drift_Policy = cluster_ReconciliationPolicy cluster,
     drift_ReconciliationStatus = (if cluster_ReconciliationPolicy cluster = ReconciliationAlert then ReconAlerted else ReconPending),
     drift_Differences = differences, drift_DetectedAt = at, drift_LastSeenAt = at, drift_ResolvedAt = None,
     drift_Resolution = [], drift_RelatedDeploymentID = None\<rparr>"

definition drifted_node :: "service \<Rightarrow> Cluster \<Rightarrow> Revision \<Rightarrow> Node \<Rightarrow> string \<Rightarrow> Snapshot \<Rightarrow> Difference list \<Rightarrow> string \<Rightarrow> time \<Rightarrow> unit action" where
  "drifted_node s cluster revision node desiredHash snapshot differences requestID at =
     bind (exec (UpdateNodeConvergence (node_ID node) ConvDrifted at)) (\<lambda>_.
     bind NewID_act (\<lambda>i.
     bind (systemAudit ''drift.detected'' ''drift_event'' i requestID
        [(''clusterId'', JString (cluster_ID cluster)), (''nodeId'', JString (node_ID node)), (''revisionId'', JString (rev_ID revision)),
         (''policy'', JString (cluster_ReconciliationPolicy cluster)), (''differenceCount'', JInt (int (length differences)))] at) (\<lambda>event.
     bind (call (UpsertDriftEvent (drift_item i cluster revision node desiredHash snapshot differences at) event)) (\<lambda>(stored, _).
     enforce_drift s cluster revision node stored))))"

definition evaluateNode :: "observe \<Rightarrow> service \<Rightarrow> Cluster \<Rightarrow> Revision \<Rightarrow> Node \<Rightarrow> unit action" where
  "evaluateNode obs s cluster revision node =
     bind (lift_err (Effective (rev_Document revision) (node_ID node))) (\<lambda>effective.
     let desiredHash = snd (Marshal effective) in
     bind (observe_node obs (node_ID node)) (\<lambda>r.
     case r of
       Inl err \<Rightarrow> bind (set_convergence (node_ID node) ConvObservationFailed) (\<lambda>_. fail err)
     | Inr snapshot \<Rightarrow>
       (case snap_Document snapshot of
          None \<Rightarrow> set_convergence (node_ID node) ConvObservationFailed
        | Some document \<Rightarrow>
          let differences = managedDifferences effective (ProjectDocument document (rev_SchemaVersion revision)) in
          bind NewID_act (\<lambda>requestID.
          bind now (\<lambda>at.
          if differences = [] then converged_node cluster revision node requestID at
          else drifted_node s cluster revision node desiredHash snapshot differences requestID at)))))"

text \<open>Errors of a node are logged, and the pass goes on.\<close>

definition reconcile_node :: "observe \<Rightarrow> service \<Rightarrow> Cluster \<Rightarrow> Revision \<Rightarrow> Node \<Rightarrow> unit action" where
  "reconcile_node obs s cluster revision node =
    (if \<not> node_Enabled node then ret ()
     else if node_MaintenanceMode node then set_convergence (node_ID node) ConvMaintenance
     else if node_CompatibilityStatus node \<noteq> CompatibilitySupported \<or> IsLegacyConverted (des_Unsupported (rev_Document revision))
     then set_convergence (node_ID node) ConvUnsupported
     else bind (attempt (evaluateNode obs s cluster revision node)) (\<lambda>_. ret ()))"

fun reconcile_nodes :: "observe \<Rightarrow> service \<Rightarrow> Cluster \<Rightarrow> Revision \<Rightarrow> Node list \<Rightarrow> unit action" where
  "reconcile_nodes obs s cluster revision [] = ret ()"
| "reconcile_nodes obs s cluster revision (node # nodes) =
     bind (reconcile_node obs s cluster revision node) (\<lambda>_. reconcile_nodes obs s cluster revision nodes)"

definition reconcile_cluster :: "observe \<Rightarrow> service \<Rightarrow> Cluster \<Rightarrow> unit action" where
  "reconcile_cluster obs s cluster =
    (case cluster_ActiveRevisionID cluster of
       None \<Rightarrow> ret ()
     | Some revisionID \<Rightarrow>
       bind (list_query (ClusterHasActiveDeployment (cluster_ID cluster))) (\<lambda>activeDeployment.
       if activeDeployment then ret ()
       else bind (attempt (query (RevisionByID revisionID))) (\<lambda>r.
         case r of
           Inl _ \<Rightarrow> ret ()
         | Inr revision \<Rightarrow>
           bind (list_query (ListNodes (cluster_ID cluster))) (reconcile_nodes obs s cluster revision))))"

fun reconcile_clusters :: "observe \<Rightarrow> service \<Rightarrow> Cluster list \<Rightarrow> unit action" where
  "reconcile_clusters obs s [] = ret ()"
| "reconcile_clusters obs s (cluster # clusters) = bind (reconcile_cluster obs s cluster) (\<lambda>_. reconcile_clusters obs s clusters)"

definition Reconciler_RunOnce :: "observe \<Rightarrow> service \<Rightarrow> unit action" where
  "Reconciler_RunOnce obs s = bind (list_query ListClusters) (reconcile_clusters obs s)"


subsection \<open>What a pass may start\<close>

definition justified :: "string \<Rightarrow> Snapshot \<Rightarrow> Deployment \<Rightarrow> bool" where
  "justified i snapshot p \<longleftrightarrow>
     (\<exists>(cluster :: Cluster) revision (node :: Node) rid d document effective item event d1 stored created d2.
        cluster_ActiveRevisionID cluster = Some rid \<and> RevisionByID rid d = Inr revision \<and>
        cluster_ReconciliationPolicy cluster = ReconciliationEnforce \<and>
        node_ID node = i \<and> node_Enabled node \<and> \<not> node_MaintenanceMode node \<and> node_CompatibilityStatus node = CompatibilitySupported \<and>
        Effective (rev_Document revision) i = Inr effective \<and> snap_Document snapshot = Some document \<and>
        managedDifferences effective (ProjectDocument document (rev_SchemaVersion revision)) \<noteq> [] \<and>
        UpsertDriftEvent item event d1 = Inr ((stored, created), d2) \<and> drift_NodeID item = i \<and>
        drift_ReconciliationStatus stored = ReconPending \<and>
        dep_ClusterID p = cluster_ID cluster \<and> dep_RevisionID p = rev_ID revision \<and> dep_Origin p = ''reconciliation'' \<and>
        (\<forall>t \<in> set (dep_Nodes p). task_NodeID t = i))"

definition enforcing_trace :: "event list \<Rightarrow> bool" where
  "enforcing_trace ts \<longleftrightarrow> (\<forall>us p vs. ts = us @ ECreate p # vs \<longrightarrow>
     (\<exists>us' i snapshot. us = us' @ [EObserve i (Inr snapshot)] \<and> justified i snapshot p))"

lemma enforcing_plain: "\<forall>p. ECreate p \<notin> set ts \<Longrightarrow> enforcing_trace ts"
  by (auto simp: enforcing_trace_def)

lemma enforcing_pair: "justified i snapshot p \<Longrightarrow> enforcing_trace [EObserve i (Inr snapshot), ECreate p]"
  by (auto simp: enforcing_trace_def Cons_eq_append_conv)

lemma enforcing_append: "enforcing_trace us \<Longrightarrow> enforcing_trace vs \<Longrightarrow> enforcing_trace (us @ vs)"
  unfolding enforcing_trace_def
proof (intro allI impI)
  fix xs p ys
  assume us: "\<forall>xs p ys. us = xs @ ECreate p # ys \<longrightarrow> (\<exists>xs' i s. xs = xs' @ [EObserve i (Inr s)] \<and> justified i s p)"
    and vs: "\<forall>xs p ys. vs = xs @ ECreate p # ys \<longrightarrow> (\<exists>xs' i s. xs = xs' @ [EObserve i (Inr s)] \<and> justified i s p)"
    and split: "us @ vs = xs @ ECreate p # ys"
  from split consider ws where "us = xs @ ECreate p # ws" | ws where "xs = us @ ws" "vs = ws @ ECreate p # ys"
    unfolding append_eq_append_conv2 by (metis append_Nil2 append_eq_Cons_conv)
  then show "\<exists>xs' i s. xs = xs' @ [EObserve i (Inr s)] \<and> justified i s p"
  proof cases
    case (2 ws)
    then show ?thesis using vs by (metis append_assoc)
  qed (use us in blast)
qed



text \<open>The deployment that a drift may start, from the contract of the service.\<close>

context validated_service
begin

lemma StartReconciliation_trace:
  "emits (StartReconciliation s c r i) (\<lambda>res ts. ts = [] \<or> (\<exists>p. ts = [ECreate p] \<and>
     dep_ClusterID p = c \<and> dep_RevisionID p = r \<and> dep_Origin p = ''reconciliation'' \<and> (\<forall>t \<in> set (dep_Nodes p). task_NodeID t = i)))"
  unfolding StartReconciliation_def
proof (rule emits_mono [OF startDeployment_trace], elim disjE exE conjE, goal_cases)
  case (2 res ts p rv d nodes sn pr targets)
  from 2 have ids: "map task_NodeID (dep_Nodes p) = map pn_NodeID targets" "map pn_NodeID targets = map node_ID (targets_of (rev_Document rv) [i] nodes)"
    by (auto simp: created_from_def dest: tasks_match_ids simp: preview_nodes_ids)
  have "node_ID n = i" if "n \<in> set (targets_of (rev_Document rv) [i] nodes)" for n
    using that by (auto simp: targets_of_def Let_def selects_def split: if_splits)
  with ids have "\<forall>t \<in> set (dep_Nodes p). task_NodeID t = i" by (metis (no_types, lifting) image_eqI image_iff list.set_map)
  with 2 show ?case by (auto simp: created_from_def)
qed simp

end

locale reconciler = observer obs + validated_service s for obs s
begin

lemma enforce_trace:
  assumes "\<And>p. cluster_ReconciliationPolicy cluster = ReconciliationEnforce \<Longrightarrow> drift_ReconciliationStatus stored = ReconPending \<Longrightarrow>
      dep_ClusterID p = cluster_ID cluster \<Longrightarrow> dep_RevisionID p = rev_ID revision \<Longrightarrow> dep_Origin p = ''reconciliation'' \<Longrightarrow>
      \<forall>t \<in> set (dep_Nodes p). task_NodeID t = node_ID node \<Longrightarrow> justified i snapshot p"
  shows "after [EObserve i (Inr snapshot)] (enforce_drift s cluster revision node stored) (\<lambda>r. enforcing_trace)"
proof (cases "cluster_ReconciliationPolicy cluster = ReconciliationEnforce \<and> drift_ReconciliationStatus stored = ReconPending")
  case True
  let ?start = "StartReconciliation s (cluster_ID cluster) (rev_ID revision) (node_ID node)"
  have "emits (attempt ?start) (\<lambda>r ts. enforcing_trace (EObserve i (Inr snapshot) # ts))"
    by (rule emits_attempt, rule emits_mono [OF StartReconciliation_trace])
       (use True assms in \<open>auto intro: enforcing_plain enforcing_pair\<close>)
  then have rest: "emits (bind (attempt ?start) f) (\<lambda>r ts. enforcing_trace (EObserve i (Inr snapshot) # ts))" if "\<And>x. silent (f x)" for f
    by (rule emits_bind [where R = "\<lambda>_ r ts. ts = []"]) (use that in \<open>auto simp: silent_def\<close>)
  from True show ?thesis
    by (simp add: enforce_drift_def after_def, intro rest)
       (auto simp: silent_bind silent_attempt silent_exec silent_fail split: sum.split)
qed (auto simp: enforce_drift_def intro!: after_ret enforcing_plain)

lemma drifted_trace:
  assumes "cluster_ActiveRevisionID cluster = Some rid" "RevisionByID rid d = Inr revision" "node_Enabled node" "\<not> node_MaintenanceMode node"
    "node_CompatibilityStatus node = CompatibilitySupported" "Effective (rev_Document revision) (node_ID node) = Inr effective"
    "snap_Document snapshot = Some document" "managedDifferences effective (ProjectDocument document (rev_SchemaVersion revision)) \<noteq> []"
  shows "after [EObserve (node_ID node) (Inr snapshot)] (drifted_node s cluster revision node h snapshot differences requestID at)
     (\<lambda>r. enforcing_trace)"
proof -
  have plain: "enforcing_trace [EObserve (node_ID node) (Inr snapshot)]" by (auto intro: enforcing_plain)
  have J: "justified (node_ID node) snapshot p"
    if "UpsertDriftEvent item event d1 = Inr ((stored, created), d2)" "drift_NodeID item = node_ID node"
      "cluster_ReconciliationPolicy cluster = ReconciliationEnforce" "drift_ReconciliationStatus stored = ReconPending"
      "dep_ClusterID p = cluster_ID cluster" "dep_RevisionID p = rev_ID revision" "dep_Origin p = ''reconciliation''"
      "\<forall>t \<in> set (dep_Nodes p). task_NodeID t = node_ID node"
    for item event d1 stored created d2 p
    unfolding justified_def
    by (rule exI [of _ cluster], rule exI [of _ revision], rule exI [of _ node], rule exI [of _ rid], rule exI [of _ d],
        rule exI [of _ document], rule exI [of _ effective], rule exI [of _ item], rule exI [of _ event], rule exI [of _ d1],
        rule exI [of _ stored], rule exI [of _ created], rule exI [of _ d2]) (use assms that in simp)
  show ?thesis
    unfolding drifted_node_def
    by (intro after_silent [OF silent_exec] after_silent [OF silent_NewID] after_silent [OF silent_systemAudit] after_call plain)
       (auto intro!: enforce_trace J simp: drift_item_def)
qed

lemma reconcile_node_trace:
  assumes "cluster_ActiveRevisionID cluster = Some rid" "RevisionByID rid d = Inr revision"
  shows "emits (reconcile_node obs s cluster revision node) (\<lambda>r. enforcing_trace)"
proof -
  have none: "enforcing_trace []" "enforcing_trace [EObserve i x]" for i x by (auto intro: enforcing_plain)
  have quiet_convergence: "silent (set_convergence i c)" for i c
    unfolding set_convergence_def by (auto intro!: quiet)
  have quiet_converged: "silent (converged_node cluster revision node q at)" for q at
    unfolding converged_node_def by (auto intro!: quiet)
  have ends: "after [EObserve i x] m (\<lambda>r. enforcing_trace)" if "silent m" for i x and m :: "unit action"
    unfolding after_def by (rule emits_silent [OF that]) (simp add: none)
  have still: "after [] m (\<lambda>r. enforcing_trace)" if "silent m" for m :: "unit action"
    unfolding after_def by (rule emits_silent [OF that]) (simp add: none)
  have evaluate: "emits (evaluateNode obs s cluster revision node) (\<lambda>r. enforcing_trace)"
    if "node_Enabled node" "\<not> node_MaintenanceMode node" "node_CompatibilityStatus node = CompatibilitySupported"
    unfolding evaluateNode_def Let_def
    by (rule emits_after, cases "Effective (rev_Document revision) (node_ID node)")
       (auto simp: lift_err_def intro!: after_fail after_observe after_silent [OF quiet_convergence] after_silent [OF silent_NewID]
         after_silent [OF silent_now] drifted_trace [OF assms that] ends [OF quiet_convergence] ends [OF quiet_converged] none
         split: sum.split option.split)
  show ?thesis
    unfolding reconcile_node_def
    by (rule emits_after)
       (auto intro!: after_ret after_bind [OF emits_attempt [OF evaluate]] still [OF quiet_convergence] none)
qed

lemma enforcing_bind: "emits m (\<lambda>r. enforcing_trace) \<Longrightarrow> (\<And>x. emits (f x) (\<lambda>r. enforcing_trace)) \<Longrightarrow> emits (bind m f) (\<lambda>r. enforcing_trace)"
  by (erule emits_bind [where R = "\<lambda>_ r. enforcing_trace"]) (auto intro: enforcing_append)

lemma reconcile_nodes_trace:
  assumes "cluster_ActiveRevisionID cluster = Some rid" "RevisionByID rid d = Inr revision"
  shows "emits (reconcile_nodes obs s cluster revision nodes) (\<lambda>r. enforcing_trace)"
  by (induction nodes) (auto intro!: enforcing_bind reconcile_node_trace [OF assms] emits_ret enforcing_plain)

lemma reconcile_cluster_trace: "emits (reconcile_cluster obs s cluster) (\<lambda>r. enforcing_trace)"
proof -
  have none: "enforcing_trace []" by (auto intro: enforcing_plain)
  have nodes: "after [] (reconcile_nodes obs s cluster revision nodes) (\<lambda>r. enforcing_trace)"
    if "cluster_ActiveRevisionID cluster = Some rid" "RevisionByID rid d = Inr revision" for rid d revision nodes
    using reconcile_nodes_trace [OF that] by (simp add: after_def)
  show ?thesis
    unfolding reconcile_cluster_def list_query_def
    by (rule emits_after)
       (auto intro!: after_ret after_query after_attempt_query none nodes split: option.split)
qed

lemma reconcile_clusters_trace: "emits (reconcile_clusters obs s clusters) (\<lambda>r. enforcing_trace)"
  by (induction clusters) (auto intro!: enforcing_bind reconcile_cluster_trace emits_ret enforcing_plain)

lemma RunOnce_trace: "emits (Reconciler_RunOnce obs s) (\<lambda>r. enforcing_trace)"
  unfolding Reconciler_RunOnce_def
  by (intro enforcing_bind reconcile_clusters_trace emits_silent [OF silent_list_query]) (auto intro: enforcing_plain)

end


subsection \<open>The controller's own wiring\<close>

text \<open>
  \<open>cmd/controller/main.go\<close> builds the control plane service with the inventory service as its
  blocked service validator, and the reconciler with the inventory service as its observer.
\<close>

definition controller_service :: "host \<Rightarrow> service" where
  "controller_service h = \<lparr>srv_host = h, srv_blockedServiceValidator = Some ValidateBlockedServiceIDs\<rparr>"

interpretation controller: validated_service "controller_service h" for h
  by unfold_locales (auto simp: controller_service_def silent_ValidateBlockedServiceIDs)

interpretation controller_reconciler: reconciler Observe "controller_service h" for h
  by unfold_locales



subsection \<open>Drift whose enforcement was interrupted\<close>

text \<open>
  C31: A drift event that was being enforced when the controller stopped is not taken up again:
  recovery ends its deployment as interrupted but leaves the event enforcing, and as long as the
  node is seen with the same configuration the event stays so, in which state the reconciler does
  nothing about it.
\<close>

theorem interrupted_drift_stays:
  assumes "InterruptDeployments at ids d = Inr d1"
    and "query_row (open_fingerprint (drift_NodeID item) (drift_Fingerprint item)) (db_drifts d) = Some e"
    and "drift_ReconciliationStatus e = ReconEnforcing"
    and "UpsertDriftEvent item event d1 = Inr ((stored, created), d2)"
  shows "drift_ReconciliationStatus stored = ReconEnforcing \<and> enforce_drift s cluster revision node stored = ret ()"
proof -
  have "db_drifts d1 = db_drifts d"
    using assms(1) InterruptDeployments_tables by auto
  with assms(2-4) have "drift_ReconciliationStatus stored = ReconEnforcing"
    by (auto simp: UpsertDriftEvent_def Let_def)
  then show ?thesis by (simp add: enforce_drift_def)
qed

definition sample_drift :: DriftEvent where
  "sample_drift = \<lparr>drift_ID = ''x'', drift_ClusterID = ''c'', drift_NodeID = ''n'', drift_DesiredRevisionID = ''r'', drift_DesiredHash = ''h'',
     drift_ObservedSnapshotID = ''o'', drift_ObservedHash = ''i'', drift_Fingerprint = ''f'', drift_Status = DriftOpen,
     drift_Policy = ReconciliationEnforce, drift_ReconciliationStatus = ReconEnforcing, drift_Differences = [], drift_DetectedAt = 1,
     drift_LastSeenAt = 2, drift_ResolvedAt = None, drift_Resolution = [], drift_RelatedDeploymentID = Some ''p''\<rparr>"

theorem interrupted_drift_stays_witness:
  "\<exists>d1 stored created d2. InterruptDeployments 9 [''e''] ((sample_db Running TaskApplying)\<lparr>db_snapshots := [sample_snapshot], db_drifts := [sample_drift]\<rparr>) = Inr d1 \<and>
     UpsertDriftEvent (sample_drift\<lparr>drift_ReconciliationStatus := ReconPending\<rparr>) (sample_event ''g'') d1 = Inr ((stored, created), d2) \<and>
     drift_ReconciliationStatus stored = ReconEnforcing"
proof -
  let ?d = "(sample_db Running TaskApplying)\<lparr>db_snapshots := [sample_snapshot], db_drifts := [sample_drift]\<rparr>"
  let ?item = "sample_drift\<lparr>drift_ReconciliationStatus := ReconPending\<rparr>"
  obtain d1 where d1: "InterruptDeployments 9 [''e''] ?d = Inr d1"
    by (simp add: InterruptDeployments_def sample_defs in_progress_def audit_def Let_def)
  have e: "query_row (open_fingerprint (drift_NodeID ?item) (drift_Fingerprint ?item)) (db_drifts ?d) = Some sample_drift"
    "drift_ReconciliationStatus sample_drift = ReconEnforcing" by code_simp+
  have tables: "db_drifts d1 = [sample_drift]" "db_snapshots d1 = [sample_snapshot]"
    using d1 by (auto simp: InterruptDeployments_def sample_defs in_progress_def audit_def Let_def)
  obtain d2 stored created where d2: "UpsertDriftEvent ?item (sample_event ''g'') d1 = Inr ((stored, created), d2)"
    using e(1) by (simp add: UpsertDriftEvent_def Let_def tables sample_drift_def sample_snapshot_def ValidReconciliationPolicy_def) blast
  from interrupted_drift_stays [OF d1 e(1,2) d2] d1 d2 show ?thesis by blast
qed

end
