(* ===== verification/Management.thy ===== *)
theory Management
  imports Inventory Commits
begin

text \<open>
  The management service (\<open>internal/domain/management.go\<close>): clusters and nodes as users create,
  change, test and remove them. \<open>net/url\<close> parsing and printing are arguments of the two methods that
  normalise a node's address; the status probe and the encryption are environment. The trace has
  each probe with its answer and each node that is written.
\<close>

subsection \<open>Audit, probe and encryption\<close>

definition newUserAudit :: "Actor \<Rightarrow> string \<Rightarrow> string \<Rightarrow> string \<Rightarrow> json gomap \<Rightarrow> time \<Rightarrow> AuditEvent action" where
  "newUserAudit actor action resourceType resourceID metadata at =
     bind NewID_act (\<lambda>i. ret
       \<lparr>audit_ID = i, audit_ActorType = ''user'', audit_ActorUserID = Some (actor_UserID actor), audit_Action = action,
        audit_ResourceType = resourceType, audit_ResourceID = Some resourceID, audit_RequestID = actor_RequestID actor,
        audit_Metadata = metadata, audit_CreatedAt = at\<rparr>)"

definition ProbeStatus :: "NodeProbeRequest \<Rightarrow> (go_error + NodeProbeResult) action" where
  "ProbeStatus request =
     bind (tick (\<lambda>e t. probe_status e t request)) (\<lambda>r. bind (emit (EProbe request r)) (\<lambda>_. ret r))"

definition Encrypt :: "string \<Rightarrow> NodeCredentials \<Rightarrow> EncryptedCredentials action" where
  "Encrypt nodeID credentials =
     bind (tick (\<lambda>e t. encrypt e t nodeID credentials)) (\<lambda>r. case r of None \<Rightarrow> fail (PlainError ''encrypt'') | Some c \<Rightarrow> ret c)"

definition guard_err :: "go_error option \<Rightarrow> unit action" where
  "guard_err r = (case r of None \<Rightarrow> ret () | Some err \<Rightarrow> fail err)"


subsection \<open>Clusters\<close>

record CreateClusterInput =
  ci_Name :: string
  ci_Description :: string
  ci_ReconciliationPolicy :: ReconciliationPolicy

text \<open>The checks that creation and update share; \<open>missing\<close> is the policy that an empty one stands for.\<close>

definition checked_cluster_input :: "ReconciliationPolicy \<Rightarrow> CreateClusterInput \<Rightarrow> go_error + CreateClusterInput" where
  "checked_cluster_input missing input =
    (let input = input\<lparr>ci_Name := TrimSpace (ci_Name input), ci_Description := TrimSpace (ci_Description input)\<rparr> in
     case ValidateResourceName ''name'' (ci_Name input) of
       Some err \<Rightarrow> Inl err
     | None \<Rightarrow>
       if length (ci_Description input) > 2000 then Inl (Validation ''description'' ''must not exceed 2000 characters'')
       else
         (let input = (if ci_ReconciliationPolicy input = [] then input\<lparr>ci_ReconciliationPolicy := missing\<rparr> else input) in
          if \<not> ValidReconciliationPolicy (ci_ReconciliationPolicy input)
          then Inl (Validation ''reconciliationPolicy'' ''must be enforce, alert, or manual'')
          else Inr input))"

definition Management_CreateCluster :: "Actor \<Rightarrow> CreateClusterInput \<Rightarrow> Cluster action" where
  "Management_CreateCluster actor input =
     bind (lift_err (checked_cluster_input ReconciliationManual input)) (\<lambda>input.
     bind NewID_act (\<lambda>i.
     bind now (\<lambda>at.
     let cluster = \<lparr>cluster_ID = i, cluster_Name = ci_Name input, cluster_Description = ci_Description input,
           cluster_ReconciliationPolicy = ci_ReconciliationPolicy input, cluster_ActiveRevisionID = None, cluster_Version = 1,
           cluster_CreatedAt = at, cluster_UpdatedAt = at\<rparr> in
     bind (newUserAudit actor ''cluster.created'' ''cluster'' i
        [(''name'', JString (cluster_Name cluster)), (''reconciliationPolicy'', JString (cluster_ReconciliationPolicy cluster))] at) (\<lambda>event.
     bind (exec (CreateCluster cluster event)) (\<lambda>_. ret cluster)))))"

definition Management_ListClusters :: "Cluster list action" where
  "Management_ListClusters = list_query ListClusters"

definition Management_Cluster :: "string \<Rightarrow> Cluster action" where
  "Management_Cluster i =
    (if \<not> ValidID i then fail (Validation ''clusterId'' ''must be a valid UUID'') else query (ClusterByID i))"

definition Management_UpdateCluster :: "Actor \<Rightarrow> string \<Rightarrow> int \<Rightarrow> CreateClusterInput \<Rightarrow> Cluster action" where
  "Management_UpdateCluster actor i expectedVersion input =
    (if expectedVersion < 1 then fail (Validation ''version'' ''must be a positive integer'')
     else bind (Management_Cluster i) (\<lambda>cluster.
     bind (lift_err (checked_cluster_input (cluster_ReconciliationPolicy cluster) input)) (\<lambda>input.
     bind now (\<lambda>at.
     let previousPolicy = cluster_ReconciliationPolicy cluster;
         cluster = cluster\<lparr>cluster_Name := ci_Name input, cluster_Description := ci_Description input,
           cluster_ReconciliationPolicy := ci_ReconciliationPolicy input, cluster_UpdatedAt := at\<rparr>;
         metadata = [(''name'', JString (cluster_Name cluster)),
           (''reconciliationPolicy'', JString (cluster_ReconciliationPolicy cluster))];
         changed = previousPolicy \<noteq> cluster_ReconciliationPolicy cluster in
     bind (newUserAudit actor (if changed then ''cluster.reconciliation_policy_changed'' else ''cluster.updated'') ''cluster'' i
        (if changed then metadata @ [(''previousReconciliationPolicy'', JString previousPolicy)] else metadata) at) (\<lambda>event.
     bind (exec (UpdateCluster cluster expectedVersion event)) (\<lambda>_.
     ret (cluster\<lparr>cluster_Version := expectedVersion + 1\<rparr>)))))))"


subsection \<open>Creating nodes\<close>

record CreateNodeInput =
  ni_ClusterID :: string
  ni_Name :: string
  ni_BaseURL :: string
  ni_CertificatePolicy :: CertificatePolicy
  ni_CustomCAPEM :: string
  ni_Username :: string
  ni_Password :: string
  ni_Enabled :: bool

text \<open>The checks at the head of \<open>ValidateNodeCandidate\<close>, which \<open>CreateNode\<close> repeats.\<close>

definition checked_node_input :: "(string \<Rightarrow> URL option) \<Rightarrow> (URL \<Rightarrow> string) \<Rightarrow> CreateNodeInput \<Rightarrow> (CreateNodeInput \<times> string) action" where
  "checked_node_input url_parse url_string input =
    (if \<not> ValidID (ni_ClusterID input) then fail (Validation ''clusterId'' ''must be a valid UUID'')
     else bind (query (ClusterByID (ni_ClusterID input))) (\<lambda>_.
     let input = input\<lparr>ni_Name := TrimSpace (ni_Name input)\<rparr> in
     bind (guard_err (ValidateResourceName ''name'' (ni_Name input))) (\<lambda>_.
     bind (guard_err (validateNodeCredentials (ni_Username input) (ni_Password input))) (\<lambda>_.
     bind (guard_err (ValidateCertificatePolicy (ni_CertificatePolicy input) (ni_CustomCAPEM input))) (\<lambda>_.
     bind (lift_err (NormaliseNodeURL url_parse url_string (ni_BaseURL input) (ni_CertificatePolicy input))) (\<lambda>baseURL.
     ret (input, baseURL)))))))"

definition candidate_request :: "CreateNodeInput \<Rightarrow> string \<Rightarrow> NodeProbeRequest" where
  "candidate_request input baseURL =
    \<lparr>probe_BaseURL = baseURL, probe_CertificatePolicy = ni_CertificatePolicy input, probe_CustomCAPEM = ni_CustomCAPEM input,
     probe_Credentials = \<lparr>cred_Username = ni_Username input, cred_Password = ni_Password input\<rparr>\<rparr>"

definition supported_result :: "NodeProbeResult \<Rightarrow> go_error option" where
  "supported_result result =
    (case result_Compatibility result of
       CompatibilityUnsupported \<Rightarrow> Some (NewError ErrorCapability
         (''Unsupported AdGuard Home version. Minimum supported version: 0.107.78. Detected version: '' @ result_Version result))
     | CompatibilityUnknown \<Rightarrow> Some (NewError ErrorCapability
         (''AdGuard Home version compatibility could not be established. Minimum supported version: 0.107.78. Detected version: '' @ result_Version result))
     | CompatibilitySupported \<Rightarrow> None)"

definition ValidateNodeCandidate :: "(string \<Rightarrow> URL option) \<Rightarrow> (URL \<Rightarrow> string) \<Rightarrow> CreateNodeInput \<Rightarrow> NodeProbeResult action" where
  "ValidateNodeCandidate url_parse url_string input =
     bind (checked_node_input url_parse url_string input) (\<lambda>(input, baseURL).
     bind (ProbeStatus (candidate_request input baseURL)) (\<lambda>r.
     bind (lift_err r) (\<lambda>result.
     bind (guard_err (supported_result result)) (\<lambda>_. ret result))))"

definition new_node :: "CreateNodeInput \<Rightarrow> string \<Rightarrow> NodeProbeResult \<Rightarrow> string \<Rightarrow> time \<Rightarrow> Node" where
  "new_node input baseURL result i at =
    (let (health, code) = healthFromProbe result (ni_Enabled input) in
     \<lparr>node_ID = i, node_ClusterID = ni_ClusterID input, node_Name = ni_Name input, node_BaseURL = baseURL,
      node_CertificatePolicy = ni_CertificatePolicy input, node_Enabled = ni_Enabled input, node_MaintenanceMode = False,
      node_HealthStatus = health, node_CompatibilityStatus = result_Compatibility result, node_Version = result_Version result,
      node_LastSeenAt = Some at, node_LastPolledAt = Some at, node_LatencyMS = Some (result_LatencyMS result),
      node_LastErrorCode = code, node_AppliedRevisionID = None, node_AppliedHash = [], node_ConvergenceStatus = ConvPending,
      node_LastReconciledAt = None, node_RecordVersion = 1, node_CreatedAt = at, node_UpdatedAt = at\<rparr>)"

definition Management_CreateNode :: "(string \<Rightarrow> URL option) \<Rightarrow> (URL \<Rightarrow> string) \<Rightarrow> Actor \<Rightarrow> CreateNodeInput \<Rightarrow> Node action" where
  "Management_CreateNode url_parse url_string actor input =
     bind (checked_node_input url_parse url_string input) (\<lambda>(input, baseURL).
     bind (ValidateNodeCandidate url_parse url_string input) (\<lambda>probeResult.
     bind NewID_act (\<lambda>i.
     bind (Encrypt i \<lparr>cred_Username = ni_Username input, cred_Password = ni_Password input\<rparr>) (\<lambda>envelope.
     bind now (\<lambda>at.
     let node = new_node input baseURL probeResult i at in
     bind (newUserAudit actor ''node.created'' ''node'' i
        [(''clusterId'', JString (ni_ClusterID input)), (''name'', JString (ni_Name input)),
         (''certificatePolicy'', JString (ni_CertificatePolicy input))] at) (\<lambda>event.
     let rec = \<lparr>rec_Node = node, rec_Secrets = \<lparr>secret_Credentials = envelope, secret_CustomCAPEM = TrimSpace (ni_CustomCAPEM input)\<rparr>\<rparr> in
     bind (exec_traced (ENode rec) (CreateNode rec event)) (\<lambda>_. ret node)))))))"

definition Management_ListNodes :: "string \<Rightarrow> Node list action" where
  "Management_ListNodes clusterID =
    (if \<not> ValidID clusterID then fail (Validation ''clusterId'' ''must be a valid UUID'')
     else bind (query (ClusterByID clusterID)) (\<lambda>_. list_query (ListNodes clusterID)))"

definition Management_Node :: "string \<Rightarrow> Node action" where
  "Management_Node i = (if \<not> ValidID i then fail (Validation ''nodeId'' ''must be a valid UUID'') else query (NodeByID i))"


subsection \<open>Changing nodes\<close>

record UpdateNodeInput =
  ui_Name :: string
  ui_BaseURL :: string
  ui_CertificatePolicy :: CertificatePolicy
  ui_CustomCAPEM :: "string option"
  ui_Username :: "string option"
  ui_Password :: "string option"
  ui_Enabled :: bool
  ui_ExpectedVersion :: int

definition updated_ca :: "UpdateNodeInput \<Rightarrow> NodeRecord \<Rightarrow> string" where
  "updated_ca input stored =
    (if ui_CertificatePolicy input = CertificateCustomCA
     then (case ui_CustomCAPEM input of None \<Rightarrow> secret_CustomCAPEM (rec_Secrets stored) | Some pem \<Rightarrow> TrimSpace pem)
     else [])"

text \<open>The credentials that the update uses, and whether they are new.\<close>

definition updated_credentials :: "UpdateNodeInput \<Rightarrow> NodeCredentials \<Rightarrow> go_error + NodeCredentials \<times> bool" where
  "updated_credentials input current =
    (case (ui_Username input, ui_Password input) of
       (None, None) \<Rightarrow> Inr (current, False)
     | (Some username, Some password) \<Rightarrow>
         (case validateNodeCredentials username password of
            Some err \<Rightarrow> Inl err
          | None \<Rightarrow> Inr (\<lparr>cred_Username = username, cred_Password = password\<rparr>, True))
     | _ \<Rightarrow> Inl (Validation ''credentials'' ''username and password must be supplied together''))"

definition probed_node :: "NodeProbeResult \<Rightarrow> time \<Rightarrow> Node \<Rightarrow> Node" where
  "probed_node result at node =
    (let (health, code) = healthFromProbe result True in
     node\<lparr>node_HealthStatus := health, node_CompatibilityStatus := result_Compatibility result, node_Version := result_Version result,
       node_LastSeenAt := Some at, node_LastPolledAt := Some at, node_LatencyMS := Some (result_LatencyMS result),
       node_LastErrorCode := code\<rparr>)"

definition probe_update :: "UpdateNodeInput \<Rightarrow> NodeProbeRequest \<Rightarrow> Node \<Rightarrow> Node action" where
  "probe_update input request node =
    (if \<not> ui_Enabled input then ret node
     else bind (ProbeStatus request) (\<lambda>r. bind (lift_err r) (\<lambda>result. bind now (\<lambda>at. ret (probed_node result at node)))))"

definition updated_node :: "UpdateNodeInput \<Rightarrow> string \<Rightarrow> time \<Rightarrow> Node \<Rightarrow> Node" where
  "updated_node input baseURL at node =
    (let node = node\<lparr>node_Name := TrimSpace (ui_Name input), node_BaseURL := baseURL,
           node_CertificatePolicy := ui_CertificatePolicy input, node_Enabled := ui_Enabled input,
           node_ConvergenceStatus := (if node_MaintenanceMode node then ConvMaintenance else ConvPending)\<rparr>;
         node = (if ui_Enabled input then node else node\<lparr>node_HealthStatus := NodeDisabled, node_LastErrorCode := []\<rparr>) in
     node\<lparr>node_UpdatedAt := at\<rparr>)"

definition Management_UpdateNode :: "(string \<Rightarrow> URL option) \<Rightarrow> (URL \<Rightarrow> string) \<Rightarrow> Actor \<Rightarrow> string \<Rightarrow> UpdateNodeInput \<Rightarrow> Node action" where
  "Management_UpdateNode url_parse url_string actor i input =
    (if \<not> ValidID i then fail (Validation ''nodeId'' ''must be a valid UUID'')
     else if ui_ExpectedVersion input < 1 then fail (Validation ''version'' ''must be a positive integer'')
     else bind (query (NodeRecordByID i)) (\<lambda>stored.
     bind (guard_err (ValidateResourceName ''name'' (TrimSpace (ui_Name input)))) (\<lambda>_.
     let customCAPEM = updated_ca input stored in
     bind (guard_err (ValidateCertificatePolicy (ui_CertificatePolicy input) customCAPEM)) (\<lambda>_.
     bind (lift_err (NormaliseNodeURL url_parse url_string (ui_BaseURL input) (ui_CertificatePolicy input))) (\<lambda>baseURL.
     bind (Decrypt i (secret_Credentials (rec_Secrets stored))) (\<lambda>current.
     bind (lift_err (updated_credentials input current)) (\<lambda>(credentials, credentialsChanged).
     bind (probe_update input \<lparr>probe_BaseURL = baseURL, probe_CertificatePolicy = ui_CertificatePolicy input,
        probe_CustomCAPEM = customCAPEM, probe_Credentials = credentials\<rparr> (rec_Node stored)) (\<lambda>node.
     bind (if credentialsChanged then Encrypt i credentials else ret (secret_Credentials (rec_Secrets stored))) (\<lambda>envelope.
     bind now (\<lambda>at.
     let rec = \<lparr>rec_Node = updated_node input baseURL at node,
           rec_Secrets = \<lparr>secret_Credentials = envelope, secret_CustomCAPEM = customCAPEM\<rparr>\<rparr> in
     bind (newUserAudit actor (if credentialsChanged then ''node.credentials_rotated'' else ''node.updated'') ''node'' i
        [(''name'', JString (TrimSpace (ui_Name input))), (''enabled'', JBool (ui_Enabled input)),
         (''certificatePolicy'', JString (ui_CertificatePolicy input))] at) (\<lambda>event.
     bind (exec_traced (ENode rec) (UpdateNode rec (ui_ExpectedVersion input) event)) (\<lambda>_.
     ret ((rec_Node rec)\<lparr>node_RecordVersion := ui_ExpectedVersion input + 1\<rparr>)))))))))))))"

definition probe_error_code :: "go_error \<Rightarrow> string" where
  "probe_error_code err = (case err of DomainError k f m \<Rightarrow> kind_string k | PlainError _ \<Rightarrow> kind_string ErrorNodeUnreachable)"

definition TestNodeConnection :: "Actor \<Rightarrow> string \<Rightarrow> NodeProbeResult action" where
  "TestNodeConnection actor i =
    (if \<not> ValidID i then fail (Validation ''nodeId'' ''must be a valid UUID'')
     else bind (query (NodeRecordByID i)) (\<lambda>stored.
     bind (Decrypt i (secret_Credentials (rec_Secrets stored))) (\<lambda>credentials.
     bind now (\<lambda>at.
     bind (ProbeStatus (probe_request stored credentials)) (\<lambda>r.
     case r of
       Inl err \<Rightarrow>
         bind (newUserAudit actor ''node.connection_tested'' ''node'' i
            [(''outcome'', JString ''failed''), (''errorCode'', JString (probe_error_code err))] at) (\<lambda>event.
         bind (exec (RecordNodeTestResult i NodeUnreachable (node_CompatibilityStatus (rec_Node stored)) (node_Version (rec_Node stored))
            None (probe_error_code err) at False event)) (\<lambda>_. fail err))
     | Inr result \<Rightarrow>
         let (health, code) = healthFromProbe result True in
         bind (newUserAudit actor ''node.connection_tested'' ''node'' i
            [(''outcome'', JString ''succeeded''), (''compatibility'', JString (compatibility_string (result_Compatibility result))),
             (''version'', JString (result_Version result))] at) (\<lambda>event.
         bind (exec (RecordNodeTestResult i health (result_Compatibility result) (result_Version result)
            (Some (result_LatencyMS result)) code at True event)) (\<lambda>_. ret result)))))))"

definition DeleteNode :: "Actor \<Rightarrow> string \<Rightarrow> string \<Rightarrow> int \<Rightarrow> unit action" where
  "DeleteNode actor i confirmName expectedVersion =
     bind (Management_Node i) (\<lambda>node.
     if expectedVersion < 1 then fail (Validation ''version'' ''must be a positive integer'')
     else if confirmName \<noteq> node_Name node then fail (Validation ''confirmName'' ''must exactly match the node name'')
     else bind now (\<lambda>at.
     bind (newUserAudit actor ''node.removed'' ''node'' i
        [(''clusterId'', JString (node_ClusterID node)), (''name'', JString (node_Name node)), (''credentialsDestroyed'', JBool True)] at) (\<lambda>event.
     exec (SoftDeleteNode i expectedVersion at event))))"

definition Management_SetNodeMaintenance :: "Actor \<Rightarrow> string \<Rightarrow> bool \<Rightarrow> int \<Rightarrow> Node action" where
  "Management_SetNodeMaintenance actor i enabled expectedVersion =
     bind (Management_Node i) (\<lambda>node.
     if expectedVersion < 1 then fail (Validation ''recordVersion'' ''must be a positive integer'')
     else bind now (\<lambda>at.
     bind (newUserAudit actor ''node.maintenance_changed'' ''node'' i
        [(''clusterId'', JString (node_ClusterID node)), (''enabled'', JBool enabled)] at) (\<lambda>event.
     bind (exec (SetNodeMaintenance i enabled expectedVersion at event)) (\<lambda>_.
     ret (node\<lparr>node_MaintenanceMode := enabled, node_RecordVersion := expectedVersion + 1,
       node_ConvergenceStatus := (if enabled then ConvMaintenance else ConvPending), node_UpdatedAt := at\<rparr>)))))"


subsection \<open>What a stored node has been probed with\<close>

lemma silent_newUserAudit [quiet]: "silent (newUserAudit actor a rt ri m at)"
  by (simp add: newUserAudit_def quiet)

lemma silent_guard_err [quiet]: "silent (guard_err r)"
  by (simp add: guard_err_def quiet split: option.split)

lemma silent_Encrypt [quiet]: "silent (Encrypt i c)"
  by (auto simp: Encrypt_def intro!: quiet split: option.split)

lemma silent_checked [quiet]: "silent (checked_node_input url_parse url_string input)"
  unfolding checked_node_input_def Let_def by (auto intro!: quiet)

lemma after_probe:
  assumes "\<And>r. after (us @ [EProbe q r]) (f r) Q"
  shows "after us (bind (ProbeStatus q) f) Q"
proof -
  have "emits (ProbeStatus q) (\<lambda>r ts. \<exists>x. r = Inr x \<and> ts = [EProbe q x])"
    unfolding ProbeStatus_def by (rule emits_after) (auto intro!: after_tick after_emit after_ret)
  then show ?thesis by (rule after_bind) (use assms in auto)
qed

text \<open>
  The probe that a stored node rests on: it went to the address, with the certificate policy and
  the certificate authority that are stored (the latter up to surrounding white space), and its
  answer is what the node says about its version, its compatibility and its health.
\<close>

definition probed :: "NodeProbeRequest \<Rightarrow> NodeProbeResult \<Rightarrow> NodeRecord \<Rightarrow> bool" where
  "probed request result rec \<longleftrightarrow>
     probe_BaseURL request = node_BaseURL (rec_Node rec) \<and> probe_CertificatePolicy request = node_CertificatePolicy (rec_Node rec) \<and>
     TrimSpace (probe_CustomCAPEM request) = TrimSpace (secret_CustomCAPEM (rec_Secrets rec)) \<and>
     node_Version (rec_Node rec) = result_Version result \<and> node_CompatibilityStatus (rec_Node rec) = result_Compatibility result \<and>
     (node_HealthStatus (rec_Node rec), node_LastErrorCode (rec_Node rec)) = healthFromProbe result (node_Enabled (rec_Node rec))"

text \<open>Creation needs a probe that found a supported version; an update needs a probe when the node is enabled.\<close>

definition created_course :: "event list \<Rightarrow> bool" where
  "created_course ts \<longleftrightarrow> (\<forall>rec. ENode rec \<notin> set ts) \<or>
     (\<exists>request result rec. ts = [EProbe request (Inr result), ENode rec] \<and> probed request result rec \<and>
        result_Compatibility result = CompatibilitySupported)"

definition updated_course :: "event list \<Rightarrow> bool" where
  "updated_course ts \<longleftrightarrow> (\<forall>rec. ENode rec \<notin> set ts) \<or>
     (\<exists>rec. ts = [ENode rec] \<and> \<not> node_Enabled (rec_Node rec) \<and> node_HealthStatus (rec_Node rec) = NodeDisabled) \<or>
     (\<exists>request result rec. ts = [EProbe request (Inr result), ENode rec] \<and> node_Enabled (rec_Node rec) \<and> probed request result rec)"

lemma checked_node_input_result:
  "emits (checked_node_input url_parse url_string input) (\<lambda>r ts. ts = [] \<and> (\<forall>x u. r = Inr (x, u) \<longrightarrow>
     x = input\<lparr>ni_Name := TrimSpace (ni_Name input)\<rparr> \<and>
     NormaliseNodeURL url_parse url_string (ni_BaseURL input) (ni_CertificatePolicy input) = Inr u))"
proof -
  have guard: "after [] (bind (guard_err g) f) Q" if "\<And>err. Q (Inl err) []" "after [] (f ()) Q" for g f Q
    using that by (cases g) (simp_all add: guard_err_def after_fail)
  have lift: "after [] (bind (lift_err r) f) Q" if "\<And>err. Q (Inl err) []" "\<And>x. r = Inr x \<Longrightarrow> after [] (f x) Q" for r f Q
    using that by (cases r) (simp_all add: lift_err_def after_fail)
  show ?thesis
    unfolding checked_node_input_def Let_def
    by (rule emits_after) (auto intro!: after_fail after_ret after_query guard lift)
qed

lemma new_node_probed:
  "probed (candidate_request input u) result
     \<lparr>rec_Node = new_node input u result i at, rec_Secrets = \<lparr>secret_Credentials = c, secret_CustomCAPEM = TrimSpace (ni_CustomCAPEM input)\<rparr>\<rparr>"
  by (simp add: probed_def candidate_request_def new_node_def case_prod_unfold Let_def TrimSpace_id [OF trimmed_TrimSpace])

lemma updated_node_probed:
  assumes "ui_Enabled input"
  shows "probed \<lparr>probe_BaseURL = u, probe_CertificatePolicy = ui_CertificatePolicy input, probe_CustomCAPEM = pem, probe_Credentials = c\<rparr> result
     \<lparr>rec_Node = updated_node input u at (probed_node result at' node), rec_Secrets = \<lparr>secret_Credentials = k, secret_CustomCAPEM = pem\<rparr>\<rparr>"
  using assms by (simp add: probed_def updated_node_def probed_node_def case_prod_unfold Let_def)

lemma ValidateNodeCandidate_result:
  "emits (ValidateNodeCandidate url_parse url_string input) (\<lambda>r ts. (\<forall>rec. ENode rec \<notin> set ts) \<and> (\<forall>result. r = Inr result \<longrightarrow>
     (\<exists>u. NormaliseNodeURL url_parse url_string (ni_BaseURL input) (ni_CertificatePolicy input) = Inr u \<and>
        ts = [EProbe (candidate_request (input\<lparr>ni_Name := TrimSpace (ni_Name input)\<rparr>) u) (Inr result)] \<and>
        result_Compatibility result = CompatibilitySupported)))"
proof -
  have supported: "supported_result result = None \<longleftrightarrow> result_Compatibility result = CompatibilitySupported" for result
    by (simp add: supported_result_def split: Compatibility.split)
  show ?thesis
    unfolding ValidateNodeCandidate_def
    by (rule emits_after, rule after_bind [OF checked_node_input_result])
       (auto intro!: after_probe after_fail after_ret simp: lift_err_def guard_err_def supported split: sum.split option.split)
qed

lemma created_course_none: "\<forall>rec. ENode rec \<notin> set ts \<Longrightarrow> created_course ts"
  by (simp add: created_course_def)

lemma CreateNode_course: "emits (Management_CreateNode url_parse url_string actor input) (\<lambda>r. created_course)"
proof -
  let ?input = "input\<lparr>ni_Name := TrimSpace (ni_Name input)\<rparr>"
  have same: "?input\<lparr>ni_Name := TrimSpace (ni_Name ?input)\<rparr> = ?input" by (simp add: TrimSpace_id [OF trimmed_TrimSpace])
  show ?thesis
    unfolding Management_CreateNode_def Let_def
    by (rule emits_after, rule after_bind [OF checked_node_input_result], simp add: created_course_none, clarsimp,
        rule after_bind [OF ValidateNodeCandidate_result], simp add: created_course_none)
       (auto simp: same [simplified] created_course_def
         intro!: after_silent [OF silent_NewID] after_silent [OF silent_Encrypt] after_silent [OF silent_now]
           after_silent [OF silent_newUserAudit] after_exec_traced after_ret new_node_probed [of ?input, simplified])
qed

lemma probe_update_result:
  "emits (probe_update input request node) (\<lambda>r ts. (\<forall>rec. ENode rec \<notin> set ts) \<and> (\<forall>n. r = Inr n \<longrightarrow>
     (if ui_Enabled input then \<exists>result at. ts = [EProbe request (Inr result)] \<and> n = probed_node result at node else ts = [] \<and> n = node)))"
  unfolding probe_update_def
  by (rule emits_after, cases "ui_Enabled input")
     (auto simp: lift_err_def now_def intro!: after_ret after_probe after_fail after_tick exI split: sum.split)

lemma updated_node_disabled:
  "\<not> ui_Enabled input \<Longrightarrow> \<not> node_Enabled (updated_node input u at node) \<and> node_HealthStatus (updated_node input u at node) = NodeDisabled"
  "ui_Enabled input \<Longrightarrow> node_Enabled (updated_node input u at node)"
  by (simp_all add: updated_node_def Let_def)

lemma UpdateNode_course: "emits (Management_UpdateNode url_parse url_string actor i input) (\<lambda>r. updated_course)"
proof -
  have none: "updated_course ts" if "\<forall>rec. ENode rec \<notin> set ts" for ts using that by (simp add: updated_course_def)
  have course: "updated_course (ts @ [ENode \<lparr>rec_Node = updated_node input u at n, rec_Secrets = \<lparr>secret_Credentials = k, secret_CustomCAPEM = pem\<rparr>\<rparr>])"
    if "if ui_Enabled input then \<exists>result at. ts = [EProbe \<lparr>probe_BaseURL = u, probe_CertificatePolicy = ui_CertificatePolicy input,
          probe_CustomCAPEM = pem, probe_Credentials = c\<rparr> (Inr result)] \<and> n = probed_node result at node else ts = [] \<and> n = node"
    for ts u at n k pem c node
    using that updated_node_disabled
    by (cases "ui_Enabled input") (auto simp: updated_course_def intro: updated_node_probed)
  show ?thesis
    unfolding Management_UpdateNode_def Let_def
    by (rule emits_after)
       (auto simp: none intro!: after_fail after_query after_silent [OF silent_guard_err] after_silent [OF silent_lift_err]
         after_silent [OF silent_Decrypt] after_bind [OF probe_update_result] after_silent [OF silent_Encrypt] after_silent [OF silent_ret]
         after_silent [OF silent_now] after_silent [OF silent_newUserAudit] after_exec_traced after_ret intro: course)
qed

text \<open>
  C20: A node is stored only on the strength of a probe. Creating one needs a probe that found a
  supported version, and what is stored is the address, certificate policy and certificate
  authority of that probe with the version, compatibility and health it reported. An update
  stores an enabled node after such a probe too, and without one only a disabled node.
\<close>

theorem node_writes_probed:
  "(\<exists>ts. w_trace (snd (Management_CreateNode url_parse url_string actor input e w)) = w_trace w @ ts \<and> created_course ts) \<and>
   (\<exists>ts. w_trace (snd (Management_UpdateNode url_parse url_string actor i update e w)) = w_trace w @ ts \<and> updated_course ts)"
  using CreateNode_course [of url_parse url_string actor input] UpdateNode_course [of url_parse url_string actor i update]
  unfolding emits_def by blast

end
