(* ===== verification/Go_Base64.thy ===== *)
theory Go_Base64
  imports Prelude
begin

text \<open>
  \<open>encoding/base64\<close> without padding, for the standard and the URL alphabet, and
  \<open>encoding/hex.DecodeString\<close> as far as it accepts. Strings are bytes. The decoder skips
  carriage returns and line feeds, and does not look at the bits left over at the end, as
  \<open>RawStdEncoding\<close> does when it is not strict.
\<close>

definition base64_common :: string where
  "base64_common = ''ABCDEFGHIJKLMNOPQRSTUVWXYZabcdefghijklmnopqrstuvwxyz0123456789''"

definition std_alphabet :: string where "std_alphabet = base64_common @ ''+/''"
definition url_alphabet :: string where "url_alphabet = base64_common @ ''-_''"

definition byte :: "char \<Rightarrow> nat" where "byte c = of_char c"
definition chr :: "nat \<Rightarrow> char" where "chr n = char_of n"

lemma byte_less: "byte c < 256"
  unfolding byte_def by (rule nat_of_char_less_256)

lemma chr_byte [simp]: "chr (byte c) = c"
  by (simp add: chr_def byte_def)

fun sextets :: "string \<Rightarrow> nat list" where
  "sextets [] = []"
| "sextets [a] = [byte a div 4, byte a mod 4 * 16]"
| "sextets [a, b] = [byte a div 4, byte a mod 4 * 16 + byte b div 16, byte b mod 16 * 4]"
| "sextets (a # b # c # s) =
     byte a div 4 # (byte a mod 4 * 16 + byte b div 16) # (byte b mod 16 * 4 + byte c div 64) # byte c mod 64 # sextets s"

definition base64_EncodeToString :: "string \<Rightarrow> string \<Rightarrow> string" where
  "base64_EncodeToString alphabet s = map ((!) alphabet) (sextets s)"

definition first_byte :: "nat \<Rightarrow> nat \<Rightarrow> char" where "first_byte p q = chr (p * 4 + q div 16)"
definition second_byte :: "nat \<Rightarrow> nat \<Rightarrow> char" where "second_byte q r = chr (q mod 16 * 16 + r div 4)"
definition third_byte :: "nat \<Rightarrow> nat \<Rightarrow> char" where "third_byte r s = chr (r mod 4 * 64 + s)"

fun octets :: "nat list \<Rightarrow> string option" where
  "octets [] = Some []"
| "octets [p] = None"
| "octets [p, q] = Some [first_byte p q]"
| "octets [p, q, r] = Some [first_byte p q, second_byte q r]"
| "octets (p # q # r # s # xs) = map_option (\<lambda>t. first_byte p q # second_byte q r # third_byte r s # t) (octets xs)"

fun index_of :: "'a \<Rightarrow> 'a list \<Rightarrow> nat option" where
  "index_of x [] = None"
| "index_of x (y # ys) = (if x = y then Some 0 else map_option Suc (index_of x ys))"

definition base64_DecodeString :: "string \<Rightarrow> string \<Rightarrow> string option" where
  "base64_DecodeString alphabet s =
    (let xs = map (\<lambda>c. index_of c alphabet) (filter (\<lambda>c. c \<noteq> CHR 0x0A \<and> c \<noteq> CHR 0x0D) s) in
     if None \<in> set xs then None else octets (map the xs))"

definition is_hex_digit :: "char \<Rightarrow> bool" where
  "is_hex_digit c \<longleftrightarrow> c \<in> set ''0123456789abcdefABCDEF''"

definition hex_decodes :: "string \<Rightarrow> bool" where
  "hex_decodes s \<longleftrightarrow> even (length s) \<and> list_all is_hex_digit s"


subsection \<open>Round trip\<close>

lemma sextets_less: "n \<in> set (sextets s) \<Longrightarrow> n < 64"
proof (induction s rule: sextets.induct)
  case (2 a) then show ?case using byte_less [of a] by auto
next
  case (3 a b) then show ?case using byte_less [of a] byte_less [of b] by auto
next
  case (4 a b c s) then show ?case using byte_less [of a] byte_less [of b] byte_less [of c] by auto
qed simp

lemma bytes_back:
  "first_byte (byte a div 4) (byte a mod 4 * 16 + byte b div 16) = a" "first_byte (byte a div 4) (byte a mod 4 * 16) = a"
  "second_byte (byte a mod 4 * 16 + byte b div 16) (byte b mod 16 * 4 + byte c div 64) = b"
  "second_byte (byte a mod 4 * 16 + byte b div 16) (byte b mod 16 * 4) = b"
  "third_byte (byte b mod 16 * 4 + byte c div 64) (byte c mod 64) = c"
proof -
  have sixteen: "(x * 16 + y) div 16 = x" "(x * 16 + y) mod 16 = y" if "y < 16" for x y :: nat using that by simp_all
  have four: "(x * 4 + y) div 4 = x" "(x * 4 + y) mod 4 = y" if "y < 4" for x y :: nat using that by simp_all
  have small: "byte b div 16 < 16" "byte c div 64 < 4" using byte_less [of b] byte_less [of c] by auto
  show "first_byte (byte a div 4) (byte a mod 4 * 16 + byte b div 16) = a" "first_byte (byte a div 4) (byte a mod 4 * 16) = a"
    unfolding first_byte_def sixteen [OF small(1)] by simp_all
  show "second_byte (byte a mod 4 * 16 + byte b div 16) (byte b mod 16 * 4 + byte c div 64) = b"
    unfolding second_byte_def sixteen [OF small(1)] four [OF small(2)] by simp
  show "second_byte (byte a mod 4 * 16 + byte b div 16) (byte b mod 16 * 4) = b"
    unfolding second_byte_def sixteen [OF small(1)] by simp
  show "third_byte (byte b mod 16 * 4 + byte c div 64) (byte c mod 64) = c"
    unfolding third_byte_def four [OF small(2)] by simp
qed

lemma octets_sextets: "octets (sextets s) = Some s"
  by (induction s rule: sextets.induct) (simp_all add: bytes_back)

definition alphabet_ok :: "string \<Rightarrow> bool" where
  "alphabet_ok alphabet \<longleftrightarrow> length alphabet = 64 \<and> list_all (\<lambda>i. index_of (alphabet ! i) alphabet = Some i) [0..<64] \<and>
     CHR 0x0A \<notin> set alphabet \<and> CHR 0x0D \<notin> set alphabet \<and> CHR ''$'' \<notin> set alphabet"

lemma alphabets_ok: "alphabet_ok std_alphabet" "alphabet_ok url_alphabet"
  by code_simp+

lemma encoded_chars: "alphabet_ok alphabet \<Longrightarrow> set (base64_EncodeToString alphabet s) \<subseteq> set alphabet"
  by (auto simp: base64_EncodeToString_def alphabet_ok_def dest: sextets_less)

lemma base64_roundtrip:
  assumes "alphabet_ok alphabet"
  shows "base64_DecodeString alphabet (base64_EncodeToString alphabet s) = Some s"
proof -
  have idx: "index_of (alphabet ! n) alphabet = Some n" if "n \<in> set (sextets s)" for n
    using sextets_less [OF that] assms by (simp add: alphabet_ok_def list_all_iff)
  have "filter (\<lambda>c. c \<noteq> CHR 0x0A \<and> c \<noteq> CHR 0x0D) (base64_EncodeToString alphabet s) = base64_EncodeToString alphabet s"
    using encoded_chars [OF assms, of s] assms by (intro filter_True) (auto simp: alphabet_ok_def)
  moreover have "map (\<lambda>c. index_of c alphabet) (base64_EncodeToString alphabet s) = map Some (sextets s)"
    by (simp add: base64_EncodeToString_def idx)
  ultimately show ?thesis by (auto simp: base64_DecodeString_def octets_sextets o_def)
qed

end
