(* ===== verification/Auth_Crypto.thy ===== *)
theory Auth_Crypto
  imports Domain Go_Sha256 Go_Base64
begin

unbundle bit_operations_syntax

text \<open>
  Tokens and passwords (\<open>internal/auth/token.go\<close>, \<open>password.go\<close>, the recovery codes of
  \<open>mfa.go\<close>): \<open>crypto/hmac\<close> over SHA-256, the textual form of password hashes with
  \<open>strings.Split\<close> and \<open>fmt.Sscanf\<close>, and the checks on what is read back. The key derivation
  \<open>argon2.IDKey\<close> is third-party code and a parameter; random bytes are arguments.
\<close>

subsection \<open>Keyed hashes and tokens\<close>

definition xor_byte :: "nat \<Rightarrow> char \<Rightarrow> char" where
  "xor_byte k c = chr (byte c XOR k)"

definition hmac_sha256 :: "string \<Rightarrow> string \<Rightarrow> string" where
  "hmac_sha256 key message =
    (let k = (if length key > 64 then Sum256 key else key); k = k @ replicate (64 - length k) CHR 0x00 in
     Sum256 (map (xor_byte 0x5c) k @ Sum256 (map (xor_byte 0x36) k @ message)))"

definition tokenBytes :: nat where "tokenBytes = 32"

text \<open>\<open>TokenManager.hash\<close>, for the purposes \<open>session\<close>, \<open>csrf\<close> and \<open>mfa-challenge\<close>.\<close>

definition token_hash :: "string \<Rightarrow> string \<Rightarrow> string \<Rightarrow> string" where
  "token_hash secret purpose token = hmac_sha256 secret (purpose @ CHR 0x00 # token)"

definition HashSessionToken :: "string \<Rightarrow> string \<Rightarrow> string" where "HashSessionToken secret token = token_hash secret ''session'' token"
definition HashCSRFToken :: "string \<Rightarrow> string \<Rightarrow> string" where "HashCSRFToken secret token = token_hash secret ''csrf'' token"
definition HashMFAChallengeToken :: "string \<Rightarrow> string \<Rightarrow> string" where "HashMFAChallengeToken secret token = token_hash secret ''mfa-challenge'' token"

definition HashRecoveryCode :: "string \<Rightarrow> string" where
  "HashRecoveryCode code = Sum256 (''mfa-recovery-code'' @ CHR 0x00 # code)"

definition newToken :: "string \<Rightarrow> string \<Rightarrow> string option \<Rightarrow> go_error + string \<times> string" where
  "newToken secret purpose raw =
    (case raw of
       None \<Rightarrow> Inl (PlainError (''generate '' @ purpose @ '' token''))
     | Some raw \<Rightarrow> let token = base64_EncodeToString url_alphabet raw in Inr (token, token_hash secret purpose token))"


subsection \<open>Passwords\<close>

type_synonym argon2 = "string \<Rightarrow> string \<Rightarrow> nat \<Rightarrow> nat \<Rightarrow> nat \<Rightarrow> nat \<Rightarrow> string"

definition argonMemory :: nat where "argonMemory = 64 * 1024"
definition argonIterations :: nat where "argonIterations = 3"
definition argonParallelism :: nat where "argonParallelism = 2"
definition argonSaltLength :: nat where "argonSaltLength = 16"
definition argonKeyLength :: nat where "argonKeyLength = 32"

lemmas argon_defs = argonMemory_def argonIterations_def argonParallelism_def argonSaltLength_def argonKeyLength_def

definition ValidatePassword :: "string \<Rightarrow> go_error option" where
  "ValidatePassword password =
    (if length password < 12 then Some (Validation ''password'' ''must contain at least 12 characters'')
     else if length password > 1024 then Some (Validation ''password'' ''must not exceed 1024 bytes'')
     else None)"

definition HashPassword :: "argon2 \<Rightarrow> string option \<Rightarrow> string \<Rightarrow> go_error + string" where
  "HashPassword IDKey salt password =
    (case ValidatePassword password of
       Some err \<Rightarrow> Inl err
     | None \<Rightarrow>
       (case salt of
          None \<Rightarrow> Inl (PlainError ''create password salt'')
        | Some salt \<Rightarrow>
          Inr (''$argon2id$v=19$m='' @ digits argonMemory @ '',t='' @ digits argonIterations @ '',p='' @ digits argonParallelism @
            ''$'' @ base64_EncodeToString std_alphabet salt @ ''$'' @ base64_EncodeToString std_alphabet
              (IDKey password salt argonIterations argonMemory argonParallelism argonKeyLength))))"

text \<open>
  \<open>fmt.Sscanf\<close> with the verb \<open>%d\<close> for an unsigned operand: white space is skipped but not line
  feeds, the digits must fit the operand, and what follows the last verb is not looked at.
\<close>

fun scan_literal :: "string \<Rightarrow> string \<Rightarrow> string option" where
  "scan_literal [] s = Some s"
| "scan_literal (c # f) [] = None"
| "scan_literal (c # f) (x # s) = (if x = c then scan_literal f s else None)"

definition skip_space :: "string \<Rightarrow> string option" where
  "skip_space s =
    (let rest = trim_seqs space_runes s in
     if CHR 0x0A \<in> set (take (length s - length rest) s) then None else Some rest)"

definition scan_uint :: "nat \<Rightarrow> string \<Rightarrow> (nat \<times> string) option" where
  "scan_uint bits s =
     Option.bind (skip_space s) (\<lambda>s.
       let tok = takeWhile is_digit s in
       if tok = [] \<or> decimal_value tok \<ge> 2 ^ bits then None else Some (decimal_value tok, drop (length tok) s))"

definition scan_parameters :: "string \<Rightarrow> (nat \<times> nat \<times> nat) option" where
  "scan_parameters s =
     Option.bind (scan_literal ''m='' s) (\<lambda>s. Option.bind (scan_uint 32 s) (\<lambda>(memory, s).
     Option.bind (scan_literal '',t='' s) (\<lambda>s. Option.bind (scan_uint 32 s) (\<lambda>(iterations, s).
     Option.bind (scan_literal '',p='' s) (\<lambda>s. Option.bind (scan_uint 8 s) (\<lambda>(parallelism, s).
     Some (memory, iterations, parallelism)))))))"

definition decoded_between :: "nat \<Rightarrow> nat \<Rightarrow> string \<Rightarrow> string option" where
  "decoded_between lo hi s =
    (case base64_DecodeString std_alphabet s of
       None \<Rightarrow> None
     | Some bytes \<Rightarrow> if length bytes < lo \<or> length bytes > hi then None else Some bytes)"

definition VerifyPassword :: "argon2 \<Rightarrow> string \<Rightarrow> string \<Rightarrow> go_error + bool" where
  "VerifyPassword IDKey encoded password =
    (let parts = Split CHR ''$'' encoded in
     if length parts \<noteq> 6 \<or> parts ! 1 \<noteq> ''argon2id'' \<or> parts ! 2 \<noteq> ''v=19''
     then Inl (PlainError ''unsupported password hash encoding'')
     else case scan_parameters (parts ! 3) of
       None \<Rightarrow> Inl (PlainError ''parse password hash parameters'')
     | Some (memory, iterations, parallelism) \<Rightarrow>
       if memory < 8 * 1024 \<or> memory > 1024 * 1024 \<or> iterations < 1 \<or> iterations > 20 \<or> parallelism < 1 \<or> parallelism > 16
       then Inl (PlainError ''password hash parameters are outside supported bounds'')
       else case decoded_between 8 64 (parts ! 4) of
         None \<Rightarrow> Inl (PlainError ''invalid password hash salt'')
       | Some salt \<Rightarrow>
         (case decoded_between 16 64 (parts ! 5) of
            None \<Rightarrow> Inl (PlainError ''invalid password hash value'')
          | Some expected \<Rightarrow> Inr (IDKey password salt iterations memory parallelism (length expected) = expected)))"

lemma Split_free: "c \<notin> set a \<Longrightarrow> Split c a = [a]"
  by (induction a) auto

lemma Split_Cons: "c \<notin> set a \<Longrightarrow> Split c (a @ c # s) = a # Split c s"
  by (induction a) auto

lemma hash_parts:
  assumes "CHR ''$'' \<notin> set p" "CHR ''$'' \<notin> set q" "CHR ''$'' \<notin> set r"
  shows "Split CHR ''$'' (''$argon2id$v=19$'' @ p @ ''$'' @ q @ ''$'' @ r) = [[], ''argon2id'', ''v=19'', p, q, r]"
  using assms by (simp add: Split_Cons Split_free)

lemma decoded_encoded:
  "lo \<le> length s \<Longrightarrow> length s \<le> hi \<Longrightarrow> decoded_between lo hi (base64_EncodeToString std_alphabet s) = Some s"
  by (simp add: decoded_between_def base64_roundtrip alphabets_ok)

lemma encoded_no_dollar: "CHR ''$'' \<notin> set (base64_EncodeToString std_alphabet s)"
  using encoded_chars [OF alphabets_ok(1), of s] alphabets_ok(1) by (auto simp: alphabet_ok_def)

definition stored_parameters :: string where
  "stored_parameters = ''m='' @ digits argonMemory @ '',t='' @ digits argonIterations @ '',p='' @ digits argonParallelism"

lemma skip_no_space: "is_digit c \<Longrightarrow> skip_space (c # s) = Some (c # s)"
proof -
  assume "is_digit c"
  moreover have "\<forall>q \<in> set space_runes. q \<noteq> [] \<and> \<not> is_digit (hd q)" by code_simp
  ultimately have "strip_one space_runes (c # s) = None" unfolding strip_one_None_iff by (auto simp: prefix_Cons)
  then show ?thesis by (simp add: skip_space_def trim_seqs_id)
qed

lemma scan_uint_digits:
  assumes "n < 2 ^ bits" "rest = [] \<or> \<not> is_digit (hd rest)"
  shows "scan_uint bits (digits n @ rest) = Some (n, rest)"
proof -
  obtain c t where c: "digits n = c # t" by (cases "digits n") auto
  have "skip_space (digits n @ rest) = Some (digits n @ rest)"
    using digits_are_digits [of c n] by (simp add: c skip_no_space)
  moreover have "takeWhile is_digit (digits n @ rest) = digits n"
    using assms(2) digits_are_digits by (cases rest) (auto simp: takeWhile_append2)
  ultimately show ?thesis using assms(1) by (simp add: scan_uint_def)
qed

lemma stored_parameters_scan: "scan_parameters stored_parameters = Some (argonMemory, argonIterations, argonParallelism)"
proof -
  have "scan_uint 32 (digits argonMemory @ '',t='' @ s) = Some (argonMemory, '',t='' @ s)"
    "scan_uint 32 (digits argonIterations @ '',p='' @ s) = Some (argonIterations, '',p='' @ s)"
    "scan_uint 8 (digits argonParallelism @ []) = Some (argonParallelism, [])" for s
    by (rule scan_uint_digits; simp add: argon_defs is_digit_def)+
  then show ?thesis by (simp add: scan_parameters_def stored_parameters_def)
qed

lemma stored_parameters_chars: "CHR ''$'' \<notin> set stored_parameters"
  using digits_are_digits [of "CHR ''$''"] by (auto simp: stored_parameters_def is_digit_def)

lemma verify_hashed:
  assumes "\<And>p s t m n k. length (IDKey p s t m n k) = k"
    and "length salt = argonSaltLength" and "HashPassword IDKey (Some salt) password = Inr encoded"
  shows "VerifyPassword IDKey encoded attempt =
    Inr (IDKey attempt salt argonIterations argonMemory argonParallelism argonKeyLength =
         IDKey password salt argonIterations argonMemory argonParallelism argonKeyLength)"
proof -
  let ?key = "IDKey password salt argonIterations argonMemory argonParallelism argonKeyLength"
  have "encoded = ''$argon2id$v=19$'' @ stored_parameters @ ''$'' @ base64_EncodeToString std_alphabet salt @ ''$'' @
      base64_EncodeToString std_alphabet ?key"
    using assms(3) by (simp add: HashPassword_def stored_parameters_def split: option.splits)
  then have parts: "Split CHR ''$'' encoded = [[], ''argon2id'', ''v=19'', stored_parameters,
      base64_EncodeToString std_alphabet salt, base64_EncodeToString std_alphabet ?key]"
    by (simp only:) (rule hash_parts, auto simp: stored_parameters_chars encoded_no_dollar)
  have key: "length ?key = argonKeyLength" by (rule assms(1))
  have dec: "decoded_between 8 64 (base64_EncodeToString std_alphabet salt) = Some salt"
    "decoded_between 16 64 (base64_EncodeToString std_alphabet ?key) = Some ?key"
    by (rule decoded_encoded; simp add: assms(2) key; simp add: argon_defs)+
  show ?thesis
    by (simp add: VerifyPassword_def parts stored_parameters_scan dec key Let_def) (simp add: argon_defs)
qed

text \<open>
  C39: What \<open>HashPassword\<close> stores, \<open>VerifyPassword\<close> reads back: it never reports a malformed hash,
  and a password is accepted exactly when the key derivation maps it to the stored key, so the
  right password is. The key derivation returns as many bytes as it is asked for.
\<close>

theorem password_roundtrip:
  assumes "\<And>p s t m n k. length (IDKey p s t m n k) = k"
    and "length salt = argonSaltLength" and "HashPassword IDKey (Some salt) password = Inr encoded"
  shows "VerifyPassword IDKey encoded attempt =
    Inr (IDKey attempt salt argonIterations argonMemory argonParallelism argonKeyLength =
         IDKey password salt argonIterations argonMemory argonParallelism argonKeyLength)"
  by (rule verify_hashed [OF assms])

definition sample_argon2 :: argon2 where
  "sample_argon2 = (\<lambda>p s t m n k. take k (p @ replicate k CHR 0x00))"

theorem password_roundtrip_witness:
  "\<exists>encoded. HashPassword sample_argon2 (Some (replicate 16 CHR ''s'')) ''correct horse'' = Inr encoded \<and>
     VerifyPassword sample_argon2 encoded ''correct horse'' = Inr True \<and> VerifyPassword sample_argon2 encoded ''wrong'' = Inr False"
proof -
  have len: "length (sample_argon2 p s t m n k) = k" for p s t m n k by (simp add: sample_argon2_def)
  obtain encoded where h: "HashPassword sample_argon2 (Some (replicate 16 CHR ''s'')) ''correct horse'' = Inr encoded"
    by (simp add: HashPassword_def ValidatePassword_def)
  note verify = password_roundtrip [OF len _ h]
  have "sample_argon2 ''wrong'' s t m n argonKeyLength \<noteq> sample_argon2 ''correct horse'' s t m n argonKeyLength" for s t m n
    by (simp add: sample_argon2_def argon_defs)
  with h show ?thesis by (auto simp: verify argonSaltLength_def)
qed


subsection \<open>Recovery codes\<close>

definition recoveryCodeRandomBytes :: nat where "recoveryCodeRandomBytes = 10"
definition MFARecoveryCodeCount :: nat where "MFARecoveryCodeCount = 10"

definition normalizeRecoveryCode :: "string \<Rightarrow> string \<times> bool" where
  "normalizeRecoveryCode v =
    (let v = ToLower (filter (\<lambda>c. c \<noteq> CHR ''-'') (TrimSpace v)) in
     if length v \<noteq> recoveryCodeRandomBytes * 2 then ([], False) else (v, hex_decodes v))"

definition formatRecoveryCode :: "string \<Rightarrow> string" where
  "formatRecoveryCode v = take 5 v @ ''-'' @ take 5 (drop 5 v) @ ''-'' @ take 5 (drop 10 v) @ ''-'' @ take 5 (drop 15 v)"

end
