(* ===== verification/Authentication.thy ===== *)
theory Authentication
  imports Inventory Commits Auth_Crypto
begin

text \<open>
  The authentication service (\<open>internal/auth/service.go\<close> and \<open>mfa.go\<close>): first set-up, login in
  one or two steps, sessions, and the second factor. Third-party code is in the service record:
  the key derivation of passwords, \<open>mail.ParseAddress\<close>, the check of TOTP codes and the
  decryption with the credential key; generating a TOTP key and random bytes are environment. The
  store implements the MFA methods, so the repository is never missing.
\<close>

record auth_service =
  as_IDKey :: argon2
  as_parseAddress :: "string \<Rightarrow> string option"
  as_secret :: string
  as_dummyHash :: string
  as_decrypt :: "(string \<Rightarrow> EncryptedPayload \<Rightarrow> string option) option"
  as_validate :: "string \<Rightarrow> string \<Rightarrow> time \<Rightarrow> bool option"

definition NormaliseEmail :: "(string \<Rightarrow> string option) \<Rightarrow> string \<Rightarrow> go_error + string" where
  "NormaliseEmail ParseAddress v =
    (let v = ToLower (TrimSpace v) in
     if ParseAddress v \<noteq> Some v \<or> length v > 254 then Inl (Validation ''email'' ''enter a valid email address'') else Inr v)"

definition truncate_bytes :: "string \<Rightarrow> nat \<Rightarrow> string" where
  "truncate_bytes v limit = (if length v \<le> limit then v else take limit v)"

text \<open>The limiters are shared with other requests; their methods read the clock.\<close>

definition use_limiter :: "(world \<Rightarrow> LoginLimiter) \<Rightarrow> (LoginLimiter \<Rightarrow> world \<Rightarrow> world) \<Rightarrow> (LoginLimiter \<Rightarrow> 'a \<times> LoginLimiter) \<Rightarrow> 'a action" where
  "use_limiter get put f = (\<lambda>e w.
     case f (other_attempts e (w_tick w) (get w)) of (x, l) \<Rightarrow> (Inr x, (put l w)\<lparr>w_tick := Suc (w_tick w)\<rparr>))"

definition set_limiter :: "LoginLimiter \<Rightarrow> world \<Rightarrow> world" where "set_limiter l w = w\<lparr>w_limiter := l\<rparr>"
definition set_factorLimiter :: "LoginLimiter \<Rightarrow> world \<Rightarrow> world" where "set_factorLimiter l w = w\<lparr>w_factorLimiter := l\<rparr>"

definition login_allow :: "string \<Rightarrow> bool action" where
  "login_allow key = bind now (\<lambda>at. use_limiter w_limiter set_limiter (Allow key at))"
definition login_failure :: "string \<Rightarrow> unit action" where
  "login_failure key = bind now (\<lambda>at. use_limiter w_limiter set_limiter (\<lambda>l. ((), Failure key at l)))"
definition login_success :: "string \<Rightarrow> unit action" where
  "login_success key = use_limiter w_limiter set_limiter (\<lambda>l. ((), Success key l))"
definition factor_allow :: "string \<Rightarrow> bool action" where
  "factor_allow key = bind now (\<lambda>at. use_limiter w_factorLimiter set_factorLimiter (Allow key at))"
definition factor_failure :: "string \<Rightarrow> unit action" where
  "factor_failure key = bind now (\<lambda>at. use_limiter w_factorLimiter set_factorLimiter (\<lambda>l. ((), Failure key at l)))"
definition factor_success :: "string \<Rightarrow> unit action" where
  "factor_success key = use_limiter w_factorLimiter set_factorLimiter (\<lambda>l. ((), Success key l))"

definition null_byte :: string where "null_byte = [CHR 0x00]"

definition auditEvent :: "string \<Rightarrow> string option \<Rightarrow> string \<Rightarrow> string \<Rightarrow> string option \<Rightarrow> string \<Rightarrow> json gomap \<Rightarrow> time \<Rightarrow> AuditEvent action" where
  "auditEvent actorType actorUserID action resourceType resourceID requestID metadata at =
     bind NewID_act (\<lambda>i. ret
       \<lparr>audit_ID = i, audit_ActorType = actorType, audit_ActorUserID = actorUserID, audit_Action = action,
        audit_ResourceType = resourceType, audit_ResourceID = resourceID, audit_RequestID = requestID,
        audit_Metadata = metadata, audit_CreatedAt = at\<rparr>)"

definition new_token :: "auth_service \<Rightarrow> string \<Rightarrow> (string \<times> string) action" where
  "new_token s purpose = bind (tick (\<lambda>e t. random_bytes e t tokenBytes)) (\<lambda>raw. lift_err (newToken (as_secret s) purpose raw))"

definition hash_password :: "argon2 \<Rightarrow> string \<Rightarrow> string action" where
  "hash_password IDKey password = bind (tick (\<lambda>e t. random_bytes e t argonSaltLength)) (\<lambda>salt. lift_err (HashPassword IDKey salt password))"


subsection \<open>Sessions (service.go)\<close>

record SessionResult =
  sr_User :: "User option"
  sr_Session :: "Session option"
  sr_Token :: string
  sr_CSRFToken :: string
  sr_MFARequired :: bool
  sr_MFAChallenge :: string
  sr_ChallengeExpiresAt :: "time option"

definition SetupRequired :: "bool action" where
  "SetupRequired = bind (list_query HasUsers) (\<lambda>hasUsers. ret (\<not> hasUsers))"

definition buildSession :: "auth_service \<Rightarrow> User \<Rightarrow> string \<Rightarrow> string \<Rightarrow> string \<Rightarrow> (SessionResult \<times> Session \<times> AuditEvent) action" where
  "buildSession s user requestID sourceIP userAgent =
     bind NewID_act (\<lambda>sessionID.
     bind (new_token s ''session'') (\<lambda>(token, tokenHash).
     bind (new_token s ''csrf'') (\<lambda>(csrfToken, csrfHash).
     bind now (\<lambda>at.
     bind (tick session_duration) (\<lambda>duration.
     let session = \<lparr>sess_ID = sessionID, sess_UserID = user_ID user, sess_TokenHash = tokenHash, sess_CSRFHash = csrfHash,
           sess_CreatedAt = at, sess_ExpiresAt = at + duration, sess_LastSeenAt = at, sess_RevokedAt = None,
           sess_IPMetadata = truncate_bytes sourceIP 128, sess_UserAgent = truncate_bytes userAgent 512\<rparr> in
     bind (auditEvent ''user'' (Some (user_ID user)) ''auth.login.succeeded'' ''session'' (Some sessionID) requestID
       [(''sourceIp'', JString (sess_IPMetadata session))] at) (\<lambda>event.
     ret (\<lparr>sr_User = Some user, sr_Session = Some session, sr_Token = token, sr_CSRFToken = csrfToken, sr_MFARequired = False,
           sr_MFAChallenge = [], sr_ChallengeExpiresAt = None\<rparr>, session, event)))))))"

definition recordFailure :: "string \<Rightarrow> string \<Rightarrow> string \<Rightarrow> string \<Rightarrow> unit action" where
  "recordFailure requestID sourceIP email outcome =
     bind now (\<lambda>at.
     bind (auditEvent ''anonymous'' None ''auth.login.failed'' ''authentication'' None requestID
       [(''sourceIp'', JString (truncate_bytes sourceIP 128)), (''identifierHash'', JString (sha256_hex email)), (''outcome'', JString outcome)] at) (\<lambda>event.
     exec (RecordAuditEvent event)))"

definition Setup :: "auth_service \<Rightarrow> string \<Rightarrow> string \<Rightarrow> string \<Rightarrow> string \<Rightarrow> string \<Rightarrow> string \<Rightarrow> SessionResult action" where
  "Setup s email displayName password requestID sourceIP userAgent =
     bind SetupRequired (\<lambda>required.
     bind (guard_act required (NewError ErrorConflict ''initial setup has already been completed'')) (\<lambda>_.
     bind (lift_err (NormaliseEmail (as_parseAddress s) email)) (\<lambda>email.
     let displayName = TrimSpace displayName in
     case ValidateDisplayName displayName of
       Some err \<Rightarrow> fail err
     | None \<Rightarrow>
       bind (hash_password (as_IDKey s) password) (\<lambda>passwordHash.
       bind NewID_act (\<lambda>userID.
       bind now (\<lambda>at.
       let user = \<lparr>user_ID = userID, user_Email = email, user_DisplayName = displayName, user_PasswordHash = passwordHash,
             user_Role = RoleAdministrator, user_Enabled = True, user_CreatedAt = at, user_UpdatedAt = at, user_LastLoginAt = None\<rparr> in
       bind (auditEvent ''user'' (Some userID) ''user.created'' ''user'' (Some userID) requestID [(''role'', JString RoleAdministrator)] at) (\<lambda>userEvent.
       bind (buildSession s (UserRow.extend user (User.fields False)) requestID sourceIP userAgent) (\<lambda>(result, session, loginEvent).
       bind (exec_traced (ESession session) (CreateInitialUser user session userEvent loginEvent)) (\<lambda>_. ret result)))))))))"

definition createSession :: "auth_service \<Rightarrow> User \<Rightarrow> string \<Rightarrow> string \<Rightarrow> string \<Rightarrow> SessionResult action" where
  "createSession s user requestID sourceIP userAgent =
     bind (buildSession s user requestID sourceIP userAgent) (\<lambda>(result, session, event).
     bind (exec_traced (ESession session) (CreateLoginSession session event)) (\<lambda>_. ret result))"

definition MFAChallengeLifetime :: time where "MFAChallengeLifetime = seconds (5 * 60)"
definition MFAEnrollmentLifetime :: time where "MFAEnrollmentLifetime = seconds (10 * 60)"

definition createMFAChallenge :: "auth_service \<Rightarrow> User \<Rightarrow> string \<Rightarrow> string \<Rightarrow> SessionResult action" where
  "createMFAChallenge s user sourceIP userAgent =
     bind NewID_act (\<lambda>i.
     bind (new_token s ''mfa-challenge'') (\<lambda>(token, tokenHash).
     bind now (\<lambda>at.
     let expires = at + MFAChallengeLifetime in
     bind (exec (CreateMFAChallenge \<lparr>chal_ID = i, chal_UserID = user_ID user, chal_TokenHash = tokenHash, chal_CreatedAt = at,
       chal_ExpiresAt = expires, chal_ConsumedAt = None, chal_FailedAttempts = 0, chal_IPMetadata = truncate_bytes sourceIP 128,
       chal_UserAgent = truncate_bytes userAgent 512\<rparr>)) (\<lambda>_.
     ret \<lparr>sr_User = None, sr_Session = None, sr_Token = [], sr_CSRFToken = [], sr_MFARequired = True, sr_MFAChallenge = token,
       sr_ChallengeExpiresAt = Some expires\<rparr>))))"

definition login_email :: "auth_service \<Rightarrow> string \<Rightarrow> string" where
  "login_email s email = (case NormaliseEmail (as_parseAddress s) email of Inl _ \<Rightarrow> ToLower (TrimSpace email) | Inr v \<Rightarrow> v)"

definition Login :: "auth_service \<Rightarrow> string \<Rightarrow> string \<Rightarrow> string \<Rightarrow> string \<Rightarrow> string \<Rightarrow> SessionResult action" where
  "Login s email password requestID sourceIP userAgent =
    (let email = login_email s email; key = sourceIP @ null_byte @ email in
     bind (login_allow key) (\<lambda>allowed.
     if \<not> allowed then bind (recordFailure requestID sourceIP email ''rate_limited'') (\<lambda>_.
       fail (NewError ErrorRateLimited ''too many login attempts; try again later''))
     else bind (attempt (query (UserByEmail email))) (\<lambda>r.
       case VerifyPassword (as_IDKey s) (case r of Inl _ \<Rightarrow> as_dummyHash s | Inr user \<Rightarrow> user_PasswordHash user) password of
         Inl _ \<Rightarrow> fail (PlainError ''verify password'')
       | Inr valid \<Rightarrow>
         (case r of
            Inr user \<Rightarrow>
              if valid \<and> user_Enabled user
              then bind (login_success key) (\<lambda>_.
                if user_MFAEnabled user then createMFAChallenge s user sourceIP userAgent
                else createSession s user requestID sourceIP userAgent)
              else bind (login_failure key) (\<lambda>_. bind (recordFailure requestID sourceIP email ''invalid_credentials'') (\<lambda>_.
                fail (NewError ErrorInvalidCredentials ''email or password is incorrect'')))
          | Inl _ \<Rightarrow> bind (login_failure key) (\<lambda>_. bind (recordFailure requestID sourceIP email ''invalid_credentials'') (\<lambda>_.
              fail (NewError ErrorInvalidCredentials ''email or password is incorrect''))))))) "

definition Authenticate :: "auth_service \<Rightarrow> string \<Rightarrow> (Session \<times> User) action" where
  "Authenticate s token =
    (if token = [] then fail authentication_required
     else bind now (\<lambda>at.
       bind (query (AuthenticatedSession (HashSessionToken (as_secret s) token) at)) (\<lambda>(session, user).
       bind now (\<lambda>at.
       bind (attempt (exec (TouchSession (sess_ID session) at))) (\<lambda>_. ret (session, user))))))"

definition ValidateCSRF :: "auth_service \<Rightarrow> Session \<Rightarrow> string \<Rightarrow> bool" where
  "ValidateCSRF s session token \<longleftrightarrow> token \<noteq> [] \<and> sess_CSRFHash session = HashCSRFToken (as_secret s) token"

definition Logout :: "Session \<Rightarrow> User \<Rightarrow> string \<Rightarrow> unit action" where
  "Logout session user requestID =
     bind now (\<lambda>at.
     bind (auditEvent ''user'' (Some (user_ID user)) ''auth.logout'' ''session'' (Some (sess_ID session)) requestID [] at) (\<lambda>event.
     exec (RevokeSession (sess_ID session) at event)))"


subsection \<open>The second factor (mfa.go)\<close>

record MFAStatus =
  st_Enabled :: bool
  st_RecoveryRemaining :: int

record MFAEnrollment =
  en_Secret :: string
  en_ProvisioningURI :: string
  en_QRCodeDataURL :: string
  en_Issuer :: string
  en_AccountLabel :: string
  en_ExpiresAt :: time

record MFARecoveryResult =
  rr_RecoveryCodes :: "string list"
  rr_RecoveryRemaining :: nat

definition MFATOTPIssuer :: string where "MFATOTPIssuer = ''Atlas DNS''"

definition mfaSecretScope :: "string \<Rightarrow> string" where "mfaSecretScope userID = ''user-mfa:'' @ userID"

definition Auth_MFAStatus :: "string \<Rightarrow> MFAStatus action" where
  "Auth_MFAStatus userID =
     bind (list_query (MFAEnabled userID)) (\<lambda>enabled.
     if \<not> enabled then ret \<lparr>st_Enabled = False, st_RecoveryRemaining = 0\<rparr>
     else bind (query (UserMFA_of userID)) (\<lambda>config. ret \<lparr>st_Enabled = True, st_RecoveryRemaining = mfa_RecoveryRemaining config\<rparr>))"

definition verifyCurrentPassword :: "auth_service \<Rightarrow> string \<Rightarrow> string \<Rightarrow> string \<Rightarrow> User action" where
  "verifyCurrentPassword s userID password operation =
    (let key = userID @ null_byte @ operation in
     bind (factor_allow key) (\<lambda>allowed.
     bind (guard_act allowed (NewError ErrorRateLimited ''too many authentication attempts; try again later'')) (\<lambda>_.
     bind (query (UserByID userID)) (\<lambda>user.
     case VerifyPassword (as_IDKey s) (user_PasswordHash user) password of
       Inl _ \<Rightarrow> fail (PlainError ''verify current password'')
     | Inr valid \<Rightarrow>
       if \<not> valid then bind (factor_failure key) (\<lambda>_. fail (NewError ErrorInvalidCredentials ''current password is incorrect''))
       else bind (factor_success key) (\<lambda>_. ret user)))))"

definition verifyEncryptedTOTP :: "auth_service \<Rightarrow> string \<Rightarrow> EncryptedPayload \<Rightarrow> string \<Rightarrow> string \<Rightarrow> unit action" where
  "verifyEncryptedTOTP s userID encrypted code limitKey =
    (case as_decrypt s of
       None \<Rightarrow> fail (PlainError ''MFA credential encryption is unavailable'')
     | Some dec \<Rightarrow>
       bind (factor_allow limitKey) (\<lambda>allowed.
       bind (guard_act allowed (NewError ErrorRateLimited ''too many authentication-code attempts; try again later'')) (\<lambda>_.
       case dec (mfaSecretScope userID) encrypted of
         None \<Rightarrow> fail (PlainError ''decrypt TOTP secret'')
       | Some secret \<Rightarrow>
         bind now (\<lambda>at.
         case as_validate s (TrimSpace code) secret at of
           None \<Rightarrow> fail (PlainError ''validate TOTP'')
         | Some valid \<Rightarrow>
           if \<not> valid then bind (factor_failure limitKey) (\<lambda>_. fail (NewError ErrorInvalidCredentials ''authentication code is invalid''))
           else factor_success limitKey))))"

definition verifyMFAStepUp :: "auth_service \<Rightarrow> string \<Rightarrow> string \<Rightarrow> string \<Rightarrow> string \<Rightarrow> (User \<times> UserMFA) action" where
  "verifyMFAStepUp s userID password code operation =
     bind (verifyCurrentPassword s userID password (operation @ ''-password'')) (\<lambda>user.
     bind (guard_act (user_MFAEnabled user) mfa_not_enabled) (\<lambda>_.
     bind (query (UserMFA_of userID)) (\<lambda>config.
     bind (verifyEncryptedTOTP s userID (mfa_Secret config) code (userID @ null_byte @ operation @ ''-code'')) (\<lambda>_. ret (user, config)))))"

text \<open>\<open>StdEncoding\<close> of \<open>encoding/base64\<close> fills up the last group of four.\<close>

definition base64_padded :: "string \<Rightarrow> string" where
  "base64_padded s = s @ replicate ((4 - length s mod 4) mod 4) CHR ''=''"

definition StartMFAEnrollment :: "auth_service \<Rightarrow> string \<Rightarrow> string \<Rightarrow> MFAEnrollment action" where
  "StartMFAEnrollment s userID currentPassword =
     bind (guard_act (as_decrypt s \<noteq> None) (PlainError ''MFA credential encryption is unavailable'')) (\<lambda>_.
     bind (verifyCurrentPassword s userID currentPassword ''mfa-enrollment-password'') (\<lambda>user.
     bind (guard_act (\<not> user_MFAEnabled user) (NewError ErrorConflict ''MFA is already enabled'')) (\<lambda>_.
     bind (tick (\<lambda>e t. totp_generate e t MFATOTPIssuer (user_Email user))) (\<lambda>key.
     case key of
       None \<Rightarrow> fail (PlainError ''generate TOTP enrollment'')
     | Some (secret, uri) \<Rightarrow>
       bind (tick (\<lambda>e t. encrypt_payload e t (mfaSecretScope (user_ID user)) secret)) (\<lambda>r.
       case r of
         None \<Rightarrow> fail (PlainError ''encrypt TOTP secret'')
       | Some encrypted \<Rightarrow>
         bind now (\<lambda>at.
         let expires = at + MFAEnrollmentLifetime in
         bind (exec (UpsertPendingMFA \<lparr>mfa_UserID = user_ID user, mfa_Secret = encrypted, mfa_EnrollmentStarted = at,
           mfa_EnrollmentExpires = expires, mfa_EnabledAt = None\<rparr>)) (\<lambda>_.
         bind (capability totp_image) (\<lambda>image.
         case image uri of
           None \<Rightarrow> fail (PlainError ''generate local enrollment QR code'')
         | Some png \<Rightarrow> ret
             \<lparr>en_Secret = secret, en_ProvisioningURI = uri,
              en_QRCodeDataURL = ''data:image/png;base64,'' @ base64_padded (base64_EncodeToString std_alphabet png),
              en_Issuer = MFATOTPIssuer, en_AccountLabel = user_Email user, en_ExpiresAt = expires\<rparr>))))))))"

fun recovery_codes :: "nat \<Rightarrow> string \<Rightarrow> time \<Rightarrow> (string list \<times> MFARecoveryCode list) action" where
  "recovery_codes 0 userID at = ret ([], [])"
| "recovery_codes (Suc n) userID at =
     bind (tick (\<lambda>e t. random_bytes e t recoveryCodeRandomBytes)) (\<lambda>raw.
     case raw of
       None \<Rightarrow> fail (PlainError ''generate MFA recovery code'')
     | Some raw \<Rightarrow>
       let normalized = hex_EncodeToString raw in
       bind NewID_act (\<lambda>i.
       bind (recovery_codes n userID at) (\<lambda>(plain, stored).
       ret (formatRecoveryCode normalized # plain,
            \<lparr>rc_ID = i, rc_UserID = userID, rc_CodeHash = HashRecoveryCode normalized, rc_CreatedAt = at, rc_UsedAt = None\<rparr> # stored))))"

definition newRecoveryCodes :: "string \<Rightarrow> (string list \<times> MFARecoveryCode list) action" where
  "newRecoveryCodes userID = bind now (recovery_codes MFARecoveryCodeCount userID)"

definition VerifyMFAEnrollment :: "auth_service \<Rightarrow> string \<Rightarrow> string \<Rightarrow> string \<Rightarrow> string \<Rightarrow> MFARecoveryResult action" where
  "VerifyMFAEnrollment s userID currentSessionID code requestID =
    (let missing = NewError ErrorConflict ''MFA enrollment is missing or expired''; limitKey = userID @ null_byte @ ''mfa-enrollment-code'' in
     bind (attempt (query (UserMFA_of userID))) (\<lambda>r.
     case r of
       Inl _ \<Rightarrow> fail missing
     | Inr config \<Rightarrow>
       bind (guard_act (mfa_EnabledAt config = None) (NewError ErrorConflict ''MFA is already enabled'')) (\<lambda>_.
       bind now (\<lambda>at.
       bind (guard_act (mfa_EnrollmentExpires config > at) missing) (\<lambda>_.
       bind (verifyEncryptedTOTP s userID (mfa_Secret config) code limitKey) (\<lambda>_.
       bind (newRecoveryCodes userID) (\<lambda>(plain, stored).
       bind now (\<lambda>at.
       bind (auditEvent ''user'' (Some userID) ''user.mfa.enabled'' ''user'' (Some userID) requestID
         [(''recoveryCodesRemaining'', JInt (int MFARecoveryCodeCount)), (''otherSessionsRevoked'', JBool True)] at) (\<lambda>event.
       bind (exec_traced (EFactor userID) (EnableMFA userID currentSessionID stored at event)) (\<lambda>_.
       bind (factor_success limitKey) (\<lambda>_.
       ret \<lparr>rr_RecoveryCodes = plain, rr_RecoveryRemaining = length plain\<rparr>)))))))))))"

definition RegenerateRecoveryCodes :: "auth_service \<Rightarrow> string \<Rightarrow> string \<Rightarrow> string \<Rightarrow> string \<Rightarrow> string \<Rightarrow> MFARecoveryResult action" where
  "RegenerateRecoveryCodes s userID currentSessionID currentPassword code requestID =
     bind (verifyMFAStepUp s userID currentPassword code ''mfa-regenerate'') (\<lambda>_.
     bind (newRecoveryCodes userID) (\<lambda>(plain, stored).
     bind now (\<lambda>at.
     bind (auditEvent ''user'' (Some userID) ''user.mfa.recovery_codes_regenerated'' ''user'' (Some userID) requestID
       [(''recoveryCodesRemaining'', JInt (int MFARecoveryCodeCount)), (''otherSessionsRevoked'', JBool True)] at) (\<lambda>event.
     bind (exec_traced (EFactor userID) (ReplaceRecoveryCodes userID currentSessionID stored at event)) (\<lambda>_.
     ret \<lparr>rr_RecoveryCodes = plain, rr_RecoveryRemaining = length plain\<rparr>)))))"

definition Auth_DisableMFA :: "auth_service \<Rightarrow> string \<Rightarrow> string \<Rightarrow> string \<Rightarrow> string \<Rightarrow> string \<Rightarrow> unit action" where
  "Auth_DisableMFA s userID currentSessionID currentPassword code requestID =
     bind (verifyMFAStepUp s userID currentPassword code ''mfa-disable'') (\<lambda>_.
     bind now (\<lambda>at.
     bind (auditEvent ''user'' (Some userID) ''user.mfa.disabled'' ''user'' (Some userID) requestID
       [(''recoveryCodesInvalidated'', JBool True), (''challengesInvalidated'', JBool True), (''otherSessionsRevoked'', JBool True)] at) (\<lambda>event.
     exec_traced (EFactor userID) (DisableMFA userID currentSessionID at event))))"

definition VerifyTOTPForUser :: "auth_service \<Rightarrow> string \<Rightarrow> string \<Rightarrow> string \<Rightarrow> unit action" where
  "VerifyTOTPForUser s userID code operation =
    (let refused = NewError ErrorInvalidCredentials ''current password or authentication code is invalid'' in
     bind (attempt (query (UserMFA_of userID))) (\<lambda>r.
     case r of
       Inl _ \<Rightarrow> fail refused
     | Inr config \<Rightarrow>
       bind (guard_act (mfa_EnabledAt config \<noteq> None) refused) (\<lambda>_.
       verifyEncryptedTOTP s userID (mfa_Secret config) code (userID @ null_byte @ operation))))"

definition RequiresMFA :: "string \<Rightarrow> bool action" where
  "RequiresMFA userID = list_query (MFAEnabled userID)"

text \<open>\<open>_ = \<dots>\<close>: the failure is recorded as far as that works.\<close>

definition reject_factor :: "string \<Rightarrow> string option \<Rightarrow> string \<Rightarrow> string \<Rightarrow> string \<Rightarrow> 'a action" where
  "reject_factor tokenHash limitKey requestID sourceIP email =
     bind now (\<lambda>at.
     bind (attempt (exec (FailMFAChallenge tokenHash at))) (\<lambda>_.
     bind (case limitKey of None \<Rightarrow> ret () | Some key \<Rightarrow> factor_failure key) (\<lambda>_.
     bind (attempt (recordFailure requestID sourceIP email ''invalid_second_factor'')) (\<lambda>_.
     fail code_rejected))))"

definition credential_error :: "go_error \<Rightarrow> bool" where
  "credential_error err \<longleftrightarrow> (case err of DomainError kind _ _ \<Rightarrow> kind = ErrorInvalidCredentials \<or> kind = ErrorAuthentication | PlainError _ \<Rightarrow> False)"

definition finish_challenge :: "auth_service \<Rightarrow> string \<Rightarrow> string \<Rightarrow> string \<Rightarrow> AuditEvent option \<Rightarrow> User \<Rightarrow> string \<Rightarrow> string \<Rightarrow> string \<Rightarrow> SessionResult action" where
  "finish_challenge s tokenHash limitKey recoveryHash recoveryEvent user requestID sourceIP userAgent =
     bind (buildSession s user requestID sourceIP userAgent) (\<lambda>(result, session, loginEvent).
     bind now (\<lambda>at.
     bind (attempt (exec_traced (EAnswer tokenHash recoveryHash session) (CompleteMFAChallenge tokenHash recoveryHash at recoveryEvent session loginEvent))) (\<lambda>r.
     case r of
       Inl err \<Rightarrow>
         if credential_error err then reject_factor tokenHash (Some limitKey) requestID sourceIP (user_Email user)
         else bind now (\<lambda>at. bind (attempt (exec (FailMFAChallenge tokenHash at))) (\<lambda>_. bind (factor_failure limitKey) (\<lambda>_. fail err)))
     | Inr _ \<Rightarrow> bind (factor_success limitKey) (\<lambda>_. ret result))))"

definition Auth_CompleteMFAChallenge :: "auth_service \<Rightarrow> string \<Rightarrow> string \<Rightarrow> bool \<Rightarrow> string \<Rightarrow> string \<Rightarrow> string \<Rightarrow> SessionResult action" where
  "Auth_CompleteMFAChallenge s challengeToken code recovery requestID sourceIP userAgent =
    (let tokenHash = HashMFAChallengeToken (as_secret s) (TrimSpace challengeToken) in
     bind now (\<lambda>at.
     bind (query (MFAChallengeByTokenHash tokenHash at)) (\<lambda>(challenge, user, config).
     let limitKey = sourceIP @ null_byte @ chal_ID challenge in
     bind (factor_allow limitKey) (\<lambda>allowed.
     bind (guard_act allowed (NewError ErrorRateLimited ''too many authentication-code attempts; try again later'')) (\<lambda>_.
     if recovery then
       (case normalizeRecoveryCode code of
          (_, False) \<Rightarrow> reject_factor tokenHash (Some limitKey) requestID sourceIP (user_Email user)
        | (normalized, True) \<Rightarrow>
          bind now (\<lambda>at.
          bind (auditEvent ''user'' (Some (user_ID user)) ''user.mfa.recovery_code_used'' ''user'' (Some (user_ID user)) requestID
            [(''recoveryCodesRemaining'', JInt (max (mfa_RecoveryRemaining config - 1) 0))] at) (\<lambda>event.
          finish_challenge s tokenHash limitKey (HashRecoveryCode normalized) (Some event) user requestID sourceIP userAgent)))
     else bind (attempt (verifyEncryptedTOTP s (user_ID user) (mfa_Secret config) code limitKey)) (\<lambda>r.
       case r of
         Inl _ \<Rightarrow> reject_factor tokenHash None requestID sourceIP (user_Email user)
       | Inr _ \<Rightarrow> finish_challenge s tokenHash limitKey [] None user requestID sourceIP userAgent))))))"

definition CancelMFAChallenge :: "auth_service \<Rightarrow> string \<Rightarrow> unit action" where
  "CancelMFAChallenge s challengeToken =
     bind now (\<lambda>at. exec (ConsumeMFAChallenge (HashMFAChallengeToken (as_secret s) (TrimSpace challengeToken)) [] at None))"

definition Auth_ResetMFAFromHost :: "auth_service \<Rightarrow> string \<Rightarrow> (UserRow \<times> nat) action" where
  "Auth_ResetMFAFromHost s email =
     bind (lift_err (NormaliseEmail (as_parseAddress s) email)) (\<lambda>normalized.
     bind now (\<lambda>at.
     bind (auditEvent ''system'' None ''user.mfa.reset_from_host'' ''user'' None ''admin-cli''
       [(''sessionsRevoked'', JBool True), (''recoveryCodesInvalidated'', JBool True), (''challengesInvalidated'', JBool True)] at) (\<lambda>event.
     call (ResetMFAFromHost normalized at event))))"

end
