(* ===== verification/User_Admin.thy ===== *)
theory User_Admin
  imports Authentication Management
begin

text \<open>
  The administration of users (\<open>internal/useradmin/service.go\<close>): accounts as administrators
  create, change and reset them, and the change of one's own password, which asks for the current
  password and, where it is enabled, the second factor. The verifier of the second factor is the
  authentication service, or missing.
\<close>

definition set_passwordLimiter :: "LoginLimiter \<Rightarrow> world \<Rightarrow> world" where "set_passwordLimiter l w = w\<lparr>w_passwordLimiter := l\<rparr>"

definition password_allow :: "string \<Rightarrow> bool action" where
  "password_allow key = bind now (\<lambda>at. use_limiter w_passwordLimiter set_passwordLimiter (Allow key at))"
definition password_failure :: "string \<Rightarrow> unit action" where
  "password_failure key = bind now (\<lambda>at. use_limiter w_passwordLimiter set_passwordLimiter (\<lambda>l. ((), Failure key at l)))"
definition password_success :: "string \<Rightarrow> unit action" where
  "password_success key = use_limiter w_passwordLimiter set_passwordLimiter (\<lambda>l. ((), Success key l))"

record CreateInput =
  cu_Email :: string
  cu_DisplayName :: string
  cu_Password :: string
  cu_Role :: string

record UpdateInput =
  uu_Email :: string
  uu_DisplayName :: string
  uu_Role :: string
  uu_Enabled :: bool

definition user_event :: "Actor \<Rightarrow> string \<Rightarrow> string \<Rightarrow> json gomap \<Rightarrow> time \<Rightarrow> AuditEvent action" where
  "user_event actor action targetID metadata at =
     bind NewID_act (\<lambda>i. ret
       \<lparr>audit_ID = i, audit_ActorType = ''user'', audit_ActorUserID = Some (actor_UserID actor), audit_Action = action,
        audit_ResourceType = ''user'', audit_ResourceID = Some targetID, audit_RequestID = actor_RequestID actor,
        audit_Metadata = metadata, audit_CreatedAt = at\<rparr>)"

definition UserAdmin_List :: "User list action" where
  "UserAdmin_List = list_query ListUsers"

text \<open>The checks that creating and changing an account share.\<close>

definition checked_account :: "(string \<Rightarrow> string option) \<Rightarrow> string \<Rightarrow> string \<Rightarrow> string \<Rightarrow> (string \<times> string) action" where
  "checked_account ParseAddress email displayName role =
     bind (lift_err (NormaliseEmail ParseAddress email)) (\<lambda>email.
     let displayName = TrimSpace displayName in
     bind (guard_err (ValidateDisplayName displayName)) (\<lambda>_.
     bind (guard_act (role = RoleAdministrator) (Validation ''role'' ''must be administrator'')) (\<lambda>_.
     ret (email, displayName))))"

definition UserAdmin_Create :: "argon2 \<Rightarrow> (string \<Rightarrow> string option) \<Rightarrow> Actor \<Rightarrow> CreateInput \<Rightarrow> UserRow action" where
  "UserAdmin_Create IDKey ParseAddress actor input =
     bind (checked_account ParseAddress (cu_Email input) (cu_DisplayName input) (cu_Role input)) (\<lambda>(email, displayName).
     bind (hash_password IDKey (cu_Password input)) (\<lambda>passwordHash.
     bind NewID_act (\<lambda>i.
     bind now (\<lambda>at.
     let user = \<lparr>user_ID = i, user_Email = email, user_DisplayName = displayName, user_PasswordHash = passwordHash, user_Role = cu_Role input,
           user_Enabled = True, user_CreatedAt = at, user_UpdatedAt = at, user_LastLoginAt = None\<rparr> in
     bind (user_event actor ''user.created'' i [(''role'', JString (cu_Role input))] at) (\<lambda>event.
     bind (exec (CreateUser user event)) (\<lambda>_. ret user))))))"

definition update_action :: "User \<Rightarrow> string \<Rightarrow> bool \<Rightarrow> string" where
  "update_action current email enabled =
    (if user_Enabled current \<noteq> enabled then (if enabled then ''user.enabled'' else ''user.disabled'')
     else if user_Email current \<noteq> email then ''user.login_identifier_changed''
     else ''user.updated'')"

definition UserAdmin_Update :: "(string \<Rightarrow> string option) \<Rightarrow> Actor \<Rightarrow> string \<Rightarrow> UpdateInput \<Rightarrow> User action" where
  "UserAdmin_Update ParseAddress actor targetID input =
     bind (guard_act (ValidID targetID) (Validation ''userId'' ''must be a valid identifier'')) (\<lambda>_.
     bind (checked_account ParseAddress (uu_Email input) (uu_DisplayName input) (uu_Role input)) (\<lambda>(email, displayName).
     bind (guard_act (\<not> (actor_UserID actor = targetID \<and> \<not> uu_Enabled input)) (NewError ErrorConflict ''you cannot disable your current account'')) (\<lambda>_.
     bind (query (UserByID targetID)) (\<lambda>current.
     bind now (\<lambda>at.
     bind (user_event actor (update_action current email (uu_Enabled input)) targetID
       [(''role'', JString (uu_Role input)), (''enabled'', JBool (uu_Enabled input)),
        (''loginIdentifierChanged'', JBool (user_Email current \<noteq> email)), (''displayNameChanged'', JBool (user_DisplayName current \<noteq> displayName))] at) (\<lambda>event.
     call (UpdateUser targetID email displayName (uu_Enabled input) at event)))))))"

definition UserAdmin_ResetPassword :: "argon2 \<Rightarrow> Actor \<Rightarrow> string \<Rightarrow> string \<Rightarrow> unit action" where
  "UserAdmin_ResetPassword IDKey actor targetID password =
     bind (guard_act (ValidID targetID) (Validation ''userId'' ''must be a valid identifier'')) (\<lambda>_.
     bind (hash_password IDKey password) (\<lambda>passwordHash.
     bind now (\<lambda>at.
     bind (user_event actor ''user.password_reset'' targetID [(''sessionsRevoked'', JBool True)] at) (\<lambda>event.
     exec (ResetUserPassword targetID passwordHash at event)))))"

definition confirm_factor :: "auth_service option \<Rightarrow> string \<Rightarrow> string \<Rightarrow> unit action" where
  "confirm_factor mfa userID totpCode =
    (case mfa of
       None \<Rightarrow> ret ()
     | Some s \<Rightarrow> bind (RequiresMFA userID) (\<lambda>required.
         if required then VerifyTOTPForUser s userID totpCode ''password-change-code'' else ret ()))"

definition UserAdmin_ChangeOwnPassword :: "argon2 \<Rightarrow> auth_service option \<Rightarrow> Actor \<Rightarrow> string \<Rightarrow> string \<Rightarrow> string \<Rightarrow> string \<Rightarrow> unit action" where
  "UserAdmin_ChangeOwnPassword IDKey mfa actor currentSessionID currentPassword newPassword totpCode =
    (let i = actor_UserID actor in
     bind (guard_act (ValidID i \<and> ValidID currentSessionID) authentication_required) (\<lambda>_.
     bind (password_allow i) (\<lambda>allowed.
     bind (guard_act allowed (NewError ErrorRateLimited ''too many password attempts; try again later'')) (\<lambda>_.
     bind (query (UserByID i)) (\<lambda>user.
     case VerifyPassword IDKey (user_PasswordHash user) currentPassword of
       Inl _ \<Rightarrow> fail (PlainError ''verify current password'')
     | Inr valid \<Rightarrow>
       if \<not> valid then bind (password_failure i) (\<lambda>_. fail (NewError ErrorInvalidCredentials ''current password is incorrect''))
       else
         bind (confirm_factor mfa i totpCode) (\<lambda>_.
         bind (hash_password IDKey newPassword) (\<lambda>passwordHash.
         bind now (\<lambda>at.
         bind (user_event actor ''user.password_changed'' i [(''otherSessionsRevoked'', JBool True)] at) (\<lambda>event.
         bind (exec_traced (EPassword i passwordHash) (ChangeOwnPassword i currentSessionID passwordHash at event)) (\<lambda>_.
         password_success i))))))))))"

subsection \<open>The hourly cleanup\<close>

text \<open>What \<open>internal/jobs/sessions.go\<close> does to the store; the second deletion needs the first.\<close>

definition session_cleanup :: "unit action" where
  "session_cleanup =
     bind now (\<lambda>at.
     bind (call (DeleteExpiredSessions at)) (\<lambda>_.
     bind (call (DeleteExpiredMFAChallenges at)) (\<lambda>_. ret ())))"


subsection \<open>Quiet and committing actions\<close>

lemma silent_use_limiter [quiet]:
  "(\<And>l w. w_trace (put l w) = w_trace w) \<Longrightarrow> silent (use_limiter get put f)"
  by (simp add: silent_def emits_def use_limiter_def case_prod_unfold)

lemma commits_use_limiter [committing]:
  "(\<And>l w. w_db (put l w) = w_db w) \<Longrightarrow> commits (use_limiter get put f)"
  by (simp add: commits_def use_limiter_def case_prod_unfold)

lemma limiter_fields [simp]:
  "w_trace (set_limiter l w) = w_trace w" "w_trace (set_factorLimiter l w) = w_trace w" "w_trace (set_passwordLimiter l w) = w_trace w"
  "w_db (set_limiter l w) = w_db w" "w_db (set_factorLimiter l w) = w_db w" "w_db (set_passwordLimiter l w) = w_db w"
  by (simp_all add: set_limiter_def set_factorLimiter_def set_passwordLimiter_def)

lemmas limiter_actions = login_allow_def login_failure_def login_success_def factor_allow_def factor_failure_def factor_success_def
  password_allow_def password_failure_def password_success_def

lemma silent_limiters [quiet]:
  "silent (login_allow k)" "silent (login_failure k)" "silent (login_success k)" "silent (factor_allow k)" "silent (factor_failure k)"
  "silent (factor_success k)" "silent (password_allow k)" "silent (password_failure k)" "silent (password_success k)"
  unfolding limiter_actions by (intro quiet; simp)+

lemma commits_limiters [committing]:
  "commits (login_allow k)" "commits (login_failure k)" "commits (login_success k)" "commits (factor_allow k)" "commits (factor_failure k)"
  "commits (factor_success k)" "commits (password_allow k)" "commits (password_failure k)" "commits (password_success k)"
  unfolding limiter_actions by (intro committing; simp)+

lemma silent_auth_helpers [quiet]:
  "silent (auditEvent a u c rt ri q m at)" "silent (user_event actor a i m at)" "silent (new_token s p)" "silent (hash_password k pw)"
  "silent SetupRequired" "silent (RequiresMFA i)" "silent (recordFailure q ip em o')"
  unfolding auditEvent_def user_event_def new_token_def hash_password_def SetupRequired_def RequiresMFA_def recordFailure_def
  by (intro quiet)+

lemma commits_auth_helpers [committing]:
  "commits (auditEvent a u c rt ri q m at)" "commits (user_event actor a i m at)" "commits (new_token s p)" "commits (hash_password k pw)"
  "commits SetupRequired" "commits (RequiresMFA i)" "commits (recordFailure q ip em o')" "commits (guard_err r)"
  unfolding auditEvent_def user_event_def new_token_def hash_password_def SetupRequired_def RequiresMFA_def recordFailure_def guard_err_def
  by (auto intro!: committing commits_exec dest!: store_writes split: option.split)

end
