(* ===== verification/Auth_Properties.thy ===== *)
theory Auth_Properties
  imports User_Admin
begin

text \<open>
  What the authentication services promise. Their methods change the store by committed writes
  only. A session is created only for a user whose password, and where it is enabled second factor,
  has been checked, and one's own password and second factor change only after such a check. A
  session or a challenge that has ended does not come back.
\<close>

subsection \<open>The services commit\<close>

lemmas auth_written = commits_exec commits_exec_traced commits_method

lemma new_account_writes:
  "CreateInitialUser u s e e' d = Inr d' \<Longrightarrow> user_Enabled u \<Longrightarrow> db_step d d'"
  "CreateUser u e d = Inr d' \<Longrightarrow> user_Enabled u \<Longrightarrow> db_step d d'"
  by (blast intro: auth_writes)+

lemma commits_buildSession [committing]: "commits (buildSession s u q ip ua)"
  unfolding buildSession_def Let_def by (auto intro!: committing)

lemma commits_createSession [committing]: "commits (createSession s u q ip ua)"
  unfolding createSession_def by (auto intro!: committing auth_written dest!: auth_writes)

lemma commits_createMFAChallenge [committing]: "commits (createMFAChallenge s u ip ua)"
  unfolding createMFAChallenge_def Let_def by (auto intro!: committing auth_written dest!: auth_writes)

lemma commits_Setup [committing]: "commits (Setup s em n pw q ip ua)"
  unfolding Setup_def Let_def by (auto intro!: committing auth_written elim!: new_account_writes split: option.split)

lemma commits_Login [committing]: "commits (Login s em pw q ip ua)"
  unfolding Login_def Let_def by (auto intro!: committing split: sum.split)

lemma commits_sessions [committing]: "commits (Authenticate s t)" "commits (Logout se u q)" "commits session_cleanup"
  unfolding Authenticate_def Logout_def session_cleanup_def by (auto intro!: committing auth_written dest!: auth_writes)

lemma commits_verify [committing]: "commits (verifyCurrentPassword s i pw o')" "commits (verifyEncryptedTOTP s i en c k)"
  "commits (verifyMFAStepUp s i pw c o')" "commits (VerifyTOTPForUser s i c o')"
proof -
  show p: "commits (verifyCurrentPassword s i pw o')" for o'
    unfolding verifyCurrentPassword_def Let_def by (auto intro!: committing split: sum.split)
  show t: "commits (verifyEncryptedTOTP s i en c k)" for en k
    unfolding verifyEncryptedTOTP_def by (auto intro!: committing split: option.split)
  show "commits (verifyMFAStepUp s i pw c o')" "commits (VerifyTOTPForUser s i c o')"
    unfolding verifyMFAStepUp_def VerifyTOTPForUser_def Let_def by (auto intro!: committing p t split: sum.split)
qed

lemma commits_recovery_codes [committing]: "commits (recovery_codes n i at)"
  by (induction n) (auto intro!: committing simp: Let_def split: option.split)

lemma commits_newRecoveryCodes [committing]: "commits (newRecoveryCodes i)"
  unfolding newRecoveryCodes_def by (auto intro!: committing)

lemma commits_enrollment [committing]: "commits (StartMFAEnrollment s i pw)" "commits (VerifyMFAEnrollment s i j c q)"
  unfolding StartMFAEnrollment_def VerifyMFAEnrollment_def Let_def
  by (auto intro!: committing auth_written dest!: auth_writes split: option.split sum.split)

lemma commits_mfa_changes [committing]: "commits (RegenerateRecoveryCodes s i j pw c q)" "commits (Auth_DisableMFA s i j pw c q)"
  "commits (CancelMFAChallenge s t)" "commits (Auth_ResetMFAFromHost s em)"
  unfolding RegenerateRecoveryCodes_def Auth_DisableMFA_def CancelMFAChallenge_def Auth_ResetMFAFromHost_def
  by (auto intro!: committing auth_written dest!: auth_writes)

lemma commits_reject_factor [committing]: "commits (reject_factor h k q ip em)"
  unfolding reject_factor_def by (auto intro!: committing auth_written dest!: auth_writes split: option.split)

lemma commits_finish_challenge [committing]: "commits (finish_challenge s h k rh re u q ip ua)"
  unfolding finish_challenge_def by (auto intro!: committing auth_written dest!: auth_writes split: sum.split)

lemma commits_CompleteMFAChallenge [committing]: "commits (Auth_CompleteMFAChallenge s t c r q ip ua)"
  unfolding Auth_CompleteMFAChallenge_def Let_def by (auto intro!: committing split: prod.split bool.split sum.split)

lemma commits_user_admin [committing]: "commits (UserAdmin_Create k pa actor ci)" "commits (UserAdmin_Update pa actor i ui)"
  "commits (UserAdmin_ResetPassword k actor i pw)" "commits (UserAdmin_ChangeOwnPassword k mfa actor j pw npw c)"
  unfolding UserAdmin_Create_def UserAdmin_Update_def UserAdmin_ResetPassword_def UserAdmin_ChangeOwnPassword_def checked_account_def
    confirm_factor_def Let_def
  by (auto intro!: committing auth_written elim!: new_account_writes dest!: auth_writes(7-9) split: sum.split option.split)


subsection \<open>Sessions need a password and a factor\<close>

definition totp_ok :: "auth_service \<Rightarrow> string \<Rightarrow> EncryptedPayload \<Rightarrow> string \<Rightarrow> bool" where
  "totp_ok s userID encrypted code \<longleftrightarrow>
     (\<exists>dec secret at. as_decrypt s = Some dec \<and> dec (mfaSecretScope userID) encrypted = Some secret \<and>
        as_validate s (TrimSpace code) secret at = Some True)"

definition password_ok :: "argon2 \<Rightarrow> User \<Rightarrow> string \<Rightarrow> bool" where
  "password_ok IDKey user password \<longleftrightarrow> VerifyPassword IDKey (user_PasswordHash user) password = Inr True"

lemma learns_skip: "silent m \<Longrightarrow> (\<And>x. learns (f x) L) \<Longrightarrow> learns (bind m f) L"
  by (rule learns_bind [OF learns_silent [where K = "\<lambda>_. True"]]) simp_all

lemma learns_mono: "learns m K \<Longrightarrow> (\<And>x. K x \<Longrightarrow> L x) \<Longrightarrow> learns m L"
  unfolding learns_def by (erule emits_mono) auto

lemma silent_createMFAChallenge [quiet]: "silent (createMFAChallenge s user ip ua)"
  unfolding createMFAChallenge_def Let_def by (auto intro!: quiet)

lemma silent_reject_factor [quiet]: "silent (reject_factor h k q ip em)"
  unfolding reject_factor_def by (auto intro!: quiet split: option.split)

lemmas auth_quiet = silent_ret silent_fail silent_tick silent_now silent_query silent_list_query silent_exec silent_NewID silent_lift_err
  silent_guard silent_limiters silent_auth_helpers silent_createMFAChallenge silent_reject_factor

lemmas only_quiet = auth_quiet [THEN only_silent]

lemma learns_buildSession: "learns (buildSession s user q ip ua) (\<lambda>(result, session, event). sess_UserID session = user_ID user)"
  unfolding buildSession_def Let_def by (auto intro!: learns_ret learns_skip auth_quiet)

lemma learns_TOTP: "learns (verifyEncryptedTOTP s i en code key) (\<lambda>_. totp_ok s i en code)"
  unfolding verifyEncryptedTOTP_def totp_ok_def
  by (auto intro!: learns_fail learns_skip learns_silent [OF silent_limiters(6)] auth_quiet split: option.split)

lemma learns_current_password:
  "learns (verifyCurrentPassword s i password op) (\<lambda>user. password_ok (as_IDKey s) user password \<and> (\<exists>d. UserByID i d = Inr user))"
  unfolding verifyCurrentPassword_def Let_def
  by (rule learns_skip, rule auth_quiet, rule learns_bind [OF learns_guard], rule learns_bind [OF learns_query])
     (auto simp: password_ok_def intro!: learns_fail learns_ret learns_skip auth_quiet split: sum.split)

text \<open>What stands behind a session: a password without a second factor, or an answered challenge.\<close>

definition password_login :: "auth_service \<Rightarrow> string \<Rightarrow> string \<Rightarrow> Session \<Rightarrow> bool" where
  "password_login s email password session \<longleftrightarrow>
     (\<exists>d user. UserByEmail (login_email s email) d = Inr user \<and> user_Enabled user \<and> \<not> user_MFAEnabled user \<and>
        password_ok (as_IDKey s) user password \<and> sess_UserID session = user_ID user)"

definition factor_login :: "auth_service \<Rightarrow> string \<Rightarrow> string \<Rightarrow> bool \<Rightarrow> string \<Rightarrow> string \<Rightarrow> Session \<Rightarrow> bool" where
  "factor_login s token code recovery tokenHash recoveryHash session \<longleftrightarrow>
     tokenHash = HashMFAChallengeToken (as_secret s) (TrimSpace token) \<and>
     (\<exists>d at challenge user config. MFAChallengeByTokenHash tokenHash at d = Inr (challenge, user, config) \<and> sess_UserID session = user_ID user \<and>
        (if recovery then normalizeRecoveryCode code = (fst (normalizeRecoveryCode code), True) \<and>
           recoveryHash = HashRecoveryCode (fst (normalizeRecoveryCode code))
         else recoveryHash = [] \<and> totp_ok s (user_ID user) (mfa_Secret config) code))"

definition login_event :: "auth_service \<Rightarrow> string \<Rightarrow> string \<Rightarrow> event \<Rightarrow> bool" where
  "login_event s email password ev \<longleftrightarrow> (\<exists>session. ev = ESession session \<and> password_login s email password session)"

definition answer_event :: "auth_service \<Rightarrow> string \<Rightarrow> string \<Rightarrow> bool \<Rightarrow> event \<Rightarrow> bool" where
  "answer_event s token code recovery ev \<longleftrightarrow>
     (\<exists>h rh session. ev = EAnswer h rh session \<and> factor_login s token code recovery h rh session)"

lemma only_if: "(b \<Longrightarrow> only P m) \<Longrightarrow> (\<not> b \<Longrightarrow> only P m') \<Longrightarrow> only P (if b then m else m')"
  by simp

lemma only_createSession:
  "(\<And>session. sess_UserID session = user_ID user \<Longrightarrow> P (ESession session)) \<Longrightarrow> only P (createSession s user q ip ua)"
  unfolding createSession_def
  by (rule only_learns [OF learns_buildSession]) (auto intro!: only_bind only_exec_traced only_quiet)

lemma only_Login: "only (login_event s email password) (Login s email password q ip ua)"
  unfolding Login_def Let_def
  by (rule only_bind, rule only_quiet, rule only_if)
     ((auto intro!: only_learns [OF learns_attempt [OF learns_query]] only_bind only_quiet only_createSession
        simp: login_event_def password_login_def password_ok_def split: sum.split; blast)+)

lemma only_attempt: "only P m \<Longrightarrow> only P (attempt m)"
  unfolding only_def by (rule emits_attempt)

lemma only_finish:
  "(\<And>session. sess_UserID session = user_ID user \<Longrightarrow> P (EAnswer h rh session)) \<Longrightarrow> only P (finish_challenge s h k rh re user q ip ua)"
  unfolding finish_challenge_def
  by (rule only_learns [OF learns_buildSession])
     (auto intro!: only_bind only_attempt only_exec_traced only_quiet split: sum.split)

lemma only_CompleteMFAChallenge: "only (answer_event s token code recovery) (Auth_CompleteMFAChallenge s token code recovery q ip ua)"
  unfolding Auth_CompleteMFAChallenge_def Let_def
  by (rule only_bind, rule only_quiet, rule only_learns [OF learns_query])
     (auto intro!: only_learns [OF learns_attempt [OF learns_TOTP]] only_bind only_quiet only_finish
        simp: answer_event_def factor_login_def split: sum.split prod.split bool.split; blast)



subsection \<open>Changes of one's own account\<close>

text \<open>The current password and, for the second factor, a TOTP code valid for the user's secret.\<close>

definition confirmed_password :: "argon2 \<Rightarrow> auth_service option \<Rightarrow> string \<Rightarrow> string \<Rightarrow> string \<Rightarrow> event \<Rightarrow> bool" where
  "confirmed_password IDKey mfa userID password code ev \<longleftrightarrow>
     (\<exists>hash d user. ev = EPassword userID hash \<and> UserByID userID d = Inr user \<and> password_ok IDKey user password \<and>
        (\<forall>s. mfa = Some s \<longrightarrow> (\<exists>d. \<not> MFAEnabled userID d) \<or> (\<exists>d config. UserMFA_of userID d = Inr config \<and> totp_ok s userID (mfa_Secret config) code)))"

definition confirmed_factor :: "auth_service \<Rightarrow> string \<Rightarrow> string \<Rightarrow> string \<Rightarrow> event \<Rightarrow> bool" where
  "confirmed_factor s userID password code ev \<longleftrightarrow>
     ev = EFactor userID \<and>
     (\<exists>d user. UserByID userID d = Inr user \<and> password_ok (as_IDKey s) user password \<and> user_MFAEnabled user) \<and>
     (\<exists>d config. UserMFA_of userID d = Inr config \<and> totp_ok s userID (mfa_Secret config) code)"

lemma learns_step_up: "learns (verifyMFAStepUp s i password code op) (\<lambda>_. confirmed_factor s i password code (EFactor i))"
  unfolding verifyMFAStepUp_def
  by (rule learns_bind [OF learns_current_password], rule learns_bind [OF learns_guard], rule learns_bind [OF learns_query],
      rule learns_bind [OF learns_TOTP], rule learns_ret) (auto simp: confirmed_factor_def)

lemma silent_recovery_codes [quiet]: "silent (recovery_codes n i at)"
  by (induction n) (auto intro!: quiet simp: Let_def split: option.split)

lemma silent_newRecoveryCodes [quiet]: "silent (newRecoveryCodes i)"
  unfolding newRecoveryCodes_def by (auto intro!: quiet)

lemma only_DisableMFA: "only (confirmed_factor s i password code) (Auth_DisableMFA s i j password code q)"
  unfolding Auth_DisableMFA_def
  by (rule only_learns [OF learns_step_up]) (auto intro!: only_bind only_quiet only_exec_traced)

lemma only_RegenerateRecoveryCodes: "only (confirmed_factor s i password code) (RegenerateRecoveryCodes s i j password code q)"
  unfolding RegenerateRecoveryCodes_def
  by (rule only_learns [OF learns_step_up]) (auto intro!: only_bind only_quiet only_exec_traced only_silent [OF silent_newRecoveryCodes])

lemma learns_list_query: "learns (list_query g) (\<lambda>x. \<exists>d. g d = x)"
  unfolding list_query_def using learns_query [of "\<lambda>d. Inr (g d)"] by simp

lemma learns_confirm_factor:
  "learns (confirm_factor mfa i code) (\<lambda>_. \<forall>s. mfa = Some s \<longrightarrow> (\<exists>d. \<not> MFAEnabled i d) \<or>
     (\<exists>d config. UserMFA_of i d = Inr config \<and> totp_ok s i (mfa_Secret config) code))"
proof (cases mfa)
  case (Some s)
  have "learns (VerifyTOTPForUser s i code op) (\<lambda>_. \<exists>d config. UserMFA_of i d = Inr config \<and> totp_ok s i (mfa_Secret config) code)" for op
    unfolding VerifyTOTPForUser_def Let_def
    by (rule learns_bind [OF learns_attempt [OF learns_query]])
       (auto split: sum.split intro!: learns_fail learns_skip auth_quiet learns_mono [OF learns_TOTP]; blast)
  note totp = learns_mono [OF this]
  have "learns (if required then VerifyTOTPForUser s i code op else ret ()) (\<lambda>_. (\<exists>d. \<not> MFAEnabled i d) \<or>
      (\<exists>d config. UserMFA_of i d = Inr config \<and> totp_ok s i (mfa_Secret config) code))" if "\<exists>d. MFAEnabled i d = required" for required op
    using that by (cases required) (auto intro!: totp learns_ret)
  with Some show ?thesis
    by (simp add: confirm_factor_def RequiresMFA_def learns_bind [OF learns_list_query])
qed (simp add: confirm_factor_def learns_ret)

lemma only_own_password:
  "only (confirmed_password IDKey mfa (actor_UserID actor) password code) (UserAdmin_ChangeOwnPassword IDKey mfa actor j password new code)"
  unfolding UserAdmin_ChangeOwnPassword_def Let_def
  by (rule only_bind, rule only_quiet, rule only_bind, rule only_quiet, rule only_bind, rule only_quiet, rule only_learns [OF learns_query])
     (auto intro!: only_learns [OF learns_confirm_factor] only_bind only_quiet only_exec_traced split: sum.split
       simp: confirmed_password_def password_ok_def; blast)


end
