(* ===== verification/Auth_Safety.thy ===== *)
theory Auth_Safety
  imports Commands_Invariant Store_Properties
begin

text \<open>
  Sessions, challenges and recovery codes over time: what has ended stays ended, whatever requests
  commit in between, as long as nobody issues the same token again. A step issues a token when a
  row with its hash appears that was not there; tokens are 32 random bytes and their hashes unique
  in the tables.
\<close>

lemma db_step_age: "db_step d d' \<Longrightarrow> sessions_age (sessions d) (sessions d') \<and> challenges_age (challenges d) (challenges d')"
  by (cases rule: db_step_cases) (auto simp: apart_def framed_accounts auth_step_sessions auth_step_challenges)

lemma reachable_auth_ok: "db_step\<^sup>*\<^sup>* empty_db d \<Longrightarrow> auth_ok d"
  using db_steps_auth_ok auth_ok_empty by blast

subsection \<open>Users\<close>

text \<open>No write removes a user.\<close>

lemma user_tables:
  "consume_where what P at d = Inr d' \<Longrightarrow> length (users d') = length (users d)"
  "take_challenge what Q at d = Inr (i, d') \<Longrightarrow> length (users d') = length (users d)"
  "spend_code i h at d = Inr d' \<Longrightarrow> length (users d') = length (users d)"
  "insertRecoveryCodes cs d = Inr d' \<Longrightarrow> length (users d') = length (users d)"
  "createLoginSession s e d = Inr d' \<Longrightarrow> length (users d') = length (users d)"
proof -
  show "insertRecoveryCodes cs d = Inr d' \<Longrightarrow> length (users d') = length (users d)"
    by (induction cs arbitrary: d) (auto simp: Let_def)
qed (auto simp: consume_where_def take_challenge_def spend_code_def createLoginSession_def insert_session_def Let_def map_sum_Inr bind_err_Inr
    dest!: accounts_audit split: option.splits if_splits)

lemma auth_step_users: "auth_step d d' \<Longrightarrow> length (users d) \<le> length (users d')"
proof (induction rule: auth_step.induct)
  case (update_user i email name enabled at e d v d')
  then show ?case by (rule UpdateUser_cases) (auto simp: revoke_where_def split: if_splits dest!: accounts_audit)
qed (auto simp: auth_methods revoke_where_def Let_def bind_err_Inr map_sum_Inr split: if_splits option.splits
      dest!: user_tables accounts_audit accounts_audit_opt)

lemma db_steps_users: "db_step\<^sup>*\<^sup>* d d' \<Longrightarrow> length (users d) \<le> length (users d')"
proof (induction rule: rtranclp_induct)
  case (step y z)
  from step.hyps(2) have "length (users y) \<le> length (users z)"
    by (cases rule: db_step_cases) (auto simp: apart_def framed_accounts auth_step_users)
  with step.IH show ?case by simp
qed simp


subsection \<open>Sessions\<close>

definition session_step :: "string \<Rightarrow> db \<Rightarrow> db \<Rightarrow> bool" where
  "session_step tokenHash d d' \<longleftrightarrow> db_step d d' \<and>
     (tokenHash \<in> sess_TokenHash ` set (sessions d') \<longrightarrow> tokenHash \<in> sess_TokenHash ` set (sessions d))"

definition ended :: "string \<Rightarrow> time \<Rightarrow> db \<Rightarrow> bool" where
  "ended tokenHash at d \<longleftrightarrow> (\<forall>s \<in> set (sessions d). sess_TokenHash s = tokenHash \<longrightarrow> sess_RevokedAt s \<noteq> None \<or> sess_ExpiresAt s \<le> at)"

lemma ended_step: "session_step h d d' \<Longrightarrow> ended h at d \<Longrightarrow> ended h at d'"
proof -
  assume step: "session_step h d d'" and old: "ended h at d"
  from step have age: "sessions_age (sessions d) (sessions d')" by (auto simp: session_step_def dest: db_step_age)
  show "ended h at d'"
    unfolding ended_def
  proof (intro ballI impI)
    fix s' assume s': "s' \<in> set (sessions d')" "sess_TokenHash s' = h"
    with step have "sess_TokenHash s' \<in> sess_TokenHash ` set (sessions d)" by (auto simp: session_step_def)
    with age s' obtain s where "s \<in> set (sessions d)" "sess_TokenHash s = h" "sess_ExpiresAt s = sess_ExpiresAt s'"
      "sess_RevokedAt s' = None \<longrightarrow> sess_RevokedAt s = None"
      unfolding sessions_age_def by blast
    with old show "sess_RevokedAt s' \<noteq> None \<or> sess_ExpiresAt s' \<le> at" unfolding ended_def by auto
  qed
qed

lemma ended_steps: "(session_step h)\<^sup>*\<^sup>* d d' \<Longrightarrow> ended h at d \<Longrightarrow> ended h at d'"
  by (induction rule: rtranclp_induct) (auto dest: ended_step)

lemma AuthenticatedSession_none:
  "AuthenticatedSession h at d = Inl err \<longleftrightarrow> err = authentication_required \<and>
     (\<forall>s \<in> set (sessions d). sess_TokenHash s = h \<longrightarrow> sess_RevokedAt s = None \<longrightarrow> sess_ExpiresAt s > at \<longrightarrow>
        (\<forall>u \<in> set (users d). \<not> (user_ID u = sess_UserID s \<and> user_Enabled u)))"
proof -
  define rows where "rows = [(s, u). s \<leftarrow> sessions d, sess_TokenHash s = h \<and> sess_RevokedAt s = None \<and> sess_ExpiresAt s > at,
       u \<leftarrow> users d, user_ID u = sess_UserID s \<and> user_Enabled u]"
  have "AuthenticatedSession h at d = Inl err \<longleftrightarrow> err = authentication_required \<and> set rows = {}"
    unfolding AuthenticatedSession_def rows_def [symmetric] by (cases rows) auto
  moreover have "set rows = {(s, u). s \<in> set (sessions d) \<and> sess_TokenHash s = h \<and> sess_RevokedAt s = None \<and> sess_ExpiresAt s > at \<and>
      u \<in> set (users d) \<and> user_ID u = sess_UserID s \<and> user_Enabled u}"
    by (auto simp: rows_def)
  ultimately show ?thesis by (simp only:) blast
qed

lemma ended_refused: "ended h at d \<Longrightarrow> at \<le> at' \<Longrightarrow> AuthenticatedSession h at' d = Inl authentication_required"
  by (fastforce simp: ended_def AuthenticatedSession_none)

lemma refused_ended:
  assumes "auth_ok d" "AuthenticatedSession h at d = Inl err"
  shows "ended h at d"
  unfolding ended_def
proof (intro ballI impI, rule ccontr)
  fix s assume s: "s \<in> set (sessions d)" "sess_TokenHash s = h" and live: "\<not> (sess_RevokedAt s \<noteq> None \<or> sess_ExpiresAt s \<le> at)"
  from assms(1) s(1) obtain u where u: "u \<in> set (users d)" "user_ID u = sess_UserID s"
    by (auto simp: accounts_ok_def sessions_ok_def)
  with assms(1) s(1) live have "user_Enabled u" by (auto simp: accounts_ok_def logged_out_def)
  with assms(2) s live u show False by (auto simp: AuthenticatedSession_none)
qed

text \<open>
  C34: A session that once fails to authenticate, because it was revoked by a logout, a password
  change or a change of the second factor, because its user was disabled or because it has expired,
  never authenticates again: not even when the user is enabled again, whatever requests commit in
  between. Only a session issued anew with the same token could.
\<close>

theorem session_never_revives:
  assumes "db_step\<^sup>*\<^sup>* empty_db d" and "AuthenticatedSession tokenHash at d = Inl err"
    and "(session_step tokenHash)\<^sup>*\<^sup>* d d'" and "at \<le> at'"
  shows "AuthenticatedSession tokenHash at' d' = Inl authentication_required"
  by (rule ended_refused [OF ended_steps [OF assms(3) refused_ended] assms(4)]) (use assms reachable_auth_ok in auto)


text \<open>An administrator logged in at set-up; the session is revoked, and the user disabled and enabled would be no help.\<close>

definition sample_user :: UserRow where
  "sample_user = \<lparr>user_ID = ''u'', user_Email = ''a@b'', user_DisplayName = ''a'', user_PasswordHash = [], user_Role = RoleAdministrator,
     user_Enabled = True, user_CreatedAt = 1, user_UpdatedAt = 1, user_LastLoginAt = None\<rparr>"

definition sample_session :: "string \<Rightarrow> Session" where
  "sample_session i = \<lparr>sess_ID = i, sess_UserID = ''u'', sess_TokenHash = i, sess_CSRFHash = [], sess_CreatedAt = 1, sess_ExpiresAt = 100,
     sess_LastSeenAt = 1, sess_RevokedAt = None, sess_IPMetadata = [], sess_UserAgent = []\<rparr>"

definition sample_accounts :: db where
  "sample_accounts = projr (CreateInitialUser sample_user (sample_session ''s'') (sample_event ''1'') (sample_event ''2'') empty_db)"

definition sample_logout :: db where
  "sample_logout = projr (RevokeSession ''s'' 5 (sample_event ''3'') sample_accounts)"

lemma sample_account_steps: "auth_step empty_db sample_accounts" "auth_step sample_accounts sample_logout"
proof -
  have r: "isl (CreateInitialUser sample_user (sample_session ''s'') (sample_event ''1'') (sample_event ''2'') empty_db) = False"
    "isl (RevokeSession ''s'' 5 (sample_event ''3'') sample_accounts) = False" by code_simp+
  show "auth_step empty_db sample_accounts"
    by (rule auth_step.create_initial [of sample_user]) (use r in \<open>auto simp: sample_user_def sample_accounts_def\<close>)
  show "auth_step sample_accounts sample_logout"
    by (rule auth_step.revoke_session) (use r in \<open>auto simp: sample_logout_def\<close>)
qed

theorem session_never_revives_witness:
  "isl (AuthenticatedSession ''s'' 4 sample_accounts) = False \<and> AuthenticatedSession ''s'' 6 sample_logout = Inl authentication_required"
proof -
  have "AuthenticatedSession ''s'' 5 sample_logout = Inl authentication_required"
    "isl (AuthenticatedSession ''s'' 4 sample_accounts) = False" by code_simp+
  moreover have "db_step\<^sup>*\<^sup>* empty_db sample_logout"
    using sample_account_steps [THEN db_auth_step] by (meson rtranclp.rtrancl_into_rtrancl rtranclp.rtrancl_refl)
  ultimately show ?thesis using session_never_revives [of sample_logout "''s''" 5 authentication_required sample_logout 6] by simp
qed


subsection \<open>Challenges\<close>

definition challenge_step :: "string \<Rightarrow> db \<Rightarrow> db \<Rightarrow> bool" where
  "challenge_step tokenHash d d' \<longleftrightarrow> db_step d d' \<and>
     (tokenHash \<in> chal_TokenHash ` set (challenges d') \<longrightarrow> tokenHash \<in> chal_TokenHash ` set (challenges d))"

definition closed :: "string \<Rightarrow> db \<Rightarrow> bool" where
  "closed tokenHash d \<longleftrightarrow> (\<forall>c \<in> set (challenges d). chal_TokenHash c = tokenHash \<longrightarrow> chal_ConsumedAt c \<noteq> None \<or> chal_FailedAttempts c \<ge> 5)"

lemma closed_step: "challenge_step h d d' \<Longrightarrow> closed h d \<Longrightarrow> closed h d'"
proof -
  assume step: "challenge_step h d d'" and old: "closed h d"
  from step have age: "challenges_age (challenges d) (challenges d')" by (auto simp: challenge_step_def dest: db_step_age)
  show "closed h d'"
    unfolding closed_def
  proof (intro ballI impI)
    fix c' assume c': "c' \<in> set (challenges d')" "chal_TokenHash c' = h"
    with step have "chal_TokenHash c' \<in> chal_TokenHash ` set (challenges d)" by (auto simp: challenge_step_def)
    with age c' obtain c where "c \<in> set (challenges d)" "chal_TokenHash c = h" "chal_FailedAttempts c \<le> chal_FailedAttempts c'"
      "chal_ConsumedAt c' = None \<longrightarrow> chal_ConsumedAt c = None"
      unfolding challenges_age_def by blast
    with old show "chal_ConsumedAt c' \<noteq> None \<or> chal_FailedAttempts c' \<ge> 5" unfolding closed_def by fastforce
  qed
qed

lemma closed_steps: "(challenge_step h)\<^sup>*\<^sup>* d d' \<Longrightarrow> closed h d \<Longrightarrow> closed h d'"
  by (induction rule: rtranclp_induct) (auto dest: closed_step)

lemma closed_not_open: "closed h d \<Longrightarrow> c \<in> set (challenges d) \<Longrightarrow> \<not> open_challenge h at c"
  by (fastforce simp: closed_def open_challenge_def)

lemma closed_refused:
  assumes "closed h d"
  shows "MFAChallengeByTokenHash h at d = Inl code_rejected"
    and "CompleteMFAChallenge h rh at re s e d = Inl code_rejected"
    and "ConsumeMFAChallenge h rh at oe d = Inl code_rejected"
proof -
  have none: "query_row (\<lambda>c. open_challenge h at c \<and> P c) (challenges d) = None" for P
    using closed_not_open [OF assms] by (auto simp: query_row_None)
  define rows where "rows = [(c, u, m). c \<leftarrow> challenges d, open_challenge h at c, u \<leftarrow> users d, user_ID u = chal_UserID c \<and> user_Enabled u,
      m \<leftarrow> mfas d, mfa_UserID m = chal_UserID c \<and> mfa_EnabledAt m \<noteq> None]"
  have "set rows = {}" using closed_not_open [OF assms, of _ at] by (auto simp: rows_def)
  then show "MFAChallengeByTokenHash h at d = Inl code_rejected"
    unfolding MFAChallengeByTokenHash_def rows_def [symmetric] by simp
  show "CompleteMFAChallenge h rh at re s e d = Inl code_rejected"
    by (simp add: CompleteMFAChallenge_def take_challenge_def none split: option.split)
  show "ConsumeMFAChallenge h rh at oe d = Inl code_rejected"
    using none [of "\<lambda>_. True"] by (simp add: ConsumeMFAChallenge_def take_challenge_def)
qed

lemma Complete_closes:
  assumes "CompleteMFAChallenge h rh at re s e d = Inr d'" "auth_ok d"
  shows "closed h d'"
proof -
  from assms(1) obtain i d1 d2 d3 where *: "take_challenge ''consume MFA challenge for login'' (\<lambda>c. open_challenge h at c \<and> mfa_on (chal_UserID c) d) at d = Inr (i, d1)"
      "spend_code i rh at d1 = Inr d2" "audit_opt re d2 = Inr d3" "createLoginSession s e d3 = Inr d'"
    by (auto simp: CompleteMFAChallenge_def bind_err_Inr split: option.splits if_splits)
  then have same: "challenges d' = challenges d1" by (auto dest!: spend_tables accounts_audit_opt login_tables)
  from *(1) obtain c where c: "c \<in> set (challenges d)" "open_challenge h at c" "mfa_on (chal_UserID c) d"
    and d1: "challenges d1 = update_where (\<lambda>c. open_challenge h at c \<and> mfa_on (chal_UserID c) d) (\<lambda>c. c\<lparr>chal_ConsumedAt := Some at\<rparr>) (challenges d)"
    by (auto simp: take_challenge_def bind_err_Inr update_checked_Inr split: option.splits dest!: query_row_Some)
  have "x = c" if "x \<in> set (challenges d)" "chal_TokenHash x = h" for x
    using that c assms(2) unique_index_inj [of "\<lambda>_. True" chal_TokenHash "challenges d" x c]
    by (auto simp: accounts_ok_def challenges_ok_def challenge_indexes_def open_challenge_def)
  with c show ?thesis unfolding closed_def same d1 by (auto elim!: update_whereE)
qed

text \<open>
  C37: A challenge can be answered once: after a login has been completed with it, it is found no
  more, it completes no second login and cannot be consumed, whatever codes are presented and
  whatever requests commit in between, unless the same token is issued again.
\<close>

theorem challenge_answered_once:
  assumes "db_step\<^sup>*\<^sup>* empty_db d" and "CompleteMFAChallenge tokenHash recoveryHash at re session e d = Inr d1"
    and "(challenge_step tokenHash)\<^sup>*\<^sup>* d1 d2"
  shows "MFAChallengeByTokenHash tokenHash at' d2 = Inl code_rejected \<and>
    CompleteMFAChallenge tokenHash recoveryHash' at' re' session' e' d2 = Inl code_rejected \<and>
    ConsumeMFAChallenge tokenHash recoveryHash' at' oe d2 = Inl code_rejected"
proof -
  have "closed tokenHash d2"
    by (rule closed_steps [OF assms(3)], rule Complete_closes [OF assms(2)], rule reachable_auth_ok [OF assms(1)])
  then show ?thesis by (simp add: closed_refused)
qed

text \<open>The administrator with a second factor and an open challenge.\<close>

definition sample_challenge :: MFAChallenge where
  "sample_challenge = \<lparr>chal_ID = ''c'', chal_UserID = ''u'', chal_TokenHash = ''h'', chal_CreatedAt = 3, chal_ExpiresAt = 50,
     chal_ConsumedAt = None, chal_FailedAttempts = 0, chal_IPMetadata = [], chal_UserAgent = []\<rparr>"

definition sample_pending :: UserMFARow where
  "sample_pending = \<lparr>mfa_UserID = ''u'', mfa_Secret = \<lparr>pay_Ciphertext = [], pay_Nonce = [], pay_KeyVersion = 1, pay_Algorithm = []\<rparr>,
     mfa_EnrollmentStarted = 1, mfa_EnrollmentExpires = 60, mfa_EnabledAt = None\<rparr>"

definition sample_enrolled :: db where
  "sample_enrolled = projr (EnableMFA ''u'' ''s'' [] 2 (sample_event ''4'') (projr (UpsertPendingMFA sample_pending sample_accounts)))"

definition sample_challenged :: db where
  "sample_challenged = projr (CreateMFAChallenge sample_challenge sample_enrolled)"

lemma sample_challenge_steps: "db_step\<^sup>*\<^sup>* empty_db sample_enrolled" "auth_step sample_enrolled sample_challenged"
proof -
  let ?d = "projr (UpsertPendingMFA sample_pending sample_accounts)"
  have r: "isl (UpsertPendingMFA sample_pending sample_accounts) = False" "isl (EnableMFA ''u'' ''s'' [] 2 (sample_event ''4'') ?d) = False"
    "isl (CreateMFAChallenge sample_challenge sample_enrolled) = False" by code_simp+
  have "auth_step sample_accounts ?d" by (rule auth_step.pending_mfa) (use r in auto)
  moreover have "auth_step ?d sample_enrolled" by (rule auth_step.enable_mfa) (use r in \<open>auto simp: sample_enrolled_def\<close>)
  ultimately show "db_step\<^sup>*\<^sup>* empty_db sample_enrolled"
    using sample_account_steps(1) by (meson db_auth_step rtranclp.rtrancl_into_rtrancl rtranclp.rtrancl_refl)
  show "auth_step sample_enrolled sample_challenged"
    by (rule auth_step.create_challenge) (use r in \<open>auto simp: sample_challenged_def\<close>)
qed

theorem challenge_answered_once_witness:
  "\<exists>d. CompleteMFAChallenge ''h'' [] 10 None (sample_session ''t'') (sample_event ''5'') sample_challenged = Inr d \<and>
     CompleteMFAChallenge ''h'' [] 11 None (sample_session ''v'') (sample_event ''6'') d = Inl code_rejected"
proof -
  have "isl (CompleteMFAChallenge ''h'' [] 10 None (sample_session ''t'') (sample_event ''5'') sample_challenged) = False" by code_simp
  then obtain d where d: "CompleteMFAChallenge ''h'' [] 10 None (sample_session ''t'') (sample_event ''5'') sample_challenged = Inr d"
    by (cases "CompleteMFAChallenge ''h'' [] 10 None (sample_session ''t'') (sample_event ''5'') sample_challenged") auto
  moreover have "db_step\<^sup>*\<^sup>* empty_db sample_challenged"
    using sample_challenge_steps by (meson db_auth_step rtranclp.rtrancl_into_rtrancl)
  ultimately show ?thesis
    using challenge_answered_once [of sample_challenged "''h''" "[]" 10 None "sample_session ''t''" "sample_event ''5''" d d] by blast
qed

end
