(* ===== verification/Controller.thy ===== *)
theory Controller
  imports Operations Reconciler Management Auth_Properties Auth_Safety Samples
begin

text \<open>
  The services on one store. Every method of the services, the executors and the reconciler changes
  the store by committed writes only, one of the transactions of \<open>db_step\<close> at a time, also when
  other requests commit in between and repository calls fail. So the constraints of the schema hold
  after any sequence of requests and background passes.
\<close>

subsection \<open>Every action commits\<close>

lemmas written = commits_exec commits_exec_traced commits_method

lemma commits_if: "(b \<Longrightarrow> commits m) \<Longrightarrow> (\<not> b \<Longrightarrow> commits m') \<Longrightarrow> commits (if b then m else m')"
  by simp

lemma commits_Observe [committing]: "commits (Observe i)"
  unfolding Observe_def Let_def
  by (auto intro!: committing written dest!: store_writes split: option.split)

lemma commits_Compare [committing]: "commits (Compare i j)"
  unfolding Compare_def by (auto intro!: committing split: option.split)

lemma commits_Inventory_of [committing]: "commits (Inventory_of c)"
  unfolding Inventory_of_def by (auto intro!: committing split: sum.split go_error.split ErrorKind.split)

lemma commits_Import [committing]: "commits (Import actor c sn v ok)"
  unfolding Import_def Let_def
  by (auto intro!: committing written dest!: store_writes split: option.split sum.split go_error.split ErrorKind.split)

lemma commits_systemAudit [committing]: "commits (systemAudit a rt ri q m at)"
  unfolding systemAudit_def by (auto intro!: committing)

lemma commits_userAudit [committing]: "commits (userAudit actor a rt ri m at)"
  unfolding userAudit_def by (auto intro!: committing)

lemma commits_newUserAudit [committing]: "commits (newUserAudit actor a rt ri m at)"
  unfolding newUserAudit_def by (auto intro!: committing)

lemma commits_ProbeStatus [committing]: "commits (ProbeStatus q)"
  unfolding ProbeStatus_def by (auto intro!: committing)

lemma commits_Encrypt [committing]: "commits (Encrypt i c)"
  unfolding Encrypt_def by (auto intro!: committing split: option.split)


subsubsection \<open>Management\<close>

lemma commits_management [committing]:
  "commits (Management_CreateCluster actor ci)" "commits Management_ListClusters" "commits (Management_Cluster i)"
  "commits (Management_UpdateCluster actor i v ci)" "commits (Management_ListNodes c)" "commits (Management_Node i)"
  "commits (DeleteNode actor i n v)" "commits (Management_SetNodeMaintenance actor i b v)"
  unfolding Management_CreateCluster_def Management_ListClusters_def Management_Cluster_def Management_UpdateCluster_def
    Management_ListNodes_def Management_Node_def DeleteNode_def Management_SetNodeMaintenance_def Let_def
  by (auto intro!: committing written dest!: store_writes)

lemma commits_candidate [committing]: "commits (checked_node_input up us ni)" "commits (ValidateNodeCandidate up us ni)"
  unfolding ValidateNodeCandidate_def checked_node_input_def Let_def by (auto intro!: committing)

lemma commits_nodes [committing]: "commits (Management_CreateNode up us actor ni)" "commits (Management_UpdateNode up us actor i ui)"
  unfolding Management_CreateNode_def Management_UpdateNode_def probe_update_def Let_def
  by (auto intro!: committing written dest!: store_writes)

lemma commits_TestNodeConnection [committing]: "commits (TestNodeConnection actor i)"
  unfolding TestNodeConnection_def Let_def case_prod_unfold
  by (auto intro!: committing written dest!: store_writes split: sum.split)


subsubsection \<open>Executor\<close>

lemma commits_executor_steps [committing]:
  "commits (UpdateTask t)" "commits (Finish p a e)" "commits (observe_node Observe i)" "commits (ApplyConfiguration q document)"
  unfolding UpdateTask_def Finish_def observe_node_def ApplyConfiguration_def
  by (auto intro!: committing written dest!: store_writes)

lemma commits_for_each [committing]: "(\<And>x. commits (f x)) \<Longrightarrow> commits (for_each xs f)"
  by (induction xs) (auto intro!: committing)

lemma commits_endings [committing]:
  "commits (failBeforeMutation p code err)" "commits (failNode p items k n code err)" "commits (cancel p k)" "commits (complete p)"
  unfolding failBeforeMutation_def failNode_def cancel_def complete_def Let_def
  by (auto intro!: committing written dest!: store_writes)

lemma commits_prepare [committing]: "commits (prepare Observe rv tasks)"
  by (induction tasks) (auto intro!: committing split: sum.split option.split)

lemma commits_run_nodes [committing]: "commits (run_nodes Observe p rv dn items k)"
  by (induction items arbitrary: dn k)
     (auto simp: Let_def intro!: committing written dest!: store_writes split: sum.split option.split)

lemma commits_executor [committing]: "commits (execute Observe i)" "commits (RecoverInterrupted ids)" "commits (RunOnce Observe)"
  unfolding execute_def execute_revision_def RecoverInterrupted_def RunOnce_def
  by (auto intro!: committing written dest!: store_writes split: sum.split option.split)


subsubsection \<open>Control plane service\<close>

lemma commits_catalogue_issues [committing]: "commits (catalogue_issues (controller_service h) c document)"
  by (auto simp: catalogue_issues_def controller_service_def intro!: committing)

lemma commits_preview [committing]: "commits (previewDocument (controller_service h) c r document selected)"
  unfolding previewDocument_def by (auto intro!: committing)

lemma commits_new_tasks [committing]: "commits (new_tasks i targets)"
  by (induction targets) (auto intro!: committing)

lemma commits_service_reads [committing]:
  "commits (ValidateDraft (controller_service h) c)" "commits (Service_ListRevisions c ia)" "commits (Service_Revision i)"
  "commits (CompareRevisions i j)" "commits (PreviewDeployment (controller_service h) c r)" "commits (Service_ListDeployments c ia)"
  "commits (Service_Deployment i)" "commits (ListDrift c)"
  unfolding ValidateDraft_def Service_ListRevisions_def Service_Revision_def CompareRevisions_def PreviewDeployment_def
    Service_ListDeployments_def Service_Deployment_def ListDrift_def Let_def
  by (auto intro!: committing split: option.split sum.split)

lemma commits_drafts [committing]:
  "commits (UpdateDraft (controller_service h) actor c v document)" "commits (Publish (controller_service h) actor c summary v)"
  unfolding UpdateDraft_def Publish_def Let_def case_prod_unfold
  by (auto intro!: committing written dest!: store_writes split: option.split sum.split)

lemma commits_create_deployment [committing]: "commits (create_deployment actor c r origin rb targets)"
  unfolding create_deployment_def Let_def
  by (auto intro!: committing written dest!: store_writes split: option.split)

lemma commits_startDeployment [committing]: "commits (startDeployment (controller_service h) actor c r origin rb selected)"
  unfolding startDeployment_def by (auto intro!: committing)

lemma commits_deployments [committing]:
  "commits (StartDeployment (controller_service h) actor c r origin rb selected)" "commits (StartReconciliation (controller_service h) c r i)"
  "commits (Rollback (controller_service h) actor c r)" "commits (RestoreDrift (controller_service h) actor i)"
  unfolding StartDeployment_def StartReconciliation_def Rollback_def RestoreDrift_def
  by (auto intro!: committing written dest!: store_writes split: option.split)

lemma commits_lifecycle [committing]:
  "commits (Service_SetRevisionArchived actor i a ok)" "commits (Service_DeleteUnusedRevision actor i n)"
  "commits (Service_SetDeploymentArchived actor i a ok)" "commits (Service_DeleteUnstartedDeployment actor i n)"
  "commits (CancelDeployment actor i)" "commits (AdoptDrift actor i v)"
  unfolding Service_SetRevisionArchived_def Service_DeleteUnusedRevision_def Service_SetDeploymentArchived_def
    Service_DeleteUnstartedDeployment_def CancelDeployment_def AdoptDrift_def Let_def
  by (auto intro!: committing written dest!: store_writes split: option.split sum.split)


subsubsection \<open>Reconciler\<close>

lemma commits_set_convergence [committing]: "commits (set_convergence i c)"
  unfolding set_convergence_def by (auto intro!: committing written dest!: store_writes)

lemma commits_evaluateNode [committing]: "commits (evaluateNode Observe (controller_service h) cluster rv node)"
  unfolding evaluateNode_def converged_node_def drifted_node_def enforce_drift_def Let_def
  by (auto intro!: committing written dest!: store_writes split: option.split sum.split)

lemma commits_reconcile_nodes [committing]: "commits (reconcile_nodes Observe (controller_service h) cluster rv nodes)"
  by (induction nodes) (auto simp: reconcile_node_def intro!: committing)

lemma commits_reconcile_clusters [committing]: "commits (reconcile_clusters Observe (controller_service h) clusters)"
  by (induction clusters) (auto simp: reconcile_cluster_def intro!: committing split: option.split sum.split)

lemma commits_Reconciler [committing]: "commits (Reconciler_RunOnce Observe (controller_service h))"
  unfolding Reconciler_RunOnce_def by (auto intro!: committing)


subsubsection \<open>Operational commands\<close>

lemma commits_operationAudit [committing]: "commits (operationAudit actor a p m at)"
  unfolding operationAudit_def by (auto intro!: committing)

lemma commits_new_results [committing]: "commits (new_results k nodes)"
  by (induction nodes arbitrary: k) (auto intro!: committing)

lemma commits_start [committing]: "commits (Operations_start actor c target command input key)"
  unfolding Operations_start_def start_selected_def EncryptPayload_def Let_def
  by (auto intro!: committing written dest!: command_writes split: option.split sum.split)

lemma commits_starts [committing]:
  "commits (StartUpstreamTest actor c target ui key)" "commits (StartHostFilterTest actor c target hi key)"
  "commits (StartCacheClear actor c target ok key)" "commits (StartQueryLogClear actor c target ok key)"
  "commits (StartStatisticsReset actor c target ok key)" "commits (Operations_Operation i)" "commits (Operations_List c command n)"
  unfolding StartUpstreamTest_def StartHostFilterTest_def StartCacheClear_def StartQueryLogClear_def StartStatisticsReset_def
    Operations_Operation_def Operations_List_def Let_def
  by (auto intro!: committing split: option.split sum.split)

lemma commits_results [committing]: "commits (UpdateResult i n)" "commits (FinishCommand p event)"
  unfolding UpdateResult_def FinishCommand_def by (auto intro!: committing written dest!: command_writes)

lemma commits_update_results [committing]: "commits (update_results i P f results)"
  by (induction results) (auto intro!: committing)

lemma commits_recover [committing]: "commits (recover_commands ps)"
  by (induction ps) (auto simp: recover_command_def Let_def intro!: committing)

lemma commits_run_result [committing]: "commits (run_result p input result)"
  unfolding run_result_def command_node_def run_node_def Let_def
  by (auto intro!: committing split: option.split sum.split)

lemma commits_run_results [committing]: "commits (run_results p input results)"
  by (induction results) (auto intro!: committing)

lemma commits_run_command [committing]: "commits (run_command p)"
  unfolding run_command_def failAll_def finish_run_def Let_def
  by (auto intro!: committing split: option.split sum.split)

lemma commits_command_executor [committing]: "commits Operations_RecoverInterrupted" "commits Operations_RunOnce"
  unfolding Operations_RecoverInterrupted_def Operations_RunOnce_def
  by (auto intro!: committing written dest!: command_writes)

lemma commits_dhcpAudit [committing]: "commits (dhcpOperationAudit actor a p m at)"
  unfolding dhcpOperationAudit_def by (auto intro!: committing)

lemma commits_dhcp_ends [committing]: "commits (failDHCPOperation actor p name err)" "commits (succeed_dhcp actor i p name)"
  unfolding failDHCPOperation_def succeed_dhcp_def FinishDhcp_def Let_def
  by (auto intro!: committing written dest!: command_writes split: sum.split)

lemma commits_dhcp [committing]: "commits (RunDHCPOperation actor i command ok key)" "commits (Inventory_ListDHCPOperations i n)"
  unfolding RunDHCPOperation_def execute_dhcp_def Inventory_ListDHCPOperations_def Let_def case_prod_unfold
  by (auto intro!: committing written dest!: command_writes split: option.split sum.split list.split)


subsection \<open>A running controller\<close>

text \<open>
  One request or one background pass. The methods that only read are left out: they leave the store
  to the environment.
\<close>

inductive controller_step :: "env \<Rightarrow> world \<Rightarrow> world \<Rightarrow> bool" for e :: env where
  create_cluster_request: "controller_step e w (snd ((Management_CreateCluster actor ci) e w))"
| update_cluster_request: "controller_step e w (snd ((Management_UpdateCluster actor i v ci) e w))"
| create_node_request: "controller_step e w (snd ((Management_CreateNode up us actor ni) e w))"
| update_node_request: "controller_step e w (snd ((Management_UpdateNode up us actor i ui) e w))"
| test_node_request: "controller_step e w (snd ((TestNodeConnection actor i) e w))"
| delete_node_request: "controller_step e w (snd ((DeleteNode actor i n v) e w))"
| maintenance_request: "controller_step e w (snd ((Management_SetNodeMaintenance actor i b v) e w))"
| observe_request: "controller_step e w (snd ((Observe i) e w))"
| import_request: "controller_step e w (snd ((Import actor c sn v b) e w))"
| refresh_request: "controller_step e w (snd ((RefreshFilters actor i b) e w))"
| active_dhcp_request: "controller_step e w (snd ((FindActiveDHCP actor i n) e w))"
| update_draft_request: "controller_step e w (snd ((UpdateDraft (controller_service h) actor c v document) e w))"
| publish_request: "controller_step e w (snd ((Publish (controller_service h) actor c summary v) e w))"
| archive_revision_request: "controller_step e w (snd ((Service_SetRevisionArchived actor i a b) e w))"
| delete_revision_request: "controller_step e w (snd ((Service_DeleteUnusedRevision actor i n) e w))"
| start_request: "controller_step e w (snd ((StartDeployment (controller_service h) actor c r origin rb selected) e w))"
| rollback_request: "controller_step e w (snd ((Rollback (controller_service h) actor c r) e w))"
| archive_deployment_request: "controller_step e w (snd ((Service_SetDeploymentArchived actor i a b) e w))"
| delete_deployment_request: "controller_step e w (snd ((Service_DeleteUnstartedDeployment actor i n) e w))"
| cancel_request: "controller_step e w (snd ((CancelDeployment actor i) e w))"
| restore_request: "controller_step e w (snd ((RestoreDrift (controller_service h) actor i) e w))"
| adopt_request: "controller_step e w (snd ((AdoptDrift actor i v) e w))"
| recover_deployments_request: "controller_step e w (snd ((RecoverInterrupted ids) e w))"
| run_deployment_request: "controller_step e w (snd ((RunOnce Observe) e w))"
| reconcile_request: "controller_step e w (snd ((Reconciler_RunOnce Observe (controller_service h)) e w))"
| upstream_test_request: "controller_step e w (snd ((StartUpstreamTest actor c target up key) e w))"
| host_filter_test_request: "controller_step e w (snd ((StartHostFilterTest actor c target hi key) e w))"
| cache_clear_request: "controller_step e w (snd ((StartCacheClear actor c target ok key) e w))"
| query_log_clear_request: "controller_step e w (snd ((StartQueryLogClear actor c target ok key) e w))"
| statistics_reset_request: "controller_step e w (snd ((StartStatisticsReset actor c target ok key) e w))"
| recover_commands_request: "controller_step e w (snd (Operations_RecoverInterrupted e w))"
| run_command_request: "controller_step e w (snd (Operations_RunOnce e w))"
| dhcp_operation_request: "controller_step e w (snd ((RunDHCPOperation actor i command ok key) e w))"
| setup_request: "controller_step e w (snd ((Setup s email name password q ip ua) e w))"
| login_request: "controller_step e w (snd ((Login s email password q ip ua) e w))"
| authenticate_request: "controller_step e w (snd ((Authenticate s token) e w))"
| logout_request: "controller_step e w (snd ((Logout session user q) e w))"
| session_cleanup_request: "controller_step e w (snd (session_cleanup e w))"
| start_enrollment_request: "controller_step e w (snd ((StartMFAEnrollment s i password) e w))"
| verify_enrollment_request: "controller_step e w (snd ((VerifyMFAEnrollment s i j code q) e w))"
| recovery_codes_request: "controller_step e w (snd ((RegenerateRecoveryCodes s i j password code q) e w))"
| disable_mfa_request: "controller_step e w (snd ((Auth_DisableMFA s i j password code q) e w))"
| answer_challenge_request: "controller_step e w (snd ((Auth_CompleteMFAChallenge s token code b q ip ua) e w))"
| cancel_challenge_request: "controller_step e w (snd ((CancelMFAChallenge s token) e w))"
| reset_mfa_request: "controller_step e w (snd ((Auth_ResetMFAFromHost s email) e w))"
| create_user_request: "controller_step e w (snd ((UserAdmin_Create IDKey pa actor cu) e w))"
| update_user_request: "controller_step e w (snd ((UserAdmin_Update pa actor i uu) e w))"
| reset_password_request: "controller_step e w (snd ((UserAdmin_ResetPassword IDKey actor i password) e w))"
| change_password_request: "controller_step e w (snd ((UserAdmin_ChangeOwnPassword IDKey mfa actor j password new code) e w))"

lemma commits_run: "commits m \<Longrightarrow> calm e \<Longrightarrow> db_step\<^sup>*\<^sup>* (w_db w) (w_db (snd (m e w)))"
  by (simp add: commits_def)

lemma controller_step_commits: "controller_step e w w' \<Longrightarrow> calm e \<Longrightarrow> db_step\<^sup>*\<^sup>* (w_db w) (w_db w')"
  by (induction rule: controller_step.induct) (rule commits_run, rule committing, assumption)+

lemma controller_steps_commit: "(controller_step e)\<^sup>*\<^sup>* w w' \<Longrightarrow> calm e \<Longrightarrow> db_step\<^sup>*\<^sup>* (w_db w) (w_db w')"
  by (induction rule: rtranclp_induct) (auto dest: controller_step_commits intro: rtranclp_trans)


definition empty_world :: world where
  "empty_world = \<lparr>w_db = empty_db, w_tick = 0, w_trace = [], w_catalogues = [], w_filterLists = [],
     w_limiter = NewLoginLimiter 5 (seconds 900), w_factorLimiter = NewLoginLimiter 5 (seconds 900), w_passwordLimiter = NewLoginLimiter 5 (seconds 900)\<rparr>"

definition sample_actor :: Actor where
  "sample_actor = \<lparr>actor_UserID = sample_uuid, actor_RequestID = sample_uuid\<rparr>"


text \<open>
  C33: Once the controller has been set up, it always has an enabled administrator: no sequence of
  requests, with other requests in between, disables or removes the last one. Every session that
  has not been revoked belongs to an enabled user, and no user has two open challenges.
\<close>

theorem administrator_remains:
  assumes "calm e" "auth_ok (w_db w)" "(controller_step e)\<^sup>*\<^sup>* w w'" "HasUsers (w_db w)"
  shows "(\<exists>u \<in> set (users (w_db w')). user_Enabled u \<and> user_Role u = RoleAdministrator) \<and>
    (\<forall>s \<in> set (sessions (w_db w')). sess_RevokedAt s = None \<longrightarrow> (\<exists>u \<in> set (users (w_db w')). user_ID u = sess_UserID s \<and> user_Enabled u)) \<and>
    (\<forall>i. length [c \<leftarrow> challenges (w_db w'). chal_UserID c = i \<and> chal_ConsumedAt c = None] \<le> 1)"
proof -
  note steps = controller_steps_commit [OF assms(3,1)]
  from db_steps_auth_ok [OF steps assms(2)] have ok: "auth_ok (w_db w')" .
  from db_steps_users [OF steps] assms(4) have "users (w_db w') \<noteq> []" by (auto simp: HasUsers_def)
  with ok have "\<exists>u \<in> set (users (w_db w')). user_Enabled u \<and> user_Role u = RoleAdministrator"
    by (simp add: accounts_ok_def administered_def)
  moreover from ok have "\<exists>u \<in> set (users (w_db w')). user_ID u = sess_UserID s \<and> user_Enabled u"
    if "s \<in> set (sessions (w_db w'))" "sess_RevokedAt s = None" for s
    using that by (force simp: accounts_ok_def sessions_ok_def logged_out_def)
  moreover have "length [c \<leftarrow> challenges (w_db w'). chal_UserID c = i \<and> chal_ConsumedAt c = None] \<le> 1" for i
    using ok rows_affected_unique [of chal_UserID "[c \<leftarrow> challenges (w_db w'). chal_ConsumedAt c = None]" i "\<lambda>_. True"]
    by (simp add: accounts_ok_def one_challenge_def unique_index_def rows_affected_def conj_commute)
  ultimately show ?thesis by blast
qed

theorem administrator_remains_witness:
  "\<exists>w. (controller_step sample_env)\<^sup>*\<^sup>* (empty_world\<lparr>w_db := sample_accounts\<rparr>) w \<and> w_tick w = 3 \<and>
     (\<exists>u \<in> set (users (w_db w)). user_Enabled u \<and> user_Role u = RoleAdministrator)"
proof -
  let ?s = "empty_world\<lparr>w_db := sample_accounts\<rparr>"
  let ?w = "snd (session_cleanup sample_env ?s)"
  have "calm sample_env" by (simp add: calm_def sample_env_def)
  moreover have "auth_ok (w_db ?s)" using sample_account_steps(1) [THEN db_auth_step] by (auto intro: reachable_auth_ok)
  moreover have "(controller_step sample_env)\<^sup>*\<^sup>* ?s ?w" by (blast intro: session_cleanup_request)
  moreover have "HasUsers (w_db ?s)" "w_tick ?w = 3" by code_simp+
  ultimately show ?thesis using administrator_remains [of sample_env ?s ?w] by blast
qed

end
