(* ===== verification/Auth_Race.thy ===== *)
theory Auth_Race
  imports Auth_Properties Auth_Safety Samples
begin

text \<open>
  Two requests of one user: a login without a second factor that has already checked the password,
  and the confirmation of an enrolment that enables the second factor. \<open>CreateLoginSession\<close> looks
  at nothing but whether the user is enabled, so the login still gets its session.
\<close>

definition race_password :: string where "race_password = ''correct horse''"

definition race_hash :: string where
  "race_hash = projr (HashPassword sample_argon2 (Some (replicate 16 CHR ''s'')) race_password)"

definition race_user :: UserRow where
  "race_user = sample_user\<lparr>user_PasswordHash := race_hash\<rparr>"

text \<open>The user exists and has started to enrol.\<close>

definition race_db :: db where
  "race_db = put_mfas [sample_pending] (put_users [race_user] empty_db)"

definition race_service :: auth_service where
  "race_service = \<lparr>as_IDKey = sample_argon2, as_parseAddress = Some, as_secret = [], as_dummyHash = race_hash, as_decrypt = None,
     as_validate = (\<lambda>_ _ _. None)\<rparr>"

text \<open>The confirmation commits right before the session is inserted.\<close>

definition enable_meanwhile :: "db \<Rightarrow> db" where
  "enable_meanwhile d = (case EnableMFA ''u'' ''other'' [] 20 (sample_event ''m'') d of Inl _ \<Rightarrow> d | Inr d' \<Rightarrow> d')"

definition race_env :: env where
  "race_env = sample_env\<lparr>interfere := (\<lambda>t d. if t = 10 then enable_meanwhile d else d)\<rparr>"

definition race_world :: world where
  "race_world = sample_start\<lparr>w_db := race_db\<rparr>"

lemma race_calm: "calm race_env"
  unfolding calm_def race_env_def enable_meanwhile_def
  by (auto split: sum.split intro!: r_into_rtranclp db_auth_step intro: auth_step.enable_mfa)

lemma race_verify: "VerifyPassword sample_argon2 race_hash race_password = Inr True"
proof -
  have len: "length (sample_argon2 p s t m n k) = k" for p s t m n k by (simp add: sample_argon2_def)
  have "HashPassword sample_argon2 (Some (replicate 16 CHR ''s'')) race_password = Inr race_hash"
    by (simp add: race_hash_def HashPassword_def ValidatePassword_def race_password_def)
  from verify_hashed [OF len _ this, of race_password] show ?thesis by (simp add: argonSaltLength_def)
qed

lemma race_ok: "auth_ok race_db"
proof -
  have "user_check race_user" "mfa_check sample_pending"
    by (simp_all add: race_user_def sample_user_def user_check_def RoleAdministrator_def lower_char_def char_length_between_def
        RuneCountInString.simps rune_len_def sample_pending_def mfa_check_def)
  then show ?thesis
    by (simp add: race_db_def accounts_ok_def accounts_defs db_accounts_put empty_db_def user_indexes_def session_indexes_def
        code_indexes_def challenge_indexes_def unique_index_def race_user_def sample_user_def sample_pending_def)
qed

lemma race_loaded: "UserByEmail ''a@b'' race_db = Inr (UserRow.extend race_user (User.fields False))"
  by (simp add: UserByEmail_def race_db_def query_row_def race_user_def sample_user_def mapDatabaseError_def scanUser_def mfa_on_def
      sample_pending_def put_defs empty_db_def)

lemma race_enabled:
  "users (enable_meanwhile race_db) = [race_user]" "sessions (enable_meanwhile race_db) = []"
  "mfa_on ''u'' (enable_meanwhile race_db)" "db_audit (enable_meanwhile race_db) = [(sample_event ''m'')\<lparr>audit_Metadata := SafeMetadata []\<rparr>]"
proof -
  have "EnableMFA ''u'' ''other'' [] 20 (sample_event ''m'') race_db =
    Inr (race_db\<lparr>db_accounts := (db_accounts race_db)\<lparr>acc_mfa := [sample_pending\<lparr>mfa_EnabledAt := Some 20\<rparr>]\<rparr>,
      db_audit := [(sample_event ''m'')\<lparr>audit_Metadata := SafeMetadata []\<rparr>]\<rparr>)"
    by (simp add: EnableMFA_def race_db_def update_checked_def sample_pending_def mfa_check_def rows_affected_def delete_codes_def
        revoke_where_def consume_where_def put_defs empty_db_def audit_def sample_event_def Let_def require_def)
  then show "users (enable_meanwhile race_db) = [race_user]" "sessions (enable_meanwhile race_db) = []"
    "mfa_on ''u'' (enable_meanwhile race_db)" "db_audit (enable_meanwhile race_db) = [(sample_event ''m'')\<lparr>audit_Metadata := SafeMetadata []\<rparr>]"
    by (simp_all add: enable_meanwhile_def race_db_def put_defs empty_db_def mfa_on_def sample_pending_def)
qed

lemma race_build:
  assumes "w_tick v = 4"
  shows "\<exists>result session event. buildSession race_service user q ip ua race_env v = (Inr (result, session, event), v\<lparr>w_tick := 10\<rparr>) \<and>
    sr_Session result = Some session \<and> \<not> sr_MFARequired result \<and> sess_UserID session = user_ID user \<and> sess_RevokedAt session = None \<and>
    sess_LastSeenAt session = sess_CreatedAt session \<and> sess_ExpiresAt session > sess_CreatedAt session \<and> audit_ID event = digits 9"
  using assms
  by (simp add: buildSession_def run_simps new_token_def newToken_def lift_err_def auditEvent_def race_env_def sample_env_def NewID_act_def
      Let_def)

lemma race_insert:
  assumes "sess_UserID session = ''u''" "sess_RevokedAt session = None" "sess_LastSeenAt session = sess_CreatedAt session"
    "sess_ExpiresAt session > sess_CreatedAt session" "audit_ID event = digits 9"
  shows "\<exists>d. CreateLoginSession session event (enable_meanwhile race_db) = Inr d \<and> sessions d = [session] \<and> mfa_on ''u'' d"
proof -
  have "session\<lparr>sess_LastSeenAt := sess_CreatedAt session, sess_RevokedAt := None\<rparr> = session"
    using assms(2,3) by (cases session) simp
  moreover have "digits 9 \<noteq> ''m''" by code_simp
  ultimately show ?thesis
    using assms race_enabled
    by (simp add: CreateLoginSession_def createLoginSession_def insert_session_def query_row_def race_user_def sample_user_def session_check_def
        session_indexes_def unique_index_def Let_def require_def audit_def put_defs sample_event_def mfa_on_def)
qed

text \<open>
  C40: The second factor can be bypassed by a login that is under way: there are a consistent store
  and a run in which only committed transactions of other requests intervene, where \<open>Login\<close>
  returns a session on the password alone although the user's second factor is enabled when the
  session is inserted; the session is live afterwards and the enabling transaction, which revokes
  the other sessions of the user, has not seen it.
\<close>

theorem login_bypasses_new_factor:
  "\<exists>s e w w' result session. calm e \<and> auth_ok (w_db w) \<and>
     Login s ''a@b'' race_password q ip ua e w = (Inr result, w') \<and> sr_Session result = Some session \<and> \<not> sr_MFARequired result \<and>
     MFAEnabled (sess_UserID session) (w_db w') \<and> session \<in> set (sessions (w_db w')) \<and> sess_RevokedAt session = None"
proof -
  have "ToLower (TrimSpace ''a@b'') = ''a@b''" by code_simp
  then have email: "login_email race_service ''a@b'' = ''a@b''"
    by (simp add: login_email_def NormaliseEmail_def race_service_def Let_def)
  define user where "user = UserRow.extend race_user (User.fields False)"
  have user: "user_PasswordHash user = race_hash" "user_Enabled user" "\<not> user_MFAEnabled user" "user_ID user = ''u''"
    by (simp_all add: user_def race_user_def sample_user_def UserRow.defs User.defs)
  let ?key = "ip @ null_byte @ ''a@b''"
  obtain l where allow: "login_allow ?key race_env race_world = (Inr True, race_world\<lparr>w_limiter := l, w_tick := 2\<rparr>)"
    by (simp add: login_allow_def run_simps use_limiter_def race_env_def sample_env_def race_world_def sample_start_def NewLoginLimiter_def
        Allow_def set_limiter_def)
  have load: "attempt (query (UserByEmail ''a@b'')) race_env (race_world\<lparr>w_limiter := l, w_tick := 2\<rparr>) =
      (Inr (Inr user), race_world\<lparr>w_limiter := l, w_tick := 3\<rparr>)"
    using race_loaded by (simp add: attempt_apply query_run race_env_def sample_env_def race_world_def sample_start_def user_def)
  obtain l' where success: "login_success ?key race_env (race_world\<lparr>w_limiter := l, w_tick := 3\<rparr>) =
      (Inr (), race_world\<lparr>w_limiter := l', w_tick := 4\<rparr>)"
    by (simp add: login_success_def use_limiter_def race_env_def sample_env_def set_limiter_def)
  let ?v = "race_world\<lparr>w_limiter := l', w_tick := 4\<rparr>"
  obtain result session event where built: "buildSession race_service user q ip ua race_env ?v = (Inr (result, session, event), ?v\<lparr>w_tick := 10\<rparr>)"
      "sr_Session result = Some session" "\<not> sr_MFARequired result" "sess_UserID session = ''u''" "sess_RevokedAt session = None"
      "sess_LastSeenAt session = sess_CreatedAt session" "sess_ExpiresAt session > sess_CreatedAt session" "audit_ID event = digits 9"
    using race_build [of ?v user q ip ua] user(4) by auto
  obtain d where d: "CreateLoginSession session event (enable_meanwhile race_db) = Inr d" "sessions d = [session]" "mfa_on ''u'' d"
    using race_insert [OF built(4-8)] by blast
  let ?w = "(?v\<lparr>w_tick := 11\<rparr>)\<lparr>w_trace := [ESession session], w_db := d\<rparr>"
  have inserted: "exec_traced (ESession session) (CreateLoginSession session event) race_env (race_world\<lparr>w_limiter := l', w_tick := 10\<rparr>) = (Inr (), ?w)"
    using d(1) by (simp add: exec_traced_def bind_apply emit_def exec_def call_def race_env_def sample_env_def race_world_def sample_start_def)
  have key: "as_IDKey race_service = sample_argon2" by (simp add: race_service_def)
  have "Login race_service ''a@b'' race_password q ip ua race_env race_world = (Inr result, ?w)"
    by (simp add: Login_def Let_def email bind_apply allow load success createSession_def built(1) inserted ret_apply user key race_verify
        del: append_assoc)
  then show ?thesis
    using race_calm race_ok built d by (intro exI [of _ race_service] exI [of _ race_env] exI [of _ race_world] exI [of _ ?w] exI [of _ result]
        exI [of _ session]) (simp add: MFAEnabled_def race_world_def)
qed

end
