(* ===== verification/Compat.thy ===== *)
theory Compat
  imports Domain
begin

text \<open>
  The product version policy of \<open>internal/adguardcompat/compatibility.go\<close>: the SemVer
  grammar with an optional leading \<open>v\<close>, the comparison of decimal components, and the
  classification of versions. \<open>versionPattern\<close> is the regular expression as a predicate,
  \<open>parse\<close> the matcher that computes its groups; \<open>parse_iff\<close> shows that they agree.
\<close>

datatype APIGeneration = APIGenerationUnknown | APIGenerationLegacyControl

record productVersion =
  pv_major :: string
  pv_minor :: string
  pv_patch :: string
  pv_prerelease :: string

subsection \<open>The grammar\<close>

definition is_letter :: "char \<Rightarrow> bool" where
  "is_letter c \<longleftrightarrow> (let n = of_char c :: nat in 65 \<le> n \<and> n \<le> 90 \<or> 97 \<le> n \<and> n \<le> 122)"

definition ident_char :: "char \<Rightarrow> bool" where
  "ident_char c \<longleftrightarrow> is_digit c \<or> is_letter c \<or> c = CHR ''-''"

text \<open>\<open>0|[1-9][0-9]*\<close>\<close>

definition numeric :: "string \<Rightarrow> bool" where
  "numeric s \<longleftrightarrow> s = ''0'' \<or> s \<noteq> [] \<and> hd s \<noteq> CHR ''0'' \<and> list_all is_digit s"

text \<open>\<open>0|[1-9][0-9]*|[0-9]*[A-Za-z-][0-9A-Za-z-]*\<close> and \<open>[0-9A-Za-z-]+\<close>\<close>

definition pre_ident :: "string \<Rightarrow> bool" where
  "pre_ident s \<longleftrightarrow> s \<noteq> [] \<and> list_all ident_char s \<and> (list_all is_digit s \<longrightarrow> numeric s)"

definition build_ident :: "string \<Rightarrow> bool" where
  "build_ident s \<longleftrightarrow> s \<noteq> [] \<and> list_all ident_char s"

text \<open>
  The expression as a whole: an optional \<open>v\<close>, three numeric components, an optional
  pre-release after a hyphen and optional build metadata after a plus sign. The fourth group
  is empty when there is no pre-release.
\<close>

definition versionPattern :: "string \<Rightarrow> string \<Rightarrow> string \<Rightarrow> string \<Rightarrow> string \<Rightarrow> bool" where
  "versionPattern s M N P pre \<longleftrightarrow> (\<exists>v pres builds.
     s = v @ M @ CHR ''.'' # N @ CHR ''.'' # P @
         (if pres = [] then [] else CHR ''-'' # join_dots pres) @
         (if builds = [] then [] else CHR ''+'' # join_dots builds) \<and>
     v \<in> {[], ''v''} \<and> numeric M \<and> numeric N \<and> numeric P \<and>
     list_all pre_ident pres \<and> list_all build_ident builds \<and> pre = join_dots pres)"

definition parse_core :: "string \<Rightarrow> productVersion option" where
  "parse_core s =
    (let (body, build) = split_first (CHR ''+'') s; (core, pre) = split_first (CHR ''-'') body
     in case split_dots [] core of
          [M, N, P] \<Rightarrow>
            if numeric M \<and> numeric N \<and> numeric P \<and>
               (case pre of None \<Rightarrow> True | Some p \<Rightarrow> list_all pre_ident (split_dots [] p)) \<and>
               (case build of None \<Rightarrow> True | Some b \<Rightarrow> list_all build_ident (split_dots [] b))
            then Some \<lparr>pv_major = M, pv_minor = N, pv_patch = P,
                       pv_prerelease = (case pre of None \<Rightarrow> [] | Some p \<Rightarrow> p)\<rparr>
            else None
        | _ \<Rightarrow> None)"

definition parse :: "string \<Rightarrow> productVersion option" where
  "parse version =
    (let s = TrimSpace version in parse_core (if s \<noteq> [] \<and> hd s = CHR ''v'' then tl s else s))"

subsection \<open>Classification\<close>

definition decimalLess :: "string \<Rightarrow> string \<Rightarrow> bool" where
  "decimalLess left right =
    (if length left \<noteq> length right then length left < length right else left < right)"

definition Generation :: "string \<Rightarrow> APIGeneration" where
  "Generation version =
    (case parse version of
       Some v \<Rightarrow> if pv_major v = ''0'' \<or> pv_major v = ''1'' then APIGenerationLegacyControl else APIGenerationUnknown
     | None \<Rightarrow> APIGenerationUnknown)"

definition Compatibility_of :: "string \<Rightarrow> Compatibility" where
  "Compatibility_of version =
    (case parse version of
       None \<Rightarrow> CompatibilityUnknown
     | Some v \<Rightarrow>
        if pv_major v \<noteq> ''0'' \<and> pv_major v \<noteq> ''1'' then CompatibilityUnknown
        else if pv_major v = ''0'' \<and> (decimalLess (pv_minor v) ''107'' \<or>
          (pv_minor v = ''107'' \<and> (decimalLess (pv_patch v) ''78'' \<or>
             (pv_patch v = ''78'' \<and> pv_prerelease v \<noteq> []))))
        then CompatibilityUnsupported
        else CompatibilitySupported)"

definition IsProvisionallyCompatible :: "string \<Rightarrow> bool" where
  "IsProvisionallyCompatible version =
    (if Compatibility_of version \<noteq> CompatibilitySupported then False
     else case parse version of
       None \<Rightarrow> True
     | Some v \<Rightarrow> \<not> (pv_major v = ''0'' \<and> pv_minor v = ''107'' \<and> (pv_patch v = ''78'' \<or> pv_patch v = ''79'') \<and>
                   pv_prerelease v = []))"


subsection \<open>The matcher computes the groups of the expression\<close>

lemma ident_char_plain: "ident_char c \<Longrightarrow> c \<noteq> CHR ''.'' \<and> c \<noteq> CHR ''+''"
  by (auto simp: ident_char_def is_digit_def is_letter_def Let_def)

lemma is_digit_plain:
  "is_digit c \<Longrightarrow> c \<noteq> CHR ''.'' \<and> c \<noteq> CHR ''+'' \<and> c \<noteq> CHR ''-'' \<and> c \<noteq> CHR ''v''"
  by (auto simp: is_digit_def)

lemma numeric_digits: "numeric s \<Longrightarrow> s \<noteq> [] \<and> (\<forall>c \<in> set s. is_digit c)"
  by (auto simp: numeric_def is_digit_def list_all_iff)

lemma numeric_plain:
  assumes "numeric s"
  shows "CHR ''.'' \<notin> set s" "CHR ''+'' \<notin> set s" "CHR ''-'' \<notin> set s" "CHR ''v'' \<notin> set s" "s \<noteq> []"
  using numeric_digits [OF assms] is_digit_plain by blast+

lemma split_join_dots:
  "xs \<noteq> [] \<Longrightarrow> \<forall>x \<in> set xs. CHR ''.'' \<notin> set x \<Longrightarrow> split_dots [] (join_dots xs) = xs"
proof (induction xs rule: join_dots.induct)
  case (3 x y xs)
  then show ?case by (simp add: split_dots_Cons)
qed (simp_all add: split_dots_free)

lemma set_join_dots: "set (join_dots xs) \<subseteq> insert (CHR ''.'') (\<Union> (set ` set xs))"
  by (induction xs rule: join_dots.induct) auto

lemma idents_plain:
  assumes "list_all build_ident xs"
  shows "\<forall>x \<in> set xs. CHR ''.'' \<notin> set x" "CHR ''+'' \<notin> set (join_dots xs)"
proof -
  from assms have *: "\<forall>x \<in> set xs. \<forall>c \<in> set x. c \<noteq> CHR ''.'' \<and> c \<noteq> CHR ''+''"
    by (auto simp: list_all_iff build_ident_def dest: ident_char_plain)
  then show "\<forall>x \<in> set xs. CHR ''.'' \<notin> set x" by blast
  from * set_join_dots [of xs] show "CHR ''+'' \<notin> set (join_dots xs)" by fastforce
qed

lemma pre_build_ident: "list_all pre_ident xs \<Longrightarrow> list_all build_ident xs"
  by (auto simp: list_all_iff pre_ident_def build_ident_def)

lemma split_dots_three:
  "split_dots [] s = [M, N, P] \<longleftrightarrow>
     s = M @ CHR ''.'' # N @ CHR ''.'' # P \<and> CHR ''.'' \<notin> set M \<and> CHR ''.'' \<notin> set N \<and> CHR ''.'' \<notin> set P"
proof
  assume *: "split_dots [] s = [M, N, P]"
  then have "s = join_dots [M, N, P]" using join_split_dots [of "[]" s] by simp
  with * split_dots_parts [of _ "[]" s] show
    "s = M @ CHR ''.'' # N @ CHR ''.'' # P \<and> CHR ''.'' \<notin> set M \<and> CHR ''.'' \<notin> set N \<and> CHR ''.'' \<notin> set P"
    by simp
qed (simp add: split_dots_Cons split_dots_free)

text \<open>An optional tail: absent, or the identifiers after its introducing character.\<close>

definition tail_of :: "(string \<Rightarrow> bool) \<Rightarrow> string list \<Rightarrow> string option \<Rightarrow> bool" where
  "tail_of ok ids t \<longleftrightarrow> list_all ok ids \<and> t = (if ids = [] then None else Some (join_dots ids))"

lemma tail_of_iff:
  assumes "\<And>x. ok x \<Longrightarrow> build_ident x"
  shows "(case t of None \<Rightarrow> True | Some p \<Rightarrow> list_all ok (split_dots [] p)) \<longleftrightarrow> (\<exists>ids. tail_of ok ids t)"
proof (cases t)
  case (Some p)
  show ?thesis
  proof
    assume "case t of None \<Rightarrow> True | Some p \<Rightarrow> list_all ok (split_dots [] p)"
    with Some have "tail_of ok (split_dots [] p) t" by (simp add: tail_of_def join_split_dots)
    then show "\<exists>ids. tail_of ok ids t" ..
  next
    assume "\<exists>ids. tail_of ok ids t"
    then obtain ids where ids: "list_all ok ids" "ids \<noteq> []" "p = join_dots ids"
      by (auto simp: tail_of_def Some split: if_splits)
    then have "list_all build_ident ids" using assms by (auto simp: list_all_iff)
    with ids show "case t of None \<Rightarrow> True | Some p \<Rightarrow> list_all ok (split_dots [] p)"
      by (simp add: Some split_join_dots idents_plain)
  qed
qed (auto simp: tail_of_def intro: exI [of _ "[]"])

lemma tail_of_text:
  "tail_of ok ids t \<Longrightarrow>
    (case t of None \<Rightarrow> [] | Some r \<Rightarrow> c # r) = (if ids = [] then [] else c # join_dots ids) \<and>
    (case t of None \<Rightarrow> [] | Some r \<Rightarrow> r) = join_dots ids"
  by (simp add: tail_of_def)

definition version_of :: "string \<Rightarrow> string \<Rightarrow> string \<Rightarrow> string option \<Rightarrow> string option \<Rightarrow> string" where
  "version_of M N P pre build =
     M @ CHR ''.'' # N @ CHR ''.'' # P @ (case pre of None \<Rightarrow> [] | Some r \<Rightarrow> CHR ''-'' # r) @
     (case build of None \<Rightarrow> [] | Some r \<Rightarrow> CHR ''+'' # r)"

lemma tail_plain:
  "tail_of pre_ident ids t \<Longrightarrow> CHR ''+'' \<notin> set (case t of None \<Rightarrow> [] | Some r \<Rightarrow> CHR ''-'' # r)"
  by (auto simp: tail_of_def dest: pre_build_ident idents_plain split: if_splits)

lemma split_version_of:
  assumes "numeric M" "numeric N" "numeric P" "tail_of pre_ident ids pre"
  shows "split_first (CHR ''+'') (version_of M N P pre build) = (version_of M N P pre None, build)"
    and "split_first (CHR ''-'') (version_of M N P pre None) = (M @ CHR ''.'' # N @ CHR ''.'' # P, pre)"
  using assms(1-3) [THEN numeric_plain(2)] assms(1-3) [THEN numeric_plain(3)] tail_plain [OF assms(4)]
  by (auto simp: split_first_iff version_of_def)

lemma parse_core_complete:
  assumes "numeric M" "numeric N" "numeric P" "tail_of pre_ident pres pre" "tail_of build_ident builds build"
  shows "parse_core (version_of M N P pre build) =
    Some \<lparr>pv_major = M, pv_minor = N, pv_patch = P, pv_prerelease = (case pre of None \<Rightarrow> [] | Some p \<Rightarrow> p)\<rparr>"
proof -
  have "split_dots [] (M @ CHR ''.'' # N @ CHR ''.'' # P) = [M, N, P]"
    using assms(1-3) [THEN numeric_plain(1)] by (simp add: split_dots_three)
  moreover have "case pre of None \<Rightarrow> True | Some p \<Rightarrow> list_all pre_ident (split_dots [] p)"
    using assms(4) tail_of_iff [of pre_ident pre] by (auto simp: pre_ident_def build_ident_def)
  moreover have "case build of None \<Rightarrow> True | Some b \<Rightarrow> list_all build_ident (split_dots [] b)"
    using assms(5) tail_of_iff [of build_ident build] by auto
  ultimately show ?thesis
    by (simp add: parse_core_def split_version_of [OF assms(1-4)] assms(1-3))
qed

lemma parse_core_sound:
  assumes "parse_core s = Some v"
  shows "\<exists>pres builds pre build. numeric (pv_major v) \<and> numeric (pv_minor v) \<and> numeric (pv_patch v) \<and>
    tail_of pre_ident pres pre \<and> tail_of build_ident builds build \<and>
    s = version_of (pv_major v) (pv_minor v) (pv_patch v) pre build \<and>
    pv_prerelease v = (case pre of None \<Rightarrow> [] | Some p \<Rightarrow> p)"
proof -
  obtain body build core pre where s: "split_first (CHR ''+'') s = (body, build)"
    and b: "split_first (CHR ''-'') body = (core, pre)" by fastforce
  from assms s b obtain M N P where c: "split_dots [] core = [M, N, P]"
    and n: "numeric M" "numeric N" "numeric P"
    and t: "case pre of None \<Rightarrow> True | Some p \<Rightarrow> list_all pre_ident (split_dots [] p)"
           "case build of None \<Rightarrow> True | Some b \<Rightarrow> list_all build_ident (split_dots [] b)"
    and v: "v = \<lparr>pv_major = M, pv_minor = N, pv_patch = P, pv_prerelease = (case pre of None \<Rightarrow> [] | Some p \<Rightarrow> p)\<rparr>"
    by (auto simp: parse_core_def split: list.splits if_splits)
  from t obtain pres builds where "tail_of pre_ident pres pre" "tail_of build_ident builds build"
    using tail_of_iff [of pre_ident pre] tail_of_iff [of build_ident build]
    by (auto simp: pre_ident_def build_ident_def)
  moreover have "s = version_of M N P pre build"
    using s b c by (simp add: split_first_iff split_dots_three version_of_def)
  ultimately show ?thesis using n v by auto
qed

lemma versionPattern_tails:
  "versionPattern s M N P p \<longleftrightarrow> (\<exists>v pres builds pre build.
     s = v @ version_of M N P pre build \<and> v \<in> {[], ''v''} \<and> numeric M \<and> numeric N \<and> numeric P \<and>
     tail_of pre_ident pres pre \<and> tail_of build_ident builds build \<and> p = (case pre of None \<Rightarrow> [] | Some r \<Rightarrow> r))"
  (is "?L \<longleftrightarrow> ?R")
proof
  assume ?L
  then obtain v pres builds where
    "s = v @ M @ CHR ''.'' # N @ CHR ''.'' # P @ (if pres = [] then [] else CHR ''-'' # join_dots pres) @
         (if builds = [] then [] else CHR ''+'' # join_dots builds)"
    "v \<in> {[], ''v''}" "numeric M" "numeric N" "numeric P" "list_all pre_ident pres" "list_all build_ident builds"
    "p = join_dots pres" unfolding versionPattern_def by blast
  then show ?R
    by (intro exI [of _ v] exI [of _ pres] exI [of _ builds]
        exI [of _ "if pres = [] then None else Some (join_dots pres)"]
        exI [of _ "if builds = [] then None else Some (join_dots builds)"])
       (simp add: version_of_def tail_of_def)
next
  assume ?R
  then obtain v pres builds pre build where *: "s = v @ version_of M N P pre build" "v \<in> {[], ''v''}"
    "numeric M" "numeric N" "numeric P" and t: "tail_of pre_ident pres pre" "tail_of build_ident builds build"
    and p: "p = (case pre of None \<Rightarrow> [] | Some r \<Rightarrow> r)" by blast
  have "p = join_dots pres" using tail_of_text [OF t(1)] by (simp add: p)
  with * t show ?L
    unfolding versionPattern_def version_of_def tail_of_def
    by (intro exI [of _ v] exI [of _ pres] exI [of _ builds]) simp
qed

lemma parse_iff:
  "parse version = Some v \<longleftrightarrow>
     versionPattern (TrimSpace version) (pv_major v) (pv_minor v) (pv_patch v) (pv_prerelease v)"
proof
  assume "parse version = Some v"
  then obtain s where s: "parse_core s = Some v" "TrimSpace version = s \<or> TrimSpace version = ''v'' @ s"
    by (cases "TrimSpace version") (auto simp: parse_def Let_def split: if_splits)
  from parse_core_sound [OF s(1)] s(2)
  show "versionPattern (TrimSpace version) (pv_major v) (pv_minor v) (pv_patch v) (pv_prerelease v)"
    unfolding versionPattern_tails by fastforce
next
  assume "versionPattern (TrimSpace version) (pv_major v) (pv_minor v) (pv_patch v) (pv_prerelease v)"
  then obtain w pres builds pre build where
    s: "TrimSpace version = w @ version_of (pv_major v) (pv_minor v) (pv_patch v) pre build" "w \<in> {[], ''v''}"
    and ok: "numeric (pv_major v)" "numeric (pv_minor v)" "numeric (pv_patch v)"
      "tail_of pre_ident pres pre" "tail_of build_ident builds build"
    and p: "pv_prerelease v = (case pre of None \<Rightarrow> [] | Some r \<Rightarrow> r)"
    unfolding versionPattern_tails by blast
  have "version_of (pv_major v) (pv_minor v) (pv_patch v) pre build \<noteq> []"
    "hd (version_of (pv_major v) (pv_minor v) (pv_patch v) pre build) \<noteq> CHR ''v''"
    using numeric_plain(4,5) [OF ok(1)] by (auto simp: version_of_def) (metis hd_in_set)
  with s have "parse version = parse_core (version_of (pv_major v) (pv_minor v) (pv_patch v) pre build)"
    by (auto simp: parse_def Let_def)
  also have "\<dots> = Some v" using parse_core_complete [OF ok] p by simp
  finally show "parse version = Some v" .
qed


subsection \<open>Decimal comparison\<close>

definition digit_value :: "char \<Rightarrow> nat" where
  "digit_value c = of_char c - 48"

lemma decimal_value_acc:
  "foldl (\<lambda>a c. 10 * a + (of_char c - 48)) n s = n * 10 ^ length s + decimal_value s"
proof (induction s arbitrary: n)
  case (Cons c s)
  have "decimal_value (c # s) = digit_value c * 10 ^ length s + decimal_value s"
    using Cons [of "of_char c - 48"] by (simp add: decimal_value_def digit_value_def)
  then show ?case
    using Cons [of "10 * n + (of_char c - 48)"] by (simp add: digit_value_def algebra_simps)
qed (simp add: decimal_value_def)

lemma decimal_value_Cons: "decimal_value (c # s) = digit_value c * 10 ^ length s + decimal_value s"
  using decimal_value_acc [of "digit_value c" s] by (simp add: decimal_value_def digit_value_def)

lemma decimal_value_bound: "list_all is_digit s \<Longrightarrow> decimal_value s < 10 ^ length s"
proof (induction s)
  case (Cons c s)
  then have "is_digit c" by simp
  then have "digit_value c \<le> 9" unfolding digit_value_def is_digit_def by linarith
  then have "digit_value c * 10 ^ length s \<le> 9 * 10 ^ length s" by (rule mult_right_mono) simp
  moreover have "decimal_value s < 10 ^ length s" using Cons by simp
  ultimately have "digit_value c * 10 ^ length s + decimal_value s < 10 * 10 ^ length s" by linarith
  then show ?case by (simp add: decimal_value_Cons)
qed (simp add: decimal_value_def)

lemma digit_less: "is_digit a \<Longrightarrow> is_digit b \<Longrightarrow> a < b \<longleftrightarrow> digit_value a < digit_value b"
  by (auto simp: is_digit_def digit_value_def less_char_def)

lemma digit_value_inject: "is_digit a \<Longrightarrow> is_digit b \<Longrightarrow> digit_value a = digit_value b \<longleftrightarrow> a = b"
  by (metis digit_less less_irrefl linorder_neqE)

lemma less_same_length:
  "length a = length b \<Longrightarrow> list_all is_digit a \<Longrightarrow> list_all is_digit b \<Longrightarrow>
   a < b \<longleftrightarrow> decimal_value a < decimal_value b"
proof (induction a b rule: list_induct2)
  case (Cons x xs y ys)
  then have d: "is_digit x" "is_digit y" and b: "decimal_value xs < 10 ^ length xs" "decimal_value ys < 10 ^ length xs"
    using decimal_value_bound [of xs] decimal_value_bound [of ys] by simp_all
  have step: "digit_value u < digit_value w \<Longrightarrow> m < 10 ^ length xs \<Longrightarrow>
      digit_value u * 10 ^ length xs + m < digit_value w * 10 ^ length xs + n" for u w m n
    using mult_right_mono [of "Suc (digit_value u)" "digit_value w" "10 ^ length xs"] by simp
  consider "x = y" | "digit_value x < digit_value y" | "digit_value y < digit_value x"
    using digit_value_inject [OF d] by linarith
  then show ?case
  proof cases
    case 1
    with Cons show ?thesis by (simp add: decimal_value_Cons)
  next
    case 2
    with step [OF 2 b(1)] d Cons.hyps show ?thesis by (simp add: decimal_value_Cons digit_less)
  next
    case 3
    with step [OF 3 b(2), of "decimal_value xs"] d Cons.hyps show ?thesis
      by (auto simp: decimal_value_Cons digit_less)
  qed
qed simp

lemma numeric_lower: "numeric s \<Longrightarrow> 1 < length s \<Longrightarrow> 10 ^ (length s - 1) \<le> decimal_value s"
proof (cases s)
  case (Cons c r)
  moreover assume "numeric s" "1 < length s"
  ultimately have "c \<noteq> CHR ''0''" "is_digit c" by (auto simp: numeric_def)
  then have "1 \<le> digit_value c"
    using digit_value_inject [of c "CHR ''0''"] by (cases "digit_value c") (auto simp: digit_value_def is_digit_def)
  then have "1 * 10 ^ length r \<le> digit_value c * 10 ^ length r" by (rule mult_right_mono) simp
  then have "10 ^ length r \<le> digit_value c * 10 ^ length r + decimal_value r" by linarith
  with Cons show ?thesis by (simp add: decimal_value_Cons)
qed simp

lemma shorter_smaller:
  assumes "numeric a" "numeric b" "length a < length b"
  shows "decimal_value a < decimal_value b"
proof -
  have "list_all is_digit a" "a \<noteq> []" using numeric_digits [OF assms(1)] by (auto simp: list_all_iff)
  then have "decimal_value a < 10 ^ length a" by (simp add: decimal_value_bound)
  also have "(10::nat) ^ length a \<le> 10 ^ (length b - 1)" using assms(3) by (intro power_increasing) auto
  also have "\<dots> \<le> decimal_value b" using assms(3) \<open>a \<noteq> []\<close>
    by (intro numeric_lower [OF assms(2)]) (cases a; simp)
  finally show ?thesis .
qed

lemma decimalLess_iff:
  assumes "numeric a" "numeric b"
  shows "decimalLess a b \<longleftrightarrow> decimal_value a < decimal_value b"
proof -
  have d: "list_all is_digit a" "list_all is_digit b"
    using numeric_digits [OF assms(1)] numeric_digits [OF assms(2)] by (auto simp: list_all_iff)
  show ?thesis
  proof (cases "length a" "length b" rule: linorder_cases)
    case less
    then show ?thesis by (simp add: decimalLess_def shorter_smaller [OF assms])
  next
    case equal
    with d show ?thesis by (simp add: decimalLess_def less_same_length)
  next
    case greater
    with shorter_smaller [OF assms(2,1)] show ?thesis by (simp add: decimalLess_def)
  qed
qed

lemma decimal_value_inject:
  assumes "numeric a" "numeric b" "decimal_value a = decimal_value b"
  shows "a = b"
  using assms decimalLess_iff [OF assms(1,2)] decimalLess_iff [OF assms(2,1)]
  by (auto simp: decimalLess_def split: if_splits)


subsection \<open>Properties\<close>


text \<open>
  On canonical decimal components of any length the comparison by length and digits is
  the order of the numbers, so no component overflows.
\<close>

lemma decimalLess_numeric:
  assumes "numeric a" "numeric b"
  shows "decimalLess a b \<longleftrightarrow> decimal_value a < decimal_value b"
  by (rule decimalLess_iff [OF assms])

lemma numeric_constants: "numeric ''0''" "numeric ''1''" "numeric ''107''" "numeric ''78''" "numeric ''79''"
  by code_simp+

lemma constant_values:
  "decimal_value ''107'' = 107" "decimal_value ''78'' = 78" "decimal_value ''0'' = 0" "decimal_value ''1'' = 1"
  by (simp_all add: decimal_value_def)

text \<open>
  The classification in terms of numbers: a version that parses is supported exactly
  when its major number is 1, or it is 0 and the version is at least the release 0.107.78;
  a pre-release of 0.107.78 is not. Every other major number is unknown.
\<close>

lemma Compatibility_threshold:
  assumes "parse version = Some v"
  defines "major \<equiv> decimal_value (pv_major v)" and "minor \<equiv> decimal_value (pv_minor v)"
    and "patch \<equiv> decimal_value (pv_patch v)"
  shows "Compatibility_of version =
    (if 1 < major then CompatibilityUnknown
     else if major = 1 \<or> minor > 107 \<or> minor = 107 \<and> (patch > 78 \<or> patch = 78 \<and> pv_prerelease v = [])
     then CompatibilitySupported else CompatibilityUnsupported)"
proof -
  from assms(1) have n: "numeric (pv_major v)" "numeric (pv_minor v)" "numeric (pv_patch v)"
    by (auto simp: parse_iff versionPattern_def)
  have eq: "pv_major v = ''0'' \<longleftrightarrow> major = 0" "pv_major v = ''1'' \<longleftrightarrow> major = 1"
    "pv_minor v = ''107'' \<longleftrightarrow> minor = 107" "pv_patch v = ''78'' \<longleftrightarrow> patch = 78"
    unfolding major_def minor_def patch_def
    by (metis decimal_value_inject n numeric_constants constant_values)+
  have lt: "decimalLess (pv_minor v) ''107'' \<longleftrightarrow> minor < 107" "decimalLess (pv_patch v) ''78'' \<longleftrightarrow> patch < 78"
    by (simp_all add: decimalLess_iff n numeric_constants minor_def patch_def constant_values)
  show ?thesis
    unfolding Compatibility_of_def assms(1) option.case eq lt
    by (cases "major = 0"; cases "major = 1") auto
qed

end
