(* ===== verification/Node_Api.thy ===== *)
theory Node_Api
  imports Domain Go_Json
begin

text \<open>
  How the controller talks to an AdGuard Home node (\<open>internal/adguard\<close>): the requests, the
  replies, and the functions that send a request and check a reply.

  The node is not part of the repository: it is a function \<open>server\<close> from a request and the state of
  the node to an outcome and the next state, on which nothing is assumed. An outcome is a failure of
  the network or a reply; a reply is described by what the code looks at: its status, its content
  type, whether it names another location, how long it took, whether and at what length its body
  could be read, and the JSON value in it or the text of the parser's error. The objects of a value have each key once, as JSON printers write them.
\<close>

datatype json_reply =
    VNull
  | VBool bool
  | VInt int
  | VReal
  | VString string
  | VArray "json_reply list"
  | VObject "(string \<times> json_reply) list"

datatype net_failure = UntrustedCertificate | NotTLS | OtherFailure

datatype body = BodyError | BodyText nat "string + json_reply"

record http_request =
  req_Method :: string
  req_URL :: string
  req_Username :: string
  req_Password :: string
  req_Body :: "json option"

record http_reply =
  rep_StatusCode :: int
  rep_ContentType :: string
  rep_HasLocation :: bool
  rep_LatencyMS :: int
  rep_Body :: body

type_synonym 'n server = "http_request \<Rightarrow> 'n \<Rightarrow> (net_failure + http_reply) \<times> 'n"

text \<open>
  The node together with the parts of Go's library that depend on tables or on the operating system:
  \<open>net/url\<close>, the parser of certificates, \<open>strconv.Quote\<close>, the text of the error of \<open>json.Unmarshal\<close>
  for a value that does not fit its target, RFC 3339 times, and the order in which a loop over a map
  visits its keys.
\<close>

record 'n net =
  server :: "'n server"
  parse_url :: "string \<Rightarrow> URL option"
  string_url :: "URL \<Rightarrow> string"
  pem_ok :: "string \<Rightarrow> bool"
  strconv_quote :: "string \<Rightarrow> string"
  type_error :: "string \<Rightarrow> json_reply \<Rightarrow> string"
  parse_time :: "string \<Rightarrow> time option"
  format_time :: "time \<Rightarrow> string"
  range_keys :: "string list \<Rightarrow> string list"

type_synonym ('n, 'a) api = "'n \<Rightarrow> (go_error + 'a) \<times> 'n"

definition retA :: "'a \<Rightarrow> ('n, 'a) api" where
  "retA x = (\<lambda>n. (Inr x, n))"

definition failA :: "go_error \<Rightarrow> ('n, 'a) api" where
  "failA err = (\<lambda>n. (Inl err, n))"

definition bindA :: "('n, 'a) api \<Rightarrow> ('a \<Rightarrow> ('n, 'b) api) \<Rightarrow> ('n, 'b) api" where
  "bindA m f = (\<lambda>n. case m n of (Inl err, n) \<Rightarrow> (Inl err, n) | (Inr x, n) \<Rightarrow> f x n)"

definition whenA :: "bool \<Rightarrow> ('n, unit) api \<Rightarrow> ('n, unit) api" where
  "whenA b m = (if b then m else retA ())"

definition checkA :: "go_error option \<Rightarrow> ('n, unit) api" where
  "checkA r = (case r of None \<Rightarrow> retA () | Some err \<Rightarrow> failA err)"

fun forA :: "('a \<Rightarrow> ('n, unit) api) \<Rightarrow> 'a list \<Rightarrow> ('n, unit) api" where
  "forA f [] = retA ()"
| "forA f (x # xs) = bindA (f x) (\<lambda>_. forA f xs)"


subsection \<open>Requests\<close>

definition maxResponseBytes :: nat where "maxResponseBytes = 2 ^ 20"
definition maxConfigurationBody :: nat where "maxConfigurationBody = 4 * 2 ^ 20"

definition classifyNetworkError :: "net_failure \<Rightarrow> go_error" where
  "classifyNetworkError f = (case f of
     UntrustedCertificate \<Rightarrow> NewError ErrorNodeTLS ''the node TLS certificate could not be verified''
   | NotTLS \<Rightarrow> NewError ErrorNodeTLS ''the node did not complete a valid TLS connection''
   | OtherFailure \<Rightarrow> NewError ErrorNodeUnreachable ''the AdGuard Home node could not be reached'')"

definition nodeAPIError :: "'n net \<Rightarrow> ErrorKind \<Rightarrow> string \<Rightarrow> string \<Rightarrow> int \<Rightarrow> string \<Rightarrow> string \<Rightarrow> string option \<Rightarrow> go_error" where
  "nodeAPIError net kind method path status contentType problem cause =
    (let contentType = take 128 (TrimSpace contentType);
         detail = ''AdGuard Home node '' @ method @ '' '' @ path @ '' '' @ problem;
         detail = (if status > 0
           then detail @ '' (HTTP '' @ itoa status @ (if contentType \<noteq> [] then '', content type '' @ strconv_quote net contentType else []) @ '')''
           else detail);
         detail = (case cause of None \<Rightarrow> detail | Some c \<Rightarrow> detail @ '': '' @ c) in
     NewError kind detail)"

definition transport :: "'n net \<Rightarrow> NodeProbeRequest \<Rightarrow> go_error option" where
  "transport net request =
    (if probe_CertificatePolicy request = CertificateCustomCA \<and> \<not> pem_ok net (probe_CustomCAPEM request)
     then Some (Validation ''customCaPem'' ''does not contain a valid CA certificate'') else None)"

text \<open>
  The error of \<open>url.Parse\<close> is passed on; without a host and without an error the endpoint is empty.
  A request to a URL without a host fails before it reaches the network.
\<close>

definition configurationEndpoint :: "'n net \<Rightarrow> string \<Rightarrow> string \<Rightarrow> string option" where
  "configurationEndpoint net baseURL path =
    (case parse_url net baseURL of
       None \<Rightarrow> None
     | Some parsed \<Rightarrow> if url_Host parsed = [] then Some []
         else Some (string_url net (parsed\<lparr>url_Path := TrimRight_slash (url_Path parsed) @ path, url_RawQuery := [], url_Fragment := []\<rparr>)))"

definition perform :: "'n net \<Rightarrow> string \<Rightarrow> http_request \<Rightarrow> ('n, http_reply) api" where
  "perform net purpose r = (\<lambda>n.
     case parse_url net (req_URL r) of
       None \<Rightarrow> (Inl (PlainError (''create '' @ purpose @ '' request'')), n)
     | Some u \<Rightarrow>
         if url_Host u = [] then (Inl (classifyNetworkError OtherFailure), n)
         else case server net r n of (Inl f, n) \<Rightarrow> (Inl (classifyNetworkError f), n) | (Inr reply, n) \<Rightarrow> (Inr reply, n))"

definition http_request_to :: "NodeProbeRequest \<Rightarrow> string \<Rightarrow> string \<Rightarrow> json option \<Rightarrow> http_request" where
  "http_request_to request method url payload = \<lparr>req_Method = method, req_URL = url,
     req_Username = cred_Username (probe_Credentials request), req_Password = cred_Password (probe_Credentials request),
     req_Body = payload\<rparr>"

text \<open>The lines that \<open>send\<close>, \<open>getResource\<close>, \<open>postResource\<close> and \<open>postOperationalResource\<close> share.\<close>

definition exchange :: "'n net \<Rightarrow> string \<Rightarrow> NodeProbeRequest \<Rightarrow> string \<Rightarrow> string \<Rightarrow> json option \<Rightarrow> ('n, http_reply) api" where
  "exchange net purpose request method path payload =
     bindA (checkA (transport net request)) (\<lambda>_.
     case configurationEndpoint net (probe_BaseURL request) path of
       None \<Rightarrow> failA (NewError ErrorNodeResponse ''the node URL is invalid'')
     | Some endpoint \<Rightarrow> perform net purpose (http_request_to request method endpoint payload))"

definition rejected_credentials :: go_error where
  "rejected_credentials = NewError ErrorNodeAuth ''the node rejected its stored credentials''"

definition unauthorised :: "http_reply \<Rightarrow> bool" where
  "unauthorised reply \<longleftrightarrow> rep_StatusCode reply = 401 \<or> rep_StatusCode reply = 403"

definition send :: "'n net \<Rightarrow> NodeProbeRequest \<Rightarrow> string \<Rightarrow> string \<Rightarrow> json option \<Rightarrow> ('n, unit) api" where
  "send net request method path payload =
     bindA (exchange net ''AdGuard Home mutation'' request method path payload) (\<lambda>reply.
     if unauthorised reply then failA rejected_credentials
     else if rep_StatusCode reply < 200 \<or> rep_StatusCode reply \<ge> 300
     then failA (NewError ErrorNodeApply (''AdGuard Home rejected '' @ method @ '' '' @ path @ '' with HTTP '' @ itoa (rep_StatusCode reply)))
     else retA ())"

definition post :: "'n net \<Rightarrow> NodeProbeRequest \<Rightarrow> string \<Rightarrow> json option \<Rightarrow> ('n, unit) api" where
  "post net request path payload = send net request ''POST'' path payload"

definition put :: "'n net \<Rightarrow> NodeProbeRequest \<Rightarrow> string \<Rightarrow> json option \<Rightarrow> ('n, unit) api" where
  "put net request path payload = send net request ''PUT'' path payload"


subsection \<open>Replies\<close>

text \<open>
  A decoder gives the value of the target after \<open>json.Unmarshal\<close>; \<open>null\<close> leaves it at its zero value,
  which is also what a resource that is not available leaves there.
\<close>

type_synonym 'a decoder = "json_reply \<Rightarrow> 'a option"

definition zero_of :: "'a decoder \<Rightarrow> 'a" where
  "zero_of dec = the (dec VNull)"

definition read_body :: "nat \<Rightarrow> http_reply \<Rightarrow> go_error \<Rightarrow> go_error \<Rightarrow> (string \<Rightarrow> go_error) \<Rightarrow> (json_reply \<Rightarrow> string) \<Rightarrow> 'a decoder \<Rightarrow> go_error + 'a" where
  "read_body limit reply unreadable too_large invalid mismatch dec =
    (case rep_Body reply of
       BodyError \<Rightarrow> Inl unreadable
     | BodyText n parsed \<Rightarrow>
         if n > limit then Inl too_large
         else (case parsed of
             Inl cause \<Rightarrow> Inl (invalid cause)
           | Inr v \<Rightarrow> (case dec v of None \<Rightarrow> Inl (invalid (mismatch v)) | Some x \<Rightarrow> Inr x)))"

definition getResource :: "'n net \<Rightarrow> NodeProbeRequest \<Rightarrow> string \<Rightarrow> 'a decoder \<Rightarrow> int list \<Rightarrow> ('n, bool \<times> 'a) api" where
  "getResource net request path dec unavailable =
     bindA (exchange net ''AdGuard Home configuration'' request ''GET'' path None) (\<lambda>reply.
     let status = rep_StatusCode reply;
         api_error = nodeAPIError net ErrorNodeResponse ''GET'' path status (rep_ContentType reply) in
     if unauthorised reply then failA rejected_credentials
     else if status \<in> set unavailable then retA (False, zero_of dec)
     else if status \<noteq> 200 then failA (api_error ''returned an unexpected HTTP status'' None)
     else case read_body maxConfigurationBody reply
            (NewError ErrorNodeResponse ''the node configuration response could not be read'')
            (NewError ErrorNodeResponse ''the node configuration response was too large'')
            (\<lambda>cause. api_error ''returned invalid JSON'' (Some cause)) (type_error net path) dec of
         Inl err \<Rightarrow> failA err
       | Inr x \<Rightarrow> retA (True, x))"

definition api_get :: "'n net \<Rightarrow> NodeProbeRequest \<Rightarrow> string \<Rightarrow> 'a decoder \<Rightarrow> ('n, 'a) api" where
  "api_get net request path dec = bindA (getResource net request path dec []) (\<lambda>r. retA (snd r))"

definition getOptional :: "'n net \<Rightarrow> NodeProbeRequest \<Rightarrow> string \<Rightarrow> 'a decoder \<Rightarrow> ('n, bool \<times> 'a) api" where
  "getOptional net request path dec = getResource net request path dec [404, 500, 501]"

definition getOptionalEndpoint :: "'n net \<Rightarrow> NodeProbeRequest \<Rightarrow> string \<Rightarrow> 'a decoder \<Rightarrow> ('n, bool \<times> 'a) api" where
  "getOptionalEndpoint net request path dec = getResource net request path dec [404, 501]"

definition postResource :: "'n net \<Rightarrow> NodeProbeRequest \<Rightarrow> string \<Rightarrow> json \<Rightarrow> 'a decoder \<Rightarrow> ('n, 'a) api" where
  "postResource net request path payload dec =
     bindA (exchange net ''AdGuard Home read-only'' request ''POST'' path (Some payload)) (\<lambda>reply.
     let status = rep_StatusCode reply; wrong = NewError ErrorNodeResponse in
     if unauthorised reply then failA rejected_credentials
     else if status = 404 \<or> status = 501 then failA (NewError ErrorCapability ''active DHCP detection is not supported by this node'')
     else if status \<noteq> 200 then failA (wrong ''the node active DHCP endpoint returned an unexpected status'')
     else case read_body maxConfigurationBody reply
            (wrong ''the node active DHCP response could not be read'') (wrong ''the node active DHCP response was too large'')
            (\<lambda>_. wrong ''the node returned invalid active DHCP JSON'') (type_error net path) dec of
         Inl err \<Rightarrow> failA err
       | Inr x \<Rightarrow> retA x)"

definition postOperationalResource :: "'n net \<Rightarrow> NodeProbeRequest \<Rightarrow> string \<Rightarrow> json \<Rightarrow> 'a decoder \<Rightarrow> ('n, 'a) api" where
  "postOperationalResource net request path payload dec =
     bindA (exchange net ''AdGuard Home operational'' request ''POST'' path (Some payload)) (\<lambda>reply.
     let status = rep_StatusCode reply; wrong = NewError ErrorNodeResponse in
     if unauthorised reply then failA rejected_credentials
     else if status = 404 \<or> status = 501 then failA (NewError ErrorCapability ''the node does not support this operational command'')
     else if status \<noteq> 200 then failA (wrong ''the node operational endpoint returned an unexpected status'')
     else case read_body maxConfigurationBody reply
            (wrong ''the node operational response could not be read'') (wrong ''the node operational response was too large'')
            (\<lambda>_. wrong ''the node returned invalid operational JSON'') (type_error net path) dec of
         Inl err \<Rightarrow> failA err
       | Inr x \<Rightarrow> retA x)"

text \<open>\<open>url.Values.Encode\<close>: the parameters in the order of their keys.\<close>

definition unreserved :: "char \<Rightarrow> bool" where
  "unreserved c \<longleftrightarrow> in_range 48 57 c \<or> in_range 65 90 c \<or> in_range 97 122 c \<or> c \<in> set ''-_.~''"

definition upper_hex :: "nat \<Rightarrow> char" where
  "upper_hex n = char_of (if n < 10 then 48 + n else 55 + n)"

definition QueryEscape :: "string \<Rightarrow> string" where
  "QueryEscape s = concat (map (\<lambda>c. if unreserved c then [c] else if c = CHR '' '' then ''+''
     else [CHR ''%'', upper_hex (of_char c div 16), upper_hex (of_char c mod 16)]) s)"

fun join_with :: "char \<Rightarrow> string list \<Rightarrow> string" where
  "join_with c [] = []"
| "join_with c [s] = s"
| "join_with c (s # t # ss) = s @ c # join_with c (t # ss)"

definition query_Encode :: "string gomap \<Rightarrow> string" where
  "query_Encode q = join_with (CHR ''&'') (map (\<lambda>(k, v). QueryEscape k @ ''='' @ QueryEscape v) (sort_slice (\<lambda>a b. fst a < fst b) q))"

definition getOperationalResource :: "'n net \<Rightarrow> NodeProbeRequest \<Rightarrow> string \<Rightarrow> string gomap \<Rightarrow> 'a decoder \<Rightarrow> ('n, 'a) api" where
  "getOperationalResource net request path query dec =
     bindA (checkA (transport net request)) (\<lambda>_.
     case configurationEndpoint net (probe_BaseURL request) path of
       None \<Rightarrow> failA (NewError ErrorNodeResponse ''the node URL is invalid'')
     | Some endpoint \<Rightarrow>
     case parse_url net endpoint of
       None \<Rightarrow> failA (NewError ErrorNodeResponse ''the node URL is invalid'')
     | Some parsed \<Rightarrow>
     bindA (perform net ''AdGuard Home operational'' (http_request_to request ''GET'' (string_url net (parsed\<lparr>url_RawQuery := query_Encode query\<rparr>)) None)) (\<lambda>reply.
     let status = rep_StatusCode reply;
         unsafe = NewError ErrorNodeResponse ''the node operational response could not be read safely'';
         api_error = (\<lambda>kind. nodeAPIError net kind ''GET'' path status (rep_ContentType reply)) in
     if unauthorised reply then failA rejected_credentials
     else if status = 404 \<or> status = 501 then failA (api_error ErrorCapability ''is not implemented by this node'' None)
     else if status \<noteq> 200 then failA (api_error ErrorNodeResponse ''returned an unexpected HTTP status'' None)
     else case read_body maxConfigurationBody reply unsafe unsafe
            (\<lambda>cause. api_error ErrorNodeResponse ''returned invalid JSON'' (Some cause)) (type_error net path) dec of
         Inl err \<Rightarrow> failA err
       | Inr x \<Rightarrow> retA x))"

end
