(* ===== verification/Node_Replies.thy ===== *)
theory Node_Replies
  imports Node_Api Configuration "HOL-Library.Monad_Syntax"
begin

text \<open>
  The replies of an AdGuard Home node (\<open>internal/adguard/configuration.go\<close> and \<open>client.go\<close>): the
  structs the code decodes them into, and the decoders that \<open>json.Unmarshal\<close> derives from their tags.
  Keys match whatever their case, a key that is missing or \<open>null\<close> leaves the zero value, unknown keys
  are skipped, and a value of another type is an error. A \<open>nil\<close> slice and an empty one are not told
  apart, because every slice that is read here is ranged over or cleaned.
\<close>

fun as_members :: "json_reply \<Rightarrow> (string \<times> json_reply) list option" where
  "as_members VNull = Some []"
| "as_members (VObject kvs) = Some kvs"
| "as_members _ = None"

definition field :: "string \<Rightarrow> (string \<times> json_reply) list \<Rightarrow> json_reply" where
  "field key kvs = (case find (\<lambda>(k, v). EqualFold k key) (rev kvs) of None \<Rightarrow> VNull | Some (k, v) \<Rightarrow> v)"

definition fits_int64 :: "int \<Rightarrow> bool" where
  "fits_int64 i \<longleftrightarrow> - (2 ^ 63) \<le> i \<and> i < 2 ^ 63"

fun v_int :: "int decoder" where
  "v_int VNull = Some 0"
| "v_int (VInt i) = (if fits_int64 i then Some i else None)"
| "v_int _ = None"

fun v_string :: "string decoder" where
  "v_string VNull = Some []"
| "v_string (VString s) = Some s"
| "v_string _ = None"

fun v_bool :: "bool decoder" where
  "v_bool VNull = Some False"
| "v_bool (VBool b) = Some b"
| "v_bool _ = None"

text \<open>A pointer: \<open>null\<close> is \<open>nil\<close>.\<close>

definition v_ptr :: "'a decoder \<Rightarrow> 'a option decoder" where
  "v_ptr dec v = (if v = VNull then Some None else map_option Some (dec v))"

fun decode_all :: "'a decoder \<Rightarrow> json_reply list \<Rightarrow> 'a list option" where
  "decode_all dec [] = Some []"
| "decode_all dec (v # vs) = do { x \<leftarrow> dec v; xs \<leftarrow> decode_all dec vs; Some (x # xs) }"

fun v_list :: "'a decoder \<Rightarrow> 'a list decoder" where
  "v_list dec VNull = Some []"
| "v_list dec (VArray vs) = decode_all dec vs"
| "v_list dec _ = None"

abbreviation v_strings :: "string list decoder" where "v_strings \<equiv> v_list v_string"

fun v_map :: "'a decoder \<Rightarrow> 'a gomap decoder" where
  "v_map dec VNull = Some []"
| "v_map dec (VObject kvs) = map_option (zip (map fst kvs)) (decode_all dec (map snd kvs))"
| "v_map dec _ = None"

record statusResponse =
  status_Version :: string
  status_Running :: "bool option"
  status_DNSAddresses :: "string list"
  status_DNSPort :: int
  status_ProtectionEnabled :: "bool option"
  status_ProtectionDisabledDurationMS :: "int option"

definition dec_status :: "statusResponse decoder" where
  "dec_status v = do {
     kvs \<leftarrow> as_members v;
     version \<leftarrow> v_string (field ''version'' kvs);
     running \<leftarrow> v_ptr v_bool (field ''running'' kvs);
     addresses \<leftarrow> v_strings (field ''dns_addresses'' kvs);
     port \<leftarrow> v_int (field ''dns_port'' kvs);
     protection \<leftarrow> v_ptr v_bool (field ''protection_enabled'' kvs);
     duration \<leftarrow> v_ptr v_int (field ''protection_disabled_duration'' kvs);
     Some \<lparr>status_Version = version, status_Running = running, status_DNSAddresses = addresses, status_DNSPort = port,
       status_ProtectionEnabled = protection, status_ProtectionDisabledDurationMS = duration\<rparr> }"

record dnsInfoResponse =
  info_UpstreamDNS :: "string list"
  info_BootstrapDNS :: "string list"
  info_FallbackDNS :: "string list"
  info_PrivateReverseDNS :: "string list"
  info_ProtectionEnabled :: "bool option"
  info_ProtectionDisabledUntil :: "time option"
  info_RateLimit :: int
  info_RateLimitIPv4 :: int
  info_RateLimitIPv6 :: int
  info_RateLimitAllowlist :: "string list"
  info_BlockingMode :: string
  info_BlockingIPv4 :: string
  info_BlockingIPv6 :: string
  info_BlockedResponseTTL :: int
  info_EDNSClientSubnet :: bool
  info_EDNSUseCustom :: bool
  info_EDNSCustomIP :: string
  info_DisableIPv6 :: bool
  info_DNSSECEnabled :: bool
  info_CacheSize :: int
  info_CacheEnabled :: "bool option"
  info_CacheTTLMin :: int
  info_CacheTTLMax :: int
  info_CacheOptimistic :: bool
  info_UpstreamMode :: string
  info_UsePrivateReverse :: bool
  info_ResolveClients :: bool
  info_UpstreamTimeout :: "int option"

text \<open>A \<open>time.Time\<close> is read from a string in the format of RFC 3339.\<close>

definition v_time :: "'n net \<Rightarrow> time decoder" where
  "v_time net v = (case v of VString s \<Rightarrow> parse_time net s | _ \<Rightarrow> None)"

definition dec_dnsInfo :: "'n net \<Rightarrow> dnsInfoResponse decoder" where
  "dec_dnsInfo net v = do {
     kvs \<leftarrow> as_members v;
     upstream \<leftarrow> v_strings (field ''upstream_dns'' kvs);
     bootstrap \<leftarrow> v_strings (field ''bootstrap_dns'' kvs);
     fallback \<leftarrow> v_strings (field ''fallback_dns'' kvs);
     reverse \<leftarrow> v_strings (field ''local_ptr_upstreams'' kvs);
     protection \<leftarrow> v_ptr v_bool (field ''protection_enabled'' kvs);
     until \<leftarrow> v_ptr (v_time net) (field ''protection_disabled_until'' kvs);
     rate \<leftarrow> v_int (field ''ratelimit'' kvs);
     rate4 \<leftarrow> v_int (field ''ratelimit_subnet_len_ipv4'' kvs);
     rate6 \<leftarrow> v_int (field ''ratelimit_subnet_len_ipv6'' kvs);
     allow \<leftarrow> v_strings (field ''ratelimit_whitelist'' kvs);
     mode \<leftarrow> v_string (field ''blocking_mode'' kvs);
     ip4 \<leftarrow> v_string (field ''blocking_ipv4'' kvs);
     ip6 \<leftarrow> v_string (field ''blocking_ipv6'' kvs);
     ttl \<leftarrow> v_int (field ''blocked_response_ttl'' kvs);
     edns \<leftarrow> v_bool (field ''edns_cs_enabled'' kvs);
     custom \<leftarrow> v_bool (field ''edns_cs_use_custom'' kvs);
     customIP \<leftarrow> v_string (field ''edns_cs_custom_ip'' kvs);
     noIPv6 \<leftarrow> v_bool (field ''disable_ipv6'' kvs);
     dnssec \<leftarrow> v_bool (field ''dnssec_enabled'' kvs);
     size \<leftarrow> v_int (field ''cache_size'' kvs);
     cache \<leftarrow> v_ptr v_bool (field ''cache_enabled'' kvs);
     ttlMin \<leftarrow> v_int (field ''cache_ttl_min'' kvs);
     ttlMax \<leftarrow> v_int (field ''cache_ttl_max'' kvs);
     optimistic \<leftarrow> v_bool (field ''cache_optimistic'' kvs);
     upstreamMode \<leftarrow> v_string (field ''upstream_mode'' kvs);
     private \<leftarrow> v_bool (field ''use_private_ptr_resolvers'' kvs);
     resolve \<leftarrow> v_bool (field ''resolve_clients'' kvs);
     timeout \<leftarrow> v_ptr v_int (field ''upstream_timeout'' kvs);
     Some \<lparr>info_UpstreamDNS = upstream, info_BootstrapDNS = bootstrap, info_FallbackDNS = fallback, info_PrivateReverseDNS = reverse,
       info_ProtectionEnabled = protection, info_ProtectionDisabledUntil = until, info_RateLimit = rate, info_RateLimitIPv4 = rate4,
       info_RateLimitIPv6 = rate6, info_RateLimitAllowlist = allow, info_BlockingMode = mode, info_BlockingIPv4 = ip4,
       info_BlockingIPv6 = ip6, info_BlockedResponseTTL = ttl, info_EDNSClientSubnet = edns, info_EDNSUseCustom = custom,
       info_EDNSCustomIP = customIP, info_DisableIPv6 = noIPv6, info_DNSSECEnabled = dnssec, info_CacheSize = size,
       info_CacheEnabled = cache, info_CacheTTLMin = ttlMin, info_CacheTTLMax = ttlMax, info_CacheOptimistic = optimistic,
       info_UpstreamMode = upstreamMode, info_UsePrivateReverse = private, info_ResolveClients = resolve, info_UpstreamTimeout = timeout\<rparr> }"

record filterListResponse =
  flr_ID :: int
  flr_Enabled :: bool
  flr_URL :: string
  flr_Name :: string
  flr_RulesCount :: int
  flr_LastUpdated :: string
  flr_Whitelist :: bool

definition dec_filterList :: "filterListResponse decoder" where
  "dec_filterList v = do {
     kvs \<leftarrow> as_members v;
     i \<leftarrow> v_int (field ''id'' kvs);
     enabled \<leftarrow> v_bool (field ''enabled'' kvs);
     url \<leftarrow> v_string (field ''url'' kvs);
     name \<leftarrow> v_string (field ''name'' kvs);
     rules \<leftarrow> v_int (field ''rules_count'' kvs);
     updated \<leftarrow> v_string (field ''last_updated'' kvs);
     whitelist \<leftarrow> v_bool (field ''whitelist'' kvs);
     Some \<lparr>flr_ID = i, flr_Enabled = enabled, flr_URL = url, flr_Name = name, flr_RulesCount = rules, flr_LastUpdated = updated,
       flr_Whitelist = whitelist\<rparr> }"

record filterStatusResponse =
  fs_FilteringEnabled :: "bool option"
  fs_Enabled :: "bool option"
  fs_Interval :: int
  fs_Filters :: "filterListResponse list"
  fs_UserRules :: "string list"
  fs_WhitelistFilters :: "filterListResponse list"

definition dec_filterStatus :: "filterStatusResponse decoder" where
  "dec_filterStatus v = do {
     kvs \<leftarrow> as_members v;
     filtering \<leftarrow> v_ptr v_bool (field ''filtering_enabled'' kvs);
     enabled \<leftarrow> v_ptr v_bool (field ''enabled'' kvs);
     interval \<leftarrow> v_int (field ''interval'' kvs);
     filters \<leftarrow> v_list dec_filterList (field ''filters'' kvs);
     rules \<leftarrow> v_strings (field ''user_rules'' kvs);
     whitelist \<leftarrow> v_list dec_filterList (field ''whitelist_filters'' kvs);
     Some \<lparr>fs_FilteringEnabled = filtering, fs_Enabled = enabled, fs_Interval = interval, fs_Filters = filters,
       fs_UserRules = rules, fs_WhitelistFilters = whitelist\<rparr> }"

record safeSearchResponse =
  ssr_Enabled :: bool
  ssr_Bing :: bool
  ssr_DuckDuckGo :: bool
  ssr_Ecosia :: bool
  ssr_Google :: bool
  ssr_Pixabay :: bool
  ssr_Yandex :: bool
  ssr_YouTube :: bool

definition dec_safeSearch :: "safeSearchResponse decoder" where
  "dec_safeSearch v = do {
     kvs \<leftarrow> as_members v;
     xEnabled \<leftarrow> v_bool (field ''enabled'' kvs);
     xBing \<leftarrow> v_bool (field ''bing'' kvs);
     xDuckDuckGo \<leftarrow> v_bool (field ''duckduckgo'' kvs);
     xEcosia \<leftarrow> v_bool (field ''ecosia'' kvs);
     xGoogle \<leftarrow> v_bool (field ''google'' kvs);
     xPixabay \<leftarrow> v_bool (field ''pixabay'' kvs);
     xYandex \<leftarrow> v_bool (field ''yandex'' kvs);
     xYouTube \<leftarrow> v_bool (field ''youtube'' kvs);
     Some \<lparr>ssr_Enabled = xEnabled, ssr_Bing = xBing, ssr_DuckDuckGo = xDuckDuckGo, ssr_Ecosia = xEcosia,
       ssr_Google = xGoogle, ssr_Pixabay = xPixabay, ssr_Yandex = xYandex, ssr_YouTube = xYouTube\<rparr> }"

record dayRangeResponse =
  dr_Start :: int
  dr_End :: int

definition dec_dayRange :: "dayRangeResponse decoder" where
  "dec_dayRange v = do {
     kvs \<leftarrow> as_members v;
     xStart \<leftarrow> v_int (field ''start'' kvs);
     xEnd \<leftarrow> v_int (field ''end'' kvs);
     Some \<lparr>dr_Start = xStart, dr_End = xEnd\<rparr> }"

record scheduleResponse =
  sr_TimeZone :: string
  sr_Sun :: "dayRangeResponse option"
  sr_Mon :: "dayRangeResponse option"
  sr_Tue :: "dayRangeResponse option"
  sr_Wed :: "dayRangeResponse option"
  sr_Thu :: "dayRangeResponse option"
  sr_Fri :: "dayRangeResponse option"
  sr_Sat :: "dayRangeResponse option"

definition dec_schedule :: "scheduleResponse decoder" where
  "dec_schedule v = do {
     kvs \<leftarrow> as_members v;
     xTimeZone \<leftarrow> v_string (field ''time_zone'' kvs);
     xSun \<leftarrow> v_ptr dec_dayRange (field ''sun'' kvs);
     xMon \<leftarrow> v_ptr dec_dayRange (field ''mon'' kvs);
     xTue \<leftarrow> v_ptr dec_dayRange (field ''tue'' kvs);
     xWed \<leftarrow> v_ptr dec_dayRange (field ''wed'' kvs);
     xThu \<leftarrow> v_ptr dec_dayRange (field ''thu'' kvs);
     xFri \<leftarrow> v_ptr dec_dayRange (field ''fri'' kvs);
     xSat \<leftarrow> v_ptr dec_dayRange (field ''sat'' kvs);
     Some \<lparr>sr_TimeZone = xTimeZone, sr_Sun = xSun, sr_Mon = xMon, sr_Tue = xTue, sr_Wed = xWed, sr_Thu = xThu,
       sr_Fri = xFri, sr_Sat = xSat\<rparr> }"

record clientResponse =
  cr_Name :: string
  cr_IDs :: "string list"
  cr_UseGlobalSettings :: bool
  cr_FilteringEnabled :: bool
  cr_ParentalEnabled :: bool
  cr_SafeBrowsingEnabled :: bool
  cr_SafeSearch :: safeSearchResponse
  cr_UseGlobalBlockedServices :: bool
  cr_BlockedServices :: "string list"
  cr_BlockedServicesSchedule :: scheduleResponse
  cr_Upstreams :: "string list"
  cr_UpstreamsCacheEnabled :: bool
  cr_UpstreamsCacheSize :: int
  cr_Tags :: "string list"
  cr_IgnoreQueryLog :: bool
  cr_IgnoreStatistics :: bool

definition dec_client :: "clientResponse decoder" where
  "dec_client v = do {
     kvs \<leftarrow> as_members v;
     xName \<leftarrow> v_string (field ''name'' kvs);
     xIDs \<leftarrow> v_strings (field ''ids'' kvs);
     xUseGlobalSettings \<leftarrow> v_bool (field ''use_global_settings'' kvs);
     xFilteringEnabled \<leftarrow> v_bool (field ''filtering_enabled'' kvs);
     xParentalEnabled \<leftarrow> v_bool (field ''parental_enabled'' kvs);
     xSafeBrowsingEnabled \<leftarrow> v_bool (field ''safebrowsing_enabled'' kvs);
     xSafeSearch \<leftarrow> dec_safeSearch (field ''safe_search'' kvs);
     xUseGlobalBlockedServices \<leftarrow> v_bool (field ''use_global_blocked_services'' kvs);
     xBlockedServices \<leftarrow> v_strings (field ''blocked_services'' kvs);
     xBlockedServicesSchedule \<leftarrow> dec_schedule (field ''blocked_services_schedule'' kvs);
     xUpstreams \<leftarrow> v_strings (field ''upstreams'' kvs);
     xUpstreamsCacheEnabled \<leftarrow> v_bool (field ''upstreams_cache_enabled'' kvs);
     xUpstreamsCacheSize \<leftarrow> v_int (field ''upstreams_cache_size'' kvs);
     xTags \<leftarrow> v_strings (field ''tags'' kvs);
     xIgnoreQueryLog \<leftarrow> v_bool (field ''ignore_querylog'' kvs);
     xIgnoreStatistics \<leftarrow> v_bool (field ''ignore_statistics'' kvs);
     Some \<lparr>cr_Name = xName, cr_IDs = xIDs, cr_UseGlobalSettings = xUseGlobalSettings,
       cr_FilteringEnabled = xFilteringEnabled, cr_ParentalEnabled = xParentalEnabled,
       cr_SafeBrowsingEnabled = xSafeBrowsingEnabled, cr_SafeSearch = xSafeSearch,
       cr_UseGlobalBlockedServices = xUseGlobalBlockedServices, cr_BlockedServices = xBlockedServices,
       cr_BlockedServicesSchedule = xBlockedServicesSchedule, cr_Upstreams = xUpstreams,
       cr_UpstreamsCacheEnabled = xUpstreamsCacheEnabled, cr_UpstreamsCacheSize = xUpstreamsCacheSize,
       cr_Tags = xTags, cr_IgnoreQueryLog = xIgnoreQueryLog, cr_IgnoreStatistics = xIgnoreStatistics\<rparr> }"

text \<open>\<open>clientsResponse\<close> has one field.\<close>

definition dec_clients :: "clientResponse list decoder" where
  "dec_clients v = do { kvs \<leftarrow> as_members v; v_list dec_client (field ''clients'' kvs) }"

record rewriteResponse =
  rwr_Domain :: string
  rwr_Answer :: string
  rwr_Enabled :: "bool option"

definition dec_rewrite :: "rewriteResponse decoder" where
  "dec_rewrite v = do {
     kvs \<leftarrow> as_members v;
     xDomain \<leftarrow> v_string (field ''domain'' kvs);
     xAnswer \<leftarrow> v_string (field ''answer'' kvs);
     xEnabled \<leftarrow> v_ptr v_bool (field ''enabled'' kvs);
     Some \<lparr>rwr_Domain = xDomain, rwr_Answer = xAnswer, rwr_Enabled = xEnabled\<rparr> }"

text \<open>\<open>enabledResponse\<close> and \<open>rewriteSettingsResponse\<close> have one field.\<close>

definition dec_enabled :: "bool decoder" where
  "dec_enabled v = do { kvs \<leftarrow> as_members v; v_bool (field ''enabled'' kvs) }"

record blockedServicesResponse =
  bsr_Schedule :: scheduleResponse
  bsr_IDs :: "string list"

definition dec_blockedServices :: "blockedServicesResponse decoder" where
  "dec_blockedServices v = do {
     kvs \<leftarrow> as_members v;
     xSchedule \<leftarrow> dec_schedule (field ''schedule'' kvs);
     xIDs \<leftarrow> v_strings (field ''ids'' kvs);
     Some \<lparr>bsr_Schedule = xSchedule, bsr_IDs = xIDs\<rparr> }"

record policyResponse =
  pr_Enabled :: bool
  pr_IntervalMillis :: int
  pr_AnonymizeClientIP :: bool
  pr_Ignored :: "string list"
  pr_IgnoredEnabled :: "bool option"

definition dec_policy :: "policyResponse decoder" where
  "dec_policy v = do {
     kvs \<leftarrow> as_members v;
     xEnabled \<leftarrow> v_bool (field ''enabled'' kvs);
     xIntervalMillis \<leftarrow> v_int (field ''interval'' kvs);
     xAnonymizeClientIP \<leftarrow> v_bool (field ''anonymize_client_ip'' kvs);
     xIgnored \<leftarrow> v_strings (field ''ignored'' kvs);
     xIgnoredEnabled \<leftarrow> v_ptr v_bool (field ''ignored_enabled'' kvs);
     Some \<lparr>pr_Enabled = xEnabled, pr_IntervalMillis = xIntervalMillis, pr_AnonymizeClientIP = xAnonymizeClientIP,
       pr_Ignored = xIgnored, pr_IgnoredEnabled = xIgnoredEnabled\<rparr> }"

record tlsStatusResponse =
  tr_Enabled :: bool
  tr_ServerName :: string
  tr_ForceHTTPS :: bool
  tr_HTTPSPort :: int
  tr_DNSOverTLSPort :: int
  tr_DNSOverQUICPort :: int
  tr_ServePlainDNS :: bool
  tr_ValidCert :: bool
  tr_ValidChain :: bool
  tr_ValidKey :: bool
  tr_ValidPair :: bool
  tr_Subject :: string
  tr_Issuer :: string
  tr_NotBefore :: string
  tr_NotAfter :: string
  tr_DNSNames :: "string list"
  tr_Warning :: string

definition dec_tls :: "tlsStatusResponse decoder" where
  "dec_tls v = do {
     kvs \<leftarrow> as_members v;
     xEnabled \<leftarrow> v_bool (field ''enabled'' kvs);
     xServerName \<leftarrow> v_string (field ''server_name'' kvs);
     xForceHTTPS \<leftarrow> v_bool (field ''force_https'' kvs);
     xHTTPSPort \<leftarrow> v_int (field ''port_https'' kvs);
     xDNSOverTLSPort \<leftarrow> v_int (field ''port_dns_over_tls'' kvs);
     xDNSOverQUICPort \<leftarrow> v_int (field ''port_dns_over_quic'' kvs);
     xServePlainDNS \<leftarrow> v_bool (field ''serve_plain_dns'' kvs);
     xValidCert \<leftarrow> v_bool (field ''valid_cert'' kvs);
     xValidChain \<leftarrow> v_bool (field ''valid_chain'' kvs);
     xValidKey \<leftarrow> v_bool (field ''valid_key'' kvs);
     xValidPair \<leftarrow> v_bool (field ''valid_pair'' kvs);
     xSubject \<leftarrow> v_string (field ''subject'' kvs);
     xIssuer \<leftarrow> v_string (field ''issuer'' kvs);
     xNotBefore \<leftarrow> v_string (field ''not_before'' kvs);
     xNotAfter \<leftarrow> v_string (field ''not_after'' kvs);
     xDNSNames \<leftarrow> v_strings (field ''dns_names'' kvs);
     xWarning \<leftarrow> v_string (field ''warning_validation'' kvs);
     Some \<lparr>tr_Enabled = xEnabled, tr_ServerName = xServerName, tr_ForceHTTPS = xForceHTTPS, tr_HTTPSPort = xHTTPSPort,
       tr_DNSOverTLSPort = xDNSOverTLSPort, tr_DNSOverQUICPort = xDNSOverQUICPort, tr_ServePlainDNS = xServePlainDNS,
       tr_ValidCert = xValidCert, tr_ValidChain = xValidChain, tr_ValidKey = xValidKey, tr_ValidPair = xValidPair,
       tr_Subject = xSubject, tr_Issuer = xIssuer, tr_NotBefore = xNotBefore, tr_NotAfter = xNotAfter,
       tr_DNSNames = xDNSNames, tr_Warning = xWarning\<rparr> }"

record dhcpV4Response =
  d4_Gateway :: string
  d4_SubnetMask :: string
  d4_RangeStart :: string
  d4_RangeEnd :: string
  d4_LeaseDuration :: int

definition dec_dhcpV4 :: "dhcpV4Response decoder" where
  "dec_dhcpV4 v = do {
     kvs \<leftarrow> as_members v;
     xGateway \<leftarrow> v_string (field ''gateway_ip'' kvs);
     xSubnetMask \<leftarrow> v_string (field ''subnet_mask'' kvs);
     xRangeStart \<leftarrow> v_string (field ''range_start'' kvs);
     xRangeEnd \<leftarrow> v_string (field ''range_end'' kvs);
     xLeaseDuration \<leftarrow> v_int (field ''lease_duration'' kvs);
     Some \<lparr>d4_Gateway = xGateway, d4_SubnetMask = xSubnetMask, d4_RangeStart = xRangeStart, d4_RangeEnd = xRangeEnd,
       d4_LeaseDuration = xLeaseDuration\<rparr> }"

record dhcpV6Response =
  d6_RangeStart :: string
  d6_LeaseDuration :: int

definition dec_dhcpV6 :: "dhcpV6Response decoder" where
  "dec_dhcpV6 v = do {
     kvs \<leftarrow> as_members v;
     xRangeStart \<leftarrow> v_string (field ''range_start'' kvs);
     xLeaseDuration \<leftarrow> v_int (field ''lease_duration'' kvs);
     Some \<lparr>d6_RangeStart = xRangeStart, d6_LeaseDuration = xLeaseDuration\<rparr> }"

record dhcpLeaseResponse =
  lr_MAC :: string
  lr_IP :: string
  lr_Hostname :: string
  lr_Expires :: string

definition dec_dhcpLease :: "dhcpLeaseResponse decoder" where
  "dec_dhcpLease v = do {
     kvs \<leftarrow> as_members v;
     xMAC \<leftarrow> v_string (field ''mac'' kvs);
     xIP \<leftarrow> v_string (field ''ip'' kvs);
     xHostname \<leftarrow> v_string (field ''hostname'' kvs);
     xExpires \<leftarrow> v_string (field ''expires'' kvs);
     Some \<lparr>lr_MAC = xMAC, lr_IP = xIP, lr_Hostname = xHostname, lr_Expires = xExpires\<rparr> }"

record dhcpStatusResponse =
  ds_Enabled :: bool
  ds_InterfaceName :: string
  ds_V4 :: dhcpV4Response
  ds_V6 :: dhcpV6Response
  ds_Leases :: "dhcpLeaseResponse list"
  ds_StaticLeases :: "dhcpLeaseResponse list"

definition dec_dhcpStatus :: "dhcpStatusResponse decoder" where
  "dec_dhcpStatus v = do {
     kvs \<leftarrow> as_members v;
     xEnabled \<leftarrow> v_bool (field ''enabled'' kvs);
     xInterfaceName \<leftarrow> v_string (field ''interface_name'' kvs);
     xV4 \<leftarrow> dec_dhcpV4 (field ''v4'' kvs);
     xV6 \<leftarrow> dec_dhcpV6 (field ''v6'' kvs);
     xLeases \<leftarrow> v_list dec_dhcpLease (field ''leases'' kvs);
     xStaticLeases \<leftarrow> v_list dec_dhcpLease (field ''static_leases'' kvs);
     Some \<lparr>ds_Enabled = xEnabled, ds_InterfaceName = xInterfaceName, ds_V4 = xV4, ds_V6 = xV6, ds_Leases = xLeases,
       ds_StaticLeases = xStaticLeases\<rparr> }"

record dhcpInterfaceResponse =
  dif_Name :: string
  dif_HardwareAddress :: string
  dif_IPv4Addresses :: "string list"
  dif_IPv6Addresses :: "string list"
  dif_GatewayIP :: string
  dif_Flags :: string

definition dec_dhcpInterface :: "dhcpInterfaceResponse decoder" where
  "dec_dhcpInterface v = do {
     kvs \<leftarrow> as_members v;
     xName \<leftarrow> v_string (field ''name'' kvs);
     xHardwareAddress \<leftarrow> v_string (field ''hardware_address'' kvs);
     xIPv4Addresses \<leftarrow> v_strings (field ''ipv4_addresses'' kvs);
     xIPv6Addresses \<leftarrow> v_strings (field ''ipv6_addresses'' kvs);
     xGatewayIP \<leftarrow> v_string (field ''gateway_ip'' kvs);
     xFlags \<leftarrow> v_string (field ''flags'' kvs);
     Some \<lparr>dif_Name = xName, dif_HardwareAddress = xHardwareAddress, dif_IPv4Addresses = xIPv4Addresses,
       dif_IPv6Addresses = xIPv6Addresses, dif_GatewayIP = xGatewayIP, dif_Flags = xFlags\<rparr> }"

end
