(* ===== verification/Adguard_Read.thy ===== *)
theory Adguard_Read
  imports Node_Replies Compat Go_Netip Catalogue Tables
begin

text \<open>
  Reading a node (\<open>internal/adguard/configuration.go\<close> and \<open>client.go\<close>): the status probe, the
  configuration document with its capability profile, the catalogue of blocked services, the DHCP
  interfaces and the filter lists. A node is only read here: every request is a GET, but for the search
  for other DHCP servers, which AdGuard Home offers as a POST.
\<close>

subsection \<open>Text\<close>

definition LastIndex :: "char \<Rightarrow> string \<Rightarrow> nat option" where
  "LastIndex c s = (if c \<in> set s then Some (length s - Suc (length (takeWhile (\<lambda>x. x \<noteq> c) (rev s)))) else None)"

definition HasPrefix :: "string \<Rightarrow> string \<Rightarrow> bool" where
  "HasPrefix s p \<longleftrightarrow> take (length p) s = p"

definition HasSuffix :: "string \<Rightarrow> string \<Rightarrow> bool" where
  "HasSuffix s p \<longleftrightarrow> HasPrefix (rev s) (rev p)"

text \<open>\<open>URL.Hostname\<close> and \<open>URL.Port\<close>.\<close>

definition validOptionalPort :: "string \<Rightarrow> bool" where
  "validOptionalPort p \<longleftrightarrow> p = [] \<or> (hd p = CHR '':'' \<and> list_all is_digit (tl p))"

definition splitHostPort :: "string \<Rightarrow> string \<times> string" where
  "splitHostPort hostPort =
    (let (host, port) = (case LastIndex (CHR '':'') hostPort of
           Some colon \<Rightarrow> if validOptionalPort (drop colon hostPort) then (take colon hostPort, drop (Suc colon) hostPort) else (hostPort, [])
         | None \<Rightarrow> (hostPort, [])) in
     (if HasPrefix host ''['' \<and> HasSuffix host '']'' then tl (butlast host) else host, port))"

definition Hostname :: "URL \<Rightarrow> string" where "Hostname u = fst (splitHostPort (url_Host u))"
definition Port :: "URL \<Rightarrow> string" where "Port u = snd (splitHostPort (url_Host u))"

text \<open>\<open>netip.Addr.String\<close>.\<close>

definition v4_string :: "nat \<Rightarrow> string" where
  "v4_string v = join_dots (map (\<lambda>k. digits (v div 256 ^ k mod 256)) [3, 2, 1, 0])"

fun hex_digits :: "nat \<Rightarrow> string" where
  "hex_digits n = (if n < 16 then [hex_char n] else hex_digits (n div 16) @ [hex_char (n mod 16)])"

definition v6_groups :: "nat \<Rightarrow> nat list" where
  "v6_groups v = map (\<lambda>k. v div 65536 ^ k mod 65536) [7, 6, 5, 4, 3, 2, 1, 0]"

definition zero_run :: "nat list \<Rightarrow> nat \<Rightarrow> nat" where
  "zero_run gs i = length (takeWhile (\<lambda>g. g = 0) (drop i gs))"

fun longest_run :: "nat list \<Rightarrow> nat list \<Rightarrow> nat \<times> nat \<Rightarrow> nat \<times> nat" where
  "longest_run gs [] best = best"
| "longest_run gs (i # is) (start, len) =
     longest_run gs is (if zero_run gs i \<ge> 2 \<and> zero_run gs i > len then (i, zero_run gs i) else (start, len))"

definition v6_string :: "nat \<Rightarrow> string" where
  "v6_string v =
    (let gs = v6_groups v; (start, len) = longest_run gs [0..<8] (0, 0); hex = map hex_digits in
     if len = 0 then join_with (CHR '':'') (hex gs)
     else join_with (CHR '':'') (hex (take start gs)) @ ''::'' @ join_with (CHR '':'') (hex (drop (start + len) gs)))"

definition addr_String :: "Addr \<Rightarrow> string" where
  "addr_String a = (case a of
     Addr4 v \<Rightarrow> v4_string v
   | Addr6 v zone \<Rightarrow> (if v div 2 ^ 32 = 0xffff then ''::ffff:'' @ v4_string (v mod 2 ^ 32) else v6_string v) @
       (if zone = [] then [] else CHR ''%'' # zone))"


subsection \<open>The status of a node\<close>

definition statusEndpoint :: "'n net \<Rightarrow> string \<Rightarrow> string option" where
  "statusEndpoint net baseURL =
    (case parse_url net baseURL of
       None \<Rightarrow> None
     | Some parsed \<Rightarrow>
         if url_Host parsed = [] \<or> url_HasUser parsed \<or> url_RawQuery parsed \<noteq> [] \<or> url_Fragment parsed \<noteq> [] \<or>
            (url_Scheme parsed \<noteq> ''http'' \<and> url_Scheme parsed \<noteq> ''https'') then None
         else Some (string_url net (parsed\<lparr>url_Path := TrimRight_slash (url_Path parsed) @ ''/control/status'', url_RawQuery := [], url_Fragment := []\<rparr>)))"

definition VersionCompatibility :: "string \<Rightarrow> Compatibility" where
  "VersionCompatibility version = Compatibility_of version"

text \<open>\<open>CheckRedirect\<close> fails: a redirection with a location is an error of \<open>client.Do\<close>.\<close>

definition redirected :: "http_reply \<Rightarrow> bool" where
  "redirected reply \<longleftrightarrow> rep_StatusCode reply \<in> {301, 302, 303, 307, 308} \<and> rep_HasLocation reply"

definition contradictory :: "bool option \<Rightarrow> int option \<Rightarrow> bool" where
  "contradictory protection duration \<longleftrightarrow>
    (case (protection, duration) of
       (Some p, Some ms) \<Rightarrow> ms < 0 \<or> (p \<and> ms > 0)
     | _ \<Rightarrow> True)"

definition Status :: "'n net \<Rightarrow> NodeProbeRequest \<Rightarrow> ('n, NodeProbeResult) api" where
  "Status net request =
    (case NormaliseNodeURL (parse_url net) (string_url net) (probe_BaseURL request) (probe_CertificatePolicy request) of
       Inl err \<Rightarrow> failA err
     | Inr baseURL \<Rightarrow>
     case statusEndpoint net baseURL of
       None \<Rightarrow> failA (Validation ''baseUrl'' ''is not a valid node URL'')
     | Some endpoint \<Rightarrow>
     bindA (checkA (transport net request)) (\<lambda>_.
     bindA (perform net ''node status'' (http_request_to request ''GET'' endpoint None)) (\<lambda>reply.
     let status = rep_StatusCode reply;
         api_error = nodeAPIError net ErrorNodeResponse ''GET'' ''/control/status'' status (rep_ContentType reply) in
     if redirected reply then failA (classifyNetworkError OtherFailure)
     else if status = 401 \<or> status = 403 then failA (NewError ErrorNodeAuth ''the node rejected the supplied credentials'')
     else if status \<noteq> 200 then failA (api_error ''returned an unexpected HTTP status'' None)
     else case read_body maxResponseBytes reply
            (NewError ErrorNodeResponse ''the node status response could not be read'')
            (NewError ErrorNodeResponse ''the node status response was too large'')
            (\<lambda>cause. api_error ''returned invalid JSON'' (Some cause)) (type_error net ''/control/status'') dec_status of
         Inl err \<Rightarrow> failA err
       | Inr answer \<Rightarrow>
           let version = TrimSpace (status_Version answer) in
           if version = [] \<or> length version > 128 \<or> status_Running answer = None \<or>
              contradictory (status_ProtectionEnabled answer) (status_ProtectionDisabledDurationMS answer)
           then failA (api_error ''omitted or contradicted required status semantics'' None)
           else retA \<lparr>result_Version = version, result_Compatibility = VersionCompatibility version,
             result_Running = the (status_Running answer), result_ProtectionEnabled = the (status_ProtectionEnabled answer),
             result_ProtectionDisabledDurationMS = the (status_ProtectionDisabledDurationMS answer),
             result_LatencyMS = rep_LatencyMS reply\<rparr>)))"


subsection \<open>Checks on replies\<close>

definition isEncryptedDNSEndpoint :: "'n net \<Rightarrow> string \<Rightarrow> bool" where
  "isEncryptedDNSEndpoint net address =
    (case parse_url net address of
       None \<Rightarrow> False
     | Some endpoint \<Rightarrow>
         if url_Host endpoint = [] \<or> Hostname endpoint = [] \<or> url_HasUser endpoint then False
         else if ToLower (url_Scheme endpoint) \<notin> {''https'', ''tls'', ''quic''} then False
         else if HasSuffix (url_Host endpoint) '':'' then False
         else if Port endpoint \<noteq> [] \<and> (decimal_value (Port endpoint) < 1 \<or> decimal_value (Port endpoint) > 65535) then False
         else if list_ex (\<lambda>c. c \<in> set '':[]'') (Hostname endpoint) \<or> HasPrefix (url_Host endpoint) ''[''
         then (case ParseAddr (Hostname endpoint) of None \<Rightarrow> False | Some ip \<Rightarrow> Is6 ip \<and> HasPrefix (url_Host endpoint) ''['')
         else True)"

definition invalid_listener :: go_error where
  "invalid_listener = NewError ErrorNodeResponse ''the node returned an invalid DNS listener configuration''"

definition validateListenerStatus :: "'n net \<Rightarrow> statusResponse \<Rightarrow> go_error option" where
  "validateListenerStatus net status =
    (let addresses = map TrimSpace (status_DNSAddresses status); plain = (\<lambda>a. ParseAddr a \<noteq> None) in
     if status_DNSPort status < 1 \<or> status_DNSPort status > 65535 \<or> status_DNSAddresses status = [] \<or>
        contradictory (status_ProtectionEnabled status) (status_ProtectionDisabledDurationMS status)
     then Some invalid_listener
     else if list_ex (\<lambda>a. \<not> plain a \<and> \<not> isEncryptedDNSEndpoint net a) addresses then Some invalid_listener
     else if \<not> list_ex plain addresses then Some invalid_listener
     else None)"

definition plainDNSBindHosts :: "string list \<Rightarrow> string list" where
  "plainDNSBindHosts addresses = map addr_String (List.map_filter (\<lambda>a. ParseAddr (TrimSpace a)) addresses)"

definition validateDNSProtection :: "dnsInfoResponse \<Rightarrow> go_error option" where
  "validateDNSProtection dns =
    (case info_ProtectionEnabled dns of
       None \<Rightarrow> Some (NewError ErrorNodeResponse ''the node returned an invalid DNS protection state'')
     | Some p \<Rightarrow> if p \<and> info_ProtectionDisabledUntil dns \<noteq> None
         then Some (NewError ErrorNodeResponse ''the node returned an invalid DNS protection state'') else None)"


subsection \<open>The document\<close>

definition valueOrDefault :: "'a option \<Rightarrow> 'a \<Rightarrow> 'a" where
  "valueOrDefault value fallback = (case value of None \<Rightarrow> fallback | Some v \<Rightarrow> v)"

definition protectionDisabledUntil :: "'n net \<Rightarrow> time option \<Rightarrow> string" where
  "protectionDisabledUntil net value = (case value of None \<Rightarrow> [] | Some t \<Rightarrow> format_time net t)"

definition enabled_urls :: "bool \<Rightarrow> filterListResponse list \<Rightarrow> string list" where
  "enabled_urls whitelist ls = map flr_URL (filter (\<lambda>f. flr_Enabled f \<and> flr_Whitelist f = whitelist) ls)"

definition dnsModel :: "dnsInfoResponse \<Rightarrow> DNS" where
  "dnsModel dns =
    \<lparr>dns_UpstreamDNS = info_UpstreamDNS dns, dns_BootstrapDNS = info_BootstrapDNS dns, dns_FallbackDNS = info_FallbackDNS dns,
     dns_PrivateReverseDNS = info_PrivateReverseDNS dns, dns_ProtectionEnabled = valueOrDefault (info_ProtectionEnabled dns) False,
     dns_RateLimit = info_RateLimit dns, dns_RateLimitIPv4 = info_RateLimitIPv4 dns, dns_RateLimitIPv6 = info_RateLimitIPv6 dns,
     dns_RateLimitAllowlist = info_RateLimitAllowlist dns, dns_BlockingMode = info_BlockingMode dns, dns_BlockingIPv4 = info_BlockingIPv4 dns,
     dns_BlockingIPv6 = info_BlockingIPv6 dns, dns_BlockedResponseTTL = info_BlockedResponseTTL dns,
     dns_EDNSClientSubnet = info_EDNSClientSubnet dns, dns_EDNSUseCustom = info_EDNSUseCustom dns, dns_EDNSCustomIP = info_EDNSCustomIP dns,
     dns_DisableIPv6 = info_DisableIPv6 dns, dns_DNSSECEnabled = info_DNSSECEnabled dns, dns_CacheSize = info_CacheSize dns,
     dns_CacheEnabled = valueOrDefault (info_CacheEnabled dns) (info_CacheSize dns > 0), dns_CacheTTLMin = info_CacheTTLMin dns,
     dns_CacheTTLMax = info_CacheTTLMax dns, dns_CacheOptimistic = info_CacheOptimistic dns, dns_UpstreamMode = info_UpstreamMode dns,
     dns_UsePrivateReverse = info_UsePrivateReverse dns, dns_ResolveClients = info_ResolveClients dns,
     dns_UpstreamTimeout = valueOrDefault (info_UpstreamTimeout dns) 0\<rparr>"

definition configurationDocument :: "'n net \<Rightarrow> string \<Rightarrow> statusResponse \<Rightarrow> dnsInfoResponse \<Rightarrow> filterStatusResponse \<Rightarrow> Document" where
  "configurationDocument net version status dns filtering =
    \<lparr>doc_SchemaVersion = SchemaVersion,
     doc_Shared = zero_Shared
       \<lparr>sh_DNS := dnsModel dns,
        sh_Filtering := \<lparr>flt_Enabled = (case fs_Enabled filtering of Some b \<Rightarrow> b | None \<Rightarrow> valueOrDefault (fs_FilteringEnabled filtering) False),
          flt_UpdateInterval = fs_Interval filtering, flt_FilterURLs = enabled_urls False (fs_Filters filtering),
          flt_WhitelistURLs = enabled_urls True (fs_Filters filtering) @ map flr_URL (filter flr_Enabled (fs_WhitelistFilters filtering)),
          flt_UserRules = fs_UserRules filtering\<rparr>\<rparr>,
     doc_NodeSpecific = \<lparr>ns_BindHosts = plainDNSBindHosts (status_DNSAddresses status), ns_DNSPort = status_DNSPort status, ns_DHCP = None\<rparr>,
     doc_ObservedOnly = zero_ObservedOnly\<lparr>obs_ProductVersion := version,
       obs_ProtectionDisabledUntil := protectionDisabledUntil net (info_ProtectionDisabledUntil dns)\<rparr>,
     doc_Unsupported = Some [\<lparr>uns_Section = ''tls_mutation'', uns_Reason = ''TLS is inventory-only until controller secret references are implemented''\<rparr>]\<rparr>"

definition safeSearchModel :: "safeSearchResponse \<Rightarrow> SafeSearch" where
  "safeSearchModel v = \<lparr>ss_Enabled = ssr_Enabled v, ss_Bing = ssr_Bing v, ss_DuckDuckGo = ssr_DuckDuckGo v, ss_Ecosia = ssr_Ecosia v,
     ss_Google = ssr_Google v, ss_Pixabay = ssr_Pixabay v, ss_Yandex = ssr_Yandex v, ss_YouTube = ssr_YouTube v\<rparr>"

definition scheduleModel :: "scheduleResponse \<Rightarrow> Schedule" where
  "scheduleModel v =
    (let day = (\<lambda>name period. case period of None \<Rightarrow> [] | Some p \<Rightarrow> [(name, \<lparr>day_Start = dr_Start p, day_End = dr_End p\<rparr>)]) in
     \<lparr>sched_TimeZone = sr_TimeZone v,
      sched_Days = day ''fri'' (sr_Fri v) @ day ''mon'' (sr_Mon v) @ day ''sat'' (sr_Sat v) @ day ''sun'' (sr_Sun v) @
        day ''thu'' (sr_Thu v) @ day ''tue'' (sr_Tue v) @ day ''wed'' (sr_Wed v)\<rparr>)"

definition clientModel :: "clientResponse \<Rightarrow> PersistentClient" where
  "clientModel c = \<lparr>client_Name = cr_Name c, client_IDs = cr_IDs c, client_UseGlobalSettings = cr_UseGlobalSettings c,
     client_FilteringEnabled = cr_FilteringEnabled c, client_ParentalEnabled = cr_ParentalEnabled c,
     client_SafeBrowsingEnabled = cr_SafeBrowsingEnabled c, client_SafeSearch = safeSearchModel (cr_SafeSearch c),
     client_UseGlobalBlockedServices = cr_UseGlobalBlockedServices c, client_BlockedServices = cr_BlockedServices c,
     client_BlockedServicesSchedule = scheduleModel (cr_BlockedServicesSchedule c), client_Upstreams = cr_Upstreams c,
     client_UpstreamsCacheEnabled = cr_UpstreamsCacheEnabled c, client_UpstreamsCacheSize = cr_UpstreamsCacheSize c,
     client_Tags = cr_Tags c, client_IgnoreQueryLog = cr_IgnoreQueryLog c, client_IgnoreStatistics = cr_IgnoreStatistics c\<rparr>"

definition rewriteModel :: "rewriteResponse \<Rightarrow> Rewrite" where
  "rewriteModel r = \<lparr>rewrite_Domain = rwr_Domain r, rewrite_Answer = rwr_Answer r, rewrite_Enabled = valueOrDefault (rwr_Enabled r) True\<rparr>"

definition queryLogModel :: "policyResponse \<Rightarrow> QueryLogPolicy" where
  "queryLogModel p = \<lparr>ql_Enabled = pr_Enabled p, ql_IntervalMillis = pr_IntervalMillis p, ql_AnonymizeClientIP = pr_AnonymizeClientIP p,
     ql_Ignored = pr_Ignored p, ql_IgnoredEnabled = valueOrDefault (pr_IgnoredEnabled p) True\<rparr>"

definition statisticsModel :: "policyResponse \<Rightarrow> StatisticsPolicy" where
  "statisticsModel p = \<lparr>st_Enabled = pr_Enabled p, st_IntervalMillis = pr_IntervalMillis p, st_Ignored = pr_Ignored p,
     st_IgnoredEnabled = valueOrDefault (pr_IgnoredEnabled p) True\<rparr>"

definition configurationTLSStatus :: "tlsStatusResponse \<Rightarrow> TLSStatus" where
  "configurationTLSStatus t = \<lparr>tls_Enabled = tr_Enabled t, tls_ServerName = tr_ServerName t, tls_ForceHTTPS = tr_ForceHTTPS t,
     tls_HTTPSPort = tr_HTTPSPort t, tls_DNSOverTLSPort = tr_DNSOverTLSPort t, tls_DNSOverQUICPort = tr_DNSOverQUICPort t,
     tls_ServePlainDNS = tr_ServePlainDNS t, tls_ValidCertificate = tr_ValidCert t, tls_ValidChain = tr_ValidChain t,
     tls_ValidKey = tr_ValidKey t, tls_ValidPair = tr_ValidPair t, tls_Subject = tr_Subject t, tls_Issuer = tr_Issuer t,
     tls_NotBefore = tr_NotBefore t, tls_NotAfter = tr_NotAfter t, tls_DNSNames = tr_DNSNames t, tls_Warning = tr_Warning t\<rparr>"

definition leaseModel :: "dhcpLeaseResponse \<Rightarrow> DHCPStaticLease" where
  "leaseModel l = \<lparr>lease_MAC = lr_MAC l, lease_IP = lr_IP l, lease_Hostname = lr_Hostname l\<rparr>"

definition dhcpModel :: "dhcpStatusResponse \<Rightarrow> DHCPConfig" where
  "dhcpModel d = \<lparr>dhcp_Enabled = ds_Enabled d, dhcp_InterfaceName = ds_InterfaceName d,
     dhcp_IPv4 = \<lparr>v4_Gateway = d4_Gateway (ds_V4 d), v4_SubnetMask = d4_SubnetMask (ds_V4 d), v4_RangeStart = d4_RangeStart (ds_V4 d),
       v4_RangeEnd = d4_RangeEnd (ds_V4 d), v4_LeaseDuration = d4_LeaseDuration (ds_V4 d)\<rparr>,
     dhcp_IPv6 = \<lparr>v6_RangeStart = d6_RangeStart (ds_V6 d), v6_LeaseDuration = d6_LeaseDuration (ds_V6 d)\<rparr>,
     dhcp_StaticLeases = Some (map leaseModel (ds_StaticLeases d))\<rparr>"

definition populateBroaderDocument ::
  "Document \<Rightarrow> clientResponse list \<Rightarrow> bool \<Rightarrow> rewriteResponse list \<Rightarrow> blockedServicesResponse \<Rightarrow> bool \<Rightarrow> bool \<Rightarrow> safeSearchResponse \<Rightarrow>
   policyResponse \<Rightarrow> policyResponse \<Rightarrow> tlsStatusResponse \<Rightarrow> dhcpStatusResponse \<Rightarrow> bool \<Rightarrow> Document" where
  "populateBroaderDocument document clients rewritesEnabled rewrites blocked safeBrowsing parental safeSearch queryLog statistics t dhcp dhcpSupported =
    (let document = document
      \<lparr>doc_Shared := (doc_Shared document)
         \<lparr>sh_Clients := Some (map clientModel clients),
          sh_RewritesEnabled := rewritesEnabled,
          sh_Rewrites := Some (map rewriteModel rewrites),
          sh_Services := \<lparr>svc_BlockedServiceIDs = bsr_IDs blocked, svc_BlockedSchedule = scheduleModel (bsr_Schedule blocked),
            svc_SafeBrowsing = safeBrowsing, svc_ParentalControl = parental, svc_SafeSearch = safeSearchModel safeSearch\<rparr>,
          sh_QueryLog := queryLogModel queryLog,
          sh_Statistics := statisticsModel statistics\<rparr>,
       doc_ObservedOnly := (doc_ObservedOnly document)\<lparr>obs_TLS := configurationTLSStatus t\<rparr>\<rparr> in
     if \<not> dhcpSupported
     then document\<lparr>doc_Unsupported := Some (elems (doc_Unsupported document) @
            [\<lparr>uns_Section = ''dhcp'', uns_Reason = ''the node reports that DHCP is unavailable''\<rparr>])\<rparr>
     else document
       \<lparr>doc_NodeSpecific := (doc_NodeSpecific document)\<lparr>ns_DHCP := Some (dhcpModel dhcp)\<rparr>,
        doc_ObservedOnly := (doc_ObservedOnly document)
          \<lparr>obs_DHCPLeases := map (\<lambda>l. \<lparr>dl_MAC = lr_MAC l, dl_IP = lr_IP l, dl_Hostname = lr_Hostname l, dl_ExpiresAt = lr_Expires l\<rparr>) (ds_Leases dhcp)\<rparr>\<rparr>)"


subsection \<open>Reading the configuration\<close>

definition SupportsRecentStatistics :: "string \<Rightarrow> bool" where
  "SupportsRecentStatistics version \<longleftrightarrow>
     Generation version = APIGenerationLegacyControl \<and> Compatibility_of version = CompatibilitySupported"

definition zero_Document :: Document where
  "zero_Document = \<lparr>doc_SchemaVersion = 0, doc_Shared = zero_Shared, doc_NodeSpecific = zero_NodeSpecific,
     doc_ObservedOnly = zero_ObservedOnly, doc_Unsupported = None\<rparr>"

definition first_features :: "string \<Rightarrow> bool gomap" where
  "first_features version =
    [(''blocked_services'', False), (''cache_clear'', False), (''cache_toggle'', False), (''clients'', False), (''dhcp'', False),
     (''dns'', False), (''filter_interval_arbitrary'', False), (''filtering'', False), (''ignored_lists_toggle'', False),
     (''query_log'', False), (''querylog_clear'', False), (''rewrite_toggle'', False), (''rewrites'', False),
     (''safe_search_ecosia'', False), (''safety'', False), (''statistics'', False),
     (''statistics_exact_range'', SupportsRecentStatistics version), (''stats_reset'', False), (''test_host_filtering'', False),
     (''test_host_filtering_context'', False), (''test_upstream_dns'', False), (''tls'', False), (''upstream_timeout'', False)]"

definition set_features :: "bool gomap \<Rightarrow> CapabilityProfile \<Rightarrow> CapabilityProfile" where
  "set_features fs profile = profile\<lparr>cap_Features := fold (\<lambda>(k, b). AList.update k b) fs (cap_Features profile)\<rparr>"

definition add_warning :: "string \<Rightarrow> CapabilityProfile \<Rightarrow> CapabilityProfile" where
  "add_warning text profile = profile\<lparr>cap_Warnings := cap_Warnings profile @ [text]\<rparr>"

text \<open>A read whose error is returned beside the profile collected so far.\<close>

type_synonym 'n inventory_read = "'n \<Rightarrow> (Document \<times> CapabilityProfile \<times> go_error option) \<times> 'n"

definition reading :: "CapabilityProfile \<Rightarrow> ('n, 'a) api \<Rightarrow> ('a \<Rightarrow> 'n inventory_read) \<Rightarrow> 'n inventory_read" where
  "reading profile m f = (\<lambda>n. case m n of
     (Inl err, n) \<Rightarrow> ((zero_Document, profile, Some err), n)
   | (Inr x, n) \<Rightarrow> f x n)"

definition unsupported_version :: "string \<Rightarrow> go_error" where
  "unsupported_version version = NewError ErrorCapability
     (''Unsupported AdGuard Home version. Minimum supported version: 0.107.78. Detected version: '' @ version)"

definition read_broader :: "'n net \<Rightarrow> NodeProbeRequest \<Rightarrow> CapabilityProfile \<Rightarrow> Document \<Rightarrow> 'n inventory_read" where
  "read_broader net request p document =
     reading p (api_get net request ''/control/clients'' dec_clients) (\<lambda>clients.
     let p = set_features [(''clients'', True)] p in
     reading p (api_get net request ''/control/rewrite/list'' (v_list dec_rewrite)) (\<lambda>rewrites.
     let p = set_features [(''rewrites'', True)] p in
     reading p (api_get net request ''/control/rewrite/settings'' dec_enabled) (\<lambda>rewritesEnabled.
     let p = set_features [(''rewrite_toggle'', True)] p in
     reading p (api_get net request ''/control/blocked_services/get'' dec_blockedServices) (\<lambda>blocked.
     let p = set_features [(''blocked_services'', True)] p in
     reading p (api_get net request ''/control/safebrowsing/status'' dec_enabled) (\<lambda>safeBrowsing.
     reading p (api_get net request ''/control/parental/status'' dec_enabled) (\<lambda>parental.
     reading p (api_get net request ''/control/safesearch/status'' dec_safeSearch) (\<lambda>safeSearch.
     let p = set_features [(''safety'', True), (''safe_search_ecosia'', True)] p in
     reading p (api_get net request ''/control/querylog/config'' dec_policy) (\<lambda>queryLog.
     let p = set_features [(''query_log'', True)] p in
     reading p (api_get net request ''/control/stats/config'' dec_policy) (\<lambda>statistics.
     let p = set_features [(''statistics'', True),
           (''ignored_lists_toggle'', pr_IgnoredEnabled queryLog \<noteq> None \<and> pr_IgnoredEnabled statistics \<noteq> None)] p in
     reading p (api_get net request ''/control/tls/status'' dec_tls) (\<lambda>t.
     let p = set_features [(''tls'', True)] p in
     reading p (getOptional net request ''/control/dhcp/status'' dec_dhcpStatus) (\<lambda>(dhcpSupported, dhcp).
     let p = set_features [(''dhcp'', dhcpSupported)] p;
         p = (if dhcpSupported then p else add_warning ''DHCP is unavailable on this node and remains unmanaged.'' p) in
     (\<lambda>n. ((Canonicalise (populateBroaderDocument document clients rewritesEnabled rewrites blocked safeBrowsing parental safeSearch
               queryLog statistics t dhcp dhcpSupported), p, None), n)))))))))))))"

definition ReadConfiguration :: "'n net \<Rightarrow> NodeProbeRequest \<Rightarrow> string \<Rightarrow> 'n inventory_read" where
  "ReadConfiguration net request version =
    (let p = \<lparr>cap_NodeID = [], cap_ProductVersion = version, cap_Compatibility = compatibility_string (Compatibility_of version),
           cap_SchemaVersion = SchemaVersion, cap_Features = first_features version, cap_Warnings = [], cap_RefreshedAt = 0\<rparr> in
     if Compatibility_of version \<noteq> CompatibilitySupported
     then (\<lambda>n. ((zero_Document, add_warning ''This AdGuard Home version is outside the tested configuration inventory range.'' p,
             Some (unsupported_version version)), n))
     else
     let p = (if IsProvisionallyCompatible version then add_warning
            ''This AdGuard Home version is provisionally compatible with the legacy /control API; Atlas validates the APIs it uses, but this version has not been explicitly release-tested.'' p
            else p);
         p = set_features [(''querylog_clear'', True), (''stats_reset'', True)] p;
         unread = add_warning ''DNS listener configuration could not be read.'' p in
     reading unread (api_get net request ''/control/status'' dec_status) (\<lambda>status.
     reading unread (checkA (validateListenerStatus net status)) (\<lambda>_.
     reading (add_warning ''DNS configuration could not be read.'' p) (api_get net request ''/control/dns_info'' (dec_dnsInfo net)) (\<lambda>dns.
     reading (add_warning ''DNS protection state could not be validated.'' p) (checkA (validateDNSProtection dns)) (\<lambda>_.
     let p = set_features [(''dns'', True), (''test_upstream_dns'', True), (''cache_clear'', True),
           (''cache_toggle'', info_CacheEnabled dns \<noteq> None), (''upstream_timeout'', info_UpstreamTimeout dns \<noteq> None)] p in
     reading (add_warning ''Filtering configuration could not be read.'' p) (api_get net request ''/control/filtering/status'' dec_filterStatus) (\<lambda>filtering.
     let p = set_features [(''filtering'', True), (''test_host_filtering'', True), (''test_host_filtering_context'', True),
           (''filter_interval_arbitrary'', True)] p in
     read_broader net request p (configurationDocument net version status dns filtering)))))))"


subsection \<open>Other reads\<close>

text \<open>The catalogue: three fields of a service, one of a group.\<close>

definition dec_service :: "BlockedServiceMetadata decoder" where
  "dec_service v = do {
     kvs \<leftarrow> as_members v;
     i \<leftarrow> v_string (field ''id'' kvs);
     name \<leftarrow> v_string (field ''name'' kvs);
     group \<leftarrow> v_string (field ''group_id'' kvs);
     Some \<lparr>bs_ID = i, bs_Name = name, bs_GroupID = group\<rparr> }"

definition dec_catalogue :: "(BlockedServiceMetadata list \<times> string list) decoder" where
  "dec_catalogue v = do {
     kvs \<leftarrow> as_members v;
     services \<leftarrow> v_list dec_service (field ''blocked_services'' kvs);
     groups \<leftarrow> v_list (\<lambda>g. do { kvs \<leftarrow> as_members g; v_string (field ''id'' kvs) }) (field ''groups'' kvs);
     Some (services, groups) }"

fun read_services :: "string list \<Rightarrow> BlockedServiceMetadata list \<Rightarrow> go_error + BlockedServiceMetadata list" where
  "read_services seen [] = Inr []"
| "read_services seen (s # ss) =
    (let s = \<lparr>bs_ID = TrimSpace (bs_ID s), bs_Name = TrimSpace (bs_Name s), bs_GroupID = TrimSpace (bs_GroupID s)\<rparr> in
     if bs_ID s = [] \<or> bs_Name s = [] \<or> length (bs_ID s) > 200 \<or> length (bs_Name s) > 500 \<or> length (bs_GroupID s) > 200 \<or> bs_ID s \<in> set seen
     then Inl (NewError ErrorNodeResponse ''the node returned invalid blocked-services catalogue metadata'')
     else case read_services (bs_ID s # seen) ss of Inl err \<Rightarrow> Inl err | Inr rest \<Rightarrow> Inr (s # rest))"

fun read_groups :: "string list \<Rightarrow> string list \<Rightarrow> go_error + string list" where
  "read_groups seen [] = Inr []"
| "read_groups seen (g # gs) =
    (let i = TrimSpace g in
     if i = [] \<or> length i > 200 \<or> i \<in> set seen
     then Inl (NewError ErrorNodeResponse ''the node returned invalid blocked-services group metadata'')
     else case read_groups (i # seen) gs of Inl err \<Rightarrow> Inl err | Inr rest \<Rightarrow> Inr (i # rest))"

definition of_result :: "go_error + 'a \<Rightarrow> ('n, 'a) api" where
  "of_result r = (case r of Inl err \<Rightarrow> failA err | Inr x \<Rightarrow> retA x)"

definition ReadBlockedServicesCatalogue :: "'n net \<Rightarrow> NodeProbeRequest \<Rightarrow> string \<Rightarrow> ('n, NodeBlockedServicesCatalogue) api" where
  "ReadBlockedServicesCatalogue net request version =
    (if Compatibility_of version \<noteq> CompatibilitySupported
     then failA (NewError ErrorCapability ''the node version is not supported for blocked-services catalogue inventory'')
     else bindA (api_get net request ''/control/blocked_services/all'' dec_catalogue) (\<lambda>(services, groups).
          bindA (of_result (read_services [] services)) (\<lambda>services.
          bindA (of_result (read_groups [] groups)) (\<lambda>groups.
          retA \<lparr>ncat_Services = services, ncat_Groups = groups\<rparr>))))"

definition interface_name :: "string \<Rightarrow> dhcpInterfaceResponse \<Rightarrow> string" where
  "interface_name key item = (let name = TrimSpace (dif_Name item) in if name = [] then TrimSpace key else name)"

definition interface_of :: "string \<Rightarrow> dhcpInterfaceResponse \<Rightarrow> DHCPInterface" where
  "interface_of key item = \<lparr>di_Name = interface_name key item, di_HardwareAddress = TrimSpace (dif_HardwareAddress item),
     di_IPv4Addresses = dif_IPv4Addresses item, di_IPv6Addresses = dif_IPv6Addresses item, di_GatewayIP = TrimSpace (dif_GatewayIP item),
     di_Flags = filter (\<lambda>f. f \<noteq> []) (map TrimSpace (Split (CHR ''|'') (dif_Flags item))), di_Available = False\<rparr>"

definition ReadDHCPInterfaces :: "'n net \<Rightarrow> NodeProbeRequest \<Rightarrow> ('n, DHCPInterface list) api" where
  "ReadDHCPInterfaces net request =
     bindA (getOptional net request ''/control/dhcp/interfaces'' (v_map dec_dhcpInterface)) (\<lambda>(supported, response).
     if \<not> supported then failA (NewError ErrorCapability ''DHCP interface discovery is not supported by this node'')
     else let items = List.map_filter (\<lambda>k. map_option (Pair k) (map_of response k)) (range_keys net (map fst response)) in
       if list_ex (\<lambda>(k, item). interface_name k item = [] \<or> length (interface_name k item) > 128) items
       then failA (NewError ErrorNodeResponse ''the node returned invalid DHCP interface metadata'')
       else retA (map (\<lambda>(k, item). interface_of k item) items))"

definition dhcpCheckValue :: "string \<Rightarrow> go_error + DHCPCheckValue" where
  "dhcpCheckValue status =
    (let status = TrimSpace status in
     if status = [] then Inr \<lparr>dcv_Status = ''unavailable'', dcv_Message = []\<rparr>
     else if status \<notin> {''yes'', ''no'', ''error''}
     then Inl (NewError ErrorNodeResponse ''the node returned an invalid active DHCP check result'')
     else Inr \<lparr>dcv_Status = status, dcv_Message = (if status = ''error''
            then ''The node could not determine whether another DHCP server is active.'' else [])\<rparr>)"

text \<open>The fields of the reply that are used: the two statuses, and the status and address of the static IP check.\<close>

definition dec_activeCheck :: "(string \<times> string \<times> string \<times> string) decoder" where
  "dec_activeCheck v = do {
     kvs \<leftarrow> as_members v;
     v4 \<leftarrow> as_members (field ''v4'' kvs);
     other4 \<leftarrow> as_members (field ''other_server'' v4);
     found4 \<leftarrow> v_string (field ''found'' other4);
     error4 \<leftarrow> v_string (field ''error'' other4);
     static \<leftarrow> as_members (field ''static_ip'' v4);
     staticStatus \<leftarrow> v_string (field ''static'' static);
     staticIP \<leftarrow> v_string (field ''ip'' static);
     v6 \<leftarrow> as_members (field ''v6'' kvs);
     other6 \<leftarrow> as_members (field ''other_server'' v6);
     found6 \<leftarrow> v_string (field ''found'' other6);
     error6 \<leftarrow> v_string (field ''error'' other6);
     Some (found4, found6, staticStatus, staticIP) }"

definition Adguard_FindActiveDHCP :: "'n net \<Rightarrow> NodeProbeRequest \<Rightarrow> string \<Rightarrow> ('n, DHCPActiveCheck) api" where
  "Adguard_FindActiveDHCP net request interfaceName =
     bindA (postResource net request ''/control/dhcp/find_active_dhcp'' (JObject [(''interface'', JString interfaceName)]) dec_activeCheck)
       (\<lambda>(found4, found6, staticStatus, staticIP).
     bindA (of_result (dhcpCheckValue found4)) (\<lambda>v4.
     bindA (of_result (dhcpCheckValue found6)) (\<lambda>v6.
     let staticStatus = TrimSpace staticStatus; staticStatus = (if staticStatus = [] then ''unavailable'' else staticStatus) in
     if staticStatus \<notin> {''yes'', ''no'', ''error'', ''unavailable''}
     then failA (NewError ErrorNodeResponse ''the node returned an invalid static-IP check result'')
     else retA \<lparr>dac_IPv4OtherServer = v4, dac_IPv4StaticIP = \<lparr>dsc_Status = staticStatus, dsc_IP = TrimSpace staticIP\<rparr>,
            dac_IPv6OtherServer = v6\<rparr>)))"

fun list_metadata :: "'n net \<Rightarrow> filterListResponse list \<Rightarrow> go_error + FilterListMetadata list" where
  "list_metadata net [] = Inr []"
| "list_metadata net (f # fs) =
    (let item = (\<lambda>updated. \<lparr>fl_ID = flr_ID f, fl_URL = flr_URL f, fl_Name = flr_Name f, fl_Enabled = flr_Enabled f,
           fl_RulesCount = flr_RulesCount f, fl_LastUpdated = updated, fl_Portable = False\<rparr>) in
     case (if TrimSpace (flr_LastUpdated f) = [] then Some None else map_option Some (parse_time net (flr_LastUpdated f))) of
       None \<Rightarrow> Inl (NewError ErrorNodeResponse ''the node returned an invalid filter-list update time'')
     | Some updated \<Rightarrow> (case list_metadata net fs of Inl err \<Rightarrow> Inl err | Inr rest \<Rightarrow> Inr (item updated # rest)))"

definition readFilterLists :: "'n net \<Rightarrow> NodeProbeRequest \<Rightarrow> string \<Rightarrow> bool \<Rightarrow> ('n, FilterListMetadata list) api" where
  "readFilterLists net request version whitelist =
    (if Compatibility_of version \<noteq> CompatibilitySupported
     then failA (NewError ErrorCapability ''the node version is not supported for filter-list presentation'')
     else bindA (api_get net request ''/control/filtering/status'' dec_filterStatus) (\<lambda>response.
       let filters = fs_Filters response @ map (\<lambda>f. f\<lparr>flr_Whitelist := True\<rparr>) (fs_WhitelistFilters response) in
       of_result (list_metadata net (filter (\<lambda>f. flr_Whitelist f = whitelist) filters))))"

end
