(* ===== verification/Adguard_Write.thy ===== *)
theory Adguard_Write
  imports Adguard_Read Differences
begin

text \<open>
  Writing a node (\<open>internal/adguard/configuration.go\<close>): \<open>ApplyConfiguration\<close> brings a node to a
  document. Settings are posted as a whole; filter lists, clients, rewrites and DHCP leases are read
  first and then changed entry by entry. A payload is a Go map, which \<open>json.Marshal\<close> prints in the
  order of its keys.
\<close>

definition obj :: "json gomap \<Rightarrow> json" where
  "obj m = j_map (\<lambda>v. v) m"

subsection \<open>Payloads\<close>

definition safeSearchPayload :: "SafeSearch \<Rightarrow> json" where
  "safeSearchPayload v = obj [(''enabled'', JBool (ss_Enabled v)), (''bing'', JBool (ss_Bing v)), (''duckduckgo'', JBool (ss_DuckDuckGo v)),
     (''ecosia'', JBool (ss_Ecosia v)), (''google'', JBool (ss_Google v)), (''pixabay'', JBool (ss_Pixabay v)),
     (''yandex'', JBool (ss_Yandex v)), (''youtube'', JBool (ss_YouTube v))]"

definition schedulePayload :: "Schedule \<Rightarrow> json" where
  "schedulePayload v = obj (fold (\<lambda>(day, period). AList.update day
       (obj [(''start'', JInt (day_Start period)), (''end'', JInt (day_End period))]))
     (sched_Days v) [(''time_zone'', JString (sched_TimeZone v))])"

definition blockedServicesPayload :: "Services \<Rightarrow> json" where
  "blockedServicesPayload v = obj [(''ids'', j_strings (svc_BlockedServiceIDs v)), (''schedule'', schedulePayload (svc_BlockedSchedule v))]"

definition clientPayload :: "PersistentClient \<Rightarrow> json" where
  "clientPayload c = obj
     [(''name'', JString (client_Name c)), (''ids'', j_strings (client_IDs c)), (''use_global_settings'', JBool (client_UseGlobalSettings c)),
      (''filtering_enabled'', JBool (client_FilteringEnabled c)), (''parental_enabled'', JBool (client_ParentalEnabled c)),
      (''safebrowsing_enabled'', JBool (client_SafeBrowsingEnabled c)), (''safe_search'', safeSearchPayload (client_SafeSearch c)),
      (''use_global_blocked_services'', JBool (client_UseGlobalBlockedServices c)), (''blocked_services'', j_strings (client_BlockedServices c)),
      (''blocked_services_schedule'', schedulePayload (client_BlockedServicesSchedule c)), (''upstreams'', j_strings (client_Upstreams c)),
      (''upstreams_cache_enabled'', JBool (client_UpstreamsCacheEnabled c)), (''upstreams_cache_size'', JInt (client_UpstreamsCacheSize c)),
      (''tags'', j_strings (client_Tags c)), (''ignore_querylog'', JBool (client_IgnoreQueryLog c)),
      (''ignore_statistics'', JBool (client_IgnoreStatistics c))]"

definition dns_payload :: "dnsInfoResponse \<Rightarrow> bool \<Rightarrow> DNS \<Rightarrow> json" where
  "dns_payload current v2 dns = obj
     ([(''upstream_dns'', j_strings (dns_UpstreamDNS dns)), (''bootstrap_dns'', j_strings (dns_BootstrapDNS dns)),
       (''fallback_dns'', j_strings (dns_FallbackDNS dns)), (''local_ptr_upstreams'', j_strings (dns_PrivateReverseDNS dns))] @
      (if v2 then
       [(''protection_enabled'', JBool (dns_ProtectionEnabled dns)), (''ratelimit'', JInt (dns_RateLimit dns)),
        (''ratelimit_subnet_len_ipv4'', JInt (dns_RateLimitIPv4 dns)), (''ratelimit_subnet_len_ipv6'', JInt (dns_RateLimitIPv6 dns)),
        (''ratelimit_whitelist'', j_strings (dns_RateLimitAllowlist dns)), (''blocking_mode'', JString (dns_BlockingMode dns)),
        (''blocking_ipv4'', JString (dns_BlockingIPv4 dns)), (''blocking_ipv6'', JString (dns_BlockingIPv6 dns)),
        (''blocked_response_ttl'', JInt (dns_BlockedResponseTTL dns)), (''edns_cs_enabled'', JBool (dns_EDNSClientSubnet dns)),
        (''edns_cs_use_custom'', JBool (dns_EDNSUseCustom dns)), (''edns_cs_custom_ip'', JString (dns_EDNSCustomIP dns)),
        (''disable_ipv6'', JBool (dns_DisableIPv6 dns)), (''dnssec_enabled'', JBool (dns_DNSSECEnabled dns)),
        (''cache_size'', JInt (dns_CacheSize dns)), (''cache_ttl_min'', JInt (dns_CacheTTLMin dns)),
        (''cache_ttl_max'', JInt (dns_CacheTTLMax dns)), (''cache_optimistic'', JBool (dns_CacheOptimistic dns)),
        (''upstream_mode'', JString (dns_UpstreamMode dns)), (''use_private_ptr_resolvers'', JBool (dns_UsePrivateReverse dns)),
        (''resolve_clients'', JBool (dns_ResolveClients dns))] @
       (if info_CacheEnabled current \<noteq> None then [(''cache_enabled'', JBool (dns_CacheEnabled dns))] else []) @
       (if info_UpstreamTimeout current \<noteq> None then [(''upstream_timeout'', JInt (dns_UpstreamTimeout dns))] else [])
       else []))"


subsection \<open>Filter lists\<close>

definition filter_items :: "filterStatusResponse \<Rightarrow> filterListResponse list" where
  "filter_items current = fs_Filters current @ map (\<lambda>f. f\<lparr>flr_Whitelist := True\<rparr>) (fs_WhitelistFilters current)"

definition set_url_payload :: "filterListResponse \<Rightarrow> bool \<Rightarrow> bool \<Rightarrow> json" where
  "set_url_payload item whitelist enabled = obj [(''url'', JString (flr_URL item)), (''whitelist'', JBool whitelist),
     (''data'', obj [(''name'', JString (flr_Name item)), (''url'', JString (flr_URL item)), (''enabled'', JBool enabled)])]"

definition add_url_payload :: "string \<Rightarrow> bool \<Rightarrow> json" where
  "add_url_payload url whitelist = obj [(''name'', JString ''Managed by Atlas DNS Controller''), (''url'', JString url), (''whitelist'', JBool whitelist)]"

definition enable_target :: "'n net \<Rightarrow> NodeProbeRequest \<Rightarrow> filterListResponse list \<Rightarrow> bool \<Rightarrow> string \<Rightarrow> ('n, unit) api" where
  "enable_target net request items whitelist target =
    (case find (\<lambda>i. flr_Whitelist i = whitelist \<and> EqualFold (flr_URL i) target) items of
       Some item \<Rightarrow> whenA (\<not> flr_Enabled item) (post net request ''/control/filtering/set_url'' (Some (set_url_payload item whitelist True)))
     | None \<Rightarrow> post net request ''/control/filtering/add_url'' (Some (add_url_payload target whitelist)))"

definition reconcileFilterURLs :: "'n net \<Rightarrow> NodeProbeRequest \<Rightarrow> filterStatusResponse \<Rightarrow> string list \<Rightarrow> bool \<Rightarrow> ('n, unit) api" where
  "reconcileFilterURLs net request current desired whitelist =
    (let items = filter_items current; targets = map ToLower desired in
     bindA (forA (enable_target net request items whitelist) desired) (\<lambda>_.
     forA (\<lambda>item. whenA (flr_Whitelist item = whitelist \<and> flr_Enabled item \<and> ToLower (flr_URL item) \<notin> set targets)
        (post net request ''/control/filtering/set_url'' (Some (set_url_payload item whitelist False)))) items))"


subsection \<open>Clients and rewrites\<close>

definition find_last :: "('a \<Rightarrow> bool) \<Rightarrow> 'a list \<Rightarrow> 'a option" where
  "find_last P xs = find P (rev xs)"

definition reconcileClients :: "'n net \<Rightarrow> NodeProbeRequest \<Rightarrow> PersistentClient list \<Rightarrow> ('n, unit) api" where
  "reconcileClients net request desired =
     bindA (api_get net request ''/control/clients'' dec_clients) (\<lambda>current.
     let targets = map (\<lambda>c. ToLower (client_Name c)) desired in
     bindA (forA (\<lambda>item. case find_last (\<lambda>old. ToLower (cr_Name old) = ToLower (client_Name item)) current of
          Some old \<Rightarrow> post net request ''/control/clients/update'' (Some (obj [(''name'', JString (cr_Name old)), (''data'', clientPayload item)]))
        | None \<Rightarrow> post net request ''/control/clients/add'' (Some (clientPayload item))) desired) (\<lambda>_.
     forA (\<lambda>item. whenA (ToLower (cr_Name item) \<notin> set targets)
        (post net request ''/control/clients/delete'' (Some (obj [(''name'', JString (cr_Name item))])))) current))"

definition rewrite_id :: "string \<Rightarrow> string \<Rightarrow> string" where
  "rewrite_id domain answer = ToLower domain @ CHR 0x00 # ToLower answer"

definition rewrite_payload :: "string \<Rightarrow> string \<Rightarrow> bool option \<Rightarrow> json" where
  "rewrite_payload domain answer enabled = obj ([(''domain'', JString domain), (''answer'', JString answer)] @
     (case enabled of None \<Rightarrow> [] | Some b \<Rightarrow> [(''enabled'', JBool b)]))"

definition rewrite_update :: "rewriteResponse \<Rightarrow> json \<Rightarrow> json" where
  "rewrite_update old payload = obj [(''target'', rewrite_payload (rwr_Domain old) (rwr_Answer old) None), (''update'', payload)]"

definition reconcile_rewrite :: "'n net \<Rightarrow> NodeProbeRequest \<Rightarrow> bool \<Rightarrow> rewriteResponse list \<Rightarrow> Rewrite \<Rightarrow> ('n, unit) api" where
  "reconcile_rewrite net request settingsSupported current item =
    (let payload = rewrite_payload (rewrite_Domain item) (rewrite_Answer item) (if settingsSupported then Some (rewrite_Enabled item) else None) in
     case find_last (\<lambda>old. rewrite_id (rwr_Domain old) (rwr_Answer old) = rewrite_id (rewrite_Domain item) (rewrite_Answer item)) current of
       None \<Rightarrow> post net request ''/control/rewrite/add'' (Some payload)
     | Some old \<Rightarrow> whenA (settingsSupported \<and> valueOrDefault (rwr_Enabled old) True \<noteq> rewrite_Enabled item)
         (put net request ''/control/rewrite/update'' (Some (rewrite_update old payload))))"

definition reconcileRewrites :: "'n net \<Rightarrow> NodeProbeRequest \<Rightarrow> bool \<Rightarrow> Rewrite list \<Rightarrow> ('n, unit) api" where
  "reconcileRewrites net request enabled desired =
     bindA (api_get net request ''/control/rewrite/list'' (v_list dec_rewrite)) (\<lambda>current.
     bindA (getOptionalEndpoint net request ''/control/rewrite/settings'' dec_enabled) (\<lambda>(settingsSupported, _).
     bindA (whenA settingsSupported (put net request ''/control/rewrite/settings/update'' (Some (obj [(''enabled'', JBool enabled)])))) (\<lambda>_.
     let targets = map (\<lambda>r. rewrite_id (rewrite_Domain r) (rewrite_Answer r)) desired in
     bindA (forA (reconcile_rewrite net request settingsSupported current) desired) (\<lambda>_.
     forA (\<lambda>item. whenA (rewrite_id (rwr_Domain item) (rwr_Answer item) \<notin> set targets)
        (post net request ''/control/rewrite/delete'' (Some (rewrite_payload (rwr_Domain item) (rwr_Answer item) None)))) current))))"


subsection \<open>Policies and DHCP\<close>

definition updatePolicy :: "'n net \<Rightarrow> NodeProbeRequest \<Rightarrow> string \<Rightarrow> string \<Rightarrow> bool \<Rightarrow> int \<Rightarrow> string list \<Rightarrow> bool \<Rightarrow> json gomap \<Rightarrow> ('n, unit) api" where
  "updatePolicy net request readPath updatePath enabled interval ignored ignoredEnabled extra =
     bindA (api_get net request readPath dec_policy) (\<lambda>current.
     put net request updatePath (Some (obj
       ([(''enabled'', JBool enabled), (''interval'', JInt interval), (''ignored'', j_strings ignored)] @ extra @
        (if pr_IgnoredEnabled current \<noteq> None then [(''ignored_enabled'', JBool ignoredEnabled)] else [])))))"

definition setEnabled :: "'n net \<Rightarrow> NodeProbeRequest \<Rightarrow> string \<Rightarrow> bool \<Rightarrow> ('n, unit) api" where
  "setEnabled net request path enabled = send net request ''POST'' (path @ (if enabled then ''/enable'' else ''/disable'')) None"

definition dhcpConfigurationMatches :: "dhcpStatusResponse \<Rightarrow> DHCPConfig \<Rightarrow> bool" where
  "dhcpConfigurationMatches current desired \<longleftrightarrow>
     ds_Enabled current = dhcp_Enabled desired \<and>
     ds_InterfaceName current = dhcp_InterfaceName desired \<and>
     d4_Gateway (ds_V4 current) = v4_Gateway (dhcp_IPv4 desired) \<and>
     d4_SubnetMask (ds_V4 current) = v4_SubnetMask (dhcp_IPv4 desired) \<and>
     d4_RangeStart (ds_V4 current) = v4_RangeStart (dhcp_IPv4 desired) \<and>
     d4_RangeEnd (ds_V4 current) = v4_RangeEnd (dhcp_IPv4 desired) \<and>
     d4_LeaseDuration (ds_V4 current) = v4_LeaseDuration (dhcp_IPv4 desired) \<and>
     d6_RangeStart (ds_V6 current) = v6_RangeStart (dhcp_IPv6 desired) \<and>
     d6_LeaseDuration (ds_V6 current) = v6_LeaseDuration (dhcp_IPv6 desired)"

definition dhcp_payload :: "DHCPConfig \<Rightarrow> json" where
  "dhcp_payload c = obj [(''enabled'', JBool (dhcp_Enabled c)), (''interface_name'', JString (dhcp_InterfaceName c)),
     (''v4'', obj [(''gateway_ip'', JString (v4_Gateway (dhcp_IPv4 c))), (''subnet_mask'', JString (v4_SubnetMask (dhcp_IPv4 c))),
        (''range_start'', JString (v4_RangeStart (dhcp_IPv4 c))), (''range_end'', JString (v4_RangeEnd (dhcp_IPv4 c))),
        (''lease_duration'', JInt (v4_LeaseDuration (dhcp_IPv4 c)))]),
     (''v6'', obj [(''range_start'', JString (v6_RangeStart (dhcp_IPv6 c))), (''lease_duration'', JInt (v6_LeaseDuration (dhcp_IPv6 c)))])]"

definition lease_payload :: "string \<Rightarrow> string \<Rightarrow> string \<Rightarrow> json" where
  "lease_payload mac ip hostname = obj [(''mac'', JString mac), (''ip'', JString ip), (''hostname'', JString hostname)]"

definition remove_lease :: "'n net \<Rightarrow> NodeProbeRequest \<Rightarrow> dhcpLeaseResponse \<Rightarrow> ('n, unit) api" where
  "remove_lease net request l =
     post net request ''/control/dhcp/remove_static_lease'' (Some (lease_payload (lr_MAC l) (lr_IP l) (lr_Hostname l)))"

text \<open>The loop over the desired leases; it returns what is left of the map \<open>byMAC\<close>.\<close>

fun reconcile_leases :: "'n net \<Rightarrow> NodeProbeRequest \<Rightarrow> dhcpLeaseResponse gomap \<Rightarrow> DHCPStaticLease list \<Rightarrow> ('n, dhcpLeaseResponse gomap) api" where
  "reconcile_leases net request byMAC [] = retA byMAC"
| "reconcile_leases net request byMAC (lease # leases) =
    (let key = ToLower (lease_MAC lease) in
     bindA (case map_of byMAC key of
         Some old \<Rightarrow> if lr_IP old \<noteq> lease_IP lease \<or> lr_Hostname old \<noteq> lease_Hostname lease
           then bindA (remove_lease net request old) (\<lambda>_. retA (AList.delete key byMAC)) else retA byMAC
       | None \<Rightarrow> retA byMAC) (\<lambda>byMAC.
     bindA (whenA (map_of byMAC key = None) (post net request ''/control/dhcp/add_static_lease''
         (Some (lease_payload (lease_MAC lease) (lease_IP lease) (lease_Hostname lease))))) (\<lambda>_.
     reconcile_leases net request byMAC leases)))"

definition reconcileDHCP :: "'n net \<Rightarrow> NodeProbeRequest \<Rightarrow> DHCPConfig \<Rightarrow> ('n, unit) api" where
  "reconcileDHCP net request desired =
     bindA (api_get net request ''/control/dhcp/status'' dec_dhcpStatus) (\<lambda>current.
     bindA (whenA (\<not> dhcpConfigurationMatches current desired) (post net request ''/control/dhcp/set_config'' (Some (dhcp_payload desired)))) (\<lambda>_.
     let targets = map (\<lambda>l. ToLower (lease_MAC l)) (elems (dhcp_StaticLeases desired)) in
     bindA (reconcile_leases net request (fold (\<lambda>l. AList.update (ToLower (lr_MAC l)) l) (ds_StaticLeases current) [])
              (elems (dhcp_StaticLeases desired))) (\<lambda>byMAC.
     forA (\<lambda>key. case map_of byMAC key of
         Some l \<Rightarrow> whenA (key \<notin> set targets) (remove_lease net request l)
       | None \<Rightarrow> retA ()) (range_keys net (map fst byMAC)))))"


subsection \<open>The configuration\<close>

definition apply_broader :: "'n net \<Rightarrow> NodeProbeRequest \<Rightarrow> Shared \<Rightarrow> ('n, unit) api" where
  "apply_broader net request shared =
    (let services = sh_Services shared; queryLog = sh_QueryLog shared; statistics = sh_Statistics shared in
     bindA (reconcileClients net request (elems (sh_Clients shared))) (\<lambda>_.
     bindA (reconcileRewrites net request (sh_RewritesEnabled shared) (elems (sh_Rewrites shared))) (\<lambda>_.
     bindA (put net request ''/control/blocked_services/update'' (Some (blockedServicesPayload services))) (\<lambda>_.
     bindA (setEnabled net request ''/control/safebrowsing'' (svc_SafeBrowsing services)) (\<lambda>_.
     bindA (setEnabled net request ''/control/parental'' (svc_ParentalControl services)) (\<lambda>_.
     bindA (put net request ''/control/safesearch/settings'' (Some (safeSearchPayload (svc_SafeSearch services)))) (\<lambda>_.
     bindA (updatePolicy net request ''/control/querylog/config'' ''/control/querylog/config/update'' (ql_Enabled queryLog)
       (ql_IntervalMillis queryLog) (ql_Ignored queryLog) (ql_IgnoredEnabled queryLog)
       [(''anonymize_client_ip'', JBool (ql_AnonymizeClientIP queryLog))]) (\<lambda>_.
     updatePolicy net request ''/control/stats/config'' ''/control/stats/config/update'' (st_Enabled statistics)
       (st_IntervalMillis statistics) (st_Ignored statistics) (st_IgnoredEnabled statistics) []))))))))"

definition Adguard_ApplyConfiguration :: "'n net \<Rightarrow> NodeProbeRequest \<Rightarrow> Document \<Rightarrow> ('n, unit) api" where
  "Adguard_ApplyConfiguration net request document =
    (let desired = Canonicalise document; shared = doc_Shared desired; filtering = sh_Filtering shared;
         v2 = (doc_SchemaVersion desired \<ge> SchemaVersion) in
     bindA (api_get net request ''/control/filtering/status'' dec_filterStatus) (\<lambda>currentFilters.
     bindA (if v2 then api_get net request ''/control/dns_info'' (dec_dnsInfo net) else retA (zero_of (dec_dnsInfo net))) (\<lambda>currentDNS.
     bindA (post net request ''/control/filtering/config''
       (Some (obj [(''enabled'', JBool (flt_Enabled filtering)), (''interval'', JInt (flt_UpdateInterval filtering))]))) (\<lambda>_.
     bindA (reconcileFilterURLs net request currentFilters (flt_FilterURLs filtering) False) (\<lambda>_.
     bindA (whenA v2 (reconcileFilterURLs net request currentFilters (flt_WhitelistURLs filtering) True)) (\<lambda>_.
     bindA (post net request ''/control/filtering/set_rules'' (Some (obj [(''rules'', j_strings (flt_UserRules filtering))]))) (\<lambda>_.
     bindA (whenA v2 (apply_broader net request shared)) (\<lambda>_.
     bindA (post net request ''/control/dns_config'' (Some (dns_payload currentDNS v2 (sh_DNS shared)))) (\<lambda>_.
     case ns_DHCP (doc_NodeSpecific desired) of
       Some dhcp \<Rightarrow> whenA v2 (reconcileDHCP net request dhcp)
     | None \<Rightarrow> retA ())))))))))"

end
