(* ===== verification/Adguard_Node.thy ===== *)
theory Adguard_Node
  imports Adguard_Write
begin

text \<open>
  What a node promises. AdGuard Home is not part of the repository; its API is documented, and
  \<open>follows_api\<close> says of a server what the documentation says: a resource that is read shows the state
  of the node, reading changes nothing, and a command that is accepted has its effect. A command
  that is refused may have had any effect. The state is described in the types of the configuration
  document; clients, rewrites, filter lists and leases are sets, because the order in which a node
  lists them is not documented.
\<close>

record agh =
  agh_listener :: "string list \<times> int"
  agh_filtering :: bool
  agh_interval :: int
  agh_lists :: "bool \<Rightarrow> (string \<times> bool) set"
  agh_rules :: "string list"
  agh_clients :: "PersistentClient set"
  agh_rewrites_on :: bool
  agh_rewrites :: "Rewrite set"
  agh_blocked :: "string list \<times> Schedule"
  agh_safebrowsing :: bool
  agh_parental :: bool
  agh_safesearch :: SafeSearch
  agh_querylog :: QueryLogPolicy
  agh_stats :: StatisticsPolicy
  agh_dns :: DNS
  agh_dhcp :: "DHCPConfig option"
  agh_leases :: "DHCPStaticLease set"


subsection \<open>Commands\<close>

text \<open>The writes of the API that the controller uses, with the arguments of their payloads.\<close>

datatype command =
    FilteringConfig bool int
  | AddURL string bool
  | SetURL filterListResponse bool bool
  | SetRules "string list"
  | AddClient PersistentClient
  | UpdateClient string PersistentClient
  | DeleteClient string
  | RewriteSettings bool
  | AddRewrite Rewrite
  | UpdateRewrite rewriteResponse Rewrite
  | DeleteRewrite string string
  | BlockedServices Services
  | SafeBrowsing bool
  | Parental bool
  | SafeSearchSettings SafeSearch
  | QueryLogConfig QueryLogPolicy
  | StatsConfig StatisticsPolicy
  | DNSConfig dnsInfoResponse DNS
  | SetDHCP DHCPConfig
  | AddLease DHCPStaticLease
  | RemoveLease dhcpLeaseResponse

definition full_rewrite :: "Rewrite \<Rightarrow> json" where
  "full_rewrite r = rewrite_payload (rewrite_Domain r) (rewrite_Answer r) (Some (rewrite_Enabled r))"

fun request_of :: "command \<Rightarrow> string \<times> string \<times> json option" where
  "request_of (FilteringConfig e i) = (''POST'', ''/control/filtering/config'', Some (obj [(''enabled'', JBool e), (''interval'', JInt i)]))"
| "request_of (AddURL url w) = (''POST'', ''/control/filtering/add_url'', Some (add_url_payload url w))"
| "request_of (SetURL item w e) = (''POST'', ''/control/filtering/set_url'', Some (set_url_payload item w e))"
| "request_of (SetRules rs) = (''POST'', ''/control/filtering/set_rules'', Some (obj [(''rules'', j_strings rs)]))"
| "request_of (AddClient c) = (''POST'', ''/control/clients/add'', Some (clientPayload c))"
| "request_of (UpdateClient name c) = (''POST'', ''/control/clients/update'', Some (obj [(''name'', JString name), (''data'', clientPayload c)]))"
| "request_of (DeleteClient name) = (''POST'', ''/control/clients/delete'', Some (obj [(''name'', JString name)]))"
| "request_of (RewriteSettings e) = (''PUT'', ''/control/rewrite/settings/update'', Some (obj [(''enabled'', JBool e)]))"
| "request_of (AddRewrite r) = (''POST'', ''/control/rewrite/add'', Some (full_rewrite r))"
| "request_of (UpdateRewrite old r) = (''PUT'', ''/control/rewrite/update'', Some (rewrite_update old (full_rewrite r)))"
| "request_of (DeleteRewrite d a) = (''POST'', ''/control/rewrite/delete'', Some (rewrite_payload d a None))"
| "request_of (BlockedServices s) = (''PUT'', ''/control/blocked_services/update'', Some (blockedServicesPayload s))"
| "request_of (SafeBrowsing e) = (''POST'', ''/control/safebrowsing'' @ (if e then ''/enable'' else ''/disable''), None)"
| "request_of (Parental e) = (''POST'', ''/control/parental'' @ (if e then ''/enable'' else ''/disable''), None)"
| "request_of (SafeSearchSettings s) = (''PUT'', ''/control/safesearch/settings'', Some (safeSearchPayload s))"
| "request_of (QueryLogConfig q) = (''PUT'', ''/control/querylog/config/update'', Some (obj
     ([(''enabled'', JBool (ql_Enabled q)), (''interval'', JInt (ql_IntervalMillis q)), (''ignored'', j_strings (ql_Ignored q))] @
      [(''anonymize_client_ip'', JBool (ql_AnonymizeClientIP q))] @ [(''ignored_enabled'', JBool (ql_IgnoredEnabled q))])))"
| "request_of (StatsConfig s) = (''PUT'', ''/control/stats/config/update'', Some (obj
     ([(''enabled'', JBool (st_Enabled s)), (''interval'', JInt (st_IntervalMillis s)), (''ignored'', j_strings (st_Ignored s))] @
      [] @ [(''ignored_enabled'', JBool (st_IgnoredEnabled s))])))"
| "request_of (DNSConfig i d) = (''POST'', ''/control/dns_config'', Some (dns_payload i True d))"
| "request_of (SetDHCP c) = (''POST'', ''/control/dhcp/set_config'', Some (dhcp_payload c))"
| "request_of (AddLease l) = (''POST'', ''/control/dhcp/add_static_lease'', Some (lease_payload (lease_MAC l) (lease_IP l) (lease_Hostname l)))"
| "request_of (RemoveLease l) = (''POST'', ''/control/dhcp/remove_static_lease'', Some (lease_payload (lr_MAC l) (lr_IP l) (lr_Hostname l)))"

text \<open>
  A schedule has the days of the week; the payload of the DNS settings has the fields of the
  document when the node offers the two optional ones.
\<close>

definition weekly :: "Schedule \<Rightarrow> bool" where
  "weekly s \<longleftrightarrow> gomap_wf (sched_Days s) \<and> set (map fst (sched_Days s)) \<subseteq> {''sun'', ''mon'', ''tue'', ''wed'', ''thu'', ''fri'', ''sat''}"

fun complete_command :: "command \<Rightarrow> bool" where
  "complete_command (AddClient c) \<longleftrightarrow> weekly (client_BlockedServicesSchedule c)"
| "complete_command (UpdateClient _ c) \<longleftrightarrow> weekly (client_BlockedServicesSchedule c)"
| "complete_command (BlockedServices s) \<longleftrightarrow> weekly (svc_BlockedSchedule s)"
| "complete_command (DNSConfig i d) \<longleftrightarrow> info_CacheEnabled i \<noteq> None \<and> info_UpstreamTimeout i \<noteq> None"
| "complete_command _ \<longleftrightarrow> True"

definition set_url :: "string \<Rightarrow> bool \<Rightarrow> (string \<times> bool) set \<Rightarrow> (string \<times> bool) set" where
  "set_url url e S = (\<lambda>(u, b). if u = url then (u, e) else (u, b)) ` S"

definition in_list :: "bool \<Rightarrow> ((string \<times> bool) set \<Rightarrow> (string \<times> bool) set) \<Rightarrow> agh \<Rightarrow> agh" where
  "in_list w f = agh_lists_update (\<lambda>ls. ls(w := f (ls w)))"

fun effect :: "command \<Rightarrow> agh \<Rightarrow> agh" where
  "effect (FilteringConfig e i) a = a\<lparr>agh_filtering := e, agh_interval := i\<rparr>"
| "effect (AddURL url w) a = in_list w (insert (url, True)) a"
| "effect (SetURL item w e) a = in_list w (set_url (flr_URL item) e) a"
| "effect (SetRules rs) a = a\<lparr>agh_rules := rs\<rparr>"
| "effect (AddClient c) a = agh_clients_update (insert c) a"
| "effect (UpdateClient name c) a = agh_clients_update (\<lambda>S. insert c {x \<in> S. client_Name x \<noteq> name}) a"
| "effect (DeleteClient name) a = agh_clients_update (\<lambda>S. {x \<in> S. client_Name x \<noteq> name}) a"
| "effect (RewriteSettings e) a = a\<lparr>agh_rewrites_on := e\<rparr>"
| "effect (AddRewrite r) a = agh_rewrites_update (insert r) a"
| "effect (UpdateRewrite old r) a = agh_rewrites_update
     (\<lambda>S. insert r {x \<in> S. \<not> (rewrite_Domain x = rwr_Domain old \<and> rewrite_Answer x = rwr_Answer old)}) a"
| "effect (DeleteRewrite d s) a = agh_rewrites_update (\<lambda>S. {x \<in> S. \<not> (rewrite_Domain x = d \<and> rewrite_Answer x = s)}) a"
| "effect (BlockedServices s) a = a\<lparr>agh_blocked := (svc_BlockedServiceIDs s, svc_BlockedSchedule s)\<rparr>"
| "effect (SafeBrowsing e) a = a\<lparr>agh_safebrowsing := e\<rparr>"
| "effect (Parental e) a = a\<lparr>agh_parental := e\<rparr>"
| "effect (SafeSearchSettings s) a = a\<lparr>agh_safesearch := s\<rparr>"
| "effect (QueryLogConfig q) a = a\<lparr>agh_querylog := q\<rparr>"
| "effect (StatsConfig s) a = a\<lparr>agh_stats := s\<rparr>"
| "effect (DNSConfig i d) a = a\<lparr>agh_dns := d\<rparr>"
| "effect (SetDHCP c) a = a\<lparr>agh_dhcp := Some (c\<lparr>dhcp_StaticLeases := None\<rparr>)\<rparr>"
| "effect (AddLease l) a = agh_leases_update (insert l) a"
| "effect (RemoveLease l) a = agh_leases_update (\<lambda>S. S - {leaseModel l}) a"


subsection \<open>Resources\<close>

definition list_entry :: "filterListResponse \<Rightarrow> string \<times> bool" where
  "list_entry i = (flr_URL i, flr_Enabled i)"

definition filter_view :: "filterStatusResponse \<Rightarrow> agh \<Rightarrow> bool" where
  "filter_view fs a \<longleftrightarrow> fs_Enabled fs = Some (agh_filtering a) \<and> fs_Interval fs = agh_interval a \<and> fs_UserRules fs = agh_rules a \<and>
     (\<forall>w. list_entry ` {i \<in> set (filter_items fs). flr_Whitelist i = w} = agh_lists a w)"

definition shows_shared :: "'n net \<Rightarrow> string \<Rightarrow> agh \<Rightarrow> json_reply \<Rightarrow> bool" where
  "shows_shared net path a v \<longleftrightarrow>
    (path = ''/control/filtering/status'' \<longrightarrow> (\<forall>x. dec_filterStatus v = Some x \<longrightarrow> filter_view x a)) \<and>
    (path = ''/control/clients'' \<longrightarrow> (\<forall>x. dec_clients v = Some x \<longrightarrow> distinct (map clientModel x) \<and> set (map clientModel x) = agh_clients a)) \<and>
    (path = ''/control/rewrite/list'' \<longrightarrow> (\<forall>x. v_list dec_rewrite v = Some x \<longrightarrow> distinct (map rewriteModel x) \<and> set (map rewriteModel x) = agh_rewrites a)) \<and>
    (path = ''/control/rewrite/settings'' \<longrightarrow> (\<forall>x. dec_enabled v = Some x \<longrightarrow> x = agh_rewrites_on a)) \<and>
    (path = ''/control/blocked_services/get'' \<longrightarrow> (\<forall>x. dec_blockedServices v = Some x \<longrightarrow> (bsr_IDs x, scheduleModel (bsr_Schedule x)) = agh_blocked a)) \<and>
    (path = ''/control/safebrowsing/status'' \<longrightarrow> (\<forall>x. dec_enabled v = Some x \<longrightarrow> x = agh_safebrowsing a)) \<and>
    (path = ''/control/parental/status'' \<longrightarrow> (\<forall>x. dec_enabled v = Some x \<longrightarrow> x = agh_parental a)) \<and>
    (path = ''/control/safesearch/status'' \<longrightarrow> (\<forall>x. dec_safeSearch v = Some x \<longrightarrow> safeSearchModel x = agh_safesearch a)) \<and>
    (path = ''/control/querylog/config'' \<longrightarrow> (\<forall>x. dec_policy v = Some x \<longrightarrow> pr_IgnoredEnabled x \<noteq> None \<and> queryLogModel x = agh_querylog a)) \<and>
    (path = ''/control/stats/config'' \<longrightarrow> (\<forall>x. dec_policy v = Some x \<longrightarrow> pr_IgnoredEnabled x \<noteq> None \<and> statisticsModel x = agh_stats a)) \<and>
    (path = ''/control/dns_info'' \<longrightarrow> (\<forall>x. dec_dnsInfo net v = Some x \<longrightarrow>
       info_CacheEnabled x \<noteq> None \<and> info_UpstreamTimeout x \<noteq> None \<and> dnsModel x = agh_dns a))"

definition shows_node :: "string \<Rightarrow> agh \<Rightarrow> json_reply \<Rightarrow> bool" where
  "shows_node path a v \<longleftrightarrow>
    (path = ''/control/status'' \<longrightarrow> (\<forall>x. dec_status v = Some x \<longrightarrow> (plainDNSBindHosts (status_DNSAddresses x), status_DNSPort x) = agh_listener a)) \<and>
    (path = ''/control/dhcp/status'' \<longrightarrow> (\<forall>x. dec_dhcpStatus v = Some x \<longrightarrow> agh_dhcp a = Some ((dhcpModel x)\<lparr>dhcp_StaticLeases := None\<rparr>) \<and>
       distinct (map leaseModel (ds_StaticLeases x)) \<and> set (map leaseModel (ds_StaticLeases x)) = agh_leases a))"

definition good_answer :: "'n net \<Rightarrow> string \<Rightarrow> agh \<Rightarrow> http_reply \<Rightarrow> bool" where
  "good_answer net path a r \<longleftrightarrow>
    (rep_StatusCode r = 200 \<longrightarrow> (\<forall>k v. rep_Body r = BodyText k (Inr v) \<longrightarrow> shows_shared net path a v \<and> shows_node path a v)) \<and>
    (path = ''/control/rewrite/settings'' \<longrightarrow> rep_StatusCode r \<notin> {404, 501}) \<and>
    (path = ''/control/dhcp/status'' \<longrightarrow> rep_StatusCode r \<in> {404, 500, 501} \<longleftrightarrow> agh_dhcp a = None)"

definition follows_api :: "'n net \<Rightarrow> ('n \<Rightarrow> agh) \<Rightarrow> NodeProbeRequest \<Rightarrow> bool" where
  "follows_api net view request \<longleftrightarrow>
    (\<forall>path url n r n'. configurationEndpoint net (probe_BaseURL request) path = Some url \<longrightarrow>
       server net (http_request_to request ''GET'' url None) n = (Inr r, n') \<longrightarrow>
       view n' = view n \<and> good_answer net path (view n) r) \<and>
    (\<forall>c method path payload url n r n'. complete_command c \<longrightarrow> request_of c = (method, path, payload) \<longrightarrow>
       configurationEndpoint net (probe_BaseURL request) path = Some url \<longrightarrow>
       server net (http_request_to request method url payload) n = (Inr r, n') \<longrightarrow>
       200 \<le> rep_StatusCode r \<longrightarrow> rep_StatusCode r < 300 \<longrightarrow> view n' = effect c (view n))"

end
