(* ===== verification/Adguard_Plan.thy ===== *)
theory Adguard_Plan
  imports Adguard_Node
begin

text \<open>
  What the loops of \<open>ApplyConfiguration\<close> do to the sets of a node: the commands of one pass over the
  desired entries and one pass over the entries that were there, as functions on sets, and their
  results.
\<close>

subsection \<open>Entries with a key\<close>

text \<open>
  A pass that replaces the entry of each desired key, and a pass that removes the entries of the
  other keys. A step only has to be right on a set that agrees with the one the loop started from
  about the entries of its own key, because the keys are distinct.
\<close>

lemma keyed_loop:
  assumes "distinct (map key ds)" and "\<And>d. key (f d) = key d"
    and "\<And>x. key x \<in> key ` set ds \<Longrightarrow> x \<in> S \<longleftrightarrow> x \<in> S0"
    and "\<And>d S. d \<in> set ds \<Longrightarrow> (\<And>x. key x = key d \<Longrightarrow> x \<in> S \<longleftrightarrow> x \<in> S0) \<Longrightarrow> step d S = insert (f d) {x \<in> S. key x \<noteq> key d}"
  shows "fold step ds S = f ` set ds \<union> {x \<in> S. key x \<notin> key ` set ds}"
  using assms
proof (induction ds arbitrary: S)
  case Nil
  show ?case by simp
next
  case (Cons d ds)
  let ?S = "insert (f d) {x \<in> S. key x \<noteq> key d}"
  have "step d S = ?S" using Cons.prems(3) by (intro Cons.prems(4)) auto
  moreover have "fold step ds ?S = f ` set ds \<union> {x \<in> ?S. key x \<notin> key ` set ds}"
  proof (rule Cons.IH)
    show "distinct (map key ds)" using Cons.prems(1) by simp
    show "x \<in> ?S \<longleftrightarrow> x \<in> S0" if "key x \<in> key ` set ds" for x
      using that Cons.prems(1) Cons.prems(2) [of d] Cons.prems(3) [of x] by (auto intro: rev_image_eqI)
    show "step d' S' = insert (f d') {x \<in> S'. key x \<noteq> key d'}"
      if "d' \<in> set ds" "\<And>x. key x = key d' \<Longrightarrow> x \<in> S' \<longleftrightarrow> x \<in> S0" for d' S'
      using that by (intro Cons.prems(4)) auto
  qed (rule Cons.prems(2))
  ultimately show ?case using Cons.prems(1,2) by auto
qed

lemma keyed_deletes:
  assumes "\<And>c S. step c S = (if P c then S - {x. R c x} else S)"
  shows "fold step cs S = S - {x. \<exists>c \<in> set cs. P c \<and> R c x}"
  by (induction cs arbitrary: S) (auto simp: assms)

lemma keyed_result:
  assumes "m ` C = S" and "\<And>c x. R c x \<Longrightarrow> key x = key (m c)" and "\<And>c. R c (m c)"
  shows "(D \<union> {x \<in> S. key x \<notin> key ` D}) - {x. \<exists>c \<in> C. key (m c) \<notin> key ` D \<and> R c x} = D"
proof -
  have "\<exists>c \<in> C. key (m c) \<notin> key ` D \<and> R c x" if "x \<in> S" "key x \<notin> key ` D" for x
    using that assms(1,3) by blast
  moreover have "key (m c) \<in> key ` D" if "x \<in> D" "R c x" for c x
    using that assms(2) [OF that(2)] by (metis imageI)
  ultimately show ?thesis by blast
qed

text \<open>A loop whose steps update one field of the state updates it once.\<close>

lemma fold_update:
  assumes "\<And>f g a. upd f (upd g a) = upd (\<lambda>x. f (g x)) a" and "\<And>a. upd (\<lambda>x. x) a = a"
  shows "fold (\<lambda>x. upd (h x)) xs a = upd (fold h xs) a"
  by (induction xs arbitrary: a) (simp_all add: assms id_def comp_def)

lemma sorted_unique:
  fixes k :: "'a \<Rightarrow> 'b::linorder"
  assumes "set xs = set ys" "distinct xs" "distinct (map k ys)" "sorted (map k ys)"
  shows "sort_slice (\<lambda>x y. k x < k y) xs = ys"
proof (rule sort_slice_unique [symmetric])
  from assms(3) have "distinct ys" by (simp add: distinct_map)
  with assms(1,2) show "mset ys = mset xs" by (simp add: set_eq_iff_mset_eq_distinct)
  from assms(1-3) show "distinct (map k xs)" by (simp add: distinct_map)
qed (rule assms(4))


subsection \<open>Filter lists\<close>

definition enabled_in :: "(string \<times> bool) set \<Rightarrow> string set" where
  "enabled_in S = {u. (u, True) \<in> S}"

lemma set_url_sets:
  "fst ` set_url u e S = fst ` S"
  "enabled_in (set_url u True S) = enabled_in S \<union> ({u} \<inter> fst ` S)"
  "enabled_in (set_url u False S) = enabled_in S - {u}"
  by (force simp: set_url_def enabled_in_def image_iff split: if_splits)+

definition target_step :: "filterListResponse list \<Rightarrow> bool \<Rightarrow> string \<Rightarrow> (string \<times> bool) set \<Rightarrow> (string \<times> bool) set" where
  "target_step items w target S =
    (case find (\<lambda>i. flr_Whitelist i = w \<and> EqualFold (flr_URL i) target) items of
       Some item \<Rightarrow> if \<not> flr_Enabled item then set_url (flr_URL item) True S else S
     | None \<Rightarrow> insert (target, True) S)"

definition disable_step :: "bool \<Rightarrow> string list \<Rightarrow> filterListResponse \<Rightarrow> (string \<times> bool) set \<Rightarrow> (string \<times> bool) set" where
  "disable_step w targets item S =
    (if flr_Whitelist item = w \<and> flr_Enabled item \<and> ToLower (flr_URL item) \<notin> set targets then set_url (flr_URL item) False S else S)"

definition lists_after :: "filterListResponse list \<Rightarrow> bool \<Rightarrow> string list \<Rightarrow> (string \<times> bool) set \<Rightarrow> (string \<times> bool) set" where
  "lists_after items w desired S = fold (disable_step w (map ToLower desired)) items (fold (target_step items w) desired S)"

lemma target_loop:
  assumes "list_entry ` {i \<in> set items. flr_Whitelist i = w} = S0"
    and "\<And>u d. u \<in> fst ` S0 \<Longrightarrow> d \<in> set ds \<Longrightarrow> EqualFold u d \<Longrightarrow> u = d"
    and "fst ` S0 \<subseteq> fst ` S" "enabled_in S0 \<subseteq> enabled_in S"
  shows "enabled_in (fold (target_step items w) ds S) = enabled_in S \<union> set ds"
  using assms(2-)
proof (induction ds arbitrary: S)
  case Nil
  show ?case by simp
next
  case (Cons d ds)
  let ?S = "target_step items w d S"
  have "enabled_in ?S = insert d (enabled_in S) \<and> fst ` S \<subseteq> fst ` ?S"
  proof (cases "find (\<lambda>i. flr_Whitelist i = w \<and> EqualFold (flr_URL i) d) items")
    case None
    then show ?thesis by (auto simp: target_step_def enabled_in_def)
  next
    case (Some i)
    then have i: "i \<in> set items" "flr_Whitelist i = w" "EqualFold (flr_URL i) d" by (auto simp: find_Some_iff)
    then have entry: "(flr_URL i, flr_Enabled i) \<in> S0" unfolding assms(1) [symmetric] by (auto simp: list_entry_def)
    with Cons.prems(1) [of "flr_URL i" d] i(3) have url: "flr_URL i = d" by force
    from entry url Cons.prems(2) have known: "d \<in> fst ` S" by force
    have on: "d \<in> enabled_in S" if "flr_Enabled i" using that entry url Cons.prems(3) by (auto simp: enabled_in_def)
    show ?thesis
    proof (cases "flr_Enabled i")
      case True
      with on Some show ?thesis by (auto simp: target_step_def)
    next
      case False
      with known Some url show ?thesis by (auto simp: target_step_def set_url_sets)
    qed
  qed
  then have s: "enabled_in ?S = insert d (enabled_in S)" "fst ` S \<subseteq> fst ` ?S" by auto
  have "enabled_in (fold (target_step items w) ds ?S) = enabled_in ?S \<union> set ds"
    using s Cons.prems by (intro Cons.IH) auto
  then show ?case using s by simp
qed

lemma disable_loop:
  "enabled_in (fold (disable_step w targets) items S) =
     enabled_in S - {u. \<exists>i \<in> set items. (flr_Whitelist i = w \<and> flr_Enabled i \<and> ToLower (flr_URL i) \<notin> set targets) \<and> u = flr_URL i}"
  by (induction items arbitrary: S) (auto simp: disable_step_def set_url_sets)

text \<open>Afterwards exactly the desired lists are enabled, unless two URLs differ in case only.\<close>

lemma lists_after_enabled:
  assumes "list_entry ` {i \<in> set items. flr_Whitelist i = w} = S"
    and "\<And>u d. u \<in> fst ` S \<Longrightarrow> d \<in> set ds \<Longrightarrow> EqualFold u d \<Longrightarrow> u = d"
  shows "enabled_in (lists_after items w ds S) = set ds"
proof -
  let ?off = "{u. \<exists>i \<in> set items. (flr_Whitelist i = w \<and> flr_Enabled i \<and> ToLower (flr_URL i) \<notin> ToLower ` set ds) \<and> u = flr_URL i}"
  have off: "?off = {u \<in> enabled_in S. ToLower u \<notin> ToLower ` set ds}"
    unfolding assms(1) [symmetric] enabled_in_def list_entry_def by (auto simp: image_iff)
  have same: "u \<in> set ds" if "u \<in> enabled_in S" "ToLower u \<in> ToLower ` set ds" for u
  proof -
    from that(2) obtain d where d: "d \<in> set ds" "EqualFold u d" by (auto simp: EqualFold_def)
    from that(1) have "u \<in> fst ` S" by (force simp: enabled_in_def)
    from assms(2) [OF this d] d(1) show ?thesis by simp
  qed
  have "enabled_in (lists_after items w ds S) = (enabled_in S \<union> set ds) - ?off"
    unfolding lists_after_def disable_loop by (simp add: target_loop [OF assms(1) assms(2)])
  also have "\<dots> = set ds" unfolding off using same by auto
  finally show ?thesis .
qed


subsection \<open>Clients and rewrites\<close>

abbreviation client_id :: "PersistentClient \<Rightarrow> string" where
  "client_id c \<equiv> ToLower (client_Name c)"

definition client_step :: "clientResponse list \<Rightarrow> PersistentClient \<Rightarrow> PersistentClient set \<Rightarrow> PersistentClient set" where
  "client_step current item S =
    (case find_last (\<lambda>old. ToLower (cr_Name old) = client_id item) current of
       Some old \<Rightarrow> insert item {x \<in> S. client_Name x \<noteq> cr_Name old}
     | None \<Rightarrow> insert item S)"

definition client_delete :: "string list \<Rightarrow> clientResponse \<Rightarrow> PersistentClient set \<Rightarrow> PersistentClient set" where
  "client_delete targets item S = (if ToLower (cr_Name item) \<notin> set targets then {x \<in> S. client_Name x \<noteq> cr_Name item} else S)"

definition clients_after :: "clientResponse list \<Rightarrow> PersistentClient list \<Rightarrow> PersistentClient set \<Rightarrow> PersistentClient set" where
  "clients_after current desired S = fold (client_delete (map client_id desired)) current (fold (client_step current) desired S)"

lemma find_last_SomeD: "find_last P xs = Some x \<Longrightarrow> x \<in> set xs \<and> P x"
  by (metis find_last_def find_Some_iff nth_mem set_rev)

lemma find_last_NoneD: "find_last P xs = None \<Longrightarrow> x \<in> set xs \<Longrightarrow> \<not> P x"
  by (auto simp: find_last_def find_None_iff)

lemma clientModel_Name [simp]: "client_Name (clientModel c) = cr_Name c"
  by (simp add: clientModel_def)

lemma client_step_keyed:
  assumes cs: "set (map clientModel cs) = S0" and inj: "inj_on client_id S0"
    and agree: "\<And>x. client_id x = client_id d \<Longrightarrow> x \<in> S \<longleftrightarrow> x \<in> S0"
  shows "client_step cs d S = insert d {x \<in> S. client_id x \<noteq> client_id d}"
proof (cases "find_last (\<lambda>old. ToLower (cr_Name old) = client_id d) cs")
  case None
  then have "client_id x \<noteq> client_id d" if "x \<in> S0" for x
    using that unfolding cs [symmetric] by (auto dest: find_last_NoneD)
  with agree None show ?thesis by (auto simp: client_step_def)
next
  case (Some old)
  then have old: "clientModel old \<in> S0" "ToLower (cr_Name old) = client_id d"
    unfolding cs [symmetric] by (auto dest: find_last_SomeD)
  have "client_Name x = cr_Name old \<longleftrightarrow> client_id x = client_id d" if "x \<in> S" for x
  proof
    assume "client_id x = client_id d"
    moreover from this agree that have "x \<in> S0" by blast
    ultimately have "x = clientModel old" using inj_onD [OF inj, of x "clientModel old"] old by simp
    then show "client_Name x = cr_Name old" by simp
  qed (simp add: old)
  with Some show ?thesis by (auto simp: client_step_def)
qed

lemma clients_after_exact:
  assumes cs: "set (map clientModel cs) = S" and inj: "inj_on client_id S" and "distinct (map client_id ds)"
  shows "clients_after cs ds S = set ds"
proof -
  have "fold (client_step cs) ds S = (\<lambda>d. d) ` set ds \<union> {x \<in> S. client_id x \<notin> client_id ` set ds}"
    by (rule keyed_loop) (use client_step_keyed [OF cs inj] assms(3) in blast)+
  moreover have "fold (client_delete ts) cs T = T - {x. \<exists>c \<in> set cs. ToLower (cr_Name c) \<notin> set ts \<and> client_Name x = cr_Name c}" for ts T
    by (rule keyed_deletes) (auto simp: client_delete_def)
  ultimately show ?thesis
    unfolding clients_after_def
    using keyed_result [of clientModel "set cs" S "\<lambda>c x. client_Name x = cr_Name c" client_id "set ds"] cs by simp
qed

abbreviation rewrite_of :: "Rewrite \<Rightarrow> string" where
  "rewrite_of r \<equiv> rewrite_id (rewrite_Domain r) (rewrite_Answer r)"

definition same_rewrite :: "rewriteResponse \<Rightarrow> Rewrite \<Rightarrow> bool" where
  "same_rewrite old x \<longleftrightarrow> rewrite_Domain x = rwr_Domain old \<and> rewrite_Answer x = rwr_Answer old"

definition rewrite_step :: "rewriteResponse list \<Rightarrow> Rewrite \<Rightarrow> Rewrite set \<Rightarrow> Rewrite set" where
  "rewrite_step current item S =
    (case find_last (\<lambda>old. rewrite_id (rwr_Domain old) (rwr_Answer old) = rewrite_of item) current of
       Some old \<Rightarrow> if valueOrDefault (rwr_Enabled old) True \<noteq> rewrite_Enabled item then insert item {x \<in> S. \<not> same_rewrite old x} else S
     | None \<Rightarrow> insert item S)"

definition rewrite_delete :: "string list \<Rightarrow> rewriteResponse \<Rightarrow> Rewrite set \<Rightarrow> Rewrite set" where
  "rewrite_delete targets item S =
    (if rewrite_id (rwr_Domain item) (rwr_Answer item) \<notin> set targets then {x \<in> S. \<not> same_rewrite item x} else S)"

definition rewrites_after :: "rewriteResponse list \<Rightarrow> Rewrite list \<Rightarrow> Rewrite set \<Rightarrow> Rewrite set" where
  "rewrites_after current desired S = fold (rewrite_delete (map rewrite_of desired)) current (fold (rewrite_step current) desired S)"

lemma rewriteModel_of [simp]: "rewrite_Domain (rewriteModel r) = rwr_Domain r" "rewrite_Answer (rewriteModel r) = rwr_Answer r"
  "rewrite_Enabled (rewriteModel r) = valueOrDefault (rwr_Enabled r) True"
  by (simp_all add: rewriteModel_def)

lemma rewrite_step_keyed:
  assumes cs: "set (map rewriteModel cs) = S0" and inj: "inj_on rewrite_of S0"
    and agree: "\<And>x. rewrite_of x = rewrite_of d \<Longrightarrow> x \<in> S \<longleftrightarrow> x \<in> S0"
    and case_same: "\<And>x. x \<in> S0 \<Longrightarrow> rewrite_of x = rewrite_of d \<Longrightarrow> rewrite_Domain x = rewrite_Domain d \<and> rewrite_Answer x = rewrite_Answer d"
  shows "rewrite_step cs d S = insert d {x \<in> S. rewrite_of x \<noteq> rewrite_of d}"
proof (cases "find_last (\<lambda>old. rewrite_id (rwr_Domain old) (rwr_Answer old) = rewrite_of d) cs")
  case None
  then have "rewrite_of x \<noteq> rewrite_of d" if "x \<in> S0" for x
    using that unfolding cs [symmetric] by (auto dest: find_last_NoneD)
  with agree None show ?thesis by (auto simp: rewrite_step_def)
next
  case (Some old)
  then have old: "rewriteModel old \<in> S0" "rewrite_of (rewriteModel old) = rewrite_of d"
    unfolding cs [symmetric] by (auto dest: find_last_SomeD)
  from case_same [OF old] have same: "rwr_Domain old = rewrite_Domain d" "rwr_Answer old = rewrite_Answer d" by simp_all
  have only: "x = rewriteModel old" if "x \<in> S" "rewrite_of x = rewrite_of d" for x
    using that agree [OF that(2)] old inj_onD [OF inj, of x "rewriteModel old"] by simp
  have gone: "same_rewrite old x \<longleftrightarrow> rewrite_of x = rewrite_of d" if "x \<in> S" for x
    using only [OF that] same by (auto simp: same_rewrite_def)
  show ?thesis
  proof (cases "valueOrDefault (rwr_Enabled old) True = rewrite_Enabled d")
    case True
    with same have "rewriteModel old = d" by (simp add: rewriteModel_def)
    with old agree only True Some show ?thesis by (auto simp: rewrite_step_def)
  next
    case False
    with Some gone show ?thesis by (auto simp: rewrite_step_def)
  qed
qed

lemma rewrites_after_exact:
  assumes cs: "set (map rewriteModel cs) = S" and inj: "inj_on rewrite_of S" and "distinct (map rewrite_of ds)"
    and case_same: "\<And>x d. x \<in> S \<Longrightarrow> d \<in> set ds \<Longrightarrow> rewrite_of x = rewrite_of d \<Longrightarrow>
      rewrite_Domain x = rewrite_Domain d \<and> rewrite_Answer x = rewrite_Answer d"
  shows "rewrites_after cs ds S = set ds"
proof -
  have "fold (rewrite_step cs) ds S = (\<lambda>d. d) ` set ds \<union> {x \<in> S. rewrite_of x \<notin> rewrite_of ` set ds}"
    by (rule keyed_loop) (use rewrite_step_keyed [OF cs inj] case_same assms(3) in blast)+
  moreover have "fold (rewrite_delete ts) cs T =
      T - {x. \<exists>c \<in> set cs. rewrite_id (rwr_Domain c) (rwr_Answer c) \<notin> set ts \<and> same_rewrite c x}" for ts T
    by (rule keyed_deletes) (auto simp: rewrite_delete_def)
  ultimately show ?thesis
    unfolding rewrites_after_def
    using keyed_result [of rewriteModel "set cs" S same_rewrite rewrite_of "set ds"] cs by (simp add: same_rewrite_def)
qed


subsection \<open>Static leases\<close>

abbreviation lease_id :: "DHCPStaticLease \<Rightarrow> string" where
  "lease_id l \<equiv> ToLower (lease_MAC l)"

definition by_mac :: "dhcpLeaseResponse list \<Rightarrow> dhcpLeaseResponse gomap" where
  "by_mac ls = fold (\<lambda>l. AList.update (ToLower (lr_MAC l)) l) ls []"

definition lease_differs :: "dhcpLeaseResponse \<Rightarrow> DHCPStaticLease \<Rightarrow> bool" where
  "lease_differs old lease \<longleftrightarrow> lr_IP old \<noteq> lease_IP lease \<or> lr_Hostname old \<noteq> lease_Hostname lease"

definition lease_kept :: "dhcpLeaseResponse gomap \<Rightarrow> DHCPStaticLease \<Rightarrow> DHCPStaticLease" where
  "lease_kept m d = (case map_of m (lease_id d) of
     Some old \<Rightarrow> if lease_differs old d \<or> lease_id (leaseModel old) \<noteq> lease_id d then d else leaseModel old
   | None \<Rightarrow> d)"

definition lease_step :: "dhcpLeaseResponse gomap \<Rightarrow> DHCPStaticLease \<Rightarrow> DHCPStaticLease set \<Rightarrow> DHCPStaticLease set" where
  "lease_step m d S = (case map_of m (lease_id d) of
     Some old \<Rightarrow> if lease_differs old d then insert d (S - {leaseModel old}) else S
   | None \<Rightarrow> insert d S)"

definition lease_delete :: "dhcpLeaseResponse gomap \<Rightarrow> string list \<Rightarrow> string \<Rightarrow> DHCPStaticLease set \<Rightarrow> DHCPStaticLease set" where
  "lease_delete m targets k S = (case map_of m k of Some l \<Rightarrow> if k \<notin> set targets then S - {leaseModel l} else S | None \<Rightarrow> S)"

lemma map_of_by_mac: "map_of (by_mac ls) k = find_last (\<lambda>l. ToLower (lr_MAC l) = k) ls"
  by (induction ls rule: rev_induct) (simp_all add: by_mac_def find_last_def update_conv')

lemma leaseModel_id [simp]: "lease_MAC (leaseModel l) = lr_MAC l" "lease_IP (leaseModel l) = lr_IP l"
  "lease_Hostname (leaseModel l) = lr_Hostname l"
  by (simp_all add: leaseModel_def)

lemma by_mac_SomeD:
  "map_of (by_mac ls) k = Some l \<Longrightarrow> leaseModel l \<in> set (map leaseModel ls) \<and> lease_id (leaseModel l) = k"
  by (auto simp: map_of_by_mac dest: find_last_SomeD)

lemma by_mac_known:
  assumes "x \<in> set (map leaseModel ls)" and "inj_on lease_id (set (map leaseModel ls))"
  obtains l where "map_of (by_mac ls) (lease_id x) = Some l" "leaseModel l = x"
proof (cases "map_of (by_mac ls) (lease_id x)")
  case None
  with assms(1) show ?thesis by (auto simp: map_of_by_mac dest: find_last_NoneD)
next
  case (Some l)
  with by_mac_SomeD [OF Some] assms(1) have "leaseModel l = x" by (intro inj_onD [OF assms(2)]) simp_all
  with Some show ?thesis by (rule that)
qed

lemma lease_step_keyed:
  assumes cs: "set (map leaseModel ls) = S0" and inj: "inj_on lease_id S0"
    and agree: "\<And>x. lease_id x = lease_id d \<Longrightarrow> x \<in> S \<longleftrightarrow> x \<in> S0"
  shows "lease_step (by_mac ls) d S = insert (lease_kept (by_mac ls) d) {x \<in> S. lease_id x \<noteq> lease_id d}"
proof (cases "map_of (by_mac ls) (lease_id d)")
  case None
  have "lease_id x \<noteq> lease_id d" if "x \<in> S0" for x
    using that None by_mac_known [of x ls] cs inj by (metis option.distinct(1))
  with agree None show ?thesis by (auto simp: lease_step_def lease_kept_def)
next
  case (Some old)
  from by_mac_SomeD [OF Some] have old: "leaseModel old \<in> S0" "lease_id (leaseModel old) = lease_id d" unfolding cs by simp_all
  have only: "x = leaseModel old \<longleftrightarrow> lease_id x = lease_id d" if "x \<in> S" for x
    using that agree [of x] old inj_onD [OF inj, of x "leaseModel old"] by auto
  from agree [OF old(2)] old(1) have "leaseModel old \<in> S" by simp
  with only Some old(2) show ?thesis by (auto simp: lease_step_def lease_kept_def)
qed

lemma lease_kept_id: "lease_id (lease_kept m d) = lease_id d"
  by (auto simp: lease_kept_def split: option.splits)

lemma leases_after_exact:
  assumes cs: "set (map leaseModel ls) = S" and inj: "inj_on lease_id S" and dist: "distinct (map lease_id ds)"
    and rest: "\<And>k. k \<notin> lease_id ` set ds \<Longrightarrow> map_of m k = map_of (by_mac ls) k" and keys: "set ks = fst ` set m"
  shows "fold (lease_delete m (map lease_id ds)) ks (fold (lease_step (by_mac ls)) ds S) = lease_kept (by_mac ls) ` set ds"
proof -
  let ?f = "lease_kept (by_mac ls)" and ?T = "lease_id ` set ds"
  have "fold (lease_step (by_mac ls)) ds S = ?f ` set ds \<union> {x \<in> S. lease_id x \<notin> ?T}"
    by (rule keyed_loop [where key = lease_id and f = ?f and S0 = S])
       (rule dist, rule lease_kept_id, simp, rule lease_step_keyed [OF cs inj], simp)
  moreover have "fold (lease_delete m ts) ks U = U - {x. \<exists>k \<in> set ks. k \<notin> set ts \<and> (\<exists>l. map_of m k = Some l \<and> x = leaseModel l)}" for ts U
    by (rule keyed_deletes) (auto simp: lease_delete_def split: option.splits)
  moreover have "\<exists>k \<in> set ks. k \<notin> ?T \<and> (\<exists>l. map_of m k = Some l \<and> x = leaseModel l)" if x: "x \<in> S" "lease_id x \<notin> ?T" for x
  proof -
    from x(1) inj obtain l where "map_of (by_mac ls) (lease_id x) = Some l" "leaseModel l = x"
      using by_mac_known [of x ls] unfolding cs by blast
    then have l: "map_of m (lease_id x) = Some l" "leaseModel l = x" by (simp_all add: rest [OF x(2)])
    from l(1) have "lease_id x \<in> set ks" unfolding keys by (auto dest: map_of_SomeD intro: rev_image_eqI)
    with l x(2) show ?thesis by blast
  qed
  moreover have "k \<in> ?T" if "map_of m k = Some l" "?f d = leaseModel l" "d \<in> set ds" for k l d
  proof (rule ccontr)
    assume k: "k \<notin> ?T"
    with that(1) have "lease_id (leaseModel l) = k" using by_mac_SomeD [of ls k l] by (simp add: rest)
    with that(2,3) lease_kept_id [of "by_mac ls" d] have "k = lease_id d" by simp
    with that(3) k show False by blast
  qed
  ultimately show ?thesis by auto
qed

lemma canonical_lease_kept:
  assumes "canonicalLease d = d"
  shows "canonicalLease (lease_kept m d) = d"
proof -
  have "canonicalLease (leaseModel old) = d" if "\<not> lease_differs old d" "lease_id (leaseModel old) = lease_id d" for old
  proof -
    from assms have mac: "ToLower (TrimSpace (lease_MAC d)) = lease_MAC d"
      and others: "TrimSpace (lease_IP d) = lease_IP d" "TrimSpace (lease_Hostname d) = lease_Hostname d"
      by (cases d; simp add: canonicalLease_def)+
    have "trimmed (ToLower (TrimSpace (lease_MAC d)))" by (simp add: trimmed_TrimSpace)
    then have "trimmed (lease_MAC d)" unfolding mac .
    then have "trimmed (ToLower (lr_MAC old))" using that(2) by simp
    then have "TrimSpace (lr_MAC old) = lr_MAC old" by (simp add: TrimSpace_id)
    moreover from mac have "ToLower (lease_MAC d) = lease_MAC d" by (metis ToLower_idem)
    ultimately show ?thesis
      using that others by (auto simp: canonicalLease_def lease_differs_def intro!: DHCPStaticLease.equality)
  qed
  with assms show ?thesis by (auto simp: lease_kept_def split: option.splits)
qed

end
