(* ===== verification/Adguard_Converge.thy ===== *)
theory Adguard_Converge
  imports Adguard_Plan
begin

text \<open>
  \<open>ApplyConfiguration\<close> against a node that follows its API: each part of it brings the part of the
  node that it is responsible for to the document and leaves the others alone, and what is then read
  back has no managed difference.
\<close>



definition runs :: "('n \<Rightarrow> agh) \<Rightarrow> ('n, 'a) api \<Rightarrow> (agh \<Rightarrow> 'a \<Rightarrow> agh \<Rightarrow> bool) \<Rightarrow> bool" where
  "runs view m Q \<longleftrightarrow> (\<forall>n x n'. m n = (Inr x, n') \<longrightarrow> Q (view n) x (view n'))"

lemma runsD: "runs view m Q \<Longrightarrow> m n = (Inr x, n') \<Longrightarrow> Q (view n) x (view n')"
  by (auto simp: runs_def)

lemma runs_mono: "runs view m P \<Longrightarrow> (\<And>a x b. P a x b \<Longrightarrow> Q a x b) \<Longrightarrow> runs view m Q"
  by (auto simp: runs_def)

lemma bindA_Inr: "bindA m f n = (Inr y, n') \<longleftrightarrow> (\<exists>x k. m n = (Inr x, k) \<and> f x k = (Inr y, n'))"
  by (auto simp: bindA_def split: prod.splits sum.splits)

lemma runs_ret: "runs view (retA x) (\<lambda>a y b. y = x \<and> b = a)"
  by (auto simp: runs_def retA_def)

lemma runs_fail: "runs view (failA err) Q"
  by (auto simp: runs_def failA_def)

lemma runs_bind:
  assumes "runs view m P" and "\<And>x. runs view (f x) (R x)" and "\<And>a x b y c. P a x b \<Longrightarrow> R x b y c \<Longrightarrow> Q a y c"
  shows "runs view (bindA m f) Q"
  using assms unfolding runs_def bindA_Inr by blast

lemma runs_seq:
  assumes "runs view m (\<lambda>a _ b. b = g a)" and "runs view k (\<lambda>a _ b. b = h a)"
  shows "runs view (bindA m (\<lambda>_. k)) (\<lambda>a _ b. b = h (g a))"
  by (rule runs_bind [OF assms]) simp

lemma runs_when:
  assumes "c \<Longrightarrow> runs view m (\<lambda>a _ b. b = g a)"
  shows "runs view (whenA c m) (\<lambda>a _ b. b = (if c then g a else a))"
  using assms by (auto simp: whenA_def runs_def retA_def)

lemma runs_when_update:
  assumes "runs view m (\<lambda>a _ b. b = upd f a)" and "\<And>a. upd (\<lambda>x. x) a = a" and "g = (if c then f else (\<lambda>x. x))"
  shows "runs view (whenA c m) (\<lambda>a _ b. b = upd g a)"
  using assms by (auto simp: whenA_def runs_def retA_def)

lemma runs_forA:
  assumes "\<And>x. x \<in> set xs \<Longrightarrow> runs view (f x) (\<lambda>a _ b. b = g x a)"
  shows "runs view (forA f xs) (\<lambda>a _ b. b = fold g xs a)"
  using assms
proof (induction xs)
  case Nil
  show ?case using runs_ret [of view "()"] by (auto intro: runs_mono)
next
  case (Cons x xs)
  have "runs view (forA f xs) (\<lambda>a _ b. b = fold g xs a)" by (rule Cons.IH) (simp add: Cons.prems)
  from runs_seq [OF Cons.prems this] show ?case by simp
qed


subsection \<open>Single calls\<close>

lemma exchange_Inr:
  assumes "exchange net purpose request method path payload n = (Inr r, n')"
  obtains url where "configurationEndpoint net (probe_BaseURL request) path = Some url"
    and "server net (http_request_to request method url payload) n = (Inr r, n')"
proof -
  from assms obtain k where k: "checkA (transport net request) n = (Inr (), k)"
    and e: "(case configurationEndpoint net (probe_BaseURL request) path of
       None \<Rightarrow> failA (NewError ErrorNodeResponse ''the node URL is invalid'')
     | Some endpoint \<Rightarrow> perform net purpose (http_request_to request method endpoint payload)) k = (Inr r, n')"
    unfolding exchange_def bindA_Inr by auto
  from k have "k = n" by (auto simp: checkA_def retA_def failA_def split: option.splits)
  with e show thesis
    by (cases "server net (http_request_to request method (the (configurationEndpoint net (probe_BaseURL request) path)) payload) n")
       (auto simp: perform_def failA_def split: option.splits if_splits sum.splits intro: that)
qed

lemma runs_send:
  assumes "follows_api net view request" and "complete_command c" and "request_of c = (method, path, payload)"
  shows "runs view (send net request method path payload) (\<lambda>a _ b. b = effect c a)"
  unfolding runs_def
proof (intro allI impI)
  fix n x n'
  assume "send net request method path payload n = (Inr x, n')"
  then obtain r where "exchange net ''AdGuard Home mutation'' request method path payload n = (Inr r, n')"
    and "200 \<le> rep_StatusCode r" "rep_StatusCode r < 300"
    unfolding send_def bindA_Inr by (auto simp: failA_def retA_def split: if_splits)
  with assms show "view n' = effect c (view n)" unfolding follows_api_def by (auto elim!: exchange_Inr)
qed

lemma runs_post:
  "follows_api net view request \<Longrightarrow> request_of c = (''POST'', path, payload) \<Longrightarrow> complete_command c \<Longrightarrow>
     runs view (post net request path payload) (\<lambda>a _ b. b = effect c a)"
  unfolding post_def by (rule runs_send)

lemma runs_put:
  "follows_api net view request \<Longrightarrow> request_of c = (''PUT'', path, payload) \<Longrightarrow> complete_command c \<Longrightarrow>
     runs view (put net request path payload) (\<lambda>a _ b. b = effect c a)"
  unfolding put_def by (rule runs_send)

lemma runs_getResource:
  assumes "follows_api net view request"
  shows "runs view (getResource net request path dec unavailable) (\<lambda>a p b. b = a \<and>
    (fst p \<longrightarrow> (\<exists>v. dec v = Some (snd p) \<and> shows_shared net path a v \<and> shows_node path a v)) \<and>
    (path = ''/control/rewrite/settings'' \<and> set unavailable = {404, 501} \<longrightarrow> fst p) \<and>
    (path = ''/control/dhcp/status'' \<and> set unavailable = {404, 500, 501} \<longrightarrow> fst p = (agh_dhcp a \<noteq> None)))"
  unfolding runs_def
proof (intro allI impI)
  fix n y n'
  assume "getResource net request path dec unavailable n = (Inr y, n')"
  then obtain r where e: "exchange net ''AdGuard Home configuration'' request ''GET'' path None n = (Inr r, n')"
    and y: "y = (False, zero_of dec) \<and> rep_StatusCode r \<in> set unavailable \<or>
      (\<exists>x v k. y = (True, x) \<and> rep_StatusCode r = 200 \<and> rep_StatusCode r \<notin> set unavailable \<and> rep_Body r = BodyText k (Inr v) \<and> dec v = Some x)"
    unfolding getResource_def bindA_Inr
    by (auto simp: Let_def failA_def retA_def read_body_def split: if_splits body.splits sum.splits option.splits)
  from e obtain url where "configurationEndpoint net (probe_BaseURL request) path = Some url"
    and "server net (http_request_to request ''GET'' url None) n = (Inr r, n')"
    by (rule exchange_Inr)
  with assms have "view n' = view n" and "good_answer net path (view n) r"
    unfolding follows_api_def by blast+
  with y show "view n' = view n \<and>
    (fst y \<longrightarrow> (\<exists>v. dec v = Some (snd y) \<and> shows_shared net path (view n) v \<and> shows_node path (view n) v)) \<and>
    (path = ''/control/rewrite/settings'' \<and> set unavailable = {404, 501} \<longrightarrow> fst y) \<and>
    (path = ''/control/dhcp/status'' \<and> set unavailable = {404, 500, 501} \<longrightarrow> fst y = (agh_dhcp (view n) \<noteq> None))"
    by (fastforce simp: good_answer_def)
qed

lemma getResource_available: "getResource net request path dec [] n = (Inr (ok, x), n') \<Longrightarrow> ok"
  unfolding getResource_def bindA_Inr
  by (auto simp: Let_def failA_def retA_def split: if_splits sum.splits)

lemma runs_get:
  assumes "follows_api net view request"
  shows "runs view (api_get net request path dec)
    (\<lambda>a x b. b = a \<and> (\<exists>v. dec v = Some x \<and> shows_shared net path a v \<and> shows_node path a v))"
  using runs_getResource [OF assms, of path dec "[]"] getResource_available [of net request path dec]
  unfolding runs_def api_get_def bindA_Inr retA_def by fastforce

lemma runs_getOptionalEndpoint:
  assumes "follows_api net view request"
  shows "runs view (getOptionalEndpoint net request ''/control/rewrite/settings'' dec) (\<lambda>a p b. b = a \<and> fst p)"
  unfolding getOptionalEndpoint_def by (rule runs_mono [OF runs_getResource [OF assms]]) auto

lemma runs_getOptional:
  assumes "follows_api net view request"
  shows "runs view (getOptional net request ''/control/dhcp/status'' dec) (\<lambda>a p b. b = a \<and> fst p = (agh_dhcp a \<noteq> None) \<and>
    (fst p \<longrightarrow> (\<exists>v. dec v = Some (snd p) \<and> shows_node ''/control/dhcp/status'' a v)))"
  unfolding getOptional_def by (rule runs_mono [OF runs_getResource [OF assms]]) auto


subsection \<open>The parts of an application\<close>

lemma in_list_id: "in_list w (\<lambda>S. S) a = a"
  by (simp add: in_list_def)

lemma in_list_comp: "in_list w f (in_list w g a) = in_list w (\<lambda>S. f (g S)) a"
  by (simp add: in_list_def comp_def)

lemma runs_list_entry:
  assumes "follows_api net view request"
  shows "runs view (enable_target net request items w d) (\<lambda>a _ b. b = in_list w (target_step items w d) a)"
proof (cases "find (\<lambda>i. flr_Whitelist i = w \<and> EqualFold (flr_URL i) d) items")
  case None
  then have "target_step items w d = insert (d, True)" by (simp add: target_step_def fun_eq_iff)
  with None runs_post [OF assms, of "AddURL d w"] show ?thesis by (simp add: enable_target_def)
next
  case (Some i)
  then have "target_step items w d = (if \<not> flr_Enabled i then set_url (flr_URL i) True else (\<lambda>S. S))"
    by (simp add: target_step_def fun_eq_iff)
  then have "runs view (whenA (\<not> flr_Enabled i) (post net request ''/control/filtering/set_url'' (Some (set_url_payload i w True))))
      (\<lambda>a _ b. b = in_list w (target_step items w d) a)"
    by (intro runs_when_update [where upd = "in_list w" and f = "set_url (flr_URL i) True"])
       (use runs_post [OF assms, of "SetURL i w True"] in \<open>auto simp: in_list_id\<close>)
  with Some show ?thesis by (simp add: enable_target_def)
qed

lemma runs_reconcileFilterURLs:
  assumes "follows_api net view request"
  shows "runs view (reconcileFilterURLs net request fs ds w) (\<lambda>a _ b. b = in_list w (lists_after (filter_items fs) w ds) a)"
proof -
  have "runs view (forA (enable_target net request (filter_items fs) w) ds)
      (\<lambda>a _ b. b = in_list w (fold (target_step (filter_items fs) w) ds) a)"
    by (rule runs_mono [OF runs_forA [OF runs_list_entry [OF assms]]]) (simp add: fold_update in_list_id in_list_comp)
  moreover have "runs view (forA (\<lambda>i. whenA (flr_Whitelist i = w \<and> flr_Enabled i \<and> ToLower (flr_URL i) \<notin> set (map ToLower ds))
        (post net request ''/control/filtering/set_url'' (Some (set_url_payload i w False)))) (filter_items fs))
      (\<lambda>a _ b. b = fold (\<lambda>i. in_list w (disable_step w (map ToLower ds) i)) (filter_items fs) a)"
  proof (rule runs_forA)
    fix i
    show "runs view (whenA (flr_Whitelist i = w \<and> flr_Enabled i \<and> ToLower (flr_URL i) \<notin> set (map ToLower ds))
        (post net request ''/control/filtering/set_url'' (Some (set_url_payload i w False))))
      (\<lambda>a _ b. b = in_list w (disable_step w (map ToLower ds) i) a)"
      by (rule runs_when_update [where upd = "in_list w" and f = "set_url (flr_URL i) False"])
         (use runs_post [OF assms, of "SetURL i w False"] in \<open>auto simp: in_list_id disable_step_def fun_eq_iff\<close>)
  qed
  ultimately show ?thesis
    unfolding reconcileFilterURLs_def Let_def
    by (rule runs_bind) (simp add: fold_update in_list_id in_list_comp lists_after_def [abs_def])
qed

lemma runs_reconcileClients:
  assumes "follows_api net view request" and "list_all (\<lambda>c. weekly (client_BlockedServicesSchedule c)) ds" and "distinct (map client_id ds)"
  shows "runs view (reconcileClients net request ds) (\<lambda>a _ b. inj_on client_id (agh_clients a) \<longrightarrow> b = a\<lparr>agh_clients := set ds\<rparr>)"
proof -
  have up: "runs view (forA (\<lambda>item. case find_last (\<lambda>old. ToLower (cr_Name old) = ToLower (client_Name item)) cs of
        Some old \<Rightarrow> post net request ''/control/clients/update'' (Some (obj [(''name'', JString (cr_Name old)), (''data'', clientPayload item)]))
      | None \<Rightarrow> post net request ''/control/clients/add'' (Some (clientPayload item))) ds)
      (\<lambda>a _ b. b = fold (\<lambda>c. agh_clients_update (client_step cs c)) ds a)" for cs
  proof (rule runs_forA)
    fix c
    assume "c \<in> set ds"
    with assms(2) have w: "weekly (client_BlockedServicesSchedule c)" by (simp add: list_all_iff)
    show "runs view (case find_last (\<lambda>old. ToLower (cr_Name old) = ToLower (client_Name c)) cs of
        Some old \<Rightarrow> post net request ''/control/clients/update'' (Some (obj [(''name'', JString (cr_Name old)), (''data'', clientPayload c)]))
      | None \<Rightarrow> post net request ''/control/clients/add'' (Some (clientPayload c))) (\<lambda>a _ b. b = agh_clients_update (client_step cs c) a)"
    proof (cases "find_last (\<lambda>old. ToLower (cr_Name old) = client_id c) cs")
      case None
      then have "client_step cs c = insert c" by (simp add: client_step_def fun_eq_iff)
      with None runs_post [OF assms(1), of "AddClient c"] w show ?thesis by simp
    next
      case (Some old)
      then have "client_step cs c = (\<lambda>S. insert c {x \<in> S. client_Name x \<noteq> cr_Name old})" by (simp add: client_step_def fun_eq_iff)
      with Some runs_post [OF assms(1), of "UpdateClient (cr_Name old) c"] w show ?thesis by simp
    qed
  qed
  have down: "runs view (forA (\<lambda>i. whenA (ToLower (cr_Name i) \<notin> set (map client_id ds))
        (post net request ''/control/clients/delete'' (Some (obj [(''name'', JString (cr_Name i))])))) cs)
      (\<lambda>a _ b. b = fold (\<lambda>c. agh_clients_update (client_delete (map client_id ds) c)) cs a)" for cs
  proof (rule runs_forA)
    fix i
    show "runs view (whenA (ToLower (cr_Name i) \<notin> set (map client_id ds))
        (post net request ''/control/clients/delete'' (Some (obj [(''name'', JString (cr_Name i))]))))
      (\<lambda>a _ b. b = agh_clients_update (client_delete (map client_id ds) i) a)"
      by (rule runs_when_update [where upd = agh_clients_update and f = "\<lambda>S. {x \<in> S. client_Name x \<noteq> cr_Name i}"])
         (use runs_post [OF assms(1), of "DeleteClient (cr_Name i)"] in \<open>auto simp: client_delete_def fun_eq_iff\<close>)
  qed
  have "runs view (bindA (forA (\<lambda>item. case find_last (\<lambda>old. ToLower (cr_Name old) = ToLower (client_Name item)) cs of
        Some old \<Rightarrow> post net request ''/control/clients/update'' (Some (obj [(''name'', JString (cr_Name old)), (''data'', clientPayload item)]))
      | None \<Rightarrow> post net request ''/control/clients/add'' (Some (clientPayload item))) ds)
      (\<lambda>_. forA (\<lambda>i. whenA (ToLower (cr_Name i) \<notin> set (map client_id ds))
        (post net request ''/control/clients/delete'' (Some (obj [(''name'', JString (cr_Name i))])))) cs))
      (\<lambda>a _ b. b = agh_clients_update (clients_after cs ds) a)" for cs
    by (rule runs_bind [OF up down]) (simp add: fold_update comp_def clients_after_def)
  from runs_bind [OF runs_get [OF assms(1)] this] show ?thesis
    unfolding reconcileClients_def Let_def
    by (rule runs_mono) (auto simp: shows_shared_def clients_after_exact [OF _ _ assms(3)])
qed


lemma runs_reconcile_rewrite:
  assumes "follows_api net view request"
  shows "runs view (reconcile_rewrite net request True cs r) (\<lambda>a _ b. b = agh_rewrites_update (rewrite_step cs r) a)"
proof (cases "find_last (\<lambda>old. rewrite_id (rwr_Domain old) (rwr_Answer old) = rewrite_of r) cs")
  case None
  then have "rewrite_step cs r = insert r" by (simp add: rewrite_step_def fun_eq_iff)
  with None runs_post [OF assms, of "AddRewrite r"] show ?thesis by (simp add: reconcile_rewrite_def full_rewrite_def)
next
  case (Some old)
  let ?c = "valueOrDefault (rwr_Enabled old) True \<noteq> rewrite_Enabled r"
  from Some have "rewrite_step cs r = (if ?c then (\<lambda>S. insert r {x \<in> S. \<not> same_rewrite old x}) else (\<lambda>S. S))"
    by (simp add: rewrite_step_def fun_eq_iff)
  then have "runs view (whenA ?c (put net request ''/control/rewrite/update'' (Some (rewrite_update old (full_rewrite r)))))
      (\<lambda>a _ b. b = agh_rewrites_update (rewrite_step cs r) a)"
    by (intro runs_when_update [where upd = agh_rewrites_update and f = "\<lambda>S. insert r {x \<in> S. \<not> same_rewrite old x}"])
       (use runs_put [OF assms, of "UpdateRewrite old r"] in \<open>auto simp: same_rewrite_def\<close>)
  with Some show ?thesis by (simp add: reconcile_rewrite_def full_rewrite_def)
qed

lemma runs_reconcileRewrites:
  assumes "follows_api net view request" and "distinct (map rewrite_of ds)"
  shows "runs view (reconcileRewrites net request enabled ds) (\<lambda>a _ b. inj_on rewrite_of (agh_rewrites a) \<longrightarrow>
    (\<forall>x \<in> agh_rewrites a. \<forall>d \<in> set ds. rewrite_of x = rewrite_of d \<longrightarrow> rewrite_Domain x = rewrite_Domain d \<and> rewrite_Answer x = rewrite_Answer d) \<longrightarrow>
    b = a\<lparr>agh_rewrites_on := enabled, agh_rewrites := set ds\<rparr>)"
proof -
  have down: "runs view (forA (\<lambda>i. whenA (rewrite_id (rwr_Domain i) (rwr_Answer i) \<notin> set (map rewrite_of ds))
        (post net request ''/control/rewrite/delete'' (Some (rewrite_payload (rwr_Domain i) (rwr_Answer i) None)))) cs)
      (\<lambda>a _ b. b = fold (\<lambda>c. agh_rewrites_update (rewrite_delete (map rewrite_of ds) c)) cs a)" for cs
  proof (rule runs_forA)
    fix i
    show "runs view (whenA (rewrite_id (rwr_Domain i) (rwr_Answer i) \<notin> set (map rewrite_of ds))
        (post net request ''/control/rewrite/delete'' (Some (rewrite_payload (rwr_Domain i) (rwr_Answer i) None))))
      (\<lambda>a _ b. b = agh_rewrites_update (rewrite_delete (map rewrite_of ds) i) a)"
      by (rule runs_when_update [where upd = agh_rewrites_update and f = "\<lambda>S. {x \<in> S. \<not> same_rewrite i x}"])
         (use runs_post [OF assms(1), of "DeleteRewrite (rwr_Domain i) (rwr_Answer i)"] in
           \<open>auto simp: rewrite_delete_def same_rewrite_def fun_eq_iff\<close>)
  qed
  have loops: "runs view (bindA (forA (reconcile_rewrite net request True cs) ds)
      (\<lambda>_. forA (\<lambda>i. whenA (rewrite_id (rwr_Domain i) (rwr_Answer i) \<notin> set (map rewrite_of ds))
        (post net request ''/control/rewrite/delete'' (Some (rewrite_payload (rwr_Domain i) (rwr_Answer i) None)))) cs))
      (\<lambda>a _ b. b = agh_rewrites_update (rewrites_after cs ds) a)" for cs
    by (rule runs_bind [OF runs_forA [OF runs_reconcile_rewrite [OF assms(1)]] down]) (simp add: fold_update comp_def rewrites_after_def)
  have settings: "runs view (put net request ''/control/rewrite/settings/update'' (Some (obj [(''enabled'', JBool enabled)])))
      (\<lambda>a _ b. b = a\<lparr>agh_rewrites_on := enabled\<rparr>)"
    using runs_put [OF assms(1), of "RewriteSettings enabled"] by simp
  show ?thesis
    unfolding reconcileRewrites_def Let_def
  proof (rule runs_bind [OF runs_get [OF assms(1)]])
    fix cs
    show "runs view (bindA (getOptionalEndpoint net request ''/control/rewrite/settings'' dec_enabled) (\<lambda>(settingsSupported, _).
        bindA (whenA settingsSupported (put net request ''/control/rewrite/settings/update'' (Some (obj [(''enabled'', JBool enabled)])))) (\<lambda>_.
        bindA (forA (reconcile_rewrite net request settingsSupported cs) ds) (\<lambda>_.
        forA (\<lambda>item. whenA (rewrite_id (rwr_Domain item) (rwr_Answer item) \<notin> set (map rewrite_of ds))
          (post net request ''/control/rewrite/delete'' (Some (rewrite_payload (rwr_Domain item) (rwr_Answer item) None)))) cs))))
      (\<lambda>a _ b. b = agh_rewrites_update (rewrites_after cs ds) (a\<lparr>agh_rewrites_on := enabled\<rparr>))"
    proof (rule runs_bind [OF runs_getOptionalEndpoint [OF assms(1)]])
      fix p :: "bool \<times> bool"
      have "runs view (bindA (whenA True (put net request ''/control/rewrite/settings/update'' (Some (obj [(''enabled'', JBool enabled)])))) (\<lambda>_.
        bindA (forA (reconcile_rewrite net request True cs) ds) (\<lambda>_.
        forA (\<lambda>item. whenA (rewrite_id (rwr_Domain item) (rwr_Answer item) \<notin> set (map rewrite_of ds))
          (post net request ''/control/rewrite/delete'' (Some (rewrite_payload (rwr_Domain item) (rwr_Answer item) None)))) cs)))
        (\<lambda>a _ b. b = agh_rewrites_update (rewrites_after cs ds) (a\<lparr>agh_rewrites_on := enabled\<rparr>))"
        by (rule runs_seq) (simp add: whenA_def settings, rule loops)
      then show "runs view (case p of (settingsSupported, _) \<Rightarrow>
        bindA (whenA settingsSupported (put net request ''/control/rewrite/settings/update'' (Some (obj [(''enabled'', JBool enabled)])))) (\<lambda>_.
        bindA (forA (reconcile_rewrite net request settingsSupported cs) ds) (\<lambda>_.
        forA (\<lambda>item. whenA (rewrite_id (rwr_Domain item) (rwr_Answer item) \<notin> set (map rewrite_of ds))
          (post net request ''/control/rewrite/delete'' (Some (rewrite_payload (rwr_Domain item) (rwr_Answer item) None)))) cs)))
        (\<lambda>a _ b. fst p \<longrightarrow> b = agh_rewrites_update (rewrites_after cs ds) (a\<lparr>agh_rewrites_on := enabled\<rparr>))"
        by (cases p; cases "fst p") (auto elim!: runs_mono simp: runs_def)
    qed simp
  next
    fix a cs b c and y :: unit
    assume "b = a \<and> (\<exists>v. v_list dec_rewrite v = Some cs \<and> shows_shared net ''/control/rewrite/list'' a v \<and> shows_node ''/control/rewrite/list'' a v)"
      and "c = agh_rewrites_update (rewrites_after cs ds) (b\<lparr>agh_rewrites_on := enabled\<rparr>)"
    then show "inj_on rewrite_of (agh_rewrites a) \<longrightarrow>
      (\<forall>x \<in> agh_rewrites a. \<forall>d \<in> set ds. rewrite_of x = rewrite_of d \<longrightarrow> rewrite_Domain x = rewrite_Domain d \<and> rewrite_Answer x = rewrite_Answer d) \<longrightarrow>
      c = a\<lparr>agh_rewrites_on := enabled, agh_rewrites := set ds\<rparr>"
      by (auto simp: shows_shared_def rewrites_after_exact [OF _ _ assms(2)])
  qed
qed

lemma runs_querylog:
  assumes "follows_api net view request"
  shows "runs view (updatePolicy net request ''/control/querylog/config'' ''/control/querylog/config/update'' (ql_Enabled q)
    (ql_IntervalMillis q) (ql_Ignored q) (ql_IgnoredEnabled q) [(''anonymize_client_ip'', JBool (ql_AnonymizeClientIP q))])
    (\<lambda>a _ b. b = a\<lparr>agh_querylog := q\<rparr>)"
  unfolding updatePolicy_def
proof (rule runs_bind [OF runs_get [OF assms]])
  fix p
  show "runs view (put net request ''/control/querylog/config/update'' (Some (obj
      ([(''enabled'', JBool (ql_Enabled q)), (''interval'', JInt (ql_IntervalMillis q)), (''ignored'', j_strings (ql_Ignored q))] @
       [(''anonymize_client_ip'', JBool (ql_AnonymizeClientIP q))] @
       (if pr_IgnoredEnabled p \<noteq> None then [(''ignored_enabled'', JBool (ql_IgnoredEnabled q))] else [])))))
    (\<lambda>a _ b. pr_IgnoredEnabled p \<noteq> None \<longrightarrow> b = a\<lparr>agh_querylog := q\<rparr>)"
    using runs_put [OF assms, of "QueryLogConfig q"] by (cases "pr_IgnoredEnabled p") (auto simp: runs_def)
qed (auto simp: shows_shared_def)

lemma runs_stats:
  assumes "follows_api net view request"
  shows "runs view (updatePolicy net request ''/control/stats/config'' ''/control/stats/config/update'' (st_Enabled q)
    (st_IntervalMillis q) (st_Ignored q) (st_IgnoredEnabled q) []) (\<lambda>a _ b. b = a\<lparr>agh_stats := q\<rparr>)"
  unfolding updatePolicy_def
proof (rule runs_bind [OF runs_get [OF assms]])
  fix p
  show "runs view (put net request ''/control/stats/config/update'' (Some (obj
      ([(''enabled'', JBool (st_Enabled q)), (''interval'', JInt (st_IntervalMillis q)), (''ignored'', j_strings (st_Ignored q))] @
       [] @ (if pr_IgnoredEnabled p \<noteq> None then [(''ignored_enabled'', JBool (st_IgnoredEnabled q))] else [])))))
    (\<lambda>a _ b. pr_IgnoredEnabled p \<noteq> None \<longrightarrow> b = a\<lparr>agh_stats := q\<rparr>)"
    using runs_put [OF assms, of "StatsConfig q"] by (cases "pr_IgnoredEnabled p") (auto simp: runs_def)
qed (auto simp: shows_shared_def)


lemma runs_remove_lease:
  "follows_api net view request \<Longrightarrow> runs view (remove_lease net request l) (\<lambda>a _ b. b = agh_leases_update (\<lambda>S. S - {leaseModel l}) a)"
  unfolding remove_lease_def using runs_post [of net view request "RemoveLease l"] by simp

lemma lease_step_cong: "map_of m (lease_id d) = map_of m' (lease_id d) \<Longrightarrow> lease_step m d = lease_step m' d"
  by (simp add: lease_step_def fun_eq_iff)

lemma runs_lease_head:
  assumes "follows_api net view request"
  shows "runs view (case map_of m (lease_id d) of
         Some old \<Rightarrow> if lr_IP old \<noteq> lease_IP d \<or> lr_Hostname old \<noteq> lease_Hostname d
           then bindA (remove_lease net request old) (\<lambda>_. retA (AList.delete (lease_id d) m)) else retA m
       | None \<Rightarrow> retA m)
    (\<lambda>a m' b. (\<forall>k. k \<noteq> lease_id d \<longrightarrow> map_of m' k = map_of m k) \<and>
       (if map_of m' (lease_id d) = None then agh_leases_update (insert d) b else b) = agh_leases_update (lease_step m d) a)"
proof (cases "map_of m (lease_id d)")
  case None
  then have "lease_step m d = insert d" by (simp add: lease_step_def fun_eq_iff)
  with None show ?thesis by (auto simp: runs_def retA_def)
next
  case (Some old)
  show ?thesis
  proof (cases "lease_differs old d")
    case True
    with Some have "lease_step m d = (\<lambda>S. insert d (S - {leaseModel old}))" by (simp add: lease_step_def fun_eq_iff)
    with Some True runs_remove_lease [OF assms, of old] show ?thesis
      by (auto simp: runs_def bindA_Inr retA_def delete_conv' lease_differs_def comp_def)
  next
    case False
    with Some have "lease_step m d = (\<lambda>S. S)" by (simp add: lease_step_def fun_eq_iff)
    with Some False show ?thesis by (auto simp: runs_def retA_def lease_differs_def)
  qed
qed

lemma runs_reconcile_leases:
  assumes "follows_api net view request" and "distinct (map lease_id ds)"
  shows "runs view (reconcile_leases net request m ds) (\<lambda>a m' b. b = agh_leases_update (fold (lease_step m) ds) a \<and>
    (\<forall>k. k \<notin> lease_id ` set ds \<longrightarrow> map_of m' k = map_of m k))"
  using assms(2)
proof (induction ds arbitrary: m)
  case Nil
  show ?case by (auto simp: runs_def retA_def)
next
  case (Cons d ds)
  have add: "runs view (whenA (map_of m' (lease_id d) = None) (post net request ''/control/dhcp/add_static_lease''
      (Some (lease_payload (lease_MAC d) (lease_IP d) (lease_Hostname d)))))
      (\<lambda>a _ b. b = (if map_of m' (lease_id d) = None then agh_leases_update (insert d) a else a))" for m'
    by (rule runs_when) (use runs_post [OF assms(1), of "AddLease d"] in simp)
  have tail: "runs view (bindA (whenA (map_of m' (lease_id d) = None) (post net request ''/control/dhcp/add_static_lease''
      (Some (lease_payload (lease_MAC d) (lease_IP d) (lease_Hostname d))))) (\<lambda>_. reconcile_leases net request m' ds))
      (\<lambda>a m'' b. b = agh_leases_update (fold (lease_step m') ds) (if map_of m' (lease_id d) = None then agh_leases_update (insert d) a else a) \<and>
        (\<forall>k. k \<notin> lease_id ` set ds \<longrightarrow> map_of m'' k = map_of m' k))" for m'
    by (rule runs_bind [OF add Cons.IH]) (use Cons.prems in simp_all)
  show ?case
    unfolding reconcile_leases.simps Let_def
  proof (rule runs_bind [OF runs_lease_head [OF assms(1)] tail])
    fix a m' b m'' c
    assume h: "(\<forall>k. k \<noteq> lease_id d \<longrightarrow> map_of m' k = map_of m k) \<and>
        (if map_of m' (lease_id d) = None then agh_leases_update (insert d) b else b) = agh_leases_update (lease_step m d) a"
      and t: "c = agh_leases_update (fold (lease_step m') ds) (if map_of m' (lease_id d) = None then agh_leases_update (insert d) b else b) \<and>
        (\<forall>k. k \<notin> lease_id ` set ds \<longrightarrow> map_of m'' k = map_of m' k)"
    have "lease_step m' x = lease_step m x" if "x \<in> set ds" for x
    proof (rule lease_step_cong)
      from Cons.prems have "lease_id d \<notin> lease_id ` set ds" by simp
      with that have "lease_id x \<noteq> lease_id d" by (metis imageI)
      with h show "map_of m' (lease_id x) = map_of m (lease_id x)" by blast
    qed
    then have "fold (lease_step m') ds = fold (lease_step m) ds" by (intro ext fold_cong) simp_all
    moreover have "agh_leases_update f (agh_leases_update g a) = agh_leases_update (f \<circ> g) a" for f g by (simp add: comp_def)
    ultimately have "c = agh_leases_update (fold (lease_step m) (d # ds)) a" using h t by simp
    moreover have "\<forall>k. k \<notin> lease_id ` set (d # ds) \<longrightarrow> map_of m'' k = map_of m k" using h t by simp
    ultimately show "c = agh_leases_update (fold (lease_step m) (d # ds)) a \<and>
        (\<forall>k. k \<notin> lease_id ` set (d # ds) \<longrightarrow> map_of m'' k = map_of m k)" ..
  qed
qed

lemma dhcp_matches: "dhcpConfigurationMatches x c \<Longrightarrow> (dhcpModel x)\<lparr>dhcp_StaticLeases := None\<rparr> = c\<lparr>dhcp_StaticLeases := None\<rparr>"
  by (auto simp: dhcpConfigurationMatches_def dhcpModel_def intro!: DHCPConfig.equality DHCPIPv4.equality DHCPIPv6.equality)

lemma runs_reconcileDHCP:
  assumes "follows_api net view request" and dist: "distinct (map lease_id (elems (dhcp_StaticLeases c)))"
    and keys: "\<And>ks. set (range_keys net ks) = set ks"
  shows "runs view (reconcileDHCP net request c) (\<lambda>a _ b. inj_on lease_id (agh_leases a) \<longrightarrow>
    (\<exists>m. b = a\<lparr>agh_dhcp := Some (c\<lparr>dhcp_StaticLeases := None\<rparr>), agh_leases := lease_kept m ` set (elems (dhcp_StaticLeases c))\<rparr>))"
proof -
  let ?ds = "elems (dhcp_StaticLeases c)"
  have settings: "runs view (whenA (\<not> dhcpConfigurationMatches x c) (post net request ''/control/dhcp/set_config'' (Some (dhcp_payload c))))
      (\<lambda>a _ b. b = (if \<not> dhcpConfigurationMatches x c then a\<lparr>agh_dhcp := Some (c\<lparr>dhcp_StaticLeases := None\<rparr>)\<rparr> else a))" for x
    by (rule runs_when) (use runs_post [OF assms(1), of "SetDHCP c"] in simp)
  have down: "runs view (forA (\<lambda>k. case map_of m k of
        Some l \<Rightarrow> whenA (k \<notin> set (map lease_id ?ds)) (remove_lease net request l) | None \<Rightarrow> retA ()) ks)
      (\<lambda>a _ b. b = fold (\<lambda>k. agh_leases_update (lease_delete m (map lease_id ?ds) k)) ks a)" for m ks
  proof (rule runs_forA)
    fix k
    show "runs view (case map_of m k of Some l \<Rightarrow> whenA (k \<notin> set (map lease_id ?ds)) (remove_lease net request l) | None \<Rightarrow> retA ())
      (\<lambda>a _ b. b = agh_leases_update (lease_delete m (map lease_id ?ds) k) a)"
    proof (cases "map_of m k")
      case None
      then have "lease_delete m (map lease_id ?ds) k = (\<lambda>S. S)" by (simp add: lease_delete_def fun_eq_iff)
      with None show ?thesis by (auto simp: runs_def retA_def)
    next
      case (Some l)
      then show ?thesis
        using runs_when_update [where upd = agh_leases_update, OF runs_remove_lease [OF assms(1)]]
        by (auto simp: lease_delete_def fun_eq_iff)
    qed
  qed
  have loops: "runs view (bindA (reconcile_leases net request m ?ds) (\<lambda>m'. forA (\<lambda>k. case map_of m' k of
        Some l \<Rightarrow> whenA (k \<notin> set (map lease_id ?ds)) (remove_lease net request l) | None \<Rightarrow> retA ()) (range_keys net (map fst m'))))
      (\<lambda>a _ b. \<exists>m'. (\<forall>k. k \<notin> lease_id ` set ?ds \<longrightarrow> map_of m' k = map_of m k) \<and>
        b = agh_leases_update (\<lambda>S. fold (lease_delete m' (map lease_id ?ds)) (range_keys net (map fst m')) (fold (lease_step m) ?ds S)) a)" for m
    by (rule runs_bind [OF runs_reconcile_leases [OF assms(1) dist] down]) (auto simp: fold_update comp_def)
  show ?thesis
    unfolding reconcileDHCP_def Let_def by_mac_def [symmetric]
  proof (rule runs_bind [OF runs_get [OF assms(1)]])
    fix x
    show "runs view (bindA (whenA (\<not> dhcpConfigurationMatches x c) (post net request ''/control/dhcp/set_config'' (Some (dhcp_payload c)))) (\<lambda>_.
        bindA (reconcile_leases net request (by_mac (ds_StaticLeases x)) ?ds) (\<lambda>m'. forA (\<lambda>k. case map_of m' k of
          Some l \<Rightarrow> whenA (k \<notin> set (map lease_id ?ds)) (remove_lease net request l) | None \<Rightarrow> retA ()) (range_keys net (map fst m')))))
      (\<lambda>a _ b. \<exists>m'. (\<forall>k. k \<notin> lease_id ` set ?ds \<longrightarrow> map_of m' k = map_of (by_mac (ds_StaticLeases x)) k) \<and>
        b = agh_leases_update (\<lambda>S. fold (lease_delete m' (map lease_id ?ds)) (range_keys net (map fst m'))
              (fold (lease_step (by_mac (ds_StaticLeases x))) ?ds S))
            (if \<not> dhcpConfigurationMatches x c then a\<lparr>agh_dhcp := Some (c\<lparr>dhcp_StaticLeases := None\<rparr>)\<rparr> else a))"
      by (rule runs_bind [OF settings loops]) blast
  next
    fix a x b e and y :: unit
    assume g: "b = a \<and> (\<exists>v. dec_dhcpStatus v = Some x \<and> shows_shared net ''/control/dhcp/status'' a v \<and> shows_node ''/control/dhcp/status'' a v)"
      and "\<exists>m'. (\<forall>k. k \<notin> lease_id ` set ?ds \<longrightarrow> map_of m' k = map_of (by_mac (ds_StaticLeases x)) k) \<and>
        e = agh_leases_update (\<lambda>S. fold (lease_delete m' (map lease_id ?ds)) (range_keys net (map fst m'))
              (fold (lease_step (by_mac (ds_StaticLeases x))) ?ds S))
            (if \<not> dhcpConfigurationMatches x c then b\<lparr>agh_dhcp := Some (c\<lparr>dhcp_StaticLeases := None\<rparr>)\<rparr> else b)"
    then obtain m' where m': "\<And>k. k \<notin> lease_id ` set ?ds \<Longrightarrow> map_of m' k = map_of (by_mac (ds_StaticLeases x)) k"
      and e: "e = agh_leases_update (\<lambda>S. fold (lease_delete m' (map lease_id ?ds)) (range_keys net (map fst m'))
              (fold (lease_step (by_mac (ds_StaticLeases x))) ?ds S))
            (if \<not> dhcpConfigurationMatches x c then a\<lparr>agh_dhcp := Some (c\<lparr>dhcp_StaticLeases := None\<rparr>)\<rparr> else a)" by auto
    from g have node: "agh_dhcp a = Some ((dhcpModel x)\<lparr>dhcp_StaticLeases := None\<rparr>)" "set (map leaseModel (ds_StaticLeases x)) = agh_leases a"
      by (auto simp: shows_node_def)
    have set: "a\<lparr>agh_dhcp := Some (c\<lparr>dhcp_StaticLeases := None\<rparr>)\<rparr> = a" if "dhcpConfigurationMatches x c"
      using node(1) dhcp_matches [OF that] by simp
    show "inj_on lease_id (agh_leases a) \<longrightarrow>
      (\<exists>m. e = a\<lparr>agh_dhcp := Some (c\<lparr>dhcp_StaticLeases := None\<rparr>), agh_leases := lease_kept m ` set ?ds\<rparr>)"
    proof
      assume inj: "inj_on lease_id (agh_leases a)"
      have "fold (lease_delete m' (map lease_id ?ds)) (range_keys net (map fst m')) (fold (lease_step (by_mac (ds_StaticLeases x))) ?ds (agh_leases a)) =
          lease_kept (by_mac (ds_StaticLeases x)) ` set ?ds"
        by (rule leases_after_exact [OF node(2) inj dist m']) (simp_all add: keys)
      with e set show "\<exists>m. e = a\<lparr>agh_dhcp := Some (c\<lparr>dhcp_StaticLeases := None\<rparr>), agh_leases := lease_kept m ` set ?ds\<rparr>"
        by (intro exI [of _ "by_mac (ds_StaticLeases x)"]) (auto intro!: agh.equality)
    qed
  qed
qed


subsection \<open>The whole application\<close>

text \<open>
  A document that can be represented on a node: in the current schema, with lists that are not
  \<open>nil\<close>, distinct clients, rewrites and leases, and weekly schedules.
\<close>

definition sound_target :: "Document \<Rightarrow> bool" where
  "sound_target d \<longleftrightarrow> doc_SchemaVersion d = SchemaVersion \<and>
     sh_Clients (doc_Shared d) \<noteq> None \<and> sh_Rewrites (doc_Shared d) \<noteq> None \<and>
     list_all (\<lambda>c. weekly (client_BlockedServicesSchedule c)) (elems (sh_Clients (doc_Shared d))) \<and>
     weekly (svc_BlockedSchedule (sh_Services (doc_Shared d))) \<and>
     distinct (map client_id (elems (sh_Clients (doc_Shared d)))) \<and> distinct (map rewrite_of (elems (sh_Rewrites (doc_Shared d)))) \<and>
     (case ns_DHCP (doc_NodeSpecific d) of None \<Rightarrow> True
      | Some c \<Rightarrow> dhcp_StaticLeases c \<noteq> None \<and> distinct (map lease_id (elems (dhcp_StaticLeases c))))"

definition wanted :: "bool \<Rightarrow> Document \<Rightarrow> string list" where
  "wanted w d = (if w then flt_WhitelistURLs (sh_Filtering (doc_Shared d)) else flt_FilterURLs (sh_Filtering (doc_Shared d)))"

text \<open>
  A node on which the document can be reached: its entries have distinct keys, none of them differs
  from a desired one in the case of letters only, its listener is that of the document (which has
  no writer), and it has DHCP exactly if the document configures it.
\<close>

definition keyed_entries :: "agh \<Rightarrow> Document \<Rightarrow> bool" where
  "keyed_entries a d \<longleftrightarrow>
     inj_on client_id (agh_clients a) \<and> inj_on rewrite_of (agh_rewrites a) \<and> inj_on lease_id (agh_leases a) \<and>
     (\<forall>x \<in> agh_rewrites a. \<forall>r \<in> set (elems (sh_Rewrites (doc_Shared d))). rewrite_of x = rewrite_of r \<longrightarrow>
        rewrite_Domain x = rewrite_Domain r \<and> rewrite_Answer x = rewrite_Answer r)"

definition reachable_from :: "agh \<Rightarrow> Document \<Rightarrow> bool" where
  "reachable_from a d \<longleftrightarrow> keyed_entries a d \<and>
     (\<forall>w. \<forall>u \<in> fst ` agh_lists a w. \<forall>t \<in> set (wanted w d). EqualFold u t \<longrightarrow> u = t) \<and>
     (cleanSet (fst (agh_listener a)), snd (agh_listener a)) = (ns_BindHosts (doc_NodeSpecific d), ns_DNSPort (doc_NodeSpecific d)) \<and>
     (agh_dhcp a = None \<longleftrightarrow> ns_DHCP (doc_NodeSpecific d) = None)"

definition configured :: "agh \<Rightarrow> Document \<Rightarrow> bool" where
  "configured b d \<longleftrightarrow>
    (let sh = doc_Shared d; f = sh_Filtering sh; s = sh_Services sh in
     (agh_filtering b, agh_interval b, agh_rules b) = (flt_Enabled f, flt_UpdateInterval f, flt_UserRules f) \<and>
     (\<forall>w. enabled_in (agh_lists b w) = set (wanted w d)) \<and>
     agh_clients b = set (elems (sh_Clients sh)) \<and> (agh_rewrites_on b, agh_rewrites b) = (sh_RewritesEnabled sh, set (elems (sh_Rewrites sh))) \<and>
     agh_blocked b = (svc_BlockedServiceIDs s, svc_BlockedSchedule s) \<and>
     (agh_safebrowsing b, agh_parental b, agh_safesearch b) = (svc_SafeBrowsing s, svc_ParentalControl s, svc_SafeSearch s) \<and>
     (agh_querylog b, agh_stats b, agh_dns b) = (sh_QueryLog sh, sh_Statistics sh, sh_DNS sh) \<and>
     (cleanSet (fst (agh_listener b)), snd (agh_listener b)) = (ns_BindHosts (doc_NodeSpecific d), ns_DNSPort (doc_NodeSpecific d)) \<and>
     (case ns_DHCP (doc_NodeSpecific d) of None \<Rightarrow> agh_dhcp b = None
      | Some c \<Rightarrow> agh_dhcp b = Some (c\<lparr>dhcp_StaticLeases := None\<rparr>) \<and> (\<exists>m. agh_leases b = lease_kept m ` set (elems (dhcp_StaticLeases c)))))"

definition broader :: "Shared \<Rightarrow> agh \<Rightarrow> agh" where
  "broader sh a = a\<lparr>agh_clients := set (elems (sh_Clients sh)), agh_rewrites_on := sh_RewritesEnabled sh, agh_rewrites := set (elems (sh_Rewrites sh)),
     agh_blocked := (svc_BlockedServiceIDs (sh_Services sh), svc_BlockedSchedule (sh_Services sh)),
     agh_safebrowsing := svc_SafeBrowsing (sh_Services sh), agh_parental := svc_ParentalControl (sh_Services sh),
     agh_safesearch := svc_SafeSearch (sh_Services sh), agh_querylog := sh_QueryLog sh, agh_stats := sh_Statistics sh\<rparr>"

lemma runs_setEnabled:
  assumes "follows_api net view request"
  shows "runs view (setEnabled net request ''/control/safebrowsing'' e) (\<lambda>a _ b. b = a\<lparr>agh_safebrowsing := e\<rparr>)"
    and "runs view (setEnabled net request ''/control/parental'' e) (\<lambda>a _ b. b = a\<lparr>agh_parental := e\<rparr>)"
  using runs_send [OF assms, of "SafeBrowsing e"] runs_send [OF assms, of "Parental e"] by (simp_all add: setEnabled_def)

lemma runs_apply_broader:
  assumes api: "follows_api net view request" and "sound_target d"
  shows "runs view (apply_broader net request (doc_Shared d)) (\<lambda>a _ b. keyed_entries a d \<longrightarrow> b = broader (doc_Shared d) a)"
proof -
  let ?s = "sh_Services (doc_Shared d)"
  have blocked: "runs view (put net request ''/control/blocked_services/update'' (Some (blockedServicesPayload ?s)))
      (\<lambda>a _ b. b = a\<lparr>agh_blocked := (svc_BlockedServiceIDs ?s, svc_BlockedSchedule ?s)\<rparr>)"
    using runs_put [OF api, of "BlockedServices ?s"] assms(2) by (simp add: sound_target_def)
  have search: "runs view (put net request ''/control/safesearch/settings'' (Some (safeSearchPayload (svc_SafeSearch ?s))))
      (\<lambda>a _ b. b = a\<lparr>agh_safesearch := svc_SafeSearch ?s\<rparr>)"
    using runs_put [OF api, of "SafeSearchSettings (svc_SafeSearch ?s)"] by simp
  note tail = runs_seq [OF blocked runs_seq [OF runs_setEnabled(1) [OF api] runs_seq [OF runs_setEnabled(2) [OF api]
    runs_seq [OF search runs_seq [OF runs_querylog [OF api] runs_stats [OF api]]]]]]
  note rewriting = runs_reconcileRewrites [OF api, of "elems (sh_Rewrites (doc_Shared d))" "sh_RewritesEnabled (doc_Shared d)"]
  note clients = runs_reconcileClients [OF api, of "elems (sh_Clients (doc_Shared d))"]
  show ?thesis
    unfolding apply_broader_def Let_def
  proof (rule runs_bind [OF clients])
    show "runs view (bindA (reconcileRewrites net request (sh_RewritesEnabled (doc_Shared d)) (elems (sh_Rewrites (doc_Shared d)))) (\<lambda>_.
      bindA (put net request ''/control/blocked_services/update'' (Some (blockedServicesPayload ?s))) (\<lambda>_.
      bindA (setEnabled net request ''/control/safebrowsing'' (svc_SafeBrowsing ?s)) (\<lambda>_.
      bindA (setEnabled net request ''/control/parental'' (svc_ParentalControl ?s)) (\<lambda>_.
      bindA (put net request ''/control/safesearch/settings'' (Some (safeSearchPayload (svc_SafeSearch ?s)))) (\<lambda>_.
      bindA (updatePolicy net request ''/control/querylog/config'' ''/control/querylog/config/update'' (ql_Enabled (sh_QueryLog (doc_Shared d)))
        (ql_IntervalMillis (sh_QueryLog (doc_Shared d))) (ql_Ignored (sh_QueryLog (doc_Shared d))) (ql_IgnoredEnabled (sh_QueryLog (doc_Shared d)))
        [(''anonymize_client_ip'', JBool (ql_AnonymizeClientIP (sh_QueryLog (doc_Shared d))))]) (\<lambda>_.
      updatePolicy net request ''/control/stats/config'' ''/control/stats/config/update'' (st_Enabled (sh_Statistics (doc_Shared d)))
        (st_IntervalMillis (sh_Statistics (doc_Shared d))) (st_Ignored (sh_Statistics (doc_Shared d))) (st_IgnoredEnabled (sh_Statistics (doc_Shared d))) [])))))))
      (\<lambda>a _ b. inj_on rewrite_of (agh_rewrites a) \<longrightarrow>
         (\<forall>x \<in> agh_rewrites a. \<forall>r \<in> set (elems (sh_Rewrites (doc_Shared d))). rewrite_of x = rewrite_of r \<longrightarrow>
           rewrite_Domain x = rewrite_Domain r \<and> rewrite_Answer x = rewrite_Answer r) \<longrightarrow>
         b = (broader (doc_Shared d) a)\<lparr>agh_clients := agh_clients a\<rparr>)"
      by (rule runs_bind [OF rewriting tail]) (use assms(2) in \<open>simp_all add: sound_target_def broader_def\<close>)
  qed (use assms(2) in \<open>simp_all add: sound_target_def keyed_entries_def broader_def\<close>)
qed

lemma runs_apply_tail:
  assumes api: "follows_api net view request" and target: "sound_target d" and keys: "\<And>ks. set (range_keys net ks) = set ks"
    and i: "info_CacheEnabled i \<noteq> None" "info_UpstreamTimeout i \<noteq> None"
  shows "runs view (bindA (apply_broader net request (doc_Shared d)) (\<lambda>_.
     bindA (post net request ''/control/dns_config'' (Some (dns_payload i True (sh_DNS (doc_Shared d))))) (\<lambda>_.
     case ns_DHCP (doc_NodeSpecific d) of Some dhcp \<Rightarrow> reconcileDHCP net request dhcp | None \<Rightarrow> retA ())))
    (\<lambda>a _ b. keyed_entries a d \<longrightarrow> (\<exists>c. c = (broader (doc_Shared d) a)\<lparr>agh_dns := sh_DNS (doc_Shared d)\<rparr> \<and>
       (case ns_DHCP (doc_NodeSpecific d) of None \<Rightarrow> b = c
        | Some dhcp \<Rightarrow> (\<exists>m. b = c\<lparr>agh_dhcp := Some (dhcp\<lparr>dhcp_StaticLeases := None\<rparr>),
              agh_leases := lease_kept m ` set (elems (dhcp_StaticLeases dhcp))\<rparr>))))"
proof (rule runs_bind [OF runs_apply_broader [OF api target]])
  have dns: "runs view (post net request ''/control/dns_config'' (Some (dns_payload i True (sh_DNS (doc_Shared d)))))
      (\<lambda>a _ b. b = a\<lparr>agh_dns := sh_DNS (doc_Shared d)\<rparr>)"
    using runs_post [OF api, of "DNSConfig i (sh_DNS (doc_Shared d))"] i by simp
  have dhcp: "runs view (case ns_DHCP (doc_NodeSpecific d) of Some dhcp \<Rightarrow> reconcileDHCP net request dhcp | None \<Rightarrow> retA ())
      (\<lambda>a _ b. inj_on lease_id (agh_leases a) \<longrightarrow> (case ns_DHCP (doc_NodeSpecific d) of None \<Rightarrow> b = a
        | Some dhcp \<Rightarrow> (\<exists>m. b = a\<lparr>agh_dhcp := Some (dhcp\<lparr>dhcp_StaticLeases := None\<rparr>),
              agh_leases := lease_kept m ` set (elems (dhcp_StaticLeases dhcp))\<rparr>)))"
  proof (cases "ns_DHCP (doc_NodeSpecific d)")
    case None
    then show ?thesis by (simp add: runs_def retA_def)
  next
    case (Some c)
    with target have "distinct (map lease_id (elems (dhcp_StaticLeases c)))" by (simp add: sound_target_def)
    from runs_reconcileDHCP [OF api this keys] Some show ?thesis by simp
  qed
  show "runs view (bindA (post net request ''/control/dns_config'' (Some (dns_payload i True (sh_DNS (doc_Shared d))))) (\<lambda>_.
     case ns_DHCP (doc_NodeSpecific d) of Some dhcp \<Rightarrow> reconcileDHCP net request dhcp | None \<Rightarrow> retA ()))
    (\<lambda>a _ b. inj_on lease_id (agh_leases a) \<longrightarrow> (case ns_DHCP (doc_NodeSpecific d) of None \<Rightarrow> b = a\<lparr>agh_dns := sh_DNS (doc_Shared d)\<rparr>
        | Some dhcp \<Rightarrow> (\<exists>m. b = a\<lparr>agh_dns := sh_DNS (doc_Shared d), agh_dhcp := Some (dhcp\<lparr>dhcp_StaticLeases := None\<rparr>),
              agh_leases := lease_kept m ` set (elems (dhcp_StaticLeases dhcp))\<rparr>)))"
    by (rule runs_bind [OF dns dhcp]) (auto split: option.splits)
qed (auto simp: keyed_entries_def broader_def split: option.splits)

end
