(* ===== verification/Adguard_Verify.thy ===== *)
theory Adguard_Verify
  imports Adguard_Converge
begin

text \<open>
  The end of an application: a node to which \<open>ApplyConfiguration\<close> succeeded has the configuration of
  the document, and \<open>ReadConfiguration\<close> then gives a document without a managed difference to it.
\<close>

subsection \<open>The whole application\<close>

definition filtered :: "filterStatusResponse \<Rightarrow> Document \<Rightarrow> agh \<Rightarrow> agh" where
  "filtered fs d a = (let f = sh_Filtering (doc_Shared d) in
     (in_list True (lists_after (filter_items fs) True (flt_WhitelistURLs f))
       (in_list False (lists_after (filter_items fs) False (flt_FilterURLs f))
         (a\<lparr>agh_filtering := flt_Enabled f, agh_interval := flt_UpdateInterval f\<rparr>)))\<lparr>agh_rules := flt_UserRules f\<rparr>)"

lemma runs_then:
  assumes "runs view m (\<lambda>a _ b. b = g a)" and "runs view k Q"
  shows "runs view (bindA m (\<lambda>_. k)) (\<lambda>a. Q (g a))"
  by (rule runs_bind [OF assms]) simp

definition applied :: "filterStatusResponse \<Rightarrow> Document \<Rightarrow> agh \<Rightarrow> agh \<Rightarrow> bool" where
  "applied fs d a b \<longleftrightarrow> (\<exists>c. c = (broader (doc_Shared d) (filtered fs d a))\<lparr>agh_dns := sh_DNS (doc_Shared d)\<rparr> \<and>
     (case ns_DHCP (doc_NodeSpecific d) of None \<Rightarrow> b = c
      | Some dhcp \<Rightarrow> (\<exists>m. b = c\<lparr>agh_dhcp := Some (dhcp\<lparr>dhcp_StaticLeases := None\<rparr>),
            agh_leases := lease_kept m ` set (elems (dhcp_StaticLeases dhcp))\<rparr>)))"

lemma keyed_filtered: "keyed_entries (filtered fs d a) e = keyed_entries a e"
  by (simp add: keyed_entries_def filtered_def in_list_def Let_def)

lemma filtered_lists:
  assumes "filter_view fs a" and "\<And>w u t. u \<in> fst ` agh_lists a w \<Longrightarrow> t \<in> set (wanted w d) \<Longrightarrow> EqualFold u t \<Longrightarrow> u = t"
  shows "enabled_in (agh_lists (filtered fs d a) w) = set (wanted w d)"
proof -
  have "enabled_in (lists_after (filter_items fs) w (wanted w d) (agh_lists a w)) = set (wanted w d)"
    using assms(1) by (intro lists_after_enabled assms(2)) (auto simp: filter_view_def)
  then show ?thesis by (cases w) (simp_all add: filtered_def in_list_def wanted_def Let_def)
qed

lemma filtered_fields:
  "agh_filtering (filtered fs d a) = flt_Enabled (sh_Filtering (doc_Shared d))"
  "agh_interval (filtered fs d a) = flt_UpdateInterval (sh_Filtering (doc_Shared d))"
  "agh_rules (filtered fs d a) = flt_UserRules (sh_Filtering (doc_Shared d))"
  "agh_listener (filtered fs d a) = agh_listener a" "agh_dhcp (filtered fs d a) = agh_dhcp a"
  by (simp_all add: filtered_def in_list_def Let_def)

lemma applied_configured:
  assumes "applied fs d a b" and "filter_view fs a" and "reachable_from a d"
  shows "configured b d"
proof -
  from assms(3) have lists: "enabled_in (agh_lists (filtered fs d a) w) = set (wanted w d)" for w
    by (intro filtered_lists [OF assms(2)]) (auto simp: reachable_from_def)
  show ?thesis
  proof (cases "ns_DHCP (doc_NodeSpecific d)")
    case None
    with assms(1,3) lists show ?thesis by (simp add: applied_def configured_def reachable_from_def broader_def Let_def filtered_fields)
  next
    case (Some c)
    with assms(1) obtain m where "b = ((broader (doc_Shared d) (filtered fs d a))\<lparr>agh_dns := sh_DNS (doc_Shared d)\<rparr>)
        \<lparr>agh_dhcp := Some (c\<lparr>dhcp_StaticLeases := None\<rparr>), agh_leases := lease_kept m ` set (elems (dhcp_StaticLeases c))\<rparr>"
      by (auto simp: applied_def)
    with Some assms(3) lists show ?thesis by (auto simp: configured_def reachable_from_def broader_def Let_def filtered_fields)
  qed
qed

text \<open>What \<open>ApplyConfiguration\<close> does after its two reads, for a document in the current schema.\<close>

definition apply_after :: "'n net \<Rightarrow> NodeProbeRequest \<Rightarrow> Document \<Rightarrow> filterStatusResponse \<Rightarrow> dnsInfoResponse \<Rightarrow> ('n, unit) api" where
  "apply_after net request d fs i =
    (let f = sh_Filtering (doc_Shared d) in
     bindA (post net request ''/control/filtering/config'' (Some (obj [(''enabled'', JBool (flt_Enabled f)), (''interval'', JInt (flt_UpdateInterval f))]))) (\<lambda>_.
     bindA (reconcileFilterURLs net request fs (flt_FilterURLs f) False) (\<lambda>_.
     bindA (reconcileFilterURLs net request fs (flt_WhitelistURLs f) True) (\<lambda>_.
     bindA (post net request ''/control/filtering/set_rules'' (Some (obj [(''rules'', j_strings (flt_UserRules f))]))) (\<lambda>_.
     bindA (apply_broader net request (doc_Shared d)) (\<lambda>_.
     bindA (post net request ''/control/dns_config'' (Some (dns_payload i True (sh_DNS (doc_Shared d))))) (\<lambda>_.
     case ns_DHCP (doc_NodeSpecific d) of Some dhcp \<Rightarrow> reconcileDHCP net request dhcp | None \<Rightarrow> retA ())))))))"

lemma apply_current_schema:
  assumes "doc_SchemaVersion (Canonicalise document) \<ge> SchemaVersion"
  shows "Adguard_ApplyConfiguration net request document =
     bindA (api_get net request ''/control/filtering/status'' dec_filterStatus) (\<lambda>fs.
     bindA (api_get net request ''/control/dns_info'' (dec_dnsInfo net)) (apply_after net request (Canonicalise document) fs))"
  using assms by (simp add: Adguard_ApplyConfiguration_def apply_after_def [abs_def] Let_def whenA_def cong: option.case_cong)

lemma runs_apply_after:
  assumes api: "follows_api net view request" and keys: "\<And>ks. set (range_keys net ks) = set ks" and target: "sound_target d"
  shows "runs view (apply_after net request d fs i) (\<lambda>a _ b. info_CacheEnabled i \<noteq> None \<longrightarrow> info_UpstreamTimeout i \<noteq> None \<longrightarrow>
    keyed_entries a d \<longrightarrow> applied fs d a b)"
proof (cases "info_CacheEnabled i \<noteq> None \<and> info_UpstreamTimeout i \<noteq> None")
  case True
  let ?f = "sh_Filtering (doc_Shared d)"
  have config: "runs view (post net request ''/control/filtering/config'' (Some (obj [(''enabled'', JBool (flt_Enabled ?f)), (''interval'', JInt (flt_UpdateInterval ?f))])))
      (\<lambda>a _ b. b = a\<lparr>agh_filtering := flt_Enabled ?f, agh_interval := flt_UpdateInterval ?f\<rparr>)"
    using runs_post [OF api, of "FilteringConfig (flt_Enabled ?f) (flt_UpdateInterval ?f)"] by simp
  have rules: "runs view (post net request ''/control/filtering/set_rules'' (Some (obj [(''rules'', j_strings (flt_UserRules ?f))])))
      (\<lambda>a _ b. b = a\<lparr>agh_rules := flt_UserRules ?f\<rparr>)"
    using runs_post [OF api, of "SetRules (flt_UserRules ?f)"] by simp
  note urls = runs_reconcileFilterURLs [OF api]
  note after = runs_apply_tail [OF api target keys]
  from True show ?thesis
    unfolding apply_after_def Let_def
    by (intro runs_mono [OF runs_then [OF config runs_then [OF urls runs_then [OF urls runs_then [OF rules after]]]]])
       (simp_all add: applied_def filtered_def keyed_filtered [unfolded filtered_def Let_def] Let_def)
next
  case False
  then show ?thesis by (auto simp: runs_def)
qed

lemma runs_apply:
  assumes api: "follows_api net view request" and keys: "\<And>ks. set (range_keys net ks) = set ks"
    and target: "sound_target (Canonicalise document)"
  shows "runs view (Adguard_ApplyConfiguration net request document)
    (\<lambda>a _ b. reachable_from a (Canonicalise document) \<longrightarrow> configured b (Canonicalise document))"
proof -
  let ?d = "Canonicalise document"
  have "runs view (bindA (api_get net request ''/control/dns_info'' (dec_dnsInfo net)) (apply_after net request ?d fs))
      (\<lambda>a _ b. keyed_entries a ?d \<longrightarrow> applied fs ?d a b)" for fs
    by (rule runs_bind [OF runs_get [OF api] runs_apply_after [OF api keys target]]) (auto simp: shows_shared_def)
  then have "runs view (bindA (api_get net request ''/control/filtering/status'' dec_filterStatus) (\<lambda>fs.
      bindA (api_get net request ''/control/dns_info'' (dec_dnsInfo net)) (apply_after net request ?d fs)))
      (\<lambda>a _ b. reachable_from a ?d \<longrightarrow> configured b ?d)"
    by (rule runs_bind [OF runs_get [OF api]]) (auto simp: shows_shared_def reachable_from_def intro: applied_configured)
  with target show ?thesis by (simp add: apply_current_schema sound_target_def)
qed


subsection \<open>Reading back\<close>

definition reads :: "('n \<Rightarrow> agh) \<Rightarrow> 'n inventory_read \<Rightarrow> (agh \<Rightarrow> Document \<Rightarrow> bool) \<Rightarrow> bool" where
  "reads view m Q \<longleftrightarrow> (\<forall>n doc p n'. m n = ((doc, p, None), n') \<longrightarrow> Q (view n) doc)"

lemma reads_step:
  assumes "runs view m (\<lambda>a x b. b = a \<and> P a x)" and "\<And>x. reads view (f x) (\<lambda>a doc. P a x \<longrightarrow> Q a doc)"
  shows "reads view (reading p m f) Q"
  unfolding reads_def reading_def
proof (intro allI impI)
  fix n doc p' n'
  assume "(case m n of (Inl err, n) \<Rightarrow> ((zero_Document, p, Some err), n) | (Inr x, n) \<Rightarrow> f x n) = ((doc, p', None), n')"
  then obtain x k where "m n = (Inr x, k)" "f x k = ((doc, p', None), n')" by (auto split: prod.splits sum.splits)
  with assms show "Q (view n) doc" unfolding runs_def reads_def by metis
qed

lemma reads_check: "(\<And>x. reads view (f x) Q) \<Longrightarrow> reads view (reading p (checkA r) f) Q"
  by (rule reads_step [where P = "\<lambda>_ _. True"]) (auto simp: runs_def checkA_def retA_def failA_def reads_def split: option.splits)

lemma reads_get:
  assumes "follows_api net view request"
    and "\<And>x. reads view (f x) (\<lambda>a doc. (\<exists>v. dec v = Some x \<and> shows_shared net path a v \<and> shows_node path a v) \<longrightarrow> Q a doc)"
  shows "reads view (reading p (api_get net request path dec) f) Q"
  by (rule reads_step [OF runs_get [OF assms(1)] assms(2)])

text \<open>A document before its canonical form, as a node shows itself.\<close>

definition observes :: "agh \<Rightarrow> Document \<Rightarrow> bool" where
  "observes a raw \<longleftrightarrow>
    (let sh = doc_Shared raw; f = sh_Filtering sh; ns = doc_NodeSpecific raw in
     doc_SchemaVersion raw = SchemaVersion \<and> wf_Shared sh \<and> sh_DNS sh = agh_dns a \<and>
     (flt_Enabled f, flt_UpdateInterval f, flt_UserRules f) = (agh_filtering a, agh_interval a, agh_rules a) \<and>
     (\<forall>w. set (wanted w raw) = enabled_in (agh_lists a w)) \<and>
     (\<exists>cs. sh_Clients sh = Some cs \<and> distinct cs \<and> set cs = agh_clients a) \<and> sh_RewritesEnabled sh = agh_rewrites_on a \<and>
     (\<exists>rs. sh_Rewrites sh = Some rs \<and> distinct rs \<and> set rs = agh_rewrites a) \<and>
     sh_Services sh = \<lparr>svc_BlockedServiceIDs = fst (agh_blocked a), svc_BlockedSchedule = snd (agh_blocked a), svc_SafeBrowsing = agh_safebrowsing a,
       svc_ParentalControl = agh_parental a, svc_SafeSearch = agh_safesearch a\<rparr> \<and>
     (sh_QueryLog sh, sh_Statistics sh, ns_BindHosts ns, ns_DNSPort ns) = (agh_querylog a, agh_stats a, agh_listener a) \<and>
     (case agh_dhcp a of None \<Rightarrow> ns_DHCP ns = None
      | Some c \<Rightarrow> (\<exists>ls. ns_DHCP ns = Some (c\<lparr>dhcp_StaticLeases := Some ls\<rparr>) \<and> distinct ls \<and> set ls = agh_leases a)))"

lemma subseq_sorted_wrt: "subseq xs ys \<Longrightarrow> sorted_wrt R ys \<Longrightarrow> sorted_wrt R xs"
proof (induction xs ys rule: list_emb.induct)
  case (list_emb_Cons2 x y xs ys)
  then have "set xs \<subseteq> set ys" by (auto dest: list_emb_set)
  with list_emb_Cons2 show ?case by auto
qed simp_all

lemma gomap_wf_scheduleModel: "gomap_wf (sched_Days (scheduleModel s))"
proof -
  have day: "subseq (map fst (case p of None \<Rightarrow> [] | Some q \<Rightarrow> [(n, f q)])) [n]" for n :: string and p and f :: "dayRangeResponse \<Rightarrow> DayRange"
    by (cases p) simp_all
  have "subseq (map fst (sched_Days (scheduleModel s)))
      ([''fri''] @ [''mon''] @ [''sat''] @ [''sun''] @ [''thu''] @ [''tue''] @ [''wed''])"
    unfolding scheduleModel_def Let_def Schedule.select_convs map_append by (intro list_emb_append_mono day)
  then show ?thesis unfolding gomap_wf_def by (rule subseq_sorted_wrt) simp
qed

lemma enabled_urls_view:
  assumes "filter_view fs a"
  shows "set (enabled_urls False (fs_Filters fs)) = enabled_in (agh_lists a False)"
    "set (enabled_urls True (fs_Filters fs) @ map flr_URL (filter flr_Enabled (fs_WhitelistFilters fs))) = enabled_in (agh_lists a True)"
proof -
  have on: "enabled_in (list_entry ` A) = flr_URL ` {i \<in> A. flr_Enabled i}" for A
    by (auto simp: enabled_in_def list_entry_def image_iff)
  from assms have "agh_lists a w = list_entry ` {i \<in> set (filter_items fs). flr_Whitelist i = w}" for w
    by (simp add: filter_view_def)
  then have e: "enabled_in (agh_lists a w) = flr_URL ` {i \<in> {i \<in> set (filter_items fs). flr_Whitelist i = w}. flr_Enabled i}" for w
    by (simp only: on)
  show "set (enabled_urls False (fs_Filters fs)) = enabled_in (agh_lists a False)"
    unfolding e by (auto simp: enabled_urls_def filter_items_def)
  have "flr_URL ` {i \<in> {i \<in> A \<union> (\<lambda>f. f\<lparr>flr_Whitelist := True\<rparr>) ` B. flr_Whitelist i = True}. flr_Enabled i} =
      flr_URL ` {f \<in> A. flr_Enabled f \<and> flr_Whitelist f} \<union> flr_URL ` {f \<in> B. flr_Enabled f}" for A B
    by (force simp: image_iff)
  from this [of "set (fs_Filters fs)" "set (fs_WhitelistFilters fs)"]
  show "set (enabled_urls True (fs_Filters fs) @ map flr_URL (filter flr_Enabled (fs_WhitelistFilters fs))) = enabled_in (agh_lists a True)"
    unfolding e by (simp add: enabled_urls_def filter_items_def)
qed

lemma observes_populated:
  assumes "filter_view fs a" and "dnsModel dns = agh_dns a" and "(plainDNSBindHosts (status_DNSAddresses st), status_DNSPort st) = agh_listener a"
    and "distinct (map clientModel cs)" "set (map clientModel cs) = agh_clients a"
    and "distinct (map rewriteModel rs)" "set (map rewriteModel rs) = agh_rewrites a"
    and "(bsr_IDs bl, scheduleModel (bsr_Schedule bl)) = agh_blocked a" and "safeSearchModel ss = agh_safesearch a"
    and "queryLogModel ql = agh_querylog a" and "statisticsModel sta = agh_stats a"
    and "rw = agh_rewrites_on a" "sb = agh_safebrowsing a" "pa = agh_parental a" and "ok = (agh_dhcp a \<noteq> None)"
    and "ok \<Longrightarrow> agh_dhcp a = Some ((dhcpModel dh)\<lparr>dhcp_StaticLeases := None\<rparr>) \<and> distinct (map leaseModel (ds_StaticLeases dh)) \<and>
      set (map leaseModel (ds_StaticLeases dh)) = agh_leases a"
  shows "observes a (populateBroaderDocument (configurationDocument net version st dns fs) cs rw rs bl sb pa ss ql sta t dh ok)"
proof -
  have wf: "wf_Shared (doc_Shared (populateBroaderDocument (configurationDocument net version st dns fs) cs rw rs bl sb pa ss ql sta t dh ok))"
    by (auto simp: wf_Shared_def populateBroaderDocument_def Let_def clientModel_def gomap_wf_scheduleModel)
  have urls: "set (wanted w (populateBroaderDocument (configurationDocument net version st dns fs) cs rw rs bl sb pa ss ql sta t dh ok)) = enabled_in (agh_lists a w)" for w
    using enabled_urls_view [OF assms(1)] by (cases w) (simp_all add: wanted_def populateBroaderDocument_def configurationDocument_def Let_def)
  let ?doc = "populateBroaderDocument (configurationDocument net version st dns fs) cs rw rs bl sb pa ss ql sta t dh ok"
  from assms(1) have "fs_Enabled fs = Some (agh_filtering a)" "fs_Interval fs = agh_interval a" "fs_UserRules fs = agh_rules a"
    by (simp_all add: filter_view_def)
  then have shared: "doc_SchemaVersion ?doc = SchemaVersion" "sh_DNS (doc_Shared ?doc) = agh_dns a"
      "flt_Enabled (sh_Filtering (doc_Shared ?doc)) = agh_filtering a" "flt_UpdateInterval (sh_Filtering (doc_Shared ?doc)) = agh_interval a" 
      "flt_UserRules (sh_Filtering (doc_Shared ?doc)) = agh_rules a" "sh_RewritesEnabled (doc_Shared ?doc) = agh_rewrites_on a"
      "sh_Clients (doc_Shared ?doc) = Some (map clientModel cs)" "sh_Rewrites (doc_Shared ?doc) = Some (map rewriteModel rs)"
      "sh_QueryLog (doc_Shared ?doc) = agh_querylog a" "sh_Statistics (doc_Shared ?doc) = agh_stats a"
      "ns_BindHosts (doc_NodeSpecific ?doc) = fst (agh_listener a)" "ns_DNSPort (doc_NodeSpecific ?doc) = snd (agh_listener a)"
      "ns_DHCP (doc_NodeSpecific ?doc) = (if ok then Some (dhcpModel dh) else None)"
    using assms by (simp_all add: populateBroaderDocument_def configurationDocument_def Let_def flip: assms(3))
  have services: "sh_Services (doc_Shared ?doc) = \<lparr>svc_BlockedServiceIDs = fst (agh_blocked a), svc_BlockedSchedule = snd (agh_blocked a),
      svc_SafeBrowsing = agh_safebrowsing a, svc_ParentalControl = agh_parental a, svc_SafeSearch = agh_safesearch a\<rparr>"
    using assms(9,13,14) by (simp add: populateBroaderDocument_def Let_def flip: assms(8))
  have "(dhcpModel dh)\<lparr>dhcp_StaticLeases := Some (map leaseModel (ds_StaticLeases dh))\<rparr> = dhcpModel dh" by (simp add: dhcpModel_def)
  then have dhcp: "case agh_dhcp a of None \<Rightarrow> ns_DHCP (doc_NodeSpecific ?doc) = None
      | Some c \<Rightarrow> \<exists>ls. ns_DHCP (doc_NodeSpecific ?doc) = Some (c\<lparr>dhcp_StaticLeases := Some ls\<rparr>) \<and> distinct ls \<and> set ls = agh_leases a"
    using assms(15,16) shared(13) by (cases ok) (auto intro!: exI [of _ "map leaseModel (ds_StaticLeases dh)"])
  show ?thesis
    unfolding observes_def Let_def using wf urls services dhcp assms(4-7) by (simp add: shared)
qed

lemma shown:
  "shows_shared net ''/control/filtering/status'' a v \<longleftrightarrow> (\<forall>x. dec_filterStatus v = Some x \<longrightarrow> filter_view x a)"
  "shows_shared net ''/control/clients'' a v \<longleftrightarrow> (\<forall>x. dec_clients v = Some x \<longrightarrow> distinct (map clientModel x) \<and> set (map clientModel x) = agh_clients a)"
  "shows_shared net ''/control/rewrite/list'' a v \<longleftrightarrow>
     (\<forall>x. v_list dec_rewrite v = Some x \<longrightarrow> distinct (map rewriteModel x) \<and> set (map rewriteModel x) = agh_rewrites a)"
  "shows_shared net ''/control/rewrite/settings'' a v \<longleftrightarrow> (\<forall>x. dec_enabled v = Some x \<longrightarrow> x = agh_rewrites_on a)"
  "shows_shared net ''/control/blocked_services/get'' a v \<longleftrightarrow>
     (\<forall>x. dec_blockedServices v = Some x \<longrightarrow> (bsr_IDs x, scheduleModel (bsr_Schedule x)) = agh_blocked a)"
  "shows_shared net ''/control/safebrowsing/status'' a v \<longleftrightarrow> (\<forall>x. dec_enabled v = Some x \<longrightarrow> x = agh_safebrowsing a)"
  "shows_shared net ''/control/parental/status'' a v \<longleftrightarrow> (\<forall>x. dec_enabled v = Some x \<longrightarrow> x = agh_parental a)"
  "shows_shared net ''/control/safesearch/status'' a v \<longleftrightarrow> (\<forall>x. dec_safeSearch v = Some x \<longrightarrow> safeSearchModel x = agh_safesearch a)"
  "shows_shared net ''/control/querylog/config'' a v \<longleftrightarrow> (\<forall>x. dec_policy v = Some x \<longrightarrow> pr_IgnoredEnabled x \<noteq> None \<and> queryLogModel x = agh_querylog a)"
  "shows_shared net ''/control/stats/config'' a v \<longleftrightarrow> (\<forall>x. dec_policy v = Some x \<longrightarrow> pr_IgnoredEnabled x \<noteq> None \<and> statisticsModel x = agh_stats a)"
  "shows_shared net ''/control/dns_info'' a v \<longleftrightarrow>
     (\<forall>x. dec_dnsInfo net v = Some x \<longrightarrow> info_CacheEnabled x \<noteq> None \<and> info_UpstreamTimeout x \<noteq> None \<and> dnsModel x = agh_dns a)"
  "shows_node ''/control/status'' a v \<longleftrightarrow>
     (\<forall>x. dec_status v = Some x \<longrightarrow> (plainDNSBindHosts (status_DNSAddresses x), status_DNSPort x) = agh_listener a)"
  "shows_node ''/control/dhcp/status'' a v \<longleftrightarrow>
     (\<forall>x. dec_dhcpStatus v = Some x \<longrightarrow> agh_dhcp a = Some ((dhcpModel x)\<lparr>dhcp_StaticLeases := None\<rparr>) \<and>
       distinct (map leaseModel (ds_StaticLeases x)) \<and> set (map leaseModel (ds_StaticLeases x)) = agh_leases a)"
  by (simp_all add: shows_shared_def shows_node_def)

lemma shownD:
  "\<exists>v. dec v = Some x \<and> (\<forall>x. dec v = Some x \<longrightarrow> R x) \<and> S v \<Longrightarrow> R x"
  "\<exists>v. dec v = Some x \<and> S v \<and> (\<forall>x. dec v = Some x \<longrightarrow> R x) \<Longrightarrow> R x"
  by blast+

lemma reads_result:
  "(\<And>a. Q a doc) \<Longrightarrow> reads view (\<lambda>n. ((doc, p, None), n)) Q"
  by (simp add: reads_def)

lemma reads_ReadConfiguration:
  assumes api: "follows_api net view request"
  shows "reads view (ReadConfiguration net request version) (\<lambda>a doc. \<exists>raw. doc = Canonicalise raw \<and> observes a raw)"
proof (cases "Compatibility_of version = CompatibilitySupported")
  case False
  then show ?thesis by (simp add: ReadConfiguration_def reads_def)
next
  case True
  show ?thesis
    unfolding ReadConfiguration_def read_broader_def Let_def if_not_P [OF not_not [THEN iffD2, OF True]]
    apply (rule reads_get [OF api] reads_check)+
    apply (rule reads_step [OF runs_getOptional [OF api]])
    apply (unfold split_beta shown)
    apply (rule reads_result)
    apply (intro impI)
    apply (drule shownD)+
    apply (rule exI, rule conjI [OF refl])
    apply (elim conjE)
    apply (rule observes_populated; (assumption | blast))
    done
qed


subsection \<open>No managed difference\<close>

lemma cleanSet_loop_set:
  assumes "\<forall>v \<in> set vs. v \<noteq> [] \<and> TrimSpace v = v" and "inj_on ToLower (set vs)"
  shows "set (cleanSet_loop seen vs) = {v \<in> set vs. ToLower v \<notin> set seen}"
  using assms
proof (induction vs arbitrary: seen)
  case (Cons v vs)
  have "ToLower x = ToLower v \<longleftrightarrow> x = v" if "x \<in> set vs" for x
    using that by (intro inj_on_eq_iff [OF Cons.prems(2)]) auto
  with Cons show ?case by (auto simp: Let_def)
qed simp

lemma cleanSet_same:
  assumes "set xs = set ds" and "cleanSet ds = ds"
  shows "cleanSet xs = ds"
  unfolding cleanSet_def
proof (rule sorted_unique)
  from assms have clean: "clean_keys ds" and sorted: "sorted (map ToLower ds)"
    using clean_keys_cleanSet [of ds] cleanSet_sorted [of ds] by simp_all
  from clean have "\<forall>v \<in> set xs. v \<noteq> [] \<and> TrimSpace v = v" "inj_on ToLower (set xs)"
    by (simp_all add: clean_keys_def assms(1) distinct_map)
  from cleanSet_loop_set [OF this, of "[]"] assms(1) show "set (cleanSet_loop [] xs) = set ds" by simp
  from cleanSet_loop_clean [of "[]" xs] show "distinct (cleanSet_loop [] xs)" by (auto simp: clean_keys_def distinct_map)
  from clean show "distinct (map ToLower ds)" by (simp add: clean_keys_def)
  show "sorted (map ToLower ds)" by (rule sorted)
qed

text \<open>A list in canonical order is found again from the set of its entries.\<close>

lemma canonical_same:
  fixes k :: "'a \<Rightarrow> 'b::linorder"
  assumes lt: "lt = (\<lambda>a b. k a < k b)" and ds: "sort_slice lt (map f ds) = ds" and keys: "distinct (map k ds)"
    and xs: "distinct xs" "set xs = g ` set ds" and undo: "\<And>d. f d = d \<Longrightarrow> f (g d) = d" and idem: "\<And>x. f (f x) = f x"
  shows "sort_slice lt (map f xs) = ds"
proof -
  have fix_d: "f d = d" if "d \<in> set ds" for d
  proof -
    from that have "d \<in> set (sort_slice lt (map f ds))" by (simp only: ds)
    then show ?thesis by (auto simp: lt idem)
  qed
  with undo have undo': "f (g d) = d" if "d \<in> set ds" for d using that by simp
  have "g (f y) = y" if "y \<in> g ` set ds" for y using that undo' by auto
  then have "inj_on f (g ` set ds)" by (rule inj_on_inverseI)
  moreover have "sorted (map k ds)"
    by (subst ds [symmetric]) (simp add: lt sort_slice_sort_key)
  ultimately show ?thesis
    unfolding lt using xs keys by (intro sorted_unique) (simp_all add: distinct_map image_image undo')
qed

lemma Canonicalise_fix:
  "canonicalShared (doc_Shared (Canonicalise x)) = doc_Shared (Canonicalise x)"
  "canonicalNodeSpecific (doc_NodeSpecific (Canonicalise x)) = doc_NodeSpecific (Canonicalise x)"
  by (simp_all add: Canonicalise_fields canon)

lemma observed_shared:
  assumes sh: "canonicalShared (doc_Shared d) = doc_Shared d" and "sound_target d" "configured a d" "observes a raw"
  shows "canonicalShared (doc_Shared raw) = doc_Shared d"
proof -
  let ?r = "doc_Shared raw" and ?s = "doc_Shared d"
  have fixed: "canonicalDNS (sh_DNS ?s) = sh_DNS ?s" "canonicalFiltering (sh_Filtering ?s) = sh_Filtering ?s"
    "map_option (\<lambda>cs. sort_slice client_less (map canonicalClient cs)) (sh_Clients ?s) = sh_Clients ?s"
    "map_option (\<lambda>rs. sort_slice rewrite_less (map canonicalRewrite rs)) (sh_Rewrites ?s) = sh_Rewrites ?s"
    "(sh_Services ?s)\<lparr>svc_BlockedServiceIDs := cleanSet (svc_BlockedServiceIDs (sh_Services ?s)),
        svc_BlockedSchedule := canonicalSchedule (svc_BlockedSchedule (sh_Services ?s))\<rparr> = sh_Services ?s"
    "(sh_QueryLog ?s)\<lparr>ql_Ignored := cleanSet (ql_Ignored (sh_QueryLog ?s))\<rparr> = sh_QueryLog ?s"
    "(sh_Statistics ?s)\<lparr>st_Ignored := cleanSet (st_Ignored (sh_Statistics ?s))\<rparr> = sh_Statistics ?s"
    using arg_cong [OF sh, of sh_DNS] arg_cong [OF sh, of sh_Filtering] arg_cong [OF sh, of sh_Clients] arg_cong [OF sh, of sh_Rewrites]
      arg_cong [OF sh, of sh_Services] arg_cong [OF sh, of sh_QueryLog] arg_cong [OF sh, of sh_Statistics]
    by (simp_all add: canonicalShared_def)
  from assms(2,3) obtain cs rs where d: "sh_Clients ?s = Some cs" "sh_Rewrites ?s = Some rs"
    and dist: "distinct (map client_id cs)" "distinct (map rewrite_of rs)"
    by (auto simp: sound_target_def)
  from assms(3,4) d obtain cs' rs' where r: "sh_Clients ?r = Some cs'" "distinct cs'" "set cs' = set cs" "sh_Rewrites ?r = Some rs'" "distinct rs'" "set rs' = set rs"
    by (auto simp: observes_def configured_def Let_def)
  have "sort_slice client_less (map canonicalClient cs') = cs"
    by (rule canonical_same [where g = "\<lambda>x. x", OF client_less_key]) (use fixed(3) d r dist in \<open>simp_all add: canon\<close>)
  moreover have "sort_slice rewrite_less (map canonicalRewrite rs') = rs"
  proof (rule canonical_same [where g = "\<lambda>x. x", OF rewrite_less_key])
    have "map rewrite_of rs = map (\<lambda>(x, y). x @ CHR 0x00 # y) (map rewrite_key rs)"
      by (simp add: rewrite_key_def rewrite_id_def)
    with dist(2) have "distinct (map (\<lambda>(x, y). x @ CHR 0x00 # y) (map rewrite_key rs))" by (simp only:)
    then show "distinct (map rewrite_key rs)" by (rule distinct_map [THEN iffD1, THEN conjunct1])
  qed (use fixed(4) d r in \<open>simp_all add: canon\<close>)
  moreover have "canonicalFiltering (sh_Filtering ?r) = sh_Filtering ?s"
  proof -
    have "set (wanted w raw) = set (wanted w d)" for w using assms(3,4) by (simp add: observes_def configured_def Let_def)
    then have "cleanSet (wanted w raw) = wanted w d" for w
      by (rule cleanSet_same) (use arg_cong [OF fixed(2), of flt_WhitelistURLs] arg_cong [OF fixed(2), of flt_FilterURLs]
          in \<open>simp add: wanted_def canonicalFiltering_def\<close>)
    from this [of True] this [of False] have "cleanSet (flt_WhitelistURLs (sh_Filtering ?r)) = flt_WhitelistURLs (sh_Filtering ?s)"
        "cleanSet (flt_FilterURLs (sh_Filtering ?r)) = flt_FilterURLs (sh_Filtering ?s)"
      by (simp_all add: wanted_def)
    moreover have "cleanOrdered (flt_UserRules (sh_Filtering ?s)) = flt_UserRules (sh_Filtering ?s)"
      using arg_cong [OF fixed(2), of flt_UserRules] by (simp add: canonicalFiltering_def)
    ultimately show ?thesis
      using assms(3,4) by (intro Filtering.equality) (simp_all add: canonicalFiltering_def observes_def configured_def Let_def)
  qed
  moreover have "sh_DNS ?r = sh_DNS ?s" "sh_Services ?r = sh_Services ?s" "sh_QueryLog ?r = sh_QueryLog ?s" "sh_Statistics ?r = sh_Statistics ?s"
    "sh_RewritesEnabled ?r = sh_RewritesEnabled ?s"
    using assms(3,4) by (simp_all add: observes_def configured_def Let_def)
  ultimately show ?thesis
    using fixed d r by (intro Shared.equality) (simp_all add: canonicalShared_def)
qed

lemma observed_node:
  assumes ns: "canonicalNodeSpecific (doc_NodeSpecific d) = doc_NodeSpecific d" and "sound_target d" "configured a d" "observes a raw"
  shows "canonicalNodeSpecific (doc_NodeSpecific raw) = doc_NodeSpecific d"
proof -
  let ?r = "doc_NodeSpecific raw" and ?s = "doc_NodeSpecific d"
  have "map_option canonicaliseDHCP (ns_DHCP ?r) = ns_DHCP ?s"
  proof (cases "ns_DHCP ?s")
    case None
    with assms(3,4) show ?thesis by (simp add: configured_def observes_def Let_def)
  next
    case (Some c)
    with assms(2) obtain ds where ds: "dhcp_StaticLeases c = Some ds" "distinct (map lease_id ds)" by (auto simp: sound_target_def)
    from Some ds(1) assms(3) obtain m where m: "agh_dhcp a = Some (c\<lparr>dhcp_StaticLeases := None\<rparr>)" "agh_leases a = lease_kept m ` set ds"
      by (auto simp: configured_def Let_def)
    from assms(4) have "case agh_dhcp a of None \<Rightarrow> ns_DHCP ?r = None
      | Some c \<Rightarrow> \<exists>ls. ns_DHCP ?r = Some (c\<lparr>dhcp_StaticLeases := Some ls\<rparr>) \<and> distinct ls \<and> set ls = agh_leases a"
      by (simp only: observes_def Let_def)
    with m obtain ls where r: "ns_DHCP ?r = Some (c\<lparr>dhcp_StaticLeases := Some ls\<rparr>)" "distinct ls" "set ls = lease_kept m ` set ds"
      by auto
    from arg_cong [OF ns, of ns_DHCP] Some have "canonicaliseDHCP c = c" by (simp add: canonicalNodeSpecific_def)
    from arg_cong [OF this, of dhcp_InterfaceName] arg_cong [OF this, of dhcp_StaticLeases] ds(1)
    have c: "TrimSpace (dhcp_InterfaceName c) = dhcp_InterfaceName c" "sort_slice (\<lambda>a b. lease_MAC a < lease_MAC b) (map canonicalLease ds) = ds"
      by (simp_all add: canonicaliseDHCP_def)
    from ds(2) have "distinct (map ToLower (map lease_MAC ds))" by (simp add: comp_def)
    then have "distinct (map lease_MAC ds)" by (rule distinct_map [THEN iffD1, THEN conjunct1])
    then have "sort_slice (\<lambda>a b. lease_MAC a < lease_MAC b) (map canonicalLease ls) = ds"
      by (intro canonical_same [OF refl c(2) _ r(2,3)] canonical_lease_kept canonicalLease_idem)
    with r(1) c(1) ds(1) Some show ?thesis
      by (simp add: canonicaliseDHCP_def)
  qed
  moreover from assms(4) have "(ns_BindHosts ?r, ns_DNSPort ?r) = agh_listener a" by (simp add: observes_def Let_def)
  then have "fst (agh_listener a) = ns_BindHosts ?r" "snd (agh_listener a) = ns_DNSPort ?r" by (metis fst_conv, metis snd_conv)
  moreover from assms(3) have "cleanSet (fst (agh_listener a)) = ns_BindHosts ?s" "snd (agh_listener a) = ns_DNSPort ?s"
    by (simp_all add: configured_def Let_def)
  ultimately show ?thesis by (intro NodeSpecific.equality) (simp_all add: canonicalNodeSpecific_def)
qed

lemma wf_canonicalShared_iff: "wf_Shared (canonicalShared s) \<longleftrightarrow> wf_Shared s"
  by (cases "sh_Clients s") (auto simp: wf_Shared_def canonicalShared_def canonicalSchedule_def canonicalClient_def)

lemma observed_verified:
  assumes "sound_target (Canonicalise document)" "configured a (Canonicalise document)" "observes a raw"
  shows "managedDifferences document (ProjectDocument (Canonicalise raw) v) = []"
proof -
  let ?d = "Canonicalise document" and ?o = "ProjectDocument (Canonicalise raw) v"
  from assms(1) have "wf_Shared (doc_Shared ?d)"
    by (auto simp: sound_target_def wf_Shared_def weekly_def list_all_iff)
  then have "wf_Shared (doc_Shared document)" by (simp add: Canonicalise_fields wf_canonicalShared_iff)
  moreover from assms(3) have "wf_Shared (doc_Shared ?o)"
    by (simp add: observes_def Let_def ProjectDocument_def Canonicalise_fields canon wf_canonicalShared_iff)
  moreover from assms(1) have "both_v2 document ?o" by (simp add: both_v2_def sound_target_def)
  moreover note observed_shared [OF Canonicalise_fix(1) assms] observed_node [OF Canonicalise_fix(2) assms]
  ultimately show ?thesis
    by (simp add: managedDifferences_iff ProjectDocument_def Canonicalise_fields canon)
qed


end
