(* ===== verification/Adguard_Sample.thy ===== *)
theory Adguard_Sample
  imports Adguard_Verify
begin

text \<open>
  A node that follows its API, small enough to be evaluated: its state is whether its filtering rules
  have been set, and it accepts the commands that set them or that leave it as it is.
\<close>

definition bench_rules :: "string list" where
  "bench_rules = [''||ads.example^'']"

definition bench_document :: Document where
  "bench_document = \<lparr>doc_SchemaVersion = SchemaVersion,
     doc_Shared = zero_Shared\<lparr>sh_Clients := Some [], sh_Rewrites := Some [],
       sh_Filtering := (sh_Filtering zero_Shared)\<lparr>flt_UserRules := bench_rules\<rparr>\<rparr>,
     doc_NodeSpecific = \<lparr>ns_BindHosts = [''0.0.0.0''], ns_DNSPort = 53, ns_DHCP = None\<rparr>,
     doc_ObservedOnly = zero_ObservedOnly, doc_Unsupported = None\<rparr>"

definition bench_view :: "bool \<Rightarrow> agh" where
  "bench_view b = \<lparr>agh_listener = ([''0.0.0.0''], 53), agh_filtering = False, agh_interval = 0, agh_lists = (\<lambda>_. {}),
     agh_rules = (if b then bench_rules else []), agh_clients = {}, agh_rewrites_on = False, agh_rewrites = {},
     agh_blocked = ([], zero_Schedule), agh_safebrowsing = False, agh_parental = False, agh_safesearch = zero_SafeSearch,
     agh_querylog = sh_QueryLog zero_Shared, agh_stats = sh_Statistics zero_Shared, agh_dns = zero_DNS, agh_dhcp = None, agh_leases = {}\<rparr>"

definition bench_info :: dnsInfoResponse where
  "bench_info =
     \<lparr>info_UpstreamDNS = [], info_BootstrapDNS = [], info_FallbackDNS = [], info_PrivateReverseDNS = [],
      info_ProtectionEnabled = Some False, info_ProtectionDisabledUntil = None, info_RateLimit = 0, info_RateLimitIPv4 = 0,
      info_RateLimitIPv6 = 0, info_RateLimitAllowlist = [], info_BlockingMode = [], info_BlockingIPv4 = [], info_BlockingIPv6 = [],
      info_BlockedResponseTTL = 0, info_EDNSClientSubnet = False, info_EDNSUseCustom = False, info_EDNSCustomIP = [],
      info_DisableIPv6 = False, info_DNSSECEnabled = False, info_CacheSize = 0, info_CacheEnabled = Some False, info_CacheTTLMin = 0,
      info_CacheTTLMax = 0, info_CacheOptimistic = False, info_UpstreamMode = [], info_UsePrivateReverse = False,
      info_ResolveClients = False, info_UpstreamTimeout = Some 0\<rparr>"

definition bench_commands :: "command list" where
  "bench_commands = [FilteringConfig False 0, RewriteSettings False, BlockedServices (sh_Services zero_Shared), SafeBrowsing False, Parental False,
     SafeSearchSettings zero_SafeSearch, QueryLogConfig (sh_QueryLog zero_Shared), StatsConfig (sh_Statistics zero_Shared), DNSConfig bench_info zero_DNS]"

definition bench_get :: "bool \<Rightarrow> string \<Rightarrow> json_reply option" where
  "bench_get b path =
    (if path = ''/control/status'' then Some (VObject [(''dns_addresses'', VArray [VString ''0.0.0.0'']), (''dns_port'', VInt 53),
       (''protection_enabled'', VBool False), (''protection_disabled_duration'', VInt 0)])
     else if path = ''/control/dns_info'' then Some (VObject [(''protection_enabled'', VBool False), (''cache_enabled'', VBool False), (''upstream_timeout'', VInt 0)])
     else if path = ''/control/filtering/status''
     then Some (VObject [(''enabled'', VBool False), (''user_rules'', VArray (map VString (agh_rules (bench_view b))))])
     else if path \<in> {''/control/clients'', ''/control/rewrite/settings'', ''/control/blocked_services/get'', ''/control/safebrowsing/status'',
       ''/control/parental/status'', ''/control/safesearch/status'', ''/control/tls/status''} then Some (VObject [])
     else if path = ''/control/rewrite/list'' then Some (VArray [])
     else if path \<in> {''/control/querylog/config'', ''/control/stats/config''} then Some (VObject [(''ignored_enabled'', VBool False)])
     else None)"

definition bench_reply :: "int \<Rightarrow> body \<Rightarrow> http_reply" where
  "bench_reply status text = \<lparr>rep_StatusCode = status, rep_ContentType = ''application/json'', rep_HasLocation = False, rep_LatencyMS = 1, rep_Body = text\<rparr>"

definition bench_server :: "bool server" where
  "bench_server r b =
    (if req_Method r = ''GET''
     then (case bench_get b (req_URL r) of Some v \<Rightarrow> (Inr (bench_reply 200 (BodyText 1 (Inr v))), b) | None \<Rightarrow> (Inr (bench_reply 404 BodyError), b))
     else let sent = (req_Method r, req_URL r, req_Body r) in
       if sent = request_of (SetRules bench_rules) then (Inr (bench_reply 200 BodyError), True)
       else if sent \<in> set (map request_of bench_commands) then (Inr (bench_reply 200 BodyError), b)
       else (Inr (bench_reply 400 BodyError), b))"

definition bench_net :: "bool net" where
  "bench_net = \<lparr>server = bench_server,
     parse_url = (\<lambda>s. Some \<lparr>url_Scheme = ''http'', url_Host = ''node'', url_HasUser = False, url_Path = s, url_RawQuery = [], url_Fragment = []\<rparr>),
     string_url = url_Path, pem_ok = (\<lambda>_. True), strconv_quote = (\<lambda>s. s), type_error = (\<lambda>_ _. []), parse_time = (\<lambda>_. None),
     format_time = (\<lambda>_. []), range_keys = (\<lambda>ks. ks)\<rparr>"

definition bench_request :: NodeProbeRequest where
  "bench_request = \<lparr>probe_BaseURL = [], probe_CertificatePolicy = [], probe_CustomCAPEM = [],
     probe_Credentials = \<lparr>cred_Username = ''admin'', cred_Password = ''secret''\<rparr>\<rparr>"


subsection \<open>Its answers\<close>

lemma bench_net_simps [simp]:
  "server bench_net = bench_server" "transport bench_net bench_request = None" "configurationEndpoint bench_net (probe_BaseURL bench_request) path = Some path"
  "parse_url bench_net s = Some \<lparr>url_Scheme = ''http'', url_Host = ''node'', url_HasUser = False, url_Path = s, url_RawQuery = [], url_Fragment = []\<rparr>"
  by (simp_all add: bench_net_def bench_request_def transport_def configurationEndpoint_def TrimRight_slash_def CertificateCustomCA_def)

lemma bench_exchange: "exchange bench_net purpose bench_request method path payload b = (case bench_server (http_request_to bench_request method path payload) b of
    (Inl f, b) \<Rightarrow> (Inl (classifyNetworkError f), b) | (Inr r, b) \<Rightarrow> (Inr r, b))"
  by (simp add: exchange_def bindA_def checkA_def retA_def perform_def http_request_to_def)

lemma bench_send:
  assumes "request_of c = (method, path, payload)" and "c \<in> set bench_commands"
  shows "send bench_net bench_request method path payload b = (Inr (), b)"
proof -
  from assms(2) have "request_of c \<noteq> request_of (SetRules bench_rules)" "fst (request_of c) \<noteq> ''GET''"
    by (auto simp: bench_commands_def)
  with assms show ?thesis
    by (force simp: send_def bindA_def bench_exchange bench_server_def http_request_to_def bench_reply_def unauthorised_def retA_def)
qed

lemma bench_set_rules:
  "send bench_net bench_request ''POST'' ''/control/filtering/set_rules'' (Some (obj [(''rules'', j_strings bench_rules)])) b = (Inr (), True)"
  by (simp add: send_def bindA_def bench_exchange bench_server_def http_request_to_def bench_reply_def unauthorised_def retA_def)

lemma bench_resource:
  assumes "bench_get b path = Some v" "dec v = Some x" "200 \<notin> set unavailable"
  shows "getResource bench_net bench_request path dec unavailable b = (Inr (True, x), b)"
  using assms by (simp add: getResource_def bindA_def bench_exchange bench_server_def http_request_to_def bench_reply_def
      unauthorised_def retA_def read_body_def maxConfigurationBody_def Let_def)

lemma bench_missing:
  "bench_get b path = None \<Longrightarrow> 404 \<in> set unavailable \<Longrightarrow> getResource bench_net bench_request path dec unavailable b = (Inr (False, zero_of dec), b)"
  by (simp add: getResource_def bindA_def bench_exchange bench_server_def http_request_to_def bench_reply_def unauthorised_def retA_def Let_def)

lemma bench_api_get: "bench_get b path = Some v \<Longrightarrow> dec v = Some x \<Longrightarrow> api_get bench_net bench_request path dec b = (Inr x, b)"
  by (simp add: api_get_def bindA_def bench_resource retA_def)

lemmas bench_sends = bench_send [of "FilteringConfig False 0"] bench_send [of "RewriteSettings False"] bench_send [of "SafeBrowsing False"]
  bench_send [of "Parental False"] bench_send [of "BlockedServices (sh_Services zero_Shared)"] bench_send [of "SafeSearchSettings zero_SafeSearch"]
  bench_send [of "QueryLogConfig (sh_QueryLog zero_Shared)"] bench_send [of "StatsConfig (sh_Statistics zero_Shared)"] bench_send [of "DNSConfig bench_info zero_DNS"]

text \<open>The values that are read.\<close>

definition bench_filters :: "bool \<Rightarrow> filterStatusResponse" where
  "bench_filters b = \<lparr>fs_FilteringEnabled = None, fs_Enabled = Some False, fs_Interval = 0, fs_Filters = [],
     fs_UserRules = agh_rules (bench_view b), fs_WhitelistFilters = []\<rparr>"

definition bench_policy :: policyResponse where
  "bench_policy = \<lparr>pr_Enabled = False, pr_IntervalMillis = 0, pr_AnonymizeClientIP = False, pr_Ignored = [], pr_IgnoredEnabled = Some False\<rparr>"

lemma lower_keys:
  "map lower_char ''abcdefghijklmnopqrstuvwxyz_0123456789'' = ''abcdefghijklmnopqrstuvwxyz_0123456789''"
  by code_simp

lemma decode_strings: "decode_all v_string (map VString xs) = Some xs"
  by (induction xs) simp_all

lemmas decoding = field_def EqualFold_def lower_keys [simplified] v_ptr_def decode_strings fits_int64_def

lemma bench_decoded:
  "map_option dec_filterStatus (bench_get b ''/control/filtering/status'') = Some (Some (bench_filters b))"
  "map_option (dec_dnsInfo bench_net) (bench_get b ''/control/dns_info'') = Some (Some bench_info)"
  "map_option dec_clients (bench_get b ''/control/clients'') = Some (Some [])"
  "map_option (v_list dec_rewrite) (bench_get b ''/control/rewrite/list'') = Some (Some [])"
  "map_option dec_enabled (bench_get b ''/control/rewrite/settings'') = Some (Some False)"
  "map_option dec_policy (bench_get b ''/control/querylog/config'') = Some (Some bench_policy)"
  "map_option dec_policy (bench_get b ''/control/stats/config'') = Some (Some bench_policy)"
  by (simp_all add: bench_get_def dec_filterStatus_def dec_dnsInfo_def dec_clients_def dec_enabled_def dec_policy_def decoding
        bench_filters_def bench_info_def bench_policy_def)

lemma bench_reads:
  "api_get bench_net bench_request ''/control/filtering/status'' dec_filterStatus b = (Inr (bench_filters b), b)"
  "api_get bench_net bench_request ''/control/dns_info'' (dec_dnsInfo bench_net) b = (Inr bench_info, b)"
  "api_get bench_net bench_request ''/control/clients'' dec_clients b = (Inr [], b)"
  "api_get bench_net bench_request ''/control/rewrite/list'' (v_list dec_rewrite) b = (Inr [], b)"
  "getOptionalEndpoint bench_net bench_request ''/control/rewrite/settings'' dec_enabled b = (Inr (True, False), b)"
  "api_get bench_net bench_request ''/control/querylog/config'' dec_policy b = (Inr bench_policy, b)"
  "api_get bench_net bench_request ''/control/stats/config'' dec_policy b = (Inr bench_policy, b)"
  unfolding getOptionalEndpoint_def using bench_decoded [of b] by (auto intro: bench_api_get bench_resource)

lemma bench_canonical: "Canonicalise bench_document = bench_document"
  by code_simp

lemma bench_fields:
  "doc_Shared bench_document = zero_Shared\<lparr>sh_Clients := Some [], sh_Rewrites := Some [],
       sh_Filtering := (sh_Filtering zero_Shared)\<lparr>flt_UserRules := bench_rules\<rparr>\<rparr>" "ns_DHCP (doc_NodeSpecific bench_document) = None"
  by (simp_all add: bench_document_def)

lemma bindA_run: "bindA m f n = (case m n of (Inl err, n) \<Rightarrow> (Inl err, n) | (Inr x, n) \<Rightarrow> f x n)" "retA y n = (Inr y, n)"
  by (simp_all add: bindA_def retA_def)

lemma bench_applied: "Adguard_ApplyConfiguration bench_net bench_request bench_document False = (Inr (), True)"
proof -
  have lists: "reconcileFilterURLs bench_net bench_request (bench_filters b) [] w b = (Inr (), b)" for b w
    by (simp add: reconcileFilterURLs_def bench_filters_def filter_items_def bindA_run)
  have broader: "apply_broader bench_net bench_request (doc_Shared bench_document) b = (Inr (), b)" for b
    by (simp del: not_None_eq add: bench_policy_def [THEN arg_cong, of pr_IgnoredEnabled, simplified] apply_broader_def bench_fields bindA_run bench_reads reconcileClients_def reconcileRewrites_def whenA_def setEnabled_def updatePolicy_def
        post_def put_def bench_sends bench_commands_def zero_Shared_def)
  show ?thesis
    by (subst apply_current_schema)
      (simp add: bench_canonical, simp add: bench_document_def, simp add: bindA_run bench_reads bench_canonical apply_after_def post_def put_def lists
       broader [unfolded bench_fields zero_Shared_def, simplified] bench_set_rules bench_sends bench_commands_def bench_fields zero_Shared_def)
qed

definition succeeds :: "'n \<Rightarrow> 'n inventory_read \<Rightarrow> bool" where
  "succeeds n m \<longleftrightarrow> (\<exists>document profile. m n = ((document, profile, None), n))"

lemma succeeds_reading: "m n = (Inr x, n) \<Longrightarrow> succeeds n (f x) \<Longrightarrow> succeeds n (reading p m f)"
  by (simp add: reading_def succeeds_def)

definition bench_status :: statusResponse where
  "bench_status = \<lparr>status_Version = [], status_Running = None, status_DNSAddresses = [''0.0.0.0''], status_DNSPort = 53,
     status_ProtectionEnabled = Some False, status_ProtectionDisabledDurationMS = Some 0\<rparr>"

lemma bench_decoded_more:
  "map_option dec_status (bench_get b ''/control/status'') = Some (Some bench_status)"
  "\<exists>x. map_option dec_blockedServices (bench_get b ''/control/blocked_services/get'') = Some (Some x) \<and> bsr_IDs x = [] \<and> scheduleModel (bsr_Schedule x) = zero_Schedule"
  "map_option dec_enabled (bench_get b ''/control/safebrowsing/status'') = Some (Some False)"
  "map_option dec_enabled (bench_get b ''/control/parental/status'') = Some (Some False)"
  "\<exists>x. map_option dec_safeSearch (bench_get b ''/control/safesearch/status'') = Some (Some x) \<and> safeSearchModel x = zero_SafeSearch"
  "\<exists>x. map_option dec_tls (bench_get b ''/control/tls/status'') = Some (Some x)"
  by (simp_all add: bench_get_def dec_status_def dec_blockedServices_def dec_schedule_def dec_enabled_def dec_safeSearch_def dec_tls_def decoding
        bench_status_def scheduleModel_def zero_Schedule_def safeSearchModel_def zero_SafeSearch_def)

lemma bench_valid: "validateListenerStatus bench_net bench_status = None" "validateDNSProtection bench_info = None"
  "Compatibility_of ''v0.107.80'' = CompatibilitySupported"
  by code_simp+

lemma bench_read: "succeeds b (ReadConfiguration bench_net bench_request ''v0.107.80'')"
proof -
  from bench_decoded_more [of b] obtain bl ss t
    where more: "api_get bench_net bench_request ''/control/status'' dec_status b = (Inr bench_status, b)"
      "api_get bench_net bench_request ''/control/blocked_services/get'' dec_blockedServices b = (Inr bl, b)"
      "api_get bench_net bench_request ''/control/safebrowsing/status'' dec_enabled b = (Inr False, b)"
      "api_get bench_net bench_request ''/control/parental/status'' dec_enabled b = (Inr False, b)"
      "api_get bench_net bench_request ''/control/safesearch/status'' dec_safeSearch b = (Inr ss, b)"
      "api_get bench_net bench_request ''/control/tls/status'' dec_tls b = (Inr t, b)"
    by (auto dest: bench_api_get)
  moreover from bench_decoded(5) [of b] have "api_get bench_net bench_request ''/control/rewrite/settings'' dec_enabled b = (Inr False, b)"
    by (auto intro: bench_api_get)
  moreover have "getOptional bench_net bench_request ''/control/dhcp/status'' dec_dhcpStatus b = (Inr (False, zero_of dec_dhcpStatus), b)"
    unfolding getOptional_def by (rule bench_missing) (simp_all add: bench_get_def)
  moreover have "checkA (validateListenerStatus bench_net bench_status) b = (Inr (), b)" "checkA (validateDNSProtection bench_info) b = (Inr (), b)"
    by (simp_all add: bench_valid checkA_def retA_def)
  moreover note bench_reads [of b]
  ultimately show ?thesis
    unfolding ReadConfiguration_def read_broader_def Let_def if_not_P [OF not_not [THEN iffD2, OF bench_valid(3)]]
    by - ((rule succeeds_reading, assumption)+, simp add: succeeds_def)
qed


subsection \<open>It follows its API\<close>

lemma bench_shows:
  assumes "bench_get b path = Some v"
  shows "shows_shared bench_net path (bench_view b) v \<and> shows_node path (bench_view b) v"
proof -
  obtain bl ss where more: "map_option dec_blockedServices (bench_get b ''/control/blocked_services/get'') = Some (Some bl)"
      "bsr_IDs bl = []" "scheduleModel (bsr_Schedule bl) = zero_Schedule"
      "map_option dec_safeSearch (bench_get b ''/control/safesearch/status'') = Some (Some ss)" "safeSearchModel ss = zero_SafeSearch"
    using bench_decoded_more(2,5) [of b] by blast
  note got = bench_decoded [of b] bench_decoded_more(1,3,4) [of b] more
  have models: "dnsModel bench_info = zero_DNS" "queryLogModel bench_policy = sh_QueryLog zero_Shared"
    "statisticsModel bench_policy = sh_Statistics zero_Shared"
    by (simp_all add: dnsModel_def bench_info_def zero_DNS_def queryLogModel_def statisticsModel_def bench_policy_def zero_Shared_def valueOrDefault_def)
  have listener: "plainDNSBindHosts [''0.0.0.0''] = [''0.0.0.0'']"
  proof -
    have "ParseAddr (TrimSpace ''0.0.0.0'') = Some (Addr4 0)" by code_simp
    moreover have "digits 0 = ''0''" by code_simp
    ultimately show ?thesis by (simp add: plainDNSBindHosts_def List.map_filter_def addr_String_def v4_string_def)
  qed
  have parts: "filter_view (bench_filters b) (bench_view b)" "info_CacheEnabled bench_info \<noteq> None" "info_UpstreamTimeout bench_info \<noteq> None"
    "pr_IgnoredEnabled bench_policy \<noteq> None"
    by (simp_all add: filter_view_def bench_filters_def bench_view_def filter_items_def bench_info_def bench_policy_def)
  have r1: "\<forall>x. dec_filterStatus v = Some x \<longrightarrow> filter_view x (bench_view b)" if "path = ''/control/filtering/status''"
    using assms that bench_decoded(1) [of b] parts(1) by simp
  have r2: "\<forall>x. dec_clients v = Some x \<longrightarrow> distinct (map clientModel x) \<and> set (map clientModel x) = agh_clients (bench_view b)" if "path = ''/control/clients''"
    using assms that bench_decoded(3) [of b] by (simp add: bench_view_def)
  have r3: "\<forall>x. v_list dec_rewrite v = Some x \<longrightarrow> distinct (map rewriteModel x) \<and> set (map rewriteModel x) = agh_rewrites (bench_view b)" if "path = ''/control/rewrite/list''"
    using assms that bench_decoded(4) [of b] by (simp add: bench_view_def)
  have r4: "\<forall>x. dec_enabled v = Some x \<longrightarrow> x = agh_rewrites_on (bench_view b)" if "path = ''/control/rewrite/settings''"
    using assms that bench_decoded(5) [of b] by (simp add: bench_view_def)
  have r5: "\<forall>x. dec_blockedServices v = Some x \<longrightarrow> (bsr_IDs x, scheduleModel (bsr_Schedule x)) = agh_blocked (bench_view b)" if "path = ''/control/blocked_services/get''"
    using assms that more by (simp add: bench_view_def)
  have r6: "\<forall>x. dec_enabled v = Some x \<longrightarrow> x = agh_safebrowsing (bench_view b)" if "path = ''/control/safebrowsing/status''"
    using assms that bench_decoded_more(3) [of b] by (simp add: bench_view_def)
  have r7: "\<forall>x. dec_enabled v = Some x \<longrightarrow> x = agh_parental (bench_view b)" if "path = ''/control/parental/status''"
    using assms that bench_decoded_more(4) [of b] by (simp add: bench_view_def)
  have r8: "\<forall>x. dec_safeSearch v = Some x \<longrightarrow> safeSearchModel x = agh_safesearch (bench_view b)" if "path = ''/control/safesearch/status''"
    using assms that more by (simp add: bench_view_def)
  have r9: "\<forall>x. dec_policy v = Some x \<longrightarrow> pr_IgnoredEnabled x \<noteq> None \<and> queryLogModel x = agh_querylog (bench_view b)" if "path = ''/control/querylog/config''"
    using assms that bench_decoded(6) [of b] by (simp del: not_None_eq add: models parts bench_view_def)
  have r10: "\<forall>x. dec_policy v = Some x \<longrightarrow> pr_IgnoredEnabled x \<noteq> None \<and> statisticsModel x = agh_stats (bench_view b)" if "path = ''/control/stats/config''"
    using assms that bench_decoded(7) [of b] by (simp del: not_None_eq add: models parts bench_view_def)
  have r11: "\<forall>x. dec_dnsInfo bench_net v = Some x \<longrightarrow> info_CacheEnabled x \<noteq> None \<and> info_UpstreamTimeout x \<noteq> None \<and> dnsModel x = agh_dns (bench_view b)" if "path = ''/control/dns_info''"
    using assms that bench_decoded(2) [of b] by (simp del: not_None_eq add: models parts bench_view_def)
  have r12: "\<forall>x. dec_status v = Some x \<longrightarrow> (plainDNSBindHosts (status_DNSAddresses x), status_DNSPort x) = agh_listener (bench_view b)" if "path = ''/control/status''"
    using assms that bench_decoded_more(1) [of b] by (simp add: listener bench_status_def bench_view_def)
  have none: "path \<noteq> ''/control/dhcp/status''" using assms by (auto simp: bench_get_def)
  show ?thesis
    unfolding shows_shared_def shows_node_def by (intro conjI impI r1 r2 r3 r4 r5 r6 r7 r8 r9 r10 r11 r12) (simp_all add: none)
qed

lemma distinct_entries: "distinct (map fst m) \<Longrightarrow> m = map (\<lambda>k. (k, the (map_of m k))) (map fst m)"
  unfolding map_map by (rule map_idI [symmetric]) (auto dest: map_of_is_SomeI)

lemma obj_set: "obj m = obj m' \<Longrightarrow> set m = set m'"
proof -
  assume "obj m = obj m'"
  then have "sort_slice (\<lambda>a b. fst a < fst b) m = sort_slice (\<lambda>a b. fst a < fst b) m'" by (simp add: obj_def j_map_def)
  then show ?thesis by (metis mset_sort_slice set_mset_mset)
qed

lemma obj_inject: "distinct (map fst m) \<Longrightarrow> map fst m = map fst m' \<Longrightarrow> obj m = obj m' \<longleftrightarrow> m = m'"
  using distinct_entries [of m] distinct_entries [of m'] obj_set [of m m'] by (metis map_of_inject_set)

lemma schedule_entries:
  "map_of (fold (\<lambda>(k, v). AList.update k (g v)) ds m) k = (case map_of (rev ds) k of Some v \<Rightarrow> Some (g v) | None \<Rightarrow> map_of m k)"
  by (induction ds arbitrary: m) (auto simp: update_conv' map_add_def split: option.splits)

lemma schedulePayload_zero:
  assumes "schedulePayload s = schedulePayload zero_Schedule" "weekly s"
  shows "s = zero_Schedule"
proof -
  let ?m = "fold (\<lambda>(k, v). AList.update k (obj [(''start'', JInt (day_Start v)), (''end'', JInt (day_End v))])) (sched_Days s) [(''time_zone'', JString (sched_TimeZone s))]"
  from assms(1) have e: "set ?m = {(''time_zone'', JString [])}"
    using obj_set by (fastforce simp: schedulePayload_def zero_Schedule_def)
  have "sched_Days s = []"
  proof (cases "sched_Days s")
    case (Cons d ds)
    then have k: "fst d \<noteq> ''time_zone''" using assms(2) by (auto simp: weekly_def)
    have "map_of (rev (sched_Days s)) (fst d) \<noteq> None" unfolding map_of_eq_None_iff by (auto simp: Cons)
    then have "map_of ?m (fst d) \<noteq> None" by (auto simp: schedule_entries)
    with e k show ?thesis by (auto dest: map_of_SomeD)
  qed
  with e show ?thesis by (simp add: zero_Schedule_def)
qed

lemma bench_rules_set:
  "request_of c = request_of (SetRules bench_rules) \<Longrightarrow> effect c (bench_view b) = bench_view True"
  by (cases c) (simp_all add: obj_inject j_strings_inject bench_view_def)

lemma bench_unchanged:
  assumes "request_of c = request_of d" "d \<in> set bench_commands" "complete_command c"
  shows "effect c (bench_view b) = bench_view b"
proof -
  have dns: "x = zero_DNS" if "dns_payload i True x = dns_payload bench_info True zero_DNS" "info_CacheEnabled i = Some y" "info_UpstreamTimeout i = Some z" for i x y z
    using that by (intro DNS.equality) (simp_all add: dns_payload_def obj_inject j_strings_inject bench_info_def zero_DNS_def)
  have search: "x = zero_SafeSearch" if "safeSearchPayload x = safeSearchPayload zero_SafeSearch" for x
    using that by (intro SafeSearch.equality) (simp_all add: safeSearchPayload_def obj_inject zero_SafeSearch_def)
  have services: "svc_BlockedServiceIDs x = [] \<and> svc_BlockedSchedule x = zero_Schedule"
    if "blockedServicesPayload x = blockedServicesPayload (sh_Services zero_Shared)" "weekly (svc_BlockedSchedule x)" for x
    using that schedulePayload_zero [of "svc_BlockedSchedule x"]
    by (simp add: blockedServicesPayload_def obj_inject j_strings_inject zero_Shared_def)
  show ?thesis
    using assms by (cases c) (auto simp: bench_commands_def bench_view_def obj_inject j_strings_inject dest: dns search services)
qed

lemma bench_follows: "follows_api bench_net bench_view bench_request"
  unfolding follows_api_def
proof (intro conjI allI impI)
  fix path url n r n'
  assume "configurationEndpoint bench_net (probe_BaseURL bench_request) path = Some url"
    and "server bench_net (http_request_to bench_request ''GET'' url None) n = (Inr r, n')"
  then have e: "bench_server (http_request_to bench_request ''GET'' path None) n = (Inr r, n')" by simp
  have known: "bench_get n ''/control/rewrite/settings'' \<noteq> None" "bench_get n ''/control/dhcp/status'' = None" by (simp_all add: bench_get_def)
  have "n' = n \<and> good_answer bench_net path (bench_view n) r"
  proof (cases "bench_get n path")
    case None
    with e known have "n' = n" "r = bench_reply 404 BodyError" "path \<noteq> ''/control/rewrite/settings''"
      by (auto simp: bench_server_def http_request_to_def)
    then show ?thesis by (simp add: good_answer_def bench_reply_def bench_view_def)
  next
    case (Some v)
    with e known have "n' = n" "r = bench_reply 200 (BodyText 1 (Inr v))" "path \<noteq> ''/control/dhcp/status''"
      by (auto simp: bench_server_def http_request_to_def)
    with bench_shows [OF Some] show ?thesis by (simp add: good_answer_def bench_reply_def)
  qed
  then show "bench_view n' = bench_view n" "good_answer bench_net path (bench_view n) r" by simp_all
next
  fix c m path payload url n r n'
  assume c: "complete_command c" "request_of c = (m, path, payload)"
    and "configurationEndpoint bench_net (probe_BaseURL bench_request) path = Some url"
    and "server bench_net (http_request_to bench_request m url payload) n = (Inr r, n')"
    and ok: "200 \<le> rep_StatusCode r" "rep_StatusCode r < 300"
  then have e: "bench_server (http_request_to bench_request m path payload) n = (Inr r, n')" by simp
  have "m \<noteq> ''GET''" using c(2) by (cases c) auto
  with e ok consider "request_of c = request_of (SetRules bench_rules)" "n' = True" | d where "d \<in> set bench_commands" "request_of c = request_of d" "n' = n"
    unfolding c(2) bench_server_def Let_def by (auto simp: http_request_to_def bench_reply_def split: if_splits)
  then show "bench_view n' = effect c (bench_view n)"
    by cases (simp_all add: bench_rules_set bench_unchanged c(1))
qed


subsection \<open>Convergence\<close>

text \<open>
  C6: ApplyConfiguration brings a node to the document. If the node follows its documented API
  (reads show its state and change nothing, an accepted command has its effect), the document can be
  represented on it and reached from its state, and ApplyConfiguration returns without an error, then
  whatever ReadConfiguration reads back has no managed difference to the document: the check that
  the executor makes after a write succeeds, in every section, including the entries of clients,
  rewrites, filter lists and DHCP leases that were changed one by one or that had to be removed.
\<close>

theorem ApplyConfiguration_converges:
  assumes "follows_api net view request" and "\<And>ks. set (range_keys net ks) = set ks" and "sound_target (Canonicalise document)"
    and "reachable_from (view n) (Canonicalise document)"
    and "Adguard_ApplyConfiguration net request document n = (Inr (), n1)" and "view n2 = view n1"
    and "ReadConfiguration net request version n2 = ((observed, profile, None), n3)"
  shows "managedDifferences document (ProjectDocument observed v) = []"
proof -
  have "configured (view n1) (Canonicalise document)"
    using runsD [OF runs_apply [OF assms(1-3)] assms(5)] assms(4) by blast
  moreover obtain raw where "observed = Canonicalise raw" "observes (view n1) raw"
    using reads_ReadConfiguration [OF assms(1), of version] assms(6,7) unfolding reads_def by metis
  ultimately show ?thesis using observed_verified [OF assms(3)] by blast
qed

theorem ApplyConfiguration_converges_witness:
  "\<exists>observed profile. Adguard_ApplyConfiguration bench_net bench_request bench_document False = (Inr (), True) \<and>
     ReadConfiguration bench_net bench_request ''v0.107.80'' True = ((observed, profile, None), True) \<and>
     managedDifferences bench_document (ProjectDocument observed 2) = []"
proof -
  obtain observed profile where read: "ReadConfiguration bench_net bench_request ''v0.107.80'' True = ((observed, profile, None), True)"
    using bench_read [of True] by (auto simp: succeeds_def)
  have "cleanSet [''0.0.0.0''] = [''0.0.0.0'']" by code_simp
  then have "sound_target (Canonicalise bench_document)" "reachable_from (bench_view False) (Canonicalise bench_document)"
    unfolding bench_canonical
    by (simp_all add: sound_target_def bench_document_def zero_Shared_def weekly_def gomap_wf_def zero_Schedule_def
      reachable_from_def keyed_entries_def bench_view_def wanted_def)
  moreover have "set (range_keys bench_net ks) = set ks" for ks by (simp add: bench_net_def)
  ultimately have "managedDifferences bench_document (ProjectDocument observed 2) = []"
    using ApplyConfiguration_converges [OF bench_follows _ _ _ bench_applied refl read] by blast
  with read bench_applied show ?thesis by blast
qed

end
