(* ===== verification/Adguard_Commands.thy ===== *)
theory Adguard_Commands
  imports Adguard_Read Operation_Inputs
begin

text \<open>
  The operational calls of the AdGuard Home client (\<open>internal/adguard/configuration.go\<close>): the test of
  upstream resolvers, the test of a host against the filters, and the resets.
\<close>

subsection \<open>Upstream resolvers\<close>

text \<open>\<open>strings.Fields\<close>.\<close>

function fields_from :: "string \<Rightarrow> string \<Rightarrow> string list" where
  "fields_from word s =
    (let close = (if word = [] then [] else [word]) in
     case strip_one space_runes s of
       Some r \<Rightarrow> close @ fields_from [] r
     | None \<Rightarrow> (case s of [] \<Rightarrow> close | c # r \<Rightarrow> fields_from (word @ [c]) r))"
  by pat_completeness auto
termination
  by (relation "measure (\<lambda>(word, s). length s)") (auto dest: strip_one_shorter)

declare fields_from.simps [simp del]

definition Fields :: "string \<Rightarrow> string list" where
  "Fields s = fields_from [] s"

definition operationalResolverCandidates :: "string \<Rightarrow> string list" where
  "operationalResolverCandidates v =
    (let v = TrimSpace v in
     if v = [] \<or> HasPrefix v ''#'' then []
     else if HasPrefix v ''[/'' \<and> CHR '']'' \<in> set v
     then (let resolvers = TrimSpace (tl (dropWhile (\<lambda>c. c \<noteq> CHR '']'') v)) in
       if resolvers = [] \<or> resolvers = ''#'' then [] else Fields resolvers)
     else [v])"

definition defaultUpstreamPort :: "string \<Rightarrow> string" where
  "defaultUpstreamPort scheme =
    (if scheme \<in> {''https'', ''h3''} then ''443'' else if scheme \<in> {''tls'', ''quic''} then ''853''
     else if scheme \<in> {''tcp'', ''udp''} then ''53'' else [])"

text \<open>\<open>net.SplitHostPort\<close>.\<close>

definition SplitHostPort :: "string \<Rightarrow> (string \<times> string) option" where
  "SplitHostPort s =
    (case LastIndex (CHR '':'') s of
       None \<Rightarrow> None
     | Some i \<Rightarrow>
         if HasPrefix s ''['' then
           (if CHR '']'' \<notin> set s then None
            else let e = length (takeWhile (\<lambda>c. c \<noteq> CHR '']'') s) in
              if e + 1 \<noteq> i \<or> CHR ''['' \<in> set (drop 1 s) \<or> CHR '']'' \<in> set (drop (e + 1) s) then None
              else Some (drop 1 (take e s), drop (i + 1) s))
         else if CHR '':'' \<in> set (take i s) \<or> CHR ''['' \<in> set s \<or> CHR '']'' \<in> set s then None
         else Some (take i s, drop (i + 1) s))"

definition trim_brackets :: "string \<Rightarrow> string" where
  "trim_brackets s = (let strip = dropWhile (\<lambda>c. c \<in> set ''[]'') in rev (strip (rev (strip s))))"

definition canonicalPlainOperationalUpstream :: "string \<Rightarrow> string" where
  "canonicalPlainOperationalUpstream v =
    (let (hostname, port) = (case SplitHostPort v of
           Some hp \<Rightarrow> hp
         | None \<Rightarrow> (case ParseAddr v of Some a \<Rightarrow> addr_String a | None \<Rightarrow> v, []));
         hostname = ToLower hostname;
         port = (if port = ''53'' then [] else port);
         hostname = (if CHR '':'' \<in> set hostname then ''['' @ trim_brackets hostname @ '']'' else hostname);
         hostname = (if port \<noteq> [] then hostname @ '':'' @ port else hostname) in
     ''udp://'' @ hostname)"

fun has_infix :: "string \<Rightarrow> string \<Rightarrow> bool" where
  "has_infix p [] \<longleftrightarrow> p = []"
| "has_infix p (c # s) \<longleftrightarrow> HasPrefix (c # s) p \<or> has_infix p s"

definition canonicalOperationalUpstream :: "'n net \<Rightarrow> string \<Rightarrow> string" where
  "canonicalOperationalUpstream net v =
    (let v = TrimSpace v in
     if \<not> has_infix ''://'' v then canonicalPlainOperationalUpstream v
     else case parse_url net v of
       None \<Rightarrow> v
     | Some parsed \<Rightarrow>
         let scheme = ToLower (url_Scheme parsed) in
         if url_Scheme parsed = [] \<or> url_Host parsed = [] then v
         else if scheme = ''sdns'' then v
         else let scheme = (if scheme = ''h3'' then ''https'' else scheme);
                hostname = ToLower (Hostname parsed);
                port = (if Port parsed = defaultUpstreamPort scheme then [] else Port parsed);
                hostname = (if CHR '':'' \<in> set hostname then ''['' @ hostname @ '']'' else hostname);
                host = (if port \<noteq> [] then hostname @ '':'' @ port else hostname) in
           string_url net (parsed\<lparr>url_Scheme := scheme, url_HasUser := False, url_Host := host\<rparr>))"

definition operationalUpstreamStatus :: "'n net \<Rightarrow> string gomap \<Rightarrow> string \<Rightarrow> string option" where
  "operationalUpstreamStatus net response requested =
    (case map_of response requested of
       Some status \<Rightarrow> Some status
     | None \<Rightarrow> Option.bind (find (\<lambda>k. canonicalOperationalUpstream net k = canonicalOperationalUpstream net requested)
         (range_keys net (map fst response))) (map_of response))"

fun candidate_statuses :: "'n net \<Rightarrow> string gomap \<Rightarrow> string list \<Rightarrow> string list option" where
  "candidate_statuses net response [] = Some []"
| "candidate_statuses net response (c # cs) =
     Option.bind (operationalUpstreamStatus net response c) (\<lambda>s. map_option (Cons s) (candidate_statuses net response cs))"

definition operationalUpstreamStatuses :: "'n net \<Rightarrow> string gomap \<Rightarrow> string \<Rightarrow> string list option" where
  "operationalUpstreamStatuses net response requested =
    (let candidates = operationalResolverCandidates requested in
     case candidate_statuses net response candidates of
       Some statuses \<Rightarrow> Some statuses
     | None \<Rightarrow>
         if length candidates = 1 \<and> HasPrefix (ToLower (hd candidates)) ''sdns://'' \<and> response \<noteq> []
         then Some (List.map_filter (map_of response) (range_keys net (map fst response)))
         else None)"

definition resolver_result :: "nat \<Rightarrow> string list \<Rightarrow> ResolverResult" where
  "resolver_result index statuses =
    (let failed = list_ex (\<lambda>s. TrimSpace s \<noteq> ''OK'') statuses in
     \<lparr>rr_ResolverID = ''upstream-'' @ digits (Suc index), rr_Status = (if failed then ''failed'' else ''succeeded''),
      rr_ErrorCode = (if failed then ''UPSTREAM_TEST_FAILED'' else [])\<rparr>)"

fun resolver_results :: "'n net \<Rightarrow> string gomap \<Rightarrow> nat \<Rightarrow> string list \<Rightarrow> go_error + ResolverResult list" where
  "resolver_results net response index [] = Inr []"
| "resolver_results net response index (upstream # upstreams) =
    (case operationalUpstreamStatuses net response upstream of
       None \<Rightarrow> Inl (NewError ErrorNodeResponse ''the node upstream test response omitted a requested resolver'')
     | Some statuses \<Rightarrow>
         (case resolver_results net response (Suc index) upstreams of
            Inl err \<Rightarrow> Inl err
          | Inr results \<Rightarrow> Inr (if statuses = [] then results else resolver_result index statuses # results)))"

definition Adguard_TestUpstreamDNS :: "'n net \<Rightarrow> NodeProbeRequest \<Rightarrow> UpstreamInput \<Rightarrow> ('n, ResolverResult list) api" where
  "Adguard_TestUpstreamDNS net request input =
     bindA (postOperationalResource net request ''/control/test_upstream_dns''
       (JObject [(''bootstrap_dns'', j_strings (ui_BootstrapDNS input)), (''fallback_dns'', j_strings (ui_FallbackDNS input)),
         (''private_upstream'', j_strings (ui_PrivateReverseDNS input)), (''upstream_dns'', j_strings (ui_UpstreamDNS input))]) (v_map v_string))
       (\<lambda>response. of_result (resolver_results net response 0 (elems (ui_UpstreamDNS input))))"


subsection \<open>Host filtering\<close>

record filterCheckHostResponse =
  ch_Reason :: string
  ch_Rules :: "MatchedRule list"
  ch_Rule :: string
  ch_FilterID :: int
  ch_ServiceName :: string
  ch_CNAME :: string
  ch_IPAddresses :: "string list"

definition dec_rule :: "MatchedRule decoder" where
  "dec_rule v = do {
     kvs \<leftarrow> as_members v;
     text \<leftarrow> v_string (field ''text'' kvs);
     i \<leftarrow> v_int (field ''filter_list_id'' kvs);
     Some \<lparr>mr_Text = text, mr_FilterListID = i\<rparr> }"

definition dec_checkHost :: "filterCheckHostResponse decoder" where
  "dec_checkHost v = do {
     kvs \<leftarrow> as_members v;
     reason \<leftarrow> v_string (field ''reason'' kvs);
     rules \<leftarrow> v_list dec_rule (field ''rules'' kvs);
     rule \<leftarrow> v_string (field ''rule'' kvs);
     filterID \<leftarrow> v_int (field ''filter_id'' kvs);
     service \<leftarrow> v_string (field ''service_name'' kvs);
     cname \<leftarrow> v_string (field ''cname'' kvs);
     addresses \<leftarrow> v_strings (field ''ip_addrs'' kvs);
     Some \<lparr>ch_Reason = reason, ch_Rules = rules, ch_Rule = rule, ch_FilterID = filterID, ch_ServiceName = service,
       ch_CNAME = cname, ch_IPAddresses = addresses\<rparr> }"

definition unsafe_rule :: "string \<Rightarrow> bool" where
  "unsafe_rule text \<longleftrightarrow> length text > 2048 \<or> ContainsAny text [CHR 0x0D, CHR 0x0A]"

definition host_filter_result :: "filterCheckHostResponse \<Rightarrow> go_error + HostFilterResult" where
  "host_filter_result response =
    (let wrong = (\<lambda>text. Inl (NewError ErrorNodeResponse text)); controls = [CHR 0x0D, CHR 0x0A, CHR 0x09] in
     if length (ch_Rules response) > 32 \<or> length (ch_IPAddresses response) > 32 \<or> length (ch_Reason response) > 128 \<or>
        length (ch_ServiceName response) > 256 \<or> length (ch_CNAME response) > 253
     then wrong ''the node host-filter response exceeded safe result limits''
     else if ContainsAny (ch_Reason response) controls \<or> ContainsAny (ch_ServiceName response) controls \<or> ContainsAny (ch_CNAME response) controls
     then wrong ''the node host-filter response contained unsafe text''
     else if list_ex (\<lambda>a. ParseAddr a = None) (ch_IPAddresses response)
     then wrong ''the node host-filter response contained an invalid address''
     else if list_ex (\<lambda>r. unsafe_rule (mr_Text r)) (ch_Rules response)
     then wrong ''the node host-filter response contained an unsafe rule''
     else if ch_Rules response = [] \<and> ch_Rule response \<noteq> [] \<and> unsafe_rule (ch_Rule response)
     then wrong ''the node host-filter response contained an unsafe rule''
     else let rules = (if ch_Rules response = [] \<and> ch_Rule response \<noteq> []
                then [\<lparr>mr_Text = ch_Rule response, mr_FilterListID = ch_FilterID response\<rparr>] else ch_Rules response) in
       Inr \<lparr>hf_Matched = (rules \<noteq> [] \<or> ch_ServiceName response \<noteq> [] \<or> ch_CNAME response \<noteq> [] \<or> ch_IPAddresses response \<noteq> []),
         hf_Reason = ch_Reason response, hf_Rules = rules, hf_ServiceName = ch_ServiceName response,
         hf_CanonicalName = ch_CNAME response, hf_IPAddresses = ch_IPAddresses response\<rparr>)"

definition Adguard_TestHostFiltering :: "'n net \<Rightarrow> NodeProbeRequest \<Rightarrow> HostFilterInput \<Rightarrow> ('n, HostFilterResult) api" where
  "Adguard_TestHostFiltering net request input =
     bindA (getOperationalResource net request ''/control/filtering/check_host''
       ([(''name'', hi_Hostname input)] @ (if hi_Client input \<noteq> [] then [(''client'', hi_Client input)] else []) @
        (if hi_QueryType input \<noteq> [] then [(''qtype'', hi_QueryType input)] else [])) dec_checkHost)
       (\<lambda>response. of_result (host_filter_result response))"


subsection \<open>Resets\<close>

definition Adguard_RefreshFilters :: "'n net \<Rightarrow> NodeProbeRequest \<Rightarrow> bool \<Rightarrow> ('n, unit) api" where
  "Adguard_RefreshFilters net request whitelist =
     post net request ''/control/filtering/refresh'' (Some (JObject [(''whitelist'', JBool whitelist)]))"

definition Adguard_ClearDNSCache :: "'n net \<Rightarrow> NodeProbeRequest \<Rightarrow> ('n, unit) api" where
  "Adguard_ClearDNSCache net request = post net request ''/control/cache_clear'' None"

definition Adguard_ClearQueryLog :: "'n net \<Rightarrow> NodeProbeRequest \<Rightarrow> ('n, unit) api" where
  "Adguard_ClearQueryLog net request = post net request ''/control/querylog_clear'' None"

definition Adguard_ResetStatistics :: "'n net \<Rightarrow> NodeProbeRequest \<Rightarrow> ('n, unit) api" where
  "Adguard_ResetStatistics net request = post net request ''/control/stats_reset'' None"

definition Adguard_ResetDHCPLeases :: "'n net \<Rightarrow> NodeProbeRequest \<Rightarrow> ('n, unit) api" where
  "Adguard_ResetDHCPLeases net request = post net request ''/control/dhcp/reset_leases'' None"

definition Adguard_ResetDHCPConfiguration :: "'n net \<Rightarrow> NodeProbeRequest \<Rightarrow> ('n, unit) api" where
  "Adguard_ResetDHCPConfiguration net request = post net request ''/control/dhcp/reset'' None"

end
