(* ===== verification/Adguard_Confined.thy ===== *)
theory Adguard_Confined
  imports Adguard_Write Adguard_Commands
begin

text \<open>
  What the client sends to a node. A call is \<^emph>\<open>confined\<close> to a set of
  requests if every property of a node that these requests keep is kept by the call.
\<close>

subsection \<open>Confinement\<close>

definition confined :: "'n net \<Rightarrow> (http_request \<Rightarrow> bool) \<Rightarrow> ('n \<Rightarrow> 'b \<times> 'n) \<Rightarrow> bool" where
  "confined net Q m \<longleftrightarrow> (\<forall>I n. (\<forall>r k. Q r \<longrightarrow> I k \<longrightarrow> I (snd (server net r k))) \<longrightarrow> I n \<longrightarrow> I (snd (m n)))"

named_theorems confining "calls that are confined"

lemma confined_ret [confining]: "confined net Q (retA x)" "confined net Q (failA err)" "confined net Q (checkA c)" "confined net Q (\<lambda>n. (y, n))"
  by (auto simp: confined_def retA_def failA_def checkA_def split: option.splits)

lemma confined_bind [confining]: "confined net Q m \<Longrightarrow> (\<And>x. confined net Q (f x)) \<Longrightarrow> confined net Q (bindA m f)"
proof -
  assume m: "confined net Q m" and f: "\<And>x. confined net Q (f x)"
  have "I (snd (bindA m f n))" if "\<forall>r k. Q r \<longrightarrow> I k \<longrightarrow> I (snd (server net r k))" "I n" for I n
  proof -
    from m that have "I (snd (m n))" unfolding confined_def by blast
    then show ?thesis using f that(1) unfolding confined_def bindA_def by (cases "m n"; cases "fst (m n)") auto
  qed
  then show ?thesis unfolding confined_def by blast
qed

lemma confined_when [confining]: "(c \<Longrightarrow> confined net Q m) \<Longrightarrow> confined net Q (whenA c m)"
  by (cases c) (simp_all add: whenA_def confining)

lemma confined_for [confining]: "(\<And>x. confined net Q (f x)) \<Longrightarrow> confined net Q (forA f xs)"
  by (induction xs) (simp_all add: confining)

lemma confined_cases [confining]:
  "(x = None \<Longrightarrow> confined net Q a) \<Longrightarrow> (\<And>y. x = Some y \<Longrightarrow> confined net Q (f y)) \<Longrightarrow> confined net Q (case x of None \<Rightarrow> a | Some y \<Rightarrow> f y)"
  "(c \<Longrightarrow> confined net Q a) \<Longrightarrow> (\<not> c \<Longrightarrow> confined net Q b) \<Longrightarrow> confined net Q (if c then a else b)"
  "(\<And>y z. confined net Q (g y z)) \<Longrightarrow> confined net Q (case p of (y, z) \<Rightarrow> g y z)"
  by (auto split: option.split prod.split)

lemma confined_perform: "Q r \<Longrightarrow> confined net Q (perform net purpose r)"
proof -
  assume "Q r"
  have "I (snd (perform net purpose r n))" if "\<forall>r k. Q r \<longrightarrow> I k \<longrightarrow> I (snd (server net r k))" "I n" for I n
  proof -
    from that \<open>Q r\<close> have "I (snd (server net r n))" by blast
    with that(2) show ?thesis unfolding perform_def by (auto split: option.splits prod.splits sum.splits)
  qed
  then show ?thesis unfolding confined_def by blast
qed

lemma confined_exchange:
  assumes "\<And>url. configurationEndpoint net (probe_BaseURL request) path = Some url \<Longrightarrow> Q (http_request_to request method url payload)"
  shows "confined net Q (exchange net purpose request method path payload)"
  unfolding exchange_def
  by (intro confining) (auto split: option.splits intro: confining confined_perform assms)

text \<open>The requests to a node: reads of some resources, writes of others, with its credentials.\<close>

definition sent_to :: "'n net \<Rightarrow> NodeProbeRequest \<Rightarrow> string list \<Rightarrow> string list \<Rightarrow> http_request \<Rightarrow> bool" where
  "sent_to net request rs ws r \<longleftrightarrow> (\<exists>path url. configurationEndpoint net (probe_BaseURL request) path = Some url \<and>
     (path \<in> set rs \<and> r = http_request_to request ''GET'' url None \<or>
      path \<in> set ws \<and> (\<exists>payload. r = http_request_to request ''POST'' url payload \<or> r = http_request_to request ''PUT'' url payload)))"

lemma confined_getResource:
  "path \<in> set rs \<Longrightarrow> confined net (sent_to net request rs ws) (getResource net request path dec unavailable)"
  unfolding getResource_def Let_def
  by (intro confined_bind confined_exchange) (auto simp: sent_to_def intro: confining split: sum.splits)

lemma confined_reads [confining]:
  assumes "path \<in> set rs"
  shows "confined net (sent_to net request rs ws) (api_get net request path dec)"
    "confined net (sent_to net request rs ws) (getOptional net request path dec)"
    "confined net (sent_to net request rs ws) (getOptionalEndpoint net request path dec)"
  unfolding api_get_def getOptional_def getOptionalEndpoint_def
  by (intro confining confined_getResource assms)+

lemma confined_send:
  "path \<in> set ws \<Longrightarrow> method = ''POST'' \<or> method = ''PUT'' \<Longrightarrow> confined net (sent_to net request rs ws) (send net request method path payload)"
  unfolding send_def by (intro confined_bind confined_exchange) (auto simp: sent_to_def intro: confining)

lemma confined_writes [confining]:
  assumes "path \<in> set ws"
  shows "confined net (sent_to net request rs ws) (post net request path payload)"
    "confined net (sent_to net request rs ws) (put net request path payload)"
  unfolding post_def put_def using assms by (auto intro: confined_send)

definition configuration_resources :: "string list" where
  "configuration_resources = [''/control/filtering/status'', ''/control/dns_info'', ''/control/clients'', ''/control/rewrite/list'',
     ''/control/rewrite/settings'', ''/control/querylog/config'', ''/control/stats/config'', ''/control/dhcp/status'', ''/control/status'',
     ''/control/blocked_services/get'', ''/control/safebrowsing/status'', ''/control/parental/status'', ''/control/safesearch/status'', ''/control/tls/status'']"

definition configuration_commands :: "string list" where
  "configuration_commands = [''/control/filtering/config'', ''/control/filtering/add_url'', ''/control/filtering/set_url'', ''/control/filtering/set_rules'',
     ''/control/clients/add'', ''/control/clients/update'', ''/control/clients/delete'',
     ''/control/rewrite/settings/update'', ''/control/rewrite/add'', ''/control/rewrite/update'', ''/control/rewrite/delete'',
     ''/control/blocked_services/update'', ''/control/safebrowsing/enable'', ''/control/safebrowsing/disable'',
     ''/control/parental/enable'', ''/control/parental/disable'', ''/control/safesearch/settings'',
     ''/control/querylog/config/update'', ''/control/stats/config/update'', ''/control/dns_config'',
     ''/control/dhcp/set_config'', ''/control/dhcp/add_static_lease'', ''/control/dhcp/remove_static_lease'']"

lemma confined_leases [confining]:
  assumes "''/control/dhcp/add_static_lease'' \<in> set ws" "''/control/dhcp/remove_static_lease'' \<in> set ws"
  shows "confined net (sent_to net request rs ws) (reconcile_leases net request byMAC ls)"
  using assms
proof (induction ls arbitrary: byMAC)
  case (Cons l ls)
  then show ?case by (simp add: Let_def) (auto intro!: confining simp: remove_lease_def split: option.splits)
qed (simp add: confining)

lemma confined_apply:
  "confined net (sent_to net request configuration_resources configuration_commands) (Adguard_ApplyConfiguration net request document)"
  unfolding Adguard_ApplyConfiguration_def apply_broader_def reconcileFilterURLs_def reconcileClients_def reconcileRewrites_def reconcileDHCP_def
    reconcile_rewrite_def enable_target_def updatePolicy_def setEnabled_def remove_lease_def Let_def
  by (intro confining confined_send) (simp_all add: configuration_resources_def configuration_commands_def)

lemma confined_other_reads:
  "confined net (sent_to net request [''/control/blocked_services/all''] []) (ReadBlockedServicesCatalogue net request version)"
  "confined net (sent_to net request [''/control/dhcp/interfaces''] []) (ReadDHCPInterfaces net request)"
  "confined net (sent_to net request [''/control/filtering/status''] []) (readFilterLists net request version whitelist)"
  unfolding ReadBlockedServicesCatalogue_def ReadDHCPInterfaces_def readFilterLists_def of_result_def Let_def
  by (auto intro!: confining split: sum.splits)

text \<open>\<open>ReadConfiguration\<close> returns its error beside the profile.\<close>

lemma confined_reading [confining]:
  assumes m: "confined net Q m" and f: "\<And>x. confined net Q (f x)"
  shows "confined net Q (reading p m f)"
proof -
  have "I (snd (reading p m f n))" if "\<forall>r k. Q r \<longrightarrow> I k \<longrightarrow> I (snd (server net r k))" "I n" for I n
  proof -
    from m that have "I (snd (m n))" unfolding confined_def by blast
    then show ?thesis using f that(1) unfolding confined_def reading_def by (cases "m n"; cases "fst (m n)") auto
  qed
  then show ?thesis unfolding confined_def by blast
qed

lemma confined_ReadConfiguration:
  "confined net (sent_to net request configuration_resources []) (ReadConfiguration net request version)"
  unfolding ReadConfiguration_def read_broader_def Let_def
  by (intro confining) (simp_all add: configuration_resources_def)

end
