(* ===== verification/Adguard_Properties.thy ===== *)
theory Adguard_Properties
  imports Adguard_Sample Adguard_Confined Validation
begin

text \<open>Properties of the client as a whole: what it sends, and a document that it can never verify.\<close>

lemma confinedD:
  "confined net Q m \<Longrightarrow> (\<And>r k. Q r \<Longrightarrow> I k \<Longrightarrow> I (snd (server net r k))) \<Longrightarrow> I n \<Longrightarrow> I (snd (m n))"
  unfolding confined_def by blast

text \<open>
  C8: ApplyConfiguration only sends what it is meant to send. Whatever property of the node (or of a
  log of the requests it received) is kept by requests that carry the stored credentials, go to the
  stored URL, and are either a GET of one of the configuration resources or a POST or PUT to one of
  the 23 configuration endpoints, is kept by ApplyConfiguration, on success and on every error. So it
  never touches TLS, the listener, users, sessions or the reset commands, and never another server.
\<close>

theorem ApplyConfiguration_confined:
  assumes "\<And>r k. sent_to net request configuration_resources configuration_commands r \<Longrightarrow> I k \<Longrightarrow> I (snd (server net r k))" and "I n"
  shows "I (snd (Adguard_ApplyConfiguration net request document n))"
  using confined_apply assms by (rule confinedD)

theorem ApplyConfiguration_confined_witness: "snd (Adguard_ApplyConfiguration bench_net bench_request bench_document True)"
  by (rule ApplyConfiguration_confined [where I = "\<lambda>b. b"]) (auto simp: bench_server_def Let_def split: option.splits)

text \<open>
  The inventory reads are read-only: whatever property of the node is kept by GET requests is kept
  by ReadConfiguration, ReadBlockedServicesCatalogue, ReadDHCPInterfaces and readFilterLists.
\<close>

lemma inventory_reads_only:
  assumes get: "\<And>r k. req_Method r = ''GET'' \<Longrightarrow> I k \<Longrightarrow> I (snd (server net r k))" and "I n"
  shows "I (snd (ReadConfiguration net request version n)) \<and> I (snd (ReadBlockedServicesCatalogue net request version n)) \<and>
    I (snd (ReadDHCPInterfaces net request n)) \<and> I (snd (readFilterLists net request version whitelist n))"
proof -
  have keep: "I (snd (server net r k))" if "sent_to net request rs [] r" "I k" for rs r k
    using that by (intro get) (auto simp: sent_to_def http_request_to_def)
  show ?thesis
    by (intro conjI confinedD [where I = I, OF confined_ReadConfiguration keep assms(2)]
        confinedD [where I = I, OF confined_other_reads(1) keep assms(2)] confinedD [where I = I, OF confined_other_reads(2) keep assms(2)]
        confinedD [where I = I, OF confined_other_reads(3) keep assms(2)])
qed

subsection \<open>A document that is never verified\<close>

lemma reads_any: "(\<And>x. reads (\<lambda>_. a) (f x) Q) \<Longrightarrow> reads (\<lambda>_. a) (reading p m f) Q"
  by (rule reads_step [where P = "\<lambda>_ _. True"]) (simp_all add: runs_def)

lemma read_clients:
  assumes "ReadConfiguration net request version n = ((observed, profile, None), n')"
  shows "sh_Clients (doc_Shared observed) \<noteq> None"
proof -
  have "reads (\<lambda>_. undefined) (ReadConfiguration net request version) (\<lambda>_ doc. sh_Clients (doc_Shared doc) \<noteq> None)"
  proof (cases "Compatibility_of version = CompatibilitySupported")
    case False
    then show ?thesis by (simp add: ReadConfiguration_def reads_def)
  next
    case True
    have populated: "sh_Clients (doc_Shared (Canonicalise (populateBroaderDocument d cs rw rs bl sb pa ss ql sta t dh ok))) \<noteq> None"
      for d cs rw rs bl sb pa ss ql sta t dh ok
      by (simp add: Canonicalise_fields canonicalShared_def populateBroaderDocument_def Let_def)
    show ?thesis
      unfolding ReadConfiguration_def read_broader_def Let_def if_not_P [OF not_not [THEN iffD2, OF True]] split_beta
      by (intro reads_any reads_result populated)
  qed
  with assms show ?thesis unfolding reads_def by blast
qed

lemma ValidateDesired_nil_clients:
  assumes "sh_Clients (des_Shared d) = None"
  shows "ValidateDesired h (d\<lparr>des_Shared := (des_Shared d)\<lparr>sh_Clients := Some []\<rparr>\<rparr>) ids = ValidateDesired h d ids"
  using assms unfolding ValidateDesired_def Let_def
  by (simp add: CanonicaliseDesired_fields canonicalShared_def sort_slice_def validateV2Shared_def)

text \<open>
  C23: A desired document whose list of clients is null can never be verified. ReadConfiguration always
  gives a list, so for every node and every state of it, the document that is read has a managed
  difference to the desired one: null is compared with the list by their JSON forms. Validation
  accepts such a document, because it only ranges over the clients; a deployment of it fails after
  the write on the first node, and the reconciler sees drift for ever.
\<close>

theorem nil_clients_never_verified:
  assumes "sh_Clients (des_Shared d) = None" and "Effective d i = Inr document"
    and "ReadConfiguration net request version n = ((observed, profile, None), n')"
  shows "managedDifferences document (ProjectDocument observed v) \<noteq> [] \<and>
    ValidateDesired h d ids = ValidateDesired h (d\<lparr>des_Shared := (des_Shared d)\<lparr>sh_Clients := Some []\<rparr>\<rparr>) ids"
proof (intro conjI notI)
  let ?o = "ProjectDocument observed v"
  assume "managedDifferences document ?o = []"
  moreover have "both_v2 document ?o"
    by (simp add: both_v2_def ProjectDocument_def Canonicalise_fields canonicalSchema_stable SchemaVersion_def LegacySchemaVersion_def)
  ultimately have "diff_shared_v2 (canonicalShared (doc_Shared document)) (canonicalShared (doc_Shared ?o)) = []"
    by (simp add: managedDifferences_unfold Let_def)
  then have "j_slice j_PersistentClient (sh_Clients (canonicalShared (doc_Shared document))) =
      j_slice j_PersistentClient (sh_Clients (canonicalShared (doc_Shared ?o)))"
    by (simp add: diff_shared_v2_def)
  with assms(1) read_clients [OF assms(3)] Effective_Inr(2) [OF assms(2)] show False
    by (auto simp: canonicalShared_def ProjectDocument_def Canonicalise_fields j_slice_def)
qed (simp add: ValidateDesired_nil_clients assms(1))

theorem nil_clients_never_verified_witness:
  "\<exists>desired observed profile. Effective sample_revision ''n'' = Inr desired \<and>
     ReadConfiguration bench_net bench_request ''v0.107.80'' True = ((observed, profile, None), True) \<and>
     managedDifferences desired (ProjectDocument observed 2) \<noteq> []"
proof -
  obtain desired where e: "Effective sample_revision ''n'' = Inr desired" by (simp add: Effective_cases sample_revision_def)
  obtain observed profile where r: "ReadConfiguration bench_net bench_request ''v0.107.80'' True = ((observed, profile, None), True)"
    using bench_read [of True] by (auto simp: succeeds_def)
  have "sh_Clients (des_Shared sample_revision) = None" by (simp add: sample_revision_def zero_Shared_def)
  from nil_clients_never_verified [OF this e r, of 2] e r show ?thesis by blast
qed

end
