(* ===== verification/Adguard_Accepting.thy ===== *)
theory Adguard_Accepting
  imports Adguard_Confined
begin

text \<open>
  When \<open>ApplyConfiguration\<close> succeeds: on a node that can be reached, that answers the reads with what
  they ask for and accepts the commands, no branch of it fails by itself.
\<close>

definition returns :: "('n, 'a) api \<Rightarrow> bool" where
  "returns m \<longleftrightarrow> (\<forall>n. \<exists>x n'. m n = (Inr x, n'))"

named_theorems returning "calls that succeed"

lemma returns_ret [returning]: "returns (retA x)"
  by (simp add: returns_def retA_def)

lemma returns_bind [returning]: "returns m \<Longrightarrow> (\<And>x. returns (f x)) \<Longrightarrow> returns (bindA m f)"
  unfolding returns_def bindA_def
proof (intro allI)
  fix n
  assume m: "\<forall>n. \<exists>x n'. m n = (Inr x, n')" and f: "\<And>x. \<forall>n. \<exists>y n'. f x n = (Inr y, n')"
  from m obtain x k where "m n = (Inr x, k)" by blast
  with f [of x] show "\<exists>y n'. (case m n of (Inl err, n) \<Rightarrow> (Inl err, n) | (Inr x, n) \<Rightarrow> f x n) = (Inr y, n')" by simp
qed

lemma returns_when [returning]: "returns m \<Longrightarrow> returns (whenA c m)"
  by (cases c) (simp_all add: whenA_def returning)

lemma returns_for [returning]: "(\<And>x. returns (f x)) \<Longrightarrow> returns (forA f xs)"
  by (induction xs) (simp_all add: returning)

lemma returns_cases [returning]:
  "returns a \<Longrightarrow> (\<And>y. returns (f y)) \<Longrightarrow> returns (case x of None \<Rightarrow> a | Some y \<Rightarrow> f y)"
  "returns a \<Longrightarrow> returns b \<Longrightarrow> returns (if c then a else b)"
  "(\<And>y z. returns (g y z)) \<Longrightarrow> returns (case p of (y, z) \<Rightarrow> g y z)"
  by (auto split: option.split prod.split)


subsection \<open>Nodes that accept\<close>

definition decodable :: "'n net \<Rightarrow> string \<Rightarrow> json_reply \<Rightarrow> bool" where
  "decodable net path v \<longleftrightarrow>
    (path = ''/control/filtering/status'' \<longrightarrow> dec_filterStatus v \<noteq> None) \<and> (path = ''/control/dns_info'' \<longrightarrow> dec_dnsInfo net v \<noteq> None) \<and>
    (path = ''/control/clients'' \<longrightarrow> dec_clients v \<noteq> None) \<and> (path = ''/control/rewrite/list'' \<longrightarrow> v_list dec_rewrite v \<noteq> None) \<and>
    (path = ''/control/rewrite/settings'' \<longrightarrow> dec_enabled v \<noteq> None) \<and> (path = ''/control/dhcp/status'' \<longrightarrow> dec_dhcpStatus v \<noteq> None) \<and>
    (path \<in> {''/control/querylog/config'', ''/control/stats/config''} \<longrightarrow> dec_policy v \<noteq> None)"

definition reachable_url :: "'n net \<Rightarrow> string \<Rightarrow> bool" where
  "reachable_url net url \<longleftrightarrow> (\<exists>u. parse_url net url = Some u \<and> url_Host u \<noteq> [])"

definition accepting :: "'n net \<Rightarrow> NodeProbeRequest \<Rightarrow> bool" where
  "accepting net request \<longleftrightarrow> transport net request = None \<and>
     (\<forall>path. \<exists>url. configurationEndpoint net (probe_BaseURL request) path = Some url \<and> reachable_url net url \<and>
       (path \<in> set configuration_resources \<longrightarrow> (\<forall>n. \<exists>r k v n'. server net (http_request_to request ''GET'' url None) n = (Inr r, n') \<and>
          rep_StatusCode r = 200 \<and> rep_Body r = BodyText k (Inr v) \<and> k \<le> maxConfigurationBody \<and> decodable net path v)) \<and>
       (path \<in> set configuration_commands \<longrightarrow> (\<forall>method payload n. method \<in> {''POST'', ''PUT''} \<longrightarrow>
          (\<exists>r n'. server net (http_request_to request method url payload) n = (Inr r, n') \<and> 200 \<le> rep_StatusCode r \<and> rep_StatusCode r < 300))))"

lemma accepting_exchange:
  assumes "accepting net request"
  obtains url where "configurationEndpoint net (probe_BaseURL request) path = Some url"
    "\<And>purpose method payload n r n'. server net (http_request_to request method url payload) n = (Inr r, n') \<Longrightarrow>
       exchange net purpose request method path payload n = (Inr r, n')"
proof -
  from assms obtain url u where "transport net request = None" "configurationEndpoint net (probe_BaseURL request) path = Some url"
    "parse_url net url = Some u" "url_Host u \<noteq> []"
    unfolding accepting_def reachable_url_def by blast
  then show thesis
    by (intro that [of url]) (simp_all add: exchange_def bindA_def checkA_def retA_def perform_def http_request_to_def)
qed

lemma returns_send:
  assumes "accepting net request" "path \<in> set configuration_commands" "method \<in> {''POST'', ''PUT''}"
  shows "returns (send net request method path payload)"
  unfolding returns_def
proof
  fix n
  from assms(1) obtain url where url: "configurationEndpoint net (probe_BaseURL request) path = Some url"
    "\<And>purpose method payload n r n'. server net (http_request_to request method url payload) n = (Inr r, n') \<Longrightarrow>
       exchange net purpose request method path payload n = (Inr r, n')" by (rule accepting_exchange [where path = path]) (rule that)
  from assms url(1) obtain r n' where "server net (http_request_to request method url payload) n = (Inr r, n')"
    "200 \<le> rep_StatusCode r" "rep_StatusCode r < 300"
    unfolding accepting_def by (metis option.inject)
  with url(2) show "\<exists>x n'. send net request method path payload n = (Inr x, n')"
    by (simp add: send_def bindA_def unauthorised_def retA_def)
qed

lemma returns_getResource:
  assumes "accepting net request" "path \<in> set configuration_resources" "200 \<notin> set unavailable"
    and "\<And>v. decodable net path v \<Longrightarrow> dec v \<noteq> None"
  shows "returns (getResource net request path dec unavailable)"
  unfolding returns_def
proof
  fix n
  from assms(1) obtain url where url: "configurationEndpoint net (probe_BaseURL request) path = Some url"
    "\<And>purpose method payload n r n'. server net (http_request_to request method url payload) n = (Inr r, n') \<Longrightarrow>
       exchange net purpose request method path payload n = (Inr r, n')" by (rule accepting_exchange [where path = path]) (rule that)
  from assms(1,2) url(1) obtain r k v n' where "server net (http_request_to request ''GET'' url None) n = (Inr r, n')"
    "rep_StatusCode r = 200" "rep_Body r = BodyText k (Inr v)" "k \<le> maxConfigurationBody" "decodable net path v"
    unfolding accepting_def by (metis option.inject)
  moreover from assms(4) this(5) obtain x where "dec v = Some x" by blast
  ultimately show "\<exists>x n'. getResource net request path dec unavailable n = (Inr x, n')"
    using url(2) assms(3) by (simp add: getResource_def bindA_def unauthorised_def retA_def read_body_def Let_def) blast
qed

lemma returns_api:
  assumes "accepting net request"
  shows "path \<in> set configuration_commands \<Longrightarrow> returns (post net request path payload)"
    "path \<in> set configuration_commands \<Longrightarrow> returns (put net request path payload)"
    "path \<in> set configuration_resources \<Longrightarrow> (\<And>v. decodable net path v \<Longrightarrow> dec v \<noteq> None) \<Longrightarrow> returns (api_get net request path dec)"
    "path \<in> set configuration_resources \<Longrightarrow> (\<And>v. decodable net path v \<Longrightarrow> dec v \<noteq> None) \<Longrightarrow> returns (getOptionalEndpoint net request path dec)"
  unfolding post_def put_def api_get_def getOptionalEndpoint_def
  by (auto intro!: returning returns_send returns_getResource assms)

lemma returns_leases:
  assumes "accepting net request"
  shows "returns (reconcile_leases net request byMAC ls)"
proof (induction ls arbitrary: byMAC)
  case (Cons l ls)
  then show ?case
    unfolding reconcile_leases.simps Let_def remove_lease_def
    by (intro returning returns_api [OF assms] Cons) (simp_all add: configuration_commands_def)
qed (simp add: returning)

lemma returns_apply:
  assumes "accepting net request"
  shows "returns (Adguard_ApplyConfiguration net request document)"
  unfolding Adguard_ApplyConfiguration_def apply_broader_def reconcileFilterURLs_def reconcileClients_def reconcileRewrites_def reconcileDHCP_def
    reconcile_rewrite_def enable_target_def updatePolicy_def setEnabled_def remove_lease_def Let_def
  by (intro returning returns_api [OF assms] returns_leases [OF assms] returns_send [OF assms])
     (simp_all add: configuration_commands_def configuration_resources_def decodable_def)


definition open_net :: "unit net" where
  "open_net = \<lparr>server = (\<lambda>r n. (Inr \<lparr>rep_StatusCode = 200, rep_ContentType = ''application/json'', rep_HasLocation = False, rep_LatencyMS = 1,
       rep_Body = BodyText 0 (Inr (if req_URL r = ''/control/rewrite/list'' then VArray [] else VObject []))\<rparr>, n)),
     parse_url = (\<lambda>s. Some \<lparr>url_Scheme = ''http'', url_Host = ''node'', url_HasUser = False, url_Path = s, url_RawQuery = [], url_Fragment = []\<rparr>),
     string_url = url_Path, pem_ok = (\<lambda>_. True), strconv_quote = (\<lambda>s. s), type_error = (\<lambda>_ _. []), parse_time = (\<lambda>_. None),
     format_time = (\<lambda>_. []), range_keys = (\<lambda>ks. ks)\<rparr>"

definition open_request :: NodeProbeRequest where
  "open_request = \<lparr>probe_BaseURL = [], probe_CertificatePolicy = [], probe_CustomCAPEM = [],
     probe_Credentials = \<lparr>cred_Username = ''admin'', cred_Password = ''secret''\<rparr>\<rparr>"

lemma open_decodable: "decodable net path (if path = ''/control/rewrite/list'' then VArray [] else VObject [])"
  by (simp add: decodable_def dec_filterStatus_def dec_dnsInfo_def dec_clients_def dec_enabled_def dec_policy_def dec_dhcpStatus_def
      dec_dhcpV4_def dec_dhcpV6_def field_def v_ptr_def)


end
