(* ===== verification/Spec2Isabelle.thy ===== *)
theory Spec2Isabelle
  imports Executor_Properties Operations_Properties Controller Auth_Race Compat Adguard_Properties Adguard_Accepting
begin

text \<open>
  \<^bold>\<open>Verification of the atlas-dns controller.\<close>

  Atlas DNS keeps a group of AdGuard Home servers (the nodes of a cluster) at one configuration.
  Users edit a draft of the desired document, publish it as an immutable revision and deploy a
  revision. A background executor claims the deployment, checks every target again, writes the
  targets one after the other, reads each back and activates the revision. A reconciler compares
  the nodes with the active revision and, where the policy of the cluster says so, starts a
  deployment to the node that drifted. A second executor runs operational commands (cache clears,
  resets, tests). Users sign in with a password and, when they enrolled one, a second factor. All
  of them share one PostgreSQL database and work concurrently.

  \<^bold>\<open>Theories and sources\<close> (paths under \<^verbatim>\<open>src/\<close>)

  \<^item> The language and its library. \<open>Prelude\<close>: slices, maps, \<open>strings\<close>, \<open>sort\<close>, results
    \<open>go_error + 'a\<close>. \<open>Go_Json\<close>, \<open>Go_Json_Decode\<close>: \<open>encoding/json\<close> with struct tags.
    \<open>Go_Netip\<close>: \<open>net/netip\<close> and \<open>net.ParseMAC\<close>. \<open>Go_Sha256\<close>: \<open>crypto/sha256\<close> on words.
    \<open>Go_Base64\<close>: \<open>encoding/base64\<close> and \<open>encoding/hex\<close>.
  \<^item> \<open>Domain\<close>: \<^verbatim>\<open>internal/domain\<close> (errors, identifiers, clusters, nodes, validation).
    \<open>Compat\<close>: \<^verbatim>\<open>internal/adguardcompat\<close>. \<open>Safe_Metadata\<close>: \<^verbatim>\<open>internal/audit/metadata.go\<close>.
  \<^item> \<open>Configuration\<close>, \<open>Differences\<close>, \<open>Validation\<close>: \<^verbatim>\<open>internal/configuration/model.go\<close>, the
    document types, the canonical form, its encoding and hash, the differences, the checks; and
    the difference functions of \<^verbatim>\<open>internal/controlplane/service.go\<close>.
  \<^item> \<open>Tables\<close>, \<open>Store\<close>, \<open>Store_Commands\<close>: \<^verbatim>\<open>internal/database\<close>. A table is the list of its
    rows in insertion order, and a repository method is a function \<open>db \<Rightarrow> go_error + 'a \<times> db\<close>: its
    transaction, with the unique indexes, foreign keys and checks of the migrations as the branches
    that roll it back. SQL's three-valued logic is written out where the code depends on it.
  \<^item> \<open>Store_Invariant\<close>, \<open>Commands_Invariant\<close>: the committed writes as a step relation, \<open>db_step\<close>,
    and the integrity of every reachable store. \<open>Store_Properties\<close>, \<open>Commands_Properties\<close>: what the
    methods promise.
  \<^item> \<open>Effects\<close>: the environment of the services (below). \<open>Inventory\<close>, \<open>Catalogue\<close>,
    \<open>Catalogue_Service\<close>: \<^verbatim>\<open>internal/inventory\<close>. \<open>Executor\<close>: \<^verbatim>\<open>internal/controlplane/executor.go\<close>.
    \<open>Service\<close>: \<^verbatim>\<open>internal/controlplane/service.go\<close>. \<open>Reconciler\<close>:
    \<^verbatim>\<open>internal/controlplane/reconciler.go\<close>. \<open>Operation_Inputs\<close>, \<open>Operations\<close>:
    \<^verbatim>\<open>internal/operations\<close> and \<^verbatim>\<open>internal/inventory/dhcp_operations.go\<close>. \<open>Management\<close>:
    \<^verbatim>\<open>internal/domain/management.go\<close>.
  \<^item> \<open>Limiter\<close>, \<open>Auth_Crypto\<close>, \<open>Authentication\<close>: \<^verbatim>\<open>internal/auth\<close> (the limiter of attempts, tokens
    and password hashes, sign-in and the second factor). \<open>User_Admin\<close>: \<^verbatim>\<open>internal/useradmin\<close>.
    \<open>Auth_Store\<close>: the methods of \<^verbatim>\<open>internal/database\<close> on accounts, in \<^verbatim>\<open>auth.go\<close>, \<^verbatim>\<open>users.go\<close> and
    \<^verbatim>\<open>mfa.go\<close>; \<open>Auth_Invariant\<close>: their integrity. \<open>Auth_Properties\<close>, \<open>Auth_Safety\<close>, \<open>Auth_Race\<close>:
    what signing in promises, and where two requests of one user interfere.
  \<^item> \<open>Node_Api\<close>, \<open>Node_Replies\<close>, \<open>Adguard_Read\<close>, \<open>Adguard_Write\<close>, \<open>Adguard_Commands\<close>: the AdGuard Home
    client, \<^verbatim>\<open>internal/adguard/client.go\<close> and \<^verbatim>\<open>internal/adguard/configuration.go\<close>. A call is a state
    transformer \<open>'n \<Rightarrow> (go_error + 'a) \<times> 'n\<close> of the state of a node, of which nothing is known but the
    function \<open>server\<close> that answers requests. \<open>Node_Api\<close>: the requests and their errors;
    \<open>Node_Replies\<close>: the structs of the replies and their decoding; the other three: reading a
    configuration, bringing a node to one, and the operational commands.
  \<^item> \<open>Adguard_Node\<close>: what the documentation of AdGuard Home promises of a node, \<open>follows_api\<close>, as an
    abstract state, the effects of the commands on it and what its resources show.
    \<open>Adguard_Plan\<close>, \<open>Adguard_Converge\<close>, \<open>Adguard_Verify\<close>: the loops of \<open>ApplyConfiguration\<close> as
    functions on the sets of a node, a calculus of calls that succeed, and the read after the write.
    \<open>Adguard_Confined\<close>: what the client sends; \<open>Adguard_Accepting\<close>: when it succeeds. \<open>Adguard_Sample\<close>, \<open>Adguard_Properties\<close>: a node that
    can be evaluated, and the properties.
  \<^item> \<open>Commits\<close>, \<open>Controller\<close>: all services on one store. \<open>Samples\<close>: inputs for witnesses.

  \<^bold>\<open>State and environment.\<close> A service method is an action: a function of an environment \<open>e\<close> and a
  world \<open>w\<close> that returns an error or a value and the next world. The world holds the database, the
  caches of the inventory service, the limiters of attempts, a step counter and the trace of what has been done: repository
  calls, reads and writes of nodes, probes. The environment answers for everything the repository
  does not contain and the process does not decide: the replies of the nodes, the clock, random
  bytes, the credential cipher, faults of the database, and what other requests do to the database
  between two calls. Nothing is assumed of the environment unless a theorem says so; \<open>calm e\<close>
  says that what happens between two calls is a sequence of committed writes. So a theorem about a
  trace holds under every interleaving with other requests and every fault. Parsers of third parties
  and of the operating system (\<open>net/url\<close>, time zones, Unicode tables) are arguments of the
  definitions that use them (\<open>host\<close>).

  \<^bold>\<open>Locales.\<close> \<open>observer\<close> is what the executor and the reconciler need of an observation (it writes no
  node); \<open>validated_service\<close> is what the control plane needs of the validator of blocked services (it
  only reads); \<open>reconciler\<close> joins them. They are interpreted on \<open>Observe\<close>, on
  \<open>ValidateBlockedServiceIDs\<close> and on the service as \<^verbatim>\<open>cmd/controller/main.go\<close> wires it.

  \<^bold>\<open>What is shown.\<close>

  \<^item> Deployments: nothing is written before all targets are revalidated; writes are sequential and
    each is verified before the next; only verified deployments activate their revision; DHCP is
    taken from one node before it is given to another; only validated documents are deployed.
  \<^item> Nodes: \<open>ApplyConfiguration\<close> brings every node that follows its API to the document, so that the
    verification of the executor succeeds; it succeeds itself on a node that accepts its requests; it only sends configuration commands to the node it is
    given, and the inventory only reads. The hypotheses of the convergence theorem name what it needs:
    the listener already is that of the document (it has no writer), clients, rewrites and leases have
    distinct keys, and no entry differs from a desired one in the case of letters only.
  \<^item> Configuration: verification is exact, canonical forms are stable, differences are exact,
    validated documents have a single DHCP server, sound pools, unique clients and rewrites.
  \<^item> Store: all constraints are invariants, revisions are immutable, the audit trail only grows,
    versions detect concurrent edits, one deployment per cluster is active, recovery leaves none in
    progress; commands are claimed once and created once for each idempotency key.
  \<^item> Services: a command is marked before it runs, DHCP resets are guarded, drift is enforced only
    where it was observed and the policy asks for it, nodes are stored only after a probe, and every
    request and every background pass keeps the constraints of the whole schema.
  \<^item> Accounts: a session is only created for a checked password and, where it was enrolled, a checked
    factor; changes of an account are confirmed in the same way; a session that ended stays ended; a
    challenge is answered once; the limiter bounds the attempts; an enabled administrator remains;
    a stored password hash accepts the password it was made from.
  \<^item> Audit metadata contains no secrets and is bounded; version parsing matches its regular
    expression; command inputs survive their encoding.
  \<^item> Where the code does not do what it is for, the theorem states what it does (removal of nodes
    with a custom CA, archiving without an active revision, listing DHCP operations, recovery of
    DHCP operations and of drift that was being enforced, a login that overtakes the enrolment of a
    factor, a document whose list of clients is null).

  \<^bold>\<open>Bounds and termination.\<close> All functions are total. Loops over slices are structural recursion. The
  JSON decoder takes fuel, the length of the text it reads, and every call consumes a character of
  it; the round trip theorem shows that the fuel suffices for what the encoder prints. The regular
  expressions of identifiers and versions are predicates on the text. Go's \<open>int\<close> is \<open>int\<close>
  or \<open>nat\<close> where values count elements of a slice; bytes and hashes are words.

  \<^bold>\<open>Not modelled.\<close> The statistics and query log reads of the AdGuard Home client (they feed telemetry,
  in floating point numbers), the HTTP API (routing and encoding), backups (archive I/O),
  telemetry and query logs, high availability operations and notifications, operational health,
  onboarding, settings and updates, and the tickers that drive the passes. The Argon2 and TOTP
  packages, certificate parsing and the parser of mail addresses are parameters. In the services the
  calls of the AdGuard Home client are part of the environment, which allows every result; the
  theorems about nodes that follow their API are about the client itself. Contexts and cancellation of requests
  are part of the faults of the environment.
\<close>

end
